(* ===== verification/Rust_Prelude.thy ===== *)
theory Rust_Prelude
  imports
    Main
    "HOL-Library.Word"
    "HOL-Library.Char_ord"
    "HOL-Library.List_Lexorder"
    "HOL-Library.Product_Lexorder"
    "HOL-Library.Multiset"
begin

text \<open>
  The part of the Rust language and its standard library the sources use, shared by every
  component theory.

  \<^item> \<open>Result<T, E>\<close> is the sum \<open>'e + 'a\<close>, with \<open>Ok\<close> and \<open>Err\<close> as names for its
    injections; the question mark operator is \<open>and_then\<close>, a \<open>for\<close> loop of checks is
    \<open>for_each\<close>.
  \<^item> A \<open>String\<close> is the list of its UTF-8 bytes (\<open>string\<close>), so \<open>len\<close> is the byte length
    and the derived order of strings is the lexicographic order of the list. The Unicode
    predicates \<open>char::is_whitespace\<close> and \<open>char::is_control\<close> are read off the UTF-8
    encoding of the code points they hold for.
  \<^item> \<open>BTreeMap\<close> and \<open>BTreeSet\<close> are strictly sorted (association) lists: iteration order
    is the list order. The interface the clients rely on is the locale \<open>ordered_map\<close>.
  \<^item> \<open>sort_by\<close> is the stable \<open>sort_key\<close>, \<open>dedup\<close> is \<open>remdups_adj\<close>, \<open>min_by\<close> is
    \<open>first_min\<close> (the first of several least elements).
\<close>

section \<open>Collections of rewrite rules\<close>

named_theorems result_simps \<open>evaluation of results and checks\<close>
named_theorems contract_simps \<open>shape of the wire contracts\<close>
named_theorems engine_rules \<open>Hoare rules of the reconciliation engine\<close>

section \<open>Machine integers\<close>

type_synonym u8 = "8 word"
type_synonym u16 = "16 word"
type_synonym u32 = "32 word"
type_synonym u64 = "64 word"

text \<open>\<open>saturating_sub\<close> of the unsigned integer types.\<close>

definition saturating_sub :: "'a::len word \<Rightarrow> 'a word \<Rightarrow> 'a word" where
  "saturating_sub a b = (if a < b then 0 else a - b)"

lemma unat_saturating_sub: "unat (saturating_sub a b) = unat a - unat b"
  by (auto simp: saturating_sub_def word_less_nat_alt unat_sub_if')

section \<open>Results\<close>

type_synonym ('e, 'a) result = "'e + 'a"

abbreviation Ok :: "'a \<Rightarrow> 'e + 'a" where "Ok \<equiv> Inr"
abbreviation Err :: "'e \<Rightarrow> 'e + 'a" where "Err \<equiv> Inl"

definition and_then :: "'e + 'a \<Rightarrow> ('a \<Rightarrow> 'e + 'b) \<Rightarrow> 'e + 'b" where
  "and_then r f = (case r of Inl e \<Rightarrow> Inl e | Inr x \<Rightarrow> f x)"

lemma and_then_simps [simp]:
  "and_then (Inl e) f = Inl e" "and_then (Inr x) f = f x"
  by (simp_all add: and_then_def)

lemma and_then_Ok_iff [result_simps]:
  "and_then r f = Inr y \<longleftrightarrow> (\<exists>x. r = Inr x \<and> f x = Inr y)"
  by (cases r) auto

lemma and_then_Err_iff [result_simps]:
  "and_then r f = Inl e \<longleftrightarrow> r = Inl e \<or> (\<exists>x. r = Inr x \<and> f x = Inl e)"
  by (cases r) auto

definition map_err :: "('e \<Rightarrow> 'f) \<Rightarrow> 'e + 'a \<Rightarrow> 'f + 'a" where
  "map_err g r = (case r of Inl e \<Rightarrow> Inl (g e) | Inr x \<Rightarrow> Inr x)"

lemma map_err_simps [simp]:
  "map_err g (Inl e) = Inl (g e)" "map_err g (Inr x) = Inr x"
  by (simp_all add: map_err_def)

lemma map_err_Ok_iff [simp]: "map_err g r = Inr x \<longleftrightarrow> r = Inr x"
  by (cases r) auto

lemma map_err_Err_iff [result_simps]: "map_err g r = Inl e \<longleftrightarrow> (\<exists>d. r = Inl d \<and> e = g d)"
  by (cases r) auto

definition ok_or :: "'e \<Rightarrow> 'a option \<Rightarrow> 'e + 'a" where
  "ok_or e x = (case x of None \<Rightarrow> Inl e | Some v \<Rightarrow> Inr v)"

lemma ok_or_simps [simp]: "ok_or e None = Inl e" "ok_or e (Some v) = Inr v"
  by (simp_all add: ok_or_def)

lemma ok_or_Ok_iff [simp]: "ok_or e x = Inr v \<longleftrightarrow> x = Some v"
  by (cases x) auto

text \<open>\<open>if cond { return Err(e) }\<close>\<close>

definition ensure :: "bool \<Rightarrow> 'e \<Rightarrow> 'e + unit" where
  "ensure b e = (if b then Inr () else Inl e)"

lemma ensure_simps [simp]: "ensure True e = Inr ()" "ensure False e = Inl e"
  by (simp_all add: ensure_def)

lemma ensure_Ok_iff [simp]: "ensure b e = Inr u \<longleftrightarrow> b"
  by (cases b) auto

lemma ensure_Err_iff [simp]: "ensure b e = Inl d \<longleftrightarrow> \<not> b \<and> d = e"
  by (cases b) auto

fun for_each :: "('a \<Rightarrow> 'e + unit) \<Rightarrow> 'a list \<Rightarrow> 'e + unit" where
  "for_each f [] = Inr ()"
| "for_each f (x # xs) = and_then (f x) (\<lambda>_. for_each f xs)"

lemma for_each_Ok_iff [simp]:
  "for_each f xs = Inr u \<longleftrightarrow> (\<forall>x\<in>set xs. f x = Inr ())"
  by (induction xs) (auto simp: and_then_Ok_iff)

lemma for_each_ErrD:
  "for_each f xs = Inl e \<Longrightarrow> \<exists>x\<in>set xs. f x = Inl e"
  by (induction xs) (auto simp: and_then_Err_iff)

lemma for_each_Err_iff:
  "for_each f xs = Inl e \<longleftrightarrow>
     (\<exists>ys x zs. xs = ys @ x # zs \<and> (\<forall>y\<in>set ys. f y = Inr ()) \<and> f x = Inl e)"
proof (induction xs)
  case (Cons a xs)
  show ?case
  proof (cases "f a")
    case (Inl d)
    then show ?thesis by (auto simp: Cons_eq_append_conv intro: exI [of _ "[]"])
  next
    case (Inr u)
    then have "for_each f (a # xs) = Inl e \<longleftrightarrow> for_each f xs = Inl e" by simp
    then show ?thesis using Inr Cons.IH
      by (auto simp: Cons_eq_append_conv) (metis append_Cons set_ConsD)+
  qed
qed simp

section \<open>Strings\<close>

definition byte :: "char \<Rightarrow> nat" where
  "byte c = of_char c"

definition is_ascii_lowercase :: "char \<Rightarrow> bool" where
  "is_ascii_lowercase c \<longleftrightarrow> 97 \<le> byte c \<and> byte c \<le> 122"

definition is_ascii_uppercase :: "char \<Rightarrow> bool" where
  "is_ascii_uppercase c \<longleftrightarrow> 65 \<le> byte c \<and> byte c \<le> 90"

definition is_ascii_digit :: "char \<Rightarrow> bool" where
  "is_ascii_digit c \<longleftrightarrow> 48 \<le> byte c \<and> byte c \<le> 57"

definition is_ascii_alphabetic :: "char \<Rightarrow> bool" where
  "is_ascii_alphabetic c \<longleftrightarrow> is_ascii_lowercase c \<or> is_ascii_uppercase c"

definition is_ascii_alphanumeric :: "char \<Rightarrow> bool" where
  "is_ascii_alphanumeric c \<longleftrightarrow> is_ascii_alphabetic c \<or> is_ascii_digit c"

definition is_ascii_hexdigit :: "char \<Rightarrow> bool" where
  "is_ascii_hexdigit c \<longleftrightarrow>
     is_ascii_digit c \<or> (97 \<le> byte c \<and> byte c \<le> 102) \<or> (65 \<le> byte c \<and> byte c \<le> 70)"

text \<open>Printable ASCII, \<open>'!'\<close> to \<open>'~'\<close>.\<close>

definition is_ascii_graphic :: "char \<Rightarrow> bool" where
  "is_ascii_graphic c \<longleftrightarrow> 33 \<le> byte c \<and> byte c \<le> 126"

definition is_ascii_whitespace :: "char \<Rightarrow> bool" where
  "is_ascii_whitespace c \<longleftrightarrow> byte c \<in> {9, 10, 12, 13, 32}"

definition to_ascii_lower :: "char \<Rightarrow> char" where
  "to_ascii_lower c = (if is_ascii_uppercase c then char_of (byte c + 32) else c)"

definition to_ascii_lowercase :: "string \<Rightarrow> string" where
  "to_ascii_lowercase s = map to_ascii_lower s"

lemmas ascii_defs = is_ascii_lowercase_def is_ascii_uppercase_def is_ascii_digit_def
  is_ascii_alphabetic_def is_ascii_alphanumeric_def is_ascii_hexdigit_def
  is_ascii_graphic_def is_ascii_whitespace_def

lemma byte_char_of [simp]: "n < 256 \<Longrightarrow> byte (char_of n) = n"
  by (simp add: byte_def of_char_of)

lemma not_upper_to_ascii_lower [simp]: "\<not> is_ascii_uppercase (to_ascii_lower c)"
  by (auto simp: to_ascii_lower_def is_ascii_uppercase_def)

lemma to_ascii_lower_idem [simp]: "to_ascii_lower (to_ascii_lower c) = to_ascii_lower c"
  by (subst (1) to_ascii_lower_def) simp

lemma to_ascii_lowercase_idem [simp]:
  "to_ascii_lowercase (to_ascii_lowercase s) = to_ascii_lowercase s"
  by (simp add: to_ascii_lowercase_def)

definition starts_with :: "string \<Rightarrow> string \<Rightarrow> bool" where
  "starts_with s p \<longleftrightarrow> take (length p) s = p"

definition ends_with :: "string \<Rightarrow> string \<Rightarrow> bool" where
  "ends_with s p \<longleftrightarrow> length p \<le> length s \<and> drop (length s - length p) s = p"

fun contains_str :: "string \<Rightarrow> string \<Rightarrow> bool" where
  "contains_str [] p = (p = [])"
| "contains_str (c # s) p = (starts_with (c # s) p \<or> contains_str s p)"

definition strip_prefix :: "string \<Rightarrow> string \<Rightarrow> string option" where
  "strip_prefix p s = (if starts_with s p then Some (drop (length p) s) else None)"

definition strip_suffix :: "string \<Rightarrow> string \<Rightarrow> string option" where
  "strip_suffix p s = (if ends_with s p then Some (take (length s - length p) s) else None)"

lemma starts_with_append [simp]: "starts_with (p @ s) p"
  by (simp add: starts_with_def)

lemma starts_with_iff: "starts_with s p \<longleftrightarrow> (\<exists>r. s = p @ r)"
  by (metis append_eq_conv_conj append_take_drop_id starts_with_def)

lemma strip_prefix_Some_iff: "strip_prefix p s = Some r \<longleftrightarrow> s = p @ r"
  by (auto simp: strip_prefix_def starts_with_iff)

text \<open>\<open>s.split(c)\<close> keeps empty fields: it always yields at least one.\<close>

fun split_char :: "char \<Rightarrow> string \<Rightarrow> string list" where
  "split_char c [] = [[]]"
| "split_char c (x # s) =
     (if x = c then [] # split_char c s
      else (case split_char c s of [] \<Rightarrow> [[x]] | f # fs \<Rightarrow> (x # f) # fs))"

fun split_where :: "(char \<Rightarrow> bool) \<Rightarrow> string \<Rightarrow> string list" where
  "split_where p [] = [[]]"
| "split_where p (x # s) =
     (if p x then [] # split_where p s
      else (case split_where p s of [] \<Rightarrow> [[x]] | f # fs \<Rightarrow> (x # f) # fs))"

fun split_once :: "char \<Rightarrow> string \<Rightarrow> (string \<times> string) option" where
  "split_once c [] = None"
| "split_once c (x # s) =
     (if x = c then Some ([], s) else map_option (\<lambda>(a, b). (x # a, b)) (split_once c s))"

lemma split_char_not_Nil [simp]: "split_char c s \<noteq> []"
  by (induction s) (auto split: list.splits)

fun join_char :: "char \<Rightarrow> string list \<Rightarrow> string" where
  "join_char c [] = []"
| "join_char c [f] = f"
| "join_char c (f # fs) = f @ c # join_char c fs"

lemma join_char_Cons2: "fs \<noteq> [] \<Longrightarrow> join_char c (f # fs) = f @ c # join_char c fs"
  by (cases fs) auto

lemma join_split_char [simp]: "join_char c (split_char c s) = s"
proof (induction s)
  case (Cons x s)
  obtain f fs where s: "split_char c s = f # fs" by (cases "split_char c s") auto
  show ?case using Cons.IH s by (cases fs) auto
qed simp

lemma split_char_fields: "f \<in> set (split_char c s) \<Longrightarrow> c \<notin> set f"
  by (induction s arbitrary: f) (auto split: if_splits list.splits)

lemma split_once_Some_iff:
  "split_once c s = Some (a, b) \<longleftrightarrow> s = a @ c # b \<and> c \<notin> set a"
proof (induction s arbitrary: a)
  case (Cons x s)
  then show ?case by (cases a) auto
qed simp

text \<open>
  Code points with the Unicode property \<open>White_Space\<close>, one byte, two bytes and three
  bytes long, and how many bytes of whitespace a string starts with.
\<close>

definition white_bytes1 :: "nat list" where
  "white_bytes1 = [9, 10, 11, 12, 13, 32]"

definition white_bytes2 :: "(nat \<times> nat) list" where
  "white_bytes2 = [(194, 133), (194, 160)]"

definition white_bytes3 :: "(nat \<times> nat \<times> nat) list" where
  "white_bytes3 = (225, 154, 128) # (226, 129, 159) # (227, 128, 128)
     # map (\<lambda>n. (226, 128, n)) ([128..<139] @ [168, 169, 175])"

fun white_prefix :: "nat list \<Rightarrow> nat" where
  "white_prefix (a # b # c # s) =
     (if a \<in> set white_bytes1 then 1
      else if (a, b) \<in> set white_bytes2 then 2
      else if (a, b, c) \<in> set white_bytes3 then 3 else 0)"
| "white_prefix [a, b] =
     (if a \<in> set white_bytes1 then 1 else if (a, b) \<in> set white_bytes2 then 2 else 0)"
| "white_prefix [a] = (if a \<in> set white_bytes1 then 1 else 0)"
| "white_prefix [] = 0"

text \<open>\<open>s.contains(char::is_whitespace)\<close>\<close>

fun contains_white :: "string \<Rightarrow> bool" where
  "contains_white [] = False"
| "contains_white (c # s) = (0 < white_prefix (map byte (c # s)) \<or> contains_white s)"

text \<open>\<open>s.chars().any(char::is_control)\<close>: the C0 controls, DEL and the C1 controls.\<close>

fun contains_control :: "string \<Rightarrow> bool" where
  "contains_control [] = False"
| "contains_control [c] = (byte c < 32 \<or> byte c = 127)"
| "contains_control (c # d # s) =
     (byte c < 32 \<or> byte c = 127 \<or> (byte c = 194 \<and> 128 \<le> byte d \<and> byte d < 160)
      \<or> contains_control (d # s))"

text \<open>
  \<open>s.trim()\<close>. Leading whitespace is dropped code point by code point; trailing
  whitespace is what is left after a suffix of the string that is whitespace only.
\<close>

function trim_start :: "string \<Rightarrow> string" where
  "trim_start s =
     (let n = white_prefix (map byte s) in if n = 0 then s else trim_start (drop n s))"
  by pat_completeness auto
termination
proof (relation "measure length", goal_cases)
  case (2 s x)
  then show ?case by (cases s) auto
qed simp

declare trim_start.simps [simp del]

definition all_white :: "string \<Rightarrow> bool" where
  "all_white s \<longleftrightarrow> trim_start s = []"

fun trim_end :: "string \<Rightarrow> string" where
  "trim_end [] = []"
| "trim_end (c # s) = (if all_white (c # s) then [] else c # trim_end s)"

definition trim :: "string \<Rightarrow> string" where
  "trim s = trim_end (trim_start s)"

section \<open>Numbers as text\<close>

text \<open>A number as \<open>format!\<close> prints it.\<close>

definition digit_char :: "nat \<Rightarrow> char" where
  "digit_char n = char_of (48 + n)"

fun decimal :: "nat \<Rightarrow> string" where
  "decimal n = (if n < 10 then [digit_char n] else decimal (n div 10) @ [digit_char (n mod 10)])"

declare decimal.simps [simp del]

section \<open>Ordered maps and sets\<close>

type_synonym ('k, 'v) btree_map = "('k \<times> 'v) list"
type_synonym 'k btree_set = "'k list"

definition bt_wf :: "('k::linorder, 'v) btree_map \<Rightarrow> bool" where
  "bt_wf m \<longleftrightarrow> sorted_wrt (<) (map fst m)"

definition bt_get :: "('k, 'v) btree_map \<Rightarrow> 'k \<Rightarrow> 'v option" where
  "bt_get m k = map_of m k"

fun bt_insert :: "'k::linorder \<Rightarrow> 'v \<Rightarrow> ('k, 'v) btree_map \<Rightarrow> ('k, 'v) btree_map" where
  "bt_insert k v [] = [(k, v)]"
| "bt_insert k v ((a, b) # m) =
     (if k < a then (k, v) # (a, b) # m
      else if k = a then (k, v) # m else (a, b) # bt_insert k v m)"

definition bt_remove :: "'k \<Rightarrow> ('k, 'v) btree_map \<Rightarrow> ('k, 'v) btree_map" where
  "bt_remove k m = filter (\<lambda>(a, b). a \<noteq> k) m"

definition bt_contains :: "('k, 'v) btree_map \<Rightarrow> 'k \<Rightarrow> bool" where
  "bt_contains m k \<longleftrightarrow> bt_get m k \<noteq> None"

text \<open>\<open>iter.collect::<BTreeMap<_, _>>()\<close>: later entries replace earlier ones.\<close>

definition bt_collect :: "('k::linorder \<times> 'v) list \<Rightarrow> ('k, 'v) btree_map" where
  "bt_collect kvs = fold (\<lambda>(k, v). bt_insert k v) kvs []"

fun set_insert :: "'k::linorder \<Rightarrow> 'k btree_set \<Rightarrow> 'k btree_set" where
  "set_insert k [] = [k]"
| "set_insert k (a # m) = (if k < a then k # a # m else if k = a then a # m else a # set_insert k m)"

definition set_wf :: "'k::linorder btree_set \<Rightarrow> bool" where
  "set_wf s \<longleftrightarrow> sorted_wrt (<) s"

definition is_subset :: "'k btree_set \<Rightarrow> 'k btree_set \<Rightarrow> bool" where
  "is_subset a b \<longleftrightarrow> list_all (\<lambda>x. x \<in> set b) a"

lemma is_subset_iff [simp]: "is_subset a b \<longleftrightarrow> set a \<subseteq> set b"
  by (auto simp: is_subset_def list_all_iff)

text \<open>What a client of an ordered map relies on.\<close>

locale ordered_map =
  fixes empty :: "'m"
    and insert :: "'k \<Rightarrow> 'v \<Rightarrow> 'm \<Rightarrow> 'm"
    and remove :: "'k \<Rightarrow> 'm \<Rightarrow> 'm"
    and get :: "'m \<Rightarrow> 'k \<Rightarrow> 'v option"
    and invar :: "'m \<Rightarrow> bool"
  assumes get_empty: "get empty k = None"
    and invar_empty: "invar empty"
    and get_insert: "invar m \<Longrightarrow> get (insert k v m) a = (if a = k then Some v else get m a)"
    and invar_insert: "invar m \<Longrightarrow> invar (insert k v m)"
    and get_remove: "invar m \<Longrightarrow> get (remove k m) a = (if a = k then None else get m a)"
    and invar_remove: "invar m \<Longrightarrow> invar (remove k m)"
begin

lemma fold_insert_invar:
  "invar m \<Longrightarrow> invar (fold (\<lambda>(k, v). insert k v) kvs m)"
  by (induction kvs arbitrary: m) (auto simp: invar_insert)

lemma fold_insert_get:
  "invar m \<Longrightarrow> get (fold (\<lambda>(k, v). insert k v) kvs m) a =
     (case map_of (rev kvs) a of None \<Rightarrow> get m a | Some v \<Rightarrow> Some v)"
  by (induction kvs arbitrary: m)
     (auto simp: get_insert invar_insert map_add_def split: option.splits)

lemma collect_get:
  "get (fold (\<lambda>(k, v). insert k v) kvs empty) a = map_of (rev kvs) a"
  by (simp add: fold_insert_get invar_empty get_empty split: option.splits)

end

lemma bt_wf_Cons [simp]: "bt_wf ((k, v) # m) \<longleftrightarrow> (\<forall>a\<in>fst ` set m. k < a) \<and> bt_wf m"
  by (auto simp: bt_wf_def)

lemma bt_wf_Nil [simp]: "bt_wf []"
  by (simp add: bt_wf_def)

lemma bt_wf_distinct: "bt_wf m \<Longrightarrow> distinct (map fst m)"
  by (simp add: bt_wf_def strict_sorted_iff)

lemma bt_get_insert: "bt_get (bt_insert k v m) a = (if a = k then Some v else bt_get m a)"
  by (induction m) (auto simp: bt_get_def)

lemma keys_bt_insert: "fst ` set (bt_insert k v m) = insert k (fst ` set m)"
  by (induction k v m rule: bt_insert.induct) auto

lemma bt_wf_insert: "bt_wf m \<Longrightarrow> bt_wf (bt_insert k v m)"
proof (induction m)
  case (Cons p m)
  obtain a b where p: "p = (a, b)" by (cases p)
  have "\<forall>x\<in>fst ` set (bt_insert k v m). a < x" if "a < k"
    using Cons.prems that unfolding keys_bt_insert p by simp
  with Cons p show ?case by (auto dest: less_trans)
qed simp

lemma bt_get_remove: "bt_get (bt_remove k m) a = (if a = k then None else bt_get m a)"
  by (induction m) (auto simp: bt_get_def bt_remove_def)

lemma bt_wf_remove: "bt_wf m \<Longrightarrow> bt_wf (bt_remove k m)"
  by (induction m) (auto simp: bt_remove_def)

interpretation bt: ordered_map "[]" bt_insert bt_remove bt_get bt_wf
  by unfold_locales
     (simp_all add: bt_get_insert bt_wf_insert bt_get_remove bt_wf_remove, simp add: bt_get_def)

lemma bt_get_collect: "bt_get (bt_collect kvs) k = map_of (rev kvs) k"
  unfolding bt_collect_def by (rule bt.collect_get)

lemma bt_wf_collect [simp]: "bt_wf (bt_collect kvs)"
  unfolding bt_collect_def by (rule bt.fold_insert_invar) simp

lemma bt_get_in_keys: "bt_get m k \<noteq> None \<longleftrightarrow> k \<in> fst ` set m"
  by (simp add: bt_get_def map_of_eq_None_iff)

lemma bt_get_SomeD: "bt_get m k = Some v \<Longrightarrow> (k, v) \<in> set m"
  by (simp add: bt_get_def map_of_SomeD)

lemma bt_get_mem: "bt_wf m \<Longrightarrow> (k, v) \<in> set m \<Longrightarrow> bt_get m k = Some v"
  by (simp add: bt_get_def bt_wf_distinct)

text \<open>Ordered maps are canonical: equal lookups mean equal maps.\<close>

lemma bt_get_eqI:
  assumes "bt_wf m" "bt_wf n" "\<And>k. bt_get m k = bt_get n k"
  shows "m = n"
proof -
  have "set m = set n"
  proof -
    have "(k, v) \<in> set m \<longleftrightarrow> (k, v) \<in> set n" for k v
      using assms bt_get_mem bt_get_SomeD by metis
    then show ?thesis by auto
  qed
  moreover have "fst ` set m = fst ` set n" using calculation by simp
  then have "map fst m = map fst n"
    using assms(1,2) unfolding bt_wf_def
    by (metis list.set_map strict_sorted_equal)
  moreover have "x = y" if "x \<in> set m" "y \<in> set n" "fst x = fst y" for x y
    using that calculation bt_wf_distinct [OF assms(2)] by (metis eq_key_imp_eq_value prod.collapse)
  ultimately show ?thesis
    by (auto intro!: nth_equalityI dest: map_eq_imp_length_eq)
       (metis length_map nth_map nth_mem prod.collapse)
qed

lemma set_set_insert [simp]: "set (set_insert k s) = insert k (set s)"
  by (induction s) auto

lemma set_wf_insert: "set_wf s \<Longrightarrow> set_wf (set_insert k s)"
  by (induction s) (auto simp: set_wf_def)

section \<open>First minimum\<close>

fun first_min :: "('a \<Rightarrow> 'k::linorder) \<Rightarrow> 'a list \<Rightarrow> 'a option" where
  "first_min f [] = None"
| "first_min f (x # xs) =
     (case first_min f xs of None \<Rightarrow> Some x | Some y \<Rightarrow> if f x \<le> f y then Some x else Some y)"

lemma first_min_None_iff [simp]: "first_min f xs = None \<longleftrightarrow> xs = []"
  by (cases xs) (auto split: option.splits)

lemma first_min_SomeD:
  "first_min f xs = Some x \<Longrightarrow> x \<in> set xs \<and> (\<forall>y\<in>set xs. f x \<le> f y)"
proof (induction xs arbitrary: x)
  case (Cons a xs)
  show ?case
  proof (cases "first_min f xs")
    case None
    with Cons.prems show ?thesis by simp
  next
    case (Some y)
    from Cons.IH [OF this] Cons.prems Some show ?thesis
      by (auto split: if_splits)
  qed
qed simp

lemma first_min_unique:
  assumes "inj_on f (set xs)" "x \<in> set xs" "\<forall>y\<in>set xs. f x \<le> f y"
  shows "first_min f xs = Some x"
proof (cases "first_min f xs")
  case None
  with assms(2) show ?thesis by simp
next
  case (Some z)
  from first_min_SomeD [OF this] assms show ?thesis
    using Some by (metis inj_on_contraD order_antisym_conv)
qed

lemma sort_key_perm:
  assumes "mset xs = mset ys" "inj_on f (set xs)"
  shows "sort_key f xs = sort_key f ys"
  by (rule sort_key_inj_key_eq) (use assms in simp_all)

text \<open>That what is printed of a value is decoded to the value.\<close>

definition reads_back :: "('j \<Rightarrow> string option) \<Rightarrow> (string \<Rightarrow> 'r option) \<Rightarrow> ('r \<Rightarrow> 'j) \<Rightarrow> 'r \<Rightarrow> bool" where
  "reads_back print decode ser r = (case print (ser r) of None \<Rightarrow> True | Some b \<Rightarrow> decode b = Some r)"

end
