(* ===== verification/Json.thy ===== *)
theory Json
  imports Rust_Prelude
begin

text \<open>
  JSON values as \<open>serde_json::Value\<close> (its default build, where an object is an ordered map),
  the JSON-pointer escaping of \<open>commonkit-contracts/src/lib.rs\<close> and
  \<open>commonkit-config/src/lib.rs\<close>, and the services the sources call in third-party crates:
  canonical JSON (\<open>serde_jcs\<close>), SHA-256 (\<open>sha2\<close>), regular expressions (\<open>regex\<close>) and
  pointer lookup (\<open>serde_json\<close>). Those services are the fields of a record that every
  definition using them takes as an argument.
\<close>

section \<open>Values\<close>

datatype json_number = PosInt u64 | NegInt int | Float u64

datatype json =
    JNull
  | JBool bool
  | JNumber json_number
  | JString string
  | JArray "json list"
  | JObject "(string \<times> json) list"

fun as_object :: "json \<Rightarrow> (string, json) btree_map option" where
  "as_object (JObject m) = Some m"
| "as_object _ = None"

fun as_array :: "json \<Rightarrow> json list option" where
  "as_array (JArray xs) = Some xs"
| "as_array _ = None"

fun as_str :: "json \<Rightarrow> string option" where
  "as_str (JString s) = Some s"
| "as_str _ = None"

fun as_bool :: "json \<Rightarrow> bool option" where
  "as_bool (JBool b) = Some b"
| "as_bool _ = None"

definition is_object :: "json \<Rightarrow> bool" where
  "is_object v \<longleftrightarrow> as_object v \<noteq> None"

definition is_array :: "json \<Rightarrow> bool" where
  "is_array v \<longleftrightarrow> as_array v \<noteq> None"

definition is_null :: "json \<Rightarrow> bool" where
  "is_null v \<longleftrightarrow> v = JNull"

lemma as_object_Some_iff [simp]: "as_object v = Some m \<longleftrightarrow> v = JObject m"
  by (cases v) auto

lemma as_array_Some_iff [simp]: "as_array v = Some m \<longleftrightarrow> v = JArray m"
  by (cases v) auto

lemma as_str_Some_iff [simp]: "as_str v = Some s \<longleftrightarrow> v = JString s"
  by (cases v) auto

lemma as_bool_Some_iff [simp]: "as_bool v = Some s \<longleftrightarrow> v = JBool s"
  by (cases v) auto

text \<open>Every object inside a value is an ordered map.\<close>

fun wf_json :: "json \<Rightarrow> bool" where
  "wf_json (JArray xs) = (\<forall>x\<in>set xs. wf_json x)"
| "wf_json (JObject m) = (bt_wf m \<and> (\<forall>(k, x)\<in>set m. wf_json x))"
| "wf_json _ = True"

text \<open>A serialized struct, and a field left out when it is \<open>None\<close>.\<close>

definition json_struct :: "(string \<times> json) list \<Rightarrow> json" where
  "json_struct fields = JObject (bt_collect fields)"

definition opt_field :: "string \<Rightarrow> ('a \<Rightarrow> json) \<Rightarrow> 'a option \<Rightarrow> (string \<times> json) list" where
  "opt_field k f x = (case x of None \<Rightarrow> [] | Some v \<Rightarrow> [(k, f v)])"

definition json_option :: "('a \<Rightarrow> json) \<Rightarrow> 'a option \<Rightarrow> json" where
  "json_option f x = (case x of None \<Rightarrow> JNull | Some v \<Rightarrow> f v)"

definition json_u64 :: "u64 \<Rightarrow> json" where
  "json_u64 n = JNumber (PosInt n)"

definition json_u32 :: "u32 \<Rightarrow> json" where
  "json_u32 n = JNumber (PosInt (ucast n))"

lemma json_struct_eqD:
  "json_struct a = json_struct b \<Longrightarrow> map_of (rev a) k = map_of (rev b) k"
  unfolding json_struct_def by (metis bt_get_collect json.inject(5))

lemma json_u64_inject [simp]: "json_u64 a = json_u64 b \<longleftrightarrow> a = b"
  by (simp add: json_u64_def)

lemma json_u32_inject [simp]: "json_u32 a = json_u32 b \<longleftrightarrow> a = b"
proof -
  have small: "take_bit 64 (unat x) = unat x" for x :: u32
  proof (rule take_bit_nat_eq_self)
    have "unat x < 2 ^ 32" using unsigned_less [where ?'a = nat, of x] by simp
    then show "unat x < 2 ^ 64" by simp
  qed
  have "unat (ucast a :: u64) = unat (ucast b :: u64) \<longleftrightarrow> unat a = unat b"
    by (simp add: unsigned_ucast_eq take_bit_word_eq_self small)
  then show ?thesis by (auto simp: json_u32_def intro: unsigned_word_eqI)
qed

lemma json_option_eqD:
  assumes "json_option f x = json_option f y" "\<And>v. f v \<noteq> JNull" "inj f"
  shows "x = y"
  using assms by (auto simp: json_option_def inj_def split: option.splits) metis

section \<open>JSON pointers\<close>

text \<open>\<open>str::replace\<close> of one character by a string.\<close>

definition replace_char :: "char \<Rightarrow> string \<Rightarrow> string \<Rightarrow> string" where
  "replace_char c r s = concat (map (\<lambda>x. if x = c then r else [x]) s)"

definition escape_pointer :: "string \<Rightarrow> string" where
  "escape_pointer value = replace_char (CHR ''/'') ''~1'' (replace_char (CHR ''~'') ''~0'' value)"

definition child_pointer :: "string \<Rightarrow> string \<Rightarrow> string" where
  "child_pointer pointer key = pointer @ ''/'' @ escape_pointer key"

lemma escape_pointer_Nil [simp]: "escape_pointer [] = []"
  by (simp add: escape_pointer_def replace_char_def)

lemma escape_pointer_Cons:
  "escape_pointer (c # s) =
     (if c = CHR ''~'' then ''~0'' else if c = CHR ''/'' then ''~1'' else [c]) @ escape_pointer s"
  by (simp add: escape_pointer_def replace_char_def)

lemma escape_pointer_no_slash: "CHR ''/'' \<notin> set (escape_pointer s)"
  by (induction s) (auto simp: escape_pointer_Cons)

lemma escape_pointer_inj: "escape_pointer s = escape_pointer t \<Longrightarrow> s = t"
proof (induction s arbitrary: t)
  case Nil
  then show ?case by (cases t) (auto simp: escape_pointer_Cons split: if_splits)
next
  case (Cons c s)
  then show ?case by (cases t) (auto simp: escape_pointer_Cons split: if_splits)
qed

lemma append_sep_cancel:
  "c \<notin> set a \<Longrightarrow> c \<notin> set b \<Longrightarrow> a @ c # p = b @ c # q \<Longrightarrow> a = b"
proof (induction a arbitrary: b)
  case Nil
  then show ?case by (cases b) auto
next
  case (Cons x a)
  then show ?case by (cases b) auto
qed

lemma append_slash_cancel:
  assumes "CHR ''/'' \<notin> set a" "CHR ''/'' \<notin> set b"
    and "p @ ''/'' @ a = q @ ''/'' @ b"
  shows "p = q \<and> a = b"
proof -
  have "rev a @ CHR ''/'' # rev p = rev b @ CHR ''/'' # rev q"
    using arg_cong [OF assms(3), of rev] by simp
  then have "rev a = rev b"
    using append_sep_cancel [of "CHR ''/''" "rev a" "rev b"] assms(1,2) by simp
  then show ?thesis using assms(3) by simp
qed

lemma child_pointer_inject [simp]:
  "child_pointer p k = child_pointer q l \<longleftrightarrow> p = q \<and> k = l"
  unfolding child_pointer_def
  by (metis append_slash_cancel escape_pointer_inj escape_pointer_no_slash)

section \<open>Third-party services\<close>

text \<open>
  \<^item> \<open>env_jcs\<close>: \<open>serde_jcs::to_vec\<close>, \<open>None\<close> when serialization fails;
  \<^item> \<open>env_sha256\<close>: the lower-case hexadecimal text of the SHA-256 of some bytes, as
    \<open>format!("{digest:x}")\<close> prints it;
  \<^item> \<open>env_is_match\<close> and \<open>env_captures\<close>: \<open>Regex::is_match\<close> of a pattern on a text, and
    the \<open>key\<close> and \<open>value\<close> groups of \<open>Regex::captures_iter\<close>;
  \<^item> \<open>env_pointer\<close>: \<open>Value::pointer\<close>.
\<close>

record env =
  env_jcs :: "json \<Rightarrow> string option"
  env_sha256 :: "string \<Rightarrow> string"
  env_is_match :: "string \<Rightarrow> string \<Rightarrow> bool"
  env_captures :: "string \<Rightarrow> string \<Rightarrow> (string \<times> string) list"
  env_pointer :: "json \<Rightarrow> string \<Rightarrow> json option"

definition lower_hex :: "char \<Rightarrow> bool" where
  "lower_hex c \<longleftrightarrow> is_ascii_hexdigit c \<and> \<not> is_ascii_uppercase c"

text \<open>
  What the code relies on: a SHA-256 text is 64 lower-case hexadecimal digits, and
  canonicalization of a JSON value does not fail.
\<close>

definition sha256_hex :: "env \<Rightarrow> bool" where
  "sha256_hex E \<longleftrightarrow> (\<forall>b. length (env_sha256 E b) = 64 \<and> list_all lower_hex (env_sha256 E b))"

definition jcs_total :: "env \<Rightarrow> bool" where
  "jcs_total E \<longleftrightarrow> (\<forall>v. env_jcs E v \<noteq> None)"

end
