(* ===== verification/Contracts_Ids.thy ===== *)
theory Contracts_Ids
  imports Json
begin

text \<open>
  The validated identifiers and digests of \<open>crates/commonkit-contracts/src/lib.rs\<close>:
  \<open>StableId\<close>, \<open>Principal\<close>, \<open>Sha256Digest\<close>, \<open>PortableSourcePath\<close> and \<open>GitRevision\<close>, the
  error enum of the crate, and the content digests \<open>digest_json\<close> and
  \<open>digest_domain_json\<close>. Every identifier is a newtype around a string whose only
  constructor is its \<open>parse\<close>; the locale \<open>validated_string\<close> is that contract, and each of the
  five types is an interpretation of it.
\<close>

section \<open>Versions and errors\<close>

definition CONTRACT_VERSION :: string where "CONTRACT_VERSION = ''1.0''"
definition SCHEMA_VERSION :: u32 where "SCHEMA_VERSION = 1"
definition FORWARD_CONTRACT_VERSION :: string where "FORWARD_CONTRACT_VERSION = ''2.0''"
definition FORWARD_SCHEMA_VERSION :: u32 where "FORWARD_SCHEMA_VERSION = 2"
definition PACKAGE_RECEIPT_CONTRACT_VERSION :: string where
  "PACKAGE_RECEIPT_CONTRACT_VERSION = ''3.0''"
definition PACKAGE_RECEIPT_SCHEMA_VERSION :: u32 where "PACKAGE_RECEIPT_SCHEMA_VERSION = 3"

lemmas version_defs = CONTRACT_VERSION_def SCHEMA_VERSION_def FORWARD_CONTRACT_VERSION_def
  FORWARD_SCHEMA_VERSION_def PACKAGE_RECEIPT_CONTRACT_VERSION_def
  PACKAGE_RECEIPT_SCHEMA_VERSION_def

datatype contract_error =
    InvalidPrincipal
  | Canonicalization
  | SchemaGeneration
  | InvalidStableId string
  | InvalidSha256Digest string
  | InvalidPortableSourcePath string
  | InvalidGitRevision string
  | EmbeddedSecret string
  | EvaluationCaseOverlap string
  | EmptyEvaluationSplit
  | RequiredCaseOutsideHeldOut
  | InvalidLockText string
  | MissingSkillTarget
  | InvalidStyleguideDescriptor
  | InvalidPackageDeclaration
  | InvalidPackageObservation
  | InvalidPackageConsent
  | InvalidOptimizationLimits
  | UnsupportedProviderVersion
  | CandidateManifestMismatch
  | CandidateParentMismatch
  | CandidateProviderMismatch
  | CandidateInputMismatch
  | CandidateHarnessMismatch
  | CandidatePolicyFailed
  | CandidateInsufficientImprovement
  | CandidateHeldOutRegression
  | CandidateRequiredCaseFailed
  | CandidateCostExceeded
  | InvalidExecutionManifest string

section \<open>Newtypes\<close>

datatype schema_version = SchemaVersion (schema_number: u32)
datatype stable_id = StableId (sid_str: string)
datatype principal = Principal (principal_str: string)
datatype sha256_digest = Sha256Digest (digest_str: string)
datatype portable_source_path = PortableSourcePath (path_str: string)
datatype git_revision = GitRevision (revision_str: string)

text \<open>The derived orders compare the wrapped strings.\<close>

instantiation stable_id :: linorder
begin

definition less_eq_stable_id :: "stable_id \<Rightarrow> stable_id \<Rightarrow> bool" where
  "less_eq_stable_id a b \<longleftrightarrow> sid_str a \<le> sid_str b"

definition less_stable_id :: "stable_id \<Rightarrow> stable_id \<Rightarrow> bool" where
  "less_stable_id a b \<longleftrightarrow> sid_str a < sid_str b"

instance
  by standard (auto simp: less_eq_stable_id_def less_stable_id_def intro: stable_id.expand)

end

instantiation sha256_digest :: linorder
begin

definition less_eq_sha256_digest :: "sha256_digest \<Rightarrow> sha256_digest \<Rightarrow> bool" where
  "less_eq_sha256_digest a b \<longleftrightarrow> digest_str a \<le> digest_str b"

definition less_sha256_digest :: "sha256_digest \<Rightarrow> sha256_digest \<Rightarrow> bool" where
  "less_sha256_digest a b \<longleftrightarrow> digest_str a < digest_str b"

instance
  by standard
     (auto simp: less_eq_sha256_digest_def less_sha256_digest_def intro: sha256_digest.expand)

end

section \<open>Parsers\<close>

definition stable_id_rest :: "char \<Rightarrow> bool" where
  "stable_id_rest c \<longleftrightarrow> is_ascii_lowercase c \<or> is_ascii_digit c \<or> c = CHR ''_'' \<or> c = CHR ''-''"

definition stable_id_parse :: "string \<Rightarrow> contract_error + stable_id" where
  "stable_id_parse value =
     (let valid_length = value \<noteq> [] \<and> length value \<le> 63;
          valid_start = (case value of [] \<Rightarrow> False | c # _ \<Rightarrow> is_ascii_lowercase c);
          valid_rest = list_all stable_id_rest (drop 1 value)
      in if valid_length \<and> valid_start \<and> valid_rest then Ok (StableId value)
         else Err (InvalidStableId value))"

definition principal_parse :: "string \<Rightarrow> contract_error + principal" where
  "principal_parse input =
     (let value = to_ascii_lowercase input;
          valid = value \<noteq> [] \<and> length value \<le> 39
            \<and> \<not> starts_with value ''-'' \<and> \<not> ends_with value ''-'' \<and> \<not> contains_str value ''--''
            \<and> list_all (\<lambda>c. is_ascii_alphanumeric c \<or> c = CHR ''-'') value
      in if valid then Ok (Principal value) else Err InvalidPrincipal)"

definition sha256_digest_parse :: "string \<Rightarrow> contract_error + sha256_digest" where
  "sha256_digest_parse value =
     (if (case strip_prefix ''sha256:'' value of None \<Rightarrow> False
          | Some digest \<Rightarrow> length digest = 64 \<and> list_all lower_hex digest)
      then Ok (Sha256Digest value) else Err (InvalidSha256Digest value))"

definition portable_segment :: "string \<Rightarrow> bool" where
  "portable_segment s \<longleftrightarrow> s \<noteq> [] \<and> s \<noteq> ''.'' \<and> s \<noteq> ''..''"

definition portable_source_path_parse :: "string \<Rightarrow> contract_error + portable_source_path" where
  "portable_source_path_parse value =
     (let segments = split_char (CHR ''/'') value;
          valid = value \<noteq> [] \<and> \<not> starts_with value ''/''
            \<and> CHR 0x5C \<notin> set value \<and> CHR 0x00 \<notin> set value \<and> CHR '':'' \<notin> set value
            \<and> (value = ''.'' \<or> list_all portable_segment segments)
      in if valid then Ok (PortableSourcePath value) else Err (InvalidPortableSourcePath value))"

definition git_revision_parse :: "string \<Rightarrow> contract_error + git_revision" where
  "git_revision_parse value =
     (if (length value = 40 \<or> length value = 64) \<and> list_all lower_hex value
      then Ok (GitRevision value) else Err (InvalidGitRevision value))"

section \<open>Deserialization\<close>

text \<open>
  The \<open>Deserialize\<close> implementations read a JSON string and run the parser;
  \<open>None\<close> is a deserialization error. The types serialize transparently as their string.
\<close>

definition de_string :: "(string \<Rightarrow> contract_error + 'a) \<Rightarrow> json \<Rightarrow> 'a option" where
  "de_string parse v = (case v of JString s \<Rightarrow>
     (case parse s of Inl e \<Rightarrow> None | Inr x \<Rightarrow> Some x) | _ \<Rightarrow> None)"

definition de_principal :: "json \<Rightarrow> principal option" where
  "de_principal = de_string principal_parse"

definition de_stable_id :: "json \<Rightarrow> stable_id option" where
  "de_stable_id = de_string stable_id_parse"

definition de_sha256_digest :: "json \<Rightarrow> sha256_digest option" where
  "de_sha256_digest = de_string sha256_digest_parse"

definition de_portable_source_path :: "json \<Rightarrow> portable_source_path option" where
  "de_portable_source_path = de_string portable_source_path_parse"

definition de_git_revision :: "json \<Rightarrow> git_revision option" where
  "de_git_revision = de_string git_revision_parse"

definition ser_stable_id :: "stable_id \<Rightarrow> json" where "ser_stable_id x = JString (sid_str x)"
definition ser_digest :: "sha256_digest \<Rightarrow> json" where "ser_digest x = JString (digest_str x)"

lemma ser_stable_id_inject [simp]: "ser_stable_id a = ser_stable_id b \<longleftrightarrow> a = b"
  by (auto simp: ser_stable_id_def intro: stable_id.expand)

lemma ser_digest_inject [simp]: "ser_digest a = ser_digest b \<longleftrightarrow> a = b"
  by (auto simp: ser_digest_def intro: sha256_digest.expand)

section \<open>Content digests\<close>

definition canonical_json :: "env \<Rightarrow> json \<Rightarrow> contract_error + string" where
  "canonical_json E v = ok_or Canonicalization (env_jcs E v)"

definition digest_json :: "env \<Rightarrow> json \<Rightarrow> contract_error + sha256_digest" where
  "digest_json E v =
     and_then (canonical_json E v)
       (\<lambda>bytes. sha256_digest_parse (''sha256:'' @ env_sha256 E bytes))"

definition digest_domain_json :: "env \<Rightarrow> string \<Rightarrow> json \<Rightarrow> contract_error + sha256_digest" where
  "digest_domain_json E domain v =
     and_then (canonical_json E v)
       (\<lambda>canonical. sha256_digest_parse
          (''sha256:'' @ env_sha256 E (domain @ [CHR 0x00] @ canonical)))"

text \<open>The digest service works, and does not collide on a set of domain-tagged values.\<close>

definition digests_ok :: "env \<Rightarrow> bool" where
  "digests_ok E \<longleftrightarrow> sha256_hex E \<and> jcs_total E"

definition digests_distinct_on :: "env \<Rightarrow> (string \<times> json) set \<Rightarrow> bool" where
  "digests_distinct_on E S \<longleftrightarrow> inj_on (\<lambda>(d, v). digest_domain_json E d v) S"

section \<open>The contract of a validated string type\<close>

locale validated_string =
  fixes parse :: "string \<Rightarrow> contract_error + 'a"
    and text_of :: "'a \<Rightarrow> string"
    and valid :: "string \<Rightarrow> bool"
    and normalize :: "string \<Rightarrow> string"
  assumes parse_Ok: "parse s = Inr x \<longleftrightarrow> valid (normalize s) \<and> text_of x = normalize s"
    and text_of_inj: "text_of x = text_of y \<Longrightarrow> x = y"
    and normalize_idem: "normalize (normalize s) = normalize s"
begin

lemma parse_text_valid: "parse s = Inr x \<Longrightarrow> valid (text_of x)"
  by (simp add: parse_Ok)

lemma parse_round_trip: "parse s = Inr x \<Longrightarrow> parse (text_of x) = Inr x"
  by (simp add: parse_Ok normalize_idem)

lemma de_round_trip: "parse s = Inr x \<Longrightarrow> de_string parse (JString (text_of x)) = Some x"
  by (drule parse_round_trip) (simp add: de_string_def)

lemma de_valid: "de_string parse v = Some x \<Longrightarrow> valid (text_of x)"
  by (auto simp: de_string_def dest: parse_text_valid split: json.splits sum.splits)

lemma parse_deterministic_text:
  "parse s = Inr x \<Longrightarrow> parse t = Inr y \<Longrightarrow> normalize s = normalize t \<Longrightarrow> x = y"
  by (simp add: parse_Ok text_of_inj)

end

definition valid_stable_id :: "string \<Rightarrow> bool" where
  "valid_stable_id s \<longleftrightarrow>
     (\<exists>c r. s = c # r \<and> is_ascii_lowercase c \<and> length r \<le> 62 \<and> (\<forall>x\<in>set r. stable_id_rest x))"

definition valid_principal :: "string \<Rightarrow> bool" where
  "valid_principal s \<longleftrightarrow>
     s \<noteq> [] \<and> length s \<le> 39 \<and> \<not> starts_with s ''-'' \<and> \<not> ends_with s ''-''
     \<and> \<not> contains_str s ''--'' \<and> (\<forall>c\<in>set s. is_ascii_alphanumeric c \<or> c = CHR ''-'')"

definition valid_sha256_digest :: "string \<Rightarrow> bool" where
  "valid_sha256_digest s \<longleftrightarrow>
     (\<exists>h. s = ''sha256:'' @ h \<and> length h = 64 \<and> (\<forall>c\<in>set h. lower_hex c))"

definition valid_portable_source_path :: "string \<Rightarrow> bool" where
  "valid_portable_source_path s \<longleftrightarrow>
     s \<noteq> [] \<and> hd s \<noteq> CHR ''/'' \<and> set s \<inter> {CHR 0x5C, CHR 0x00, CHR '':''} = {}
     \<and> (s = ''.'' \<or> (\<forall>x\<in>set (split_char (CHR ''/'') s). portable_segment x))"

definition valid_git_revision :: "string \<Rightarrow> bool" where
  "valid_git_revision s \<longleftrightarrow> length s \<in> {40, 64} \<and> (\<forall>c\<in>set s. lower_hex c)"

lemma stable_id_parse_Ok:
  "stable_id_parse s = Inr x \<longleftrightarrow> valid_stable_id s \<and> sid_str x = s"
  by (cases x; cases s) (auto simp: stable_id_parse_def valid_stable_id_def Let_def list_all_iff)

lemma principal_parse_Ok:
  "principal_parse s = Inr x \<longleftrightarrow>
     valid_principal (to_ascii_lowercase s) \<and> principal_str x = to_ascii_lowercase s"
  by (cases x) (auto simp: principal_parse_def valid_principal_def Let_def list_all_iff)

lemma sha256_digest_parse_Ok:
  "sha256_digest_parse s = Inr x \<longleftrightarrow> valid_sha256_digest s \<and> digest_str x = s"
proof -
  have "valid_sha256_digest s \<longleftrightarrow> (case strip_prefix ''sha256:'' s of None \<Rightarrow> False
      | Some digest \<Rightarrow> length digest = 64 \<and> list_all lower_hex digest)"
    unfolding valid_sha256_digest_def strip_prefix_Some_iff [symmetric] list_all_iff
    by (auto split: option.splits)
  then show ?thesis
    by (cases x) (auto simp: sha256_digest_parse_def)
qed

lemma portable_source_path_parse_Ok:
  "portable_source_path_parse s = Inr x \<longleftrightarrow> valid_portable_source_path s \<and> path_str x = s"
  by (cases x; cases s)
     (auto simp: portable_source_path_parse_def valid_portable_source_path_def Let_def
        list_all_iff starts_with_def)

lemma git_revision_parse_Ok:
  "git_revision_parse s = Inr x \<longleftrightarrow> valid_git_revision s \<and> revision_str x = s"
  by (cases x) (auto simp: git_revision_parse_def valid_git_revision_def list_all_iff)

interpretation stable_id_api: validated_string stable_id_parse sid_str valid_stable_id id
  by unfold_locales (simp_all add: stable_id_parse_Ok stable_id.expand)

interpretation principal_api: validated_string
  principal_parse principal_str valid_principal to_ascii_lowercase
  by unfold_locales (simp_all add: principal_parse_Ok principal.expand)

interpretation sha256_digest_api: validated_string
  sha256_digest_parse digest_str valid_sha256_digest id
  by unfold_locales (simp_all add: sha256_digest_parse_Ok sha256_digest.expand)

interpretation portable_source_path_api: validated_string
  portable_source_path_parse path_str valid_portable_source_path id
  by unfold_locales (simp_all add: portable_source_path_parse_Ok portable_source_path.expand)

interpretation git_revision_api: validated_string
  git_revision_parse revision_str valid_git_revision id
  by unfold_locales (simp_all add: git_revision_parse_Ok git_revision.expand)

section \<open>Facts about digests\<close>

lemma sha256_digest_parse_hex:
  assumes "sha256_hex E"
  shows "sha256_digest_parse (''sha256:'' @ env_sha256 E b)
    = Inr (Sha256Digest (''sha256:'' @ env_sha256 E b))"
  using assms unfolding sha256_digest_parse_Ok valid_sha256_digest_def
  by (fastforce simp: sha256_hex_def list_all_iff)

lemma digest_domain_json_total:
  assumes "digests_ok E"
  shows "\<exists>d. digest_domain_json E t v = Inr d"
proof -
  from assms obtain c where c: "env_jcs E v = Some c"
    by (auto simp: digests_ok_def jcs_total_def)
  have "sha256_hex E" using assms by (simp add: digests_ok_def)
  then show ?thesis
    unfolding digest_domain_json_def canonical_json_def c ok_or_simps and_then_simps
    by (simp only: sha256_digest_parse_hex) blast
qed

lemma digest_domain_json_not_Err: "digests_ok E \<Longrightarrow> digest_domain_json E t v \<noteq> Inl e"
  using digest_domain_json_total [of E t v] by auto

lemma digest_domain_json_valid:
  "digest_domain_json E t v = Inr d \<Longrightarrow> valid_sha256_digest (digest_str d)"
  by (auto simp: digest_domain_json_def result_simps sha256_digest_parse_Ok)

lemma digests_distinct_onD:
  "digests_distinct_on E S \<Longrightarrow> (d, v) \<in> S \<Longrightarrow> (d', v') \<in> S \<Longrightarrow>
   digest_domain_json E d v = digest_domain_json E d' v' \<Longrightarrow> d = d' \<and> v = v'"
  by (auto simp: digests_distinct_on_def inj_on_def)

end
