(* ===== verification/Contracts_Plan.thy ===== *)
theory Contracts_Plan
  imports Contracts_Ids
begin

text \<open>
  Operations, plans, package consent and run receipts as
  \<open>crates/commonkit-contracts/src/lib.rs\<close> declares them, with the serialized form of what the
  code digests. Enum constructors carry a prefix where two enums of the source share a name.
\<close>

section \<open>Operations\<close>

datatype operation_kind =
    OpCreate | OpUpdate | OpDelete | OpMerge | OpEnable | OpDisable | OpRestart | OpSnapshot
  | OpRestore

datatype risk = ReadOnly | Low | Medium | High | Destructive

datatype recovery_capability = ExactRollback | ConvergeForwardOnly

text \<open>The derived \<open>Ord\<close> of an enum is the order of its variants.\<close>

fun operation_kind_rank :: "operation_kind \<Rightarrow> nat" where
  "operation_kind_rank OpCreate = 0"
| "operation_kind_rank OpUpdate = 1"
| "operation_kind_rank OpDelete = 2"
| "operation_kind_rank OpMerge = 3"
| "operation_kind_rank OpEnable = 4"
| "operation_kind_rank OpDisable = 5"
| "operation_kind_rank OpRestart = 6"
| "operation_kind_rank OpSnapshot = 7"
| "operation_kind_rank OpRestore = 8"

fun recovery_rank :: "recovery_capability \<Rightarrow> nat" where
  "recovery_rank ExactRollback = 0"
| "recovery_rank ConvergeForwardOnly = 1"

lemma operation_kind_rank_inj: "operation_kind_rank a = operation_kind_rank b \<longleftrightarrow> a = b"
  by (cases a; cases b) simp_all

lemma recovery_rank_inj: "recovery_rank a = recovery_rank b \<longleftrightarrow> a = b"
  by (cases a; cases b) simp_all

instantiation operation_kind :: linorder
begin

definition less_eq_operation_kind :: "operation_kind \<Rightarrow> operation_kind \<Rightarrow> bool" where
  "less_eq_operation_kind a b \<longleftrightarrow> operation_kind_rank a \<le> operation_kind_rank b"

definition less_operation_kind :: "operation_kind \<Rightarrow> operation_kind \<Rightarrow> bool" where
  "less_operation_kind a b \<longleftrightarrow> operation_kind_rank a < operation_kind_rank b"

instance
  by standard
     (auto simp: less_eq_operation_kind_def less_operation_kind_def
        simp flip: operation_kind_rank_inj)

end

instantiation recovery_capability :: linorder
begin

definition less_eq_recovery_capability :: "recovery_capability \<Rightarrow> recovery_capability \<Rightarrow> bool" where
  "less_eq_recovery_capability a b \<longleftrightarrow> recovery_rank a \<le> recovery_rank b"

definition less_recovery_capability :: "recovery_capability \<Rightarrow> recovery_capability \<Rightarrow> bool" where
  "less_recovery_capability a b \<longleftrightarrow> recovery_rank a < recovery_rank b"

instance
  by standard
     (auto simp: less_eq_recovery_capability_def less_recovery_capability_def
        simp flip: recovery_rank_inj)

end

record resource_ref =
  rr_resource_type :: stable_id
  rr_resource_id :: stable_id
  rr_managed_path :: "string option"

record operation_provenance =
  pv_provider_id :: stable_id
  pv_provider_version :: string
  pv_input_digest :: sha256_digest
  pv_source :: string

record operation =
  op_id :: sha256_digest
  op_adapter_id :: stable_id
  op_kind :: operation_kind
  op_resource :: resource_ref
  op_risk :: risk
  op_requires_confirmation :: bool
  op_recovery_capability :: recovery_capability
  op_depends_on :: "sha256_digest list"
  op_before_digest :: "sha256_digest option"
  op_after_digest :: "sha256_digest option"
  op_payload_digest :: sha256_digest
  op_provenance :: "operation_provenance option"
  op_summary :: string

section \<open>Plans\<close>

record plan_bindings =
  pb_target_identity_digest :: sha256_digest
  pb_composed_loadout_digest :: sha256_digest
  pb_provider_inputs_digest :: sha256_digest
  pb_ownership_map_digest :: sha256_digest
  pb_artifact_set_digest :: sha256_digest
  pb_package_resolution_authority_digest :: "sha256_digest option"

record plan =
  pl_schema_version :: schema_version
  pl_contract_version :: string
  pl_id :: sha256_digest
  pl_target_id :: stable_id
  pl_desired_digest :: sha256_digest
  pl_observed_digest :: sha256_digest
  pl_policy_digest :: sha256_digest
  pl_bindings :: plan_bindings
  pl_operations :: "operation list"

section \<open>Receipts\<close>

datatype receipt_state =
    StPrepared | StApplying | StVerifying | StApplyingForward | StSucceeded
  | StRecoveryRequired | StForwardRecoveryRequired | StConvergingForward
  | StForwardRecovered | StForwardRecoveryFailed | StRollingBack | StRolledBack
  | StRollbackFailed | StCanceled

datatype operation_phase =
    PhPrepared | PhPrepareFailed | PhApplyStarted | PhApplied | PhApplyFailed | PhVerified
  | PhVerifyFailed | PhRolledBack | PhRollbackFailed | PhForwardRecovered
  | PhForwardRecoveryFailed

record operation_progress =
  pr_operation_id :: sha256_digest
  pr_phase :: operation_phase
  pr_failure_code :: "stable_id option"

record receipt_transition =
  tr_sequence :: u64
  tr_state :: receipt_state
  tr_previous_digest :: "sha256_digest option"
  tr_progress_digest :: sha256_digest
  tr_entry_digest :: sha256_digest

datatype package_manager = Homebrew | Apt | Fnm | Nvm | Rustup

datatype package_no_preimage_reason = AdditiveForwardOnly

datatype package_exit_classification = ExitNotRun | ExitSucceeded | ExitFailed stable_id

record package_receipt_evidence =
  ev_operation_id :: sha256_digest
  ev_resolution_digest :: sha256_digest
  ev_target_authority_digest :: sha256_digest
  ev_manager :: package_manager
  ev_manager_authority_digest :: sha256_digest
  ev_source_id :: stable_id
  ev_source_authority_digest :: sha256_digest
  ev_before_installed_versions :: "string btree_set"
  ev_no_preimage_reason :: package_no_preimage_reason
  ev_exit_classification :: package_exit_classification
  ev_final_digest :: "sha256_digest option"

record package_receipt_authorization =
  pa_consent_digest :: sha256_digest
  pa_confirmation_id :: stable_id
  pa_operation_set_digest :: sha256_digest
  pa_evidence :: "package_receipt_evidence list"

record run_receipt =
  rc_schema_version :: schema_version
  rc_contract_version :: string
  rc_receipt_id :: sha256_digest
  rc_run_id :: stable_id
  rc_plan_id :: sha256_digest
  rc_target_id :: stable_id
  rc_desired_digest :: sha256_digest
  rc_observed_digest :: sha256_digest
  rc_policy_digest :: sha256_digest
  rc_bindings :: plan_bindings
  rc_package_authorization :: "package_receipt_authorization option"
  rc_state :: receipt_state
  rc_operation_progress :: "operation_progress list"
  rc_transitions :: "receipt_transition list"

section \<open>Serialized forms\<close>

fun operation_kind_name :: "operation_kind \<Rightarrow> string" where
  "operation_kind_name OpCreate = ''create''"
| "operation_kind_name OpUpdate = ''update''"
| "operation_kind_name OpDelete = ''delete''"
| "operation_kind_name OpMerge = ''merge''"
| "operation_kind_name OpEnable = ''enable''"
| "operation_kind_name OpDisable = ''disable''"
| "operation_kind_name OpRestart = ''restart''"
| "operation_kind_name OpSnapshot = ''snapshot''"
| "operation_kind_name OpRestore = ''restore''"

fun risk_name :: "risk \<Rightarrow> string" where
  "risk_name ReadOnly = ''read_only''"
| "risk_name Low = ''low''"
| "risk_name Medium = ''medium''"
| "risk_name High = ''high''"
| "risk_name Destructive = ''destructive''"

fun recovery_name :: "recovery_capability \<Rightarrow> string" where
  "recovery_name ExactRollback = ''exact_rollback''"
| "recovery_name ConvergeForwardOnly = ''converge_forward_only''"

fun receipt_state_name :: "receipt_state \<Rightarrow> string" where
  "receipt_state_name StPrepared = ''prepared''"
| "receipt_state_name StApplying = ''applying''"
| "receipt_state_name StVerifying = ''verifying''"
| "receipt_state_name StApplyingForward = ''applying_forward''"
| "receipt_state_name StSucceeded = ''succeeded''"
| "receipt_state_name StRecoveryRequired = ''recovery_required''"
| "receipt_state_name StForwardRecoveryRequired = ''forward_recovery_required''"
| "receipt_state_name StConvergingForward = ''converging_forward''"
| "receipt_state_name StForwardRecovered = ''forward_recovered''"
| "receipt_state_name StForwardRecoveryFailed = ''forward_recovery_failed''"
| "receipt_state_name StRollingBack = ''rolling_back''"
| "receipt_state_name StRolledBack = ''rolled_back''"
| "receipt_state_name StRollbackFailed = ''rollback_failed''"
| "receipt_state_name StCanceled = ''canceled''"

fun phase_name :: "operation_phase \<Rightarrow> string" where
  "phase_name PhPrepared = ''prepared''"
| "phase_name PhPrepareFailed = ''prepare_failed''"
| "phase_name PhApplyStarted = ''apply_started''"
| "phase_name PhApplied = ''applied''"
| "phase_name PhApplyFailed = ''apply_failed''"
| "phase_name PhVerified = ''verified''"
| "phase_name PhVerifyFailed = ''verify_failed''"
| "phase_name PhRolledBack = ''rolled_back''"
| "phase_name PhRollbackFailed = ''rollback_failed''"
| "phase_name PhForwardRecovered = ''forward_recovered''"
| "phase_name PhForwardRecoveryFailed = ''forward_recovery_failed''"

fun manager_name :: "package_manager \<Rightarrow> string" where
  "manager_name Homebrew = ''homebrew''"
| "manager_name Apt = ''apt''"
| "manager_name Fnm = ''fnm''"
| "manager_name Nvm = ''nvm''"
| "manager_name Rustup = ''rustup''"

lemma operation_kind_name_inj [simp]: "operation_kind_name a = operation_kind_name b \<longleftrightarrow> a = b"
  by (cases a; cases b) simp_all

lemma risk_name_inj [simp]: "risk_name a = risk_name b \<longleftrightarrow> a = b"
  by (cases a; cases b) simp_all

lemma receipt_state_name_inj [simp]: "receipt_state_name a = receipt_state_name b \<longleftrightarrow> a = b"
  by (cases a; cases b) simp_all

lemma phase_name_inj [simp]: "phase_name a = phase_name b \<longleftrightarrow> a = b"
  by (cases a; cases b) simp_all

definition ser_resource_ref :: "resource_ref \<Rightarrow> json" where
  "ser_resource_ref r = json_struct
     ([(''resourceType'', ser_stable_id (rr_resource_type r)),
       (''resourceId'', ser_stable_id (rr_resource_id r))]
      @ opt_field ''managedPath'' JString (rr_managed_path r))"

definition ser_provenance :: "operation_provenance \<Rightarrow> json" where
  "ser_provenance p = json_struct
     [(''providerId'', ser_stable_id (pv_provider_id p)),
      (''providerVersion'', JString (pv_provider_version p)),
      (''inputDigest'', ser_digest (pv_input_digest p)),
      (''source'', JString (pv_source p))]"

definition ser_plan_bindings :: "plan_bindings \<Rightarrow> json" where
  "ser_plan_bindings b = json_struct
     ([(''targetIdentityDigest'', ser_digest (pb_target_identity_digest b)),
       (''composedLoadoutDigest'', ser_digest (pb_composed_loadout_digest b)),
       (''providerInputsDigest'', ser_digest (pb_provider_inputs_digest b)),
       (''ownershipMapDigest'', ser_digest (pb_ownership_map_digest b)),
       (''artifactSetDigest'', ser_digest (pb_artifact_set_digest b))]
      @ opt_field ''packageResolutionAuthorityDigest'' ser_digest
          (pb_package_resolution_authority_digest b))"

definition ser_operation_progress :: "operation_progress \<Rightarrow> json" where
  "ser_operation_progress p = json_struct
     ([(''operationId'', ser_digest (pr_operation_id p)),
       (''phase'', JString (phase_name (pr_phase p)))]
      @ opt_field ''failureCode'' ser_stable_id (pr_failure_code p))"

text \<open>\<open>#[serde(tag = "type", rename_all = "snake_case")]\<close>\<close>

fun ser_exit_classification :: "package_exit_classification \<Rightarrow> json" where
  "ser_exit_classification ExitNotRun = json_struct [(''type'', JString ''not_run'')]"
| "ser_exit_classification ExitSucceeded = json_struct [(''type'', JString ''succeeded'')]"
| "ser_exit_classification (ExitFailed code) =
     json_struct [(''type'', JString ''failed''), (''code'', ser_stable_id code)]"

definition ser_evidence :: "package_receipt_evidence \<Rightarrow> json" where
  "ser_evidence e = json_struct
     ([(''operationId'', ser_digest (ev_operation_id e)),
       (''resolutionDigest'', ser_digest (ev_resolution_digest e)),
       (''targetAuthorityDigest'', ser_digest (ev_target_authority_digest e)),
       (''manager'', JString (manager_name (ev_manager e))),
       (''managerAuthorityDigest'', ser_digest (ev_manager_authority_digest e)),
       (''sourceId'', ser_stable_id (ev_source_id e)),
       (''sourceAuthorityDigest'', ser_digest (ev_source_authority_digest e)),
       (''beforeInstalledVersions'', JArray (map JString (ev_before_installed_versions e))),
       (''noPreimageReason'', JString ''additive_forward_only''),
       (''exitClassification'', ser_exit_classification (ev_exit_classification e))]
      @ opt_field ''finalDigest'' ser_digest (ev_final_digest e))"

definition ser_package_authorization :: "package_receipt_authorization \<Rightarrow> json" where
  "ser_package_authorization a = json_struct
     [(''consentDigest'', ser_digest (pa_consent_digest a)),
      (''confirmationId'', ser_stable_id (pa_confirmation_id a)),
      (''operationSetDigest'', ser_digest (pa_operation_set_digest a)),
      (''evidence'', JArray (map ser_evidence (pa_evidence a)))]"

section \<open>Package consent\<close>

record package_operation_consent_binding =
  cb_operation_id :: sha256_digest
  cb_resolution_digest :: sha256_digest

record package_consent =
  pc_confirmation_id :: stable_id
  pc_operation_set_digest :: sha256_digest

text \<open>\<open>PackageOperationSemantic\<close> and \<open>PackageOperationSetSemantic\<close>\<close>

record package_operation_semantic =
  ps_operation_id :: sha256_digest
  ps_after_digest :: sha256_digest
  ps_resolution_digest :: sha256_digest

definition ser_package_operation :: "package_operation_semantic \<Rightarrow> json" where
  "ser_package_operation s = json_struct
     [(''operationId'', ser_digest (ps_operation_id s)),
      (''afterDigest'', ser_digest (ps_after_digest s)),
      (''resolutionDigest'', ser_digest (ps_resolution_digest s))]"

definition ser_package_operation_set ::
  "sha256_digest \<Rightarrow> stable_id \<Rightarrow> package_operation_semantic list \<Rightarrow> json" where
  "ser_package_operation_set plan_id target_id operations = json_struct
     [(''planId'', ser_digest plan_id),
      (''targetId'', ser_stable_id target_id),
      (''operations'', JArray (map ser_package_operation operations))]"

definition is_package_operation :: "operation \<Rightarrow> bool" where
  "is_package_operation operation \<longleftrightarrow>
     sid_str (op_adapter_id operation) = ''packages''
     \<or> sid_str (rr_resource_type (op_resource operation)) = ''package''"

definition additive_package_operation :: "operation \<Rightarrow> bool" where
  "additive_package_operation operation \<longleftrightarrow>
     \<not> (sid_str (op_adapter_id operation) \<noteq> ''packages''
        \<or> sid_str (rr_resource_type (op_resource operation)) \<noteq> ''package''
        \<or> op_kind operation \<noteq> OpCreate
        \<or> \<not> op_requires_confirmation operation
        \<or> op_recovery_capability operation \<noteq> ConvergeForwardOnly
        \<or> op_before_digest operation \<noteq> None)"

fun insert_bindings ::
  "package_operation_consent_binding list \<Rightarrow> (sha256_digest, sha256_digest) btree_map
   \<Rightarrow> contract_error + (sha256_digest, sha256_digest) btree_map" where
  "insert_bindings [] resolutions = Ok resolutions"
| "insert_bindings (b # bs) resolutions =
     (if bt_contains resolutions (cb_operation_id b) then Err InvalidPackageConsent
      else insert_bindings bs
             (bt_insert (cb_operation_id b) (cb_resolution_digest b) resolutions))"

fun collect_package_operations ::
  "operation list \<Rightarrow> (sha256_digest, sha256_digest) btree_map
   \<Rightarrow> contract_error
        + package_operation_semantic list \<times> (sha256_digest, sha256_digest) btree_map" where
  "collect_package_operations [] resolutions = Ok ([], resolutions)"
| "collect_package_operations (operation # rest) resolutions =
     (if \<not> is_package_operation operation then collect_package_operations rest resolutions
      else if \<not> additive_package_operation operation then Err InvalidPackageConsent
      else and_then (ok_or InvalidPackageConsent (op_after_digest operation)) (\<lambda>after_digest.
           and_then (ok_or InvalidPackageConsent (bt_get resolutions (op_id operation)))
             (\<lambda>resolution_digest.
           and_then (collect_package_operations rest (bt_remove (op_id operation) resolutions))
             (\<lambda>(operations, left).
               Ok (\<lparr>ps_operation_id = op_id operation, ps_after_digest = after_digest,
                    ps_resolution_digest = resolution_digest\<rparr> # operations, left)))))"

definition package_operation_set_digest ::
  "env \<Rightarrow> plan \<Rightarrow> package_operation_consent_binding list \<Rightarrow> contract_error + sha256_digest" where
  "package_operation_set_digest E plan bindings =
     and_then (insert_bindings bindings []) (\<lambda>resolutions.
     and_then (collect_package_operations (pl_operations plan) resolutions)
       (\<lambda>(operations, left).
         if operations = [] \<or> left \<noteq> [] then Err InvalidPackageConsent
         else digest_domain_json E ''commonkit.package-operation-set.v1''
                (ser_package_operation_set (pl_id plan) (pl_target_id plan)
                   (sort_key ps_operation_id operations))))"

definition package_consent_validate ::
  "env \<Rightarrow> package_consent \<Rightarrow> plan \<Rightarrow> package_operation_consent_binding list
   \<Rightarrow> contract_error + unit" where
  "package_consent_validate E consent plan bindings =
     and_then (package_operation_set_digest E plan bindings) (\<lambda>digest.
       if digest \<noteq> pc_operation_set_digest consent then Err InvalidPackageConsent else Ok ())"

definition ser_package_consent :: "package_consent \<Rightarrow> json" where
  "ser_package_consent c = json_struct
     [(''confirmationId'', ser_stable_id (pc_confirmation_id c)),
      (''operationSetDigest'', ser_digest (pc_operation_set_digest c))]"

definition package_consent_digest :: "env \<Rightarrow> package_consent \<Rightarrow> contract_error + sha256_digest" where
  "package_consent_digest E c =
     digest_domain_json E ''commonkit.package-consent.v1'' (ser_package_consent c)"

end
