(* ===== verification/Contracts_Serial.thy ===== *)
theory Contracts_Serial
  imports Contracts_Plan
begin

text \<open>
  The serialized forms of \<open>Contracts_Plan\<close> determine the values they come from, so that a
  digest without collisions binds every field of what it digests.
\<close>

lemma manager_name_inj [simp]: "manager_name a = manager_name b \<longleftrightarrow> a = b"
  by (cases a; cases b) simp_all

lemma recovery_name_inj [simp]: "recovery_name a = recovery_name b \<longleftrightarrow> a = b"
  by (cases a; cases b) simp_all

lemma rev_opt_field [simp]: "rev (opt_field k f x) = opt_field k f x"
  by (simp add: opt_field_def split: option.split)

lemma map_of_opt_field_append:
  "map_of (opt_field k f x @ xs) j =
     (if j = k \<and> x \<noteq> None then map_option f x else map_of xs j)"
  by (cases x) (auto simp: opt_field_def)

lemma map_ser_digest_inject [simp]: "map ser_digest xs = map ser_digest ys \<longleftrightarrow> xs = ys"
  by (rule inj_map_eq_map) (simp add: inj_def)

lemma map_JString_inject [simp]: "map JString xs = map JString ys \<longleftrightarrow> xs = ys"
  by (rule inj_map_eq_map) (simp add: inj_def)

lemma json_option_digest_inject [simp]:
  "json_option ser_digest x = json_option ser_digest y \<longleftrightarrow> x = y"
  by (auto simp: json_option_def ser_digest_def intro: sha256_digest.expand split: option.splits)

lemma map_option_injective:
  "(\<And>a b. f a = f b \<Longrightarrow> a = b) \<Longrightarrow> map_option f x = map_option f y \<Longrightarrow> x = y"
  by (cases x; cases y) auto

lemmas struct_fields = rev_opt_field map_of_opt_field_append

lemma ser_resource_ref_inject [simp]: "ser_resource_ref a = ser_resource_ref b \<longleftrightarrow> a = b"
proof
  assume "ser_resource_ref a = ser_resource_ref b"
  note f = json_struct_eqD [OF this [unfolded ser_resource_ref_def], simplified struct_fields rev_append]
  show "a = b"
    using f [of "''resourceType''"] f [of "''resourceId''"] f [of "''managedPath''"]
    by (cases a; cases b) (auto split: if_splits dest: map_option_injective [rotated])
qed simp

lemma ser_provenance_inject [simp]: "ser_provenance a = ser_provenance b \<longleftrightarrow> a = b"
proof
  assume "ser_provenance a = ser_provenance b"
  note f = json_struct_eqD [OF this [unfolded ser_provenance_def], simplified struct_fields rev_append]
  show "a = b"
    using f [of "''providerId''"] f [of "''providerVersion''"] f [of "''inputDigest''"] f [of "''source''"]
    by (cases a; cases b) (auto split: if_splits dest: map_option_injective [rotated])
qed simp

lemma ser_plan_bindings_inject [simp]: "ser_plan_bindings a = ser_plan_bindings b \<longleftrightarrow> a = b"
proof
  assume "ser_plan_bindings a = ser_plan_bindings b"
  note f = json_struct_eqD [OF this [unfolded ser_plan_bindings_def], simplified struct_fields rev_append]
  show "a = b"
    using f [of "''targetIdentityDigest''"] f [of "''composedLoadoutDigest''"] f [of "''providerInputsDigest''"] f [of "''ownershipMapDigest''"] f [of "''artifactSetDigest''"] f [of "''packageResolutionAuthorityDigest''"]
    by (cases a; cases b) (auto split: if_splits dest: map_option_injective [rotated])
qed simp

lemma ser_operation_progress_inject [simp]: "ser_operation_progress a = ser_operation_progress b \<longleftrightarrow> a = b"
proof
  assume "ser_operation_progress a = ser_operation_progress b"
  note f = json_struct_eqD [OF this [unfolded ser_operation_progress_def], simplified struct_fields rev_append]
  show "a = b"
    using f [of "''operationId''"] f [of "''phase''"] f [of "''failureCode''"]
    by (cases a; cases b) (auto split: if_splits dest: map_option_injective [rotated])
qed simp

lemma ser_exit_classification_inject [simp]:
  "ser_exit_classification a = ser_exit_classification b \<longleftrightarrow> a = b"
proof
  assume "ser_exit_classification a = ser_exit_classification b"
  then show "a = b"
    by (cases a; cases b)
       (auto dest: json_struct_eqD [of _ _ "''type''"] json_struct_eqD [of _ _ "''code''"])
qed simp

lemma ser_evidence_inject [simp]: "ser_evidence a = ser_evidence b \<longleftrightarrow> a = b"
proof
  assume "ser_evidence a = ser_evidence b"
  note f = json_struct_eqD [OF this [unfolded ser_evidence_def], simplified struct_fields rev_append]
  show "a = b"
    using f [of "''operationId''"] f [of "''resolutionDigest''"] f [of "''targetAuthorityDigest''"] f [of "''manager''"] f [of "''managerAuthorityDigest''"] f [of "''sourceId''"] f [of "''sourceAuthorityDigest''"] f [of "''beforeInstalledVersions''"] f [of "''exitClassification''"] f [of "''finalDigest''"]
    by (cases a; cases b; cases "ev_no_preimage_reason a"; cases "ev_no_preimage_reason b") (auto split: if_splits dest: map_option_injective [rotated])
qed simp

lemma map_ser_evidence_inject [simp]: "map ser_evidence xs = map ser_evidence ys \<longleftrightarrow> xs = ys"
  by (rule inj_map_eq_map) (simp add: inj_def)

lemma map_ser_progress_inject [simp]:
  "map ser_operation_progress xs = map ser_operation_progress ys \<longleftrightarrow> xs = ys"
  by (rule inj_map_eq_map) (simp add: inj_def)

lemma ser_package_authorization_inject [simp]: "ser_package_authorization a = ser_package_authorization b \<longleftrightarrow> a = b"
proof
  assume "ser_package_authorization a = ser_package_authorization b"
  note f = json_struct_eqD [OF this [unfolded ser_package_authorization_def], simplified struct_fields rev_append]
  show "a = b"
    using f [of "''consentDigest''"] f [of "''confirmationId''"] f [of "''operationSetDigest''"] f [of "''evidence''"]
    by (cases a; cases b) (auto split: if_splits dest: map_option_injective [rotated])
qed simp

lemma ser_package_consent_inject [simp]: "ser_package_consent a = ser_package_consent b \<longleftrightarrow> a = b"
proof
  assume "ser_package_consent a = ser_package_consent b"
  note f = json_struct_eqD [OF this [unfolded ser_package_consent_def], simplified struct_fields rev_append]
  show "a = b"
    using f [of "''confirmationId''"] f [of "''operationSetDigest''"]
    by (cases a; cases b) (auto split: if_splits dest: map_option_injective [rotated])
qed simp

lemma ser_package_operation_inject [simp]: "ser_package_operation a = ser_package_operation b \<longleftrightarrow> a = b"
proof
  assume "ser_package_operation a = ser_package_operation b"
  note f = json_struct_eqD [OF this [unfolded ser_package_operation_def], simplified struct_fields rev_append]
  show "a = b"
    using f [of "''operationId''"] f [of "''afterDigest''"] f [of "''resolutionDigest''"]
    by (cases a; cases b) (auto split: if_splits dest: map_option_injective [rotated])
qed simp

lemma map_ser_package_operation_inject [simp]:
  "map ser_package_operation xs = map ser_package_operation ys \<longleftrightarrow> xs = ys"
  by (rule inj_map_eq_map) (simp add: inj_def)

lemma ser_package_operation_set_inject [simp]:
  "ser_package_operation_set p t xs = ser_package_operation_set q u ys \<longleftrightarrow>
     p = q \<and> t = u \<and> xs = ys"
proof
  assume "ser_package_operation_set p t xs = ser_package_operation_set q u ys"
  note f = json_struct_eqD [OF this [unfolded ser_package_operation_set_def], simplified]
  show "p = q \<and> t = u \<and> xs = ys"
    using f [of "''planId''"] f [of "''targetId''"] f [of "''operations''"] by auto
qed simp

end
