(* ===== verification/Contracts_Packages.thy ===== *)
theory Contracts_Packages
  imports Contracts_Plan
begin

text \<open>
  Package declarations and observations of \<open>crates/commonkit-contracts/src/lib.rs\<close>: selectors,
  exact and floating versions, and the canonical form of the installed versions a receipt keeps.
\<close>

section \<open>Installed versions\<close>

definition apt_identity :: "string \<Rightarrow> bool" where
  "apt_identity value \<longleftrightarrow>
     count_list value (CHR ''='') = 1
     \<and> (case split_once (CHR ''='') value of
          None \<Rightarrow> False
        | Some (name_architecture, version) \<Rightarrow>
            (case split_once (CHR '':'') name_architecture of
               None \<Rightarrow> False
             | Some (name, architecture) \<Rightarrow>
                 \<not> (name = [] \<or> architecture = [] \<or> version = []
                    \<or> CHR '':'' \<in> set name \<or> CHR '':'' \<in> set architecture)))"

definition nvm_version :: "string \<Rightarrow> bool" where
  "nvm_version value \<longleftrightarrow>
     (let parts = split_char (CHR ''.'') value in
      length parts = 3
      \<and> \<not> list_ex (\<lambda>part. part = [] \<or> \<not> list_all is_ascii_digit part
             \<or> (part \<noteq> ''0'' \<and> starts_with part ''0'')) parts)"

definition observation_text :: "string \<Rightarrow> bool" where
  "observation_text value \<longleftrightarrow>
     \<not> (value = [] \<or> length value > 256
        \<or> list_ex (\<lambda>c. \<not> is_ascii_graphic c \<or> is_ascii_whitespace c) value)"

definition apt_live_safety :: string where
  "apt_live_safety = ''commonkit-apt-live-safety=''"

text \<open>The body of the loop, for one value: \<open>None\<close> is the \<open>continue\<close>.\<close>

definition canonical_installed_version ::
  "package_manager \<Rightarrow> string \<Rightarrow> contract_error + string option" where
  "canonical_installed_version manager value =
     (let checked = (if observation_text value then Ok (Some value) else Err InvalidPackageObservation) in
      if manager = Apt then
        (case strip_prefix apt_live_safety value of
           Some digest \<Rightarrow>
             and_then (map_err (\<lambda>_. InvalidPackageObservation) (sha256_digest_parse digest))
               (\<lambda>_. Ok None)
         | None \<Rightarrow> if \<not> apt_identity value then Err InvalidPackageObservation else checked)
      else if manager = Nvm then
        (if \<not> nvm_version value then Err InvalidPackageObservation else checked)
      else checked)"

fun canonical_versions_loop ::
  "package_manager \<Rightarrow> string list \<Rightarrow> string btree_set \<Rightarrow> contract_error + string btree_set" where
  "canonical_versions_loop manager [] canonical = Ok canonical"
| "canonical_versions_loop manager (value # rest) canonical =
     and_then (canonical_installed_version manager value) (\<lambda>kept.
       canonical_versions_loop manager rest
         (case kept of None \<Rightarrow> canonical | Some v \<Rightarrow> set_insert v canonical))"

definition canonical_package_installed_versions ::
  "package_manager \<Rightarrow> string btree_set \<Rightarrow> contract_error + string btree_set" where
  "canonical_package_installed_versions manager installed_versions =
     canonical_versions_loop manager installed_versions []"

section \<open>Selectors and declarations\<close>

datatype rust_toolchain_profile = ProfileMinimal

datatype package_selector =
    HomebrewFormula string
  | AptBinary string "string option"
  | NodeRuntime
  | RustToolchain rust_toolchain_profile "string btree_set" "string btree_set"

definition safe_selector :: "string \<Rightarrow> bool" where
  "safe_selector value \<longleftrightarrow>
     value \<noteq> []
     \<and> trim value = value
     \<and> \<not> contains_str value ''..''
     \<and> \<not> (starts_with value ''/'' \<or> starts_with value ''-'' \<or> starts_with value ''.'')
     \<and> \<not> ends_with value ''/''
     \<and> list_all (\<lambda>c. is_ascii_alphanumeric c \<or> c \<in> set ''._+@/-'') value"

definition selector_validate_for ::
  "package_selector \<Rightarrow> package_manager \<Rightarrow> contract_error + unit" where
  "selector_validate_for selector manager =
     (let valid =
        (case (manager, selector) of
           (Homebrew, HomebrewFormula name) \<Rightarrow> safe_selector name
         | (Apt, AptBinary name architecture) \<Rightarrow>
             safe_selector name \<and> (case architecture of None \<Rightarrow> True | Some a \<Rightarrow> safe_selector a)
         | (Fnm, NodeRuntime) \<Rightarrow> True
         | (Nvm, NodeRuntime) \<Rightarrow> True
         | (Rustup, RustToolchain ProfileMinimal components targets) \<Rightarrow>
             list_all safe_selector components \<and> list_all safe_selector targets
         | _ \<Rightarrow> False)
      in if valid then Ok () else Err InvalidPackageDeclaration)"

record package_declaration =
  pk_id :: stable_id
  pk_version :: string
  pk_manager :: package_manager
  pk_source :: stable_id
  pk_selector :: "package_selector option"

definition is_floating_package_version :: "string \<Rightarrow> bool" where
  "is_floating_package_version version =
     (let version = to_ascii_lowercase version in
      version \<in> {''latest'', ''stable'', ''default'', ''node'', ''current''}
      \<or> starts_with version ''stable-''
      \<or> starts_with version ''latest-''
      \<or> starts_with version ''default-''
      \<or> starts_with version ''lts-''
      \<or> starts_with version ''lts/'')"

definition package_declaration_validate :: "package_declaration \<Rightarrow> contract_error + unit" where
  "package_declaration_validate d =
     (if pk_version d = []
         \<or> contains_white (pk_version d)
         \<or> list_ex (\<lambda>c. c \<in> set ''*^~<>=,|'') (pk_version d)
         \<or> is_floating_package_version (pk_version d)
      then Err InvalidPackageDeclaration
      else (case pk_selector d of
              None \<Rightarrow> Ok ()
            | Some selector \<Rightarrow> selector_validate_for selector (pk_manager d)))"

definition numeric_triplet :: "string \<Rightarrow> bool \<Rightarrow> bool" where
  "numeric_triplet version allow_v_prefix =
     (let version = (if allow_v_prefix
                     then (case strip_prefix ''v'' version of None \<Rightarrow> version | Some v \<Rightarrow> v)
                     else version);
          components = split_char (CHR ''.'') version
      in length components = 3
         \<and> list_all (\<lambda>component. component \<noteq> [] \<and> list_all is_ascii_digit component) components)"

definition exact_package_version :: "package_manager \<Rightarrow> string \<Rightarrow> bool" where
  "exact_package_version manager version =
     (if manager = Fnm \<or> manager = Nvm then numeric_triplet version True
      else if manager = Rustup then numeric_triplet version False
      else list_ex is_ascii_digit version
           \<and> list_ex (\<lambda>c. c \<in> set ''.+-_:'') version
           \<and> list_all (\<lambda>c. is_ascii_alphanumeric c \<or> c \<in> set ''.+-_:'') version
           \<and> \<not> list_ex (\<lambda>part. to_ascii_lowercase part \<in> {''x'', ''main'', ''major'', ''nightly''})
                 (split_where (\<lambda>c. \<not> is_ascii_alphanumeric c) version))"

definition package_validate_for_resolution :: "package_declaration \<Rightarrow> contract_error + unit" where
  "package_validate_for_resolution d =
     and_then (package_declaration_validate d) (\<lambda>_.
     and_then (ok_or InvalidPackageDeclaration (pk_selector d)) (\<lambda>selector.
     and_then (selector_validate_for selector (pk_manager d)) (\<lambda>_.
       if exact_package_version (pk_manager d) (pk_version d) then Ok ()
       else Err InvalidPackageDeclaration)))"

section \<open>The canonical form of an observation\<close>

lemma set_insert_snoc: "set_wf (xs @ [x]) \<Longrightarrow> set_insert x xs = xs @ [x]"
  by (induction xs) (auto simp: set_wf_def)

lemma set_wf_append: "set_wf (a @ b) \<Longrightarrow> set_wf a \<and> set_wf b"
  by (auto simp: set_wf_def sorted_wrt_append)

lemma canonical_installed_version_keeps:
  "canonical_installed_version manager value = Inr (Some v) \<Longrightarrow> v = value"
  by (auto simp: canonical_installed_version_def Let_def result_simps split: if_splits option.splits)

definition kept_version :: "package_manager \<Rightarrow> string \<Rightarrow> bool" where
  "kept_version manager value \<longleftrightarrow> canonical_installed_version manager value = Inr (Some value)"

lemma kept_version_iff:
  "kept_version manager value \<longleftrightarrow> observation_text value
     \<and> (manager = Apt \<longrightarrow> \<not> starts_with value apt_live_safety \<and> apt_identity value)
     \<and> (manager = Nvm \<longrightarrow> nvm_version value)"
  by (auto simp: kept_version_def canonical_installed_version_def Let_def result_simps strip_prefix_def
      starts_with_def split: if_splits option.splits)

lemma canonical_versions_loop_Ok:
  "canonical_versions_loop manager xs acc = Inr c \<Longrightarrow> set_wf (acc @ xs) \<Longrightarrow>
   c = acc @ filter (kept_version manager) xs"
proof (induction xs arbitrary: acc)
  case (Cons x xs)
  from Cons.prems(1) obtain kept where k: "canonical_installed_version manager x = Inr kept"
    "canonical_versions_loop manager xs (case kept of None \<Rightarrow> acc | Some v \<Rightarrow> set_insert v acc) = Inr c"
    by (auto simp: result_simps)
  show ?case
  proof (cases kept)
    case None
    then have "c = acc @ filter (kept_version manager) xs"
      using k(2) Cons.IH [of acc] Cons.prems(2) by (auto simp: set_wf_def sorted_wrt_append)
    moreover have "\<not> kept_version manager x" using k(1) None by (simp add: kept_version_def)
    ultimately show ?thesis by simp
  next
    case (Some v)
    then have v: "v = x" using k(1) canonical_installed_version_keeps by auto
    have "set_insert x acc = acc @ [x]"
      using set_wf_append [of "acc @ [x]" xs] Cons.prems(2) set_insert_snoc [of acc x] by simp
    then show ?thesis using k Some v Cons.IH [of "acc @ [x]"] Cons.prems(2)
      by (simp add: kept_version_def)
  qed
qed simp

lemma canonical_versions_loop_fixed:
  "\<forall>x\<in>set xs. kept_version manager x \<Longrightarrow> set_wf (acc @ xs) \<Longrightarrow>
   canonical_versions_loop manager xs acc = Inr (acc @ xs)"
proof (induction xs arbitrary: acc)
  case (Cons x xs)
  have "set_insert x acc = acc @ [x]"
    using set_wf_append [of "acc @ [x]" xs] Cons.prems(2) set_insert_snoc [of acc x] by simp
  then show ?case using Cons.IH [of "acc @ [x]"] Cons.prems by (simp add: kept_version_def)
qed simp

lemma canonical_package_installed_versions_Ok:
  assumes "set_wf installed" "canonical_package_installed_versions manager installed = Inr c"
  shows "c = filter (kept_version manager) installed"
    and "canonical_package_installed_versions manager c = Inr c"
proof -
  show c: "c = filter (kept_version manager) installed"
    using canonical_versions_loop_Ok [of manager installed "[]" c] assms
    by (simp add: canonical_package_installed_versions_def)
  have "set_wf c" using assms(1) unfolding c by (simp add: set_wf_def sorted_wrt_filter)
  then show "canonical_package_installed_versions manager c = Inr c"
    unfolding canonical_package_installed_versions_def
    using canonical_versions_loop_fixed [of c manager "[]"] c by simp
qed

text \<open>The check of a receipt: an observation is its own canonical form.\<close>

lemma canonical_fixed_iff:
  assumes "set_wf installed"
  shows "canonical_package_installed_versions manager installed = Inr installed
    \<longleftrightarrow> (\<forall>x\<in>set installed. kept_version manager x)"
proof
  assume "canonical_package_installed_versions manager installed = Inr installed"
  from canonical_package_installed_versions_Ok(1) [OF assms this]
  show "\<forall>x\<in>set installed. kept_version manager x" by (metis filter_id_conv)
next
  assume "\<forall>x\<in>set installed. kept_version manager x"
  then show "canonical_package_installed_versions manager installed = Inr installed"
    unfolding canonical_package_installed_versions_def
    using canonical_versions_loop_fixed [of installed manager "[]"] assms by simp
qed

section \<open>Versions accepted for resolution\<close>

lemma split_char_digit:
  "x \<in> set (split_char c s) \<Longrightarrow> set x \<subseteq> set s"
  by (induction c s arbitrary: x rule: split_char.induct) (fastforce split: list.splits if_splits)+

lemma numeric_triplet_digit:
  assumes "numeric_triplet version b"
  shows "\<exists>c\<in>set version. is_ascii_digit c"
proof -
  obtain v where v: "set v \<subseteq> set version" "length (split_char (CHR ''.'') v) = 3"
    "list_all (\<lambda>component. component \<noteq> [] \<and> list_all is_ascii_digit component) (split_char (CHR ''.'') v)"
    using assms by (auto simp: numeric_triplet_def Let_def strip_prefix_Some_iff
        split: if_splits option.splits)
  then obtain p ps where p: "split_char (CHR ''.'') v = p # ps" by (cases "split_char (CHR ''.'') v") auto
  then obtain c where "c \<in> set p" "is_ascii_digit c"
    using v(3) by (cases p) auto
  then show ?thesis using split_char_digit [of p "CHR ''.''" v] p v(1) by auto
qed

lemma exact_version_digit:
  "exact_package_version manager version \<Longrightarrow> \<exists>c\<in>set version. is_ascii_digit c"
  by (auto simp: exact_package_version_def list_ex_iff dest: numeric_triplet_digit split: if_splits)

lemma resolution_Ok:
  "package_validate_for_resolution d = Inr u \<longleftrightarrow>
     package_declaration_validate d = Inr () \<and>
     (\<exists>selector. pk_selector d = Some selector \<and> selector_validate_for selector (pk_manager d) = Inr ()) \<and>
     exact_package_version (pk_manager d) (pk_version d)"
  by (auto simp: package_validate_for_resolution_def result_simps)

end
