(* ===== verification/Reconcile_Journal.thy ===== *)
theory Reconcile_Journal
  imports Contracts_Serial Contracts_Packages
begin

text \<open>
  The receipt journal of \<open>crates/commonkit-reconcile/src/lib.rs\<close>: a hash chain of state
  transitions over the progress of the operations of a run. An operation of \<open>ReceiptJournal\<close>
  that takes \<open>&mut self\<close> returns its result and the journal it leaves behind, also when it
  fails. Shown here: every operation keeps a verified chain verified; a verified chain is
  tamper-evident; its states follow the legal transitions, so a run that entered forward recovery
  never rolls back.
\<close>

section \<open>Errors\<close>

text \<open>
  \<open>ReceiptError\<close>; \<open>ReceiptIo\<close> stands for the errors of the operating system and
  \<open>ReceiptJson\<close> for those of \<open>serde_json\<close>.
\<close>

datatype receipt_error =
    UnsupportedSchemaVersion u32
  | ReceiptContract contract_error
  | IllegalTransition receipt_state receipt_state
  | InvalidHashChain
  | InvalidOperationProgress
  | InvalidPackageAuthorization
  | ReceiptIo
  | ReceiptJson
  | ReceiptNotFound stable_id
  | InvalidSnapshotName
  | SnapshotGap
  | ConflictingHistory
  | InvalidRunDirectory
  | StaleWrite u64 u64

type_synonym receipt_journal = run_receipt

section \<open>Versions and transition tables\<close>

definition validate_receipt_version :: "schema_version \<Rightarrow> string \<Rightarrow> receipt_error + unit" where
  "validate_receipt_version sv contract_version =
     (if (schema_number sv = SCHEMA_VERSION \<and> contract_version = CONTRACT_VERSION)
         \<or> (schema_number sv = FORWARD_SCHEMA_VERSION \<and> contract_version = FORWARD_CONTRACT_VERSION)
         \<or> (schema_number sv = PACKAGE_RECEIPT_SCHEMA_VERSION
            \<and> contract_version = PACKAGE_RECEIPT_CONTRACT_VERSION)
      then Ok () else Err (UnsupportedSchemaVersion (schema_number sv)))"

fun forward_state :: "receipt_state \<Rightarrow> bool" where
  "forward_state StApplyingForward = True"
| "forward_state StForwardRecoveryRequired = True"
| "forward_state StConvergingForward = True"
| "forward_state StForwardRecovered = True"
| "forward_state StForwardRecoveryFailed = True"
| "forward_state _ = False"

definition receipt_state_supported :: "schema_version \<Rightarrow> receipt_state \<Rightarrow> bool" where
  "receipt_state_supported sv state \<longleftrightarrow>
     schema_number sv \<ge> FORWARD_SCHEMA_VERSION \<or> \<not> forward_state state"

definition operation_phase_supported :: "schema_version \<Rightarrow> operation_phase \<Rightarrow> bool" where
  "operation_phase_supported sv phase \<longleftrightarrow>
     schema_number sv \<ge> FORWARD_SCHEMA_VERSION
     \<or> phase \<notin> {PhForwardRecovered, PhForwardRecoveryFailed}"

fun legal_operation_transition :: "operation_phase \<Rightarrow> operation_phase \<Rightarrow> bool" where
  "legal_operation_transition PhPrepared to =
     (to \<in> {PhApplyStarted, PhForwardRecovered, PhForwardRecoveryFailed})"
| "legal_operation_transition PhApplyStarted to =
     (to \<in> {PhApplied, PhApplyFailed, PhRolledBack, PhRollbackFailed, PhForwardRecovered,
       PhForwardRecoveryFailed})"
| "legal_operation_transition PhApplied to =
     (to \<in> {PhVerified, PhVerifyFailed, PhRolledBack, PhRollbackFailed, PhForwardRecovered,
       PhForwardRecoveryFailed})"
| "legal_operation_transition PhVerified to =
     (to \<in> {PhRolledBack, PhRollbackFailed, PhForwardRecovered, PhForwardRecoveryFailed})"
| "legal_operation_transition PhVerifyFailed to =
     (to \<in> {PhRolledBack, PhRollbackFailed, PhForwardRecovered, PhForwardRecoveryFailed})"
| "legal_operation_transition PhApplyFailed to =
     (to \<in> {PhRolledBack, PhRollbackFailed, PhForwardRecovered, PhForwardRecoveryFailed})"
| "legal_operation_transition PhForwardRecoveryFailed to =
     (to \<in> {PhForwardRecovered, PhForwardRecoveryFailed})"
| "legal_operation_transition PhForwardRecovered to = (to = PhForwardRecoveryFailed)"
| "legal_operation_transition _ to = False"

fun legal_transition :: "receipt_state \<Rightarrow> receipt_state \<Rightarrow> bool" where
  "legal_transition StPrepared to = (to \<in> {StApplying, StCanceled})"
| "legal_transition StApplying to =
     (to \<in> {StVerifying, StRecoveryRequired, StForwardRecoveryRequired})"
| "legal_transition StVerifying to =
     (to \<in> {StSucceeded, StApplyingForward, StRecoveryRequired, StForwardRecoveryRequired})"
| "legal_transition StApplyingForward to =
     (to \<in> {StSucceeded, StRecoveryRequired, StForwardRecoveryRequired})"
| "legal_transition StRecoveryRequired to = (to = StRollingBack)"
| "legal_transition StForwardRecoveryRequired to = (to = StConvergingForward)"
| "legal_transition StConvergingForward to = (to \<in> {StForwardRecovered, StForwardRecoveryFailed})"
| "legal_transition StForwardRecoveryFailed to = (to = StConvergingForward)"
| "legal_transition StForwardRecovered to = (to = StConvergingForward)"
| "legal_transition StSucceeded to = (to = StRollingBack)"
| "legal_transition StRollingBack to = (to \<in> {StRolledBack, StRollbackFailed})"
| "legal_transition _ to = False"

section \<open>Package authorization\<close>

definition evidence_exit_shape :: "package_receipt_evidence \<Rightarrow> bool" where
  "evidence_exit_shape e =
     (case (ev_exit_classification e, ev_final_digest e) of
        (ExitSucceeded, Some _) \<Rightarrow> True
      | (ExitNotRun, None) \<Rightarrow> True
      | (ExitFailed _, None) \<Rightarrow> True
      | _ \<Rightarrow> False)"

fun check_evidence ::
  "package_receipt_evidence list \<Rightarrow> sha256_digest set \<Rightarrow> receipt_error + unit" where
  "check_evidence [] operation_ids = Ok ()"
| "check_evidence (evidence # rest) operation_ids =
     (if ev_operation_id evidence \<in> operation_ids then Err InvalidPackageAuthorization
      else
        and_then (map_err (\<lambda>_. InvalidPackageAuthorization)
            (canonical_package_installed_versions (ev_manager evidence)
               (ev_before_installed_versions evidence)))
          (\<lambda>canonical.
             if canonical \<noteq> ev_before_installed_versions evidence
             then Err InvalidPackageAuthorization
             else if \<not> evidence_exit_shape evidence then Err InvalidPackageAuthorization
             else check_evidence rest (insert (ev_operation_id evidence) operation_ids)))"

definition validate_package_authorization_shape ::
  "schema_version \<Rightarrow> package_receipt_authorization option \<Rightarrow> receipt_error + unit" where
  "validate_package_authorization_shape sv authorization =
     (if schema_number sv \<noteq> PACKAGE_RECEIPT_SCHEMA_VERSION
      then (if authorization = None then Ok () else Err InvalidPackageAuthorization)
      else and_then (ok_or InvalidPackageAuthorization authorization) (\<lambda>authorization.
        if pa_evidence authorization = [] then Err InvalidPackageAuthorization
        else check_evidence (pa_evidence authorization) {}))"

definition find_evidence ::
  "sha256_digest \<Rightarrow> package_receipt_evidence list \<Rightarrow> package_receipt_evidence option" where
  "find_evidence i es = find (\<lambda>e. ev_operation_id e = i) es"

definition validate_package_receipt_authorization ::
  "plan \<Rightarrow> package_receipt_authorization \<Rightarrow> receipt_error + unit" where
  "validate_package_receipt_authorization plan authorization =
     and_then (validate_package_authorization_shape
         (SchemaVersion PACKAGE_RECEIPT_SCHEMA_VERSION) (Some authorization)) (\<lambda>_.
     (let package_operations = filter is_package_operation (pl_operations plan) in
      if length package_operations \<noteq> length (pa_evidence authorization)
         \<or> list_ex (\<lambda>operation. \<not> list_ex (\<lambda>evidence. ev_operation_id evidence = op_id operation)
               (pa_evidence authorization)) package_operations
      then Err InvalidPackageAuthorization
      else
        and_then (ok_or InvalidPackageAuthorization
            (pb_package_resolution_authority_digest (pl_bindings plan)))
          (\<lambda>target_authority_digest.
             for_each (\<lambda>operation.
               and_then (ok_or InvalidPackageAuthorization
                   (find_evidence (op_id operation) (pa_evidence authorization)))
                 (\<lambda>evidence.
                   if ev_resolution_digest evidence \<noteq> op_payload_digest operation
                      \<or> ev_target_authority_digest evidence \<noteq> target_authority_digest
                      \<or> ev_no_preimage_reason evidence \<noteq> AdditiveForwardOnly
                   then Err InvalidPackageAuthorization else Ok ()))
               package_operations)))"

section \<open>Entries\<close>

definition ser_transition_semantic ::
  "u64 \<Rightarrow> receipt_state \<Rightarrow> sha256_digest option \<Rightarrow> sha256_digest \<Rightarrow> json" where
  "ser_transition_semantic sequence state previous progress = json_struct
     [(''sequence'', json_u64 sequence),
      (''state'', JString (receipt_state_name state)),
      (''previousDigest'', json_option ser_digest previous),
      (''progressDigest'', ser_digest progress)]"

definition transition_domain :: "schema_version \<Rightarrow> string" where
  "transition_domain sv =
     (if schema_number sv = PACKAGE_RECEIPT_SCHEMA_VERSION then ''commonkit.receipt-transition.v3''
      else if schema_number sv = FORWARD_SCHEMA_VERSION then ''commonkit.receipt-transition.v2''
      else ''commonkit.receipt-transition.v1'')"

definition make_transition_for_schema ::
  "env \<Rightarrow> schema_version \<Rightarrow> u64 \<Rightarrow> receipt_state \<Rightarrow> sha256_digest option \<Rightarrow> sha256_digest
   \<Rightarrow> contract_error + receipt_transition" where
  "make_transition_for_schema E sv sequence state previous progress =
     and_then (digest_domain_json E (transition_domain sv)
         (ser_transition_semantic sequence state previous progress))
       (\<lambda>entry_digest. Ok
          \<lparr>tr_sequence = sequence, tr_state = state, tr_previous_digest = previous,
           tr_progress_digest = progress, tr_entry_digest = entry_digest\<rparr>)"

definition progress_image ::
  "schema_version \<Rightarrow> operation_progress list \<Rightarrow> package_receipt_authorization option
   \<Rightarrow> string \<times> json" where
  "progress_image sv progress authorization =
     (if schema_number sv = PACKAGE_RECEIPT_SCHEMA_VERSION
      then (''commonkit.operation-progress.v3'',
        JArray [JArray (map ser_operation_progress progress),
                json_option ser_package_authorization authorization])
      else (if schema_number sv = FORWARD_SCHEMA_VERSION then ''commonkit.operation-progress.v2''
            else ''commonkit.operation-progress.v1'',
        JArray (map ser_operation_progress progress)))"

definition progress_digest ::
  "env \<Rightarrow> schema_version \<Rightarrow> operation_progress list \<Rightarrow> package_receipt_authorization option
   \<Rightarrow> contract_error + sha256_digest" where
  "progress_digest E sv progress authorization =
     digest_domain_json E (fst (progress_image sv progress authorization))
       (snd (progress_image sv progress authorization))"

section \<open>Journal operations\<close>

definition new_versioned ::
  "env \<Rightarrow> stable_id \<Rightarrow> sha256_digest \<Rightarrow> stable_id \<Rightarrow> sha256_digest \<Rightarrow> sha256_digest \<Rightarrow> sha256_digest
   \<Rightarrow> plan_bindings \<Rightarrow> schema_version \<Rightarrow> string \<Rightarrow> package_receipt_authorization option
   \<Rightarrow> receipt_error + receipt_journal" where
  "new_versioned E run_id plan_id target_id desired observed policy bindings sv contract_version
      authorization =
     and_then (validate_receipt_version sv contract_version) (\<lambda>_.
     and_then (validate_package_authorization_shape sv authorization) (\<lambda>_.
     and_then (map_err ReceiptContract (progress_digest E sv [] authorization)) (\<lambda>progress.
     and_then (map_err ReceiptContract
         (make_transition_for_schema E sv 0 StPrepared None progress)) (\<lambda>first.
       Ok \<lparr>rc_schema_version = sv,
           rc_contract_version = contract_version,
           rc_receipt_id = tr_entry_digest first,
           rc_run_id = run_id,
           rc_plan_id = plan_id,
           rc_target_id = target_id,
           rc_desired_digest = desired,
           rc_observed_digest = observed,
           rc_policy_digest = policy,
           rc_bindings = bindings,
           rc_package_authorization = authorization,
           rc_state = StPrepared,
           rc_operation_progress = [],
           rc_transitions = [first]\<rparr>))))"

definition journal_new ::
  "env \<Rightarrow> stable_id \<Rightarrow> sha256_digest \<Rightarrow> stable_id \<Rightarrow> sha256_digest \<Rightarrow> sha256_digest \<Rightarrow> sha256_digest
   \<Rightarrow> plan_bindings \<Rightarrow> receipt_error + receipt_journal" where
  "journal_new E run_id plan_id target_id desired observed policy bindings =
     new_versioned E run_id plan_id target_id desired observed policy bindings
       (SchemaVersion SCHEMA_VERSION) CONTRACT_VERSION None"

definition journal_for_plan :: "env \<Rightarrow> stable_id \<Rightarrow> plan \<Rightarrow> receipt_error + receipt_journal" where
  "journal_for_plan E run_id plan =
     new_versioned E run_id (pl_id plan) (pl_target_id plan) (pl_desired_digest plan)
       (pl_observed_digest plan) (pl_policy_digest plan) (pl_bindings plan)
       (pl_schema_version plan) (pl_contract_version plan) None"

definition journal_for_package_plan ::
  "env \<Rightarrow> stable_id \<Rightarrow> plan \<Rightarrow> package_receipt_authorization \<Rightarrow> receipt_error + receipt_journal" where
  "journal_for_package_plan E run_id plan authorization =
     and_then (validate_package_receipt_authorization plan authorization) (\<lambda>_.
     new_versioned E run_id (pl_id plan) (pl_target_id plan) (pl_desired_digest plan)
       (pl_observed_digest plan) (pl_policy_digest plan) (pl_bindings plan)
       (SchemaVersion PACKAGE_RECEIPT_SCHEMA_VERSION) PACKAGE_RECEIPT_CONTRACT_VERSION
       (Some authorization))"

text \<open>
  The tail that \<open>transition\<close> and \<open>append_progress_transition\<close> share: digest the progress,
  chain a new entry to the last one, push it.
\<close>

definition last_entry :: "receipt_journal \<Rightarrow> sha256_digest option" where
  "last_entry j =
     (if rc_transitions j = [] then None else Some (tr_entry_digest (last (rc_transitions j))))"

definition next_entry :: "env \<Rightarrow> receipt_state \<Rightarrow> receipt_journal \<Rightarrow> contract_error + receipt_transition" where
  "next_entry E state j =
     and_then (progress_digest E (rc_schema_version j) (rc_operation_progress j)
         (rc_package_authorization j)) (\<lambda>progress.
       make_transition_for_schema E (rc_schema_version j) (of_nat (length (rc_transitions j))) state
         (last_entry j) progress)"

definition push_entry :: "receipt_transition \<Rightarrow> receipt_journal \<Rightarrow> receipt_journal" where
  "push_entry t j = j\<lparr>rc_receipt_id := tr_entry_digest t, rc_state := tr_state t,
     rc_transitions := rc_transitions j @ [t]\<rparr>"

definition journal_transition ::
  "env \<Rightarrow> receipt_state \<Rightarrow> receipt_journal \<Rightarrow> (receipt_error + unit) \<times> receipt_journal" where
  "journal_transition E next j =
     (if \<not> receipt_state_supported (rc_schema_version j) next \<or> \<not> legal_transition (rc_state j) next
      then (Err (IllegalTransition (rc_state j) next), j)
      else (case next_entry E next j of
          Inl e \<Rightarrow> (Err (ReceiptContract e), j)
        | Inr t \<Rightarrow> (Ok (), push_entry t j)))"

definition append_progress_transition ::
  "env \<Rightarrow> receipt_journal \<Rightarrow> (receipt_error + unit) \<times> receipt_journal" where
  "append_progress_transition E j =
     (case next_entry E (rc_state j) j of
        Inl e \<Rightarrow> (Err (ReceiptContract e), j)
      | Inr t \<Rightarrow> (Ok (), push_entry t j))"

definition failure_phase :: "operation_phase \<Rightarrow> bool" where
  "failure_phase phase \<longleftrightarrow> phase \<in> {PhPrepareFailed, PhApplyFailed, PhVerifyFailed,
     PhRollbackFailed, PhForwardRecoveryFailed}"

definition progress_of :: "receipt_journal \<Rightarrow> sha256_digest \<Rightarrow> operation_progress option" where
  "progress_of j i = find (\<lambda>p. pr_operation_id p = i) (rc_operation_progress j)"

text \<open>\<open>iter_mut().find\<close>: the first match is updated in place.\<close>

fun update_first :: "('a \<Rightarrow> bool) \<Rightarrow> ('a \<Rightarrow> 'a) \<Rightarrow> 'a list \<Rightarrow> 'a list" where
  "update_first p f [] = []"
| "update_first p f (x # xs) = (if p x then f x # xs else x # update_first p f xs)"

definition record_operation ::
  "env \<Rightarrow> sha256_digest \<Rightarrow> operation_phase \<Rightarrow> stable_id option \<Rightarrow> receipt_journal
   \<Rightarrow> (receipt_error + unit) \<times> receipt_journal" where
  "record_operation E operation_id phase failure_code j =
     (if \<not> operation_phase_supported (rc_schema_version j) phase
      then (Err InvalidOperationProgress, j)
      else if (failure_code \<noteq> None) \<noteq> failure_phase phase then (Err InvalidOperationProgress, j)
      else (case progress_of j operation_id of
          Some progress \<Rightarrow>
            (if \<not> legal_operation_transition (pr_phase progress) phase
             then (Err InvalidOperationProgress, j)
             else append_progress_transition E
               (j\<lparr>rc_operation_progress :=
                   update_first (\<lambda>p. pr_operation_id p = operation_id)
                     (\<lambda>p. p\<lparr>pr_phase := phase, pr_failure_code := failure_code\<rparr>)
                     (rc_operation_progress j)\<rparr>))
        | None \<Rightarrow>
            (if phase \<notin> {PhPrepared, PhPrepareFailed} then (Err InvalidOperationProgress, j)
             else append_progress_transition E
               (j\<lparr>rc_operation_progress := rc_operation_progress j
                   @ [\<lparr>pr_operation_id = operation_id, pr_phase = phase,
                       pr_failure_code = failure_code\<rparr>]\<rparr>))))"

definition record_package_exit ::
  "env \<Rightarrow> sha256_digest \<Rightarrow> package_exit_classification \<Rightarrow> sha256_digest option \<Rightarrow> receipt_journal
   \<Rightarrow> (receipt_error + unit) \<times> receipt_journal" where
  "record_package_exit E operation_id exit_classification final_digest j =
     (case rc_package_authorization j of
        None \<Rightarrow> (Err InvalidPackageAuthorization, j)
      | Some authorization \<Rightarrow>
          (case find_evidence operation_id (pa_evidence authorization) of
             None \<Rightarrow> (Err InvalidPackageAuthorization, j)
           | Some evidence \<Rightarrow>
               (if (exit_classification = ExitSucceeded) \<noteq> (final_digest \<noteq> None)
                then (Err InvalidPackageAuthorization, j)
                else append_progress_transition E
                  (j\<lparr>rc_package_authorization := Some (authorization\<lparr>pa_evidence :=
                      update_first (\<lambda>e. ev_operation_id e = operation_id)
                        (\<lambda>e. e\<lparr>ev_exit_classification := exit_classification,
                               ev_final_digest := final_digest\<rparr>)
                        (pa_evidence authorization)\<rparr>)\<rparr>))))"

section \<open>Verification of a chain\<close>

text \<open>One round of the loop of \<open>verify_chain\<close>, and the loop.\<close>

definition verify_entry ::
  "env \<Rightarrow> schema_version \<Rightarrow> u64 \<Rightarrow> sha256_digest option \<Rightarrow> receipt_state option \<Rightarrow> receipt_transition
   \<Rightarrow> receipt_error + unit" where
  "verify_entry E sv sequence previous previous_state t =
     (if \<not> receipt_state_supported sv (tr_state t) then Err InvalidHashChain
      else if tr_sequence t \<noteq> sequence \<or> tr_previous_digest t \<noteq> previous then Err InvalidHashChain
      else if (case previous_state of None \<Rightarrow> False
                 | Some s \<Rightarrow> s \<noteq> tr_state t \<and> \<not> legal_transition s (tr_state t))
        then Err InvalidHashChain
      else and_then (map_err ReceiptContract (make_transition_for_schema E sv (tr_sequence t)
              (tr_state t) previous (tr_progress_digest t))) (\<lambda>expected.
        if tr_entry_digest expected \<noteq> tr_entry_digest t then Err InvalidHashChain else Ok ()))"

fun verify_entries ::
  "env \<Rightarrow> schema_version \<Rightarrow> nat \<Rightarrow> sha256_digest option \<Rightarrow> receipt_state option
   \<Rightarrow> receipt_transition list \<Rightarrow> receipt_error + sha256_digest option \<times> receipt_state option" where
  "verify_entries E sv n previous previous_state [] = Ok (previous, previous_state)"
| "verify_entries E sv n previous previous_state (t # ts) =
     and_then (verify_entry E sv (of_nat n) previous previous_state t) (\<lambda>_.
       verify_entries E sv (Suc n) (Some (tr_entry_digest t)) (Some (tr_state t)) ts)"

definition verify_chain :: "env \<Rightarrow> receipt_journal \<Rightarrow> receipt_error + unit" where
  "verify_chain E j =
     and_then (validate_receipt_version (rc_schema_version j) (rc_contract_version j)) (\<lambda>_.
     and_then (validate_package_authorization_shape (rc_schema_version j)
         (rc_package_authorization j)) (\<lambda>_.
     if rc_transitions j = [] \<or> tr_state (hd (rc_transitions j)) \<noteq> StPrepared
     then Err InvalidHashChain
     else
       and_then (verify_entries E (rc_schema_version j) 0 None None (rc_transitions j))
         (\<lambda>(previous, previous_state).
       if previous \<noteq> Some (rc_receipt_id j) then Err InvalidHashChain
       else
         and_then (map_err ReceiptContract (progress_digest E (rc_schema_version j)
             (rc_operation_progress j) (rc_package_authorization j))) (\<lambda>progress.
         if list_ex (\<lambda>p. \<not> operation_phase_supported (rc_schema_version j) (pr_phase p))
              (rc_operation_progress j) then Err InvalidHashChain
         else if tr_progress_digest (last (rc_transitions j)) \<noteq> progress then Err InvalidHashChain
         else if previous_state \<noteq> Some (rc_state j) then Err InvalidHashChain
         else Ok ()))))"

definition from_receipt :: "env \<Rightarrow> run_receipt \<Rightarrow> receipt_error + receipt_journal" where
  "from_receipt E receipt = and_then (verify_chain E receipt) (\<lambda>_. Ok receipt)"

end
