(* ===== verification/Journal_Chain.thy ===== *)
theory Journal_Chain
  imports Reconcile_Journal
begin

text \<open>
  Facts about the receipt journal of \<open>Reconcile_Journal\<close>: verified chains, their preservation,
  what they bind and the histories they allow.
\<close>

section \<open>Verified chains\<close>

definition transition_image :: "schema_version \<Rightarrow> receipt_transition \<Rightarrow> string \<times> json" where
  "transition_image sv t = (transition_domain sv,
     ser_transition_semantic (tr_sequence t) (tr_state t) (tr_previous_digest t) (tr_progress_digest t))"

lemma make_transition_Ok:
  "make_transition_for_schema E sv sequence state previous progress = Inr t \<longleftrightarrow>
     tr_sequence t = sequence \<and> tr_state t = state \<and> tr_previous_digest t = previous
     \<and> tr_progress_digest t = progress
     \<and> digest_domain_json E (fst (transition_image sv t)) (snd (transition_image sv t))
         = Inr (tr_entry_digest t)"
  by (cases t) (auto simp: make_transition_for_schema_def transition_image_def result_simps)

lemma verify_entry_Ok:
  "verify_entry E sv n previous previous_state t = Inr u \<longleftrightarrow>
     receipt_state_supported sv (tr_state t) \<and> tr_sequence t = n \<and> tr_previous_digest t = previous
     \<and> (\<forall>s. previous_state = Some s \<longrightarrow> s = tr_state t \<or> legal_transition s (tr_state t))
     \<and> digest_domain_json E (fst (transition_image sv t)) (snd (transition_image sv t))
         = Inr (tr_entry_digest t)"
  by (auto simp: verify_entry_def make_transition_for_schema_def transition_image_def result_simps
      split: if_splits option.splits)

lemma verify_entries_append:
  "verify_entries E sv n previous previous_state (ts @ us) =
     and_then (verify_entries E sv n previous previous_state ts)
       (\<lambda>(p, s). verify_entries E sv (n + length ts) p s us)"
  by (induction ts arbitrary: n previous previous_state)
     (auto simp: and_then_def split: sum.split)

lemma verify_entries_end:
  "verify_entries E sv n previous previous_state ts = Inr (p, s) \<Longrightarrow> ts \<noteq> [] \<Longrightarrow>
   p = Some (tr_entry_digest (last ts)) \<and> s = Some (tr_state (last ts))"
  by (induction ts arbitrary: n previous previous_state) (auto simp: result_simps split: if_splits)

lemma verify_chain_Ok:
  "verify_chain E j = Inr u \<longleftrightarrow>
     validate_receipt_version (rc_schema_version j) (rc_contract_version j) = Inr ()
     \<and> validate_package_authorization_shape (rc_schema_version j) (rc_package_authorization j) = Inr ()
     \<and> rc_transitions j \<noteq> [] \<and> tr_state (hd (rc_transitions j)) = StPrepared
     \<and> verify_entries E (rc_schema_version j) 0 None None (rc_transitions j)
         = Inr (Some (rc_receipt_id j), Some (rc_state j))
     \<and> progress_digest E (rc_schema_version j) (rc_operation_progress j) (rc_package_authorization j)
         = Inr (tr_progress_digest (last (rc_transitions j)))
     \<and> (\<forall>p\<in>set (rc_operation_progress j). operation_phase_supported (rc_schema_version j) (pr_phase p))"
  unfolding verify_chain_def
  by (auto simp: result_simps list_ex_iff split: if_splits prod.splits)

lemma from_receipt_Ok: "from_receipt E r = Inr j \<longleftrightarrow> j = r \<and> verify_chain E r = Inr ()"
  by (auto simp: from_receipt_def result_simps)

section \<open>Journal operations keep the chain\<close>

lemma new_versioned_verifies:
  assumes "new_versioned E run_id plan_id target desired observed policy bindings sv cv authorization = Inr j"
  shows "verify_chain E j = Inr ()"
proof -
  have "receipt_state_supported sv StPrepared" by (simp add: receipt_state_supported_def)
  then show ?thesis using assms
    by (auto simp: new_versioned_def result_simps verify_chain_Ok make_transition_Ok verify_entry_Ok)
qed

lemma next_entry_Ok:
  "next_entry E state j = Inr t \<longleftrightarrow>
     tr_sequence t = of_nat (length (rc_transitions j)) \<and> tr_state t = state
     \<and> tr_previous_digest t = last_entry j
     \<and> progress_digest E (rc_schema_version j) (rc_operation_progress j) (rc_package_authorization j)
         = Inr (tr_progress_digest t)
     \<and> digest_domain_json E (fst (transition_image (rc_schema_version j) t))
         (snd (transition_image (rc_schema_version j) t)) = Inr (tr_entry_digest t)"
  by (auto simp: next_entry_def result_simps make_transition_Ok)

text \<open>
  A journal whose entries verify but whose progress may have moved on, as between an update of
  the progress and the entry that records it.
\<close>

definition chain_open :: "env \<Rightarrow> receipt_journal \<Rightarrow> bool" where
  "chain_open E j \<longleftrightarrow>
     validate_receipt_version (rc_schema_version j) (rc_contract_version j) = Inr ()
     \<and> validate_package_authorization_shape (rc_schema_version j) (rc_package_authorization j) = Inr ()
     \<and> rc_transitions j \<noteq> [] \<and> tr_state (hd (rc_transitions j)) = StPrepared
     \<and> verify_entries E (rc_schema_version j) 0 None None (rc_transitions j)
         = Inr (Some (rc_receipt_id j), Some (rc_state j))
     \<and> (\<forall>p\<in>set (rc_operation_progress j). operation_phase_supported (rc_schema_version j) (pr_phase p))"

lemma chain_open_iff:
  "verify_chain E j = Inr u \<longleftrightarrow> chain_open E j
     \<and> progress_digest E (rc_schema_version j) (rc_operation_progress j) (rc_package_authorization j)
         = Inr (tr_progress_digest (last (rc_transitions j)))"
  by (auto simp: verify_chain_Ok chain_open_def)

lemma push_entry_verifies:
  assumes j: "chain_open E j" and t: "next_entry E state j = Inr t"
    and s: "receipt_state_supported (rc_schema_version j) state"
      "state = rc_state j \<or> legal_transition (rc_state j) state"
  shows "verify_chain E (push_entry t j) = Inr ()"
proof -
  have ne: "rc_transitions j \<noteq> []" using j by (simp add: chain_open_def)
  have v: "verify_entries E (rc_schema_version j) 0 None None (rc_transitions j)
      = Inr (Some (rc_receipt_id j), Some (rc_state j))" using j by (simp add: chain_open_def)
  have "last_entry j = Some (rc_receipt_id j)"
    using verify_entries_end [OF v ne] ne by (simp add: last_entry_def)
  then have "verify_entry E (rc_schema_version j) (of_nat (length (rc_transitions j)))
      (Some (rc_receipt_id j)) (Some (rc_state j)) t = Inr ()"
    using t s by (auto simp: next_entry_Ok verify_entry_Ok)
  then show ?thesis
    using j t v ne by (auto simp: verify_chain_Ok chain_open_def push_entry_def verify_entries_append next_entry_Ok)
qed

lemma chain_open_supported:
  "chain_open E j \<Longrightarrow> receipt_state_supported (rc_schema_version j) (rc_state j)"
proof -
  assume j: "chain_open E j"
  obtain ts t where ts: "rc_transitions j = ts @ [t]"
    using j by (cases "rc_transitions j" rule: rev_cases) (auto simp: chain_open_def)
  have "verify_entries E (rc_schema_version j) 0 None None (ts @ [t])
      = Inr (Some (rc_receipt_id j), Some (rc_state j))" using j ts by (simp add: chain_open_def)
  then show ?thesis
    by (auto simp: verify_entries_append result_simps verify_entry_Ok split: prod.splits)
qed

lemma append_progress_verifies:
  "chain_open E j \<Longrightarrow> append_progress_transition E j = (Inr u, j') \<Longrightarrow> verify_chain E j' = Inr ()"
  using push_entry_verifies [of E j "rc_state j"] chain_open_supported [of E j]
  by (auto simp: append_progress_transition_def split: sum.splits)

lemma journal_transition_verifies:
  assumes "verify_chain E j = Inr ()" "journal_transition E state j = (Inr u, j')"
  shows "verify_chain E j' = Inr ()"
  using assms push_entry_verifies [of E j state]
  by (auto simp: journal_transition_def chain_open_iff split: if_splits sum.splits)

lemma set_update_first_subset:
  "x \<in> set (update_first p f xs) \<Longrightarrow> x \<in> set xs \<or> (\<exists>y\<in>set xs. p y \<and> x = f y)"
  by (induction xs) (auto split: if_splits)

lemma record_operation_verifies:
  assumes j: "verify_chain E j = Inr ()" and r: "record_operation E i phase code j = (Inr u, j')"
  shows "verify_chain E j' = Inr ()"
proof -
  have s: "operation_phase_supported (rc_schema_version j) phase"
    using r by (auto simp: record_operation_def split: if_splits)
  show ?thesis
  proof (cases "progress_of j i")
    case None
    let ?j = "j\<lparr>rc_operation_progress := rc_operation_progress j
       @ [\<lparr>pr_operation_id = i, pr_phase = phase, pr_failure_code = code\<rparr>]\<rparr>"
    have "append_progress_transition E ?j = (Inr u, j')"
      using r None by (auto simp: record_operation_def split: if_splits)
    moreover have "chain_open E ?j" using j s by (auto simp: chain_open_iff chain_open_def)
    ultimately show ?thesis by (intro append_progress_verifies)
  next
    case (Some p)
    let ?j = "j\<lparr>rc_operation_progress := update_first (\<lambda>p. pr_operation_id p = i)
        (\<lambda>p. p\<lparr>pr_phase := phase, pr_failure_code := code\<rparr>) (rc_operation_progress j)\<rparr>"
    have "append_progress_transition E ?j = (Inr u, j')"
      using r Some by (auto simp: record_operation_def split: if_splits)
    moreover have "chain_open E ?j"
      using j s by (auto simp: chain_open_iff chain_open_def dest!: set_update_first_subset)
    ultimately show ?thesis by (intro append_progress_verifies)
  qed
qed

lemma check_evidence_Ok:
  "check_evidence es seen = Inr u \<longleftrightarrow>
     distinct (map ev_operation_id es) \<and> set (map ev_operation_id es) \<inter> seen = {}
     \<and> (\<forall>e\<in>set es. canonical_package_installed_versions (ev_manager e) (ev_before_installed_versions e)
            = Inr (ev_before_installed_versions e) \<and> evidence_exit_shape e)"
  by (induction es arbitrary: seen) (auto simp: result_simps split: if_splits)

lemma map_update_first:
  "(\<And>x. g (f x) = g x) \<Longrightarrow> map g (update_first p f xs) = map g xs"
  by (induction xs) auto

lemma check_evidence_update:
  assumes "check_evidence es {} = Inr ()" "(c = ExitSucceeded) = (d \<noteq> None)"
  shows "check_evidence (update_first (\<lambda>e. ev_operation_id e = i)
    (\<lambda>e. e\<lparr>ev_exit_classification := c, ev_final_digest := d\<rparr>) es) {} = Inr ()"
proof -
  have "evidence_exit_shape (e\<lparr>ev_exit_classification := c, ev_final_digest := d\<rparr>)" for e :: package_receipt_evidence
    using assms(2) by (cases c) (auto simp: evidence_exit_shape_def)
  then show ?thesis using assms(1)
    by (auto simp: check_evidence_Ok map_update_first dest!: set_update_first_subset)
qed

lemma update_first_Nil_iff [simp]: "update_first p f xs = [] \<longleftrightarrow> xs = []"
  by (cases xs) auto

lemma record_package_exit_verifies:
  assumes j: "verify_chain E j = Inr ()" and r: "record_package_exit E i c d j = (Inr u, j')"
  shows "verify_chain E j' = Inr ()"
proof -
  from r obtain a where a: "rc_package_authorization j = Some a" "(c = ExitSucceeded) = (d \<noteq> None)"
    "append_progress_transition E (j\<lparr>rc_package_authorization := Some (a\<lparr>pa_evidence :=
       update_first (\<lambda>e. ev_operation_id e = i)
         (\<lambda>e. e\<lparr>ev_exit_classification := c, ev_final_digest := d\<rparr>) (pa_evidence a)\<rparr>)\<rparr>) = (Inr u, j')"
    by (auto simp: record_package_exit_def split: option.splits if_splits)
  show ?thesis
  proof (rule append_progress_verifies [OF _ a(3)])
    show "chain_open E (j\<lparr>rc_package_authorization := Some (a\<lparr>pa_evidence :=
       update_first (\<lambda>e. ev_operation_id e = i)
         (\<lambda>e. e\<lparr>ev_exit_classification := c, ev_final_digest := d\<rparr>) (pa_evidence a)\<rparr>)\<rparr>)"
      using j a(1) check_evidence_update [OF _ a(2)]
      by (auto simp: chain_open_iff chain_open_def validate_package_authorization_shape_def
          result_simps split: if_splits)
  qed
qed

section \<open>Journal operations succeed\<close>

lemma progress_digest_total: "digests_ok E \<Longrightarrow> \<exists>d. progress_digest E sv p a = Inr d"
  unfolding progress_digest_def by (rule digest_domain_json_total)

lemma make_transition_total: "digests_ok E \<Longrightarrow> \<exists>t. make_transition_for_schema E sv n s p d = Inr t"
  using digest_domain_json_total [of E "transition_domain sv" "ser_transition_semantic n s p d"]
  by (auto simp: make_transition_for_schema_def)

lemma next_entry_total: "digests_ok E \<Longrightarrow> \<exists>t. next_entry E state j = Inr t"
  using progress_digest_total make_transition_total unfolding next_entry_def
  by (metis and_then_simps(2))

lemma journal_transition_total:
  assumes "digests_ok E" "receipt_state_supported (rc_schema_version j) state" "legal_transition (rc_state j) state"
  shows "\<exists>t. journal_transition E state j = (Inr (), push_entry t j) \<and> tr_state t = state"
proof -
  obtain t where t: "next_entry E state j = Inr t" using next_entry_total [OF assms(1)] by blast
  then have "tr_state t = state" by (simp add: next_entry_Ok)
  with t assms(2,3) show ?thesis
    by (intro exI [of _ t]) (simp add: journal_transition_def)
qed

lemma append_progress_total:
  assumes "digests_ok E"
  shows "\<exists>t. append_progress_transition E j = (Inr (), push_entry t j) \<and> tr_state t = rc_state j"
proof -
  obtain t where t: "next_entry E (rc_state j) j = Inr t" using next_entry_total [OF assms] by blast
  then have "tr_state t = rc_state j" by (simp add: next_entry_Ok)
  with t show ?thesis by (intro exI [of _ t]) (simp add: append_progress_transition_def)
qed

section \<open>Histories\<close>

definition chain_states :: "receipt_journal \<Rightarrow> receipt_state list" where
  "chain_states j = map tr_state (rc_transitions j)"

lemma verify_entries_adjacent:
  "verify_entries E sv n previous previous_state ts = Inr r \<Longrightarrow> Suc i < length ts \<Longrightarrow>
   tr_state (ts ! i) = tr_state (ts ! Suc i) \<or> legal_transition (tr_state (ts ! i)) (tr_state (ts ! Suc i))"
proof (induction ts arbitrary: n previous previous_state i)
  case (Cons t ts)
  have v: "verify_entries E sv (Suc n) (Some (tr_entry_digest t)) (Some (tr_state t)) ts = Inr r"
    using Cons.prems(1) by (auto simp: result_simps)
  show ?case
  proof (cases i)
    case 0
    then obtain u us where "ts = u # us" using Cons.prems(2) by (cases ts) auto
    then show ?thesis using v 0 by (auto simp: result_simps verify_entry_Ok)
  next
    case (Suc k)
    then show ?thesis using Cons.IH [OF v, of k] Cons.prems(2) by simp
  qed
qed simp

lemma verified_adjacent:
  assumes "verify_chain E j = Inr u" "Suc i < length (chain_states j)"
  shows "chain_states j ! i = chain_states j ! Suc i
    \<or> legal_transition (chain_states j ! i) (chain_states j ! Suc i)"
  using assms verify_entries_adjacent [of E "rc_schema_version j" 0 None None "rc_transitions j" _ i]
  by (auto simp: verify_chain_Ok chain_states_def)

lemma verified_first_last:
  assumes "verify_chain E j = Inr u"
  shows "chain_states j \<noteq> []" "hd (chain_states j) = StPrepared" "last (chain_states j) = rc_state j"
  using assms verify_entries_end [of E "rc_schema_version j" 0 None None "rc_transitions j"]
  by (auto simp: verify_chain_Ok chain_states_def hd_map last_map)

text \<open>A set of states that legal transitions never leave.\<close>

locale closed_states =
  fixes Q :: "receipt_state \<Rightarrow> bool"
  assumes closed: "Q s \<Longrightarrow> legal_transition s t \<Longrightarrow> Q t"
begin

lemma history:
  assumes "verify_chain E j = Inr u" "i \<le> k" "k < length (chain_states j)" "Q (chain_states j ! i)"
  shows "Q (chain_states j ! k)"
  using assms(2-4)
proof (induction k rule: dec_induct)
  case (step k)
  then have "Q (chain_states j ! k)" by simp
  then show ?case using verified_adjacent [OF assms(1), of k] step.prems closed by auto
qed

lemma current:
  assumes "verify_chain E j = Inr u" "i < length (chain_states j)" "Q (chain_states j ! i)"
  shows "Q (rc_state j)"
proof -
  note l = verified_first_last [OF assms(1)]
  have "Q (chain_states j ! (length (chain_states j) - 1))"
    by (rule history [OF assms(1) _ _ assms(3)]) (use assms(2) in auto)
  then show ?thesis using l by (simp add: last_conv_nth)
qed

end

definition forward_committed :: "receipt_state \<Rightarrow> bool" where
  "forward_committed s \<longleftrightarrow> s \<in> {StForwardRecoveryRequired, StConvergingForward, StForwardRecovered,
     StForwardRecoveryFailed}"

definition rolling_back :: "receipt_state \<Rightarrow> bool" where
  "rolling_back s \<longleftrightarrow> s \<in> {StRollingBack, StRolledBack, StRollbackFailed}"

definition finished :: "receipt_state \<Rightarrow> receipt_state \<Rightarrow> bool" where
  "finished f s \<longleftrightarrow> s = f \<and> f \<in> {StRolledBack, StRollbackFailed, StCanceled}"

lemma legal_transition_cases:
  "legal_transition s t \<longleftrightarrow>
     (s, t) \<in> {(StPrepared, StApplying), (StPrepared, StCanceled), (StApplying, StVerifying),
       (StApplying, StRecoveryRequired), (StApplying, StForwardRecoveryRequired),
       (StVerifying, StSucceeded), (StVerifying, StApplyingForward), (StVerifying, StRecoveryRequired),
       (StVerifying, StForwardRecoveryRequired), (StApplyingForward, StSucceeded),
       (StApplyingForward, StRecoveryRequired), (StApplyingForward, StForwardRecoveryRequired),
       (StRecoveryRequired, StRollingBack), (StForwardRecoveryRequired, StConvergingForward),
       (StConvergingForward, StForwardRecovered), (StConvergingForward, StForwardRecoveryFailed),
       (StForwardRecoveryFailed, StConvergingForward), (StForwardRecovered, StConvergingForward),
       (StSucceeded, StRollingBack), (StRollingBack, StRolledBack), (StRollingBack, StRollbackFailed)}"
  by (cases s) auto

interpretation forward_history: closed_states forward_committed
  by unfold_locales (auto simp: forward_committed_def legal_transition_cases)

interpretation rollback_history: closed_states rolling_back
  by unfold_locales (auto simp: rolling_back_def legal_transition_cases)

interpretation finished_history: closed_states "finished f"
  by unfold_locales (auto simp: finished_def legal_transition_cases)

section \<open>Tamper evidence\<close>

lemma ser_transition_semantic_inject [simp]:
  "ser_transition_semantic n s p d = ser_transition_semantic n' s' p' d' \<longleftrightarrow>
     n = n' \<and> s = s' \<and> p = p' \<and> d = d'"
proof
  assume "ser_transition_semantic n s p d = ser_transition_semantic n' s' p' d'"
  note f = json_struct_eqD [OF this [unfolded ser_transition_semantic_def], simplified]
  show "n = n' \<and> s = s' \<and> p = p' \<and> d = d'"
    using f [of "''sequence''"] f [of "''state''"] f [of "''previousDigest''"] f [of "''progressDigest''"]
    by auto
qed simp

definition entry_images :: "schema_version \<Rightarrow> receipt_transition list \<Rightarrow> (string \<times> json) set" where
  "entry_images sv ts = transition_image sv ` set ts"

lemma verify_entries_snoc:
  "verify_entries E sv 0 None None (ts @ [t]) = Inr r \<Longrightarrow>
     (\<exists>q. verify_entries E sv 0 None None ts = Inr q)
     \<and> tr_previous_digest t = (if ts = [] then None else Some (tr_entry_digest (last ts)))
     \<and> digest_domain_json E (fst (transition_image sv t)) (snd (transition_image sv t))
         = Inr (tr_entry_digest t)"
  using verify_entries_end [of E sv 0 None None ts]
  by (auto simp: verify_entries_append result_simps verify_entry_Ok split: prod.splits)

lemma verify_entries_unique:
  assumes "digests_distinct_on E (entry_images sv ts \<union> entry_images sv' us)"
    and "verify_entries E sv 0 None None ts = Inr r" "verify_entries E sv' 0 None None us = Inr r'"
    and "ts \<noteq> []" "us \<noteq> []" "tr_entry_digest (last ts) = tr_entry_digest (last us)"
  shows "ts = us \<and> transition_domain sv = transition_domain sv'"
  using assms
proof (induction ts arbitrary: us r r' rule: rev_induct)
  case (snoc t ts)
  obtain vs u where us: "us = vs @ [u]" using snoc.prems(5) by (cases us rule: rev_cases) auto
  note a = verify_entries_snoc [OF snoc.prems(2)] and b = verify_entries_snoc [OF snoc.prems(3) [unfolded us]]
  have e: "tr_entry_digest t = tr_entry_digest u" using snoc.prems(6) us by simp
  have "transition_image sv t = transition_image sv' u"
    using digests_distinct_onD [OF snoc.prems(1), of "fst (transition_image sv t)" "snd (transition_image sv t)"
        "fst (transition_image sv' u)" "snd (transition_image sv' u)"] a b e us
    by (simp add: entry_images_def prod_eq_iff)
  then have eq: "t = u" "transition_domain sv = transition_domain sv'"
    using e by (auto simp: transition_image_def intro: receipt_transition.equality)
  have "ts = vs"
  proof (cases "ts = []")
    case True
    then show ?thesis using a b eq(1) by (auto split: if_splits)
  next
    case False
    then have vs: "vs \<noteq> []" "tr_entry_digest (last ts) = tr_entry_digest (last vs)"
      using a b eq(1) by (auto split: if_splits)
    have "digests_distinct_on E (entry_images sv ts \<union> entry_images sv' vs)"
      using snoc.prems(1) unfolding digests_distinct_on_def us
      by (rule inj_on_subset) (auto simp: entry_images_def)
    then show ?thesis using snoc.IH [OF _ _ _ False vs] a b by blast
  qed
  then show ?case using eq us by simp
qed simp

definition receipt_images :: "run_receipt \<Rightarrow> (string \<times> json) set" where
  "receipt_images r = insert (progress_image (rc_schema_version r) (rc_operation_progress r)
       (rc_package_authorization r)) (entry_images (rc_schema_version r) (rc_transitions r))"

lemma version_from_domain:
  assumes "validate_receipt_version sv cv = Inr ()" "validate_receipt_version sv' cv' = Inr ()"
    and "transition_domain sv = transition_domain sv'"
  shows "sv = sv' \<and> cv = cv'"
  using assms
  by (cases sv; cases sv')
     (auto simp: validate_receipt_version_def transition_domain_def version_defs split: if_splits)

lemma progress_image_eqD:
  assumes "progress_image sv p a = progress_image sv q b"
    and "validate_package_authorization_shape sv a = Inr ()"
    and "validate_package_authorization_shape sv b = Inr ()"
  shows "p = q \<and> a = b"
  using assms
  by (auto simp: progress_image_def validate_package_authorization_shape_def result_simps json_option_def
      split: if_splits option.splits)

lemma verify_chain_binds:
  assumes r: "verify_chain E r = Inr ()" and r': "verify_chain E r' = Inr ()"
    and i: "rc_receipt_id r = rc_receipt_id r'"
    and d: "digests_distinct_on E (receipt_images r \<union> receipt_images r')"
  shows "rc_transitions r = rc_transitions r' \<and> rc_state r = rc_state r'
    \<and> rc_operation_progress r = rc_operation_progress r'
    \<and> rc_package_authorization r = rc_package_authorization r'
    \<and> rc_schema_version r = rc_schema_version r' \<and> rc_contract_version r = rc_contract_version r'"
proof -
  note v = r [unfolded verify_chain_Ok] and v' = r' [unfolded verify_chain_Ok]
  have l: "tr_entry_digest (last (rc_transitions r)) = rc_receipt_id r"
    "tr_entry_digest (last (rc_transitions r')) = rc_receipt_id r'"
    using v v' verify_entries_end [of E "rc_schema_version r" 0 None None "rc_transitions r"]
      verify_entries_end [of E "rc_schema_version r'" 0 None None "rc_transitions r'"] by simp_all
  have "digests_distinct_on E (entry_images (rc_schema_version r) (rc_transitions r)
      \<union> entry_images (rc_schema_version r') (rc_transitions r'))"
    using d unfolding digests_distinct_on_def by (rule inj_on_subset) (auto simp: receipt_images_def)
  from verify_entries_unique [OF this, of _ _] v v' l i
  have t: "rc_transitions r = rc_transitions r'"
    "transition_domain (rc_schema_version r) = transition_domain (rc_schema_version r')" by fastforce+
  then have sv: "rc_schema_version r = rc_schema_version r'" "rc_contract_version r = rc_contract_version r'"
    using version_from_domain v v' by blast+
  have s: "rc_state r = rc_state r'" using v v' t sv by simp
  let ?p = "progress_image (rc_schema_version r) (rc_operation_progress r) (rc_package_authorization r)"
  let ?q = "progress_image (rc_schema_version r') (rc_operation_progress r') (rc_package_authorization r')"
  have "?p = ?q"
    using digests_distinct_onD [OF d, of "fst ?p" "snd ?p" "fst ?q" "snd ?q"] v v' t
    by (simp add: progress_digest_def receipt_images_def prod_eq_iff)
  from progress_image_eqD [OF this [folded sv]] v v' t s sv show ?thesis by simp
qed

end
