(* ===== verification/Reconcile_Store.thy ===== *)
theory Reconcile_Store
  imports Journal_Chain
begin

text \<open>
  The receipt store of \<open>crates/commonkit-reconcile/src/lib.rs\<close>: one immutable snapshot file per
  journal entry, written to a temporary file, synchronized and renamed. A directory is the list of
  its entries in the order the operating system lists them; a file is represented by what
  \<open>serde_json::from_slice\<close> reads from it, \<open>None\<close> when it does not decode. Each call of
  \<open>persist\<close> takes the step at which the operating system fails, if any: an error there leaves
  the files as a crash at that point does. The mutex of the store is not modelled: calls are
  sequential.
\<close>

section \<open>Text of numbers\<close>

text \<open>\<open>{sequence:020}\<close>\<close>

definition pad20 :: "string \<Rightarrow> string" where
  "pad20 s = replicate (20 - length s) (CHR ''0'') @ s"

definition digits_value :: "string \<Rightarrow> nat" where
  "digits_value s = foldl (\<lambda>n c. 10 * n + (byte c - 48)) 0 s"

text \<open>\<open>str::parse::<u64>\<close>\<close>

definition parse_u64 :: "string \<Rightarrow> u64 option" where
  "parse_u64 s =
     (let digits = (case strip_prefix ''+'' s of None \<Rightarrow> s | Some r \<Rightarrow> r) in
      if digits \<noteq> [] \<and> list_all is_ascii_digit digits \<and> digits_value digits < 2 ^ 64
      then Some (of_nat (digits_value digits)) else None)"

section \<open>File names\<close>

text \<open>\<open>Path::extension\<close> of a file name: what follows the last dot, unless that is the first byte.\<close>

definition extension :: "string \<Rightarrow> string option" where
  "extension name =
     (case split_once (CHR ''.'') (rev name) of
        None \<Rightarrow> None
      | Some (after, before) \<Rightarrow> if before = [] then None else Some (rev after))"

function trim_start_matches :: "string \<Rightarrow> string \<Rightarrow> string" where
  "trim_start_matches p s =
     (if p \<noteq> [] \<and> starts_with s p then trim_start_matches p (drop (length p) s) else s)"
  by pat_completeness auto
termination
proof (relation "measure (\<lambda>(p, s). length s)", goal_cases)
  case (2 p s)
  then have "s \<noteq> []" by (auto simp: starts_with_def)
  with 2 show ?case by auto
qed simp

declare trim_start_matches.simps [simp del]

definition digest_hex :: "sha256_digest \<Rightarrow> string" where
  "digest_hex d = trim_start_matches ''sha256:'' (digest_str d)"

definition snapshot_name :: "nat \<Rightarrow> sha256_digest \<Rightarrow> string" where
  "snapshot_name n d = pad20 (decimal n) @ ''-'' @ digest_hex d @ ''.json''"

definition temporary_name :: "nat \<Rightarrow> sha256_digest \<Rightarrow> string" where
  "temporary_name n d = ''.'' @ pad20 (decimal n) @ ''-'' @ digest_hex d @ ''.tmp''"

section \<open>Files\<close>

type_synonym run_directory = "(string \<times> run_receipt option) list"
type_synonym receipt_store = "string \<Rightarrow> run_directory option"

datatype io_step = IoCreateDirectory | IoOpenTemporary | IoWrite | IoSync | IoRename | IoSyncDirectory

definition ser_transition :: "receipt_transition \<Rightarrow> json" where
  "ser_transition t = json_struct
     ([(''sequence'', json_u64 (tr_sequence t)),
       (''state'', JString (receipt_state_name (tr_state t)))]
      @ opt_field ''previousDigest'' ser_digest (tr_previous_digest t)
      @ [(''progressDigest'', ser_digest (tr_progress_digest t)),
         (''entryDigest'', ser_digest (tr_entry_digest t))])"

definition ser_run_receipt :: "run_receipt \<Rightarrow> json" where
  "ser_run_receipt r = json_struct
     ([(''schemaVersion'', json_u32 (schema_number (rc_schema_version r))),
       (''contractVersion'', JString (rc_contract_version r)),
       (''receiptId'', ser_digest (rc_receipt_id r)),
       (''runId'', ser_stable_id (rc_run_id r)),
       (''planId'', ser_digest (rc_plan_id r)),
       (''targetId'', ser_stable_id (rc_target_id r)),
       (''desiredDigest'', ser_digest (rc_desired_digest r)),
       (''observedDigest'', ser_digest (rc_observed_digest r)),
       (''policyDigest'', ser_digest (rc_policy_digest r)),
       (''bindings'', ser_plan_bindings (rc_bindings r))]
      @ opt_field ''packageAuthorization'' ser_package_authorization (rc_package_authorization r)
      @ [(''state'', JString (receipt_state_name (rc_state r))),
         (''operationProgress'', JArray (map ser_operation_progress (rc_operation_progress r))),
         (''transitions'', JArray (map ser_transition (rc_transitions r)))])"

section \<open>Loading a run\<close>

definition scan_entry ::
  "string \<times> run_receipt option \<Rightarrow> receipt_error + (u64 \<times> run_receipt option) option" where
  "scan_entry entry =
     (if extension (fst entry) \<noteq> Some ''json'' then Ok None
      else (case split_once (CHR ''-'') (fst entry) of
          None \<Rightarrow> Err InvalidSnapshotName
        | Some (value, _) \<Rightarrow>
            (case parse_u64 value of
               None \<Rightarrow> Err InvalidSnapshotName
             | Some sequence \<Rightarrow> Ok (Some (sequence, snd entry)))))"

fun scan_directory :: "run_directory \<Rightarrow> receipt_error + (u64 \<times> run_receipt option) list" where
  "scan_directory [] = Ok []"
| "scan_directory (entry # rest) =
     and_then (scan_entry entry) (\<lambda>found.
     and_then (scan_directory rest) (\<lambda>snapshots.
       Ok (case found of None \<Rightarrow> snapshots | Some x \<Rightarrow> x # snapshots)))"

fun replay_snapshots ::
  "env \<Rightarrow> stable_id \<Rightarrow> nat \<Rightarrow> run_receipt option \<Rightarrow> (u64 \<times> run_receipt option) list
   \<Rightarrow> receipt_error + run_receipt option" where
  "replay_snapshots E run_id expected previous [] = Ok previous"
| "replay_snapshots E run_id expected previous ((sequence, content) # rest) =
     (if sequence \<noteq> of_nat expected then Err SnapshotGap
      else and_then (ok_or ReceiptJson content) (\<lambda>receipt.
        if rc_run_id receipt \<noteq> run_id \<or> length (rc_transitions receipt) \<noteq> expected + 1
        then Err ConflictingHistory
        else and_then (from_receipt E receipt) (\<lambda>_.
          if (case previous of None \<Rightarrow> False
                | Some prior \<Rightarrow> rc_transitions prior
                    \<noteq> take (length (rc_transitions prior)) (rc_transitions receipt))
          then Err ConflictingHistory
          else replay_snapshots E run_id (Suc expected) (Some receipt) rest)))"

definition load_unlocked :: "env \<Rightarrow> receipt_store \<Rightarrow> stable_id \<Rightarrow> receipt_error + receipt_journal" where
  "load_unlocked E store run_id =
     (case store (sid_str run_id) of
        None \<Rightarrow> Err ReceiptIo
      | Some directory \<Rightarrow>
          and_then (scan_directory directory) (\<lambda>found.
            (let snapshots = sort_key fst found in
             if snapshots = [] then Err (ReceiptNotFound run_id)
             else and_then (replay_snapshots E run_id 0 None snapshots) (\<lambda>previous.
               (case previous of
                  None \<Rightarrow> Err (ReceiptNotFound run_id)
                | Some receipt \<Rightarrow> from_receipt E receipt)))))"

section \<open>Persisting a journal\<close>

definition create_directory :: "receipt_store \<Rightarrow> string \<Rightarrow> receipt_store" where
  "create_directory store name =
     (case store name of None \<Rightarrow> store(name \<mapsto> []) | Some _ \<Rightarrow> store)"

definition directory_of :: "receipt_store \<Rightarrow> string \<Rightarrow> run_directory" where
  "directory_of store name = (case store name of None \<Rightarrow> [] | Some d \<Rightarrow> d)"

text \<open>The early returns against the current snapshot; \<open>None\<close> goes on to write.\<close>

definition against_current ::
  "env \<Rightarrow> receipt_store \<Rightarrow> receipt_journal \<Rightarrow> (receipt_error + unit) option" where
  "against_current E store receipt =
     (case load_unlocked E store (rc_run_id receipt) of
        Inl _ \<Rightarrow> None
      | Inr current \<Rightarrow>
          (let current_count = length (rc_transitions current);
               incoming_count = length (rc_transitions receipt)
           in if current_count \<ge> incoming_count
              then (if current = receipt then Some (Ok ())
                    else Some (Err (StaleWrite (of_nat (current_count - 1)) (of_nat (incoming_count - 1)))))
              else if rc_transitions current \<noteq> take current_count (rc_transitions receipt)
              then Some (Err ConflictingHistory)
              else None))"

definition write_snapshot ::
  "env \<Rightarrow> io_step option \<Rightarrow> receipt_journal \<Rightarrow> run_directory \<Rightarrow> (receipt_error + unit) \<times> run_directory" where
  "write_snapshot E fault receipt directory =
     (let sequence = length (rc_transitions receipt) - 1;
          digest = tr_entry_digest (last (rc_transitions receipt));
          final_path = snapshot_name sequence digest;
          temporary_path = temporary_name sequence digest
      in if final_path \<in> fst ` set directory then (Ok (), directory)
         else (case canonical_json E (ser_run_receipt receipt) of
            Inl e \<Rightarrow> (Err (ReceiptContract e), directory)
          | Inr bytes \<Rightarrow>
              if temporary_path \<in> fst ` set directory \<or> fault = Some IoOpenTemporary
              then (Err ReceiptIo, directory)
              else if fault = Some IoWrite
              then (Err ReceiptIo, directory @ [(temporary_path, None)])
              else if fault = Some IoSync \<or> fault = Some IoRename
              then (Err ReceiptIo, directory @ [(temporary_path, Some receipt)])
              else if fault = Some IoSyncDirectory
              then (Err ReceiptIo, directory @ [(final_path, Some receipt)])
              else (Ok (), directory @ [(final_path, Some receipt)])))"

definition persist_unlocked ::
  "env \<Rightarrow> io_step option \<Rightarrow> receipt_journal \<Rightarrow> receipt_store \<Rightarrow> (receipt_error + unit) \<times> receipt_store" where
  "persist_unlocked E fault receipt store =
     (case verify_chain E receipt of
        Inl e \<Rightarrow> (Err e, store)
      | Inr _ \<Rightarrow>
          if fault = Some IoCreateDirectory then (Err ReceiptIo, store)
          else
            (let run = sid_str (rc_run_id receipt); opened = create_directory store run in
             case against_current E opened receipt of
               Some result \<Rightarrow> (result, opened)
             | None \<Rightarrow>
                 (case write_snapshot E fault receipt (directory_of opened run) of
                    (result, directory) \<Rightarrow> (result, opened(run \<mapsto> directory)))))"

end
