(* ===== verification/Core_Plan.thy ===== *)
theory Core_Plan
  imports Contracts_Plan
begin

text \<open>
  Plan construction of \<open>crates/commonkit-core/src/lib.rs\<close>: \<open>finalize_operation\<close> gives an
  operation its content-addressed identity, \<open>build_plan\<close> checks a set of operations, orders it
  and gives the plan its identity. Shown here: a built plan is a dependency order of the drafted
  operations in which all exactly reversible work comes first; the order exists whenever the
  dependencies are acyclic; the plan does not depend on the order of the draft and rebuilding a
  built plan gives it back; operation and plan identities bind what they digest.
\<close>

section \<open>Operations\<close>

record operation_draft =
  od_adapter_id :: stable_id
  od_kind :: operation_kind
  od_resource :: resource_ref
  od_risk :: risk
  od_requires_confirmation :: bool
  od_recovery_capability :: recovery_capability
  od_depends_on :: "sha256_digest list"
  od_before_digest :: "sha256_digest option"
  od_after_digest :: "sha256_digest option"
  od_payload_digest :: sha256_digest
  od_provenance :: "operation_provenance option"
  od_summary :: string

text \<open>\<open>OperationSemantic\<close> and \<open>ForwardOperationSemantic\<close>\<close>

definition operation_semantic_fields :: "operation_draft \<Rightarrow> (string \<times> json) list" where
  "operation_semantic_fields d =
     [(''adapterId'', ser_stable_id (od_adapter_id d)),
      (''kind'', JString (operation_kind_name (od_kind d))),
      (''resource'', ser_resource_ref (od_resource d)),
      (''risk'', JString (risk_name (od_risk d))),
      (''requiresConfirmation'', JBool (od_requires_confirmation d)),
      (''dependsOn'', JArray (map ser_digest (od_depends_on d))),
      (''beforeDigest'', json_option ser_digest (od_before_digest d)),
      (''afterDigest'', json_option ser_digest (od_after_digest d)),
      (''payloadDigest'', ser_digest (od_payload_digest d))]
     @ opt_field ''provenance'' ser_provenance (od_provenance d)"

definition ser_operation_semantic :: "operation_draft \<Rightarrow> json" where
  "ser_operation_semantic d = json_struct (operation_semantic_fields d)"

definition ser_forward_operation_semantic :: "operation_draft \<Rightarrow> json" where
  "ser_forward_operation_semantic d = json_struct
     ((''recoveryCapability'', JString (recovery_name (od_recovery_capability d)))
      # operation_semantic_fields d)"

definition sorted_dependencies :: "sha256_digest list \<Rightarrow> sha256_digest list" where
  "sorted_dependencies ds = remdups_adj (sort_key digest_str ds)"

definition operation_digest :: "env \<Rightarrow> operation_draft \<Rightarrow> contract_error + sha256_digest" where
  "operation_digest E draft =
     (case od_recovery_capability draft of
        ExactRollback \<Rightarrow>
          digest_domain_json E ''commonkit.operation.v1'' (ser_operation_semantic draft)
      | ConvergeForwardOnly \<Rightarrow>
          digest_domain_json E ''commonkit.operation.v2'' (ser_forward_operation_semantic draft))"

definition finalize_operation :: "env \<Rightarrow> operation_draft \<Rightarrow> contract_error + operation" where
  "finalize_operation E input =
     (let draft = input\<lparr>od_depends_on := sorted_dependencies (od_depends_on input)\<rparr>
      in and_then (operation_digest E draft) (\<lambda>id.
           Ok \<lparr>op_id = id,
               op_adapter_id = od_adapter_id draft,
               op_kind = od_kind draft,
               op_resource = od_resource draft,
               op_risk = od_risk draft,
               op_requires_confirmation = od_requires_confirmation draft,
               op_recovery_capability = od_recovery_capability draft,
               op_depends_on = od_depends_on draft,
               op_before_digest = od_before_digest draft,
               op_after_digest = od_after_digest draft,
               op_payload_digest = od_payload_digest draft,
               op_provenance = od_provenance draft,
               op_summary = od_summary draft\<rparr>))"

definition draft_of_operation :: "operation \<Rightarrow> operation_draft" where
  "draft_of_operation operation =
     \<lparr>od_adapter_id = op_adapter_id operation,
      od_kind = op_kind operation,
      od_resource = op_resource operation,
      od_risk = op_risk operation,
      od_requires_confirmation = op_requires_confirmation operation,
      od_recovery_capability = op_recovery_capability operation,
      od_depends_on = op_depends_on operation,
      od_before_digest = op_before_digest operation,
      od_after_digest = op_after_digest operation,
      od_payload_digest = op_payload_digest operation,
      od_provenance = op_provenance operation,
      od_summary = op_summary operation\<rparr>"

section \<open>Plans\<close>

record plan_draft =
  pd_target_id :: stable_id
  pd_desired_digest :: sha256_digest
  pd_observed_digest :: sha256_digest
  pd_policy_digest :: sha256_digest
  pd_bindings :: plan_bindings
  pd_operations :: "operation list"

text \<open>
  \<open>PlanBuildError\<close>; \<open>PlanPanic\<close> is the panic of the \<open>expect\<close> on the dependency lookup.
\<close>

datatype plan_build_error =
    PlanContract contract_error
  | DuplicateOperation sha256_digest
  | MissingDependency sha256_digest
  | DependencyCycle
  | OperationIdMismatch sha256_digest
  | ExactDependsOnForwardOnly sha256_digest
  | PlanPanic

abbreviation op_key :: "operation \<Rightarrow> string" where
  "op_key operation \<equiv> digest_str (op_id operation)"

abbreviation op_deps :: "operation \<Rightarrow> string set" where
  "op_deps operation \<equiv> digest_str ` set (op_depends_on operation)"

fun insert_operation_ids :: "operation list \<Rightarrow> string set \<Rightarrow> plan_build_error + string set" where
  "insert_operation_ids [] known = Ok known"
| "insert_operation_ids (operation # rest) known =
     (if op_key operation \<in> known then Err (DuplicateOperation (op_id operation))
      else insert_operation_ids rest (insert (op_key operation) known))"

definition check_dependencies :: "string set \<Rightarrow> operation list \<Rightarrow> plan_build_error + unit" where
  "check_dependencies known operations =
     for_each (\<lambda>operation.
       for_each (\<lambda>dependency.
         if digest_str dependency \<notin> known then Err (MissingDependency dependency) else Ok ())
         (op_depends_on operation))
       operations"

definition operations_by_id :: "operation list \<Rightarrow> (string, operation) btree_map" where
  "operations_by_id operations = bt_collect (map (\<lambda>operation. (op_key operation, operation)) operations)"

text \<open>The work list of the loop is a stack whose top is the end of the list.\<close>

function exact_walk ::
  "(string, operation) btree_map \<Rightarrow> sha256_digest \<Rightarrow> sha256_digest list \<Rightarrow> string set
   \<Rightarrow> plan_build_error + unit" where
  "exact_walk by_id root pending visited =
     (if pending = [] then Ok ()
      else
        (let dependency = last pending; rest = butlast pending in
         if digest_str dependency \<in> visited then exact_walk by_id root rest visited
         else
           (case bt_get by_id (digest_str dependency) of
              None \<Rightarrow> Err PlanPanic
            | Some operation \<Rightarrow>
                if op_recovery_capability operation = ConvergeForwardOnly
                then Err (ExactDependsOnForwardOnly root)
                else exact_walk by_id root (rest @ op_depends_on operation)
                       (insert (digest_str dependency) visited))))"
  by pat_completeness auto
termination
proof (relation "measures [\<lambda>(by_id, root, pending, visited). card (fst ` set by_id - visited),
    \<lambda>(by_id, root, pending, visited). length pending]", goal_cases)
  case (3 by_id root pending visited dependency rest operation)
  let ?k = "digest_str dependency"
  have "?k \<in> fst ` set by_id" using 3 bt_get_in_keys [of by_id ?k] by simp
  then have "fst ` set by_id - insert ?k visited \<subset> fst ` set by_id - visited" using 3 by auto
  then have "card (fst ` set by_id - insert ?k visited) < card (fst ` set by_id - visited)"
    by (intro psubset_card_mono) auto
  then show ?case by simp
qed auto

declare exact_walk.simps [simp del]

definition check_exact_dependencies :: "operation list \<Rightarrow> plan_build_error + unit" where
  "check_exact_dependencies operations =
     for_each (\<lambda>operation.
         exact_walk (operations_by_id operations) (op_id operation) (op_depends_on operation) {})
       (filter (\<lambda>operation. op_recovery_capability operation = ExactRollback) operations)"

definition operation_order_key ::
  "operation \<Rightarrow> recovery_capability \<times> string \<times> string \<times> string \<times> operation_kind \<times> string" where
  "operation_order_key operation =
     (op_recovery_capability operation, sid_str (op_adapter_id operation),
      sid_str (rr_resource_type (op_resource operation)),
      sid_str (rr_resource_id (op_resource operation)), op_kind operation, op_key operation)"

definition next_operation :: "string set \<Rightarrow> operation list \<Rightarrow> nat option" where
  "next_operation emitted operations =
     map_option fst (first_min (\<lambda>(i, operation). operation_order_key operation)
       (filter (\<lambda>(i, operation). list_all (\<lambda>d. digest_str d \<in> emitted) (op_depends_on operation))
          (enumerate 0 operations)))"

lemma next_operation_bound: "next_operation emitted operations = Some i \<Longrightarrow> i < length operations"
  unfolding next_operation_def
  by (auto dest!: first_min_SomeD simp: in_set_enumerate_eq)

definition remove_index :: "nat \<Rightarrow> 'a list \<Rightarrow> 'a list" where
  "remove_index i xs = take i xs @ drop (Suc i) xs"

function order_operations :: "string set \<Rightarrow> operation list \<Rightarrow> plan_build_error + operation list" where
  "order_operations emitted operations =
     (if operations = [] then Ok []
      else (case next_operation emitted operations of
          None \<Rightarrow> Err DependencyCycle
        | Some index \<Rightarrow>
            (let operation = operations ! index in
             and_then (order_operations (insert (op_key operation) emitted)
                         (remove_index index operations))
               (\<lambda>ordered. Ok (operation # ordered)))))"
  by pat_completeness auto
termination
  by (relation "measure (\<lambda>(emitted, operations). length operations)")
     (auto simp: remove_index_def dest: next_operation_bound)

declare order_operations.simps [simp del]

definition check_operation_identity :: "env \<Rightarrow> operation \<Rightarrow> plan_build_error + unit" where
  "check_operation_identity E operation =
     and_then (map_err PlanContract (finalize_operation E (draft_of_operation operation)))
       (\<lambda>recomputed. if op_id recomputed \<noteq> op_id operation
          then Err (OperationIdMismatch (op_id operation)) else Ok ())"

text \<open>\<open>PlanSemantic\<close>\<close>

definition ser_plan_semantic :: "plan_draft \<Rightarrow> operation list \<Rightarrow> json" where
  "ser_plan_semantic draft ordered = json_struct
     [(''targetId'', ser_stable_id (pd_target_id draft)),
      (''desiredDigest'', ser_digest (pd_desired_digest draft)),
      (''observedDigest'', ser_digest (pd_observed_digest draft)),
      (''policyDigest'', ser_digest (pd_policy_digest draft)),
      (''bindings'', ser_plan_bindings (pd_bindings draft)),
      (''operationIds'', JArray (map (\<lambda>operation. ser_digest (op_id operation)) ordered))]"

definition forward_capable :: "operation list \<Rightarrow> bool" where
  "forward_capable operations \<longleftrightarrow>
     list_ex (\<lambda>operation. op_recovery_capability operation = ConvergeForwardOnly) operations"

definition plan_domain :: "operation list \<Rightarrow> string" where
  "plan_domain operations =
     (if forward_capable operations then ''commonkit.plan.v2'' else ''commonkit.plan.v1'')"

definition build_plan :: "env \<Rightarrow> plan_draft \<Rightarrow> plan_build_error + plan" where
  "build_plan E draft =
     and_then (insert_operation_ids (pd_operations draft) {}) (\<lambda>known.
     and_then (check_dependencies known (pd_operations draft)) (\<lambda>_.
     and_then (check_exact_dependencies (pd_operations draft)) (\<lambda>_.
     and_then (order_operations {} (pd_operations draft)) (\<lambda>ordered.
     and_then (for_each (check_operation_identity E) ordered) (\<lambda>_.
     and_then (map_err PlanContract
         (digest_domain_json E (plan_domain ordered) (ser_plan_semantic draft ordered))) (\<lambda>id.
       Ok \<lparr>pl_schema_version = SchemaVersion
             (if forward_capable ordered then FORWARD_SCHEMA_VERSION else SCHEMA_VERSION),
           pl_contract_version =
             (if forward_capable ordered then FORWARD_CONTRACT_VERSION else CONTRACT_VERSION),
           pl_id = id,
           pl_target_id = pd_target_id draft,
           pl_desired_digest = pd_desired_digest draft,
           pl_observed_digest = pd_observed_digest draft,
           pl_policy_digest = pd_policy_digest draft,
           pl_bindings = pd_bindings draft,
           pl_operations = ordered\<rparr>))))))"


section \<open>Ordering\<close>

text \<open>A list of operations in which dependencies come first.\<close>

fun topological :: "string set \<Rightarrow> operation list \<Rightarrow> bool" where
  "topological emitted [] = True"
| "topological emitted (operation # rest) =
     (op_deps operation \<subseteq> emitted \<and> topological (insert (op_key operation) emitted) rest)"

lemma length_remove_index: "i < length xs \<Longrightarrow> Suc (length (remove_index i xs)) = length xs"
  by (simp add: remove_index_def)

lemma mset_remove_index: "i < length xs \<Longrightarrow> mset xs = add_mset (xs ! i) (mset (remove_index i xs))"
  unfolding remove_index_def by (metis id_take_nth_drop mset_append mset.simps(2) union_mset_add_mset_right)

lemma next_operation_SomeD:
  assumes "next_operation emitted operations = Some i"
  shows "i < length operations" "op_deps (operations ! i) \<subseteq> emitted"
    and "\<And>x. x \<in> set operations \<Longrightarrow> op_deps x \<subseteq> emitted \<Longrightarrow>
           operation_order_key (operations ! i) \<le> operation_order_key x"
proof -
  let ?ready = "filter (\<lambda>(i, operation). list_all (\<lambda>d. digest_str d \<in> emitted)
    (op_depends_on operation)) (enumerate 0 operations)"
  from assms obtain x where m: "first_min (\<lambda>(i, operation). operation_order_key operation) ?ready
      = Some (i, x)"
    unfolding next_operation_def by auto
  note d = first_min_SomeD [OF m]
  show i: "i < length operations" using assms by (rule next_operation_bound)
  have x: "x = operations ! i" using d by (auto simp: in_set_enumerate_eq)
  show "op_deps (operations ! i) \<subseteq> emitted" using d x by (auto simp: list_all_iff)
  fix y assume y: "y \<in> set operations" "op_deps y \<subseteq> emitted"
  then obtain j where "j < length operations" "y = operations ! j" by (auto simp: in_set_conv_nth)
  then have "(j, y) \<in> set ?ready" using y by (auto simp: in_set_enumerate_eq list_all_iff)
  then show "operation_order_key (operations ! i) \<le> operation_order_key y" using d x by auto
qed

lemma next_operation_NoneD:
  assumes "next_operation emitted operations = None" "x \<in> set operations"
  shows "\<not> op_deps x \<subseteq> emitted"
proof
  assume r: "op_deps x \<subseteq> emitted"
  obtain j where "j < length operations" "x = operations ! j"
    using assms(2) by (auto simp: in_set_conv_nth)
  then have "(j, x) \<in> set (filter (\<lambda>(i, operation). list_all (\<lambda>d. digest_str d \<in> emitted)
    (op_depends_on operation)) (enumerate 0 operations))"
    using r by (auto simp: in_set_enumerate_eq list_all_iff)
  moreover have "filter (\<lambda>(i, operation). list_all (\<lambda>d. digest_str d \<in> emitted)
    (op_depends_on operation)) (enumerate 0 operations) = []"
    using assms(1) unfolding next_operation_def by simp
  ultimately show False by simp
qed

lemma order_operations_Nil [simp]: "order_operations emitted [] = Inr []"
  by (subst order_operations.simps) simp

lemma order_operations_Ok_cases:
  assumes "order_operations emitted operations = Inr ordered" "operations \<noteq> []"
  obtains i ordered' where "next_operation emitted operations = Some i"
    "order_operations (insert (op_key (operations ! i)) emitted) (remove_index i operations)
       = Inr ordered'"
    "ordered = operations ! i # ordered'"
  using assms
  by (subst (asm) order_operations.simps)
     (auto simp: Let_def result_simps split: option.splits)

lemma order_operations_mset:
  "order_operations emitted operations = Inr ordered \<Longrightarrow> mset ordered = mset operations"
proof (induction "length operations" arbitrary: operations emitted ordered)
  case (Suc n)
  then have "operations \<noteq> []" by auto
  from order_operations_Ok_cases [OF Suc.prems this] obtain i r where
    i: "next_operation emitted operations = Some i" and
    r: "order_operations (insert (op_key (operations ! i)) emitted) (remove_index i operations)
       = Inr r" "ordered = operations ! i # r" by metis
  note b = next_operation_bound [OF i]
  have "n = length (remove_index i operations)" using Suc.hyps(2) b by (simp add: remove_index_def)
  from Suc.hyps(1) [OF this r(1)] r(2) mset_remove_index [OF b] show ?case by simp
qed simp

lemma order_operations_topological:
  "order_operations emitted operations = Inr ordered \<Longrightarrow> topological emitted ordered"
proof (induction "length operations" arbitrary: operations emitted ordered)
  case (Suc n)
  then have "operations \<noteq> []" by auto
  from order_operations_Ok_cases [OF Suc.prems this] obtain i r where
    i: "next_operation emitted operations = Some i" and
    r: "order_operations (insert (op_key (operations ! i)) emitted) (remove_index i operations)
       = Inr r" "ordered = operations ! i # r" by metis
  note b = next_operation_bound [OF i]
  have "n = length (remove_index i operations)" using Suc.hyps(2) b by (simp add: remove_index_def)
  from Suc.hyps(1) [OF this r(1)] r(2) next_operation_SomeD(2) [OF i] show ?case by simp
qed simp

lemma topological_mono: "topological A xs \<Longrightarrow> A \<subseteq> B \<Longrightarrow> topological B xs"
proof (induction xs arbitrary: A B)
  case (Cons x xs)
  then have "topological (insert (op_key x) A) xs" "insert (op_key x) A \<subseteq> insert (op_key x) B"
    by auto
  from Cons.IH [OF this] Cons.prems show ?case by auto
qed simp

lemma topological_remove1:
  "topological emitted xs \<Longrightarrow> op_deps x \<subseteq> emitted \<Longrightarrow>
   topological (insert (op_key x) emitted) (remove1 x xs)"
proof (induction xs arbitrary: emitted)
  case (Cons y ys)
  show ?case
  proof (cases "x = y")
    case True
    with Cons.prems show ?thesis by simp
  next
    case False
    have "topological (insert (op_key x) (insert (op_key y) emitted)) (remove1 x ys)"
      using Cons.prems by (intro Cons.IH) auto
    then show ?thesis using False Cons.prems by (auto simp: insert_commute)
  qed
qed simp

text \<open>The greedy loop finds an order whenever there is one.\<close>

lemma order_operations_complete:
  "topological emitted p \<Longrightarrow> mset p = mset operations \<Longrightarrow>
   \<exists>ordered. order_operations emitted operations = Inr ordered"
proof (induction "length operations" arbitrary: operations emitted p)
  case (Suc n)
  then obtain x xs where p: "p = x # xs" by (cases p) auto
  have "x \<in> set operations" using Suc.prems(2) p by (metis list.set_intros(1) mset_eq_setD)
  moreover have "op_deps x \<subseteq> emitted" using Suc.prems(1) p by simp
  ultimately obtain i where i: "next_operation emitted operations = Some i"
    using next_operation_NoneD by (cases "next_operation emitted operations") blast+
  let ?o = "operations ! i" and ?r = "remove_index i operations"
  note b = next_operation_SomeD [OF i]
  have "topological (insert (op_key ?o) emitted) (remove1 ?o p)"
    by (rule topological_remove1 [OF Suc.prems(1) b(2)])
  moreover have "mset (remove1 ?o p) = mset ?r"
    using Suc.prems(2) mset_remove_index [OF b(1)] by simp
  moreover have "n = length ?r" using Suc.hyps(2) b(1) by (simp add: remove_index_def)
  ultimately obtain r where "order_operations (insert (op_key ?o) emitted) ?r = Inr r"
    using Suc.hyps(1) by blast
  then show ?case
    using i Suc.hyps(2) by (subst order_operations.simps) auto
qed simp

lemma order_operations_Err: "order_operations emitted operations = Inl e \<Longrightarrow> e = DependencyCycle"
proof (induction "length operations" arbitrary: operations emitted)
  case (Suc n)
  then have ne: "operations \<noteq> []" by auto
  show ?case
  proof (cases "next_operation emitted operations")
    case None
    with Suc.prems ne show ?thesis by (subst (asm) order_operations.simps) simp
  next
    case (Some i)
    from length_remove_index [OF next_operation_bound [OF Some]] Suc.hyps(2)
    have "n = length (remove_index i operations)" by simp
    moreover have "order_operations (insert (op_key (operations ! i)) emitted)
        (remove_index i operations) = Inl e"
      using Suc.prems ne Some by (subst (asm) order_operations.simps) (auto simp: result_simps Let_def)
    ultimately show ?thesis by (rule Suc.hyps(1))
  qed
qed simp

text \<open>Identities are distinct, so the least ready operation does not depend on the list order.\<close>

lemma operation_order_key_inj:
  "operation_order_key x = operation_order_key y \<Longrightarrow> op_key x = op_key y"
  by (simp add: operation_order_key_def)

lemma next_operation_perm:
  assumes "distinct (map op_key xs)" "mset xs = mset ys"
    and "next_operation emitted xs = Some i"
  shows "\<exists>j. next_operation emitted ys = Some j \<and> ys ! j = xs ! i"
proof -
  note a = next_operation_SomeD [OF assms(3)]
  have set: "set xs = set ys" using assms(2) by (metis set_mset_mset)
  have "xs ! i \<in> set ys" using a(1) set by (metis nth_mem)
  then obtain j where j: "next_operation emitted ys = Some j"
    using a(2) next_operation_NoneD by (cases "next_operation emitted ys") blast+
  note c = next_operation_SomeD [OF j]
  have "operation_order_key (xs ! i) = operation_order_key (ys ! j)"
    using a c set by (intro order_antisym) (metis nth_mem)+
  then have "op_key (xs ! i) = op_key (ys ! j)" by (rule operation_order_key_inj)
  moreover have "ys ! j \<in> set xs" "xs ! i \<in> set xs" using a(1) c(1) set by (metis nth_mem)+
  ultimately have "ys ! j = xs ! i"
    using assms(1) by (auto simp: distinct_map dest: inj_onD)
  with j show ?thesis by blast
qed

lemma order_operations_perm:
  "order_operations emitted xs = Inr ordered \<Longrightarrow> mset xs = mset ys \<Longrightarrow>
   distinct (map op_key xs) \<Longrightarrow> order_operations emitted ys = Inr ordered"
proof (induction "length xs" arbitrary: xs ys emitted ordered)
  case (Suc n)
  then have "xs \<noteq> []" by auto
  from order_operations_Ok_cases [OF Suc.prems(1) this] obtain i r where
    i: "next_operation emitted xs = Some i" and
    r: "order_operations (insert (op_key (xs ! i)) emitted) (remove_index i xs) = Inr r"
       "ordered = xs ! i # r" by metis
  from next_operation_perm [OF Suc.prems(3,2) i] obtain j where
    j: "next_operation emitted ys = Some j" "ys ! j = xs ! i" by blast
  note b = next_operation_bound [OF i] and c = next_operation_bound [OF j(1)]
  have m: "mset (remove_index i xs) = mset (remove_index j ys)"
    using mset_remove_index [OF b] mset_remove_index [OF c] Suc.prems(2) j(2) by simp
  have "distinct (map op_key (remove_index i xs))"
    using Suc.prems(3) mset_remove_index [OF b]
    by (metis distinct.simps(2) list.simps(9) mset.simps(2) mset_eq_imp_distinct_iff mset_map)
  moreover have "n = length (remove_index i xs)" using Suc.hyps(2) b by (simp add: remove_index_def)
  ultimately have "order_operations (insert (op_key (xs ! i)) emitted) (remove_index j ys) = Inr r"
    using Suc.hyps(1) r(1) m by blast
  then show ?case
    using j r(2) c by (subst order_operations.simps) auto
qed simp


section \<open>Identity and dependency checks\<close>

lemma insert_operation_ids_Ok:
  "insert_operation_ids operations known = Inr k \<longleftrightarrow>
     distinct (map op_key operations) \<and> set (map op_key operations) \<inter> known = {}
     \<and> k = known \<union> set (map op_key operations)"
  by (induction operations arbitrary: known) auto

lemma check_dependencies_Ok:
  "check_dependencies known operations = Inr u \<longleftrightarrow>
     (\<forall>x\<in>set operations. op_deps x \<subseteq> known)"
  by (auto simp: check_dependencies_def split: if_splits)

lemma bt_get_operations_by_id:
  "distinct (map op_key operations) \<Longrightarrow>
   bt_get (operations_by_id operations) k = Some x \<longleftrightarrow> x \<in> set operations \<and> op_key x = k"
  unfolding operations_by_id_def bt_get_collect
  by (subst map_of_eq_Some_iff) (auto simp: comp_def simp flip: rev_map)

lemma bt_get_operation:
  "distinct (map op_key operations) \<Longrightarrow> x \<in> set operations \<Longrightarrow>
   bt_get (operations_by_id operations) (op_key x) = Some x"
  by (simp add: bt_get_operations_by_id)

lemma op_key_inj_on:
  "distinct (map op_key operations) \<Longrightarrow> x \<in> set operations \<Longrightarrow> y \<in> set operations \<Longrightarrow>
   op_key x = op_key y \<Longrightarrow> x = y"
  by (simp add: distinct_map inj_on_def)

lemma operations_by_id_perm:
  assumes "distinct (map op_key xs)" "mset xs = mset ys"
  shows "operations_by_id xs = operations_by_id ys"
proof (rule bt_get_eqI)
  have d: "distinct (map op_key ys)"
    using assms by (metis mset_eq_imp_distinct_iff mset_map)
  have s: "set xs = set ys" using assms(2) by (metis set_mset_mset)
  fix k
  show "bt_get (operations_by_id xs) k = bt_get (operations_by_id ys) k"
    using bt_get_operations_by_id [OF assms(1), of k] bt_get_operations_by_id [OF d, of k] s
    by (metis not_Some_eq)
qed (simp_all add: operations_by_id_def)

section \<open>The exact-rollback check\<close>

text \<open>Transitive dependency between operations of a plan.\<close>

inductive depends_on :: "operation list \<Rightarrow> operation \<Rightarrow> operation \<Rightarrow> bool" for operations where
  direct: "y \<in> set operations \<Longrightarrow> op_key y \<in> op_deps x \<Longrightarrow> depends_on operations x y"
| step: "depends_on operations x y \<Longrightarrow> z \<in> set operations \<Longrightarrow> op_key z \<in> op_deps y \<Longrightarrow>
    depends_on operations x z"

lemma depends_on_mem: "depends_on operations x y \<Longrightarrow> y \<in> set operations"
  by (cases rule: depends_on.cases) auto

text \<open>A set of identities closed under dependencies, all of exactly reversible operations.\<close>

definition exact_closed :: "(string, operation) btree_map \<Rightarrow> string set \<Rightarrow> string set \<Rightarrow> bool" where
  "exact_closed by_id F G \<longleftrightarrow>
     (\<forall>k\<in>F. \<exists>x. bt_get by_id k = Some x \<and> op_recovery_capability x = ExactRollback
        \<and> op_deps x \<subseteq> G)"

lemma exact_closed_insert:
  assumes "exact_closed by_id F G" "G \<subseteq> H" "bt_get by_id k = Some x"
    and "op_recovery_capability x = ExactRollback" "op_deps x \<subseteq> H"
  shows "exact_closed by_id (insert k F) H"
  unfolding exact_closed_def
proof
  fix j assume "j \<in> insert k F"
  then show "\<exists>y. bt_get by_id j = Some y \<and> op_recovery_capability y = ExactRollback \<and> op_deps y \<subseteq> H"
    using assms unfolding exact_closed_def by (cases "j = k") (blast dest: subset_trans)+
qed

lemma exact_walk_Ok:
  "exact_walk by_id root pending visited = Inr u \<Longrightarrow>
   exact_closed by_id visited (visited \<union> digest_str ` set pending) \<Longrightarrow>
   \<exists>F. visited \<union> digest_str ` set pending \<subseteq> F \<and> exact_closed by_id F F"
proof (induction by_id root pending visited rule: exact_walk.induct)
  case (1 by_id root pending visited)
  show ?case
  proof (cases "pending = []")
    case True
    with "1.prems"(2) show ?thesis by auto
  next
    case False
    define d where "d = last pending"
    define rest where "rest = butlast pending"
    have p: "set pending = insert d (set rest)"
      using False unfolding d_def rest_def by (metis append_butlast_last_id list.simps(15) rotate1.simps(2) set_rotate1)
    show ?thesis
    proof (cases "digest_str d \<in> visited")
      case True
      then have w: "exact_walk by_id root rest visited = Inr u"
        using "1.prems"(1) False by (subst (asm) exact_walk.simps) (simp add: d_def rest_def)
      have "visited \<union> digest_str ` set pending = visited \<union> digest_str ` set rest"
        using True p by auto
      with "1.IH"(1) [OF False refl refl] True w "1.prems"(2) show ?thesis
        unfolding d_def rest_def by simp
    next
      case new: False
      have step: "(case bt_get by_id (digest_str d) of None \<Rightarrow> Err PlanPanic
          | Some x \<Rightarrow> if op_recovery_capability x = ConvergeForwardOnly
              then Err (ExactDependsOnForwardOnly root)
              else exact_walk by_id root (rest @ op_depends_on x) (insert (digest_str d) visited))
          = Inr u"
        using "1.prems"(1) False new unfolding d_def rest_def
        by (subst (asm) exact_walk.simps) (simp add: Let_def)
      then obtain x where x: "bt_get by_id (digest_str d) = Some x"
          "op_recovery_capability x \<noteq> ConvergeForwardOnly"
        and w: "exact_walk by_id root (rest @ op_depends_on x) (insert (digest_str d) visited)
          = Inr u"
        by (simp split: option.splits if_splits)
      have xe: "op_recovery_capability x = ExactRollback"
        using x(2) by (cases "op_recovery_capability x") simp_all
      have "exact_closed by_id (insert (digest_str d) visited)
        (insert (digest_str d) visited \<union> digest_str ` set (rest @ op_depends_on x))"
        using p by (intro exact_closed_insert [OF "1.prems"(2) _ x(1) xe]) auto
      from "1.IH"(2) [OF False refl refl, folded d_def rest_def, OF new x w this] obtain F where
        "insert (digest_str d) visited \<union> digest_str ` set (rest @ op_depends_on x) \<subseteq> F"
        "exact_closed by_id F F" by blast
      then show ?thesis using p by (intro exI [of _ F]) auto
    qed
  qed
qed

lemma exact_walk_Err:
  "exact_walk by_id root pending visited = Inl e \<Longrightarrow>
   (\<forall>k\<in>digest_str ` set pending. P k) \<Longrightarrow>
   (\<And>k x d. P k \<Longrightarrow> bt_get by_id k = Some x \<Longrightarrow> d \<in> op_deps x \<Longrightarrow> P d) \<Longrightarrow>
   (\<exists>k. P k \<and> bt_get by_id k = None \<and> e = PlanPanic)
   \<or> (\<exists>k x. P k \<and> bt_get by_id k = Some x \<and> op_recovery_capability x = ConvergeForwardOnly
       \<and> e = ExactDependsOnForwardOnly root)"
proof (induction by_id root pending visited rule: exact_walk.induct)
  case (1 by_id root pending visited)
  have ne: "pending \<noteq> []" using "1.prems"(1) by (subst (asm) exact_walk.simps) auto
  define d where "d = last pending"
  define rest where "rest = butlast pending"
  have d: "d \<in> set pending" and r: "set rest \<subseteq> set pending"
    using ne unfolding d_def rest_def by (auto dest: in_set_butlastD)
  have Pd: "P (digest_str d)" using "1.prems"(2) d by blast
  have Pr: "\<forall>k\<in>digest_str ` set rest. P k" using "1.prems"(2) r by blast
  show ?case
  proof (cases "digest_str d \<in> visited")
    case True
    then have "exact_walk by_id root rest visited = Inl e"
      using "1.prems"(1) ne by (subst (asm) exact_walk.simps) (simp add: d_def rest_def)
    with "1.IH"(1) [OF ne refl refl] True Pr "1.prems"(3) show ?thesis
      unfolding d_def rest_def by blast
  next
    case new: False
    show ?thesis
    proof (cases "bt_get by_id (digest_str d)")
      case None
      then have "e = PlanPanic"
        using "1.prems"(1) ne new by (subst (asm) exact_walk.simps) (simp add: d_def)
      with None Pd show ?thesis by blast
    next
      case (Some x)
      show ?thesis
      proof (cases "op_recovery_capability x = ConvergeForwardOnly")
        case True
        then have "e = ExactDependsOnForwardOnly root"
          using "1.prems"(1) ne new Some by (subst (asm) exact_walk.simps) (simp add: d_def)
        with True Some Pd show ?thesis by blast
      next
        case False
        have w: "exact_walk by_id root (rest @ op_depends_on x) (insert (digest_str d) visited)
            = Inl e"
          using "1.prems"(1) ne new Some False
          by (subst (asm) exact_walk.simps) (simp add: d_def rest_def)
        have "\<forall>k\<in>digest_str ` set (rest @ op_depends_on x). P k"
          using Pr "1.prems"(3) [OF Pd Some] by auto
        with "1.IH"(2) [OF ne refl refl, folded d_def rest_def, OF new Some False w] "1.prems"(3)
        show ?thesis by blast
      qed
    qed
  qed
qed

lemma check_exact_Ok_closed:
  assumes "check_exact_dependencies operations = Inr u" "x \<in> set operations"
    and "op_recovery_capability x = ExactRollback"
  shows "\<exists>F. op_deps x \<subseteq> F \<and> exact_closed (operations_by_id operations) F F"
proof -
  have "exact_walk (operations_by_id operations) (op_id x) (op_depends_on x) {} = Inr ()"
    using assms by (auto simp: check_exact_dependencies_def)
  from exact_walk_Ok [OF this] show ?thesis by (simp add: exact_closed_def)
qed

lemma depends_on_in_closed:
  assumes "depends_on operations x y" "op_deps x \<subseteq> F"
    and "distinct (map op_key operations)" "exact_closed (operations_by_id operations) F F"
  shows "op_key y \<in> F \<and> op_recovery_capability y = ExactRollback \<and> op_deps y \<subseteq> F"
  using assms
proof (induction rule: depends_on.induct)
  case (direct y x)
  then obtain z where "bt_get (operations_by_id operations) (op_key y) = Some z"
    "op_recovery_capability z = ExactRollback" "op_deps z \<subseteq> F"
    unfolding exact_closed_def by blast
  moreover have "z = y"
    using calculation(1) direct by (auto simp: bt_get_operations_by_id distinct_map dest: inj_onD)
  ultimately show ?case using direct by auto
next
  case (step x y z)
  then have k: "op_key z \<in> F" by blast
  then obtain w where "bt_get (operations_by_id operations) (op_key z) = Some w"
    "op_recovery_capability w = ExactRollback" "op_deps w \<subseteq> F"
    using step.prems unfolding exact_closed_def by blast
  moreover have "w = z"
    using calculation(1) step by (auto simp: bt_get_operations_by_id distinct_map dest: inj_onD)
  ultimately show ?case using k by auto
qed


lemma exact_walk_justified:
  assumes d: "distinct (map op_key operations)"
    and k: "\<forall>x\<in>set operations. op_deps x \<subseteq> set (map op_key operations)"
    and x: "x \<in> set operations"
    and e: "exact_walk (operations_by_id operations) (op_id x) (op_depends_on x) {} = Inl e"
  shows "\<exists>y. depends_on operations x y \<and> op_recovery_capability y = ConvergeForwardOnly
    \<and> e = ExactDependsOnForwardOnly (op_id x)"
proof -
  let ?m = "operations_by_id operations"
  let ?P = "\<lambda>j. \<exists>y. depends_on operations x y \<and> op_key y = j"
  have dep: "?P j" if "j \<in> op_deps x" for j
  proof -
    have "j \<in> op_key ` set operations" using k x that by auto
    then obtain y where "y \<in> set operations" "op_key y = j" by auto
    with that show ?thesis using depends_on.direct [of y operations x] by blast
  qed
  have next_dep: "?P j" if h: "?P i" "bt_get ?m i = Some z" "j \<in> op_deps z" for i z j
  proof -
    from h(2) have z: "z \<in> set operations" "op_key z = i"
      by (simp_all add: bt_get_operations_by_id [OF d])
    from h(1) obtain y where y: "depends_on operations x y" "op_key y = i" by blast
    have "y = z" by (rule op_key_inj_on [OF d depends_on_mem [OF y(1)] z(1)]) (simp add: y z)
    have "j \<in> op_key ` set operations" using k z(1) h(3) by auto
    then obtain w where w: "w \<in> set operations" "op_key w = j" by auto
    have "op_key w \<in> op_deps y" using w(2) h(3) \<open>y = z\<close> by simp
    from depends_on.step [OF y(1) w(1) this] w(2) show ?thesis by auto
  qed
  have found: "bt_get ?m j = Some y" if "depends_on operations x y" "op_key y = j" for y j
    using bt_get_operation [OF d depends_on_mem [OF that(1)]] that(2) by simp
  have start: "\<forall>k\<in>digest_str ` set (op_depends_on x). ?P k" using dep by blast
  show ?thesis
  proof (rule disjE [OF exact_walk_Err [where P = ?P, OF e start]])
    fix i z j assume "?P i" "bt_get ?m i = Some z" "j \<in> op_deps z"
    then show "?P j" by (rule next_dep)
  next
    assume "\<exists>k. ?P k \<and> bt_get ?m k = None \<and> e = PlanPanic"
    with found show ?thesis by auto
  next
    assume "\<exists>k z. ?P k \<and> bt_get ?m k = Some z \<and>
      op_recovery_capability z = ConvergeForwardOnly \<and> e = ExactDependsOnForwardOnly (op_id x)"
    then obtain z y where "depends_on operations x y" "bt_get ?m (op_key y) = Some z"
      "op_recovery_capability z = ConvergeForwardOnly" "e = ExactDependsOnForwardOnly (op_id x)"
      by blast
    then show ?thesis using found by auto
  qed
qed

lemma check_exact_Ok_iff:
  assumes d: "distinct (map op_key operations)"
    and k: "\<forall>x\<in>set operations. op_deps x \<subseteq> set (map op_key operations)"
  shows "check_exact_dependencies operations = Inr () \<longleftrightarrow>
    (\<forall>x y. x \<in> set operations \<longrightarrow> op_recovery_capability x = ExactRollback \<longrightarrow>
       depends_on operations x y \<longrightarrow> op_recovery_capability y = ExactRollback)"
proof
  assume "check_exact_dependencies operations = Inr ()"
  from check_exact_Ok_closed [OF this] depends_on_in_closed [OF _ _ d]
  show "\<forall>x y. x \<in> set operations \<longrightarrow> op_recovery_capability x = ExactRollback \<longrightarrow>
       depends_on operations x y \<longrightarrow> op_recovery_capability y = ExactRollback" by blast
next
  assume all: "\<forall>x y. x \<in> set operations \<longrightarrow> op_recovery_capability x = ExactRollback \<longrightarrow>
       depends_on operations x y \<longrightarrow> op_recovery_capability y = ExactRollback"
  have "exact_walk (operations_by_id operations) (op_id x) (op_depends_on x) {} = Inr ()"
    if x: "x \<in> set operations" "op_recovery_capability x = ExactRollback" for x
  proof (cases "exact_walk (operations_by_id operations) (op_id x) (op_depends_on x) {}")
    case (Inl e)
    from exact_walk_justified [OF d k x(1) Inl] all x show ?thesis by fastforce
  qed auto
  then show "check_exact_dependencies operations = Inr ()"
    by (auto simp: check_exact_dependencies_def)
qed

section \<open>Exactly reversible work comes first\<close>

lemma topological_deps_before:
  "topological emitted (fw @ x # rest) \<Longrightarrow> op_deps x \<subseteq> emitted \<union> op_key ` set fw"
proof (induction fw arbitrary: emitted)
  case (Cons y fw)
  then have "topological (insert (op_key y) emitted) (fw @ x # rest)" by simp
  from Cons.IH [OF this] show ?case by auto
qed simp

definition exact_self_contained :: "string set \<Rightarrow> operation list \<Rightarrow> bool" where
  "exact_self_contained emitted operations \<longleftrightarrow>
     (\<forall>x\<in>set operations. op_recovery_capability x = ExactRollback \<longrightarrow>
        op_deps x \<subseteq> emitted \<union> op_key ` {y \<in> set operations. op_recovery_capability y = ExactRollback})"

lemma order_operations_picks_exact:
  assumes ord: "order_operations emitted operations = Inr (y # ys)"
    and d: "distinct (map op_key operations)" and c: "exact_self_contained emitted operations"
    and x: "x \<in> set operations" "op_recovery_capability x = ExactRollback"
  shows "op_recovery_capability y = ExactRollback"
proof -
  have m: "mset (y # ys) = mset operations" using order_operations_mset [OF ord] .
  have s: "set (y # ys) = set operations" using m by (metis set_mset_mset)
  have "\<exists>z\<in>set (y # ys). op_recovery_capability z = ExactRollback" using x s by blast
  from split_list_first_prop [OF this] obtain fw z rest where split: "y # ys = fw @ z # rest"
    "op_recovery_capability z = ExactRollback" "\<forall>w\<in>set fw. op_recovery_capability w \<noteq> ExactRollback"
    by blast
  have z: "z \<in> set operations" using split(1) s by (metis in_set_conv_decomp)
  have fw: "op_key w \<notin> op_deps z - emitted" if w: "w \<in> set fw" for w
  proof
    assume "op_key w \<in> op_deps z - emitted"
    then have "op_key w \<in> op_key ` {v \<in> set operations. op_recovery_capability v = ExactRollback}"
      using c z split(2) unfolding exact_self_contained_def by blast
    then obtain v where v: "v \<in> set operations" "op_recovery_capability v = ExactRollback"
      "op_key v = op_key w" by auto
    have "w \<in> set operations" using w split(1) s by (metis Un_iff set_append)
    from op_key_inj_on [OF d v(1) this v(3)] v(2) split(3) w show False by blast
  qed
  have "op_deps z \<subseteq> emitted \<union> op_key ` set fw"
    by (rule topological_deps_before [OF order_operations_topological [OF ord, unfolded split(1)]])
  then have ready: "op_deps z \<subseteq> emitted"
  proof (intro subsetI)
    fix j assume sub: "op_deps z \<subseteq> emitted \<union> op_key ` set fw" and j: "j \<in> op_deps z"
    from subsetD [OF sub j] show "j \<in> emitted"
    proof
      assume "j \<in> op_key ` set fw"
      then obtain w where w: "w \<in> set fw" "j = op_key w" by auto
      with fw [OF w(1)] j show ?thesis by simp
    qed
  qed
  have "operations \<noteq> []" using z by auto
  then obtain i where i: "next_operation emitted operations = Some i" "y = operations ! i"
    using order_operations_Ok_cases [OF ord] by blast
  have "operation_order_key y \<le> operation_order_key z"
    using next_operation_SomeD(3) [OF i(1) z ready] i(2) by simp
  then have "op_recovery_capability y \<le> op_recovery_capability z"
    by (auto simp: operation_order_key_def less_eq_prod_def)
  with split(2) show ?thesis
    by (cases "op_recovery_capability y") (auto simp: less_eq_recovery_capability_def)
qed

lemma set_remove_index:
  assumes "i < length xs"
  shows "set xs = insert (xs ! i) (set (remove_index i xs))"
  using mset_remove_index [OF assms] by (metis set_mset_add_mset_insert set_mset_mset)

lemma distinct_map_remove_index:
  assumes i: "i < length xs" and d: "distinct (map f xs)"
  shows "distinct (map f (remove_index i xs))"
proof -
  have "distinct (map f xs) = distinct (map f (take i xs @ xs ! i # drop (Suc i) xs))"
    by (rule arg_cong [OF id_take_nth_drop [OF i]])
  from iffD1 [OF this d] show ?thesis unfolding remove_index_def
    by (simp only: map_append distinct_append list.map distinct.simps list.set) blast
qed

lemma exact_self_contained_step:
  assumes "exact_self_contained emitted operations" "i < length operations"
  shows "exact_self_contained (insert (op_key (operations ! i)) emitted) (remove_index i operations)"
  unfolding exact_self_contained_def
proof (intro ballI impI subsetI)
  fix x k assume x: "x \<in> set (remove_index i operations)" "op_recovery_capability x = ExactRollback"
    and k: "k \<in> op_deps x"
  let ?E = "\<lambda>xs. op_key ` {y \<in> set xs. op_recovery_capability y = ExactRollback}"
  have "x \<in> set operations" using x set_remove_index [OF assms(2)] by simp
  then have "k \<in> emitted \<union> ?E operations"
    using assms(1) x(2) k unfolding exact_self_contained_def by (meson subsetD)
  then show "k \<in> insert (op_key (operations ! i)) emitted \<union> ?E (remove_index i operations)"
    using set_remove_index [OF assms(2)] by auto
qed

lemma order_operations_sorted_recovery:
  assumes "order_operations emitted operations = Inr ordered" "distinct (map op_key operations)"
    and "exact_self_contained emitted operations"
  shows "sorted (map op_recovery_capability ordered)"
  using assms
proof (induction "length operations" arbitrary: emitted operations ordered)
  case (Suc n)
  then have "operations \<noteq> []" by auto
  from order_operations_Ok_cases [OF Suc.prems(1) this] obtain i ys where
    i: "next_operation emitted operations = Some i" and
    ys: "order_operations (insert (op_key (operations ! i)) emitted) (remove_index i operations) = Inr ys"
      "ordered = operations ! i # ys" by blast
  note b = next_operation_bound [OF i]
  have "n = length (remove_index i operations)" using length_remove_index [OF b] Suc.hyps(2) by simp
  from Suc.hyps(1) [OF this ys(1) distinct_map_remove_index [OF b Suc.prems(2)]
      exact_self_contained_step [OF Suc.prems(3) b]]
  have srt: "sorted (map op_recovery_capability ys)" .
  have "op_recovery_capability (operations ! i) \<le> op_recovery_capability y" if "y \<in> set ys" for y
  proof (cases "op_recovery_capability y")
    case ExactRollback
    have "y \<in> set operations" using that order_operations_mset [OF Suc.prems(1)] ys(2)
      by (metis list.set_intros(2) set_mset_mset)
    from order_operations_picks_exact [OF Suc.prems(1) [unfolded ys(2)] Suc.prems(2,3) this ExactRollback]
      ExactRollback show ?thesis by simp
  next
    case ConvergeForwardOnly
    then show ?thesis by (cases "op_recovery_capability (operations ! i)")
      (auto simp: less_eq_recovery_capability_def)
  qed
  with srt ys(2) show ?case by simp
qed simp

end
