(* ===== verification/Core_Identity.thy ===== *)
theory Core_Identity
  imports Core_Plan Contracts_Serial
begin

text \<open>
  Correctness of plan construction (\<open>Core_Plan\<close>): what a built plan guarantees, when it is
  built, and what the identities of operations and plans bind.
\<close>

section \<open>Operation identities\<close>

text \<open>The tagged value an operation's identity is the digest of.\<close>

definition normalized_draft :: "operation_draft \<Rightarrow> operation_draft" where
  "normalized_draft d = d\<lparr>od_depends_on := sorted_dependencies (od_depends_on d)\<rparr>"

definition operation_image :: "operation_draft \<Rightarrow> string \<times> json" where
  "operation_image draft = (let d = normalized_draft draft in
     case od_recovery_capability d of
       ExactRollback \<Rightarrow> (''commonkit.operation.v1'', ser_operation_semantic d)
     | ConvergeForwardOnly \<Rightarrow> (''commonkit.operation.v2'', ser_forward_operation_semantic d))"

lemma operation_digest_image:
  "operation_digest E (normalized_draft d) =
     digest_domain_json E (fst (operation_image d)) (snd (operation_image d))"
  by (simp add: operation_digest_def operation_image_def Let_def split: recovery_capability.split)

lemma finalize_operation_Ok:
  "finalize_operation E d = Inr x \<longleftrightarrow>
     operation_digest E (normalized_draft d) = Inr (op_id x) \<and> draft_of_operation x = normalized_draft d"
  by (cases x; cases d)
     (auto simp: finalize_operation_def normalized_draft_def draft_of_operation_def result_simps)

lemma semantic_fields_eqD:
  assumes "map_of (rev (operation_semantic_fields a)) = map_of (rev (operation_semantic_fields b))"
  shows "a\<lparr>od_summary := s, od_recovery_capability := c\<rparr> = b\<lparr>od_summary := s, od_recovery_capability := c\<rparr>"
proof -
  note f = fun_cong [OF assms [unfolded operation_semantic_fields_def], simplified struct_fields rev_append]
  show ?thesis
    using f [of "''adapterId''"] f [of "''kind''"] f [of "''resource''"] f [of "''risk''"]
      f [of "''requiresConfirmation''"] f [of "''dependsOn''"] f [of "''beforeDigest''"]
      f [of "''afterDigest''"] f [of "''payloadDigest''"] f [of "''provenance''"]
    by (cases a; cases b) (auto split: if_splits dest: map_option_injective [rotated])
qed

lemma no_recovery_field:
  "map_of (rev (operation_semantic_fields a)) ''recoveryCapability'' = None"
  by (auto simp: operation_semantic_fields_def opt_field_def split: option.split)

lemma ser_operation_semantic_eqD:
  assumes "ser_operation_semantic a = ser_operation_semantic b"
  shows "map_of (rev (operation_semantic_fields a)) = map_of (rev (operation_semantic_fields b))"
  using json_struct_eqD [OF assms [unfolded ser_operation_semantic_def]] by blast

lemma ser_forward_operation_semantic_eqD:
  assumes "ser_forward_operation_semantic a = ser_forward_operation_semantic b"
  shows "map_of (rev (operation_semantic_fields a)) = map_of (rev (operation_semantic_fields b))"
proof
  fix k
  note f = json_struct_eqD [OF assms [unfolded ser_forward_operation_semantic_def], simplified]
  show "map_of (rev (operation_semantic_fields a)) k = map_of (rev (operation_semantic_fields b)) k"
    using f [of k] no_recovery_field [of a] no_recovery_field [of b]
    by (cases "k = ''recoveryCapability''") (auto simp: map_add_def split: option.splits)
qed

lemma recovery_update_eqD:
  "a\<lparr>od_summary := s, od_recovery_capability := c\<rparr> = b\<lparr>od_summary := s, od_recovery_capability := c\<rparr> \<Longrightarrow>
   od_recovery_capability a = c \<Longrightarrow> od_recovery_capability b = c \<Longrightarrow>
   a\<lparr>od_summary := s\<rparr> = b\<lparr>od_summary := s\<rparr>"
  by (cases a; cases b) simp

lemma operation_image_eqD:
  assumes "operation_image a = operation_image b"
  shows "(normalized_draft a)\<lparr>od_summary := s\<rparr> = (normalized_draft b)\<lparr>od_summary := s\<rparr>"
proof -
  let ?a = "normalized_draft a" and ?b = "normalized_draft b"
  have c: "od_recovery_capability ?a = od_recovery_capability ?b"
    using assms by (auto simp: operation_image_def Let_def split: recovery_capability.splits)
  have m: "map_of (rev (operation_semantic_fields ?a)) = map_of (rev (operation_semantic_fields ?b))"
  proof (cases "od_recovery_capability ?a")
    case ExactRollback
    then have "ser_operation_semantic ?a = ser_operation_semantic ?b"
      using assms c by (simp add: operation_image_def Let_def)
    then show ?thesis by (rule ser_operation_semantic_eqD)
  next
    case ConvergeForwardOnly
    then have "ser_forward_operation_semantic ?a = ser_forward_operation_semantic ?b"
      using assms c by (simp add: operation_image_def Let_def)
    then show ?thesis by (rule ser_forward_operation_semantic_eqD)
  qed
  show ?thesis
    by (rule recovery_update_eqD [OF semantic_fields_eqD [OF m, where s = s and c = "od_recovery_capability ?a"]])
       (simp_all add: c)
qed

text \<open>\<open>finalize_operation\<close> gives the same identity to operations that differ only in their summary.\<close>

lemma operation_digest_summary:
  "operation_digest E (normalized_draft (d\<lparr>od_summary := s\<rparr>)) = operation_digest E (normalized_draft d)"
  by (simp add: operation_digest_def normalized_draft_def ser_operation_semantic_def
      ser_forward_operation_semantic_def operation_semantic_fields_def
      split: recovery_capability.split)

lemma sorted_dependencies_idem [simp]:
  "sorted_dependencies (sorted_dependencies ds) = sorted_dependencies ds"
proof -
  have "sorted (map digest_str (remdups_adj (sort_key digest_str ds)))"
    by (metis sorted_remdups_adj remdups_adj_map_injective inj_def sha256_digest.expand sorted_sort_key)
  then show ?thesis
    by (simp add: sorted_dependencies_def sort_key_id_if_sorted distinct_adj_altdef [THEN iffD1])
qed

lemma normalized_draft_idem [simp]: "normalized_draft (normalized_draft d) = normalized_draft d"
  by (simp add: normalized_draft_def)

lemma finalize_operation_idem:
  "finalize_operation E d = Inr x \<Longrightarrow> finalize_operation E (draft_of_operation x) = Inr x"
  by (simp add: finalize_operation_Ok)

section \<open>Built plans\<close>

definition identities_hold :: "env \<Rightarrow> operation list \<Rightarrow> bool" where
  "identities_hold E operations \<longleftrightarrow>
     (\<forall>x\<in>set operations. operation_digest E (normalized_draft (draft_of_operation x)) = Inr (op_id x))"

lemma finalize_operation_digest:
  "finalize_operation E d = Inl e \<longleftrightarrow> operation_digest E (normalized_draft d) = Inl e"
  "finalize_operation E d = Inr x \<Longrightarrow> operation_digest E (normalized_draft d) = Inr (op_id x)"
  by (auto simp: finalize_operation_def normalized_draft_def result_simps)

lemma check_operation_identity_Ok:
  "check_operation_identity E x = Inr u \<longleftrightarrow>
     operation_digest E (normalized_draft (draft_of_operation x)) = Inr (op_id x)"
proof (cases "finalize_operation E (draft_of_operation x)")
  case (Inl e)
  from iffD1 [OF finalize_operation_digest(1) this] this show ?thesis
    by (simp add: check_operation_identity_def)
next
  case (Inr y)
  from finalize_operation_digest(2) [OF this] Inr show ?thesis
    by (simp add: check_operation_identity_def)
qed

lemma check_identities_Ok:
  "for_each (check_operation_identity E) operations = Inr u \<longleftrightarrow> identities_hold E operations"
  by (simp add: identities_hold_def check_operation_identity_Ok result_simps)

definition built_plan :: "plan_draft \<Rightarrow> operation list \<Rightarrow> sha256_digest \<Rightarrow> plan" where
  "built_plan draft ordered identity =
     \<lparr>pl_schema_version = SchemaVersion
        (if forward_capable ordered then FORWARD_SCHEMA_VERSION else SCHEMA_VERSION),
      pl_contract_version =
        (if forward_capable ordered then FORWARD_CONTRACT_VERSION else CONTRACT_VERSION),
      pl_id = identity,
      pl_target_id = pd_target_id draft,
      pl_desired_digest = pd_desired_digest draft,
      pl_observed_digest = pd_observed_digest draft,
      pl_policy_digest = pd_policy_digest draft,
      pl_bindings = pd_bindings draft,
      pl_operations = ordered\<rparr>"

lemma build_plan_Ok:
  "build_plan E draft = Inr plan \<longleftrightarrow>
     distinct (map op_key (pd_operations draft))
     \<and> (\<forall>x\<in>set (pd_operations draft). op_deps x \<subseteq> set (map op_key (pd_operations draft)))
     \<and> check_exact_dependencies (pd_operations draft) = Inr ()
     \<and> (\<exists>ordered identity. order_operations {} (pd_operations draft) = Inr ordered
         \<and> identities_hold E ordered
         \<and> digest_domain_json E (plan_domain ordered) (ser_plan_semantic draft ordered) = Inr identity
         \<and> plan = built_plan draft ordered identity)"
  unfolding build_plan_def built_plan_def
  by (simp only: result_simps insert_operation_ids_Ok check_dependencies_Ok check_identities_Ok)
     auto

lemma check_exact_self_contained:
  assumes d: "distinct (map op_key operations)" and c: "check_exact_dependencies operations = Inr ()"
  shows "exact_self_contained {} operations"
  unfolding exact_self_contained_def
proof (intro ballI impI subsetI)
  fix x k assume x: "x \<in> set operations" "op_recovery_capability x = ExactRollback" and k: "k \<in> op_deps x"
  from check_exact_Ok_closed [OF c x] obtain F where
    F: "op_deps x \<subseteq> F" "exact_closed (operations_by_id operations) F F" by blast
  have "k \<in> F" using F(1) k by (rule subsetD)
  with F(2) obtain z where "bt_get (operations_by_id operations) k = Some z"
    "op_recovery_capability z = ExactRollback" unfolding exact_closed_def by blast
  then show "k \<in> {} \<union> op_key ` {y \<in> set operations. op_recovery_capability y = ExactRollback}"
    by (auto simp: bt_get_operations_by_id [OF d])
qed

lemma built_plan_sel [simp]:
  "pl_operations (built_plan draft ordered i) = ordered"
  "pl_id (built_plan draft ordered i) = i"
  "pl_target_id (built_plan draft ordered i) = pd_target_id draft"
  "pl_desired_digest (built_plan draft ordered i) = pd_desired_digest draft"
  "pl_observed_digest (built_plan draft ordered i) = pd_observed_digest draft"
  "pl_policy_digest (built_plan draft ordered i) = pd_policy_digest draft"
  "pl_bindings (built_plan draft ordered i) = pd_bindings draft"
  by (simp_all add: built_plan_def)

lemma digest_str_eq_iff: "digest_str a = digest_str b \<longleftrightarrow> a = b"
  by (auto intro: sha256_digest.expand)

lemma inj_digest_str: "inj digest_str"
  by (simp add: inj_def digest_str_eq_iff)

lemma distinct_op_id: "distinct (map op_key operations) \<longleftrightarrow> distinct (map op_id operations)"
  by (simp add: distinct_map inj_on_def digest_str_eq_iff)

text \<open>Dependencies first, by position.\<close>

lemma topological_index:
  assumes "topological {} ordered" "i < length ordered" "d \<in> set (op_depends_on (ordered ! i))"
  shows "\<exists>j<i. op_id (ordered ! j) = d"
proof -
  have "op_deps (ordered ! i) \<subseteq> {} \<union> op_key ` set (take i ordered)"
    by (rule topological_deps_before [of _ _ _ "drop (Suc i) ordered"])
       (simp add: id_take_nth_drop [OF assms(2), symmetric] assms(1))
  then have "digest_str d \<in> op_key ` set (take i ordered)" using assms(3) by auto
  then obtain x where "x \<in> set (take i ordered)" "op_id x = d"
    by (auto simp: digest_str_eq_iff)
  then show ?thesis using assms(2) by (auto simp: in_set_conv_nth)
qed

lemma build_plan_order_facts:
  assumes "build_plan E draft = Inr plan"
  shows "mset (pl_operations plan) = mset (pd_operations draft)
    \<and> distinct (map op_id (pl_operations plan))
    \<and> (\<forall>i<length (pl_operations plan). \<forall>d\<in>set (op_depends_on (pl_operations plan ! i)).
         \<exists>j<i. op_id (pl_operations plan ! j) = d)
    \<and> sorted (map op_recovery_capability (pl_operations plan))"
proof -
  from assms obtain ordered i where b:
    "distinct (map op_key (pd_operations draft))" "check_exact_dependencies (pd_operations draft) = Inr ()"
    "order_operations {} (pd_operations draft) = Inr ordered" "plan = built_plan draft ordered i"
    unfolding build_plan_Ok by blast
  note m = order_operations_mset [OF b(3)]
  have "distinct (map op_key ordered)" using b(1) m by (metis mset_eq_imp_distinct_iff mset_map)
  then have "distinct (map op_id ordered)" by (simp add: distinct_op_id)
  then show ?thesis using m order_operations_sorted_recovery [OF b(3,1) check_exact_self_contained [OF b(1,2)]]
      topological_index [OF order_operations_topological [OF b(3)]] b(4) by simp
qed

section \<open>When a plan is built\<close>

lemma build_plan_total:
  assumes "digests_ok E"
  shows "(\<exists>plan. build_plan E draft = Inr plan) \<longleftrightarrow>
     distinct (map op_id (pd_operations draft))
     \<and> (\<forall>x\<in>set (pd_operations draft). set (op_depends_on x) \<subseteq> op_id ` set (pd_operations draft))
     \<and> (\<exists>p. mset p = mset (pd_operations draft) \<and> topological {} p)
     \<and> (\<forall>x y. x \<in> set (pd_operations draft) \<longrightarrow> op_recovery_capability x = ExactRollback \<longrightarrow>
          depends_on (pd_operations draft) x y \<longrightarrow> op_recovery_capability y = ExactRollback)
     \<and> identities_hold E (pd_operations draft)"
    (is "?built \<longleftrightarrow> ?ids \<and> ?known \<and> ?acyclic \<and> ?exact \<and> ?identities")
proof -
  let ?ops = "pd_operations draft"
  have known: "?known \<longleftrightarrow> (\<forall>x\<in>set ?ops. op_deps x \<subseteq> set (map op_key ?ops))"
    by (simp add: inj_image_subset_iff [OF inj_digest_str, symmetric] image_image)
  have ids: "?ids \<longleftrightarrow> distinct (map op_key ?ops)" by (simp add: distinct_op_id)
  have ordered: "?acyclic \<longleftrightarrow> (\<exists>ordered. order_operations {} ?ops = Inr ordered)"
    using order_operations_complete order_operations_mset order_operations_topological by metis
  have same: "identities_hold E ordered \<longleftrightarrow> ?identities" if "order_operations {} ?ops = Inr ordered" for ordered
    using order_operations_mset [OF that] unfolding identities_hold_def by (metis set_mset_mset)
  have "?built \<longleftrightarrow> distinct (map op_key ?ops) \<and> (\<forall>x\<in>set ?ops. op_deps x \<subseteq> set (map op_key ?ops))
      \<and> check_exact_dependencies ?ops = Inr () \<and> ?acyclic \<and> ?identities"
    unfolding build_plan_Ok ordered using same digest_domain_json_total [OF assms] by fast
  then show ?thesis unfolding ids known using check_exact_Ok_iff by blast
qed

section \<open>Why a plan is refused\<close>

definition plan_error_justified :: "env \<Rightarrow> plan_draft \<Rightarrow> plan_build_error \<Rightarrow> bool" where
  "plan_error_justified E draft e = (case e of
     DuplicateOperation d \<Rightarrow> \<exists>xs x ys y zs. pd_operations draft = xs @ x # ys @ y # zs \<and> op_id x = d \<and> op_id y = d
   | MissingDependency d \<Rightarrow>
       d \<notin> op_id ` set (pd_operations draft) \<and> (\<exists>x\<in>set (pd_operations draft). d \<in> set (op_depends_on x))
   | DependencyCycle \<Rightarrow> \<nexists>p. mset p = mset (pd_operations draft) \<and> topological {} p
   | OperationIdMismatch d \<Rightarrow> \<exists>x\<in>set (pd_operations draft). op_id x = d
       \<and> operation_digest E (normalized_draft (draft_of_operation x)) \<noteq> Inr d
   | ExactDependsOnForwardOnly d \<Rightarrow> \<exists>x y. x \<in> set (pd_operations draft) \<and> op_id x = d
       \<and> op_recovery_capability x = ExactRollback \<and> depends_on (pd_operations draft) x y
       \<and> op_recovery_capability y = ConvergeForwardOnly
   | PlanContract c \<Rightarrow> \<not> digests_ok E
   | PlanPanic \<Rightarrow> False)"

lemma insert_operation_ids_Err:
  "insert_operation_ids operations known = Inl e \<Longrightarrow>
   \<exists>xs x ys. operations = xs @ x # ys \<and> e = DuplicateOperation (op_id x) \<and>
     op_key x \<in> known \<union> op_key ` set xs"
proof (induction operations arbitrary: known)
  case (Cons a operations)
  show ?case
  proof (cases "op_key a \<in> known")
    case True
    then show ?thesis using Cons.prems by (intro exI [of _ "[]"]) auto
  next
    case False
    with Cons.IH [of "insert (op_key a) known"] Cons.prems obtain xs x ys where
      "operations = xs @ x # ys" "e = DuplicateOperation (op_id x)"
      "op_key x \<in> insert (op_key a) known \<union> op_key ` set xs" by auto
    then show ?thesis by (intro exI [of _ "a # xs"] exI [of _ x] exI [of _ ys]) auto
  qed
qed simp

lemma check_dependencies_Err:
  assumes "check_dependencies known operations = Inl e"
  shows "\<exists>x\<in>set operations. \<exists>d\<in>set (op_depends_on x). digest_str d \<notin> known \<and> e = MissingDependency d"
proof -
  from for_each_ErrD [OF assms [unfolded check_dependencies_def]] obtain x where
    x: "x \<in> set operations" "for_each (\<lambda>d. if digest_str d \<notin> known then Inl (MissingDependency d) else Inr ())
      (op_depends_on x) = Inl e" by blast
  from for_each_ErrD [OF x(2)] x(1) show ?thesis by (auto split: if_splits)
qed

lemma check_exact_Err:
  assumes "check_exact_dependencies operations = Inl e"
  shows "\<exists>x\<in>set operations. op_recovery_capability x = ExactRollback \<and>
    exact_walk (operations_by_id operations) (op_id x) (op_depends_on x) {} = Inl e"
  using for_each_ErrD [OF assms [unfolded check_exact_dependencies_def]] by auto

lemma check_operation_identity_Err:
  assumes "check_operation_identity E x = Inl e"
  shows "(\<exists>c. e = PlanContract c \<and> \<not> digests_ok E) \<or>
    e = OperationIdMismatch (op_id x)
      \<and> operation_digest E (normalized_draft (draft_of_operation x)) \<noteq> Inr (op_id x)"
proof (cases "finalize_operation E (draft_of_operation x)")
  case (Inl c)
  from iffD1 [OF finalize_operation_digest(1) this] have "\<not> digests_ok E"
    unfolding operation_digest_image using digest_domain_json_not_Err by blast
  then show ?thesis using assms Inl by (auto simp: check_operation_identity_def)
next
  case (Inr y)
  then have "e = OperationIdMismatch (op_id x)"
    using assms by (auto simp: check_operation_identity_def split: if_splits)
  then show ?thesis using assms check_operation_identity_Ok [of E x "()"] by auto
qed

lemma duplicate_justified:
  assumes "insert_operation_ids (pd_operations draft) {} = Inl e"
  shows "plan_error_justified E draft e"
proof -
  from insert_operation_ids_Err [OF assms] obtain xs x ys where split: "pd_operations draft = xs @ x # ys"
    "e = DuplicateOperation (op_id x)" "op_key x \<in> op_key ` set xs" by auto
  from split(3) obtain y where y: "y \<in> set xs" "op_id y = op_id x" by (auto simp: digest_str_eq_iff)
  from split_list [OF y(1)] obtain as bs where "pd_operations draft = as @ y # bs @ x # ys"
    using split(1) by auto
  with y(2) show ?thesis unfolding plan_error_justified_def split(2) plan_build_error.case by blast
qed

lemma exact_error_justified:
  assumes "distinct (map op_key (pd_operations draft))"
    and "\<forall>x\<in>set (pd_operations draft). op_deps x \<subseteq> set (map op_key (pd_operations draft))"
    and "check_exact_dependencies (pd_operations draft) = Inl e"
  shows "plan_error_justified E draft e"
proof -
  from check_exact_Err [OF assms(3)] obtain x where x: "x \<in> set (pd_operations draft)"
    "op_recovery_capability x = ExactRollback" "exact_walk (operations_by_id (pd_operations draft)) (op_id x)
      (op_depends_on x) {} = Inl e" by blast
  from exact_walk_justified [OF assms(1,2) x(1,3)] obtain y where
    y: "depends_on (pd_operations draft) x y" "op_recovery_capability y = ConvergeForwardOnly" and
    e: "e = ExactDependsOnForwardOnly (op_id x)" by blast
  from y x(1,2) show ?thesis unfolding plan_error_justified_def e plan_build_error.case by blast
qed

lemma identity_error_justified:
  assumes "order_operations {} (pd_operations draft) = Inr ordered"
    and "for_each (check_operation_identity E) ordered = Inl e"
  shows "plan_error_justified E draft e"
proof -
  from for_each_ErrD [OF assms(2)] obtain x where
    x: "x \<in> set ordered" "check_operation_identity E x = Inl e" by blast
  have "x \<in> set (pd_operations draft)"
    using x(1) order_operations_mset [OF assms(1)] by (metis set_mset_mset)
  with check_operation_identity_Err [OF x(2)] show ?thesis
    unfolding plan_error_justified_def by auto
qed

lemma build_plan_Err:
  assumes e: "build_plan E draft = Inl e"
  shows "plan_error_justified E draft e"
proof -
  let ?ops = "pd_operations draft"
  consider (ids) "insert_operation_ids ?ops {} = Inl e"
    | (deps) known where "insert_operation_ids ?ops {} = Inr known" "check_dependencies known ?ops = Inl e"
    | (exact) known where "insert_operation_ids ?ops {} = Inr known" "check_dependencies known ?ops = Inr ()"
        "check_exact_dependencies ?ops = Inl e"
    | (order) "order_operations {} ?ops = Inl e"
    | (identity) ordered where "order_operations {} ?ops = Inr ordered"
        "for_each (check_operation_identity E) ordered = Inl e"
    | (digest) c t v where "e = PlanContract c" "digest_domain_json E t v = Inl c"
    using e unfolding build_plan_def by (auto simp: and_then_Err_iff map_err_Err_iff)
  then show ?thesis
  proof cases
    case ids
    then show ?thesis by (rule duplicate_justified)
  next
    case deps
    then have "known = op_key ` set ?ops" by (simp add: insert_operation_ids_Ok)
    with check_dependencies_Err [OF deps(2)] show ?thesis
      unfolding plan_error_justified_def by (force simp: image_iff)
  next
    case exact
    then show ?thesis
      by (intro exact_error_justified) (auto simp: insert_operation_ids_Ok check_dependencies_Ok)
  next
    case order
    with order_operations_Err order_operations_complete show ?thesis
      unfolding plan_error_justified_def by fastforce
  next
    case identity
    then show ?thesis by (rule identity_error_justified)
  next
    case digest
    then show ?thesis using digest_domain_json_not_Err unfolding plan_error_justified_def by auto
  qed
qed

section \<open>Canonical plans\<close>

definition draft_of_plan :: "plan \<Rightarrow> plan_draft" where
  "draft_of_plan plan =
     \<lparr>pd_target_id = pl_target_id plan,
      pd_desired_digest = pl_desired_digest plan,
      pd_observed_digest = pl_observed_digest plan,
      pd_policy_digest = pl_policy_digest plan,
      pd_bindings = pl_bindings plan,
      pd_operations = pl_operations plan\<rparr>"

lemma check_exact_perm:
  assumes "distinct (map op_key xs)" "mset xs = mset ys"
  shows "check_exact_dependencies xs = Inr () \<longleftrightarrow> check_exact_dependencies ys = Inr ()"
  using operations_by_id_perm [OF assms] mset_eq_setD [OF assms(2)]
  by (simp add: check_exact_dependencies_def)

lemma ser_plan_semantic_operations:
  "ser_plan_semantic (draft\<lparr>pd_operations := xs\<rparr>) ordered = ser_plan_semantic draft ordered"
  by (simp add: ser_plan_semantic_def)

lemma built_plan_operations:
  "built_plan (draft\<lparr>pd_operations := xs\<rparr>) ordered i = built_plan draft ordered i"
  by (simp add: built_plan_def)

lemma build_plan_perm:
  assumes b: "build_plan E draft = Inr plan" and m: "mset xs = mset (pd_operations draft)"
  shows "build_plan E (draft\<lparr>pd_operations := xs\<rparr>) = Inr plan"
proof -
  let ?ops = "pd_operations draft"
  from b obtain ordered i where p: "distinct (map op_key ?ops)"
    "\<forall>x\<in>set ?ops. op_deps x \<subseteq> set (map op_key ?ops)" "check_exact_dependencies ?ops = Inr ()"
    "order_operations {} ?ops = Inr ordered" "identities_hold E ordered"
    "digest_domain_json E (plan_domain ordered) (ser_plan_semantic draft ordered) = Inr i"
    "plan = built_plan draft ordered i"
    unfolding build_plan_Ok by blast
  have "distinct (map op_key xs)" using p(1) m by (metis mset_eq_imp_distinct_iff mset_map)
  moreover have "\<forall>x\<in>set xs. op_deps x \<subseteq> set (map op_key xs)"
    using p(2) mset_eq_setD [OF m] by simp
  moreover have "check_exact_dependencies xs = Inr ()"
    using p(3) check_exact_perm [OF p(1) m [symmetric]] by simp
  moreover have "order_operations {} xs = Inr ordered"
    by (rule order_operations_perm [OF p(4) m [symmetric] p(1)])
  ultimately show ?thesis
    unfolding build_plan_Ok using p(5-7)
    by (simp add: ser_plan_semantic_operations built_plan_operations)
qed

lemma draft_of_built_plan:
  "draft_of_plan (built_plan draft ordered i) = draft\<lparr>pd_operations := ordered\<rparr>"
  by (simp add: draft_of_plan_def built_plan_def)

lemma build_plan_rebuild:
  assumes "build_plan E draft = Inr plan"
  shows "build_plan E (draft_of_plan plan) = Inr plan"
proof -
  from assms obtain ordered i where p: "order_operations {} (pd_operations draft) = Inr ordered"
    "plan = built_plan draft ordered i" unfolding build_plan_Ok by blast
  show ?thesis unfolding p(2) draft_of_built_plan
    by (rule build_plan_perm [OF assms [unfolded p(2)] order_operations_mset [OF p(1)]])
qed

section \<open>Plan identities\<close>

definition plan_image :: "plan \<Rightarrow> string \<times> json" where
  "plan_image plan = (plan_domain (pl_operations plan),
     ser_plan_semantic (draft_of_plan plan) (pl_operations plan))"

lemma ser_plan_semantic_eqD:
  assumes "ser_plan_semantic a xs = ser_plan_semantic b ys"
  shows "pd_target_id a = pd_target_id b \<and> pd_desired_digest a = pd_desired_digest b
    \<and> pd_observed_digest a = pd_observed_digest b \<and> pd_policy_digest a = pd_policy_digest b
    \<and> pd_bindings a = pd_bindings b \<and> map op_id xs = map op_id ys"
proof -
  note f = json_struct_eqD [OF assms [unfolded ser_plan_semantic_def]]
  have "map op_id xs = map op_id ys"
  proof -
    have "map ser_digest (map op_id xs) = map ser_digest (map op_id ys)"
      using f [of "''operationIds''"] by (simp add: comp_def)
    then show ?thesis by (simp only: map_ser_digest_inject)
  qed
  then show ?thesis
    using f [of "''targetId''"] f [of "''desiredDigest''"] f [of "''observedDigest''"]
      f [of "''policyDigest''"] f [of "''bindings''"] by simp
qed

lemma build_plan_image:
  assumes "build_plan E draft = Inr plan"
  shows "digest_domain_json E (fst (plan_image plan)) (snd (plan_image plan)) = Inr (pl_id plan)"
  using assms unfolding build_plan_Ok
  by (auto simp: plan_image_def draft_of_built_plan ser_plan_semantic_operations)

text \<open>What two plans share when their identities agree: everything but operation summaries.\<close>

definition operation_content :: "operation \<Rightarrow> sha256_digest \<times> operation_draft" where
  "operation_content x = (op_id x, (normalized_draft (draft_of_operation x))\<lparr>od_summary := []\<rparr>)"

definition plan_images :: "plan \<Rightarrow> (string \<times> json) set" where
  "plan_images plan =
     insert (plan_image plan) ((\<lambda>x. operation_image (draft_of_operation x)) ` set (pl_operations plan))"

lemma identities_hold_same:
  assumes "op_id x = op_id y"
    and "operation_digest E (normalized_draft (draft_of_operation x)) = Inr (op_id x)"
    and "operation_digest E (normalized_draft (draft_of_operation y)) = Inr (op_id y)"
    and d: "digests_distinct_on E S" "operation_image (draft_of_operation x) \<in> S"
      "operation_image (draft_of_operation y) \<in> S"
  shows "operation_content x = operation_content y"
proof -
  let ?a = "operation_image (draft_of_operation x)" and ?b = "operation_image (draft_of_operation y)"
  have "?a = ?b"
    using assms(1-3) d(2,3) digests_distinct_onD [OF d(1), of "fst ?a" "snd ?a" "fst ?b" "snd ?b"]
    by (simp add: operation_digest_image prod_eq_iff)
  from operation_image_eqD [OF this] assms(1) show ?thesis by (simp add: operation_content_def)
qed

lemma build_plan_identities:
  "build_plan E draft = Inr plan \<Longrightarrow> identities_hold E (pl_operations plan)"
  unfolding build_plan_Ok by auto

lemma build_plan_binds:
  assumes p: "build_plan E a = Inr p" and q: "build_plan E b = Inr q" and i: "pl_id p = pl_id q"
    and d: "digests_distinct_on E (plan_images p \<union> plan_images q)"
  shows "pl_target_id p = pl_target_id q \<and> pl_desired_digest p = pl_desired_digest q
    \<and> pl_observed_digest p = pl_observed_digest q \<and> pl_policy_digest p = pl_policy_digest q
    \<and> pl_bindings p = pl_bindings q
    \<and> map operation_content (pl_operations p) = map operation_content (pl_operations q)"
proof -
  have "plan_image p = plan_image q"
    using build_plan_image [OF p] build_plan_image [OF q] i digests_distinct_onD [OF d, of
      "fst (plan_image p)" "snd (plan_image p)" "fst (plan_image q)" "snd (plan_image q)"]
    by (simp add: plan_images_def prod_eq_iff)
  then have "ser_plan_semantic (draft_of_plan p) (pl_operations p)
      = ser_plan_semantic (draft_of_plan q) (pl_operations q)" by (simp add: plan_image_def)
  note s = ser_plan_semantic_eqD [OF this]
  then have ids: "map op_id (pl_operations p) = map op_id (pl_operations q)" by simp
  have "operation_content (pl_operations p ! k) = operation_content (pl_operations q ! k)"
    if k: "k < length (pl_operations p)" for k
  proof (rule identities_hold_same [OF _ _ _ d])
    have k': "k < length (pl_operations q)" using k ids by (metis length_map)
    show "op_id (pl_operations p ! k) = op_id (pl_operations q ! k)"
      using ids k k' by (metis nth_map)
    show "operation_digest E (normalized_draft (draft_of_operation (pl_operations p ! k)))
        = Inr (op_id (pl_operations p ! k))"
      "operation_digest E (normalized_draft (draft_of_operation (pl_operations q ! k)))
        = Inr (op_id (pl_operations q ! k))"
      using build_plan_identities [OF p] build_plan_identities [OF q] k k'
      by (simp_all add: identities_hold_def)
    show "operation_image (draft_of_operation (pl_operations p ! k)) \<in> plan_images p \<union> plan_images q"
      "operation_image (draft_of_operation (pl_operations q ! k)) \<in> plan_images p \<union> plan_images q"
      using k k' by (auto simp: plan_images_def)
  qed
  then have "map operation_content (pl_operations p) = map operation_content (pl_operations q)"
    using ids by (metis (mono_tags, lifting) length_map map_equality_iff)
  then show ?thesis using s by (simp add: draft_of_plan_def)
qed

text \<open>An operation up to its summary, which identities do not cover.\<close>

lemma operation_eqI:
  "op_id x = op_id y \<Longrightarrow>
   (draft_of_operation x)\<lparr>od_summary := s\<rparr> = (draft_of_operation y)\<lparr>od_summary := s\<rparr> \<Longrightarrow>
   x\<lparr>op_summary := s\<rparr> = y\<lparr>op_summary := s\<rparr>"
  by (cases x; cases y) (simp add: draft_of_operation_def)

lemma finalize_operation_binds:
  assumes "finalize_operation E a = Inr x" "finalize_operation E b = Inr y" "op_id x = op_id y"
    and "digests_distinct_on E {operation_image a, operation_image b}"
  shows "x\<lparr>op_summary := s\<rparr> = y\<lparr>op_summary := s\<rparr>"
proof (rule operation_eqI [OF assms(3)])
  have "operation_image a = operation_image b"
    using assms(1,2,3) digests_distinct_onD [OF assms(4), of "fst (operation_image a)" "snd (operation_image a)"
      "fst (operation_image b)" "snd (operation_image b)"]
    by (simp add: finalize_operation_Ok operation_digest_image prod_eq_iff)
  from operation_image_eqD [OF this] assms(1,2)
  show "(draft_of_operation x)\<lparr>od_summary := s\<rparr> = (draft_of_operation y)\<lparr>od_summary := s\<rparr>"
    by (simp add: finalize_operation_Ok)
qed

end
