(* ===== verification/Reconcile_Engine.thy ===== *)
theory Reconcile_Engine
  imports Reconcile_Store Core_Identity
begin

text \<open>
  The reconciler of \<open>crates/commonkit-reconcile/src/lib.rs\<close>: execution of a plan under a receipt
  journal, crash recovery, and rollback. Adapters are a parameter: their methods act on a target
  world of any type. The state threads the journal, the store with the failures the operating
  system will show, the world, and a log of the adapter calls that read or change the target, each
  with the receipt that was durable when the call was made; the log is a specification device, no
  definition reads it.
\<close>

section \<open>Adapters and errors\<close>

record adapter_failure =
  af_code :: string
  af_message :: string

datatype recovery_observation = ObsBefore | ObsAfter | ObsOther

datatype reconcile_outcome =
    OutSucceeded | OutCanceled | OutRolledBack | OutRollbackFailed | OutForwardRecoveryRequired
  | OutForwardRecovered | OutForwardRecoveryFailed

fun outcome_state :: "reconcile_outcome \<Rightarrow> receipt_state" where
  "outcome_state OutSucceeded = StSucceeded"
| "outcome_state OutCanceled = StCanceled"
| "outcome_state OutRolledBack = StRolledBack"
| "outcome_state OutRollbackFailed = StRollbackFailed"
| "outcome_state OutForwardRecoveryRequired = StForwardRecoveryRequired"
| "outcome_state OutForwardRecovered = StForwardRecovered"
| "outcome_state OutForwardRecoveryFailed = StForwardRecoveryFailed"

type_synonym ('w, 'a) adapter_call = "operation \<Rightarrow> 'w \<Rightarrow> (adapter_failure + 'a) \<times> 'w"

record 'w adapter =
  ad_id :: stable_id
  ad_supports_operation :: "operation \<Rightarrow> 'w \<Rightarrow> bool"
  ad_supports_offline_recovery :: "operation \<Rightarrow> 'w \<Rightarrow> bool"
  ad_preflight :: "('w, unit) adapter_call"
  ad_package_authorization_binding ::
    "operation \<Rightarrow> 'w \<Rightarrow> adapter_failure
       + (package_operation_consent_binding \<times> package_receipt_evidence) option"
  ad_validate_evidence :: "operation \<Rightarrow> package_receipt_evidence \<Rightarrow> 'w \<Rightarrow> adapter_failure + unit"
  ad_package_final_digest :: "('w, sha256_digest option) adapter_call"
  ad_observe_recovery :: "('w, recovery_observation) adapter_call"
  ad_prepare_recovery :: "('w, unit) adapter_call"
  ad_converge_recovery :: "('w, unit) adapter_call"
  ad_prepare :: "('w, unit) adapter_call"
  ad_apply :: "('w, unit) adapter_call"
  ad_verify :: "('w, unit) adapter_call"
  ad_rollback :: "('w, unit) adapter_call"

datatype reconcile_error =
    ReReceipt receipt_error
  | RePlan plan_build_error
  | PlanMismatch
  | PackageConsentRequired
  | PackageConsentMismatch
  | PackageResolutionAuthorityMissing
  | PackageAuthorizationUnavailable stable_id
  | PackageConsentBindingChanged
  | PackageEvidenceUnavailable stable_id
  | AdapterPreflightFailed adapter_failure
  | AdapterNotFound stable_id
  | AdapterCapabilityUnsupported stable_id recovery_capability
  | AdapterOfflineRecoveryUnsupported stable_id
  | RollbackUnsupported
  | DurableStoreRequired
  | ReceiptPlanMismatch
  | ReceiptSnapshotChanged
  | RunAlreadyTerminal receipt_state

section \<open>State and sequencing\<close>

datatype call_kind =
  CallPrepare | CallApply | CallVerify | CallRollback | CallObserve | CallPrepareRecovery
  | CallConverge

record logged_call =
  lc_kind :: call_kind
  lc_operation :: operation
  lc_durable :: "run_receipt option"

record 'w engine =
  en_journal :: receipt_journal
  en_store :: "receipt_store option"
  en_faults :: "io_step option list"
  en_world :: 'w
  en_calls :: "logged_call list"

type_synonym ('w, 'a) engine_step = "'w engine \<Rightarrow> (reconcile_error + 'a) \<times> 'w engine"

definition ret :: "'a \<Rightarrow> ('w, 'a) engine_step" where
  "ret x s = (Ok x, s)"

definition raise :: "reconcile_error \<Rightarrow> ('w, 'a) engine_step" where
  "raise e s = (Err e, s)"

definition bind_step :: "('w, 'a) engine_step \<Rightarrow> ('a \<Rightarrow> ('w, 'b) engine_step) \<Rightarrow> ('w, 'b) engine_step" where
  "bind_step m f s = (case m s of (Inl e, t) \<Rightarrow> (Inl e, t) | (Inr x, t) \<Rightarrow> f x t)"

definition and_do :: "('w, unit) engine_step \<Rightarrow> ('w, 'b) engine_step \<Rightarrow> ('w, 'b) engine_step" where
  "and_do m k = bind_step m (\<lambda>_. k)"

definition lift_result :: "reconcile_error + 'a \<Rightarrow> ('w, 'a) engine_step" where
  "lift_result r s = (r, s)"

definition with_journal ::
  "(receipt_journal \<Rightarrow> (receipt_error + unit) \<times> receipt_journal) \<Rightarrow> ('w, unit) engine_step" where
  "with_journal f s = (case f (en_journal s) of (r, j) \<Rightarrow> (map_err ReReceipt r, s\<lparr>en_journal := j\<rparr>))"

definition get_journal :: "('w, receipt_journal) engine_step" where
  "get_journal s = (Ok (en_journal s), s)"

definition set_journal :: "receipt_journal \<Rightarrow> ('w, unit) engine_step" where
  "set_journal j s = (Ok (), s\<lparr>en_journal := j\<rparr>)"

definition step_transition :: "env \<Rightarrow> receipt_state \<Rightarrow> ('w, unit) engine_step" where
  "step_transition E state = with_journal (journal_transition E state)"

definition step_record ::
  "env \<Rightarrow> operation \<Rightarrow> operation_phase \<Rightarrow> stable_id option \<Rightarrow> ('w, unit) engine_step" where
  "step_record E operation phase code = with_journal (record_operation E (op_id operation) phase code)"

definition persist :: "env \<Rightarrow> ('w, unit) engine_step" where
  "persist E s =
     (case en_store s of
        None \<Rightarrow> (Ok (), s)
      | Some store \<Rightarrow>
          (let fault = (case en_faults s of [] \<Rightarrow> None | f # _ \<Rightarrow> f) in
           case persist_unlocked E fault (en_journal s) store of
             (r, store') \<Rightarrow> (map_err ReReceipt r,
               s\<lparr>en_store := Some store', en_faults := tl (en_faults s)\<rparr>)))"

text \<open>What a restart would load now, for the log.\<close>

definition durable_receipt :: "env \<Rightarrow> 'w engine \<Rightarrow> run_receipt option" where
  "durable_receipt E s =
     (case en_store s of
        None \<Rightarrow> None
      | Some store \<Rightarrow> (case load_unlocked E store (rc_run_id (en_journal s)) of
            Inl _ \<Rightarrow> None | Inr r \<Rightarrow> Some r))"

section \<open>Adapter calls\<close>

definition adapter_for :: "'w adapter list \<Rightarrow> stable_id \<Rightarrow> reconcile_error + 'w adapter" where
  "adapter_for adapters i =
     ok_or (AdapterNotFound i) (find (\<lambda>adapter. ad_id adapter = i) adapters)"

text \<open>A call of a method of the adapter of an operation; the failure is a value for the caller.\<close>

definition call_adapter ::
  "env \<Rightarrow> 'w adapter list \<Rightarrow> call_kind \<Rightarrow> ('w adapter \<Rightarrow> ('w, 'a) adapter_call) \<Rightarrow> operation
   \<Rightarrow> ('w, adapter_failure + 'a) engine_step" where
  "call_adapter E adapters kind method operation s =
     (case adapter_for adapters (op_adapter_id operation) of
        Inl e \<Rightarrow> (Inl e, s)
      | Inr adapter \<Rightarrow>
          (case method adapter operation (en_world s) of
             (r, w) \<Rightarrow> (Ok r, s\<lparr>en_world := w,
               en_calls := en_calls s @ [\<lparr>lc_kind = kind, lc_operation = operation,
                  lc_durable = durable_receipt E s\<rparr>]\<rparr>)))"

definition stable_failure_code :: "adapter_failure \<Rightarrow> stable_id" where
  "stable_failure_code failure =
     (case stable_id_parse (af_code failure) of
        Inl _ \<Rightarrow> StableId ''adapter_failure'' | Inr code \<Rightarrow> code)"

section \<open>Package evidence\<close>

definition record_package_failure_code ::
  "env \<Rightarrow> operation \<Rightarrow> stable_id \<Rightarrow> ('w, unit) engine_step" where
  "record_package_failure_code E operation code =
     bind_step get_journal (\<lambda>j.
       if is_package_operation operation \<and> rc_package_authorization j \<noteq> None
       then with_journal (record_package_exit E (op_id operation) (ExitFailed code) None)
       else ret ())"

definition record_package_failure ::
  "env \<Rightarrow> operation \<Rightarrow> adapter_failure \<Rightarrow> ('w, unit) engine_step" where
  "record_package_failure E operation failure =
     record_package_failure_code E operation (stable_failure_code failure)"

definition final_digest_of ::
  "'w adapter list \<Rightarrow> operation \<Rightarrow> ('w, sha256_digest) engine_step" where
  "final_digest_of adapters operation s =
     (case adapter_for adapters (op_adapter_id operation) of
        Inl e \<Rightarrow> (Inl e, s)
      | Inr adapter \<Rightarrow>
          (case ad_package_final_digest adapter operation (en_world s) of
             (r, w) \<Rightarrow>
               (and_then (map_err AdapterPreflightFailed r)
                  (ok_or (PackageEvidenceUnavailable (op_adapter_id operation))),
                s\<lparr>en_world := w\<rparr>)))"

definition record_package_success ::
  "env \<Rightarrow> 'w adapter list \<Rightarrow> operation \<Rightarrow> ('w, unit) engine_step" where
  "record_package_success E adapters operation =
     bind_step get_journal (\<lambda>j.
       if \<not> is_package_operation operation \<or> rc_package_authorization j = None then ret ()
       else bind_step (final_digest_of adapters operation) (\<lambda>digest.
         with_journal (record_package_exit E (op_id operation) ExitSucceeded (Some digest))))"

definition package_evidence_pending :: "receipt_journal \<Rightarrow> operation \<Rightarrow> bool" where
  "package_evidence_pending j operation =
     (case rc_package_authorization j of
        None \<Rightarrow> False
      | Some authorization \<Rightarrow>
          list_ex (\<lambda>evidence. ev_operation_id evidence = op_id operation
              \<and> ev_exit_classification evidence \<noteq> ExitSucceeded)
            (pa_evidence authorization))"

section \<open>Rollback\<close>

fun rollback_loop ::
  "env \<Rightarrow> 'w adapter list \<Rightarrow> operation list \<Rightarrow> bool \<Rightarrow> ('w, bool) engine_step" where
  "rollback_loop E adapters [] rollback_failed = ret rollback_failed"
| "rollback_loop E adapters (operation # rest) rollback_failed =
     bind_step (call_adapter E adapters CallRollback ad_rollback operation) (\<lambda>r.
       (case r of
          Inr _ \<Rightarrow> and_do (step_record E operation PhRolledBack None)
            (and_do (persist E) (rollback_loop E adapters rest rollback_failed))
        | Inl failure \<Rightarrow>
            and_do (step_record E operation PhRollbackFailed (Some (stable_failure_code failure)))
              (and_do (persist E) (rollback_loop E adapters rest True))))"

definition rollback_from_rolling_back ::
  "env \<Rightarrow> 'w adapter list \<Rightarrow> operation list \<Rightarrow> ('w, reconcile_outcome) engine_step" where
  "rollback_from_rolling_back E adapters applied =
     bind_step (rollback_loop E adapters (rev applied) False) (\<lambda>rollback_failed.
       (let outcome = (if rollback_failed then OutRollbackFailed else OutRolledBack) in
        and_do (step_transition E (outcome_state outcome))
          (and_do (persist E) (ret outcome))))"

definition recover ::
  "env \<Rightarrow> 'w adapter list \<Rightarrow> operation list \<Rightarrow> ('w, reconcile_outcome) engine_step" where
  "recover E adapters applied =
     and_do (step_transition E StRecoveryRequired)
      (and_do (persist E)
        (and_do (step_transition E StRollingBack)
          (and_do (persist E) (rollback_from_rolling_back E adapters applied))))"

definition require_forward_recovery :: "env \<Rightarrow> ('w, reconcile_outcome) engine_step" where
  "require_forward_recovery E =
     and_do (step_transition E StForwardRecoveryRequired)
       (and_do (persist E) (ret OutForwardRecoveryRequired))"

section \<open>Execution\<close>

text \<open>The block each failing call runs: record the phase, then the package evidence.\<close>

definition record_failure ::
  "env \<Rightarrow> operation \<Rightarrow> operation_phase \<Rightarrow> adapter_failure \<Rightarrow> ('w, unit) engine_step" where
  "record_failure E operation phase failure =
     and_do (step_record E operation phase (Some (stable_failure_code failure)))
      (and_do (persist E)
        (and_do (record_package_failure E operation failure) (persist E)))"

text \<open>A loop that returns early yields the outcome it returns.\<close>

fun prepare_loop ::
  "env \<Rightarrow> 'w adapter list \<Rightarrow> operation list \<Rightarrow> ('w, reconcile_outcome option) engine_step" where
  "prepare_loop E adapters [] = ret None"
| "prepare_loop E adapters (operation # rest) =
     bind_step (call_adapter E adapters CallPrepare ad_prepare operation) (\<lambda>r.
       (case r of
          Inr _ \<Rightarrow> and_do (step_record E operation PhPrepared None)
            (and_do (persist E) (prepare_loop E adapters rest))
        | Inl failure \<Rightarrow>
            and_do (record_failure E operation PhPrepareFailed failure)
              (and_do (step_transition E StCanceled)
                (and_do (persist E) (ret (Some OutCanceled))))))"

fun apply_exact_loop ::
  "env \<Rightarrow> 'w adapter list \<Rightarrow> operation list \<Rightarrow> operation list
   \<Rightarrow> ('w, reconcile_outcome + operation list) engine_step" where
  "apply_exact_loop E adapters [] applied = ret (Inr applied)"
| "apply_exact_loop E adapters (operation # rest) applied =
     and_do (step_record E operation PhApplyStarted None)
      (and_do (persist E)
        (bind_step (call_adapter E adapters CallApply ad_apply operation) (\<lambda>r.
          (case r of
             Inr _ \<Rightarrow> and_do (step_record E operation PhApplied None)
               (and_do (persist E) (apply_exact_loop E adapters rest (applied @ [operation])))
           | Inl failure \<Rightarrow>
               and_do (record_failure E operation PhApplyFailed failure)
                 (bind_step (recover E adapters (applied @ [operation])) (\<lambda>outcome.
                   ret (Inl outcome)))))))"

fun verify_exact_loop ::
  "env \<Rightarrow> 'w adapter list \<Rightarrow> operation list \<Rightarrow> operation list
   \<Rightarrow> ('w, reconcile_outcome option) engine_step" where
  "verify_exact_loop E adapters applied [] = ret None"
| "verify_exact_loop E adapters applied (operation # rest) =
     bind_step (call_adapter E adapters CallVerify ad_verify operation) (\<lambda>r.
       (case r of
          Inr _ \<Rightarrow> and_do (step_record E operation PhVerified None)
            (and_do (persist E) (verify_exact_loop E adapters applied rest))
        | Inl failure \<Rightarrow>
            and_do (record_failure E operation PhVerifyFailed failure)
              (bind_step (recover E adapters applied) (\<lambda>outcome. ret (Some outcome)))))"

fun apply_forward_loop ::
  "env \<Rightarrow> 'w adapter list \<Rightarrow> operation list \<Rightarrow> ('w, reconcile_outcome option) engine_step" where
  "apply_forward_loop E adapters [] = ret None"
| "apply_forward_loop E adapters (operation # rest) =
     and_do (step_record E operation PhApplyStarted None)
      (and_do (persist E)
        (bind_step (call_adapter E adapters CallApply ad_apply operation) (\<lambda>r.
          (case r of
             Inl failure \<Rightarrow>
               and_do (record_failure E operation PhApplyFailed failure)
                 (bind_step (require_forward_recovery E) (\<lambda>outcome. ret (Some outcome)))
           | Inr _ \<Rightarrow>
               and_do (step_record E operation PhApplied None)
                (and_do (persist E)
                  (bind_step (call_adapter E adapters CallVerify ad_verify operation) (\<lambda>v.
                    (case v of
                       Inl failure \<Rightarrow>
                         and_do (record_failure E operation PhVerifyFailed failure)
                           (bind_step (require_forward_recovery E) (\<lambda>outcome. ret (Some outcome)))
                     | Inr _ \<Rightarrow>
                         and_do (step_record E operation PhVerified None)
                          (and_do (persist E)
                            (and_do (record_package_success E adapters operation)
                              (and_do (persist E)
                                (apply_forward_loop E adapters rest))))))))))))"

definition exact_operations :: "plan \<Rightarrow> operation list" where
  "exact_operations plan =
     filter (\<lambda>operation. op_recovery_capability operation = ExactRollback) (pl_operations plan)"

definition forward_operations :: "plan \<Rightarrow> operation list" where
  "forward_operations plan =
     filter (\<lambda>operation. op_recovery_capability operation = ConvergeForwardOnly) (pl_operations plan)"

definition finish_run :: "env \<Rightarrow> ('w, reconcile_outcome) engine_step" where
  "finish_run E =
     and_do (step_transition E StSucceeded) (and_do (persist E) (ret OutSucceeded))"

definition run_forward ::
  "env \<Rightarrow> 'w adapter list \<Rightarrow> operation list \<Rightarrow> ('w, reconcile_outcome) engine_step" where
  "run_forward E adapters forward =
     and_do (if forward \<noteq> [] then and_do (step_transition E StApplyingForward) (persist E) else ret ())
       (bind_step (apply_forward_loop E adapters forward) (\<lambda>early.
         (case early of Some outcome \<Rightarrow> ret outcome | None \<Rightarrow> finish_run E)))"

definition run_verify ::
  "env \<Rightarrow> 'w adapter list \<Rightarrow> operation list \<Rightarrow> operation list \<Rightarrow> operation list
   \<Rightarrow> ('w, reconcile_outcome) engine_step" where
  "run_verify E adapters exact forward applied =
     and_do (step_transition E StVerifying)
      (and_do (persist E)
        (bind_step (verify_exact_loop E adapters applied exact) (\<lambda>early.
          (case early of Some outcome \<Rightarrow> ret outcome | None \<Rightarrow> run_forward E adapters forward))))"

definition run_apply ::
  "env \<Rightarrow> 'w adapter list \<Rightarrow> operation list \<Rightarrow> operation list \<Rightarrow> ('w, reconcile_outcome) engine_step" where
  "run_apply E adapters exact forward =
     and_do (step_transition E StApplying)
      (and_do (persist E)
        (bind_step (apply_exact_loop E adapters exact []) (\<lambda>r.
          (case r of Inl outcome \<Rightarrow> ret outcome
             | Inr applied \<Rightarrow> run_verify E adapters exact forward applied))))"

definition execute_preflighted ::
  "env \<Rightarrow> plan \<Rightarrow> 'w adapter list \<Rightarrow> ('w, reconcile_outcome) engine_step" where
  "execute_preflighted E plan adapters =
     and_do (persist E)
       (bind_step (prepare_loop E adapters (pl_operations plan)) (\<lambda>early.
         (case early of Some outcome \<Rightarrow> ret outcome
            | None \<Rightarrow> run_apply E adapters (exact_operations plan) (forward_operations plan))))"

section \<open>Validation and preflight\<close>

definition validate_plan :: "env \<Rightarrow> plan \<Rightarrow> reconcile_error + unit" where
  "validate_plan E plan =
     and_then (map_err RePlan (build_plan E (draft_of_plan plan))) (\<lambda>rebuilt.
       if rebuilt \<noteq> plan then Err PlanMismatch else Ok ())"

fun preflight_loop :: "bool \<Rightarrow> 'w adapter list \<Rightarrow> operation list \<Rightarrow> ('w, unit) engine_step" where
  "preflight_loop crosses adapters [] = ret ()"
| "preflight_loop crosses adapters (operation # rest) =
     bind_step (lift_result (adapter_for adapters (op_adapter_id operation))) (\<lambda>adapter s.
       if \<not> ad_supports_operation adapter operation (en_world s)
       then raise (AdapterCapabilityUnsupported (op_adapter_id operation)
              (op_recovery_capability operation)) s
       else if crosses \<and> \<not> ad_supports_offline_recovery adapter operation (en_world s)
       then raise (AdapterOfflineRecoveryUnsupported (op_adapter_id operation)) s
       else (case ad_preflight adapter operation (en_world s) of
           (Inl failure, w) \<Rightarrow> raise (AdapterPreflightFailed failure) (s\<lparr>en_world := w\<rparr>)
         | (Inr _, w) \<Rightarrow> preflight_loop crosses adapters rest (s\<lparr>en_world := w\<rparr>)))"

definition preflight_adapters :: "plan \<Rightarrow> 'w adapter list \<Rightarrow> ('w, unit) engine_step" where
  "preflight_adapters plan adapters =
     preflight_loop (forward_capable (pl_operations plan)) adapters (pl_operations plan)"

definition package_bindings_from_plan ::
  "plan \<Rightarrow> reconcile_error + package_operation_consent_binding list" where
  "package_bindings_from_plan plan =
     (let package_operations =
        map (\<lambda>operation. \<lparr>cb_operation_id = op_id operation,
               cb_resolution_digest = op_payload_digest operation\<rparr>)
          (filter is_package_operation (pl_operations plan))
      in if package_operations = [] then Err PackageConsentRequired
         else if pb_package_resolution_authority_digest (pl_bindings plan) = None
         then Err PackageResolutionAuthorityMissing
         else Ok package_operations)"

definition validate_package_consent :: "env \<Rightarrow> plan \<Rightarrow> package_consent \<Rightarrow> reconcile_error + unit" where
  "validate_package_consent E plan consent =
     and_then (validate_plan E plan) (\<lambda>_.
     and_then (package_bindings_from_plan plan) (\<lambda>bindings.
       map_err (\<lambda>_. PackageConsentMismatch) (package_consent_validate E consent plan bindings)))"

fun collect_authorization ::
  "'w adapter list \<Rightarrow> 'w \<Rightarrow> operation list
   \<Rightarrow> reconcile_error + package_operation_consent_binding list \<times> package_receipt_evidence list" where
  "collect_authorization adapters w [] = Ok ([], [])"
| "collect_authorization adapters w (operation # rest) =
     and_then (adapter_for adapters (op_adapter_id operation)) (\<lambda>adapter.
     and_then (map_err AdapterPreflightFailed
         (ad_package_authorization_binding adapter operation w)) (\<lambda>found.
     and_then (ok_or (PackageAuthorizationUnavailable (op_adapter_id operation)) found)
       (\<lambda>(binding, evidence).
     and_then (map_err AdapterPreflightFailed (ad_validate_evidence adapter operation evidence w))
       (\<lambda>_.
     and_then (collect_authorization adapters w rest) (\<lambda>(bindings, evidences).
       Ok (binding # bindings, evidence # evidences))))))"

section \<open>Entry points\<close>

definition execute ::
  "env \<Rightarrow> plan \<Rightarrow> stable_id \<Rightarrow> 'w adapter list \<Rightarrow> ('w, reconcile_outcome) engine_step" where
  "execute E plan run_id adapters =
     and_do (lift_result (validate_plan E plan))
      (if list_ex is_package_operation (pl_operations plan) then raise PackageConsentRequired
       else and_do (preflight_adapters plan adapters)
        (bind_step (lift_result (map_err ReReceipt (journal_for_plan E run_id plan))) (\<lambda>journal.
          and_do (set_journal journal) (execute_preflighted E plan adapters))))"

definition execute_with_package_consent ::
  "env \<Rightarrow> plan \<Rightarrow> stable_id \<Rightarrow> package_consent \<Rightarrow> 'w adapter list
   \<Rightarrow> ('w, reconcile_outcome) engine_step" where
  "execute_with_package_consent E plan run_id consent adapters =
     and_do (lift_result (validate_plan E plan))
      (bind_step (lift_result (package_bindings_from_plan plan)) (\<lambda>expected_bindings.
        and_do (lift_result (map_err (\<lambda>_. PackageConsentMismatch)
            (package_consent_validate E consent plan expected_bindings)))
         (and_do (preflight_adapters plan adapters)
          (bind_step (\<lambda>s. (collect_authorization adapters (en_world s)
              (filter is_package_operation (pl_operations plan)), s)) (\<lambda>(bindings, evidence).
            if bindings \<noteq> expected_bindings then raise PackageConsentBindingChanged
            else and_do (lift_result (map_err (\<lambda>_. PackageConsentMismatch)
                (package_consent_validate E consent plan bindings)))
             (bind_step (lift_result (map_err (\<lambda>e. ReReceipt (ReceiptContract e))
                 (package_consent_digest E consent))) (\<lambda>consent_digest.
              bind_step (lift_result (map_err ReReceipt (journal_for_package_plan E run_id plan
                  \<lparr>pa_consent_digest = consent_digest,
                   pa_confirmation_id = pc_confirmation_id consent,
                   pa_operation_set_digest = pc_operation_set_digest consent,
                   pa_evidence = evidence\<rparr>))) (\<lambda>journal.
                and_do (set_journal journal) (execute_preflighted E plan adapters)))))))))"

section \<open>Receipts and plans\<close>

definition validate_receipt_plan_binding :: "env \<Rightarrow> plan \<Rightarrow> run_receipt \<Rightarrow> reconcile_error + unit" where
  "validate_receipt_plan_binding E plan receipt =
     (if rc_plan_id receipt \<noteq> pl_id plan
         \<or> rc_target_id receipt \<noteq> pl_target_id plan
         \<or> rc_desired_digest receipt \<noteq> pl_desired_digest plan
         \<or> rc_observed_digest receipt \<noteq> pl_observed_digest plan
         \<or> rc_policy_digest receipt \<noteq> pl_policy_digest plan
         \<or> rc_bindings receipt \<noteq> pl_bindings plan
      then Err ReceiptPlanMismatch
      else
        (let package_plan = list_ex is_package_operation (pl_operations plan);
             package_receipt =
               schema_number (rc_schema_version receipt) = PACKAGE_RECEIPT_SCHEMA_VERSION
               \<and> rc_contract_version receipt = PACKAGE_RECEIPT_CONTRACT_VERSION
               \<and> rc_package_authorization receipt \<noteq> None;
             exact_version =
               rc_schema_version receipt = pl_schema_version plan
               \<and> rc_contract_version receipt = pl_contract_version plan;
             package_receipt_upgrade =
               schema_number (pl_schema_version plan) = FORWARD_SCHEMA_VERSION
               \<and> pl_contract_version plan = FORWARD_CONTRACT_VERSION
               \<and> schema_number (rc_schema_version receipt) = PACKAGE_RECEIPT_SCHEMA_VERSION
               \<and> rc_contract_version receipt = PACKAGE_RECEIPT_CONTRACT_VERSION
               \<and> package_receipt
         in if package_plan \<and> \<not> package_receipt then Err ReceiptPlanMismatch
            else if \<not> exact_version \<and> \<not> package_receipt_upgrade then Err ReceiptPlanMismatch
            else if package_plan \<or> package_receipt_upgrade then
              and_then (ok_or ReceiptPlanMismatch (rc_package_authorization receipt))
                (\<lambda>authorization.
              and_then (map_err (\<lambda>_. ReceiptPlanMismatch) (package_bindings_from_plan plan))
                (\<lambda>expected_bindings.
                 (let receipt_bindings =
                    map (\<lambda>evidence. \<lparr>cb_operation_id = ev_operation_id evidence,
                           cb_resolution_digest = ev_resolution_digest evidence\<rparr>)
                      (pa_evidence authorization)
                  in if receipt_bindings \<noteq> expected_bindings then Err ReceiptPlanMismatch
                     else and_then (map_err (\<lambda>_. ReceiptPlanMismatch)
                         (package_operation_set_digest E plan receipt_bindings)) (\<lambda>digest.
                       if pa_operation_set_digest authorization \<noteq> digest then Err ReceiptPlanMismatch
                       else map_err (\<lambda>_. ReceiptPlanMismatch)
                              (validate_package_receipt_authorization plan authorization)))))
            else Ok ()))"

definition load_run :: "env \<Rightarrow> stable_id \<Rightarrow> ('w, receipt_journal) engine_step" where
  "load_run E run_id s =
     (case en_store s of
        None \<Rightarrow> (Err DurableStoreRequired, s)
      | Some store \<Rightarrow> (map_err ReReceipt (load_unlocked E store run_id), s))"

definition load_validated_run ::
  "env \<Rightarrow> stable_id \<Rightarrow> plan \<Rightarrow> ('w, receipt_journal) engine_step" where
  "load_validated_run E run_id plan =
     and_do (lift_result (validate_plan E plan))
      (bind_step (load_run E run_id) (\<lambda>journal.
        and_do (lift_result (validate_receipt_plan_binding E plan journal)) (ret journal)))"

definition validate_recovery_run :: "env \<Rightarrow> stable_id \<Rightarrow> plan \<Rightarrow> ('w, receipt_state) engine_step" where
  "validate_recovery_run E run_id plan =
     bind_step (load_validated_run E run_id plan) (\<lambda>journal. ret (rc_state journal))"

definition ensure_current_run :: "env \<Rightarrow> receipt_journal \<Rightarrow> ('w, unit) engine_step" where
  "ensure_current_run E journal =
     bind_step (load_run E (rc_run_id journal)) (\<lambda>current.
       if current \<noteq> journal then raise ReceiptSnapshotChanged else ret ())"

definition validate_package_receipt_evidence ::
  "plan \<Rightarrow> run_receipt \<Rightarrow> 'w adapter list \<Rightarrow> 'w \<Rightarrow> reconcile_error + unit" where
  "validate_package_receipt_evidence plan receipt adapters w =
     (case rc_package_authorization receipt of
        None \<Rightarrow> Ok ()
      | Some authorization \<Rightarrow>
          for_each (\<lambda>operation.
            and_then (ok_or ReceiptPlanMismatch
                (find_evidence (op_id operation) (pa_evidence authorization))) (\<lambda>evidence.
            and_then (adapter_for adapters (op_adapter_id operation)) (\<lambda>adapter.
              map_err AdapterPreflightFailed (ad_validate_evidence adapter operation
                (evidence\<lparr>ev_exit_classification := ExitNotRun, ev_final_digest := None\<rparr>) w))))
            (filter is_package_operation (pl_operations plan)))"

definition legacy_exact_forward_progress ::
  "plan \<Rightarrow> run_receipt \<Rightarrow> (sha256_digest \<times> operation_phase) list" where
  "legacy_exact_forward_progress plan receipt =
     List.map_filter (\<lambda>operation.
       map_option (\<lambda>progress. (pr_operation_id progress, pr_phase progress))
         (find (\<lambda>progress. pr_operation_id progress = op_id operation
             \<and> pr_phase progress \<in> {PhForwardRecoveryFailed, PhForwardRecovered})
           (rc_operation_progress receipt)))
       (exact_operations plan)"

section \<open>Forward convergence\<close>

definition recovery_ambiguous :: stable_id where
  "recovery_ambiguous = StableId ''recovery_ambiguous''"

fun converge_legacy ::
  "env \<Rightarrow> (sha256_digest \<times> operation_phase) list \<Rightarrow> ('w, unit) engine_step" where
  "converge_legacy E [] = ret ()"
| "converge_legacy E ((operation_id, phase) # rest) =
     and_do (if phase = PhForwardRecovered
        then and_do (with_journal (record_operation E operation_id PhForwardRecoveryFailed
               (Some (StableId ''legacy_exact_forward_recovery'')))) (persist E)
        else ret ())
      (converge_legacy E rest)"

definition fail_forward_recovery ::
  "env \<Rightarrow> operation \<Rightarrow> stable_id \<Rightarrow> ('w, reconcile_outcome option) engine_step" where
  "fail_forward_recovery E operation code =
     and_do (step_record E operation PhForwardRecoveryFailed (Some code))
      (and_do (persist E)
       (and_do (record_package_failure_code E operation code)
        (and_do (persist E)
         (and_do (step_transition E StForwardRecoveryFailed)
          (and_do (persist E) (ret (Some OutForwardRecoveryFailed)))))))"

definition observe ::
  "env \<Rightarrow> 'w adapter list \<Rightarrow> operation \<Rightarrow> ('w, stable_id + recovery_observation) engine_step" where
  "observe E adapters operation =
     bind_step (call_adapter E adapters CallObserve ad_observe_recovery operation)
       (\<lambda>r. ret (map_err stable_failure_code r))"

definition check_observation :: "stable_id + recovery_observation \<Rightarrow> stable_id + unit" where
  "check_observation observation =
     and_then observation (\<lambda>o'. if o' = ObsAfter then Ok () else Err recovery_ambiguous)"

definition converge_operation ::
  "env \<Rightarrow> 'w adapter list \<Rightarrow> operation \<Rightarrow> ('w, stable_id + unit) engine_step" where
  "converge_operation E adapters operation =
     bind_step (observe E adapters operation) (\<lambda>observation.
       if observation = Inr ObsBefore then
         bind_step (call_adapter E adapters CallPrepareRecovery ad_prepare_recovery operation) (\<lambda>p.
           (case p of
              Inl failure \<Rightarrow> ret (Err (stable_failure_code failure))
            | Inr _ \<Rightarrow>
                bind_step (call_adapter E adapters CallConverge ad_converge_recovery operation) (\<lambda>c.
                  (case c of
                     Inl failure \<Rightarrow> ret (Err (stable_failure_code failure))
                   | Inr _ \<Rightarrow>
                       bind_step (observe E adapters operation) (\<lambda>again.
                         ret (check_observation again))))))
       else ret (check_observation observation))"

definition repair_recovered ::
  "env \<Rightarrow> 'w adapter list \<Rightarrow> operation \<Rightarrow> ('w, reconcile_outcome option) engine_step" where
  "repair_recovered E adapters operation =
     bind_step get_journal (\<lambda>j.
       if package_evidence_pending j operation then
         bind_step (observe E adapters operation) (\<lambda>observation.
           (case check_observation observation of
              Inr _ \<Rightarrow> and_do (record_package_success E adapters operation)
                (and_do (persist E) (ret None))
            | Inl code \<Rightarrow> fail_forward_recovery E operation code))
       else ret None)"

definition already_recovered :: "receipt_journal \<Rightarrow> operation \<Rightarrow> bool" where
  "already_recovered j operation \<longleftrightarrow>
     list_ex (\<lambda>progress. pr_operation_id progress = op_id operation
        \<and> pr_phase progress = PhForwardRecovered) (rc_operation_progress j)"

fun converge_loop ::
  "env \<Rightarrow> 'w adapter list \<Rightarrow> operation list \<Rightarrow> ('w, reconcile_outcome option) engine_step" where
  "converge_loop E adapters [] = ret None"
| "converge_loop E adapters (operation # rest) =
     bind_step get_journal (\<lambda>j.
       if already_recovered j operation then
         bind_step (repair_recovered E adapters operation) (\<lambda>early.
           (case early of Some outcome \<Rightarrow> ret (Some outcome)
              | None \<Rightarrow> converge_loop E adapters rest))
       else
         bind_step (converge_operation E adapters operation) (\<lambda>result.
           (case result of
              Inr _ \<Rightarrow>
                and_do (record_package_success E adapters operation)
                 (and_do (persist E)
                  (and_do (step_record E operation PhForwardRecovered None)
                   (and_do (persist E)
                    (and_do (persist E) (converge_loop E adapters rest)))))
            | Inl code \<Rightarrow> fail_forward_recovery E operation code)))"

definition enter_convergence :: "env \<Rightarrow> ('w, unit) engine_step" where
  "enter_convergence E =
     bind_step get_journal (\<lambda>j.
       and_do
        (if rc_state j \<in> {StApplying, StVerifying, StApplyingForward}
         then and_do (step_transition E StForwardRecoveryRequired) (persist E)
         else if rc_state j \<in> {StForwardRecoveryRequired, StConvergingForward,
                 StForwardRecoveryFailed, StForwardRecovered}
         then ret ()
         else raise (RunAlreadyTerminal (rc_state j)))
        (bind_step get_journal (\<lambda>k.
          if rc_state k \<in> {StForwardRecoveryRequired, StForwardRecoveryFailed, StForwardRecovered}
          then and_do (step_transition E StConvergingForward) (persist E)
          else ret ())))"

definition converge_forward ::
  "env \<Rightarrow> plan \<Rightarrow> 'w adapter list \<Rightarrow> ('w, reconcile_outcome) engine_step" where
  "converge_forward E plan adapters =
     and_do (enter_convergence E)
      (bind_step get_journal (\<lambda>j.
        (let legacy = legacy_exact_forward_progress plan j in
         if legacy \<noteq> [] then
           and_do (converge_legacy E legacy)
            (bind_step get_journal (\<lambda>k.
              and_do (if rc_state k \<noteq> StForwardRecoveryFailed
                 then and_do (step_transition E StForwardRecoveryFailed) (persist E) else ret ())
               (ret OutForwardRecoveryFailed)))
         else
           bind_step (converge_loop E adapters (forward_operations plan)) (\<lambda>early.
             (case early of
                Some outcome \<Rightarrow> ret outcome
              | None \<Rightarrow>
                  bind_step get_journal (\<lambda>k.
                    and_do (if rc_state k \<noteq> StForwardRecovered
                       then and_do (step_transition E StForwardRecovered) (persist E) else ret ())
                     (ret OutForwardRecovered)))))))"

section \<open>Recovery of a run\<close>

definition after_forward_barrier :: "plan \<Rightarrow> run_receipt \<Rightarrow> bool" where
  "after_forward_barrier plan receipt \<longleftrightarrow>
     list_ex (\<lambda>operation.
        op_recovery_capability operation = ConvergeForwardOnly
        \<and> list_ex (\<lambda>progress.
             pr_operation_id progress = op_id operation
             \<and> (pr_phase progress \<in> {PhApplyStarted, PhApplied, PhApplyFailed, PhVerified,
                    PhVerifyFailed, PhForwardRecoveryFailed}
                \<or> (pr_phase progress = PhForwardRecovered \<and> rc_state receipt \<noteq> StForwardRecovered)))
             (rc_operation_progress receipt))
        (pl_operations plan)
     \<or> rc_state receipt \<in> {StForwardRecoveryRequired, StConvergingForward, StApplyingForward,
          StForwardRecoveryFailed}
     \<or> legacy_exact_forward_progress plan receipt \<noteq> []
     \<or> (rc_state receipt = StForwardRecovered
         \<and> list_ex (package_evidence_pending receipt) (pl_operations plan))"

definition rollback_candidates :: "plan \<Rightarrow> run_receipt \<Rightarrow> operation list" where
  "rollback_candidates plan receipt =
     filter (\<lambda>operation.
       (case progress_of receipt (op_id operation) of
          None \<Rightarrow> False
        | Some progress \<Rightarrow> pr_phase progress \<in> {PhApplyStarted, PhApplied, PhApplyFailed, PhVerified,
            PhVerifyFailed}))
       (pl_operations plan)"

definition resume_rollback ::
  "env \<Rightarrow> plan \<Rightarrow> 'w adapter list \<Rightarrow> ('w, reconcile_outcome) engine_step" where
  "resume_rollback E plan adapters =
     bind_step get_journal (\<lambda>j.
       if rc_state j = StPrepared then
         and_do (step_transition E StCanceled) (and_do (persist E) (ret OutCanceled))
       else and_do
         (if rc_state j \<in> {StApplying, StVerifying, StApplyingForward}
          then and_do (step_transition E StRecoveryRequired) (persist E)
          else if rc_state j \<in> {StRecoveryRequired, StRollingBack} then ret ()
          else raise (RunAlreadyTerminal (rc_state j)))
         (bind_step get_journal (\<lambda>k.
           and_do (if rc_state k = StRecoveryRequired
              then and_do (step_transition E StRollingBack) (persist E) else ret ())
            (bind_step get_journal (\<lambda>l.
              rollback_from_rolling_back E adapters (rollback_candidates plan l))))))"

definition recover_run_with_journal_locked ::
  "env \<Rightarrow> stable_id \<Rightarrow> plan \<Rightarrow> receipt_journal \<Rightarrow> 'w adapter list
   \<Rightarrow> ('w, reconcile_outcome) engine_step" where
  "recover_run_with_journal_locked E run_id plan journal adapters =
     and_do (lift_result (validate_plan E plan))
      (if rc_run_id journal \<noteq> run_id then raise ReceiptPlanMismatch
       else and_do (lift_result (validate_receipt_plan_binding E plan journal))
        (and_do (ensure_current_run E journal)
         (and_do (\<lambda>s. (validate_package_receipt_evidence plan journal adapters (en_world s), s))
          (and_do (preflight_adapters plan adapters)
           (and_do (set_journal journal)
             (if after_forward_barrier plan journal then converge_forward E plan adapters
              else resume_rollback E plan adapters))))))"

definition recover_run ::
  "env \<Rightarrow> stable_id \<Rightarrow> plan \<Rightarrow> 'w adapter list \<Rightarrow> ('w, reconcile_outcome) engine_step" where
  "recover_run E run_id plan adapters =
     and_do (lift_result (validate_plan E plan))
      (bind_step (load_validated_run E run_id plan) (\<lambda>journal.
        recover_run_with_journal_locked E run_id plan journal adapters))"

definition rollback_succeeded_run_with_journal_locked ::
  "env \<Rightarrow> stable_id \<Rightarrow> plan \<Rightarrow> receipt_journal \<Rightarrow> 'w adapter list
   \<Rightarrow> ('w, reconcile_outcome) engine_step" where
  "rollback_succeeded_run_with_journal_locked E run_id plan journal adapters =
     and_do (lift_result (validate_plan E plan))
      (if forward_capable (pl_operations plan) then raise RollbackUnsupported
       else if rc_run_id journal \<noteq> run_id then raise ReceiptPlanMismatch
       else and_do (lift_result (validate_receipt_plan_binding E plan journal))
        (and_do (ensure_current_run E journal)
         (if rc_state journal \<noteq> StSucceeded then raise (RunAlreadyTerminal (rc_state journal))
          else and_do (preflight_adapters plan adapters)
           (and_do (set_journal journal)
            (and_do (step_transition E StRollingBack)
             (and_do (persist E)
               (rollback_from_rolling_back E adapters (pl_operations plan))))))))"

definition rollback_succeeded_run ::
  "env \<Rightarrow> stable_id \<Rightarrow> plan \<Rightarrow> 'w adapter list \<Rightarrow> ('w, reconcile_outcome) engine_step" where
  "rollback_succeeded_run E run_id plan adapters =
     and_do (lift_result (validate_plan E plan))
      (if forward_capable (pl_operations plan) then raise RollbackUnsupported
       else bind_step (load_validated_run E run_id plan) (\<lambda>journal.
         rollback_succeeded_run_with_journal_locked E run_id plan journal adapters))"

definition recover_run_with_journal ::
  "env \<Rightarrow> stable_id \<Rightarrow> plan \<Rightarrow> receipt_journal \<Rightarrow> 'w adapter list
   \<Rightarrow> ('w, reconcile_outcome) engine_step" where
  "recover_run_with_journal E run_id plan journal adapters s =
     (if en_store s = None then raise DurableStoreRequired s
      else recover_run_with_journal_locked E run_id plan journal adapters s)"

definition rollback_succeeded_run_with_journal ::
  "env \<Rightarrow> stable_id \<Rightarrow> plan \<Rightarrow> receipt_journal \<Rightarrow> 'w adapter list
   \<Rightarrow> ('w, reconcile_outcome) engine_step" where
  "rollback_succeeded_run_with_journal E run_id plan journal adapters s =
     (if en_store s = None then raise DurableStoreRequired s
      else rollback_succeeded_run_with_journal_locked E run_id plan journal adapters s)"

end
