(* ===== verification/Store_History.thy ===== *)
theory Store_History
  imports Reconcile_Store
begin

text \<open>
  Facts about the receipt store: snapshot names decode to their sequence, a directory that holds
  the history of a run loads its last receipt, and persisting a journal that is at most one entry
  ahead of the history leaves the history or the history extended by the journal, at whichever step
  the operating system fails.
\<close>

section \<open>Snapshot names\<close>

lemma byte_digit_char: "n < 10 \<Longrightarrow> byte (digit_char n) = 48 + n"
  by (simp add: byte_def digit_char_def)

lemma digit_char_is_digit: "n < 10 \<Longrightarrow> is_ascii_digit (digit_char n)"
  by (simp add: is_ascii_digit_def byte_digit_char)

lemma digits_value_snoc: "digits_value (s @ [c]) = 10 * digits_value s + (byte c - 48)"
  by (simp add: digits_value_def)

lemma decimal_digits: "list_all is_ascii_digit (decimal n) \<and> decimal n \<noteq> [] \<and> digits_value (decimal n) = n"
proof (induction n rule: decimal.induct)
  case (1 n)
  show ?case
  proof (cases "n < 10")
    case True
    then show ?thesis
      by (subst (1 2 3) decimal.simps)
         (simp add: digit_char_is_digit digits_value_def byte_digit_char)
  next
    case False
    then have "decimal n = decimal (n div 10) @ [digit_char (n mod 10)]" by (subst decimal.simps) simp
    then show ?thesis using "1.IH" [OF False]
      by (simp add: digits_value_snoc byte_digit_char digit_char_is_digit)
  qed
qed

lemma digits_value_zeros: "digits_value (replicate k (CHR ''0'') @ s) = digits_value s"
proof (induction k)
  case (Suc k)
  have "foldl (\<lambda>n c. 10 * n + (byte c - 48)) (10 * 0 + (byte (CHR ''0'') - 48)) (replicate k (CHR ''0'') @ s)
      = foldl (\<lambda>n c. 10 * n + (byte c - 48)) 0 (replicate k (CHR ''0'') @ s)"
    by (simp add: byte_def)
  then show ?case using Suc by (simp add: digits_value_def)
qed simp

lemma pad20_digits: "list_all is_ascii_digit (pad20 (decimal n)) \<and> pad20 (decimal n) \<noteq> []
    \<and> digits_value (pad20 (decimal n)) = n"
  using decimal_digits [of n]
  by (auto simp: pad20_def digits_value_zeros list_all_iff is_ascii_digit_def byte_def)

lemma digit_not: "is_ascii_digit c \<Longrightarrow> c \<noteq> CHR ''-'' \<and> c \<noteq> CHR ''+''"
  by (auto simp: is_ascii_digit_def byte_def)

lemma parse_u64_pad20: "n < 2 ^ 64 \<Longrightarrow> parse_u64 (pad20 (decimal n)) = Some (of_nat n)"
proof -
  assume "n < 2 ^ 64"
  note d = pad20_digits [of n]
  have "strip_prefix ''+'' (pad20 (decimal n)) = None"
  proof (cases "strip_prefix ''+'' (pad20 (decimal n))")
    case (Some r)
    then have "CHR ''+'' \<in> set (pad20 (decimal n))" by (simp add: strip_prefix_Some_iff)
    then show ?thesis using d digit_not [of "CHR ''+''"] by (auto simp: list_all_iff)
  qed simp
  then show ?thesis using d \<open>n < 2 ^ 64\<close> by (simp add: parse_u64_def)
qed

lemma extension_suffix:
  assumes "CHR ''.'' \<notin> set e" "a \<noteq> []"
  shows "extension (a @ CHR ''.'' # e) = Some e"
proof -
  have "split_once (CHR ''.'') (rev e @ CHR ''.'' # rev a) = Some (rev e, rev a)"
    using assms(1) by (simp add: split_once_Some_iff)
  then show ?thesis using assms(2) by (simp add: extension_def)
qed

lemma scan_snapshot: "n < 2 ^ 64 \<Longrightarrow> scan_entry (snapshot_name n d, c) = Inr (Some (of_nat n, c))"
proof -
  assume n: "n < 2 ^ 64"
  have "extension (snapshot_name n d) = Some ''json''"
    using extension_suffix [of "''json''" "pad20 (decimal n) @ ''-'' @ digest_hex d"]
    by (simp add: snapshot_name_def)
  moreover have "split_once (CHR ''-'') (snapshot_name n d)
      = Some (pad20 (decimal n), digest_hex d @ ''.json'')"
    using pad20_digits [of n] digit_not
    by (auto simp: snapshot_name_def split_once_Some_iff list_all_iff)
  ultimately show ?thesis using n by (simp add: scan_entry_def parse_u64_pad20)
qed

lemma scan_temporary: "scan_entry (temporary_name n d, c) = Inr None"
proof -
  have "extension (temporary_name n d) = Some ''tmp''"
    using extension_suffix [of "''tmp''" "''.'' @ pad20 (decimal n) @ ''-'' @ digest_hex d"]
    by (simp add: temporary_name_def)
  then show ?thesis by (simp add: scan_entry_def)
qed

lemma scan_directory_snoc:
  "scan_directory (dir @ [entry]) =
     and_then (scan_directory dir) (\<lambda>found. and_then (scan_entry entry) (\<lambda>x.
       Ok (found @ (case x of None \<Rightarrow> [] | Some y \<Rightarrow> [y]))))"
proof (induction dir)
  case Nil
  then show ?case by (auto simp: and_then_def split: sum.split option.split)
next
  case (Cons a dir)
  then show ?case by (auto simp: and_then_def split: sum.split option.split)
qed

lemma scan_directory_mem:
  "scan_directory dir = Inr found \<Longrightarrow> entry \<in> set dir \<Longrightarrow> scan_entry entry = Inr (Some x) \<Longrightarrow> x \<in> set found"
  by (cases x, induction dir arbitrary: found) (auto simp: result_simps split: option.splits)

section \<open>Histories\<close>

definition good_history :: "env \<Rightarrow> stable_id \<Rightarrow> run_receipt list \<Rightarrow> bool" where
  "good_history E run rs \<longleftrightarrow> (\<forall>k<length rs.
     rc_run_id (rs ! k) = run \<and> length (rc_transitions (rs ! k)) = Suc k
     \<and> verify_chain E (rs ! k) = Inr ()
     \<and> (0 < k \<longrightarrow> rc_transitions (rs ! (k - 1)) = take k (rc_transitions (rs ! k))))"

definition numbered :: "run_receipt list \<Rightarrow> (u64 \<times> run_receipt option) list" where
  "numbered rs = map (\<lambda>k. (of_nat k, Some (rs ! k))) [0..<length rs]"

definition holds_history :: "env \<Rightarrow> stable_id \<Rightarrow> run_directory \<Rightarrow> run_receipt list \<Rightarrow> bool" where
  "holds_history E run dir rs \<longleftrightarrow> good_history E run rs \<and> length rs \<le> 2 ^ 64
     \<and> (\<exists>found. scan_directory dir = Inr found \<and> mset found = mset (numbered rs))"

lemma unat_of_nat_u64: "n < 2 ^ 64 \<Longrightarrow> unat (of_nat n :: u64) = n"
  using take_bit_nat_eq_self [of n 64] by (simp add: unat_of_nat take_bit_eq_mod)

lemma of_nat_u64_mono: "i \<le> j \<Longrightarrow> j < 2 ^ 64 \<Longrightarrow> (of_nat i :: u64) \<le> of_nat j"
  by (simp only: word_le_nat_alt unat_of_nat_u64 order.strict_trans1)

lemma of_nat_u64_inj: "(of_nat i :: u64) = of_nat j \<Longrightarrow> i < 2 ^ 64 \<Longrightarrow> j < 2 ^ 64 \<Longrightarrow> i = j"
  using unat_of_nat_u64 [of i] unat_of_nat_u64 [of j] by metis

lemma sorted_numbered: "length rs \<le> 2 ^ 64 \<Longrightarrow> sorted (map fst (numbered rs))"
  by (auto simp: numbered_def comp_def sorted_iff_nth_mono_less intro!: of_nat_u64_mono)

lemma inj_numbered:
  assumes "length rs \<le> 2 ^ 64"
  shows "inj_on fst (set (numbered rs))"
proof (rule inj_onI)
  fix x y assume "x \<in> set (numbered rs)" "y \<in> set (numbered rs)" "fst x = fst y"
  then obtain i j where "i < length rs" "x = (of_nat i, Some (rs ! i))"
    "j < length rs" "y = (of_nat j, Some (rs ! j))" "(of_nat i :: u64) = of_nat j"
    by (auto simp: numbered_def)
  then show "x = y" using of_nat_u64_inj [of i j] assms by auto
qed

lemma sort_numbered:
  assumes "length rs \<le> 2 ^ 64" "mset found = mset (numbered rs)"
  shows "sort_key fst found = numbered rs"
proof (rule map_inj_on)
  have s: "set found = set (numbered rs)" using assms(2) by (metis set_mset_mset)
  show "inj_on fst (set (sort_key fst found) \<union> set (numbered rs))"
    using inj_numbered [OF assms(1)] s by simp
  have "mset (map fst (sort_key fst found)) = mset (map fst (numbered rs))"
    using assms(2) by simp
  then show "map fst (sort_key fst found) = map fst (numbered rs)"
    using sorted_numbered [OF assms(1)] by (metis sorted_sort_key properties_for_sort sorted_sort_id)
qed

lemma replay_history:
  assumes "good_history E run rs"
  shows "k \<le> length rs \<Longrightarrow> replay_snapshots E run k (if k = 0 then None else Some (rs ! (k - 1)))
    (drop k (numbered rs)) = Inr (if rs = [] then None else Some (last rs))"
proof (induction "length rs - k" arbitrary: k)
  case 0
  then show ?case by (auto simp: numbered_def last_conv_nth)
next
  case (Suc n)
  then have k: "k < length rs" by simp
  have d: "drop k (numbered rs) = (of_nat k, Some (rs ! k)) # drop (Suc k) (numbered rs)"
    using k by (simp add: numbered_def drop_map upt_conv_Cons)
  have g: "rc_run_id (rs ! k) = run" "length (rc_transitions (rs ! k)) = Suc k"
    "verify_chain E (rs ! k) = Inr ()"
    "0 < k \<Longrightarrow> rc_transitions (rs ! (k - 1)) = take k (rc_transitions (rs ! k))"
    "0 < k \<Longrightarrow> length (rc_transitions (rs ! (k - 1))) = k"
    using assms k by (auto simp: good_history_def)
  have "from_receipt E (rs ! k) = Inr (rs ! k)" using g(3) by (simp add: from_receipt_Ok)
  then show ?case using Suc.hyps(1) [of "Suc k"] Suc.hyps(2) k g
    unfolding d by auto
qed

lemma load_history:
  assumes "store (sid_str run) = Some dir" "holds_history E run dir rs" "rs \<noteq> []"
  shows "load_unlocked E store run = Inr (last rs)"
proof -
  from assms(2) obtain found where f: "good_history E run rs" "length rs \<le> 2 ^ 64"
    "scan_directory dir = Inr found" "mset found = mset (numbered rs)"
    by (auto simp: holds_history_def)
  note s = sort_numbered [OF f(2,4)]
  have ne: "numbered rs \<noteq> []" using assms(3) by (simp add: numbered_def)
  have "verify_chain E (last rs) = Inr ()"
    using f(1) assms(3) by (auto simp: good_history_def last_conv_nth)
  then show ?thesis
    using replay_history [OF f(1), of 0] assms(1,3) f(3) s ne
    by (simp add: load_unlocked_def Let_def from_receipt_Ok)
qed

lemma load_empty_history:
  assumes "store (sid_str run) = Some dir" "holds_history E run dir []"
  shows "load_unlocked E store run = Inl (ReceiptNotFound run)"
  using assms by (auto simp: holds_history_def load_unlocked_def numbered_def Let_def)

section \<open>Persisting\<close>

text \<open>A journal that is the last receipt of a history, or one entry ahead of it.\<close>

definition extends_history :: "run_receipt list \<Rightarrow> receipt_journal \<Rightarrow> bool" where
  "extends_history rs j \<longleftrightarrow> length (rc_transitions j) = Suc (length rs)
     \<and> (rs \<noteq> [] \<longrightarrow> rc_transitions (last rs) = take (length rs) (rc_transitions j))"

lemma good_history_snoc:
  assumes "good_history E (rc_run_id j) rs" "verify_chain E j = Inr ()" "extends_history rs j"
  shows "good_history E (rc_run_id j) (rs @ [j])"
  unfolding good_history_def
proof (intro allI impI)
  fix k assume k: "k < length (rs @ [j])"
  show "rc_run_id ((rs @ [j]) ! k) = rc_run_id j \<and> length (rc_transitions ((rs @ [j]) ! k)) = Suc k
     \<and> verify_chain E ((rs @ [j]) ! k) = Inr ()
     \<and> (0 < k \<longrightarrow> rc_transitions ((rs @ [j]) ! (k - 1)) = take k (rc_transitions ((rs @ [j]) ! k)))"
  proof (cases "k < length rs")
    case True
    then have "k - 1 < length rs" by simp
    then show ?thesis using assms(1) True by (simp add: good_history_def nth_append)
  next
    case False
    then have "k = length rs" using k by simp
    then show ?thesis using assms(2,3) False
      by (auto simp: nth_append extends_history_def last_conv_nth)
  qed
qed

lemma numbered_snoc: "numbered (rs @ [j]) = numbered rs @ [(of_nat (length rs), Some j)]"
  by (simp add: numbered_def nth_append)

lemma final_not_listed:
  assumes "holds_history E run dir rs" "length rs < 2 ^ 64"
  shows "snapshot_name (length rs) d \<notin> fst ` set dir"
proof
  assume "snapshot_name (length rs) d \<in> fst ` set dir"
  then obtain c where c: "(snapshot_name (length rs) d, c) \<in> set dir" by auto
  from assms(1) obtain found where f: "scan_directory dir = Inr found" "mset found = mset (numbered rs)"
    by (auto simp: holds_history_def)
  have "(of_nat (length rs), c) \<in> set found"
    by (rule scan_directory_mem [OF f(1) c scan_snapshot [OF assms(2)]])
  then have "(of_nat (length rs), c) \<in> set (numbered rs)" using f(2) by (metis set_mset_mset)
  then obtain i where "i < length rs" "(of_nat i :: u64) = of_nat (length rs)"
    by (auto simp: numbered_def)
  then show False using of_nat_u64_inj [of i "length rs"] assms(2) by auto
qed

lemma holds_history_temporary:
  "holds_history E run dir rs \<Longrightarrow> holds_history E run (dir @ [(temporary_name n d, c)]) rs"
  by (auto simp: holds_history_def scan_directory_snoc scan_temporary)

lemma holds_history_snapshot:
  assumes "holds_history E (rc_run_id j) dir rs" "verify_chain E j = Inr ()" "extends_history rs j"
    and "length rs < 2 ^ 64"
  shows "holds_history E (rc_run_id j) (dir @ [(snapshot_name (length rs) d, Some j)]) (rs @ [j])"
  using assms good_history_snoc [OF _ assms(2,3)]
  by (auto simp: holds_history_def scan_directory_snoc scan_snapshot numbered_snoc)

lemma write_snapshot_history:
  assumes "holds_history E (rc_run_id j) dir rs" "verify_chain E j = Inr ()" "extends_history rs j"
    and "length rs < 2 ^ 64" and w: "write_snapshot E fault j dir = (r, dir')"
  shows "holds_history E (rc_run_id j) dir' (rs @ [j])
    \<or> (holds_history E (rc_run_id j) dir' rs \<and> (\<exists>e. r = Inl e))"
proof -
  let ?d = "tr_entry_digest (last (rc_transitions j))"
  have n: "length (rc_transitions j) - 1 = length rs" using assms(3) by (simp add: extends_history_def)
  have fresh: "snapshot_name (length rs) ?d \<notin> fst ` set dir" by (rule final_not_listed [OF assms(1,4)])
  have t: "holds_history E (rc_run_id j) (dir @ [(temporary_name (length rs) ?d, c)]) rs" for c
    by (rule holds_history_temporary [OF assms(1)])
  have s: "holds_history E (rc_run_id j) (dir @ [(snapshot_name (length rs) ?d, Some j)]) (rs @ [j])"
    by (rule holds_history_snapshot [OF assms(1-4)])
  show ?thesis using w fresh t s assms(1)
    unfolding write_snapshot_def n Let_def
    by (auto split: sum.splits if_splits)
qed

definition store_holds :: "env \<Rightarrow> receipt_store \<Rightarrow> stable_id \<Rightarrow> run_receipt list \<Rightarrow> bool" where
  "store_holds E store run rs \<longleftrightarrow>
     (case store (sid_str run) of None \<Rightarrow> rs = [] | Some dir \<Rightarrow> holds_history E run dir rs)"

definition in_step :: "run_receipt list \<Rightarrow> receipt_journal \<Rightarrow> bool" where
  "in_step rs j \<longleftrightarrow> rs \<noteq> [] \<and> last rs = j"

lemma holds_history_Nil: "holds_history E run [] []"
  by (simp add: holds_history_def good_history_def numbered_def)

text \<open>No entry of the run has been written; its directory may exist.\<close>

definition unused_run :: "receipt_store \<Rightarrow> stable_id \<Rightarrow> bool" where
  "unused_run store run \<longleftrightarrow> store (sid_str run) = None \<or> store (sid_str run) = Some []"

lemma unused_empty [simp]: "unused_run (\<lambda>_. None) run"
  by (simp add: unused_run_def)

lemma unused_holds: "unused_run store run \<Longrightarrow> store_holds E store run []"
  using holds_history_Nil by (auto simp: unused_run_def store_holds_def)

lemma unused_directory: "unused_run store run \<Longrightarrow> directory_of store (sid_str run) = []"
  by (auto simp: unused_run_def directory_of_def)

lemma store_holds_opened:
  assumes "store_holds E store run rs"
  shows "\<exists>dir. create_directory store (sid_str run) (sid_str run) = Some dir \<and> holds_history E run dir rs"
  using assms
  by (auto simp: store_holds_def create_directory_def holds_history_Nil split: option.splits)

lemma load_store_holds:
  "store_holds E store run rs \<Longrightarrow> rs \<noteq> [] \<Longrightarrow> load_unlocked E store run = Inr (last rs)"
  by (auto simp: store_holds_def intro: load_history split: option.splits)

lemma load_opened:
  assumes "store_holds E store run rs"
  shows "load_unlocked E (create_directory store (sid_str run)) run =
    (if rs = [] then Inl (ReceiptNotFound run) else Inr (last rs))"
  using store_holds_opened [OF assms] load_history load_empty_history by fastforce

lemma history_last_length:
  "good_history E run rs \<Longrightarrow> rs \<noteq> [] \<Longrightarrow> length (rc_transitions (last rs)) = length rs"
  by (simp add: good_history_def last_conv_nth)

lemma store_holds_good: "store_holds E store run rs \<Longrightarrow> good_history E run rs"
  by (auto simp: store_holds_def holds_history_def good_history_def split: option.splits)

lemma against_current_history:
  assumes s: "store_holds E store (rc_run_id j) rs" and j: "in_step rs j \<or> extends_history rs j"
  shows "against_current E (create_directory store (sid_str (rc_run_id j))) j =
    (if in_step rs j then Some (Inr ()) else None)"
proof (cases "rs = []")
  case True
  then show ?thesis using load_opened [OF s] by (simp add: against_current_def in_step_def)
next
  case False
  note l = history_last_length [OF store_holds_good [OF s] False]
  show ?thesis
  proof (cases "in_step rs j")
    case True
    then show ?thesis using load_opened [OF s] False by (simp add: against_current_def in_step_def)
  next
    case ns: False
    then have "extends_history rs j" using j by blast
    then show ?thesis using load_opened [OF s] False l ns
      by (auto simp: against_current_def extends_history_def)
  qed
qed

lemma persist_history:
  assumes s: "store_holds E store (rc_run_id j) rs" and v: "verify_chain E j = Inr ()"
    and j: "in_step rs j \<or> extends_history rs j" and b: "length (rc_transitions j) \<le> 2 ^ 64"
    and p: "persist_unlocked E fault j store = (r, store')"
  shows "\<exists>rs'. store_holds E store' (rc_run_id j) rs' \<and> (rs' = rs \<or> (extends_history rs j \<and> rs' = rs @ [j]))
    \<and> (r = Inr () \<longrightarrow> in_step rs' j)"
proof (cases "fault = Some IoCreateDirectory")
  case True
  then show ?thesis using p v s by (auto simp: persist_unlocked_def)
next
  case False
  let ?run = "sid_str (rc_run_id j)" and ?opened = "create_directory store (sid_str (rc_run_id j))"
  obtain dir where d: "?opened ?run = Some dir" "holds_history E (rc_run_id j) dir rs"
    using store_holds_opened [OF s] by blast
  then have dir: "directory_of ?opened ?run = dir" "store_holds E ?opened (rc_run_id j) rs"
    by (simp_all add: directory_of_def store_holds_def)
  show ?thesis
  proof (cases "in_step rs j")
    case True
    then have "r = Inr () \<and> store' = ?opened"
      using p False v against_current_history [OF s j] by (simp add: persist_unlocked_def Let_def)
    then show ?thesis using dir(2) True by blast
  next
    case ns: False
    then have e: "extends_history rs j" using j by blast
    obtain dir' where w: "write_snapshot E fault j dir = (r, dir')" "store' = ?opened(?run \<mapsto> dir')"
      using p False v against_current_history [OF s j] ns dir(1)
      by (auto simp: persist_unlocked_def Let_def split: prod.splits)
    have "length rs < 2 ^ 64" using e b by (simp add: extends_history_def)
    from write_snapshot_history [OF d(2) v e this w(1)] e show ?thesis
      unfolding w(2) by (auto simp: store_holds_def in_step_def)
  qed
qed

lemma persist_other_runs:
  "persist_unlocked E fault j store = (r, store') \<Longrightarrow> run \<noteq> sid_str (rc_run_id j) \<Longrightarrow> store' run = store run"
  by (auto simp: persist_unlocked_def create_directory_def Let_def
      split: sum.splits if_splits option.splits prod.splits)

text \<open>A leftover temporary file of the same entry makes every further attempt fail.\<close>

lemma persist_blocked:
  assumes s: "store_holds E store (rc_run_id j) rs" and v: "verify_chain E j = Inr ()"
    and e: "extends_history rs j" "\<not> in_step rs j" "length rs < 2 ^ 64"
    and t: "temporary_name (length rs) (tr_entry_digest (last (rc_transitions j)))
      \<in> fst ` set (directory_of store (sid_str (rc_run_id j)))"
    and p: "persist_unlocked E fault j store = (r, store')"
  shows "(\<exists>x. r = Inl x) \<and> store' = store"
proof (cases "fault = Some IoCreateDirectory")
  case True
  then show ?thesis using p v by (auto simp: persist_unlocked_def)
next
  case False
  let ?run = "sid_str (rc_run_id j)"
  obtain dir where dir: "store ?run = Some dir" using t
    by (cases "store ?run") (simp_all add: directory_of_def)
  then have o: "create_directory store ?run = store" "directory_of store ?run = dir"
    by (simp_all add: create_directory_def directory_of_def)
  have "holds_history E (rc_run_id j) dir rs" using s dir by (simp add: store_holds_def)
  note fresh = final_not_listed [OF this e(3), of "tr_entry_digest (last (rc_transitions j))"]
  have n: "length (rc_transitions j) - Suc 0 = length rs" using e(1) by (simp add: extends_history_def)
  have "against_current E store j = None"
    using against_current_history [OF s] e(1,2) o(1) by simp
  then show ?thesis using p False v o fresh t n fun_upd_idem [of store ?run "Some dir"] dir
    by (auto simp: persist_unlocked_def write_snapshot_def Let_def split: sum.splits prod.splits)
qed

end
