(* ===== verification/Engine_Logic.thy ===== *)
theory Engine_Logic
  imports Reconcile_Engine Store_History
begin

text \<open>
  A small program logic for the reconciler: triples with a condition for the error exit, rules for
  the sequencing of \<open>Reconcile_Engine\<close>, and the discipline the engine keeps between the journal
  in memory and the store. The discipline is a locale over what a client wants to know of the log
  of adapter calls; the later theories interpret it.
\<close>

section \<open>Triples\<close>

definition triple ::
  "('w engine \<Rightarrow> bool) \<Rightarrow> ('w, 'a) engine_step \<Rightarrow> ('a \<Rightarrow> 'w engine \<Rightarrow> bool) \<Rightarrow> ('w engine \<Rightarrow> bool) \<Rightarrow> bool" where
  "triple P m Q R \<longleftrightarrow> (\<forall>s. P s \<longrightarrow> (case m s of (Inr x, t) \<Rightarrow> Q x t | (Inl e, t) \<Rightarrow> R t))"

lemma tripleI:
  assumes "\<And>s x t. P s \<Longrightarrow> m s = (Inr x, t) \<Longrightarrow> Q x t" "\<And>s e t. P s \<Longrightarrow> m s = (Inl e, t) \<Longrightarrow> R t"
  shows "triple P m Q R"
  using assms by (auto simp: triple_def split: prod.split sum.split)

lemma tripleD:
  assumes "triple P m Q R" "P s"
  shows "m s = (Inr x, t) \<Longrightarrow> Q x t" "m s = (Inl e, t) \<Longrightarrow> R t"
  using assms by (auto simp: triple_def)

lemma triple_ret [engine_rules]: "(\<And>s. P s \<Longrightarrow> Q x s) \<Longrightarrow> triple P (ret x) Q R"
  by (simp add: triple_def ret_def)

lemma triple_raise [engine_rules]: "(\<And>s. P s \<Longrightarrow> R s) \<Longrightarrow> triple P (raise e) Q R"
  by (simp add: triple_def raise_def)

lemma triple_lift [engine_rules]:
  "(\<And>s x. P s \<Longrightarrow> r = Inr x \<Longrightarrow> Q x s) \<Longrightarrow> (\<And>s. P s \<Longrightarrow> R s) \<Longrightarrow> triple P (lift_result r) Q R"
  by (cases r) (simp_all add: triple_def lift_result_def)

lemma triple_get [engine_rules]:
  "(\<And>s. P s \<Longrightarrow> Q (en_journal s) s) \<Longrightarrow> triple P get_journal Q R"
  by (simp add: triple_def get_journal_def)

lemma triple_bind:
  "triple P m Q' R \<Longrightarrow> (\<And>x. triple (Q' x) (f x) Q R) \<Longrightarrow> triple P (bind_step m f) Q R"
  by (fastforce simp: triple_def bind_step_def split: prod.splits sum.splits)

lemma triple_and_do:
  "triple P m (\<lambda>_. Q') R \<Longrightarrow> triple Q' k Q R \<Longrightarrow> triple P (and_do m k) Q R"
  unfolding and_do_def by (rule triple_bind) auto

lemma triple_get_bind:
  "(\<And>j. triple (\<lambda>s. P s \<and> en_journal s = j) (f j) Q R) \<Longrightarrow> triple P (bind_step get_journal f) Q R"
  by (auto simp: triple_def bind_step_def get_journal_def)

lemma triple_conseq:
  "triple P m Q R \<Longrightarrow> (\<And>s. P' s \<Longrightarrow> P s) \<Longrightarrow> (\<And>x s. Q x s \<Longrightarrow> Q' x s) \<Longrightarrow> (\<And>s. R s \<Longrightarrow> R' s) \<Longrightarrow>
   triple P' m Q' R'"
  by (fastforce simp: triple_def split: prod.splits sum.splits)

lemma triple_pre: "triple P m Q R \<Longrightarrow> (\<And>s. P' s \<Longrightarrow> P s) \<Longrightarrow> triple P' m Q R"
  by (rule triple_conseq)

lemma triple_conj_left:
  "triple P m Q R \<Longrightarrow> triple (\<lambda>_. True) m Q' (\<lambda>_. True) \<Longrightarrow> triple P m (\<lambda>x s. Q x s \<and> Q' x s) R"
  by (fastforce simp: triple_def split: prod.splits sum.splits)

lemma triple_vacuous: "(\<And>s. \<not> P s) \<Longrightarrow> triple P m Q R"
  by (simp add: triple_def)

lemma triple_given: "(c \<Longrightarrow> triple P m Q R) \<Longrightarrow> triple (\<lambda>s. P s \<and> c) m Q R"
  by (cases c) (simp_all add: triple_def)

section \<open>Effects of journal operations\<close>

definition phase_of :: "receipt_journal \<Rightarrow> sha256_digest \<Rightarrow> operation_phase option" where
  "phase_of j i = map_option pr_phase (progress_of j i)"

text \<open>What the plan and the version of the contract fix of a journal.\<close>

definition journal_header :: "receipt_journal \<Rightarrow> schema_version \<times> string \<times> sha256_digest \<times> stable_id \<times> sha256_digest
  \<times> sha256_digest \<times> sha256_digest \<times> plan_bindings" where
  "journal_header j = (rc_schema_version j, rc_contract_version j, rc_plan_id j, rc_target_id j, rc_desired_digest j,
     rc_observed_digest j, rc_policy_digest j, rc_bindings j)"

lemma journal_header_update [simp]:
  "journal_header (j\<lparr>rc_operation_progress := p\<rparr>) = journal_header j"
  "journal_header (j\<lparr>rc_package_authorization := a\<rparr>) = journal_header j"
  "journal_header (push_entry t j) = journal_header j"
  by (simp_all add: journal_header_def push_entry_def)

definition extends_by :: "receipt_journal \<Rightarrow> receipt_journal \<Rightarrow> bool" where
  "extends_by j j' \<longleftrightarrow> rc_run_id j' = rc_run_id j \<and> journal_header j' = journal_header j
     \<and> (\<exists>t. rc_transitions j' = rc_transitions j @ [t])"

lemma find_update_first:
  "find (\<lambda>p. g p = i) (update_first (\<lambda>p. g p = k) f xs) =
     (if i = k then map_option f (find (\<lambda>p. g p = k) xs) else find (\<lambda>p. g p = i) xs)"
  if "\<And>x. g (f x) = g x"
  by (induction xs) (auto simp: that)

lemma find_append:
  "find p (xs @ ys) = (case find p xs of None \<Rightarrow> find p ys | Some x \<Rightarrow> Some x)"
  by (induction xs) auto

lemma push_entry_sel [simp]:
  "rc_state (push_entry t j) = tr_state t" "rc_run_id (push_entry t j) = rc_run_id j"
  "rc_transitions (push_entry t j) = rc_transitions j @ [t]"
  "rc_operation_progress (push_entry t j) = rc_operation_progress j"
  "rc_package_authorization (push_entry t j) = rc_package_authorization j"
  "rc_schema_version (push_entry t j) = rc_schema_version j"
  by (simp_all add: push_entry_def)

lemma phase_of_push [simp]: "phase_of (push_entry t j) i = phase_of j i"
  by (simp add: phase_of_def progress_of_def)

lemma journal_transition_effect:
  assumes "journal_transition E st j = (Inr u, j')"
  shows "extends_by j j'" "rc_state j' = st" "phase_of j' = phase_of j"
    "rc_package_authorization j' = rc_package_authorization j" "legal_transition (rc_state j) st"
  using assms
  by (auto simp: journal_transition_def extends_by_def next_entry_Ok split: if_splits sum.splits)

lemma append_progress_effect:
  assumes "append_progress_transition E j = (Inr u, j')"
  shows "extends_by j j'" "rc_state j' = rc_state j" "phase_of j' = phase_of j"
    "rc_package_authorization j' = rc_package_authorization j"
  using assms by (auto simp: append_progress_transition_def extends_by_def next_entry_Ok split: sum.splits)

lemma extends_by_frame:
  "extends_by (j\<lparr>rc_operation_progress := p\<rparr>) j' = extends_by j j'"
  "extends_by (j\<lparr>rc_package_authorization := a\<rparr>) j' = extends_by j j'"
  by (simp_all add: extends_by_def)

lemma record_operation_effect:
  assumes "record_operation E i phase code j = (Inr u, j')"
  shows "extends_by j j'" "rc_state j' = rc_state j" "phase_of j' = (phase_of j)(i \<mapsto> phase)"
    "rc_package_authorization j' = rc_package_authorization j"
proof -
  have "extends_by j j' \<and> rc_state j' = rc_state j \<and> phase_of j' = (phase_of j)(i \<mapsto> phase)
     \<and> rc_package_authorization j' = rc_package_authorization j"
  proof (cases "progress_of j i")
    case None
    let ?j = "j\<lparr>rc_operation_progress := rc_operation_progress j
       @ [\<lparr>pr_operation_id = i, pr_phase = phase, pr_failure_code = code\<rparr>]\<rparr>"
    have a: "append_progress_transition E ?j = (Inr u, j')"
      using assms None by (auto simp: record_operation_def split: if_splits)
    have "phase_of ?j = (phase_of j)(i \<mapsto> phase)"
      using None by (auto simp: fun_eq_iff phase_of_def progress_of_def find_append split: option.split)
    then show ?thesis using append_progress_effect [OF a] by (simp add: extends_by_frame)
  next
    case (Some p)
    let ?j = "j\<lparr>rc_operation_progress := update_first (\<lambda>p. pr_operation_id p = i)
        (\<lambda>p. p\<lparr>pr_phase := phase, pr_failure_code := code\<rparr>) (rc_operation_progress j)\<rparr>"
    have a: "append_progress_transition E ?j = (Inr u, j')"
      using assms Some by (auto simp: record_operation_def split: if_splits)
    have "phase_of ?j = (phase_of j)(i \<mapsto> phase)"
      using Some by (auto simp: fun_eq_iff phase_of_def progress_of_def find_update_first)
    then show ?thesis using append_progress_effect [OF a] by (simp add: extends_by_frame)
  qed
  then show "extends_by j j'" "rc_state j' = rc_state j" "phase_of j' = (phase_of j)(i \<mapsto> phase)"
    "rc_package_authorization j' = rc_package_authorization j" by simp_all
qed

lemma record_package_exit_effect:
  assumes "record_package_exit E i c d j = (Inr u, j')"
  shows "extends_by j j'" "rc_state j' = rc_state j" "phase_of j' = phase_of j"
proof -
  from assms obtain a where "append_progress_transition E (j\<lparr>rc_package_authorization := Some a\<rparr>) = (Inr u, j')"
    by (auto simp: record_package_exit_def split: option.splits if_splits)
  from append_progress_effect [OF this]
  show "extends_by j j'" "rc_state j' = rc_state j" "phase_of j' = phase_of j"
    by (simp_all add: extends_by_frame, simp add: fun_eq_iff phase_of_def progress_of_def)
qed

text \<open>A failing journal operation appends nothing.\<close>

definition same_entries :: "receipt_journal \<Rightarrow> receipt_journal \<Rightarrow> bool" where
  "same_entries j j' \<longleftrightarrow> rc_run_id j' = rc_run_id j \<and> journal_header j' = journal_header j
     \<and> rc_transitions j' = rc_transitions j"

lemma journal_errors_append_nothing:
  "journal_transition E st j = (Inl e, j') \<Longrightarrow> same_entries j j'"
  "record_operation E i phase code j = (Inl e, j') \<Longrightarrow> same_entries j j'"
  "record_package_exit E i c d j = (Inl e, j') \<Longrightarrow> same_entries j j'"
  by (auto simp: journal_transition_def record_operation_def record_package_exit_def same_entries_def
      append_progress_transition_def split: if_splits option.splits sum.splits)

text \<open>What the engine relies on of a journal operation.\<close>

locale journal_operation =
  fixes E :: env and f :: "receipt_journal \<Rightarrow> (receipt_error + unit) \<times> receipt_journal"
  assumes keeps: "verify_chain E j = Inr () \<Longrightarrow> f j = (Inr u, j') \<Longrightarrow> verify_chain E j' = Inr ()"
    and appends_one: "f j = (Inr u, j') \<Longrightarrow> extends_by j j'"
    and error_appends_none: "f j = (Inl e, j') \<Longrightarrow> same_entries j j'"
begin

lemma extends_in_step:
  assumes "f j = (Inr u, j')" "in_step rs j" "good_history E run rs"
  shows "extends_history rs j'"
  using appends_one [OF assms(1)] assms(2) history_last_length [OF assms(3)]
  by (auto simp: extends_by_def in_step_def extends_history_def)

end

interpretation transition_op: journal_operation E "journal_transition E st"
  by unfold_locales (auto intro: journal_transition_verifies journal_transition_effect
      journal_errors_append_nothing)

interpretation record_op: journal_operation E "record_operation E i phase code"
  by unfold_locales (auto intro: record_operation_verifies record_operation_effect
      journal_errors_append_nothing)

interpretation exit_op: journal_operation E "record_package_exit E i c d"
  by unfold_locales (auto intro: record_package_exit_verifies record_package_exit_effect
      journal_errors_append_nothing)

end
