(* ===== verification/Engine_Discipline.thy ===== *)
theory Engine_Discipline
  imports Engine_Logic
begin

text \<open>
  The checkpoint discipline of the reconciler: between two journal entries the store holds the
  journal, after an entry the store is one entry behind, and an error exit leaves a loadable
  history behind. The locale \<open>checkpointing\<close> proves it once for every loop and entry point, for
  any predicate on the log of adapter calls that the admitted calls keep.
\<close>

section \<open>The relation of journal and store\<close>

definition tracked :: "'w engine \<Rightarrow> bool" where
  "tracked s \<longleftrightarrow> en_store s \<noteq> None \<and> length (rc_transitions (en_journal s)) \<le> 2 ^ 64"

definition held :: "env \<Rightarrow> 'w engine \<Rightarrow> run_receipt list \<Rightarrow> bool" where
  "held E s rs \<longleftrightarrow> (\<exists>store. en_store s = Some store
     \<and> store_holds E store (rc_run_id (en_journal s)) rs)"

definition started_durably :: "logged_call \<Rightarrow> bool" where
  "started_durably c \<longleftrightarrow> (\<exists>r. lc_durable c = Some r
     \<and> phase_of r (op_id (lc_operation c)) = Some PhApplyStarted)"

definition st_in :: "receipt_state set \<Rightarrow> receipt_journal \<Rightarrow> bool" where
  "st_in S j \<longleftrightarrow> rc_state j \<in> S"

lemma durable_in_step:
  "held E s rs \<Longrightarrow> in_step rs (en_journal s) \<Longrightarrow> durable_receipt E s = Some (en_journal s)"
  by (auto simp: held_def durable_receipt_def in_step_def dest: load_store_holds)

locale checkpointing =
  fixes E :: env
    and run :: stable_id
    and U :: "receipt_state set"
    and L :: "logged_call list \<Rightarrow> bool"
    and admits :: "call_kind \<Rightarrow> operation \<Rightarrow> bool"
    and W :: "logged_call list \<Rightarrow> bool"
  assumes admitted: "L cs \<Longrightarrow> admits (lc_kind c) (lc_operation c) \<Longrightarrow> L (cs @ [c])"
    and written: "W cs \<Longrightarrow> (lc_kind c = CallApply \<Longrightarrow> started_durably c) \<Longrightarrow> W (cs @ [c])"
begin

definition synced :: "(receipt_journal \<Rightarrow> bool) \<Rightarrow> 'w engine \<Rightarrow> bool" where
  "synced K s \<longleftrightarrow> rc_run_id (en_journal s) = run \<and> verify_chain E (en_journal s) = Inr () \<and> K (en_journal s)
     \<and> L (en_calls s) \<and> (tracked s \<longrightarrow> W (en_calls s) \<and> (\<exists>rs. held E s rs \<and> in_step rs (en_journal s)))"

definition near :: "(receipt_journal \<Rightarrow> bool) \<Rightarrow> 'w engine \<Rightarrow> bool" where
  "near K s \<longleftrightarrow> rc_run_id (en_journal s) = run \<and> verify_chain E (en_journal s) = Inr () \<and> K (en_journal s)
     \<and> L (en_calls s) \<and> (tracked s \<longrightarrow> W (en_calls s) \<and> (\<exists>rs. held E s rs \<and>
          (in_step rs (en_journal s)
           \<or> extends_history rs (en_journal s) \<and> rs \<noteq> [] \<and> rc_state (last rs) \<in> U)))"

definition safe :: "'w engine \<Rightarrow> bool" where
  "safe s \<longleftrightarrow> rc_run_id (en_journal s) = run \<and> L (en_calls s) \<and> (tracked s \<longrightarrow> W (en_calls s) \<and> (\<exists>rs. held E s rs \<and> rs \<noteq> [] \<and> rc_state (last rs) \<in> U))"

definition inside :: "(receipt_journal \<Rightarrow> bool) \<Rightarrow> bool" where
  "inside K \<longleftrightarrow> (\<forall>j. K j \<longrightarrow> rc_state j \<in> U)"

lemma inside_st_in [simp]: "S \<subseteq> U \<Longrightarrow> inside (st_in S)"
  by (auto simp: inside_def st_in_def)

lemma synced_safe: "inside K \<Longrightarrow> synced K s \<Longrightarrow> safe s"
  unfolding synced_def safe_def inside_def in_step_def by (metis (no_types, lifting))

lemma synced_mono: "synced K s \<Longrightarrow> (\<And>j. K j \<Longrightarrow> K' j) \<Longrightarrow> synced K' s"
  by (auto simp: synced_def)

lemma synced_near: "synced K s \<Longrightarrow> near K s"
  by (auto simp: synced_def near_def)

lemma tracked_extends: "extends_by (en_journal s) j \<Longrightarrow> tracked (s\<lparr>en_journal := j\<rparr>) \<Longrightarrow> tracked s"
  by (auto simp: tracked_def extends_by_def)

lemma held_journal: "rc_run_id j = rc_run_id (en_journal s) \<Longrightarrow> held E (s\<lparr>en_journal := j\<rparr>) rs = held E s rs"
  by (simp add: held_def)

lemma held_good: "held E s rs \<Longrightarrow> \<exists>run. good_history E run rs"
  by (auto simp: held_def dest: store_holds_good)

text \<open>A journal operation moves from a synchronized state to one entry ahead.\<close>

lemma with_journal_rule:
  assumes op: "journal_operation E f" and K: "inside K"
    and step: "\<And>j j'. K j \<Longrightarrow> f j = (Inr (), j') \<Longrightarrow> K' j'"
  shows "triple (synced K) (with_journal f) (\<lambda>_. near K') safe"
proof (rule tripleI)
  fix s :: "'w engine" and x t assume s: "synced K s" and m: "with_journal f s = (Inr x, t)"
  obtain j where j: "f (en_journal s) = (Inr (), j)" "t = s\<lparr>en_journal := j\<rparr>"
    using m by (auto simp: with_journal_def split: prod.splits)
  note e = journal_operation.appends_one [OF op j(1)]
  have "near K' (s\<lparr>en_journal := j\<rparr>)"
    unfolding near_def
  proof (intro conjI impI)
    show "rc_run_id (en_journal (s\<lparr>en_journal := j\<rparr>)) = run"
      using s e by (simp add: synced_def extends_by_def)
    show "verify_chain E (en_journal (s\<lparr>en_journal := j\<rparr>)) = Inr ()"
      using s journal_operation.keeps [OF op _ j(1)] by (simp add: synced_def)
    show "K' (en_journal (s\<lparr>en_journal := j\<rparr>))" using s step [OF _ j(1)] by (simp add: synced_def)
    show "L (en_calls (s\<lparr>en_journal := j\<rparr>))" using s by (simp add: synced_def)
    assume "tracked (s\<lparr>en_journal := j\<rparr>)"
    then have "tracked s" by (rule tracked_extends [OF e])
    then obtain rs where rs: "W (en_calls s)" "held E s rs" "in_step rs (en_journal s)"
      using s by (auto simp: synced_def)
    then show "W (en_calls (s\<lparr>en_journal := j\<rparr>))" by simp
    obtain run where g: "good_history E run rs" using held_good [OF rs(2)] by blast
    have h: "held E (s\<lparr>en_journal := j\<rparr>) rs"
      using rs(2) e held_journal [of j s rs] by (simp add: extends_by_def)
    have x: "extends_history rs j" by (rule journal_operation.extends_in_step [OF op j(1) rs(3) g])
    have "rs \<noteq> []" "rc_state (last rs) \<in> U"
      using rs(3) s K by (auto simp: in_step_def synced_def inside_def)
    then show "\<exists>rs. held E (s\<lparr>en_journal := j\<rparr>) rs \<and>
       (in_step rs (en_journal (s\<lparr>en_journal := j\<rparr>))
        \<or> extends_history rs (en_journal (s\<lparr>en_journal := j\<rparr>)) \<and> rs \<noteq> [] \<and> rc_state (last rs) \<in> U)"
      using h x by auto
  qed
  then show "near K' t" using j(2) by simp
next
  fix s :: "'w engine" and e t assume s: "synced K s" and m: "with_journal f s = (Inl e, t)"
  obtain e' j where j: "f (en_journal s) = (Inl e', j)" "t = s\<lparr>en_journal := j\<rparr>"
    using m by (auto simp: with_journal_def map_err_def split: prod.splits sum.splits)
  have "same_entries (en_journal s) j" by (rule journal_operation.error_appends_none [OF op j(1)])
  then show "safe t"
    using synced_safe [OF K s] unfolding j(2) safe_def tracked_def held_def same_entries_def by auto
qed

lemma persist_rule:
  assumes K: "inside K"
  shows "triple (near K) (persist E) (\<lambda>_. synced K) safe"
proof (rule tripleI)
  fix s :: "'w engine" and x t assume s: "near K s" and m: "persist E s = (Inr x, t)"
  show "synced K t"
  proof (cases "en_store s")
    case None
    then show ?thesis using m s by (auto simp: persist_def synced_def near_def tracked_def)
  next
    case (Some store)
    then obtain store' where p: "persist_unlocked E (case en_faults s of [] \<Rightarrow> None | f # _ \<Rightarrow> f)
        (en_journal s) store = (Inr (), store')"
      "t = s\<lparr>en_store := Some store', en_faults := tl (en_faults s)\<rparr>"
      using m by (auto simp: persist_def Let_def split: prod.splits)
    show ?thesis unfolding synced_def p(2)
    proof (simp, intro conjI impI)
      show "rc_run_id (en_journal s) = run" "verify_chain E (en_journal s) = Inr ()" "K (en_journal s)" "L (en_calls s)"
        using s by (simp_all add: near_def)
      assume tr: "tracked (s\<lparr>en_store := Some store', en_faults := tl (en_faults s)\<rparr>)"
      then have b: "length (rc_transitions (en_journal s)) \<le> 2 ^ 64" by (simp add: tracked_def)
      then have "tracked s" using Some by (simp add: tracked_def)
      then obtain rs where rs: "W (en_calls s)" "store_holds E store (rc_run_id (en_journal s)) rs"
        "in_step rs (en_journal s) \<or> extends_history rs (en_journal s)"
        using s Some by (auto simp: near_def held_def)
      then show "W (en_calls s)" by simp
      have "verify_chain E (en_journal s) = Inr ()" using s by (simp add: near_def)
      from persist_history [OF rs(2) this rs(3) b p(1)] obtain rs' where
        "store_holds E store' (rc_run_id (en_journal s)) rs'" "in_step rs' (en_journal s)" by blast
      then show "\<exists>rs. held E (s\<lparr>en_store := Some store', en_faults := tl (en_faults s)\<rparr>) rs
          \<and> in_step rs (en_journal s)" by (auto simp: held_def)
    qed
  qed
next
  fix s :: "'w engine" and e t assume s: "near K s" and m: "persist E s = (Inl e, t)"
  then obtain store where Some: "en_store s = Some store" by (cases "en_store s") (auto simp: persist_def)
  obtain e' store' where p: "persist_unlocked E (case en_faults s of [] \<Rightarrow> None | f # _ \<Rightarrow> f)
      (en_journal s) store = (Inl e', store')"
    "t = s\<lparr>en_store := Some store', en_faults := tl (en_faults s)\<rparr>"
    using m Some by (auto simp: persist_def Let_def map_err_def split: prod.splits sum.splits)
  show "safe t" unfolding safe_def p(2)
  proof (simp, intro impI conjI)
    show "rc_run_id (en_journal s) = run" "L (en_calls s)" using s by (simp_all add: near_def)
    assume "tracked (s\<lparr>en_store := Some store', en_faults := tl (en_faults s)\<rparr>)"
    then have b: "length (rc_transitions (en_journal s)) \<le> 2 ^ 64" by (simp add: tracked_def)
    then have "tracked s" using Some by (simp add: tracked_def)
    then obtain rs where rs: "W (en_calls s)" "store_holds E store (rc_run_id (en_journal s)) rs"
      "in_step rs (en_journal s) \<or> extends_history rs (en_journal s)"
      "rs \<noteq> []" "in_step rs (en_journal s) \<or> rc_state (last rs) \<in> U"
      using s Some by (auto simp: near_def held_def in_step_def)
    then show "W (en_calls s)" by simp
    have u: "rc_state (en_journal s) \<in> U" and v: "verify_chain E (en_journal s) = Inr ()"
      using s K by (auto simp: near_def inside_def)
    from persist_history [OF rs(2) v rs(3) b p(1)] obtain rs' where
      rs': "store_holds E store' (rc_run_id (en_journal s)) rs'" "rs' = rs \<or> rs' = rs @ [en_journal s]"
      by blast
    then have "rs' \<noteq> [] \<and> rc_state (last rs') \<in> U" using rs(4,5) u by (auto simp: in_step_def)
    then show "\<exists>rs. held E (s\<lparr>en_store := Some store', en_faults := tl (en_faults s)\<rparr>) rs
        \<and> rs \<noteq> [] \<and> rc_state (last rs) \<in> U" using rs'(1) by (auto simp: held_def)
  qed
qed

lemma call_rule:
  fixes adapters :: "'w adapter list"
  assumes K: "inside K" and a: "admits kind operation"
    and w: "kind = CallApply \<Longrightarrow> (\<And>j. K j \<Longrightarrow> phase_of j (op_id operation) = Some PhApplyStarted)"
  shows "triple (synced K) (call_adapter E adapters kind method operation) (\<lambda>_. synced K) safe"
proof (rule tripleI)
  fix s :: "'w engine" and x t
  assume s: "synced K s" and m: "call_adapter E adapters kind method operation s = (Inr x, t)"
  let ?c = "\<lparr>lc_kind = kind, lc_operation = operation, lc_durable = durable_receipt E s\<rparr>"
  obtain w' where t: "t = s\<lparr>en_world := w', en_calls := en_calls s @ [?c]\<rparr>"
    using m by (auto simp: call_adapter_def split: sum.splits prod.splits)
  have l: "L (en_calls s @ [?c])" using s a admitted [of "en_calls s" ?c] by (simp add: synced_def)
  have "W (en_calls s @ [?c])" if tr: "tracked s"
  proof (rule written)
    show "W (en_calls s)" using s tr by (simp add: synced_def)
    assume "lc_kind ?c = CallApply"
    then have "phase_of (en_journal s) (op_id operation) = Some PhApplyStarted"
      using w s by (simp add: synced_def)
    moreover obtain rs where "held E s rs" "in_step rs (en_journal s)" using s tr by (auto simp: synced_def)
    ultimately show "started_durably ?c" using durable_in_step [of E s rs] by (simp add: started_durably_def)
  qed
  then show "synced K t" using s l unfolding t synced_def tracked_def held_def by auto
next
  fix s :: "'w engine" and e t
  assume s: "synced K s" and m: "call_adapter E adapters kind method operation s = (Inl e, t)"
  then have "t = s" by (auto simp: call_adapter_def split: sum.splits prod.splits)
  then show "safe t" using synced_safe [OF K s] by simp
qed

lemma synced_world [simp]: "synced K (s\<lparr>en_world := w\<rparr>) = synced K s"
  by (simp add: synced_def tracked_def held_def)

lemma safe_world [simp]: "safe (s\<lparr>en_world := w\<rparr>) = safe s"
  by (simp add: safe_def tracked_def held_def)

section \<open>Checkpoints\<close>

lemma transition_then:
  assumes "S \<subseteq> U" "st \<in> U" "triple (synced (st_in {st})) k Q safe"
  shows "triple (synced (st_in S)) (and_do (step_transition E st) (and_do (persist E) k)) Q safe"
proof (rule triple_and_do [OF _ triple_and_do [OF persist_rule assms(3)]])
  show "triple (synced (st_in S)) (step_transition E st) (\<lambda>_. near (st_in {st})) safe"
    unfolding step_transition_def
    by (rule with_journal_rule [OF transition_op.journal_operation_axioms])
       (use assms(1) in \<open>auto simp: st_in_def dest: journal_transition_effect(2)\<close>)
qed (use assms(2) in simp)

lemma record_then_to:
  assumes "inside K" "inside K'" "triple (synced K') k Q safe"
    and step: "\<And>j j'. K j \<Longrightarrow> rc_state j' = rc_state j \<Longrightarrow> phase_of j' = (phase_of j)(op_id operation \<mapsto> phase) \<Longrightarrow> K' j'"
  shows "triple (synced K) (and_do (step_record E operation phase code) (and_do (persist E) k)) Q safe"
proof (rule triple_and_do [OF _ triple_and_do [OF persist_rule [OF assms(2)] assms(3)]])
  show "triple (synced K) (step_record E operation phase code) (\<lambda>_. near K') safe"
    unfolding step_record_def
    by (rule with_journal_rule [OF record_op.journal_operation_axioms assms(1)])
       (auto intro: step dest: record_operation_effect)
qed

lemma record_then:
  assumes "S \<subseteq> U" "triple (synced (st_in S)) k Q safe"
  shows "triple (synced (st_in S)) (and_do (step_record E operation phase code) (and_do (persist E) k)) Q safe"
  by (rule record_then_to [OF _ _ assms(2)]) (use assms(1) in \<open>auto simp: st_in_def\<close>)

lemma persist_again:
  assumes "S \<subseteq> U" "triple (synced (st_in S)) k Q safe"
  shows "triple (synced (st_in S)) (and_do (persist E) k) Q safe"
  by (rule triple_and_do [OF triple_pre [OF persist_rule] assms(2)])
     (use assms(1) in \<open>auto intro: synced_near\<close>)

lemma package_exit_rule:
  "S \<subseteq> U \<Longrightarrow> triple (synced (st_in S)) (with_journal (record_package_exit E i c d)) (\<lambda>_. near (st_in S)) safe"
  by (rule with_journal_rule [OF exit_op.journal_operation_axioms])
     (auto simp: st_in_def dest: record_package_exit_effect)

lemma package_failure_code_rule:
  assumes "S \<subseteq> U"
  shows "triple (synced (st_in S)) (record_package_failure_code E operation code) (\<lambda>_. near (st_in S)) safe"
  unfolding record_package_failure_code_def
proof (rule triple_get_bind)
  fix j :: receipt_journal
  show "triple (\<lambda>s. synced (st_in S) s \<and> en_journal s = j)
    (if is_package_operation operation \<and> rc_package_authorization j \<noteq> None
     then with_journal (record_package_exit E (op_id operation) (ExitFailed code) None) else ret ())
    (\<lambda>_. near (st_in S)) safe"
    by (auto intro!: triple_pre [OF package_exit_rule [OF assms]] triple_ret dest: synced_near)
qed

lemma package_failure_then:
  assumes "S \<subseteq> U" "triple (synced (st_in S)) k Q safe"
  shows "triple (synced (st_in S)) (and_do (record_package_failure_code E operation code) (and_do (persist E) k)) Q safe"
  by (rule triple_and_do [OF package_failure_code_rule triple_and_do [OF persist_rule assms(2)]])
     (use assms(1) in auto)

lemma final_digest_rule:
  "inside K \<Longrightarrow> triple (synced K) (final_digest_of adapters operation) (\<lambda>_. synced K) safe"
  by (rule tripleI)
     (auto simp: final_digest_of_def intro: synced_safe split: sum.splits prod.splits)

lemma package_success_rule:
  assumes "S \<subseteq> U"
  shows "triple (synced (st_in S)) (record_package_success E adapters operation) (\<lambda>_. near (st_in S)) safe"
  unfolding record_package_success_def
proof (rule triple_get_bind)
  fix j :: receipt_journal
  have "triple (synced (st_in S)) (bind_step (final_digest_of adapters operation) (\<lambda>digest.
      with_journal (record_package_exit E (op_id operation) ExitSucceeded (Some digest))))
    (\<lambda>_. near (st_in S)) safe"
    by (rule triple_bind [OF final_digest_rule package_exit_rule]) (use assms in auto)
  then show "triple (\<lambda>s. synced (st_in S) s \<and> en_journal s = j)
    (if \<not> is_package_operation operation \<or> rc_package_authorization j = None then ret ()
     else bind_step (final_digest_of adapters operation) (\<lambda>digest.
       with_journal (record_package_exit E (op_id operation) ExitSucceeded (Some digest))))
    (\<lambda>_. near (st_in S)) safe"
    by (auto intro!: triple_ret intro: triple_pre dest: synced_near)
qed

lemma package_success_then:
  assumes "S \<subseteq> U" "triple (synced (st_in S)) k Q safe"
  shows "triple (synced (st_in S)) (and_do (record_package_success E adapters operation) (and_do (persist E) k)) Q safe"
  by (rule triple_and_do [OF package_success_rule triple_and_do [OF persist_rule assms(2)]])
     (use assms(1) in auto)

lemma and_do_ret: "and_do m (ret ()) = m"
  by (auto simp: and_do_def bind_step_def ret_def fun_eq_iff split: prod.split sum.split)

lemma ret_and_do: "and_do (ret ()) k = k"
  by (simp add: and_do_def bind_step_def ret_def fun_eq_iff)

lemma and_do_assoc: "and_do (and_do a b) c = and_do a (and_do b c)"
  by (auto simp: and_do_def bind_step_def fun_eq_iff split: prod.split sum.split)

lemma transition_rule:
  assumes "S \<subseteq> U" "st \<in> U"
  shows "triple (synced (st_in S)) (and_do (step_transition E st) (persist E)) (\<lambda>_. synced (st_in {st})) safe"
  using transition_then [OF assms triple_ret [of "synced (st_in {st})" "\<lambda>_. synced (st_in {st})" "()"]]
  by (simp add: and_do_ret)

lemma failure_then:
  assumes "S \<subseteq> U" "triple (synced (st_in S)) k Q safe"
  shows "triple (synced (st_in S)) (and_do (record_failure E operation phase failure) k) Q safe"
  unfolding record_failure_def record_package_failure_def and_do_assoc
  by (intro record_then package_failure_then assms)

lemma call_then:
  assumes "S \<subseteq> U" "admits kind operation" "kind \<noteq> CallApply"
    and "\<And>r. triple (synced (st_in S)) (f r) Q safe"
  shows "triple (synced (st_in S)) (bind_step (call_adapter E adapters kind method operation) f) Q safe"
  by (rule triple_bind [OF call_rule assms(4)]) (use assms(1-3) in auto)

section \<open>Rollback\<close>

lemma rollback_loop_rule:
  assumes "StRollingBack \<in> U" "\<forall>x\<in>set ops. admits CallRollback x"
  shows "triple (synced (st_in {StRollingBack})) (rollback_loop E adapters ops b) (\<lambda>_. synced (st_in {StRollingBack})) safe"
  using assms(2)
proof (induction ops arbitrary: b)
  case Nil
  then show ?case by (simp add: triple_ret)
next
  case (Cons x ops)
  then show ?case using assms(1)
    by (auto intro!: call_then record_then split: sum.split)
qed

lemma rollback_rule:
  assumes "{StRollingBack, StRolledBack, StRollbackFailed} \<subseteq> U" "\<forall>x\<in>set ops. admits CallRollback x"
  shows "triple (synced (st_in {StRollingBack})) (rollback_from_rolling_back E adapters ops)
    (\<lambda>outcome. synced (st_in {outcome_state outcome})) safe"
  unfolding rollback_from_rolling_back_def Let_def
proof (rule triple_bind [OF rollback_loop_rule])
  fix b
  show "triple (synced (st_in {StRollingBack}))
    (and_do (step_transition E (outcome_state (if b then OutRollbackFailed else OutRolledBack)))
      (and_do (persist E) (ret (if b then OutRollbackFailed else OutRolledBack))))
    (\<lambda>outcome. synced (st_in {outcome_state outcome})) safe"
    by (rule transition_then) (use assms(1) in \<open>auto intro: triple_ret\<close>)
qed (use assms in auto)

lemma recover_rule:
  assumes "S \<subseteq> U" "{StRecoveryRequired, StRollingBack, StRolledBack, StRollbackFailed} \<subseteq> U"
    and "\<forall>x\<in>set ops. admits CallRollback x"
  shows "triple (synced (st_in S)) (recover E adapters ops)
    (\<lambda>outcome. synced (st_in {outcome_state outcome})) safe"
  unfolding recover_def
  by (intro transition_then rollback_rule) (use assms in auto)

lemma require_forward_recovery_rule:
  assumes "S \<subseteq> U" "StForwardRecoveryRequired \<in> U"
  shows "triple (synced (st_in S)) (require_forward_recovery E)
    (\<lambda>outcome. synced (st_in {outcome_state outcome})) safe"
  unfolding require_forward_recovery_def
  by (intro transition_then triple_ret) (use assms in auto)

section \<open>Execution\<close>

text \<open>The result of a loop that may return early.\<close>

definition early :: "receipt_state set \<Rightarrow> reconcile_outcome option \<Rightarrow> 'w engine \<Rightarrow> bool" where
  "early S r = synced (case r of None \<Rightarrow> st_in S | Some outcome \<Rightarrow> st_in {outcome_state outcome})"

lemma early_None [simp]: "early S None = synced (st_in S)"
  by (simp add: early_def)

lemma early_Some [simp]: "early S (Some outcome) = synced (st_in {outcome_state outcome})"
  by (simp add: early_def)

lemma early_ret: "triple (early S (Some outcome)) (ret outcome) (\<lambda>outcome. synced (st_in {outcome_state outcome})) R"
  by (rule triple_ret) simp

lemma return_early:
  "triple P m (\<lambda>outcome. synced (st_in {outcome_state outcome})) R \<Longrightarrow>
   triple P (bind_step m (\<lambda>outcome. ret (Some outcome))) (early S) R"
  by (erule triple_bind) (simp add: triple_ret)

lemma prepare_loop_rule:
  assumes "{StPrepared, StCanceled} \<subseteq> U" "\<forall>x\<in>set ops. admits CallPrepare x"
  shows "triple (synced (st_in {StPrepared})) (prepare_loop E adapters ops) (early {StPrepared}) safe"
  using assms(2)
proof (induction ops)
  case Nil
  then show ?case by (simp add: triple_ret)
next
  case (Cons x ops)
  then show ?case using assms(1)
    by (auto intro!: call_then record_then failure_then transition_then triple_ret split: sum.split)
qed

lemma apply_call_then:
  assumes "S \<subseteq> U" "admits CallApply operation" "\<And>r. triple (synced (st_in S)) (f r) Q safe"
  shows "triple (synced (st_in S)) (and_do (step_record E operation PhApplyStarted None)
    (and_do (persist E) (bind_step (call_adapter E adapters CallApply method operation) f))) Q safe"
proof (rule record_then_to)
  let ?K = "\<lambda>j. rc_state j \<in> S \<and> phase_of j (op_id operation) = Some PhApplyStarted"
  show "inside (st_in S)" "inside ?K" using assms(1) by (auto simp: inside_def st_in_def)
  show "triple (synced ?K) (bind_step (call_adapter E adapters CallApply method operation) f) Q safe"
  proof (rule triple_bind [OF call_rule])
    show "inside ?K" using assms(1) by (auto simp: inside_def)
    show "triple (synced ?K) (f r) Q safe" for r
      by (rule triple_pre [OF assms(3)]) (auto elim: synced_mono simp: st_in_def)
  qed (use assms(2) in auto)
qed (simp add: st_in_def)

lemma apply_exact_loop_rule:
  assumes "{StApplying, StRecoveryRequired, StRollingBack, StRolledBack, StRollbackFailed} \<subseteq> U"
    and "\<forall>x\<in>set ops. admits CallApply x" "\<forall>x\<in>set done \<union> set ops. admits CallRollback x"
  shows "triple (synced (st_in {StApplying})) (apply_exact_loop E adapters ops done)
    (\<lambda>r. case r of Inr applied \<Rightarrow> (\<lambda>s. synced (st_in {StApplying}) s \<and> applied = done @ ops)
        | Inl outcome \<Rightarrow> synced (st_in {outcome_state outcome})) safe"
  using assms(2,3)
proof (induction ops arbitrary: "done")
  case Nil
  then show ?case by (simp add: triple_ret)
next
  case (Cons x ops)
  have rec: "triple (synced (st_in {StApplying})) (recover E adapters (done @ [x]))
    (\<lambda>outcome. synced (st_in {outcome_state outcome})) safe"
    by (rule recover_rule) (use assms(1) Cons.prems in auto)
  have next_ops: "triple (synced (st_in {StApplying})) (apply_exact_loop E adapters ops (done @ [x]))
    (\<lambda>r. case r of Inr applied \<Rightarrow> (\<lambda>s. synced (st_in {StApplying}) s \<and> applied = done @ x # ops)
        | Inl outcome \<Rightarrow> synced (st_in {outcome_state outcome})) safe"
    using Cons.IH [of "done @ [x]"] Cons.prems by simp
  show ?case
    unfolding apply_exact_loop.simps
  proof (rule apply_call_then)
    fix r :: "adapter_failure + unit"
    show "triple (synced (st_in {StApplying})) (case r of
        Inl failure \<Rightarrow> and_do (record_failure E x PhApplyFailed failure)
          (bind_step (recover E adapters (done @ [x])) (\<lambda>outcome. ret (Inl outcome)))
      | Inr _ \<Rightarrow> and_do (step_record E x PhApplied None) (and_do (persist E)
          (apply_exact_loop E adapters ops (done @ [x]))))
      (\<lambda>r. case r of Inr applied \<Rightarrow> (\<lambda>s. synced (st_in {StApplying}) s \<and> applied = done @ x # ops)
        | Inl outcome \<Rightarrow> synced (st_in {outcome_state outcome})) safe"
      using assms(1)
      by (auto intro!: record_then failure_then triple_bind [OF rec] triple_ret next_ops split: sum.split)
  qed (use assms(1) Cons.prems in auto)
qed

lemma verify_exact_loop_rule:
  assumes "{StVerifying, StRecoveryRequired, StRollingBack, StRolledBack, StRollbackFailed} \<subseteq> U"
    and "\<forall>x\<in>set ops. admits CallVerify x" "\<forall>x\<in>set applied. admits CallRollback x"
  shows "triple (synced (st_in {StVerifying})) (verify_exact_loop E adapters applied ops) (early {StVerifying}) safe"
  using assms(2)
proof (induction ops)
  case Nil
  then show ?case by (simp add: triple_ret)
next
  case (Cons x ops)
  then show ?case using assms(1,3)
    by (auto intro!: call_then record_then failure_then return_early recover_rule split: sum.split)
qed

lemma apply_forward_loop_rule:
  assumes "S \<subseteq> U" "StForwardRecoveryRequired \<in> U"
    and "\<forall>x\<in>set ops. admits CallApply x \<and> admits CallVerify x"
  shows "triple (synced (st_in S)) (apply_forward_loop E adapters ops) (early S) safe"
  using assms(3)
proof (induction ops)
  case Nil
  then show ?case by (simp add: triple_ret)
next
  case (Cons x ops)
  then have IH: "triple (synced (st_in S)) (apply_forward_loop E adapters ops) (early S) safe"
    and a: "admits CallApply x" "admits CallVerify x" by auto
  have fail: "triple (synced (st_in S)) (and_do (record_failure E x phase failure)
      (bind_step (require_forward_recovery E) (\<lambda>outcome. ret (Some outcome)))) (early S) safe" for phase failure
    by (intro failure_then return_early require_forward_recovery_rule) (use assms in auto)
  have verified: "triple (synced (st_in S)) (case v of
      Inl failure \<Rightarrow> and_do (record_failure E x PhVerifyFailed failure)
        (bind_step (require_forward_recovery E) (\<lambda>outcome. ret (Some outcome)))
    | Inr _ \<Rightarrow> and_do (step_record E x PhVerified None) (and_do (persist E)
        (and_do (record_package_success E adapters x) (and_do (persist E) (apply_forward_loop E adapters ops)))))
    (early S) safe" for v :: "adapter_failure + unit"
    using assms(1) by (cases v) (auto intro!: fail record_then package_success_then IH)
  show ?case unfolding apply_forward_loop.simps
  proof (rule apply_call_then)
    fix r :: "adapter_failure + unit"
    show "triple (synced (st_in S)) (case r of
      Inl failure \<Rightarrow> and_do (record_failure E x PhApplyFailed failure)
        (bind_step (require_forward_recovery E) (\<lambda>outcome. ret (Some outcome)))
    | Inr _ \<Rightarrow> and_do (step_record E x PhApplied None) (and_do (persist E)
        (bind_step (call_adapter E adapters CallVerify ad_verify x) (\<lambda>v. case v of
          Inl failure \<Rightarrow> and_do (record_failure E x PhVerifyFailed failure)
            (bind_step (require_forward_recovery E) (\<lambda>outcome. ret (Some outcome)))
        | Inr _ \<Rightarrow> and_do (step_record E x PhVerified None) (and_do (persist E)
            (and_do (record_package_success E adapters x) (and_do (persist E) (apply_forward_loop E adapters ops))))))))
      (early S) safe"
      using assms(1) a(2) by (cases r) (auto intro!: fail record_then call_then verified)
  qed (use assms a in auto)
qed

lemma finish_rule:
  "S \<subseteq> U \<Longrightarrow> StSucceeded \<in> U \<Longrightarrow>
   triple (synced (st_in S)) (finish_run E) (\<lambda>outcome. synced (st_in {outcome_state outcome})) safe"
  unfolding finish_run_def by (intro transition_then triple_ret) auto

lemma run_forward_loop_rule:
  assumes "S \<subseteq> U" "{StForwardRecoveryRequired, StSucceeded} \<subseteq> U"
    and "\<forall>x\<in>set ops. admits CallApply x \<and> admits CallVerify x"
  shows "triple (synced (st_in S)) (bind_step (apply_forward_loop E adapters ops) (\<lambda>early.
      case early of Some outcome \<Rightarrow> ret outcome | None \<Rightarrow> finish_run E))
    (\<lambda>outcome. synced (st_in {outcome_state outcome})) safe"
proof (rule triple_bind [OF apply_forward_loop_rule])
  fix r
  show "triple (early S r) (case r of Some outcome \<Rightarrow> ret outcome | None \<Rightarrow> finish_run E)
    (\<lambda>outcome. synced (st_in {outcome_state outcome})) safe"
    using assms(1,2) by (cases r) (auto intro!: finish_rule triple_ret)
qed (use assms in auto)

lemma run_forward_rule:
  assumes "S \<subseteq> U" "{StApplyingForward, StForwardRecoveryRequired, StSucceeded} \<subseteq> U"
    and "\<forall>x\<in>set ops. admits CallApply x \<and> admits CallVerify x"
  shows "triple (synced (st_in S)) (run_forward E adapters ops)
    (\<lambda>outcome. synced (st_in {outcome_state outcome})) safe"
proof (cases "ops = []")
  case True
  show ?thesis unfolding run_forward_def
    by (rule triple_and_do [OF _ run_forward_loop_rule]) (use True assms in \<open>auto intro: triple_ret\<close>)
next
  case False
  have "run_forward E adapters ops = and_do (step_transition E StApplyingForward) (and_do (persist E)
      (bind_step (apply_forward_loop E adapters ops) (\<lambda>early.
         case early of Some outcome \<Rightarrow> ret outcome | None \<Rightarrow> finish_run E)))"
    using False by (simp add: run_forward_def and_do_assoc)
  moreover have "triple (synced (st_in S)) (and_do (step_transition E StApplyingForward) (and_do (persist E)
      (bind_step (apply_forward_loop E adapters ops) (\<lambda>early.
         case early of Some outcome \<Rightarrow> ret outcome | None \<Rightarrow> finish_run E))))
    (\<lambda>outcome. synced (st_in {outcome_state outcome})) safe"
    by (intro transition_then run_forward_loop_rule) (use assms in auto)
  ultimately show ?thesis by simp
qed

text \<open>The stages before the forward operations hand over to any continuation that is safe.\<close>

definition exact_states :: "receipt_state set" where
  "exact_states = {StPrepared, StCanceled, StApplying, StVerifying, StRecoveryRequired, StRollingBack,
     StRolledBack, StRollbackFailed}"

lemma run_verify_rule:
  assumes "exact_states \<subseteq> U"
    and "\<forall>x\<in>set exact. admits CallVerify x" "\<forall>x\<in>set applied. admits CallRollback x"
    and R: "\<And>s. safe s \<Longrightarrow> R s" and Q: "\<And>outcome s. synced (st_in {outcome_state outcome}) s \<Longrightarrow> Q outcome s"
    and k: "triple (synced (st_in {StVerifying})) (run_forward E adapters forward) Q R"
  shows "triple (synced (st_in {StApplying})) (run_verify E adapters exact forward applied) Q R"
proof -
  have t: "triple (synced (st_in {StApplying})) (and_do (step_transition E StVerifying) (persist E))
      (\<lambda>_. synced (st_in {StVerifying})) R"
    by (rule triple_conseq [OF transition_rule _ _ R]) (use assms(1) in \<open>auto simp: exact_states_def\<close>)
  have v: "triple (synced (st_in {StVerifying})) (verify_exact_loop E adapters applied exact) (early {StVerifying}) R"
    by (rule triple_conseq [OF verify_exact_loop_rule _ _ R]) (use assms(1-3) in \<open>auto simp: exact_states_def\<close>)
  have "triple (early {StVerifying} r) (case r of Some outcome \<Rightarrow> ret outcome
      | None \<Rightarrow> run_forward E adapters forward) Q R" for r
    by (cases r) (auto intro!: k triple_ret Q)
  from triple_and_do [OF t triple_bind [OF v this]] show ?thesis
    unfolding run_verify_def and_do_assoc .
qed

lemma run_apply_rule:
  assumes "exact_states \<subseteq> U"
    and "\<forall>x\<in>set exact. admits CallApply x \<and> admits CallVerify x \<and> admits CallRollback x"
    and R: "\<And>s. safe s \<Longrightarrow> R s" and Q: "\<And>outcome s. synced (st_in {outcome_state outcome}) s \<Longrightarrow> Q outcome s"
    and k: "triple (synced (st_in {StVerifying})) (run_forward E adapters forward) Q R"
  shows "triple (synced (st_in {StPrepared})) (run_apply E adapters exact forward) Q R"
proof -
  have t: "triple (synced (st_in {StPrepared})) (and_do (step_transition E StApplying) (persist E))
      (\<lambda>_. synced (st_in {StApplying})) R"
    by (rule triple_conseq [OF transition_rule _ _ R]) (use assms(1) in \<open>auto simp: exact_states_def\<close>)
  have a: "triple (synced (st_in {StApplying})) (apply_exact_loop E adapters exact [])
      (\<lambda>r. case r of Inr applied \<Rightarrow> (\<lambda>s. synced (st_in {StApplying}) s \<and> applied = [] @ exact)
        | Inl outcome \<Rightarrow> synced (st_in {outcome_state outcome})) R"
    by (rule triple_conseq [OF apply_exact_loop_rule _ _ R]) (use assms(1,2) in \<open>auto simp: exact_states_def\<close>)
  have v: "triple (synced (st_in {StApplying})) (run_verify E adapters exact forward exact) Q R"
    by (rule run_verify_rule) (use assms in auto)
  have "triple (case r of Inr applied \<Rightarrow> (\<lambda>s. synced (st_in {StApplying}) s \<and> applied = [] @ exact)
        | Inl outcome \<Rightarrow> synced (st_in {outcome_state outcome}))
      (case r of Inl outcome \<Rightarrow> ret outcome | Inr applied \<Rightarrow> run_verify E adapters exact forward applied) Q R"
    for r :: "reconcile_outcome + operation list"
    by (cases r) (auto intro!: triple_ret triple_given Q v)
  from triple_and_do [OF t triple_bind [OF a this]] show ?thesis
    unfolding run_apply_def and_do_assoc .
qed

lemma prepare_then_rule:
  assumes "exact_states \<subseteq> U" "\<forall>x\<in>set ops. admits CallPrepare x"
    and R: "\<And>s. safe s \<Longrightarrow> R s" and Q: "\<And>outcome s. synced (st_in {outcome_state outcome}) s \<Longrightarrow> Q outcome s"
    and k: "triple (synced (st_in {StPrepared})) m Q R"
  shows "triple (synced (st_in {StPrepared})) (bind_step (prepare_loop E adapters ops) (\<lambda>early.
      case early of Some outcome \<Rightarrow> ret outcome | None \<Rightarrow> m)) Q R"
proof (rule triple_bind)
  show "triple (synced (st_in {StPrepared})) (prepare_loop E adapters ops) (early {StPrepared}) R"
    by (rule triple_conseq [OF prepare_loop_rule _ _ R]) (use assms(1,2) in \<open>auto simp: exact_states_def\<close>)
  show "triple (early {StPrepared} r) (case r of Some outcome \<Rightarrow> ret outcome | None \<Rightarrow> m) Q R" for r
    by (cases r) (auto intro!: k triple_ret Q)
qed

section \<open>Forward convergence\<close>

lemma triple_if:
  "(b \<Longrightarrow> triple P m Q R) \<Longrightarrow> (\<not> b \<Longrightarrow> triple P k Q R) \<Longrightarrow> triple P (if b then m else k) Q R"
  by simp

lemma at_state: "synced (st_in S) s \<and> en_journal s = j \<Longrightarrow> synced (st_in {rc_state j}) s"
  by (auto simp: synced_def st_in_def)

lemma at_state_in: "synced (st_in S) s \<and> en_journal s = j \<Longrightarrow> rc_state j \<in> S"
  by (auto simp: synced_def st_in_def)

lemma get_then:
  fixes f :: "receipt_journal \<Rightarrow> ('w, 'a) engine_step"
  assumes "\<And>j. rc_state j \<in> S \<Longrightarrow> triple (synced (st_in {rc_state j})) (f j) Q safe"
  shows "triple (synced (st_in S)) (bind_step get_journal f) Q safe"
proof (rule triple_get_bind)
  fix j
  show "triple (\<lambda>s. synced (st_in S) s \<and> en_journal s = j) (f j) Q safe"
  proof (cases "rc_state j \<in> S")
    case True
    show ?thesis by (rule triple_pre [OF assms [OF True]]) (rule at_state)
  next
    case False
    then show ?thesis using at_state_in by (intro triple_vacuous) blast
  qed
qed

lemma fail_forward_recovery_rule:
  assumes "{StConvergingForward, StForwardRecoveryFailed} \<subseteq> U"
  shows "triple (synced (st_in {StConvergingForward})) (fail_forward_recovery E operation code) (early S) safe"
  unfolding fail_forward_recovery_def
  by (intro record_then package_failure_then transition_then triple_ret) (use assms in auto)

lemma observe_rule:
  "S \<subseteq> U \<Longrightarrow> admits CallObserve operation \<Longrightarrow>
   triple (synced (st_in S)) (observe E adapters operation) (\<lambda>_. synced (st_in S)) safe"
  unfolding observe_def by (intro call_then triple_ret) auto

lemma converge_operation_rule:
  assumes "S \<subseteq> U" "admits CallObserve operation" "admits CallPrepareRecovery operation" "admits CallConverge operation"
  shows "triple (synced (st_in S)) (converge_operation E adapters operation) (\<lambda>_. synced (st_in S)) safe"
  unfolding converge_operation_def
proof (rule triple_bind [OF observe_rule])
  fix observation
  have again: "triple (synced (st_in S)) (bind_step (observe E adapters operation) (\<lambda>o'. ret (check_observation o')))
      (\<lambda>_. synced (st_in S)) safe"
    by (rule triple_bind [OF observe_rule]) (use assms in \<open>auto intro: triple_ret\<close>)
  show "triple (synced (st_in S)) (if observation = Inr ObsBefore
      then bind_step (call_adapter E adapters CallPrepareRecovery ad_prepare_recovery operation) (\<lambda>p. case p of
          Inl failure \<Rightarrow> ret (Inl (stable_failure_code failure))
        | Inr _ \<Rightarrow> bind_step (call_adapter E adapters CallConverge ad_converge_recovery operation) (\<lambda>c. case c of
            Inl failure \<Rightarrow> ret (Inl (stable_failure_code failure))
          | Inr _ \<Rightarrow> bind_step (observe E adapters operation) (\<lambda>again. ret (check_observation again))))
      else ret (check_observation observation)) (\<lambda>_. synced (st_in S)) safe"
    using assms by (auto intro!: call_then triple_ret again split: sum.split)
qed (use assms in auto)

lemma repair_recovered_rule:
  assumes "{StConvergingForward, StForwardRecoveryFailed} \<subseteq> U" "admits CallObserve operation"
  shows "triple (synced (st_in {StConvergingForward})) (repair_recovered E adapters operation)
    (early {StConvergingForward}) safe"
  unfolding repair_recovered_def
proof (rule get_then)
  fix j :: receipt_journal assume j: "rc_state j \<in> {StConvergingForward}"
  have "triple (synced (st_in {StConvergingForward})) (bind_step (observe E adapters operation) (\<lambda>observation.
      case check_observation observation of
        Inr _ \<Rightarrow> and_do (record_package_success E adapters operation) (and_do (persist E) (ret None))
      | Inl code \<Rightarrow> fail_forward_recovery E operation code)) (early {StConvergingForward}) safe"
    by (rule triple_bind [OF observe_rule])
       (use assms in \<open>auto intro!: package_success_then triple_ret fail_forward_recovery_rule split: sum.split\<close>)
  then show "triple (synced (st_in {rc_state j})) (if package_evidence_pending j operation
      then bind_step (observe E adapters operation) (\<lambda>observation.
      case check_observation observation of
        Inr _ \<Rightarrow> and_do (record_package_success E adapters operation) (and_do (persist E) (ret None))
      | Inl code \<Rightarrow> fail_forward_recovery E operation code)
      else ret None) (early {StConvergingForward}) safe"
    using j by (auto intro: triple_ret)
qed

lemma converge_loop_rule:
  assumes "{StConvergingForward, StForwardRecoveryFailed} \<subseteq> U"
    and "\<forall>x\<in>set ops. admits CallObserve x \<and> admits CallPrepareRecovery x \<and> admits CallConverge x"
  shows "triple (synced (st_in {StConvergingForward})) (converge_loop E adapters ops)
    (early {StConvergingForward}) safe"
  using assms(2)
proof (induction ops)
  case Nil
  then show ?case by (simp add: triple_ret)
next
  case (Cons x ops)
  then have IH: "triple (synced (st_in {StConvergingForward})) (converge_loop E adapters ops)
      (early {StConvergingForward}) safe" by simp
  have repaired: "triple (synced (st_in {StConvergingForward})) (bind_step (repair_recovered E adapters x) (\<lambda>early.
      case early of Some outcome \<Rightarrow> ret (Some outcome) | None \<Rightarrow> converge_loop E adapters ops))
      (early {StConvergingForward}) safe"
  proof (rule triple_bind [OF repair_recovered_rule])
    fix r
    show "triple (early {StConvergingForward} r) (case r of Some outcome \<Rightarrow> ret (Some outcome)
      | None \<Rightarrow> converge_loop E adapters ops) (early {StConvergingForward}) safe"
      by (cases r) (auto intro: triple_ret IH)
  qed (use assms(1) Cons.prems in auto)
  have converged: "triple (synced (st_in {StConvergingForward})) (bind_step (converge_operation E adapters x) (\<lambda>result.
      case result of
        Inr _ \<Rightarrow> and_do (record_package_success E adapters x) (and_do (persist E)
          (and_do (step_record E x PhForwardRecovered None) (and_do (persist E)
            (and_do (persist E) (converge_loop E adapters ops)))))
      | Inl code \<Rightarrow> fail_forward_recovery E x code)) (early {StConvergingForward}) safe"
    by (rule triple_bind [OF converge_operation_rule])
       (use assms(1) Cons.prems in \<open>auto intro!: package_success_then record_then persist_again IH
          fail_forward_recovery_rule split: sum.split\<close>)
  show ?case unfolding converge_loop.simps
    by (rule get_then) (use repaired converged in auto)
qed

lemma enter_convergence_rule:
  assumes "S \<subseteq> U" "{StForwardRecoveryRequired, StConvergingForward} \<subseteq> U"
  shows "triple (synced (st_in S)) (enter_convergence E) (\<lambda>_. synced (st_in {StConvergingForward})) safe"
  unfolding enter_convergence_def
proof (rule get_then)
  fix j :: receipt_journal assume j: "rc_state j \<in> S"
  let ?F = "{StForwardRecoveryRequired, StForwardRecoveryFailed, StForwardRecovered}"
  let ?second = "bind_step get_journal (\<lambda>k. if rc_state k \<in> ?F
      then and_do (step_transition E StConvergingForward) (persist E) else ret ())"
  have second: "triple (synced (st_in {st})) ?second (\<lambda>_. synced (st_in {StConvergingForward})) safe"
    if st: "st \<in> insert StConvergingForward ?F" "st \<in> U" for st
  proof (rule get_then)
    fix k :: receipt_journal assume k: "rc_state k \<in> {st}"
    have "triple (synced (st_in {st})) (and_do (step_transition E StConvergingForward) (and_do (persist E) (ret ())))
       (\<lambda>_. synced (st_in {StConvergingForward})) safe"
      by (intro transition_then triple_ret) (use st assms in auto)
    then show "triple (synced (st_in {rc_state k})) (if rc_state k \<in> ?F
        then and_do (step_transition E StConvergingForward) (persist E) else ret ())
      (\<lambda>_. synced (st_in {StConvergingForward})) safe" using k st
      by (auto simp: and_do_ret intro: triple_ret)
  qed
  show "triple (synced (st_in {rc_state j})) (and_do
       (if rc_state j \<in> {StApplying, StVerifying, StApplyingForward}
        then and_do (step_transition E StForwardRecoveryRequired) (persist E)
        else if rc_state j \<in> {StForwardRecoveryRequired, StConvergingForward, StForwardRecoveryFailed, StForwardRecovered}
        then ret () else raise (RunAlreadyTerminal (rc_state j))) ?second)
     (\<lambda>_. synced (st_in {StConvergingForward})) safe" (is "triple ?P (and_do ?first ?second) ?Q safe")
  proof (cases "rc_state j \<in> {StApplying, StVerifying, StApplyingForward}")
    case True
    have "triple ?P (and_do (step_transition E StForwardRecoveryRequired) (and_do (persist E) ?second)) ?Q safe"
      by (rule transition_then [OF _ _ second]) (use j assms in auto)
    then show ?thesis using True by (simp add: and_do_assoc)
  next
    case False
    have "triple ?P ?first (\<lambda>_ s. synced (st_in {rc_state j}) s \<and> rc_state j \<in> insert StConvergingForward ?F) safe"
      using False j assms by (auto intro!: triple_ret triple_raise synced_safe [of "st_in {rc_state j}"])
    then show ?thesis
    proof (rule triple_and_do)
      show "triple (\<lambda>s. synced (st_in {rc_state j}) s \<and> rc_state j \<in> insert StConvergingForward ?F) ?second ?Q safe"
        by (rule triple_given, rule second) (use j assms(1) in auto)
    qed
  qed
qed

lemma converge_legacy_rule:
  assumes "S \<subseteq> U"
  shows "triple (synced (st_in S)) (converge_legacy E legacy) (\<lambda>_. synced (st_in S)) safe"
proof (induction legacy)
  case (Cons x legacy)
  obtain i phase where x: "x = (i, phase)" by (cases x)
  have "triple (synced (st_in S)) (and_do (with_journal (record_operation E i PhForwardRecoveryFailed
      (Some (StableId ''legacy_exact_forward_recovery'')))) (persist E)) (\<lambda>_. synced (st_in S)) safe"
    by (rule triple_and_do [OF with_journal_rule [OF record_op.journal_operation_axioms] persist_rule])
       (use assms in \<open>auto simp: st_in_def dest: record_operation_effect\<close>)
  then show ?case unfolding x converge_legacy.simps
    by (intro triple_and_do [OF _ Cons.IH] triple_if triple_ret) auto
qed (simp add: triple_ret)

lemma transition_unless_rule:
  assumes "S \<subseteq> U" "outcome_state outcome \<in> U"
  shows "triple (synced (st_in S)) (bind_step get_journal (\<lambda>k.
      and_do (if rc_state k \<noteq> outcome_state outcome
         then and_do (step_transition E (outcome_state outcome)) (persist E) else ret ()) (ret outcome)))
    (\<lambda>outcome. synced (st_in {outcome_state outcome})) safe"
proof (rule get_then)
  fix k :: receipt_journal assume k: "rc_state k \<in> S"
  have "triple (synced (st_in {rc_state k})) (and_do (step_transition E (outcome_state outcome)) (and_do (persist E) (ret outcome)))
    (\<lambda>outcome. synced (st_in {outcome_state outcome})) safe"
    by (intro transition_then triple_ret) (use k assms in auto)
  then show "triple (synced (st_in {rc_state k})) (and_do (if rc_state k \<noteq> outcome_state outcome
      then and_do (step_transition E (outcome_state outcome)) (persist E) else ret ()) (ret outcome))
    (\<lambda>outcome. synced (st_in {outcome_state outcome})) safe"
    by (cases "rc_state k = outcome_state outcome")
       (auto simp: and_do_assoc ret_and_do intro: triple_ret)
qed

definition forward_states :: "receipt_state set" where
  "forward_states = {StForwardRecoveryRequired, StConvergingForward, StForwardRecovered, StForwardRecoveryFailed}"

lemma converge_forward_rule:
  assumes "S \<subseteq> U" "forward_states \<subseteq> U"
    and "\<forall>x\<in>set (forward_operations plan). admits CallObserve x \<and> admits CallPrepareRecovery x \<and> admits CallConverge x"
  shows "triple (synced (st_in S)) (converge_forward E plan adapters)
    (\<lambda>outcome. synced (st_in {outcome_state outcome})) safe"
  unfolding converge_forward_def
proof (rule triple_and_do [OF enter_convergence_rule], goal_cases)
  case 3
  let ?C = "{StConvergingForward}"
  note U = assms(2) [unfolded forward_states_def]
  have legacy: "triple (synced (st_in ?C)) (and_do (converge_legacy E legacy) (bind_step get_journal (\<lambda>k.
      and_do (if rc_state k \<noteq> StForwardRecoveryFailed
         then and_do (step_transition E StForwardRecoveryFailed) (persist E) else ret ())
       (ret OutForwardRecoveryFailed)))) (\<lambda>outcome. synced (st_in {outcome_state outcome})) safe" for legacy
    by (rule triple_and_do [OF converge_legacy_rule transition_unless_rule [of _ OutForwardRecoveryFailed, unfolded outcome_state.simps]])
       (use U in auto)
  have last: "triple (synced (st_in ?C)) (bind_step get_journal (\<lambda>k.
      and_do (if rc_state k \<noteq> StForwardRecovered
         then and_do (step_transition E StForwardRecovered) (persist E) else ret ())
       (ret OutForwardRecovered))) (\<lambda>outcome. synced (st_in {outcome_state outcome})) safe"
    by (rule transition_unless_rule [of _ OutForwardRecovered, unfolded outcome_state.simps]) (use U in auto)
  have loop: "triple (synced (st_in ?C)) (bind_step (converge_loop E adapters (forward_operations plan)) (\<lambda>early.
      case early of Some outcome \<Rightarrow> ret outcome
      | None \<Rightarrow> bind_step get_journal (\<lambda>k. and_do (if rc_state k \<noteq> StForwardRecovered
         then and_do (step_transition E StForwardRecovered) (persist E) else ret ()) (ret OutForwardRecovered))))
      (\<lambda>outcome. synced (st_in {outcome_state outcome})) safe"
  proof (rule triple_bind [OF converge_loop_rule])
    fix r
    show "triple (early ?C r) (case r of Some outcome \<Rightarrow> ret outcome
      | None \<Rightarrow> bind_step get_journal (\<lambda>k. and_do (if rc_state k \<noteq> StForwardRecovered
         then and_do (step_transition E StForwardRecovered) (persist E) else ret ()) (ret OutForwardRecovered)))
      (\<lambda>outcome. synced (st_in {outcome_state outcome})) safe"
      by (cases r) (auto intro: last triple_ret)
  qed (use U assms(3) in auto)
  show ?case
    by (rule get_then) (use legacy loop in \<open>auto simp: Let_def\<close>)
qed (use assms in \<open>auto simp: forward_states_def\<close>)

section \<open>Resuming a rollback\<close>

definition at_phases :: "receipt_state set \<Rightarrow> (sha256_digest \<Rightarrow> operation_phase option) \<Rightarrow> receipt_journal \<Rightarrow> bool" where
  "at_phases S p j \<longleftrightarrow> rc_state j \<in> S \<and> phase_of j = p"

lemma inside_at_phases [simp]: "S \<subseteq> U \<Longrightarrow> inside (at_phases S p)"
  by (auto simp: inside_def at_phases_def)

lemma transition_keeping_phases:
  assumes "S \<subseteq> U" "st \<in> U"
  shows "triple (synced (at_phases S p)) (and_do (step_transition E st) (persist E))
    (\<lambda>_. synced (at_phases {st} p)) safe"
  unfolding step_transition_def
  by (rule triple_and_do [OF with_journal_rule [OF transition_op.journal_operation_axioms] persist_rule])
     (use assms in \<open>auto simp: at_phases_def dest: journal_transition_effect\<close>)

lemma get_at_phases:
  fixes f :: "receipt_journal \<Rightarrow> ('w, 'a) engine_step"
  assumes "\<And>j. rc_state j \<in> S \<Longrightarrow> phase_of j = p \<Longrightarrow> triple (synced (at_phases {rc_state j} p)) (f j) Q safe"
  shows "triple (synced (at_phases S p)) (bind_step get_journal f) Q safe"
proof (rule triple_get_bind)
  fix j
  show "triple (\<lambda>s. synced (at_phases S p) s \<and> en_journal s = j) (f j) Q safe"
  proof (cases "rc_state j \<in> S \<and> phase_of j = p")
    case True
    then show ?thesis
      by (intro triple_pre [OF assms]) (auto simp: synced_def at_phases_def)
  next
    case False
    then show ?thesis by (intro triple_vacuous) (auto simp: synced_def at_phases_def)
  qed
qed

lemma at_phases_st_in: "synced (at_phases S p) s \<Longrightarrow> synced (st_in S) s"
  by (erule synced_mono) (simp add: at_phases_def st_in_def)

definition undoable :: "operation_phase option \<Rightarrow> bool" where
  "undoable p \<longleftrightarrow> p \<in> Some ` {PhApplyStarted, PhApplied, PhApplyFailed, PhVerified, PhVerifyFailed}"

lemma rollback_candidates_phases:
  "rollback_candidates plan j = filter (\<lambda>x. undoable (phase_of j (op_id x))) (pl_operations plan)"
  unfolding rollback_candidates_def undoable_def phase_of_def
  by (rule filter_cong) (auto split: option.split)

lemma resume_rollback_rule:
  assumes "S \<subseteq> U" "{StCanceled, StRecoveryRequired, StRollingBack, StRolledBack, StRollbackFailed} \<subseteq> U"
    and "\<forall>x\<in>set (pl_operations plan). undoable (p (op_id x)) \<longrightarrow> admits CallRollback x"
  shows "triple (synced (at_phases S p)) (resume_rollback E plan adapters)
    (\<lambda>outcome. synced (st_in {outcome_state outcome})) safe"
  unfolding resume_rollback_def
proof (rule get_at_phases)
  fix j :: receipt_journal assume j: "rc_state j \<in> S"
  let ?Q = "\<lambda>outcome. synced (st_in {outcome_state outcome})"
  let ?roll = "bind_step get_journal (\<lambda>l. rollback_from_rolling_back E adapters (rollback_candidates plan l))"
  let ?B = "{StRecoveryRequired, StRollingBack}"
  let ?enter = "bind_step get_journal (\<lambda>k. and_do (if rc_state k = StRecoveryRequired
      then and_do (step_transition E StRollingBack) (persist E) else ret ()) ?roll)"
  have roll: "triple (synced (at_phases {StRollingBack} p)) ?roll ?Q safe"
  proof (rule get_at_phases)
    fix l :: receipt_journal assume "rc_state l \<in> {StRollingBack}" and l: "phase_of l = p"
    then show "triple (synced (at_phases {rc_state l} p))
       (rollback_from_rolling_back E adapters (rollback_candidates plan l)) ?Q safe"
      by (intro triple_pre [OF rollback_rule])
         (use assms(2,3) in \<open>auto simp: rollback_candidates_phases intro: at_phases_st_in\<close>)
  qed
  have enter: "triple (synced (at_phases ?B p)) ?enter ?Q safe"
  proof (rule get_at_phases)
    fix k :: receipt_journal assume k: "rc_state k \<in> ?B"
    have "triple (synced (at_phases {rc_state k} p)) (if rc_state k = StRecoveryRequired
        then and_do (step_transition E StRollingBack) (persist E) else ret ())
        (\<lambda>_. synced (at_phases {StRollingBack} p)) safe"
      by (rule triple_if) (use k assms(2) in \<open>auto intro!: transition_keeping_phases triple_ret\<close>)
    then show "triple (synced (at_phases {rc_state k} p)) (and_do (if rc_state k = StRecoveryRequired
        then and_do (step_transition E StRollingBack) (persist E) else ret ()) ?roll) ?Q safe"
      by (rule triple_and_do [OF _ roll])
  qed
  have "triple (synced (at_phases {rc_state j} p)) (if rc_state j \<in> {StApplying, StVerifying, StApplyingForward}
      then and_do (step_transition E StRecoveryRequired) (persist E)
      else if rc_state j \<in> ?B then ret () else raise (RunAlreadyTerminal (rc_state j)))
      (\<lambda>_. synced (at_phases ?B p)) safe"
  proof (intro triple_if)
    show "triple (synced (at_phases {rc_state j} p)) (and_do (step_transition E StRecoveryRequired) (persist E))
      (\<lambda>_. synced (at_phases ?B p)) safe"
      by (rule triple_conseq [OF transition_keeping_phases])
         (use j assms in \<open>auto elim: synced_mono simp: at_phases_def\<close>)
    show "triple (synced (at_phases {rc_state j} p)) (ret ()) (\<lambda>_. synced (at_phases ?B p)) safe"
      if "rc_state j \<in> ?B" using that by (intro triple_ret) (auto elim: synced_mono simp: at_phases_def)
    show "triple (synced (at_phases {rc_state j} p)) (raise (RunAlreadyTerminal (rc_state j)))
      (\<lambda>_. synced (at_phases ?B p)) safe"
      by (rule triple_raise, rule synced_safe [rotated], assumption) (use j assms(1) in auto)
  qed
  from triple_and_do [OF this enter] have rest: "triple (synced (at_phases {rc_state j} p)) (and_do
      (if rc_state j \<in> {StApplying, StVerifying, StApplyingForward}
       then and_do (step_transition E StRecoveryRequired) (persist E)
       else if rc_state j \<in> ?B then ret () else raise (RunAlreadyTerminal (rc_state j))) ?enter) ?Q safe" .
  have cancel: "triple (synced (at_phases {rc_state j} p)) (and_do (step_transition E StCanceled)
      (and_do (persist E) (ret OutCanceled))) ?Q safe"
    by (rule triple_pre [OF transition_then [where S = "{rc_state j}"]]) (use j assms in \<open>auto intro: at_phases_st_in triple_ret\<close>)
  show "triple (synced (at_phases {rc_state j} p)) (if rc_state j = StPrepared
      then and_do (step_transition E StCanceled) (and_do (persist E) (ret OutCanceled))
      else and_do (if rc_state j \<in> {StApplying, StVerifying, StApplyingForward}
         then and_do (step_transition E StRecoveryRequired) (persist E)
         else if rc_state j \<in> ?B then ret () else raise (RunAlreadyTerminal (rc_state j))) ?enter) ?Q safe"
    by (rule triple_if) (rule cancel, rule rest)
qed

end

end
