(* ===== verification/Engine_Growth.thy ===== *)
theory Engine_Growth
  imports Engine_Discipline
begin

text \<open>
  How many journal entries the reconciler can append: linearly many in the operations of the plan.
  The bound keeps the 64-bit sequence numbers of a run from wrapping. A reconciler also keeps the
  store it was built with, and its journal the plan and the contract version it was opened for.
\<close>

definition entries :: "'w engine \<Rightarrow> nat" where
  "entries s = length (rc_transitions (en_journal s))"

definition grows :: "nat \<Rightarrow> ('w, 'a) engine_step \<Rightarrow> bool" where
  "grows n m \<longleftrightarrow> (\<forall>s. entries (snd (m s)) \<le> entries s + n
     \<and> (en_store (snd (m s)) = None \<longleftrightarrow> en_store s = None)
     \<and> journal_header (en_journal (snd (m s))) = journal_header (en_journal s))"

definition yields :: "('w, 'a) engine_step \<Rightarrow> ('a \<Rightarrow> bool) \<Rightarrow> bool" where
  "yields m V \<longleftrightarrow> (\<forall>s x t. m s = (Inr x, t) \<longrightarrow> V x)"

lemma growsD:
  assumes "grows n m" "m s = (r, t)"
  shows "entries t \<le> entries s + n" "en_store t = None \<longleftrightarrow> en_store s = None"
    "journal_header (en_journal t) = journal_header (en_journal s)"
  using assms unfolding grows_def by (metis snd_conv)+

lemma grows_mono: "grows n m \<Longrightarrow> n \<le> k \<Longrightarrow> grows k m"
  unfolding grows_def by (meson add_le_cancel_left le_trans)

lemma grows_ret [simp]: "grows n (ret x)"
  by (simp add: grows_def ret_def)

lemma grows_raise [simp]: "grows n (raise e)"
  by (simp add: grows_def raise_def)

lemma grows_get [simp]: "grows n get_journal"
  by (simp add: grows_def get_journal_def)

lemma grows_call [simp]: "grows n (call_adapter E adapters k m x)"
  by (auto simp: grows_def call_adapter_def entries_def split: sum.split prod.split)

lemma grows_persist [simp]: "grows n (persist E)"
  by (auto simp: grows_def persist_def entries_def Let_def split: option.split prod.split)

lemma grows_digest [simp]: "grows n (final_digest_of adapters x)"
  by (auto simp: grows_def final_digest_of_def entries_def split: sum.split prod.split)

lemma grows_bind_value:
  assumes "grows a m" "yields m V" "\<And>x. V x \<Longrightarrow> grows b (f x)"
  shows "grows (a + b) (bind_step m f)"
  unfolding grows_def
proof
  fix s
  obtain r t where m: "m s = (r, t)" by (cases "m s")
  note t = growsD [OF assms(1) m]
  show "entries (snd (bind_step m f s)) \<le> entries s + (a + b)
    \<and> (en_store (snd (bind_step m f s)) = None \<longleftrightarrow> en_store s = None)
    \<and> journal_header (en_journal (snd (bind_step m f s))) = journal_header (en_journal s)"
  proof (cases r)
    case (Inl e)
    then show ?thesis using m t by (simp add: bind_step_def)
  next
    case (Inr x)
    then have "grows b (f x)" using m assms(2,3) by (auto simp: yields_def)
    then have "entries (snd (f x t)) \<le> entries t + b" "en_store (snd (f x t)) = None \<longleftrightarrow> en_store t = None"
      "journal_header (en_journal (snd (f x t))) = journal_header (en_journal t)"
      by (simp_all add: grows_def)
    then show ?thesis using m t Inr by (simp add: bind_step_def)
  qed
qed

lemma grows_bind: "grows a m \<Longrightarrow> (\<And>x. grows b (f x)) \<Longrightarrow> grows (a + b) (bind_step m f)"
  by (rule grows_bind_value [where V = "\<lambda>_. True"]) (simp_all add: yields_def)

lemma grows_and_do: "grows a m \<Longrightarrow> grows b k \<Longrightarrow> grows (a + b) (and_do m k)"
  unfolding and_do_def by (rule grows_bind)

lemma grows_with_journal:
  assumes "journal_operation E f"
  shows "grows (Suc 0) (with_journal f :: ('w, unit) engine_step)"
  unfolding grows_def
proof
  fix s :: "'w engine"
  obtain r j where f: "f (en_journal s) = (r, j)" by (cases "f (en_journal s)")
  then show "entries (snd (with_journal f s)) \<le> entries s + Suc 0
    \<and> (en_store (snd (with_journal f s)) = None \<longleftrightarrow> en_store s = None)
    \<and> journal_header (en_journal (snd (with_journal f s))) = journal_header (en_journal s)"
    using journal_operation.appends_one [OF assms] journal_operation.error_appends_none [OF assms]
    by (cases r) (force simp: with_journal_def entries_def extends_by_def same_entries_def)+
qed

lemma grows_transition: "grows (Suc 0) (step_transition E st)"
  unfolding step_transition_def by (rule grows_with_journal [OF transition_op.journal_operation_axioms])

lemma grows_record: "grows (Suc 0) (step_record E x phase code)"
  unfolding step_record_def by (rule grows_with_journal [OF record_op.journal_operation_axioms])

text \<open>Skipping over a step that appends nothing, or one entry.\<close>

lemma grows_skip:
  "grows n k \<Longrightarrow> grows n (and_do (persist E) k)"
  "(\<And>r. grows n (f r)) \<Longrightarrow> grows n (bind_step (call_adapter E adapters kind m x) f)"
  "(\<And>j. grows n (g j)) \<Longrightarrow> grows n (bind_step get_journal g)"
  using grows_and_do [of 0 "persist E" n k] grows_bind [of 0 "call_adapter E adapters kind m x" n f]
    grows_bind [of 0 get_journal n g] by simp_all

lemma grows_one:
  "grows n k \<Longrightarrow> grows (Suc n) (and_do (step_transition E st) k)"
  "grows n k \<Longrightarrow> grows (Suc n) (and_do (step_record E x phase code) k)"
  "grows n k \<Longrightarrow> journal_operation E f \<Longrightarrow> grows (Suc n) (and_do (with_journal f) k)"
  using grows_and_do [OF grows_transition, of n k] grows_and_do [OF grows_record, of n k]
    grows_and_do [OF grows_with_journal, of _ f n k] by simp_all

lemma grows_package:
  "grows (Suc 0) (record_package_failure_code E x code)"
  "grows (Suc 0) (record_package_failure E x failure)"
  "grows (Suc 0) (record_package_success E adapters x)"
  unfolding record_package_failure_def record_package_failure_code_def record_package_success_def
  by (auto intro!: grows_skip grows_with_journal [OF exit_op.journal_operation_axioms]
      grows_bind [of 0 _ "Suc 0", simplified])

lemma grows_failure: "grows 2 (record_failure E x phase failure)"
  unfolding record_failure_def numeral_2_eq_2
  by (intro grows_one grows_skip grows_and_do [OF grows_package(2), of 0, simplified]) simp

lemma grows_if: "grows n a \<Longrightarrow> grows n b \<Longrightarrow> grows n (if c then a else b)"
  by simp

section \<open>Execution\<close>

lemma grows_rollback_loop: "grows (length ops) (rollback_loop E adapters ops b)"
  by (induction ops arbitrary: b) (auto intro!: grows_skip grows_one split: sum.split)

lemma grows_finish: "grows (Suc 0) (and_do (step_transition E st) (and_do (persist E) (ret out)))"
  by (intro grows_one grows_skip) simp

lemma grows_rollback: "grows (Suc (length ops)) (rollback_from_rolling_back E adapters ops)"
  unfolding rollback_from_rolling_back_def Let_def
  by (rule grows_mono [OF grows_bind [OF grows_rollback_loop grows_finish]]) simp

lemma grows_recover: "grows (length ops + 3) (recover E adapters ops)"
  unfolding recover_def numeral_3_eq_3 add_Suc_right add_0_right
  by (intro grows_one grows_skip grows_rollback)

lemma grows_prepare_loop: "grows (3 * length ops) (prepare_loop E adapters ops)"
proof (induction ops)
  case (Cons x ops)
  have "grows 3 (and_do (record_failure E x PhPrepareFailed f) (and_do (step_transition E StCanceled)
      (and_do (persist E) (ret (Some OutCanceled)))))" for f
    by (intro grows_and_do [OF grows_failure, of "Suc 0", simplified] grows_one grows_skip) simp
  then have f: "grows (3 + 3 * length ops) (and_do (record_failure E x PhPrepareFailed f) (and_do (step_transition E StCanceled)
      (and_do (persist E) (ret (Some OutCanceled)))))" for f
    by (rule grows_mono) simp
  have "grows (Suc (3 * length ops)) (and_do (step_record E x PhPrepared None)
      (and_do (persist E) (prepare_loop E adapters ops)))"
    by (intro grows_one grows_skip Cons.IH)
  then have "grows (3 + 3 * length ops) (and_do (step_record E x PhPrepared None)
      (and_do (persist E) (prepare_loop E adapters ops)))"
    by (rule grows_mono) simp
  with f show ?case by (auto intro!: grows_skip split: sum.split)
qed simp

lemma grows_recovering:
  "grows (length ops + 5) (and_do (record_failure E x phase failure)
     (bind_step (recover E adapters ops) (\<lambda>outcome. ret (g outcome))))"
  by (rule grows_mono [OF grows_and_do [OF grows_failure grows_bind [OF grows_recover grows_ret [of 0]]]]) simp

lemma grows_apply_exact:
  "grows (3 * length ops + length applied + 4) (apply_exact_loop E adapters ops applied)"
proof (induction ops arbitrary: applied)
  case (Cons x ops)
  let ?n = "3 * length ops + length applied + 6"
  have f: "grows ?n (and_do (record_failure E x PhApplyFailed f)
     (bind_step (recover E adapters (applied @ [x])) (\<lambda>outcome. ret (Inl outcome))))" for f
    by (rule grows_mono [OF grows_recovering]) simp
  have "grows (Suc (3 * length ops + length (applied @ [x]) + 4)) (and_do (step_record E x PhApplied None)
      (and_do (persist E) (apply_exact_loop E adapters ops (applied @ [x]))))"
    by (intro grows_one grows_skip Cons.IH)
  then have s: "grows ?n (and_do (step_record E x PhApplied None)
      (and_do (persist E) (apply_exact_loop E adapters ops (applied @ [x]))))"
    by (rule grows_mono) simp
  have "grows (Suc ?n) (apply_exact_loop E adapters (x # ops) applied)"
    unfolding apply_exact_loop.simps by (intro grows_one grows_skip) (use f s in \<open>auto split: sum.split\<close>)
  then show ?case by (rule grows_mono) simp
qed simp

lemma apply_exact_yields:
  "yields (apply_exact_loop E adapters ops applied)
     (\<lambda>r. case r of Inl _ \<Rightarrow> True | Inr done_ops \<Rightarrow> done_ops = applied @ ops)"
  unfolding yields_def
proof (induction ops arbitrary: applied)
  case (Cons x ops)
  show ?case
    by (auto simp: and_do_def bind_step_def ret_def split: prod.splits sum.splits dest!: Cons.IH [rule_format])
qed (simp add: ret_def)

lemma grows_verify_exact:
  "grows (length ops + length applied + 5) (verify_exact_loop E adapters applied ops)"
proof (induction ops)
  case (Cons x ops)
  have "grows (Suc (length ops + length applied + 5)) (and_do (record_failure E x PhVerifyFailed f)
     (bind_step (recover E adapters applied) (\<lambda>outcome. ret (Some outcome))))" for f
    by (rule grows_mono [OF grows_recovering]) simp
  moreover have "grows (Suc (length ops + length applied + 5)) (and_do (step_record E x PhVerified None)
      (and_do (persist E) (verify_exact_loop E adapters applied ops)))"
    by (intro grows_skip grows_one Cons.IH)
  ultimately show ?case by (auto intro!: grows_skip split: sum.split)
qed simp

lemma grows_forward_required:
  "grows 3 (and_do (record_failure E x phase failure)
     (bind_step (require_forward_recovery E) (\<lambda>outcome. ret (Some outcome))))"
proof -
  have "grows (Suc 0) (require_forward_recovery E)"
    unfolding require_forward_recovery_def by (intro grows_one grows_skip) simp
  from grows_and_do [OF grows_failure grows_bind [OF this grows_ret [of 0]]] show ?thesis by simp
qed

lemma grows_apply_forward: "grows (5 * length ops) (apply_forward_loop E adapters ops)"
proof (induction ops)
  case (Cons x ops)
  let ?n = "5 * length ops"
  have fail: "grows (?n + 3) (and_do (record_failure E x phase failure)
     (bind_step (require_forward_recovery E) (\<lambda>outcome. ret (Some outcome))))" for phase failure
    by (rule grows_mono [OF grows_forward_required]) simp
  have "grows (Suc ?n) (and_do (record_package_success E adapters x)
      (and_do (persist E) (apply_forward_loop E adapters ops)))"
    using grows_and_do [OF grows_package(3) grows_skip(1) [OF Cons.IH]] by simp
  from grows_mono [OF grows_one(2) [OF grows_skip(1) [OF this]], of "?n + 3"]
  have "grows (?n + 3) (and_do (step_record E x PhVerified None) (and_do (persist E)
      (and_do (record_package_success E adapters x) (and_do (persist E) (apply_forward_loop E adapters ops)))))"
    by simp
  with fail have v: "grows (Suc (?n + 3)) (and_do (step_record E x PhApplied None) (and_do (persist E)
      (bind_step (call_adapter E adapters CallVerify ad_verify x) (\<lambda>v. case v of
          Inl failure \<Rightarrow> and_do (record_failure E x PhVerifyFailed failure)
            (bind_step (require_forward_recovery E) (\<lambda>outcome. ret (Some outcome)))
        | Inr _ \<Rightarrow> and_do (step_record E x PhVerified None) (and_do (persist E)
            (and_do (record_package_success E adapters x) (and_do (persist E) (apply_forward_loop E adapters ops))))))))"
    by (intro grows_one grows_skip) (auto split: sum.split)
  have a: "grows (Suc (?n + 3)) (and_do (record_failure E x PhApplyFailed failure)
     (bind_step (require_forward_recovery E) (\<lambda>outcome. ret (Some outcome))))" for failure
    by (rule grows_mono [OF fail]) simp
  have "grows (Suc (Suc (?n + 3))) (apply_forward_loop E adapters (x # ops))"
    unfolding apply_forward_loop.simps
    by (intro grows_one grows_skip) (use v a in \<open>auto split: sum.split\<close>)
  then show ?case by (rule grows_mono) simp
qed simp

lemma grows_early:
  "grows a m \<Longrightarrow> grows b k \<Longrightarrow>
   grows (a + b) (bind_step m (\<lambda>early. case early of Some outcome \<Rightarrow> ret outcome | None \<Rightarrow> k))"
  by (rule grows_bind) (auto split: option.split)

lemma grows_run_forward: "grows (5 * length ops + 2) (run_forward E adapters ops)"
proof -
  have "grows (Suc 0) (if ops \<noteq> [] then and_do (step_transition E StApplyingForward) (persist E) else ret ())"
    by (simp add: grows_one)
  then show ?thesis unfolding run_forward_def finish_run_def
    by (rule grows_mono [OF grows_and_do [OF _ grows_early [OF grows_apply_forward grows_finish]]]) simp
qed

lemma grows_run_apply:
  "grows (5 * length exact + 5 * length forward + 13) (run_apply E adapters exact forward)"
proof -
  let ?v = "2 * length exact + 5 * length forward + 8"
  have "grows (length exact + length exact + 5 + (5 * length forward + 2))
     (bind_step (verify_exact_loop E adapters exact exact) (\<lambda>early.
       case early of Some outcome \<Rightarrow> ret outcome | None \<Rightarrow> run_forward E adapters forward))"
    by (rule grows_early [OF grows_verify_exact grows_run_forward])
  then have v: "grows ?v (run_verify E adapters exact forward exact)"
    unfolding run_verify_def by (rule grows_mono [OF grows_one(1) [OF grows_skip(1)]]) simp
  have "grows (3 * length exact + length ([] :: operation list) + 4 + ?v) (bind_step (apply_exact_loop E adapters exact [])
     (\<lambda>r. case r of Inl outcome \<Rightarrow> ret outcome | Inr applied \<Rightarrow> run_verify E adapters exact forward applied))"
    by (rule grows_bind_value [OF grows_apply_exact apply_exact_yields])
       (use v in \<open>auto split: sum.splits\<close>)
  then show ?thesis unfolding run_apply_def
    by (rule grows_mono [OF grows_one(1) [OF grows_skip(1)]]) simp
qed

definition entry_bound :: "plan \<Rightarrow> nat" where
  "entry_bound plan = 8 * length (pl_operations plan) + 13"

lemma grows_execute_preflighted: "grows (entry_bound plan) (execute_preflighted E plan adapters)"
proof -
  have n: "length (exact_operations plan) + length (forward_operations plan) \<le> length (pl_operations plan)"
  proof -
    have "forward_operations plan = filter (\<lambda>x. op_recovery_capability x \<noteq> ExactRollback) (pl_operations plan)"
      unfolding forward_operations_def by (rule filter_cong) (auto, metis recovery_capability.exhaust)
    then show ?thesis
      using sum_length_filter_compl [of "\<lambda>x. op_recovery_capability x = ExactRollback" "pl_operations plan"]
      by (simp add: exact_operations_def)
  qed
  have "grows (3 * length (pl_operations plan) + (5 * length (exact_operations plan) + 5 * length (forward_operations plan) + 13))
     (bind_step (prepare_loop E adapters (pl_operations plan)) (\<lambda>early.
         (case early of Some outcome \<Rightarrow> ret outcome
            | None \<Rightarrow> run_apply E adapters (exact_operations plan) (forward_operations plan))))"
    by (rule grows_early [OF grows_prepare_loop grows_run_apply])
  then show ?thesis unfolding execute_preflighted_def entry_bound_def
    by (rule grows_mono [OF grows_skip(1)]) (use n in linarith)
qed

section \<open>Recovery\<close>

lemma grows_converge_legacy: "grows (length xs) (converge_legacy E xs)"
proof (induction xs)
  case (Cons x xs)
  obtain i phase where x: "x = (i, phase)" by (cases x)
  have "grows (Suc 0) (if phase = PhForwardRecovered
      then and_do (with_journal (record_operation E i PhForwardRecoveryFailed
             (Some (StableId ''legacy_exact_forward_recovery'')))) (persist E) else ret ())"
    by (simp add: grows_one(3) [OF grows_persist record_op.journal_operation_axioms])
  from grows_and_do [OF this Cons.IH] show ?case by (simp add: x)
qed simp

lemma grows_observe: "grows 0 (observe E adapters x)"
  unfolding observe_def by (intro grows_skip) simp

lemma grows_converge_operation: "grows 0 (converge_operation E adapters x)"
proof -
  have o: "(\<And>r. grows 0 (f r)) \<Longrightarrow> grows 0 (bind_step (observe E adapters x) f)"
    for f :: "_ \<Rightarrow> ('a, stable_id + unit) engine_step"
    by (rule grows_bind [OF grows_observe, where b = 0, simplified])
  show ?thesis unfolding converge_operation_def
    by (intro o) (auto intro!: grows_skip o split: sum.split)
qed

lemma grows_fail_forward: "grows 3 (fail_forward_recovery E x code)"
proof -
  have "grows (Suc (Suc 0 + Suc 0)) (fail_forward_recovery E x code)"
    unfolding fail_forward_recovery_def
    by (intro grows_one(2) grows_skip(1) grows_and_do [OF grows_package(1)] grows_finish)
  then show ?thesis by (simp add: numeral_3_eq_3)
qed

lemma grows_repair: "grows 3 (repair_recovered E adapters x)"
proof -
  have s: "grows 3 (and_do (record_package_success E adapters x) (and_do (persist E) (ret None)))"
    by (rule grows_mono [OF grows_and_do [OF grows_package(3) grows_skip(1) [OF grows_ret [of 0]]]]) simp
  have "grows (0 + 3) (bind_step (observe E adapters x) (\<lambda>observation.
           (case check_observation observation of
              Inr _ \<Rightarrow> and_do (record_package_success E adapters x)
                (and_do (persist E) (ret None))
            | Inl code \<Rightarrow> fail_forward_recovery E x code)))"
    by (rule grows_bind [OF grows_observe]) (auto simp: s grows_fail_forward split: sum.split)
  then show ?thesis unfolding repair_recovered_def
    by (intro grows_skip) simp
qed

lemma grows_converge_loop: "grows (3 * length ops) (converge_loop E adapters ops)"
proof (induction ops)
  case (Cons x ops)
  have r: "grows (3 + 3 * length ops) (bind_step (repair_recovered E adapters x) (\<lambda>early.
      case early of Some outcome \<Rightarrow> ret (Some outcome) | None \<Rightarrow> converge_loop E adapters ops))"
    by (rule grows_bind [OF grows_repair]) (auto simp: Cons.IH split: option.split)
  have s: "grows (3 + 3 * length ops) (and_do (record_package_success E adapters x) (and_do (persist E)
      (and_do (step_record E x PhForwardRecovered None) (and_do (persist E)
        (and_do (persist E) (converge_loop E adapters ops))))))"
    by (rule grows_mono [OF grows_and_do [OF grows_package(3) grows_skip(1) [OF grows_one(2)
          [OF grows_skip(1) [OF grows_skip(1) [OF Cons.IH]]]]]]) simp
  have f: "grows (3 + 3 * length ops) (fail_forward_recovery E x code)" for code
    by (rule grows_mono [OF grows_fail_forward]) simp
  have "grows (0 + (3 + 3 * length ops)) (bind_step (converge_operation E adapters x) (\<lambda>result.
      case result of
        Inr _ \<Rightarrow> and_do (record_package_success E adapters x) (and_do (persist E)
          (and_do (step_record E x PhForwardRecovered None) (and_do (persist E)
            (and_do (persist E) (converge_loop E adapters ops)))))
      | Inl code \<Rightarrow> fail_forward_recovery E x code))"
    by (rule grows_bind [OF grows_converge_operation]) (auto simp: s f split: sum.split)
  with r show ?case by (auto intro!: grows_skip)
qed simp

lemma grows_enter: "grows 2 (enter_convergence E)"
proof -
  have "grows (Suc 0 + Suc 0) (enter_convergence E)" unfolding enter_convergence_def
    by (intro grows_skip(3) grows_and_do) (auto intro!: grows_skip(3) simp: grows_one(1))
  then show ?thesis by (simp add: numeral_2_eq_2)
qed

definition recovery_bound :: "plan \<Rightarrow> nat" where
  "recovery_bound plan = 3 * length (pl_operations plan) + 3"

lemma legacy_length: "length (legacy_exact_forward_progress plan j) \<le> length (pl_operations plan)"
proof -
  have "length (List.map_filter f xs) \<le> length xs" for f :: "operation \<Rightarrow> (sha256_digest \<times> operation_phase) option" and xs
    by (induction xs) (auto simp: map_filter_simps split: option.split)
  then show ?thesis unfolding legacy_exact_forward_progress_def exact_operations_def
    by (rule le_trans) simp
qed

lemma grows_settle:
  "grows (Suc 0) (bind_step get_journal (\<lambda>k. and_do
     (if rc_state k \<noteq> st then and_do (step_transition E st) (persist E) else ret ()) (ret out)))"
proof -
  have "grows (Suc 0) (if rc_state k \<noteq> st then and_do (step_transition E st) (persist E) else ret ())" for k
    by (simp add: grows_one(1))
  from grows_and_do [OF this grows_ret [of 0]] show ?thesis by (intro grows_skip) (simp only: add_0_right)
qed

lemma grows_converge_forward: "grows (recovery_bound plan) (converge_forward E plan adapters)"
proof -
  let ?n = "length (pl_operations plan)"
  have l: "grows (3 * ?n + 1) (and_do (converge_legacy E (legacy_exact_forward_progress plan j))
      (bind_step get_journal (\<lambda>k. and_do (if rc_state k \<noteq> StForwardRecoveryFailed
         then and_do (step_transition E StForwardRecoveryFailed) (persist E) else ret ())
         (ret OutForwardRecoveryFailed))))" for j
    by (rule grows_mono [OF grows_and_do [OF grows_converge_legacy grows_settle]])
       (use legacy_length [of plan j] in simp)
  have c: "grows (3 * ?n + 1) (bind_step (converge_loop E adapters (forward_operations plan)) (\<lambda>early.
      case early of Some outcome \<Rightarrow> ret outcome
      | None \<Rightarrow> bind_step get_journal (\<lambda>k. and_do (if rc_state k \<noteq> StForwardRecovered
          then and_do (step_transition E StForwardRecovered) (persist E) else ret ()) (ret OutForwardRecovered))))"
    by (rule grows_mono [OF grows_early [OF grows_converge_loop grows_settle]])
       (simp add: forward_operations_def)
  have "grows (2 + (3 * ?n + 1)) (converge_forward E plan adapters)"
    unfolding converge_forward_def Let_def
    by (intro grows_and_do grows_enter grows_skip(3)) (use l c in auto)
  then show ?thesis by (rule grows_mono) (simp add: recovery_bound_def)
qed

lemma grows_resume_rollback: "grows (recovery_bound plan) (resume_rollback E plan adapters)"
proof -
  let ?n = "length (pl_operations plan)"
  have b: "grows (Suc ?n) (rollback_from_rolling_back E adapters (rollback_candidates plan l))" for l
    by (rule grows_mono [OF grows_rollback]) (simp add: rollback_candidates_def)
  have k: "grows (Suc 0 + Suc ?n) (and_do (if rc_state k = StRecoveryRequired
              then and_do (step_transition E StRollingBack) (persist E) else ret ())
            (bind_step get_journal (\<lambda>l. rollback_from_rolling_back E adapters (rollback_candidates plan l))))" for k
    by (intro grows_and_do grows_skip(3) b) (simp add: grows_one(1))
  have "grows (Suc 0 + (Suc 0 + Suc ?n)) (resume_rollback E plan adapters)"
    unfolding resume_rollback_def
    by (intro grows_skip(3) grows_if [OF grows_mono [OF grows_finish]] grows_and_do k grows_one(1)
        grows_if [OF grows_one(1)]) simp_all
  then show ?thesis by (rule grows_mono) (simp add: recovery_bound_def)
qed

end
