(* ===== verification/Engine_Safety.thy ===== *)
theory Engine_Safety
  imports Engine_Growth
begin

text \<open>
  Safety of the reconciler, from the checkpoint discipline of \<open>Engine_Discipline\<close>: what a run
  leaves in the store and in the log of adapter calls, whatever the adapters and the operating
  system do.
\<close>

section \<open>Logs\<close>

definition calls_after ::
  "logged_call list \<Rightarrow> (call_kind \<Rightarrow> operation \<Rightarrow> bool) \<Rightarrow> logged_call list \<Rightarrow> bool" where
  "calls_after old P cs \<longleftrightarrow>
     (\<exists>new. cs = old @ new \<and> (\<forall>c\<in>set new. P (lc_kind c) (lc_operation c)))"

definition write_ahead :: "logged_call list \<Rightarrow> logged_call list \<Rightarrow> bool" where
  "write_ahead old cs \<longleftrightarrow>
     (\<exists>new. cs = old @ new \<and> (\<forall>c\<in>set new. lc_kind c = CallApply \<longrightarrow> started_durably c))"

interpretation logged: checkpointing E run U "calls_after old P" P "write_ahead start"
  for E run U old P start
proof
  fix cs :: "logged_call list" and c :: logged_call
  assume "calls_after old P cs" "P (lc_kind c) (lc_operation c)"
  then obtain new where "cs = old @ new" "\<forall>c\<in>set new. P (lc_kind c) (lc_operation c)"
    by (auto simp: calls_after_def)
  then show "calls_after old P (cs @ [c])" using \<open>P (lc_kind c) (lc_operation c)\<close>
    unfolding calls_after_def by (intro exI [of _ "new @ [c]"]) auto
next
  fix cs :: "logged_call list" and c :: logged_call
  assume "write_ahead start cs" and c: "lc_kind c = CallApply \<Longrightarrow> started_durably c"
  then obtain new where "cs = start @ new" "\<forall>c\<in>set new. lc_kind c = CallApply \<longrightarrow> started_durably c"
    by (auto simp: write_ahead_def)
  then show "write_ahead start (cs @ [c])" using c
    unfolding write_ahead_def by (intro exI [of _ "new @ [c]"]) auto
qed

lemma calls_after_self [simp]: "calls_after old P old"
  by (simp add: calls_after_def)

lemma write_ahead_self [simp]: "write_ahead old old"
  by (simp add: write_ahead_def)

lemma triple_fix: "(\<And>x. triple (\<lambda>s. P s \<and> g s = x) m Q R) \<Longrightarrow> triple P m Q R"
  by (fastforce simp: triple_def)

section \<open>Frames\<close>

lemma preflight_loop_frame:
  "preflight_loop b adapters ops s = (r, t) \<Longrightarrow> \<exists>w. t = s\<lparr>en_world := w\<rparr>"
proof (induction ops arbitrary: s)
  case Nil
  then show ?case by (intro exI [of _ "en_world s"]) (simp add: ret_def)
next
  case (Cons x ops)
  show ?case
  proof (cases "adapter_for adapters (op_adapter_id x)")
    case (Inl e)
    then show ?thesis using Cons.prems
      by (intro exI [of _ "en_world s"]) (simp add: bind_step_def lift_result_def)
  next
    case (Inr adapter)
    obtain p w where p: "ad_preflight adapter x (en_world s) = (p, w)" by (cases "ad_preflight adapter x (en_world s)")
    consider "t = s" | "t = s\<lparr>en_world := w\<rparr>" | "preflight_loop b adapters ops (s\<lparr>en_world := w\<rparr>) = (r, t)"
      using Cons.prems Inr p
      by (auto simp: bind_step_def lift_result_def raise_def split: if_splits sum.splits)
    then show ?thesis
    proof cases
      case 1
      then show ?thesis by (intro exI [of _ "en_world s"]) simp
    next
      case 3
      from Cons.IH [OF this] show ?thesis by auto
    qed auto
  qed
qed

lemma preflight_frame:
  "preflight_adapters plan adapters s = (r, t) \<Longrightarrow> \<exists>w. t = s\<lparr>en_world := w\<rparr>"
  unfolding preflight_adapters_def by (rule preflight_loop_frame)

lemma new_journal_shape:
  assumes "new_versioned E run_id plan_id target desired observed policy bindings sv cv a = Inr j"
  shows "rc_run_id j = run_id" "length (rc_transitions j) = 1" "rc_state j = StPrepared"
    "phase_of j = (\<lambda>_. None)" "verify_chain E j = Inr ()"
    "journal_header j = (sv, cv, plan_id, target, desired, observed, policy, bindings)"
proof -
  show "rc_run_id j = run_id" "length (rc_transitions j) = 1" "rc_state j = StPrepared"
    "journal_header j = (sv, cv, plan_id, target, desired, observed, policy, bindings)"
    using assms by (auto simp: new_versioned_def result_simps journal_header_def)
  show "phase_of j = (\<lambda>_. None)"
    using assms by (auto simp: new_versioned_def result_simps phase_of_def progress_of_def fun_eq_iff)
  show "verify_chain E j = Inr ()" by (rule new_versioned_verifies [OF assms])
qed

text \<open>The state in which \<open>execute_preflighted\<close> starts.\<close>

definition fresh_run :: "env \<Rightarrow> 'w engine \<Rightarrow> bool" where
  "fresh_run E s \<longleftrightarrow> verify_chain E (en_journal s) = Inr () \<and> rc_state (en_journal s) = StPrepared
     \<and> length (rc_transitions (en_journal s)) = 1 \<and> held E s []"

text \<open>What the first checkpoint leaves behind.\<close>

lemma first_persist:
  assumes "fresh_run E s" "persist E s = (r, t)"
  shows "\<exists>rs. held E t rs \<and> en_calls t = en_calls s \<and> en_journal t = en_journal s
    \<and> (rs = [] \<or> rs = [en_journal s]) \<and> (r = Inr () \<longrightarrow> rs = [en_journal s])"
proof -
  from assms(1) obtain store where s: "en_store s = Some store"
    "store_holds E store (rc_run_id (en_journal s)) []"
    by (auto simp: fresh_run_def held_def)
  obtain q store' where p: "persist_unlocked E (case en_faults s of [] \<Rightarrow> None | f # _ \<Rightarrow> f)
      (en_journal s) store = (q, store')" "r = map_err ReReceipt q"
    "t = s\<lparr>en_store := Some store', en_faults := tl (en_faults s)\<rparr>"
    using assms(2) s(1) by (auto simp: persist_def Let_def split: prod.splits)
  have e: "extends_history [] (en_journal s)" and v: "verify_chain E (en_journal s) = Inr ()"
    and b: "length (rc_transitions (en_journal s)) \<le> 2 ^ 64"
    using assms(1) by (simp_all add: fresh_run_def extends_history_def)
  from persist_history [OF s(2) v disjI2 [OF e] b p(1)] obtain rs where
    "store_holds E store' (rc_run_id (en_journal s)) rs" "rs = [] \<or> rs = [en_journal s]"
    "q = Inr () \<longrightarrow> in_step rs (en_journal s)" by auto
  then show ?thesis using p by (auto simp: held_def in_step_def)
qed

section \<open>Execution\<close>

definition forward_op :: "operation \<Rightarrow> bool" where
  "forward_op x \<longleftrightarrow> op_recovery_capability x = ConvergeForwardOnly"

text \<open>The calls an execution may make, before and after the forward operations start.\<close>

definition exact_calls :: "plan \<Rightarrow> call_kind \<Rightarrow> operation \<Rightarrow> bool" where
  "exact_calls plan k x \<longleftrightarrow> x \<in> set (pl_operations plan) \<and>
     (k = CallPrepare \<or> k \<in> {CallApply, CallVerify, CallRollback} \<and> \<not> forward_op x)"

definition forward_calls :: "plan \<Rightarrow> call_kind \<Rightarrow> operation \<Rightarrow> bool" where
  "forward_calls plan k x \<longleftrightarrow> x \<in> set (pl_operations plan) \<and> k \<in> {CallApply, CallVerify} \<and> forward_op x"

definition barrier_states :: "receipt_state set" where
  "barrier_states = {StApplyingForward, StForwardRecoveryRequired, StSucceeded}"

text \<open>
  What holds whenever an execution stops: the calls are exact work followed by forward work, each
  application was recorded durably before, and once forward work was called the last durable
  receipt is past the barrier.
\<close>

definition stopped :: "env \<Rightarrow> stable_id \<Rightarrow> plan \<Rightarrow> logged_call list \<Rightarrow> 'w engine \<Rightarrow> bool" where
  "stopped E run plan old s \<longleftrightarrow> rc_run_id (en_journal s) = run \<and> (\<exists>mid. calls_after old (exact_calls plan) mid
     \<and> calls_after mid (forward_calls plan) (en_calls s)
     \<and> (tracked s \<longrightarrow> write_ahead old (en_calls s)
          \<and> (\<exists>rs. held E s rs \<and> rs \<noteq> [] \<and> (en_calls s = mid \<or> rc_state (last rs) \<in> barrier_states))))"

lemma exact_safe_stopped:
  "logged.safe E run UNIV old (exact_calls plan) old s \<Longrightarrow> stopped E run plan old s"
  unfolding logged.safe_def stopped_def by (intro conjI exI [of _ "en_calls s"]) auto

lemma forward_safe_stopped:
  assumes "calls_after old (exact_calls plan) mid"
    and "logged.safe E run barrier_states mid (forward_calls plan) old s"
  shows "stopped E run plan old s"
  using assms unfolding logged.safe_def stopped_def by (intro conjI exI [of _ mid]) auto

definition completed :: "env \<Rightarrow> stable_id \<Rightarrow> plan \<Rightarrow> logged_call list \<Rightarrow> reconcile_outcome \<Rightarrow> 'w engine \<Rightarrow> bool" where
  "completed E run plan old outcome s \<longleftrightarrow> stopped E run plan old s
     \<and> verify_chain E (en_journal s) = Inr () \<and> rc_state (en_journal s) = outcome_state outcome
     \<and> (tracked s \<longrightarrow> (\<exists>rs. held E s rs \<and> in_step rs (en_journal s)))"

lemma exact_synced_completed:
  assumes "logged.synced E run old (exact_calls plan) old (st_in {outcome_state outcome}) s"
  shows "completed E run plan old outcome s"
proof -
  have "logged.safe E run UNIV old (exact_calls plan) old s"
    by (rule logged.synced_safe [OF _ assms]) simp
  from exact_safe_stopped [OF this] assms show ?thesis
    by (auto simp: completed_def logged.synced_def st_in_def)
qed

lemma forward_synced_completed:
  assumes mid: "calls_after old (exact_calls plan) mid" and o: "outcome_state outcome \<in> barrier_states"
    and s: "logged.synced E run mid (forward_calls plan) old (st_in {outcome_state outcome}) s"
  shows "completed E run plan old outcome s"
proof -
  have "logged.safe E run barrier_states mid (forward_calls plan) old s"
    by (rule logged.synced_safe [OF _ s]) (use o in simp)
  from forward_safe_stopped [OF mid this] s show ?thesis
    by (auto simp: completed_def logged.synced_def st_in_def)
qed

lemma handover:
  assumes "logged.synced E run old (exact_calls plan) old (st_in S) s" "en_calls s = mid"
  shows "logged.synced E run mid (forward_calls plan) old (st_in S) s \<and> calls_after old (exact_calls plan) mid"
  using assms by (auto simp: logged.synced_def)

lemma forward_members:
  "x \<in> set (forward_operations plan) \<Longrightarrow> x \<in> set (pl_operations plan) \<and> forward_op x"
  "x \<in> set (exact_operations plan) \<Longrightarrow> x \<in> set (pl_operations plan) \<and> \<not> forward_op x"
  by (auto simp: forward_operations_def exact_operations_def forward_op_def)

lemma any_then: "triple (\<lambda>_. True) k Q (\<lambda>_. True) \<Longrightarrow> triple (\<lambda>_. True) (and_do m k) Q (\<lambda>_. True)"
  by (rule triple_and_do [of _ _ "\<lambda>_. True"]) (simp add: triple_def split: prod.split sum.split)

lemma any_bind: "(\<And>x. triple (\<lambda>_. True) (f x) Q (\<lambda>_. True)) \<Longrightarrow> triple (\<lambda>_. True) (bind_step m f) Q (\<lambda>_. True)"
  by (rule triple_bind [of _ _ "\<lambda>_ _. True"]) (simp_all add: triple_def split: prod.split sum.split)

lemma forward_required_outcome:
  "triple (\<lambda>_. True) (bind_step (require_forward_recovery E) (\<lambda>outcome. ret (Some outcome)))
     (\<lambda>r _. r = None \<or> r = Some OutForwardRecoveryRequired) (\<lambda>_. True)"
  unfolding require_forward_recovery_def
  by (rule triple_bind [of _ _ "\<lambda>outcome _. outcome = OutForwardRecoveryRequired"])
     (intro any_then triple_ret, simp_all add: triple_ret)

lemma run_forward_outcomes:
  "triple (\<lambda>_. True) (apply_forward_loop E adapters ops)
     (\<lambda>r _. r = None \<or> r = Some OutForwardRecoveryRequired) (\<lambda>_. True)"
proof (induction ops)
  case Nil
  then show ?case by (simp add: triple_ret)
next
  case (Cons x ops)
  then show ?case
    by (auto intro!: any_then any_bind forward_required_outcome split: sum.split)
qed

lemma forward_loop_stopped:
  "triple (logged.synced E run old (exact_calls plan) old (st_in {StApplyingForward}))
     (bind_step (apply_forward_loop E adapters (forward_operations plan)) (\<lambda>early.
        case early of Some outcome \<Rightarrow> ret outcome | None \<Rightarrow> finish_run E))
     (completed E run plan old) (stopped E run plan old)"
proof (rule triple_fix [where g = en_calls])
  fix mid
  let ?m = "bind_step (apply_forward_loop E adapters (forward_operations plan)) (\<lambda>early.
        case early of Some outcome \<Rightarrow> ret outcome | None \<Rightarrow> finish_run E)"
  show "triple (\<lambda>s. logged.synced E run old (exact_calls plan) old (st_in {StApplyingForward}) s \<and> en_calls s = mid)
     ?m (completed E run plan old) (stopped E run plan old)"
  proof (cases "calls_after old (exact_calls plan) mid")
    case True
    have "triple (logged.synced E run mid (forward_calls plan) old (st_in {StApplyingForward})) ?m
       (\<lambda>outcome s. logged.synced E run mid (forward_calls plan) old (st_in {outcome_state outcome}) s
          \<and> outcome_state outcome \<in> barrier_states)
       (logged.safe E run barrier_states mid (forward_calls plan) old)"
    proof (rule triple_conj_left [OF logged.run_forward_loop_rule])
      show "triple (\<lambda>_. True) ?m (\<lambda>outcome _. outcome_state outcome \<in> barrier_states) (\<lambda>_. True)"
        by (rule triple_bind [OF run_forward_outcomes])
           (auto simp: triple_def finish_run_def and_do_def bind_step_def ret_def barrier_states_def
             split: prod.split sum.split option.split)
    qed (auto simp: barrier_states_def forward_calls_def dest: forward_members)
    then show ?thesis
      by (rule triple_conseq)
         (use True in \<open>auto dest: handover intro: forward_synced_completed forward_safe_stopped\<close>)
  next
    case False
    then show ?thesis by (intro triple_vacuous) (auto simp: logged.synced_def)
  qed
qed

lemma run_forward_stopped:
  "triple (logged.synced E run old (exact_calls plan) old (st_in {StVerifying}))
     (run_forward E adapters (forward_operations plan)) (completed E run plan old) (stopped E run plan old)"
proof (cases "forward_operations plan = []")
  case True
  show ?thesis
    by (rule triple_conseq [OF logged.run_forward_rule [where U = UNIV]])
       (use True in \<open>auto intro: exact_synced_completed exact_safe_stopped\<close>)
next
  case False
  have t: "triple (logged.synced E run old (exact_calls plan) old (st_in {StVerifying}))
      (and_do (step_transition E StApplyingForward) (persist E))
      (\<lambda>_. logged.synced E run old (exact_calls plan) old (st_in {StApplyingForward})) (stopped E run plan old)"
    by (rule triple_conseq [OF logged.transition_rule [where U = UNIV]]) (auto intro: exact_safe_stopped)
  from triple_and_do [OF t forward_loop_stopped] False show ?thesis
    by (simp add: run_forward_def)
qed

lemma prepared_run_stopped:
  "triple (logged.synced E run old (exact_calls plan) old (st_in {StPrepared}))
     (bind_step (prepare_loop E adapters (pl_operations plan)) (\<lambda>early.
        case early of Some outcome \<Rightarrow> ret outcome
        | None \<Rightarrow> run_apply E adapters (exact_operations plan) (forward_operations plan)))
     (completed E run plan old) (stopped E run plan old)"
  by (intro logged.prepare_then_rule [where U = UNIV] logged.run_apply_rule [where U = UNIV] run_forward_stopped)
     (auto simp: exact_calls_def intro: exact_synced_completed exact_safe_stopped dest: forward_members)

text \<open>The result of a run that had a durable receipt, or that failed before it called anything.\<close>

definition run_result ::
  "env \<Rightarrow> stable_id \<Rightarrow> plan \<Rightarrow> logged_call list \<Rightarrow> reconcile_error + reconcile_outcome \<Rightarrow> 'w engine \<Rightarrow> bool" where
  "run_result E run plan old r t \<longleftrightarrow>
     (case r of
        Inr outcome \<Rightarrow> completed E run plan old outcome t
      | Inl e \<Rightarrow> stopped E run plan old t \<or> en_calls t = old)"

lemma execute_preflighted_result:
  assumes f: "fresh_run E s" and run: "rc_run_id (en_journal s) = run"
    and x: "execute_preflighted E plan adapters s = (r, t)"
  shows "run_result E run plan (en_calls s) r t"
proof -
  obtain p u where p: "persist E s = (p, u)" by (cases "persist E s")
  from first_persist [OF f p] obtain rs where rs: "held E u rs" "en_calls u = en_calls s"
    "en_journal u = en_journal s" "p = Inr () \<longrightarrow> rs = [en_journal s]" by blast
  show ?thesis
  proof (cases p)
    case (Inl e)
    then show ?thesis using x p rs(2)
      by (auto simp: execute_preflighted_def and_do_def bind_step_def run_result_def)
  next
    case (Inr a)
    have "logged.synced E run (en_calls s) (exact_calls plan) (en_calls s) (st_in {StPrepared}) u"
      using f rs Inr run
      by (auto simp: logged.synced_def fresh_run_def st_in_def in_step_def)
    note t = tripleD [OF prepared_run_stopped this]
    show ?thesis using x p Inr t
      by (cases r) (auto simp: execute_preflighted_def and_do_def bind_step_def run_result_def)
  qed
qed

lemma fresh_journal:
  assumes "new_versioned E run_id plan_id target desired observed policy bindings sv cv a = Inr j"
    and "en_store s = Some store" "unused_run store run_id"
  shows "fresh_run E (s\<lparr>en_journal := j\<rparr>)"
  using new_journal_shape [OF assms(1)] assms(2,3)
  by (simp add: fresh_run_def held_def unused_holds)

text \<open>An entry point either stops before its first adapter call or runs a fresh journal.\<close>

lemma execute_split:
  assumes "execute E plan run_id adapters s = (r, t)"
  shows "(\<exists>e. r = Inl e) \<and> en_calls t = en_calls s \<or>
    (\<exists>w j. journal_for_plan E run_id plan = Inr j
       \<and> execute_preflighted E plan adapters (s\<lparr>en_world := w, en_journal := j\<rparr>) = (r, t))"
proof -
  obtain p u where p: "preflight_adapters plan adapters s = (p, u)" by (cases "preflight_adapters plan adapters s")
  from preflight_frame [OF this] obtain w where u: "u = s\<lparr>en_world := w\<rparr>" by blast
  show ?thesis using assms p u
    by (auto simp: execute_def and_do_def bind_step_def lift_result_def raise_def set_journal_def map_err_def
        split: if_splits sum.splits)
qed

lemma execute_with_package_consent_split:
  assumes "execute_with_package_consent E plan run_id consent adapters s = (r, t)"
  shows "(\<exists>e. r = Inl e) \<and> en_calls t = en_calls s \<or>
    (\<exists>w j a. journal_for_package_plan E run_id plan a = Inr j
       \<and> execute_preflighted E plan adapters (s\<lparr>en_world := w, en_journal := j\<rparr>) = (r, t))"
proof -
  obtain p u where p: "preflight_adapters plan adapters s = (p, u)" by (cases "preflight_adapters plan adapters s")
  from preflight_frame [OF this] obtain w where u: "u = s\<lparr>en_world := w\<rparr>" by blast
  show ?thesis using assms p u
    by (auto simp: execute_with_package_consent_def and_do_def bind_step_def lift_result_def raise_def
        set_journal_def map_err_def split: if_splits sum.splits prod.splits)
qed

text \<open>The journal of a new run, of either contract.\<close>

definition starts_run :: "env \<Rightarrow> stable_id \<Rightarrow> receipt_journal \<Rightarrow> bool" where
  "starts_run E run_id j \<longleftrightarrow> (\<exists>plan_id target desired observed policy bindings sv cv a.
     new_versioned E run_id plan_id target desired observed policy bindings sv cv a = Inr j)"

lemma journals_start:
  "journal_for_plan E run_id plan = Inr j \<Longrightarrow> starts_run E run_id j"
  "journal_for_package_plan E run_id plan a = Inr j \<Longrightarrow> starts_run E run_id j"
  unfolding starts_run_def journal_for_plan_def journal_for_package_plan_def by (auto simp: result_simps) blast+

definition small_plan :: "plan \<Rightarrow> bool" where
  "small_plan plan \<longleftrightarrow> length (pl_operations plan) \<le> 2 ^ 60"

lemma started_result:
  assumes s: "en_store s = Some store" "unused_run store run_id" and j: "starts_run E run_id j"
    and small: "small_plan plan"
    and x: "execute_preflighted E plan adapters (s\<lparr>en_world := w, en_journal := j\<rparr>) = (r, t)"
  shows "run_result E run_id plan (en_calls s) r t" "tracked t"
proof -
  let ?s = "s\<lparr>en_world := w, en_journal := j\<rparr>"
  from j obtain plan_id target desired observed policy bindings sv cv a where
    n: "new_versioned E run_id plan_id target desired observed policy bindings sv cv a = Inr j"
    by (auto simp: starts_run_def)
  have "fresh_run E ?s" using fresh_journal [OF n, of "s\<lparr>en_world := w\<rparr>" store] s by simp
  from execute_preflighted_result [OF this _ x] new_journal_shape(1) [OF n]
  show "run_result E run_id plan (en_calls s) r t" by simp
  have "entries ?s = 1" using new_journal_shape(2) [OF n] by (simp add: entries_def)
  with growsD [OF grows_execute_preflighted x] s(1) small show "tracked t"
    by (simp add: tracked_def entries_def entry_bound_def small_plan_def)
qed

text \<open>What a started run leaves behind, for both entry points.\<close>

definition ran :: "env \<Rightarrow> stable_id \<Rightarrow> plan \<Rightarrow> logged_call list
  \<Rightarrow> reconcile_error + reconcile_outcome \<Rightarrow> 'w engine \<Rightarrow> bool" where
  "ran E run plan old r t \<longleftrightarrow> (\<exists>e. r = Inl e) \<and> en_calls t = old
     \<or> tracked t \<and> stopped E run plan old t \<and> (\<forall>outcome. r = Inr outcome \<longrightarrow> completed E run plan old outcome t)"

lemma started_ran:
  assumes "en_store s = Some store" "unused_run store run_id" "starts_run E run_id j" "small_plan plan"
    and "execute_preflighted E plan adapters (s\<lparr>en_world := w, en_journal := j\<rparr>) = (r, t)"
  shows "ran E run_id plan (en_calls s) r t"
  using started_result [OF assms] by (cases r) (auto simp: ran_def run_result_def completed_def)

lemma execute_ran:
  assumes "en_store s = Some store" "unused_run store run_id" "small_plan plan"
    and "execute E plan run_id adapters s = (r, t)"
  shows "ran E run_id plan (en_calls s) r t"
  using execute_split [OF assms(4)]
proof (elim disjE exE conjE)
  fix w j assume "journal_for_plan E run_id plan = Inr j"
    "execute_preflighted E plan adapters (s\<lparr>en_world := w, en_journal := j\<rparr>) = (r, t)"
  then show ?thesis using started_ran [OF assms(1,2) journals_start(1) assms(3)] by blast
qed (simp add: ran_def)

lemma execute_with_package_consent_ran:
  assumes "en_store s = Some store" "unused_run store run_id" "small_plan plan"
    and "execute_with_package_consent E plan run_id consent adapters s = (r, t)"
  shows "ran E run_id plan (en_calls s) r t"
  using execute_with_package_consent_split [OF assms(4)]
proof (elim disjE exE conjE)
  fix w j a assume "journal_for_package_plan E run_id plan a = Inr j"
    "execute_preflighted E plan adapters (s\<lparr>en_world := w, en_journal := j\<rparr>) = (r, t)"
  then show ?thesis using started_ran [OF assms(1,2) journals_start(2) assms(3)] by blast
qed (simp add: ran_def)

section \<open>Recovery\<close>

text \<open>The calls a recovery may make: convergence of forward operations, or rollback of exact ones.\<close>

definition converge_calls :: "plan \<Rightarrow> call_kind \<Rightarrow> operation \<Rightarrow> bool" where
  "converge_calls plan k x \<longleftrightarrow> x \<in> set (pl_operations plan) \<and> forward_op x
     \<and> k \<in> {CallObserve, CallPrepareRecovery, CallConverge}"

definition rollback_calls :: "plan \<Rightarrow> run_receipt \<Rightarrow> call_kind \<Rightarrow> operation \<Rightarrow> bool" where
  "rollback_calls plan j k x \<longleftrightarrow> x \<in> set (rollback_candidates plan j) \<and> k = CallRollback"

lemma candidates_exact:
  assumes "\<not> after_forward_barrier plan j" "x \<in> set (rollback_candidates plan j)"
  shows "x \<in> set (pl_operations plan) \<and> \<not> forward_op x"
proof -
  from assms(2) obtain p where x: "x \<in> set (pl_operations plan)" and
    p: "progress_of j (op_id x) = Some p" "pr_phase p \<in> {PhApplyStarted, PhApplied, PhApplyFailed, PhVerified, PhVerifyFailed}"
    by (auto simp: rollback_candidates_def split: option.splits)
  have "p \<in> set (rc_operation_progress j)" "pr_operation_id p = op_id x"
    using p(1) by (auto simp: progress_of_def find_Some_iff)
  then show ?thesis using assms(1) x p(2)
    unfolding after_forward_barrier_def list_ex_iff forward_op_def by auto
qed

definition recovered :: "env \<Rightarrow> stable_id \<Rightarrow> (call_kind \<Rightarrow> operation \<Rightarrow> bool) \<Rightarrow> logged_call list
  \<Rightarrow> reconcile_error + reconcile_outcome \<Rightarrow> 'w engine \<Rightarrow> bool" where
  "recovered E run P old r t \<longleftrightarrow> calls_after old P (en_calls t) \<and> rc_run_id (en_journal t) = run
     \<and> (tracked t \<longrightarrow> (\<exists>rs. held E t rs \<and> rs \<noteq> []
          \<and> (\<forall>outcome. r = Inr outcome \<longrightarrow> last rs = en_journal t)))
     \<and> (\<forall>outcome. r = Inr outcome \<longrightarrow> rc_state (en_journal t) = outcome_state outcome)"

lemma triple_recovered:
  assumes "triple (logged.synced E run old P old K) m
      (\<lambda>outcome. logged.synced E run old P old (st_in {outcome_state outcome})) (logged.safe E run UNIV old P old)"
    and "logged.synced E run old P old K s" "m s = (r, t)"
  shows "recovered E run P old r t"
proof (cases r)
  case (Inl e)
  then have "logged.safe E run UNIV old P old t" using tripleD(2) [OF assms(1,2)] assms(3) by simp
  then show ?thesis using Inl by (auto simp: logged.safe_def recovered_def)
next
  case (Inr outcome)
  then have "logged.synced E run old P old (st_in {outcome_state outcome}) t"
    using tripleD(1) [OF assms(1,2)] assms(3) by simp
  then show ?thesis using Inr by (auto simp: logged.synced_def recovered_def in_step_def st_in_def)
qed

lemma load_of_history:
  assumes "store_holds E store run rs" "load_unlocked E store run = Inr j"
  shows "in_step rs j"
proof (cases "rs = []")
  case True
  then show ?thesis using assms
    by (auto simp: store_holds_def load_unlocked_def holds_history_def numbered_def Let_def split: option.splits)
next
  case False
  then show ?thesis using load_store_holds [OF assms(1)] assms(2) by (simp add: in_step_def)
qed

lemma recover_steps:
  fixes s :: "'w engine"
  assumes h: "en_store s = Some store" "store_holds E store run rs" "load_unlocked E store run = Inr j"
    and k: "s' = s\<lparr>en_world := w, en_journal := j\<rparr>" and run: "rc_run_id j = run" and v: "verify_chain E j = Inr ()"
  shows "after_forward_barrier plan j \<Longrightarrow> converge_forward E plan adapters s' = (r, t) \<Longrightarrow>
      recovered E run (converge_calls plan) (en_calls s) r t"
    and "\<not> after_forward_barrier plan j \<Longrightarrow> resume_rollback E plan adapters s' = (r, t) \<Longrightarrow>
      recovered E run (rollback_calls plan j) (en_calls s) r t"
proof -
  have sync: "logged.synced E run (en_calls s) P (en_calls s) K s'" if "K j" for P K
    using h load_of_history [OF h(2,3)] that run v unfolding k
    by (auto simp: logged.synced_def held_def)
  show "recovered E run (converge_calls plan) (en_calls s) r t"
    if "converge_forward E plan adapters s' = (r, t)"
    by (rule triple_recovered [OF logged.converge_forward_rule [where U = UNIV and S = UNIV] sync that])
       (auto simp: st_in_def converge_calls_def dest: forward_members)
  show "recovered E run (rollback_calls plan j) (en_calls s) r t"
    if "\<not> after_forward_barrier plan j" "resume_rollback E plan adapters s' = (r, t)"
    by (rule triple_recovered [OF logged.resume_rollback_rule [where U = UNIV and S = UNIV and p = "phase_of j"] sync that(2)])
       (auto simp: rollback_calls_def logged.rollback_candidates_phases logged.at_phases_def)
qed

text \<open>What a recovery of a run whose store holds a history does.\<close>

definition recovery_calls :: "plan \<Rightarrow> run_receipt \<Rightarrow> call_kind \<Rightarrow> operation \<Rightarrow> bool" where
  "recovery_calls plan j =
     (if after_forward_barrier plan j then converge_calls plan else rollback_calls plan j)"

lemma history_receipt:
  assumes "store_holds E store run rs" "load_unlocked E store run = Inr j"
  shows "rc_run_id j = run" "verify_chain E j = Inr ()"
  using load_of_history [OF assms] store_holds_good [OF assms(1)]
  by (auto simp: in_step_def good_history_def last_conv_nth)

lemma ensure_current_frame: "ensure_current_run E j s = (r, t) \<Longrightarrow> t = s"
  by (auto simp: ensure_current_run_def bind_step_def load_run_def raise_def ret_def
      split: prod.splits sum.splits option.splits if_splits)

lemma ensure_current_Ok:
  assumes "ensure_current_run E j s = (Inr u, t)" "en_store s = Some store"
  shows "load_unlocked E store (rc_run_id j) = Inr j"
  using assms by (auto simp: ensure_current_run_def bind_step_def load_run_def raise_def ret_def
      split: prod.splits sum.splits option.splits if_splits)

lemma barrier_states_cases:
  "rc_state j \<in> barrier_states \<Longrightarrow> after_forward_barrier plan j \<or> rc_state j = StSucceeded"
  by (auto simp: barrier_states_def after_forward_barrier_def)

lemma resume_terminal:
  assumes "rc_state (en_journal s) = StSucceeded"
  shows "resume_rollback E plan adapters s = (Inl (RunAlreadyTerminal StSucceeded), s)"
  using assms by (simp add: resume_rollback_def bind_step_def get_journal_def and_do_def raise_def)

text \<open>A recovery either stops before its first adapter call or continues the loaded journal.\<close>

definition continued :: "env \<Rightarrow> stable_id \<Rightarrow> plan \<Rightarrow> 'w adapter list \<Rightarrow> receipt_store \<Rightarrow> receipt_journal \<Rightarrow> 'w engine
  \<Rightarrow> reconcile_error + reconcile_outcome \<Rightarrow> 'w engine \<Rightarrow> bool" where
  "continued E run plan adapters store j s r t \<longleftrightarrow> load_unlocked E store run = Inr j \<and> rc_run_id j = run
     \<and> (\<exists>w. (if after_forward_barrier plan j then converge_forward E plan adapters
              else resume_rollback E plan adapters) (s\<lparr>en_world := w, en_journal := j\<rparr>) = (r, t))"

lemma recover_locked_split:
  fixes s :: "'w engine"
  assumes h: "en_store s = Some store"
    and x: "recover_run_with_journal_locked E run plan j adapters s = (r, t)"
  shows "(\<exists>e. r = Inl e) \<and> en_calls t = en_calls s \<and> en_store t = en_store s
    \<or> continued E run plan adapters store j s r t"
proof (cases "(\<exists>e. r = Inl e) \<and> en_calls t = en_calls s \<and> en_store t = en_store s")
  case False
  obtain c u where c: "ensure_current_run E j s = (c, u)" by (cases "ensure_current_run E j s")
  then have u: "u = s" by (rule ensure_current_frame)
  obtain p v where p: "preflight_adapters plan adapters s = (p, v)" by (cases "preflight_adapters plan adapters s")
  from preflight_frame [OF this] obtain w where w: "v = s\<lparr>en_world := w\<rparr>" by blast
  have j: "rc_run_id j = run" "c = Inr ()"
    "(if after_forward_barrier plan j then converge_forward E plan adapters else resume_rollback E plan adapters)
       (s\<lparr>en_world := w, en_journal := j\<rparr>) = (r, t)"
    using x False c u p w
    by (auto simp: recover_run_with_journal_locked_def and_do_def bind_step_def lift_result_def raise_def
        set_journal_def split: if_splits sum.splits)
  have "load_unlocked E store run = Inr j" using ensure_current_Ok [of E j s] c j(1,2) h by simp
  then show ?thesis using j(1,3) unfolding continued_def by blast
qed blast

lemma recover_run_split:
  fixes s :: "'w engine"
  assumes h: "en_store s = Some store" and x: "recover_run E run plan adapters s = (r, t)"
  shows "(\<exists>e. r = Inl e) \<and> en_calls t = en_calls s \<and> en_store t = en_store s
    \<or> (\<exists>j. continued E run plan adapters store j s r t)"
proof (cases "(\<exists>e. r = Inl e) \<and> en_calls t = en_calls s \<and> en_store t = en_store s")
  case False
  then obtain j where "recover_run_with_journal_locked E run plan j adapters s = (r, t)"
    using x h
    by (auto simp: recover_run_def load_validated_run_def load_run_def and_do_def bind_step_def
        lift_result_def ret_def map_err_def split: sum.splits prod.splits)
  from recover_locked_split [OF h this] show ?thesis by blast
qed blast

lemma continued_recovered:
  fixes s :: "'w engine"
  assumes h: "en_store s = Some store" "store_holds E store run rs"
    and c: "continued E run plan adapters store j s r t"
  shows "recovered E run (recovery_calls plan j) (en_calls s) r t"
    "rc_state j = StSucceeded \<Longrightarrow> after_forward_barrier plan j \<or> en_calls t = en_calls s"
    "entries t \<le> length (rc_transitions j) + recovery_bound plan" "en_store t \<noteq> None"
proof -
  from c obtain w where l: "load_unlocked E store run = Inr j" and run: "rc_run_id j = run"
    and m: "(if after_forward_barrier plan j then converge_forward E plan adapters else resume_rollback E plan adapters)
       (s\<lparr>en_world := w, en_journal := j\<rparr>) = (r, t)"
    by (auto simp: continued_def)
  note hr = history_receipt [OF h(2) l]
  show "recovered E run (recovery_calls plan j) (en_calls s) r t"
  proof (cases "after_forward_barrier plan j")
    case True
    then show ?thesis using m recover_steps(1) [OF h l refl run hr(2) True, where w = w and adapters = adapters and r = r and t = t]
      by (simp add: recovery_calls_def)
  next
    case False
    then show ?thesis using m recover_steps(2) [OF h l refl run hr(2) False, where w = w and adapters = adapters and r = r and t = t]
      by (simp add: recovery_calls_def)
  qed
  show "after_forward_barrier plan j \<or> en_calls t = en_calls s" if "rc_state j = StSucceeded"
    using m that resume_terminal [of "s\<lparr>en_world := w, en_journal := j\<rparr>" E plan adapters]
    by (auto split: if_splits)
  have "grows (recovery_bound plan)
      (if after_forward_barrier plan j then converge_forward E plan adapters else resume_rollback E plan adapters)"
    by (simp add: grows_converge_forward grows_resume_rollback)
  from growsD [OF this m] h(1) show "entries t \<le> length (rc_transitions j) + recovery_bound plan" "en_store t \<noteq> None"
    by (simp_all add: entries_def)
qed

lemma recover_run_result:
  fixes s :: "'w engine"
  assumes h: "en_store s = Some store" "store_holds E store run rs"
    and x: "recover_run E run plan adapters s = (r, t)"
  shows "((\<exists>e. r = Inl e) \<and> en_calls t = en_calls s \<and> en_store t = en_store s)
    \<or> (\<exists>j. load_unlocked E store run = Inr j \<and> recovered E run (recovery_calls plan j) (en_calls s) r t
        \<and> (rc_state j = StSucceeded \<longrightarrow> after_forward_barrier plan j \<or> en_calls t = en_calls s))"
  using recover_run_split [OF h(1) x] continued_recovered [OF h] unfolding continued_def by blast

lemma recovery_calls_safe:
  assumes "recovery_calls plan j k x"
  shows "x \<in> set (pl_operations plan)" "k = CallRollback \<Longrightarrow> \<not> forward_op x \<and> \<not> after_forward_barrier plan j"
    "k \<noteq> CallApply"
  using assms candidates_exact [of plan j x]
  by (auto simp: recovery_calls_def converge_calls_def rollback_calls_def split: if_splits)

end
