(* ===== verification/Engine_Liveness.thy ===== *)
theory Engine_Liveness
  imports Engine_Safety
begin

text \<open>
  Progress of the reconciler: with a working digest service, adapters that report success and an
  operating system that shows no failure, an execution reaches \<open>Succeeded\<close> with every operation
  verified. The triples of \<open>Engine_Logic\<close> are used with an error condition that never holds.
\<close>

section \<open>Persisting without failures\<close>

definition no_leftovers :: "run_directory \<Rightarrow> bool" where
  "no_leftovers dir \<longleftrightarrow> (\<forall>n d. temporary_name n d \<notin> fst ` set dir)"

lemma snapshot_not_temporary: "n < 2 ^ 64 \<Longrightarrow> temporary_name k d' \<noteq> snapshot_name n d"
  using scan_snapshot [of n d None] scan_temporary [of k d' None] by auto

lemma no_leftovers_snapshot:
  "no_leftovers dir \<Longrightarrow> n < 2 ^ 64 \<Longrightarrow> no_leftovers (dir @ [(snapshot_name n d, c)])"
  using snapshot_not_temporary by (auto simp: no_leftovers_def)

lemma persist_clean:
  assumes s: "store_holds E store (rc_run_id j) rs" and v: "verify_chain E j = Inr ()"
    and e: "extends_history rs j" "length (rc_transitions j) \<le> 2 ^ 64" and d: "digests_ok E"
    and l: "no_leftovers (directory_of store (sid_str (rc_run_id j)))"
  shows "\<exists>store'. persist_unlocked E None j store = (Inr (), store')
    \<and> store_holds E store' (rc_run_id j) (rs @ [j])
    \<and> no_leftovers (directory_of store' (sid_str (rc_run_id j)))"
proof -
  let ?run = "sid_str (rc_run_id j)" and ?opened = "create_directory store (sid_str (rc_run_id j))"
  let ?d = "tr_entry_digest (last (rc_transitions j))"
  obtain dir where dir: "?opened ?run = Some dir" "holds_history E (rc_run_id j) dir rs"
    using store_holds_opened [OF s] by blast
  have l': "no_leftovers dir" using l dir(1)
    by (auto simp: create_directory_def directory_of_def no_leftovers_def split: option.splits)
  have n: "length (rc_transitions j) - Suc 0 = length rs" "length rs < 2 ^ 64"
    using e by (simp_all add: extends_history_def)
  have "length (rc_transitions j) \<noteq> length rs" using e(1) by (simp add: extends_history_def)
  then have ns: "\<not> in_step rs j" using history_last_length [OF store_holds_good [OF s]]
    by (auto simp: in_step_def)
  have "against_current E ?opened j = None" using against_current_history [OF s] e(1) ns by simp
  moreover obtain bytes where "env_jcs E (ser_run_receipt j) = Some bytes"
    using d by (auto simp: digests_ok_def jcs_total_def)
  then have "write_snapshot E None j dir = (Inr (), dir @ [(snapshot_name (length rs) ?d, Some j)])"
    using final_not_listed [OF dir(2) n(2)] l' n(1)
    by (simp add: write_snapshot_def Let_def no_leftovers_def canonical_json_def)
  ultimately have p: "persist_unlocked E None j store
      = (Inr (), ?opened(?run \<mapsto> dir @ [(snapshot_name (length rs) ?d, Some j)]))"
    using v dir(1) by (simp add: persist_unlocked_def Let_def directory_of_def)
  show ?thesis unfolding p
    using holds_history_snapshot [OF dir(2) v e(1) n(2)] no_leftovers_snapshot [OF l' n(2)]
    by (auto simp: store_holds_def directory_of_def)
qed

section \<open>A run that goes well\<close>

definition never :: "'w engine \<Rightarrow> bool" where
  "never s \<longleftrightarrow> False"

definition call_trace :: "'w engine \<Rightarrow> (call_kind \<times> operation) list" where
  "call_trace s = map (\<lambda>c. (lc_kind c, lc_operation c)) (en_calls s)"

definition kept :: "env \<Rightarrow> 'w engine \<Rightarrow> bool" where
  "kept E s \<longleftrightarrow> en_faults s = [] \<and> (\<exists>store rs. en_store s = Some store
     \<and> store_holds E store (rc_run_id (en_journal s)) rs \<and> in_step rs (en_journal s)
     \<and> no_leftovers (directory_of store (sid_str (rc_run_id (en_journal s)))))"

definition live :: "env \<Rightarrow> schema_version \<Rightarrow> nat \<Rightarrow> receipt_state \<Rightarrow> (sha256_digest \<Rightarrow> operation_phase option)
  \<Rightarrow> (call_kind \<times> operation) list \<Rightarrow> 'w engine \<Rightarrow> bool" where
  "live E sv n st ph cs s \<longleftrightarrow> kept E s \<and> digests_ok E \<and> verify_chain E (en_journal s) = Inr ()
     \<and> rc_schema_version (en_journal s) = sv \<and> rc_package_authorization (en_journal s) = None
     \<and> rc_state (en_journal s) = st \<and> phase_of (en_journal s) = ph \<and> entries s \<le> n \<and> call_trace s = cs"

lemma and_do_regroup: "and_do m (and_do n k) = and_do (and_do m n) k"
  by (rule ext) (simp add: and_do_def bind_step_def split: prod.split sum.split)

lemma ret_first: "and_do (ret ()) k = k" "bind_step (ret x) f = f x"
  by (simp_all add: fun_eq_iff and_do_def bind_step_def ret_def)

text \<open>One entry and its checkpoint, for a journal operation that succeeds.\<close>

lemma checkpoint_live:
  assumes op: "journal_operation E f" and n: "n < 2 ^ 64"
    and ok: "\<And>j. digests_ok E \<Longrightarrow> rc_schema_version j = sv \<Longrightarrow> rc_package_authorization j = None \<Longrightarrow>
      rc_state j = st \<Longrightarrow> phase_of j = ph \<Longrightarrow> \<exists>j'. f j = (Inr (), j') \<and> rc_schema_version j' = sv
        \<and> rc_package_authorization j' = None \<and> rc_state j' = st' \<and> phase_of j' = ph'"
  shows "triple (live E sv n st ph cs) (and_do (with_journal f) (persist E))
    (\<lambda>_. live E sv (Suc n) st' ph' cs) never"
proof -
  have "\<exists>t. and_do (with_journal f) (persist E) s = (Inr (), t) \<and> live E sv (Suc n) st' ph' cs t"
    if s: "live E sv n st ph cs s" for s :: "'w engine"
  proof -
    let ?j = "en_journal s"
    obtain store rs where k: "en_faults s = []" "en_store s = Some store"
      "store_holds E store (rc_run_id ?j) rs" "in_step rs ?j"
      "no_leftovers (directory_of store (sid_str (rc_run_id ?j)))"
      using s by (auto simp: live_def kept_def)
    obtain j' where j': "f ?j = (Inr (), j')" "rc_schema_version j' = sv"
      "rc_package_authorization j' = None" "rc_state j' = st'" "phase_of j' = ph'"
      using ok [of ?j] s by (auto simp: live_def)
    have x: "extends_by ?j j'" by (rule journal_operation.appends_one [OF op j'(1)])
    then have r: "rc_run_id j' = rc_run_id ?j" and len: "length (rc_transitions j') = Suc (entries s)"
      by (auto simp: extends_by_def entries_def)
    have v: "verify_chain E j' = Inr ()"
      using journal_operation.keeps [OF op _ j'(1)] s by (simp add: live_def)
    have e: "extends_history rs j'"
      by (rule journal_operation.extends_in_step [OF op j'(1) k(4) store_holds_good [OF k(3)]])
    have b: "length (rc_transitions j') \<le> 2 ^ 64" using s n len by (simp add: live_def)
    have d: "digests_ok E" using s by (simp add: live_def)
    obtain store' where p: "persist_unlocked E None j' store = (Inr (), store')"
      "store_holds E store' (rc_run_id j') (rs @ [j'])"
      "no_leftovers (directory_of store' (sid_str (rc_run_id j')))"
      using persist_clean [of E store j' rs] k(3,5) r v e b d by auto
    let ?t = "s\<lparr>en_journal := j', en_store := Some store', en_faults := []\<rparr>"
    have "and_do (with_journal f) (persist E) s = (Inr (), ?t)"
      using j'(1) p(1) k(1,2) by (simp add: and_do_def bind_step_def with_journal_def persist_def)
    moreover have "live E sv (Suc n) st' ph' cs ?t"
      using s j' v p len by (auto simp: live_def kept_def in_step_def entries_def call_trace_def)
    ultimately show ?thesis by blast
  qed
  then show ?thesis unfolding triple_def by fastforce
qed

lemma transition_live:
  assumes "legal_transition st st'" "receipt_state_supported sv st'" "n < 2 ^ 64"
  shows "triple (live E sv n st ph cs) (and_do (step_transition E st') (persist E))
    (\<lambda>_. live E sv (Suc n) st' ph cs) never"
  unfolding step_transition_def
proof (rule checkpoint_live [OF transition_op.journal_operation_axioms assms(3)])
  fix j assume j: "digests_ok E" "rc_schema_version j = sv" "rc_package_authorization j = None"
    "rc_state j = st" "phase_of j = ph"
  obtain t where "journal_transition E st' j = (Inr (), push_entry t j)" "tr_state t = st'"
    using journal_transition_total [of E j st'] j assms(1,2) by auto
  then show "\<exists>j'. journal_transition E st' j = (Inr (), j') \<and> rc_schema_version j' = sv
      \<and> rc_package_authorization j' = None \<and> rc_state j' = st' \<and> phase_of j' = ph"
    using j by (auto simp: fun_eq_iff)
qed

definition follows :: "operation_phase option \<Rightarrow> operation_phase \<Rightarrow> bool" where
  "follows p q \<longleftrightarrow> (case p of None \<Rightarrow> q = PhPrepared | Some p \<Rightarrow> legal_operation_transition p q)"

lemma record_live:
  assumes "follows (ph (op_id x)) q" "(code \<noteq> None) = failure_phase q" "operation_phase_supported sv q" "n < 2 ^ 64"
  shows "triple (live E sv n st ph cs) (and_do (step_record E x q code) (persist E))
    (\<lambda>_. live E sv (Suc n) st (ph(op_id x \<mapsto> q)) cs) never"
  unfolding step_record_def
proof (rule checkpoint_live [OF record_op.journal_operation_axioms assms(4)])
  fix j assume j: "digests_ok E" "rc_schema_version j = sv" "rc_package_authorization j = None"
    "rc_state j = st" "phase_of j = ph"
  have f: "follows (map_option pr_phase (progress_of j (op_id x))) q"
    using assms(1) j(5) by (auto simp: phase_of_def fun_eq_iff)
  obtain k where k: "record_operation E (op_id x) q code j = append_progress_transition E k"
    "rc_schema_version k = sv"
    using f assms(2,3) j(2) by (auto simp: record_operation_def follows_def split: option.splits)
  obtain t where t: "record_operation E (op_id x) q code j = (Inr (), push_entry t k)"
    using append_progress_total [OF j(1), of k] k(1) by auto
  from record_operation_effect [OF t] t k(2) j
  show "\<exists>j'. record_operation E (op_id x) q code j = (Inr (), j') \<and> rc_schema_version j' = sv
      \<and> rc_package_authorization j' = None \<and> rc_state j' = st \<and> phase_of j' = ph(op_id x \<mapsto> q)"
    by auto
qed

text \<open>The rules in the form in which the engine chains its steps.\<close>

lemma live_transition:
  assumes "triple (live E sv (Suc n) st' ph cs) k Q never"
    and "legal_transition st st'" "receipt_state_supported sv st'" "n < 2 ^ 64"
  shows "triple (live E sv n st ph cs) (and_do (step_transition E st') (and_do (persist E) k)) Q never"
  unfolding and_do_regroup by (rule triple_and_do [OF transition_live [OF assms(2-4)] assms(1)])

lemma live_record:
  assumes "triple (live E sv (Suc n) st (ph(op_id x \<mapsto> q)) cs) k Q never"
    and "follows (ph (op_id x)) q" "(code \<noteq> None) = failure_phase q" "operation_phase_supported sv q" "n < 2 ^ 64"
  shows "triple (live E sv n st ph cs) (and_do (step_record E x q code) (and_do (persist E) k)) Q never"
  unfolding and_do_regroup by (rule triple_and_do [OF record_live [where ph = ph, OF assms(2-5)] assms(1)])

definition willing :: "'w adapter list \<Rightarrow> operation \<Rightarrow> bool" where
  "willing adapters x \<longleftrightarrow> (\<exists>a. adapter_for adapters (op_adapter_id x) = Inr a
     \<and> (\<forall>w. ad_supports_operation a x w \<and> ad_supports_offline_recovery a x w
          \<and> fst (ad_preflight a x w) = Inr () \<and> fst (ad_prepare a x w) = Inr ()
          \<and> fst (ad_apply a x w) = Inr () \<and> fst (ad_verify a x w) = Inr ()))"

lemma live_answer:
  assumes a: "adapter_for adapters (op_adapter_id x) = Inr a" "\<forall>w. fst (act a x w) = Inr ()"
    and k: "triple (live E sv n st ph (cs @ [(kind, x)])) (f (Inr ())) Q never"
  shows "triple (live E sv n st ph cs) (bind_step (call_adapter E adapters kind act x) f) Q never"
proof (rule triple_bind)
  show "triple (live E sv n st ph cs) (call_adapter E adapters kind act x)
      (\<lambda>r s. r = Inr () \<and> live E sv n st ph (cs @ [(kind, x)]) s) never"
    unfolding triple_def
  proof (intro allI impI)
    fix s :: "'a engine" assume s: "live E sv n st ph cs s"
    obtain w where w: "act a x (en_world s) = (Inr (), w)"
      using a(2) by (cases "act a x (en_world s)") (metis fst_conv)
    show "case call_adapter E adapters kind act x s of
        (Inr r, t) \<Rightarrow> r = Inr () \<and> live E sv n st ph (cs @ [(kind, x)]) t | (Inl e, t) \<Rightarrow> never t"
      using s a(1) w by (auto simp: call_adapter_def live_def kept_def entries_def call_trace_def)
  qed
qed (use k in \<open>auto simp: triple_def\<close>)

lemma live_call:
  assumes "willing adapters x" "act \<in> {ad_prepare, ad_apply, ad_verify}"
    and k: "triple (live E sv n st ph (cs @ [(kind, x)])) (f (Inr ())) Q never"
  shows "triple (live E sv n st ph cs) (bind_step (call_adapter E adapters kind act x) f) Q never"
proof -
  obtain a where "adapter_for adapters (op_adapter_id x) = Inr a" "\<forall>w. fst (act a x w) = Inr ()"
    using assms(1,2) by (auto simp: willing_def)
  then show ?thesis using k by (rule live_answer)
qed

lemma live_checkpoint:
  fixes k :: "('w, 'a) engine_step"
  assumes "triple (live E sv n st ph cs) k Q never"
  shows "triple (live E sv n st ph cs) (and_do (persist E) k) Q never"
proof (rule triple_and_do [OF _ assms])
  show "triple (live E sv n st ph cs) (persist E :: ('w, unit) engine_step) (\<lambda>_. live E sv n st ph cs) never"
    unfolding triple_def
  proof (intro allI impI)
    fix s :: "'w engine" assume s: "live E sv n st ph cs s"
    let ?j = "en_journal s"
    obtain store rs where k: "en_faults s = []" "en_store s = Some store"
      "store_holds E store (rc_run_id ?j) rs" "in_step rs ?j"
      "no_leftovers (directory_of store (sid_str (rc_run_id ?j)))"
      using s by (auto simp: live_def kept_def)
    have o: "create_directory store (sid_str (rc_run_id ?j)) = store"
      using k(3,4) by (auto simp: create_directory_def store_holds_def in_step_def split: option.splits)
    have "persist_unlocked E None ?j store = (Inr (), store)"
      using against_current_history [OF k(3)] k(4) o s
      by (simp add: persist_unlocked_def Let_def live_def)
    then have "persist E s = (Inr (), s)" using k(1,2) by (simp add: persist_def)
    then show "case persist E s of (Inr _, t) \<Rightarrow> live E sv n st ph cs t | (Inl e, t) \<Rightarrow> never t"
      using s by simp
  qed
qed

lemma live_package_success:
  assumes "triple (live E sv n st ph cs) k Q never"
  shows "triple (live E sv n st ph cs) (and_do (record_package_success E adapters x) k) Q never"
proof (rule triple_and_do [OF _ assms])
  show "triple (live E sv n st ph cs) (record_package_success E adapters x) (\<lambda>_. live E sv n st ph cs) never"
    by (auto simp: triple_def record_package_success_def bind_step_def get_journal_def ret_def live_def)
qed

section \<open>The loops\<close>

definition all_at :: "operation list \<Rightarrow> operation_phase \<Rightarrow> (sha256_digest \<Rightarrow> operation_phase option)
  \<Rightarrow> sha256_digest \<Rightarrow> operation_phase option" where
  "all_at ops q ph = (\<lambda>i. if i \<in> op_id ` set ops then Some q else ph i)"

lemma all_at_Nil [simp]: "all_at [] q ph = ph"
  by (simp add: all_at_def)

lemma all_at_Cons: "op_id x \<notin> op_id ` set ops \<Longrightarrow> all_at ops q (ph(op_id x \<mapsto> q)) = all_at (x # ops) q ph"
  by (auto simp: all_at_def fun_eq_iff)

lemma phase_steps [simp]:
  "follows None PhPrepared" "follows (Some PhPrepared) PhApplyStarted"
  "follows (Some PhApplyStarted) PhApplied" "follows (Some PhApplied) PhVerified"
  by (simp_all add: follows_def)

lemma phases_plain [simp]:
  "\<not> failure_phase PhPrepared" "\<not> failure_phase PhApplyStarted" "\<not> failure_phase PhApplied"
  "\<not> failure_phase PhVerified"
  by (simp_all add: failure_phase_def)

lemma phases_supported [simp]:
  "operation_phase_supported sv PhPrepared" "operation_phase_supported sv PhApplyStarted"
  "operation_phase_supported sv PhApplied" "operation_phase_supported sv PhVerified"
  by (simp_all add: operation_phase_supported_def)

lemma live_prepare_loop:
  assumes "\<forall>x\<in>set ops. willing adapters x \<and> ph (op_id x) = None" "distinct (map op_id ops)"
    and "n + length ops \<le> 2 ^ 64"
  shows "triple (live E sv n st ph cs) (prepare_loop E adapters ops)
    (\<lambda>r s. r = None \<and> live E sv (n + length ops) st (all_at ops PhPrepared ph)
       (cs @ map (Pair CallPrepare) ops) s) never"
  using assms
proof (induction ops arbitrary: n ph cs)
  case Nil
  then show ?case by (simp add: triple_ret)
next
  case (Cons x ops)
  have fresh: "op_id x \<notin> op_id ` set ops" using Cons.prems(2) by simp
  have others: "\<forall>y\<in>set ops. willing adapters y \<and> (ph(op_id x \<mapsto> q)) (op_id y) = ph (op_id y)" for q
    using Cons.prems(1) fresh by (auto simp: image_iff)
  have k: "triple (live E sv (Suc n) st (ph(op_id x \<mapsto> PhPrepared)) (cs @ [(CallPrepare, x)]))
     (prepare_loop E adapters ops)
     (\<lambda>r s. r = None \<and> live E sv (n + length (x # ops)) st (all_at (x # ops) PhPrepared ph)
        (cs @ map (Pair CallPrepare) (x # ops)) s) never"
    using Cons.IH [of "ph(op_id x \<mapsto> PhPrepared)" "Suc n" "cs @ [(CallPrepare, x)]"] Cons.prems others
    by (simp add: all_at_Cons [OF fresh] del: fun_upd_apply)
  show ?case
    unfolding prepare_loop.simps
    by (rule live_call) (use Cons.prems k in \<open>auto intro!: live_record [where ph = ph]\<close>)
qed

lemma live_apply_loop:
  assumes "\<forall>x\<in>set ops. willing adapters x \<and> ph (op_id x) = Some PhPrepared" "distinct (map op_id ops)"
    and "n + 2 * length ops \<le> 2 ^ 64"
  shows "triple (live E sv n st ph cs) (apply_exact_loop E adapters ops applied)
    (\<lambda>r s. r = Inr (applied @ ops) \<and> live E sv (n + 2 * length ops) st (all_at ops PhApplied ph)
       (cs @ map (Pair CallApply) ops) s) never"
  using assms
proof (induction ops arbitrary: n ph cs applied)
  case Nil
  then show ?case by (simp add: triple_ret)
next
  case (Cons x ops)
  have fresh: "op_id x \<notin> op_id ` set ops" using Cons.prems(2) by simp
  have others: "\<forall>y\<in>set ops. willing adapters y \<and> (ph(op_id x \<mapsto> q)) (op_id y) = ph (op_id y)" for q
    using Cons.prems(1) fresh by (auto simp: image_iff)
  have k: "triple (live E sv (Suc (Suc n)) st (ph(op_id x \<mapsto> PhApplied)) (cs @ [(CallApply, x)]))
     (apply_exact_loop E adapters ops (applied @ [x]))
     (\<lambda>r s. r = Inr (applied @ x # ops) \<and> live E sv (n + 2 * length (x # ops)) st (all_at (x # ops) PhApplied ph)
        (cs @ map (Pair CallApply) (x # ops)) s) never"
    using Cons.IH [of "ph(op_id x \<mapsto> PhApplied)" "Suc (Suc n)" "cs @ [(CallApply, x)]" "applied @ [x]"] Cons.prems others
    by (simp add: all_at_Cons [OF fresh] del: fun_upd_apply)
  show ?case
    unfolding apply_exact_loop.simps
    by (intro live_record [where ph = ph] live_call)
       (use Cons.prems k in \<open>auto intro!: live_record [where ph = "ph(op_id x \<mapsto> PhApplyStarted)"]\<close>)
qed

lemma live_verify_loop:
  assumes "\<forall>x\<in>set ops. willing adapters x \<and> ph (op_id x) = Some PhApplied" "distinct (map op_id ops)"
    and "n + length ops \<le> 2 ^ 64"
  shows "triple (live E sv n st ph cs) (verify_exact_loop E adapters applied ops)
    (\<lambda>r s. r = None \<and> live E sv (n + length ops) st (all_at ops PhVerified ph)
       (cs @ map (Pair CallVerify) ops) s) never"
  using assms
proof (induction ops arbitrary: n ph cs)
  case Nil
  then show ?case by (simp add: triple_ret)
next
  case (Cons x ops)
  have fresh: "op_id x \<notin> op_id ` set ops" using Cons.prems(2) by simp
  have others: "\<forall>y\<in>set ops. willing adapters y \<and> (ph(op_id x \<mapsto> q)) (op_id y) = ph (op_id y)" for q
    using Cons.prems(1) fresh by (auto simp: image_iff)
  have k: "triple (live E sv (Suc n) st (ph(op_id x \<mapsto> PhVerified)) (cs @ [(CallVerify, x)]))
     (verify_exact_loop E adapters applied ops)
     (\<lambda>r s. r = None \<and> live E sv (n + length (x # ops)) st (all_at (x # ops) PhVerified ph)
        (cs @ map (Pair CallVerify) (x # ops)) s) never"
    using Cons.IH [of "ph(op_id x \<mapsto> PhVerified)" "Suc n" "cs @ [(CallVerify, x)]"] Cons.prems others
    by (simp add: all_at_Cons [OF fresh] del: fun_upd_apply)
  show ?case
    unfolding verify_exact_loop.simps
    by (rule live_call) (use Cons.prems k in \<open>auto intro!: live_record [where ph = ph]\<close>)
qed

definition forward_trace :: "operation list \<Rightarrow> (call_kind \<times> operation) list" where
  "forward_trace ops = concat (map (\<lambda>x. [(CallApply, x), (CallVerify, x)]) ops)"

lemma live_forward_loop:
  assumes "\<forall>x\<in>set ops. willing adapters x \<and> ph (op_id x) = Some PhPrepared" "distinct (map op_id ops)"
    and "n + 3 * length ops \<le> 2 ^ 64"
  shows "triple (live E sv n st ph cs) (apply_forward_loop E adapters ops)
    (\<lambda>r s. r = None \<and> live E sv (n + 3 * length ops) st (all_at ops PhVerified ph)
       (cs @ forward_trace ops) s) never"
  using assms
proof (induction ops arbitrary: n ph cs)
  case Nil
  then show ?case by (simp add: triple_ret forward_trace_def)
next
  case (Cons x ops)
  have fresh: "op_id x \<notin> op_id ` set ops" using Cons.prems(2) by simp
  have others: "\<forall>y\<in>set ops. willing adapters y \<and> (ph(op_id x \<mapsto> q)) (op_id y) = ph (op_id y)" for q
    using Cons.prems(1) fresh by (auto simp: image_iff)
  let ?post = "\<lambda>r s. r = None \<and> live E sv (n + 3 * length (x # ops)) st (all_at (x # ops) PhVerified ph)
        (cs @ forward_trace (x # ops)) s"
  have k: "triple (live E sv (Suc (Suc (Suc n))) st (ph(op_id x \<mapsto> PhVerified)) (cs @ [(CallApply, x), (CallVerify, x)]))
     (apply_forward_loop E adapters ops) ?post never"
    using Cons.IH [of "ph(op_id x \<mapsto> PhVerified)" "Suc (Suc (Suc n))" "cs @ [(CallApply, x), (CallVerify, x)]"]
      Cons.prems others
    by (simp add: all_at_Cons [OF fresh] forward_trace_def numeral_3_eq_3 del: fun_upd_apply)
  have v: "triple (live E sv (Suc (Suc n)) st (ph(op_id x \<mapsto> PhApplied)) (cs @ [(CallApply, x), (CallVerify, x)]))
     (and_do (step_record E x PhVerified None) (and_do (persist E) (and_do (record_package_success E adapters x)
        (and_do (persist E) (apply_forward_loop E adapters ops))))) ?post never"
    using Cons.prems k
    by (auto intro!: live_record [where ph = "ph(op_id x \<mapsto> PhApplied)"] live_package_success live_checkpoint)
  show ?case
    unfolding apply_forward_loop.simps
    by (intro live_record [where ph = ph] live_call)
       (use Cons.prems v in \<open>auto intro!: live_record [where ph = "ph(op_id x \<mapsto> PhApplyStarted)"] live_call\<close>)
qed

section \<open>The whole run\<close>

definition success_trace :: "plan \<Rightarrow> (call_kind \<times> operation) list" where
  "success_trace plan = map (Pair CallPrepare) (pl_operations plan)
     @ map (Pair CallApply) (exact_operations plan) @ map (Pair CallVerify) (exact_operations plan)
     @ forward_trace (forward_operations plan)"

lemma live_finish:
  assumes "st \<in> {StVerifying, StApplyingForward}" "n < 2 ^ 64"
  shows "triple (live E sv n st ph cs) (finish_run E)
    (\<lambda>r s. r = OutSucceeded \<and> live E sv (Suc n) StSucceeded ph cs s) never"
  unfolding finish_run_def
  by (rule live_transition) (use assms in \<open>auto simp: receipt_state_supported_def intro: triple_ret\<close>)

lemma live_then:
  assumes "triple P m (\<lambda>r s. r = x \<and> Q s) R" "triple Q (f x) Q' R"
  shows "triple P (bind_step m f) Q' R"
  by (rule triple_bind [OF assms(1)]) (use assms(2) in \<open>auto simp: triple_def\<close>)

lemma live_run_forward:
  assumes ops: "\<forall>x\<in>set ops. willing adapters x \<and> ph (op_id x) = Some PhPrepared" "distinct (map op_id ops)"
    and n: "n + 3 * length ops + 2 \<le> 2 ^ 64" and sv: "ops \<noteq> [] \<Longrightarrow> receipt_state_supported sv StApplyingForward"
  shows "triple (live E sv n StVerifying ph cs) (run_forward E adapters ops)
    (\<lambda>r s. r = OutSucceeded \<and> live E sv (n + 3 * length ops + 2) StSucceeded (all_at ops PhVerified ph)
       (cs @ forward_trace ops) s) never"
proof (cases "ops = []")
  case True
  have "triple (live E sv n StVerifying ph cs) (finish_run E)
     (\<lambda>r s. r = OutSucceeded \<and> live E sv (Suc n) StSucceeded ph cs s) never"
    by (rule live_finish) (use n in auto)
  then have "triple (live E sv n StVerifying ph cs) (finish_run E)
     (\<lambda>r s. r = OutSucceeded \<and> live E sv (n + 2) StSucceeded ph cs s) never"
    by (rule triple_conseq) (auto simp: live_def)
  then show ?thesis using True by (simp add: run_forward_def ret_first forward_trace_def)
next
  case False
  have f: "triple (live E sv (Suc n + 3 * length ops) StApplyingForward (all_at ops PhVerified ph) (cs @ forward_trace ops))
     (finish_run E) (\<lambda>r s. r = OutSucceeded \<and> live E sv (n + 3 * length ops + 2) StSucceeded
        (all_at ops PhVerified ph) (cs @ forward_trace ops) s) never"
    using live_finish [of StApplyingForward "Suc n + 3 * length ops"] n by simp
  have l: "triple (live E sv (Suc n) StApplyingForward ph cs) (apply_forward_loop E adapters ops)
     (\<lambda>r s. r = None \<and> live E sv (Suc n + 3 * length ops) StApplyingForward (all_at ops PhVerified ph)
        (cs @ forward_trace ops) s) never"
    by (rule live_forward_loop) (use ops n in auto)
  have t: "triple (live E sv n StVerifying ph cs) (and_do (step_transition E StApplyingForward) (persist E))
     (\<lambda>_. live E sv (Suc n) StApplyingForward ph cs) never"
    by (rule transition_live) (use sv False n in auto)
  have b: "triple (live E sv n StVerifying ph cs)
     (if ops \<noteq> [] then and_do (step_transition E StApplyingForward) (persist E) else ret ())
     (\<lambda>_. live E sv (Suc n) StApplyingForward ph cs) never" using t False by simp
  show ?thesis unfolding run_forward_def
    by (rule triple_and_do [OF b live_then [OF l]]) (use f in simp)
qed

lemma live_run_apply:
  assumes ops: "\<forall>x\<in>set exact \<union> set forward. willing adapters x \<and> ph (op_id x) = Some PhPrepared"
      "distinct (map op_id (exact @ forward))"
    and n: "n + 3 * length exact + 3 * length forward + 4 \<le> 2 ^ 64"
    and sv: "forward \<noteq> [] \<Longrightarrow> receipt_state_supported sv StApplyingForward"
  shows "triple (live E sv n StPrepared ph cs) (run_apply E adapters exact forward)
    (\<lambda>r s. r = OutSucceeded \<and> live E sv (n + 3 * length exact + 3 * length forward + 4) StSucceeded
       (all_at forward PhVerified (all_at exact PhVerified ph))
       (cs @ map (Pair CallApply) exact @ map (Pair CallVerify) exact @ forward_trace forward) s) never"
proof -
  let ?cs1 = "cs @ map (Pair CallApply) exact" and ?cs2 = "(cs @ map (Pair CallApply) exact) @ map (Pair CallVerify) exact"
  let ?a = "all_at exact PhApplied ph" and ?v = "all_at exact PhVerified ph"
  have v: "all_at exact PhVerified ?a = ?v" by (auto simp: all_at_def)
  have d: "op_id x \<notin> op_id ` set exact" if "x \<in> set forward" for x
    using ops(2) that by auto
  have f: "triple (live E sv (Suc (Suc (n + 2 * length exact)) + length exact) StVerifying ?v ?cs2)
     (run_forward E adapters forward)
     (\<lambda>r s. r = OutSucceeded \<and> live E sv (Suc (Suc (n + 2 * length exact)) + length exact + 3 * length forward + 2) StSucceeded
       (all_at forward PhVerified ?v) (?cs2 @ forward_trace forward) s) never"
    by (rule live_run_forward) (use ops n sv d in \<open>auto simp: all_at_def\<close>)
  have "triple (live E sv (Suc (Suc (n + 2 * length exact))) StVerifying ?a ?cs1) (verify_exact_loop E adapters exact exact)
     (\<lambda>r s. r = None \<and> live E sv (Suc (Suc (n + 2 * length exact)) + length exact) StVerifying (all_at exact PhVerified ?a) ?cs2 s) never"
    by (rule live_verify_loop) (use ops n in \<open>auto simp: all_at_def\<close>)
  from live_then [OF this [unfolded v], of "\<lambda>early. case early of Some outcome \<Rightarrow> ret outcome | None \<Rightarrow> run_forward E adapters forward"] f
  have r: "triple (live E sv (Suc (n + 2 * length exact)) StApplying ?a ?cs1) (run_verify E adapters exact forward exact)
     (\<lambda>r s. r = OutSucceeded \<and> live E sv (Suc (Suc (n + 2 * length exact)) + length exact + 3 * length forward + 2) StSucceeded
       (all_at forward PhVerified ?v) (?cs2 @ forward_trace forward) s) never"
    unfolding run_verify_def
    by (intro live_transition) (use n in \<open>auto simp: receipt_state_supported_def\<close>)
  have a: "triple (live E sv (Suc n) StApplying ph cs) (apply_exact_loop E adapters exact [])
     (\<lambda>r s. r = Inr ([] @ exact) \<and> live E sv (Suc n + 2 * length exact) StApplying ?a ?cs1 s) never"
    by (rule live_apply_loop) (use ops n in auto)
  have "Suc (Suc (n + 2 * length exact)) + length exact + 3 * length forward + 2
      = n + 3 * length exact + 3 * length forward + 4" by simp
  note r = r [unfolded this append_assoc]
  have "triple (live E sv (Suc n) StApplying ph cs) (bind_step (apply_exact_loop E adapters exact [])
     (\<lambda>r. case r of Inl outcome \<Rightarrow> ret outcome | Inr applied \<Rightarrow> run_verify E adapters exact forward applied))
     (\<lambda>r s. r = OutSucceeded \<and> live E sv (n + 3 * length exact + 3 * length forward + 4) StSucceeded
       (all_at forward PhVerified ?v)
       (cs @ map (Pair CallApply) exact @ map (Pair CallVerify) exact @ forward_trace forward) s) never"
    by (rule live_then [OF a]) (use r in simp)
  then show ?thesis unfolding run_apply_def
    by (rule live_transition) (use n in \<open>simp_all add: receipt_state_supported_def\<close>)
qed

lemma partition_operations:
  "set (exact_operations plan) \<union> set (forward_operations plan) = set (pl_operations plan)"
  "length (exact_operations plan) \<le> length (pl_operations plan)"
  "length (forward_operations plan) \<le> length (pl_operations plan)"
proof -
  show "set (exact_operations plan) \<union> set (forward_operations plan) = set (pl_operations plan)"
    by (auto simp: exact_operations_def forward_operations_def) (metis recovery_capability.exhaust)
qed (simp_all add: exact_operations_def forward_operations_def)

lemma partition_distinct:
  assumes "distinct (map op_id (pl_operations plan))"
  shows "distinct (map op_id (exact_operations plan @ forward_operations plan))"
proof -
  have "op_id x \<noteq> op_id y" if "x \<in> set (exact_operations plan)" "y \<in> set (forward_operations plan)" for x y
  proof
    assume "op_id x = op_id y"
    with that have "x = y"
      using assms by (auto simp: exact_operations_def forward_operations_def distinct_map dest: inj_onD)
    with that show False by (auto simp: exact_operations_def forward_operations_def)
  qed
  then show ?thesis using assms
    by (auto simp: exact_operations_def forward_operations_def distinct_map_filter)
qed

lemma live_prepared:
  assumes ops: "\<forall>x\<in>set (pl_operations plan). willing adapters x" "distinct (map op_id (pl_operations plan))"
    and n: "length (pl_operations plan) \<le> 2 ^ 60"
    and sv: "forward_operations plan \<noteq> [] \<Longrightarrow> receipt_state_supported sv StApplyingForward"
  shows "triple (live E sv 1 StPrepared (\<lambda>_. None) cs)
    (bind_step (prepare_loop E adapters (pl_operations plan)) (\<lambda>early.
         (case early of Some outcome \<Rightarrow> ret outcome
            | None \<Rightarrow> run_apply E adapters (exact_operations plan) (forward_operations plan))))
    (\<lambda>r s. r = OutSucceeded \<and> (\<exists>n. live E sv n StSucceeded
       (all_at (pl_operations plan) PhVerified (\<lambda>_. None)) (cs @ success_trace plan) s)) never"
proof -
  let ?ops = "pl_operations plan" and ?e = "exact_operations plan" and ?f = "forward_operations plan"
  have p: "triple (live E sv 1 StPrepared (\<lambda>_. None) cs) (prepare_loop E adapters ?ops)
     (\<lambda>r s. r = None \<and> live E sv (1 + length ?ops) StPrepared (all_at ?ops PhPrepared (\<lambda>_. None))
        (cs @ map (Pair CallPrepare) ?ops) s) never"
    by (rule live_prepare_loop) (use ops n in auto)
  have "triple (live E sv (1 + length ?ops) StPrepared (all_at ?ops PhPrepared (\<lambda>_. None)) (cs @ map (Pair CallPrepare) ?ops))
     (run_apply E adapters ?e ?f)
     (\<lambda>r s. r = OutSucceeded \<and> live E sv (1 + length ?ops + 3 * length ?e + 3 * length ?f + 4) StSucceeded
       (all_at ?f PhVerified (all_at ?e PhVerified (all_at ?ops PhPrepared (\<lambda>_. None))))
       ((cs @ map (Pair CallPrepare) ?ops) @ map (Pair CallApply) ?e @ map (Pair CallVerify) ?e @ forward_trace ?f) s) never"
    by (rule live_run_apply [OF _ partition_distinct [OF ops(2)] _ sv])
       (use ops n partition_operations [of plan] in \<open>auto simp: all_at_def\<close>)
  moreover have "all_at ?f PhVerified (all_at ?e PhVerified (all_at ?ops PhPrepared (\<lambda>_. None)))
      = all_at ?ops PhVerified (\<lambda>_. None)"
    using partition_operations(1) [of plan] by (auto simp: all_at_def fun_eq_iff)
  ultimately have "triple (live E sv (1 + length ?ops) StPrepared (all_at ?ops PhPrepared (\<lambda>_. None)) (cs @ map (Pair CallPrepare) ?ops))
     (run_apply E adapters ?e ?f)
     (\<lambda>r s. r = OutSucceeded \<and> (\<exists>n. live E sv n StSucceeded (all_at ?ops PhVerified (\<lambda>_. None)) (cs @ success_trace plan) s)) never"
    by (auto simp: success_trace_def intro: triple_conseq)
  with live_then [OF p, of "\<lambda>early. case early of Some outcome \<Rightarrow> ret outcome | None \<Rightarrow> run_apply E adapters ?e ?f"]
  show ?thesis by simp
qed

lemma preflight_willing:
  "\<forall>x\<in>set ops. willing adapters x \<Longrightarrow> \<exists>w. preflight_loop b adapters ops s = (Inr (), s\<lparr>en_world := w\<rparr>)"
proof (induction ops arbitrary: s)
  case Nil
  then show ?case by (intro exI [of _ "en_world s"]) (simp add: ret_def)
next
  case (Cons x ops)
  then obtain a where a: "adapter_for adapters (op_adapter_id x) = Inr a" "ad_supports_operation a x (en_world s)"
    "ad_supports_offline_recovery a x (en_world s)" "fst (ad_preflight a x (en_world s)) = Inr ()"
    by (auto simp: willing_def)
  then obtain w where w: "ad_preflight a x (en_world s) = (Inr (), w)"
    by (cases "ad_preflight a x (en_world s)") auto
  from Cons.prems obtain v where "preflight_loop b adapters ops (s\<lparr>en_world := w\<rparr>) = (Inr (), s\<lparr>en_world := v\<rparr>)"
    using Cons.IH [of "s\<lparr>en_world := w\<rparr>"] by auto
  with a w show ?case by (intro exI [of _ v]) (simp add: bind_step_def lift_result_def)
qed

lemma validated_plan:
  assumes "validate_plan E plan = Inr ()"
  shows "distinct (map op_id (pl_operations plan))"
    "forward_operations plan \<noteq> [] \<Longrightarrow> receipt_state_supported (pl_schema_version plan) StApplyingForward"
    "validate_receipt_version (pl_schema_version plan) (pl_contract_version plan) = Inr ()"
    "schema_number (pl_schema_version plan) \<noteq> PACKAGE_RECEIPT_SCHEMA_VERSION"
proof -
  have b: "build_plan E (draft_of_plan plan) = Inr plan"
    using assms by (auto simp: validate_plan_def result_simps split: if_splits)
  from build_plan_order_facts [OF b] show "distinct (map op_id (pl_operations plan))" by simp
  from b obtain ordered i where p: "plan = built_plan (draft_of_plan plan) ordered i"
    by (auto simp: build_plan_Ok)
  have v: "pl_operations plan = ordered"
    "pl_schema_version plan = SchemaVersion (if forward_capable ordered then FORWARD_SCHEMA_VERSION else SCHEMA_VERSION)"
    "pl_contract_version plan = (if forward_capable ordered then FORWARD_CONTRACT_VERSION else CONTRACT_VERSION)"
    by (subst p, simp add: built_plan_def)+
  show "receipt_state_supported (pl_schema_version plan) StApplyingForward" if "forward_operations plan \<noteq> []"
    using that v by (auto simp: forward_operations_def forward_capable_def list_ex_iff filter_empty_conv
        receipt_state_supported_def)
  show "validate_receipt_version (pl_schema_version plan) (pl_contract_version plan) = Inr ()"
    "schema_number (pl_schema_version plan) \<noteq> PACKAGE_RECEIPT_SCHEMA_VERSION"
    unfolding v by (simp_all add: validate_receipt_version_def SCHEMA_VERSION_def FORWARD_SCHEMA_VERSION_def
        PACKAGE_RECEIPT_SCHEMA_VERSION_def)
qed

text \<open>The first checkpoint of a run.\<close>

lemma first_checkpoint_live:
  fixes s :: "'w engine"
  assumes d: "digests_ok E" and plan: "validate_plan E plan = Inr ()"
    and s: "en_store s = Some store" "unused_run store run_id" "en_faults s = []"
  shows "\<exists>j u. journal_for_plan E run_id plan = Inr j \<and> rc_run_id (en_journal u) = run_id
    \<and> persist E (s\<lparr>en_journal := j\<rparr>) = (Inr (), u)
    \<and> live E (pl_schema_version plan) 1 StPrepared (\<lambda>_. None) (call_trace s) u"
proof -
  let ?sv = "pl_schema_version plan"
  note p = validated_plan [OF plan]
  obtain pd where pd: "progress_digest E ?sv [] None = Inr pd" using progress_digest_total [OF d] by blast
  obtain t0 where t0: "make_transition_for_schema E ?sv 0 StPrepared None pd = Inr t0"
    using make_transition_total [OF d] by blast
  have "\<exists>j. journal_for_plan E run_id plan = Inr j \<and> rc_schema_version j = ?sv \<and> rc_package_authorization j = None"
    unfolding journal_for_plan_def new_versioned_def
    by (simp add: p(3,4) pd t0 validate_package_authorization_shape_def)
  then obtain j where j: "journal_for_plan E run_id plan = Inr j" "rc_schema_version j = ?sv" "rc_package_authorization j = None"
    by blast
  note f = new_journal_shape [OF j(1) [unfolded journal_for_plan_def]]
  have "store_holds E store (rc_run_id j) []" using s(2) f(1) by (simp add: unused_holds)
  moreover have "extends_history [] j" "length (rc_transitions j) \<le> 2 ^ 64" using f(2) by (simp_all add: extends_history_def)
  ultimately obtain store' where st: "persist_unlocked E None j store = (Inr (), store')"
    "store_holds E store' (rc_run_id j) [j]" "no_leftovers (directory_of store' (sid_str (rc_run_id j)))"
    using persist_clean [of E store j "[]"] f(5) d unused_directory [OF s(2)] f(1) by (auto simp: no_leftovers_def)
  let ?u = "s\<lparr>en_journal := j, en_store := Some store', en_faults := []\<rparr>"
  have u: "persist E (s\<lparr>en_journal := j\<rparr>) = (Inr (), ?u)" using s st(1) by (simp add: persist_def)
  have "live E ?sv 1 StPrepared (\<lambda>_. None) (call_trace s) ?u" "rc_run_id (en_journal ?u) = run_id"
    using d f j st by (auto simp: live_def kept_def in_step_def entries_def call_trace_def)
  with j(1) u show ?thesis by blast
qed

lemma execute_live:
  fixes s :: "'w engine"
  assumes d: "digests_ok E" and plan: "validate_plan E plan = Inr ()"
    and np: "\<not> list_ex is_package_operation (pl_operations plan)"
    and ops: "\<forall>x\<in>set (pl_operations plan). willing adapters x" and n: "length (pl_operations plan) \<le> 2 ^ 60"
    and s: "en_store s = Some store" "unused_run store run_id" "en_faults s = []"
  shows "\<exists>t k. execute E plan run_id adapters s = (Inr OutSucceeded, t)
    \<and> live E (pl_schema_version plan) k StSucceeded (all_at (pl_operations plan) PhVerified (\<lambda>_. None))
        (call_trace s @ success_trace plan) t \<and> rc_run_id (en_journal t) = run_id"
proof -
  note p = validated_plan [OF plan]
  obtain w where w: "preflight_adapters plan adapters s = (Inr (), s\<lparr>en_world := w\<rparr>)"
    using preflight_willing [OF ops] by (auto simp: preflight_adapters_def)
  have "call_trace (s\<lparr>en_world := w\<rparr>) = call_trace s" by (simp add: call_trace_def)
  then obtain j u where j: "journal_for_plan E run_id plan = Inr j"
    and u: "persist E (s\<lparr>en_world := w, en_journal := j\<rparr>) = (Inr (), u)"
      "live E (pl_schema_version plan) 1 StPrepared (\<lambda>_. None) (call_trace s) u"
    using first_checkpoint_live [OF d plan, of "s\<lparr>en_world := w\<rparr>" store run_id] s by auto
  from live_prepared [OF ops p(1) n p(2), unfolded triple_def, rule_format, OF _ u(2)]
  obtain t k where t: "bind_step (prepare_loop E adapters (pl_operations plan)) (\<lambda>early.
         (case early of Some outcome \<Rightarrow> ret outcome
            | None \<Rightarrow> run_apply E adapters (exact_operations plan) (forward_operations plan))) u = (Inr OutSucceeded, t)"
    "live E (pl_schema_version plan) k StSucceeded (all_at (pl_operations plan) PhVerified (\<lambda>_. None)) (call_trace s @ success_trace plan) t"
    by (auto simp: never_def split: prod.splits sum.splits)
  have x: "execute_preflighted E plan adapters (s\<lparr>en_world := w, en_journal := j\<rparr>) = (Inr OutSucceeded, t)"
    unfolding execute_preflighted_def using u(1) t(1) by (simp add: and_do_def bind_step_def)
  then have e: "execute E plan run_id adapters s = (Inr OutSucceeded, t)"
    using plan np w j by (simp add: execute_def and_do_def bind_step_def lift_result_def set_journal_def)
  have "rc_run_id (en_journal t) = run_id"
    using started_result(1) [OF s(1,2) journals_start(1) [OF j] _ x] n
    by (simp add: run_result_def completed_def stopped_def small_plan_def)
  with e t(2) show ?thesis by blast
qed

end
