(* ===== verification/Engine_Rollback.thy ===== *)
theory Engine_Rollback
  imports Engine_Liveness
begin

text \<open>
  Rollback in detail: the calls follow the reverse order of the operations, every operation ends
  rolled back or with a recorded failure, and the outcome tells which. Also the case in which a
  resumed rollback forgets a failure recorded before the restart.
\<close>

section \<open>Steps without adapter calls\<close>

definition traced :: "(call_kind \<times> operation) list \<Rightarrow> (sha256_digest \<Rightarrow> operation_phase option) \<Rightarrow> 'w engine \<Rightarrow> bool" where
  "traced cs ph s \<longleftrightarrow> call_trace s = cs \<and> phase_of (en_journal s) = ph"

definition called :: "(call_kind \<times> operation) list \<Rightarrow> 'w engine \<Rightarrow> bool" where
  "called cs s \<longleftrightarrow> call_trace s = cs"

lemma persist_frame:
  "triple (\<lambda>s. traced cs ph s \<and> P (en_journal s)) (persist E)
     (\<lambda>_ s. traced cs ph s \<and> P (en_journal s)) (called cs)"
  by (auto simp: triple_def persist_def traced_def called_def call_trace_def Let_def
      split: option.split prod.split sum.split)

lemmas traced_persist = persist_frame [where P = "\<lambda>_. True", unfolded simp_thms]

lemma traced_record:
  "triple (traced cs ph) (step_record E x q code) (\<lambda>_. traced cs (ph(op_id x \<mapsto> q))) (called cs)"
proof (rule tripleI)
  fix s :: "'w engine" and u t
  assume s: "traced cs ph s" "step_record E x q code s = (Inr u, t)"
  then obtain j where "record_operation E (op_id x) q code (en_journal s) = (Inr (), j)" "t = s\<lparr>en_journal := j\<rparr>"
    by (auto simp: step_record_def with_journal_def split: prod.splits)
  then show "traced cs (ph(op_id x \<mapsto> q)) t"
    using s(1) record_operation_effect(3) by (fastforce simp: traced_def call_trace_def)
qed (auto simp: step_record_def with_journal_def traced_def called_def call_trace_def split: prod.splits)

lemma traced_transition:
  "triple (traced cs ph) (step_transition E st)
     (\<lambda>_ s. traced cs ph s \<and> rc_state (en_journal s) = st) (called cs)"
proof (rule tripleI)
  fix s :: "'w engine" and u t
  assume s: "traced cs ph s" "step_transition E st s = (Inr u, t)"
  then obtain j where "journal_transition E st (en_journal s) = (Inr (), j)" "t = s\<lparr>en_journal := j\<rparr>"
    by (auto simp: step_transition_def with_journal_def split: prod.splits)
  then show "traced cs ph t \<and> rc_state (en_journal t) = st"
    using s(1) journal_transition_effect(2,3) by (fastforce simp: traced_def call_trace_def)
qed (auto simp: step_transition_def with_journal_def traced_def called_def call_trace_def split: prod.splits)

lemma traced_call:
  "triple (traced cs ph) (call_adapter E adapters kind m x) (\<lambda>_. traced (cs @ [(kind, x)]) ph) (called cs)"
  by (auto simp: triple_def call_adapter_def traced_def called_def call_trace_def split: sum.split prod.split)

section \<open>The rollback loop\<close>

definition rolled :: "operation list \<Rightarrow> bool \<Rightarrow> (sha256_digest \<Rightarrow> operation_phase option)
  \<Rightarrow> bool \<Rightarrow> (sha256_digest \<Rightarrow> operation_phase option) \<Rightarrow> bool" where
  "rolled ops b ph b' ph' \<longleftrightarrow> (\<forall>i. i \<notin> op_id ` set ops \<longrightarrow> ph' i = ph i)
     \<and> (\<forall>x\<in>set ops. ph' (op_id x) \<in> {Some PhRolledBack, Some PhRollbackFailed})
     \<and> (b' \<longleftrightarrow> b \<or> (\<exists>x\<in>set ops. ph' (op_id x) = Some PhRollbackFailed))"

definition cut_short :: "(call_kind \<times> operation) list \<Rightarrow> operation list \<Rightarrow> 'w engine \<Rightarrow> bool" where
  "cut_short cs ops s \<longleftrightarrow> (\<exists>k\<le>length ops. call_trace s = cs @ map (Pair CallRollback) (take k ops))"

lemma rolled_Cons:
  assumes "op_id x \<notin> op_id ` set ops" "q \<in> {PhRolledBack, PhRollbackFailed}"
    and "rolled ops (b \<or> q = PhRollbackFailed) (ph(op_id x \<mapsto> q)) b' ph'"
  shows "rolled (x # ops) b ph b' ph'"
proof -
  have "ph' (op_id x) = Some q" using assms(1,3) by (auto simp: rolled_def)
  then show ?thesis using assms(2,3) by (auto simp: rolled_def)
qed

lemma cut_short_Cons:
  "called (cs @ [(CallRollback, x)]) s \<or> cut_short (cs @ [(CallRollback, x)]) ops s \<Longrightarrow> cut_short cs (x # ops) s"
  unfolding called_def cut_short_def
proof (elim disjE exE conjE)
  assume "call_trace s = cs @ [(CallRollback, x)]"
  then show "\<exists>k\<le>length (x # ops). call_trace s = cs @ map (Pair CallRollback) (take k (x # ops))"
    by (intro exI [of _ "Suc 0"]) simp
next
  fix k assume "k \<le> length ops" "call_trace s = (cs @ [(CallRollback, x)]) @ map (Pair CallRollback) (take k ops)"
  then show "\<exists>k\<le>length (x # ops). call_trace s = cs @ map (Pair CallRollback) (take k (x # ops))"
    by (intro exI [of _ "Suc k"]) simp
qed

lemma called_cut_short: "called cs s \<Longrightarrow> cut_short cs ops s"
  unfolding called_def cut_short_def by (intro exI [of _ 0]) simp

lemma called_all: "called (cs @ map (Pair CallRollback) ops) s \<Longrightarrow> cut_short cs ops s"
  unfolding called_def cut_short_def by (intro exI [of _ "length ops"]) simp

lemma rollback_loop_traced:
  assumes "distinct (map op_id ops)"
  shows "triple (traced cs ph) (rollback_loop E adapters ops b)
    (\<lambda>b' s. call_trace s = cs @ map (Pair CallRollback) ops \<and> rolled ops b ph b' (phase_of (en_journal s)))
    (cut_short cs ops)"
  using assms
proof (induction ops arbitrary: b cs ph)
  case Nil
  show ?case unfolding rollback_loop.simps by (rule triple_ret) (simp add: traced_def rolled_def)
next
  case (Cons x ops)
  have fresh: "op_id x \<notin> op_id ` set ops" using Cons.prems by simp
  let ?cs = "cs @ [(CallRollback, x)]"
  have step: "triple (traced ?cs ph) (and_do (step_record E x q code) (and_do (persist E) (rollback_loop E adapters ops b'')))
     (\<lambda>b' s. call_trace s = cs @ map (Pair CallRollback) (x # ops) \<and> rolled (x # ops) b ph b' (phase_of (en_journal s)))
     (cut_short cs (x # ops))"
    if q: "q \<in> {PhRolledBack, PhRollbackFailed}" "b'' \<longleftrightarrow> b \<or> q = PhRollbackFailed" for q b'' code
  proof -
    let ?P = "traced ?cs (ph(op_id x \<mapsto> q)) :: 'a engine \<Rightarrow> bool"
    have a: "triple (traced ?cs ph) (step_record E x q code) (\<lambda>_. ?P) (cut_short cs (x # ops))"
      by (rule triple_conseq [OF traced_record]) (auto intro: cut_short_Cons)
    have b: "triple ?P (persist E) (\<lambda>_. ?P) (cut_short cs (x # ops))"
      by (rule triple_conseq [OF traced_persist]) (auto intro: cut_short_Cons)
    have "distinct (map op_id ops)" using Cons.prems by simp
    note ih = Cons.IH [OF this, of ?cs "ph(op_id x \<mapsto> q)" b'']
    have c: "triple ?P (rollback_loop E adapters ops b'')
       (\<lambda>b' s. call_trace s = cs @ map (Pair CallRollback) (x # ops) \<and> rolled (x # ops) b ph b' (phase_of (en_journal s)))
       (cut_short cs (x # ops))"
      by (rule triple_conseq [OF ih])
         (use rolled_Cons [OF fresh q(1)] in \<open>auto simp: q(2) simp del: fun_upd_apply intro: cut_short_Cons\<close>)
    show ?thesis by (rule triple_and_do [OF a triple_and_do [OF b c]])
  qed
  have "triple (traced cs ph) (call_adapter E adapters CallRollback ad_rollback x) (\<lambda>_. traced ?cs ph) (cut_short cs (x # ops))"
    by (rule triple_conseq [OF traced_call]) (auto intro: called_cut_short)
  then show ?case unfolding rollback_loop.simps
  proof (rule triple_bind)
    fix r :: "adapter_failure + unit"
    show "triple (traced ?cs ph) (case r of
          Inr _ \<Rightarrow> and_do (step_record E x PhRolledBack None) (and_do (persist E) (rollback_loop E adapters ops b))
        | Inl failure \<Rightarrow> and_do (step_record E x PhRollbackFailed (Some (stable_failure_code failure)))
            (and_do (persist E) (rollback_loop E adapters ops True)))
      (\<lambda>b' s. call_trace s = cs @ map (Pair CallRollback) (x # ops) \<and> rolled (x # ops) b ph b' (phase_of (en_journal s)))
      (cut_short cs (x # ops))"
      using step [of PhRolledBack b None] step [of PhRollbackFailed True] by (cases r) simp_all
  qed
qed

lemma rollback_traced:
  assumes "distinct (map op_id ops)"
  shows "triple (traced cs ph) (rollback_from_rolling_back E adapters ops)
    (\<lambda>outcome s. call_trace s = cs @ map (Pair CallRollback) (rev ops)
       \<and> (\<forall>x\<in>set ops. phase_of (en_journal s) (op_id x) \<in> {Some PhRolledBack, Some PhRollbackFailed})
       \<and> outcome = (if \<exists>x\<in>set ops. phase_of (en_journal s) (op_id x) = Some PhRollbackFailed
                     then OutRollbackFailed else OutRolledBack)
       \<and> rc_state (en_journal s) = outcome_state outcome)
    (cut_short cs (rev ops))"
  unfolding rollback_from_rolling_back_def Let_def
proof (rule triple_bind [OF rollback_loop_traced])
  show "distinct (map op_id (rev ops))" using assms by (simp add: rev_map [symmetric])
  fix failed
  let ?cs = "cs @ map (Pair CallRollback) (rev ops)" and ?o = "if failed then OutRollbackFailed else OutRolledBack"
  let ?Q = "\<lambda>outcome s. call_trace s = ?cs
       \<and> (\<forall>x\<in>set ops. phase_of (en_journal s) (op_id x) \<in> {Some PhRolledBack, Some PhRollbackFailed})
       \<and> outcome = (if \<exists>x\<in>set ops. phase_of (en_journal s) (op_id x) = Some PhRollbackFailed
                     then OutRollbackFailed else OutRolledBack)
       \<and> rc_state (en_journal s) = outcome_state outcome"
  have known: "triple (\<lambda>s :: 'a engine. traced ?cs ph' s) (and_do (step_transition E (outcome_state ?o)) (and_do (persist E) (ret ?o)))
      ?Q (cut_short cs (rev ops))" if "rolled (rev ops) False ph failed ph'" for ph'
  proof -
    let ?P = "\<lambda>s :: 'a engine. traced ?cs ph' s \<and> rc_state (en_journal s) = outcome_state ?o"
    have a: "triple (traced ?cs ph') (step_transition E (outcome_state ?o)) (\<lambda>_. ?P) (cut_short cs (rev ops))"
      by (rule triple_conseq [OF traced_transition]) (auto intro: called_all)
    have b: "triple ?P (persist E) (\<lambda>_. ?P) (cut_short cs (rev ops))"
      by (rule triple_conseq [OF persist_frame [where P = "\<lambda>j. rc_state j = outcome_state ?o"]])
         (auto intro: called_all)
    have c: "triple ?P (ret ?o) ?Q (cut_short cs (rev ops))"
      by (rule triple_ret) (use that in \<open>auto simp: traced_def rolled_def\<close>)
    show ?thesis by (rule triple_and_do [OF a triple_and_do [OF b c]])
  qed
  show "triple (\<lambda>s :: 'a engine. call_trace s = ?cs \<and> rolled (rev ops) False ph failed (phase_of (en_journal s)))
      (and_do (step_transition E (outcome_state ?o)) (and_do (persist E) (ret ?o))) ?Q (cut_short cs (rev ops))"
  proof (rule triple_fix [where g = "\<lambda>s. phase_of (en_journal s)"])
    fix ph'
    show "triple (\<lambda>s :: 'a engine. (call_trace s = ?cs \<and> rolled (rev ops) False ph failed (phase_of (en_journal s)))
        \<and> phase_of (en_journal s) = ph')
      (and_do (step_transition E (outcome_state ?o)) (and_do (persist E) (ret ?o))) ?Q (cut_short cs (rev ops))"
    proof (cases "rolled (rev ops) False ph failed ph'")
      case True
      show ?thesis by (rule triple_pre [OF known [OF True]]) (simp add: traced_def)
    next
      case False
      then show ?thesis by (intro triple_vacuous) auto
    qed
  qed
qed

section \<open>Rolling back a succeeded run\<close>

lemma rolling_back_traced:
  fixes s :: "'w engine"
  assumes d: "distinct (map op_id ops)"
    and x: "and_do (step_transition E StRollingBack) (and_do (persist E) (rollback_from_rolling_back E adapters ops)) s = (r, t)"
  shows "cut_short (call_trace s) (rev ops) t"
    "r = Inr outcome \<Longrightarrow> call_trace t = call_trace s @ map (Pair CallRollback) (rev ops)
      \<and> (\<forall>x\<in>set ops. phase_of (en_journal t) (op_id x) \<in> {Some PhRolledBack, Some PhRollbackFailed})
      \<and> outcome = (if \<exists>x\<in>set ops. phase_of (en_journal t) (op_id x) = Some PhRollbackFailed
                    then OutRollbackFailed else OutRolledBack)"
proof -
  let ?P = "traced (call_trace s) (phase_of (en_journal s)) :: 'w engine \<Rightarrow> bool"
  have a: "triple ?P (step_transition E StRollingBack) (\<lambda>_. ?P) (cut_short (call_trace s) (rev ops))"
    by (rule triple_conseq [OF traced_transition]) (auto intro: called_cut_short)
  have b: "triple ?P (persist E) (\<lambda>_. ?P) (cut_short (call_trace s) (rev ops))"
    by (rule triple_conseq [OF traced_persist]) (auto intro: called_cut_short)
  note m = tripleD [OF triple_and_do [OF a triple_and_do [OF b rollback_traced [OF d]]], of s]
  have s: "?P s" by (simp add: traced_def)
  show "cut_short (call_trace s) (rev ops) t"
  proof (cases r)
    case (Inl e)
    then show ?thesis using m(2) [OF s] x by blast
  next
    case (Inr outcome)
    then have "called (call_trace s @ map (Pair CallRollback) (rev ops)) t"
      using m(1) [OF s] x unfolding called_def by blast
    then show ?thesis by (rule called_all)
  qed
  show "call_trace t = call_trace s @ map (Pair CallRollback) (rev ops)
      \<and> (\<forall>x\<in>set ops. phase_of (en_journal t) (op_id x) \<in> {Some PhRolledBack, Some PhRollbackFailed})
      \<and> outcome = (if \<exists>x\<in>set ops. phase_of (en_journal t) (op_id x) = Some PhRollbackFailed
                    then OutRollbackFailed else OutRolledBack)" if "r = Inr outcome"
    using m(1) [OF s] x that by blast
qed

lemma rollback_succeeded_split:
  fixes s :: "'w engine"
  assumes "rollback_succeeded_run E run_id plan adapters s = (r, t)"
  shows "(\<exists>e. r = Inl e) \<and> en_calls t = en_calls s
    \<or> validate_plan E plan = Inr () \<and> \<not> forward_capable (pl_operations plan)
      \<and> (\<exists>w j. and_do (step_transition E StRollingBack) (and_do (persist E)
           (rollback_from_rolling_back E adapters (pl_operations plan))) (s\<lparr>en_world := w, en_journal := j\<rparr>) = (r, t))"
proof -
  define tail where "tail = and_do (step_transition E StRollingBack) (and_do (persist E)
    (rollback_from_rolling_back E adapters (pl_operations plan)))"
  obtain p v where p: "preflight_adapters plan adapters s = (p, v)" by (cases "preflight_adapters plan adapters s")
  from preflight_frame [OF this] obtain w where w: "v = s\<lparr>en_world := w\<rparr>" by blast
  have l: "load_run E run_id s = (q, u) \<Longrightarrow> u = s" for q u
    by (auto simp: load_run_def split: option.splits)
  have c: "ensure_current_run E j s = (q, u) \<Longrightarrow> u = s" for j q u by (rule ensure_current_frame)
  have locked: "(\<exists>e. r = Inl e) \<and> en_calls t = en_calls s \<or> (\<exists>w. tail (s\<lparr>en_world := w, en_journal := j\<rparr>) = (r, t))"
    if "rollback_succeeded_run_with_journal_locked E run_id plan j adapters s = (r, t)" for j
    using that p w
    unfolding rollback_succeeded_run_with_journal_locked_def tail_def [symmetric]
    by (auto simp: and_do_def bind_step_def lift_result_def raise_def set_journal_def
        split: sum.splits prod.splits if_splits dest!: c)
  show ?thesis unfolding tail_def [symmetric]
    using assms
    by (auto simp: rollback_succeeded_run_def load_validated_run_def and_do_def bind_step_def
        lift_result_def raise_def ret_def split: sum.splits prod.splits if_splits dest!: l locked)
qed

section \<open>Resuming a rollback\<close>

text \<open>
  When the restart finds the run rolling back with nothing left to roll back, the outcome is
  \<open>RolledBack\<close>, whatever failures the journal records.
\<close>

lemma resume_nothing_left:
  fixes s :: "'w engine"
  assumes s: "live E sv n StRollingBack ph cs s" and n: "n < 2 ^ 64"
    and c: "rollback_candidates plan (en_journal s) = []"
  shows "\<exists>t. resume_rollback E plan adapters s = (Inr OutRolledBack, t)
    \<and> live E sv (Suc n) StRolledBack ph cs t"
proof -
  have "triple (live E sv n StRollingBack ph cs) (and_do (step_transition E StRolledBack) (and_do (persist E) (ret OutRolledBack)))
      (\<lambda>r t. r = OutRolledBack \<and> live E sv (Suc n) StRolledBack ph cs t) (never :: 'w engine \<Rightarrow> bool)"
    by (rule live_transition) (use n in \<open>auto simp: receipt_state_supported_def intro: triple_ret\<close>)
  from this [unfolded triple_def, rule_format, OF s] obtain t where
    t: "and_do (step_transition E StRolledBack) (and_do (persist E) (ret OutRolledBack)) s = (Inr OutRolledBack, t)"
      "live E sv (Suc n) StRolledBack ph cs t"
    by (auto simp: never_def split: prod.splits sum.splits)
  have "rc_state (en_journal s) = StRollingBack" using s by (simp add: live_def)
  then have "resume_rollback E plan adapters s
      = and_do (step_transition E StRolledBack) (and_do (persist E) (ret OutRolledBack)) s"
    by (simp add: resume_rollback_def bind_step_def get_journal_def ret_first c rollback_from_rolling_back_def)
  with t show ?thesis by auto
qed

end
