(* ===== verification/Samples.thy ===== *)
theory Samples
  imports Contracts_Plan
begin

text \<open>
  A concrete instance of the third-party services, on which the hypotheses of the development
  hold. It stands for \<open>serde_jcs\<close> and \<open>sha2\<close> only where a statement is evaluated on a
  concrete input: the text of a value shows its \<open>sequence\<close> or \<open>payloadDigest\<close> field, and
  the digest of some bytes shows the digest domain (by its eleventh byte) and the last byte.
\<close>

definition sample_text :: "json \<Rightarrow> string" where
  "sample_text v = (case v of
     JObject m \<Rightarrow> (case bt_get m ''sequence'' of
         Some (JNumber (PosInt n)) \<Rightarrow> [char_of (unat n)]
       | _ \<Rightarrow> (case bt_get m ''payloadDigest'' of Some (JString p) \<Rightarrow> [last p] | _ \<Rightarrow> [CHR ''f'']))
   | _ \<Rightarrow> [CHR ''e''])"

definition sample_digit :: "char \<Rightarrow> char" where
  "sample_digit c = ''0123456789abcdef'' ! (of_char c mod 16)"

definition sample_hash :: "string \<Rightarrow> string" where
  "sample_hash s = replicate 62 (CHR ''0'') @ [sample_digit (s ! 10), sample_digit (last s)]"

definition sample_env :: env where
  "sample_env = \<lparr>env_jcs = \<lambda>v. Some (sample_text v), env_sha256 = sample_hash,
     env_is_match = \<lambda>pattern text. False, env_captures = \<lambda>pattern text. [],
     env_pointer = \<lambda>v pointer. None\<rparr>"

lemma hex_digits: "list_all lower_hex ''0123456789abcdef''"
  by code_simp

lemma sample_digit_lower_hex: "lower_hex (sample_digit n)"
  unfolding sample_digit_def by (rule hex_digits [unfolded list_all_length, rule_format]) simp

lemma sample_digests_ok: "digests_ok sample_env"
proof -
  have "lower_hex (CHR ''0'')" by code_simp
  then show ?thesis
    using sample_digit_lower_hex
    by (auto simp: digests_ok_def sha256_hex_def jcs_total_def sample_env_def sample_hash_def list_all_iff)
qed

definition sample_digest :: "char \<Rightarrow> char \<Rightarrow> sha256_digest" where
  "sample_digest c d = Sha256Digest (''sha256:'' @ replicate 62 (CHR ''0'') @ [c, d])"

lemma sample_digest_inject [simp]: "sample_digest a b = sample_digest c d \<longleftrightarrow> a = c \<and> b = d"
  by (simp add: sample_digest_def)

lemma sample_digest_json:
  "digest_domain_json sample_env t v =
     Inr (sample_digest (sample_digit ((t @ [CHR 0x00] @ sample_text v) ! 10)) (sample_digit (last (sample_text v))))"
proof -
  have "sample_text v \<noteq> []"
    by (auto simp: sample_text_def split: json.split option.split json_number.split)
  moreover have "sha256_hex sample_env" using sample_digests_ok by (simp add: digests_ok_def)
  ultimately show ?thesis
    unfolding digest_domain_json_def canonical_json_def
    using sha256_digest_parse_hex [of sample_env "t @ [CHR 0x00] @ sample_text v"]
    by (simp add: sample_env_def sample_hash_def sample_digest_def)
qed

lemma sample_text_struct:
  "sample_text (json_struct fs) = (case map_of (rev fs) ''sequence'' of
     Some (JNumber (PosInt n)) \<Rightarrow> [char_of (unat n)]
   | _ \<Rightarrow> (case map_of (rev fs) ''payloadDigest'' of Some (JString p) \<Rightarrow> [last p] | _ \<Rightarrow> [CHR ''f'']))"
  by (simp only: sample_text_def json_struct_def bt_get_collect json.case)

text \<open>A small operation, and bindings for a plan of it.\<close>

definition sample_bindings :: plan_bindings where
  "sample_bindings = \<lparr>pb_target_identity_digest = sample_digest (CHR ''1'') (CHR ''0''),
     pb_composed_loadout_digest = sample_digest (CHR ''1'') (CHR ''1''),
     pb_provider_inputs_digest = sample_digest (CHR ''1'') (CHR ''2''),
     pb_ownership_map_digest = sample_digest (CHR ''1'') (CHR ''3''),
     pb_artifact_set_digest = sample_digest (CHR ''1'') (CHR ''4''),
     pb_package_resolution_authority_digest = None\<rparr>"

end
