(* ===== verification/Core_Properties.thy ===== *)
theory Core_Properties
  imports Core_Identity Samples
begin

text \<open>
  The properties of plan construction, each with its evaluation on concrete operations and plans.
\<close>

section \<open>Concrete operations and plans\<close>

definition sample_op_draft :: "char \<Rightarrow> recovery_capability \<Rightarrow> sha256_digest list \<Rightarrow> operation_draft" where
  "sample_op_draft c r ds =
     \<lparr>od_adapter_id = StableId ''files'', od_kind = OpCreate,
      od_resource = \<lparr>rr_resource_type = StableId ''file'', rr_resource_id = StableId ''a'',
        rr_managed_path = None\<rparr>,
      od_risk = Low, od_requires_confirmation = False, od_recovery_capability = r,
      od_depends_on = ds, od_before_digest = None, od_after_digest = None,
      od_payload_digest = sample_digest c c, od_provenance = None, od_summary = ''sample''\<rparr>"

definition sample_op :: "char \<Rightarrow> recovery_capability \<Rightarrow> sha256_digest list \<Rightarrow> operation" where
  "sample_op c r ds = \<lparr>op_id = sample_digest (CHR ''f'') (sample_digit c),
      op_adapter_id = StableId ''files'', op_kind = OpCreate,
      op_resource = \<lparr>rr_resource_type = StableId ''file'', rr_resource_id = StableId ''a'',
        rr_managed_path = None\<rparr>,
      op_risk = Low, op_requires_confirmation = False, op_recovery_capability = r,
      op_depends_on = ds, op_before_digest = None, op_after_digest = None,
      op_payload_digest = sample_digest c c, op_provenance = None, op_summary = ''sample''\<rparr>"

lemma sample_op_digest:
  "operation_digest sample_env (sample_op_draft c r ds) = Inr (op_id (sample_op c r ds))"
  by (cases r) (simp_all add: operation_digest_def sample_digest_json ser_operation_semantic_def
      ser_forward_operation_semantic_def sample_text_struct operation_semantic_fields_def
      sample_op_def sample_op_draft_def opt_field_def ser_digest_def sample_digest_def sample_digit_def)

text \<open>A forward-only operation drafted before the exactly reversible one it depends on.\<close>

definition sample_exact :: operation where
  "sample_exact = sample_op (CHR ''1'') ExactRollback []"

definition sample_forward :: operation where
  "sample_forward = sample_op (CHR ''2'') ConvergeForwardOnly [op_id sample_exact]"

definition sample_plan_draft :: plan_draft where
  "sample_plan_draft = \<lparr>pd_target_id = StableId ''laptop'',
     pd_desired_digest = sample_digest (CHR ''2'') (CHR ''0''),
     pd_observed_digest = sample_digest (CHR ''2'') (CHR ''1''),
     pd_policy_digest = sample_digest (CHR ''2'') (CHR ''2''),
     pd_bindings = sample_bindings, pd_operations = [sample_forward, sample_exact]\<rparr>"

definition sample_plan :: plan where
  "sample_plan = built_plan sample_plan_draft [sample_exact, sample_forward]
     (sample_digest (CHR ''0'') (CHR ''6''))"

lemma sample_op_sel [simp]:
  "op_id (sample_op c r ds) = sample_digest (CHR ''f'') (sample_digit c)"
  "op_recovery_capability (sample_op c r ds) = r" "op_depends_on (sample_op c r ds) = ds"
  by (simp_all add: sample_op_def)

lemma sample_digits [simp]:
  "sample_digit (CHR ''1'') = CHR ''1''" "sample_digit (CHR ''2'') = CHR ''2''"
  "sample_digit (CHR ''o'') = CHR ''f''" "sample_digit (CHR ''p'') = CHR ''0''"
  "sample_digit (CHR ''f'') = CHR ''6''" "sample_digit (CHR ''r'') = CHR ''2''"
  by (simp_all add: sample_digit_def)

lemma sample_draft_of_op: "draft_of_operation (sample_op c r ds) = sample_op_draft c r ds"
  by (simp add: draft_of_operation_def sample_op_def sample_op_draft_def)

lemma sample_normalized:
  "length ds \<le> 1 \<Longrightarrow> normalized_draft (sample_op_draft c r ds) = sample_op_draft c r ds"
  by (cases ds) (simp_all add: normalized_draft_def sample_op_draft_def sorted_dependencies_def)

lemma sample_identities: "identities_hold sample_env [sample_exact, sample_forward]"
  by (simp add: identities_hold_def sample_exact_def sample_forward_def sample_draft_of_op
      sample_normalized sample_op_digest)

lemma sample_op_key_inject [simp]:
  "digest_str (sample_digest a b) = digest_str (sample_digest c d) \<longleftrightarrow> a = c \<and> b = d"
  by (simp add: sample_digest_def)

lemma sample_order:
  "order_operations {} [sample_forward, sample_exact] = Inr [sample_exact, sample_forward]"
  by (simp add: order_operations.simps next_operation_def sample_exact_def sample_forward_def
      remove_index_def)

lemma sample_build: "build_plan sample_env sample_plan_draft = Inr sample_plan"
proof -
  have "check_exact_dependencies [sample_forward, sample_exact] = Inr ()"
    by (simp add: check_exact_dependencies_def sample_exact_def sample_forward_def exact_walk.simps)
  moreover have "digest_domain_json sample_env (plan_domain [sample_exact, sample_forward])
      (ser_plan_semantic sample_plan_draft [sample_exact, sample_forward])
      = Inr (sample_digest (CHR ''0'') (CHR ''6''))"
    by (simp add: sample_digest_json ser_plan_semantic_def sample_text_struct plan_domain_def)
  ultimately show ?thesis
    unfolding build_plan_Ok sample_plan_def
    using sample_order sample_identities
    by (simp add: sample_plan_draft_def) (simp add: sample_exact_def sample_forward_def)
qed

lemma sample_images_distinct: "digests_distinct_on sample_env (plan_images sample_plan)"
proof -
  let ?d = "\<lambda>(t, v). digest_domain_json sample_env t v"
  have p: "?d (plan_image sample_plan) = Inr (sample_digest (CHR ''0'') (CHR ''6''))"
    using build_plan_image [OF sample_build] by (simp add: split_beta sample_plan_def)
  have o: "?d (operation_image (draft_of_operation (sample_op c r ds))) = Inr (op_id (sample_op c r ds))"
    if "length ds \<le> 1" for c r ds
    using operation_digest_image [of sample_env "sample_op_draft c r ds"] sample_op_digest [of c r ds]
      sample_normalized [OF that, of c r] by (simp add: split_beta sample_draft_of_op)
  have ops: "pl_operations sample_plan = [sample_exact, sample_forward]" by (simp add: sample_plan_def)
  let ?images = "[plan_image sample_plan, operation_image (draft_of_operation sample_exact),
    operation_image (draft_of_operation sample_forward)]"
  have "distinct (map ?d ?images)"
    unfolding list.map p sample_exact_def sample_forward_def by (simp only: o list.size) simp
  then have "inj_on ?d (set ?images)" by (simp only: distinct_map)
  then show ?thesis by (simp add: digests_distinct_on_def plan_images_def ops)
qed

section \<open>Properties\<close>

text \<open>
  C1: \<open>build_plan\<close> returns a plan whose operations are a rearrangement of the drafted ones, with
  distinct identities, in which every dependency of an operation stands at an earlier position and
  all exactly reversible operations stand before the operations that can only be completed forward.
\<close>

theorem build_plan_ordered:
  assumes "build_plan E draft = Inr plan"
  shows "mset (pl_operations plan) = mset (pd_operations draft)
    \<and> distinct (map op_id (pl_operations plan))
    \<and> (\<forall>i<length (pl_operations plan). \<forall>d\<in>set (op_depends_on (pl_operations plan ! i)).
         \<exists>j<i. op_id (pl_operations plan ! j) = d)
    \<and> sorted (map op_recovery_capability (pl_operations plan))"
  by (rule build_plan_order_facts [OF assms])

theorem build_plan_ordered_witness:
  "build_plan sample_env sample_plan_draft = Inr sample_plan
    \<and> mset (pl_operations sample_plan) = mset (pd_operations sample_plan_draft)
    \<and> sorted (map op_recovery_capability (pl_operations sample_plan))"
  using build_plan_ordered [OF sample_build] sample_build by blast

text \<open>
  C15: With a working digest service \<open>build_plan\<close> succeeds exactly when identities are unique, every
  dependency is drafted, some order puts dependencies first, no exactly reversible operation
  depends on a forward-only one through any chain, and every identity is the digest of its
  operation.
\<close>

theorem build_plan_succeeds_iff:
  assumes "digests_ok E"
  shows "(\<exists>plan. build_plan E draft = Inr plan) \<longleftrightarrow>
     distinct (map op_id (pd_operations draft))
     \<and> (\<forall>x\<in>set (pd_operations draft). set (op_depends_on x) \<subseteq> op_id ` set (pd_operations draft))
     \<and> (\<exists>p. mset p = mset (pd_operations draft) \<and> topological {} p)
     \<and> (\<forall>x y. x \<in> set (pd_operations draft) \<longrightarrow> op_recovery_capability x = ExactRollback \<longrightarrow>
          depends_on (pd_operations draft) x y \<longrightarrow> op_recovery_capability y = ExactRollback)
     \<and> identities_hold E (pd_operations draft)"
  by (rule build_plan_total [OF assms])

theorem build_plan_succeeds_iff_witness:
  "digests_ok sample_env \<and> identities_hold sample_env (pd_operations sample_plan_draft)
    \<and> (\<exists>p. mset p = mset (pd_operations sample_plan_draft) \<and> topological {} p)"
  using build_plan_succeeds_iff [OF sample_digests_ok, of sample_plan_draft] sample_build
    sample_digests_ok by blast

text \<open>
  Every refusal of \<open>build_plan\<close> is justified by the draft: the error names an identity drafted
  twice, a dependency that is not drafted, a cyclic draft, an operation whose identity is not its
  digest, or an exactly reversible operation that depends on a forward-only one; a digest error
  only comes from a failing digest service, and the dependency lookup never panics.
\<close>

lemma build_plan_refusal_justified:
  assumes "build_plan E draft = Inl e"
  shows "plan_error_justified E draft e"
  by (rule build_plan_Err [OF assms])

text \<open>
  C16: A plan is canonical: drafting the same operations in another order builds the same plan, and
  rebuilding a built plan from its own fields gives it back.
\<close>

theorem build_plan_canonical:
  assumes "build_plan E draft = Inr plan" "mset xs = mset (pd_operations draft)"
  shows "build_plan E (draft\<lparr>pd_operations := xs\<rparr>) = Inr plan
    \<and> build_plan E (draft_of_plan plan) = Inr plan"
  using build_plan_perm [OF assms] build_plan_rebuild [OF assms(1)] by blast

theorem build_plan_canonical_witness:
  "build_plan sample_env (sample_plan_draft\<lparr>pd_operations := [sample_exact, sample_forward]\<rparr>)
     = Inr sample_plan"
  by (rule conjunct1 [OF build_plan_canonical [OF sample_build]])
     (simp add: sample_plan_draft_def)

text \<open>
  A plan's identity binds its content: two built plans with the same identity, on whose digested
  values the digest does not collide, have the same target, digests, bindings and, position by
  position, the same operations up to the summary text and the order of dependency lists.
\<close>

lemma build_plan_identity_binds:
  assumes "build_plan E a = Inr p" "build_plan E b = Inr q" "pl_id p = pl_id q"
    and "digests_distinct_on E (plan_images p \<union> plan_images q)"
  shows "pl_target_id p = pl_target_id q \<and> pl_desired_digest p = pl_desired_digest q
    \<and> pl_observed_digest p = pl_observed_digest q \<and> pl_policy_digest p = pl_policy_digest q
    \<and> pl_bindings p = pl_bindings q
    \<and> map operation_content (pl_operations p) = map operation_content (pl_operations q)"
  by (rule build_plan_binds [OF assms])

end
