(* ===== verification/Engine_Properties.thy ===== *)
theory Engine_Properties
  imports Engine_Liveness Core_Properties
begin

text \<open>
  The properties of the reconciler, each with an instance on a concrete run: the sample plan, an
  adapter that accepts every call, an empty store and an operating system without failures.
\<close>

section \<open>A concrete run\<close>

definition sample_adapter :: "'w adapter" where
  "sample_adapter = \<lparr>ad_id = StableId ''files'', ad_supports_operation = \<lambda>_ _. True,
     ad_supports_offline_recovery = \<lambda>_ _. True, ad_preflight = \<lambda>_ w. (Inr (), w),
     ad_package_authorization_binding = \<lambda>_ _. Inr None, ad_validate_evidence = \<lambda>_ _ _. Inr (),
     ad_package_final_digest = \<lambda>_ w. (Inr None, w), ad_observe_recovery = \<lambda>_ w. (Inr ObsAfter, w),
     ad_prepare_recovery = \<lambda>_ w. (Inr (), w), ad_converge_recovery = \<lambda>_ w. (Inr (), w),
     ad_prepare = \<lambda>_ w. (Inr (), w), ad_apply = \<lambda>_ w. (Inr (), w),
     ad_verify = \<lambda>_ w. (Inr (), w), ad_rollback = \<lambda>_ w. (Inr (), w)\<rparr>"

definition sample_run :: stable_id where
  "sample_run = StableId ''run-1''"

definition sample_receipt :: run_receipt where
  "sample_receipt = \<lparr>rc_schema_version = SchemaVersion 1, rc_contract_version = ''1.0'',
     rc_receipt_id = sample_digest (CHR ''3'') (CHR ''0''), rc_run_id = sample_run,
     rc_plan_id = pl_id sample_plan, rc_target_id = StableId ''laptop'',
     rc_desired_digest = sample_digest (CHR ''2'') (CHR ''0''),
     rc_observed_digest = sample_digest (CHR ''2'') (CHR ''1''),
     rc_policy_digest = sample_digest (CHR ''2'') (CHR ''2''), rc_bindings = sample_bindings,
     rc_package_authorization = None, rc_state = StPrepared, rc_operation_progress = [],
     rc_transitions = []\<rparr>"

definition sample_engine :: "unit engine" where
  "sample_engine = \<lparr>en_journal = sample_receipt, en_store = Some (\<lambda>_. None), en_faults = [],
     en_world = (), en_calls = []\<rparr>"

definition sample_final :: "unit engine" where
  "sample_final = snd (execute sample_env sample_plan sample_run [sample_adapter] sample_engine)"

lemma sample_engine_sel [simp]:
  "en_store sample_engine = Some (\<lambda>_. None)" "en_faults sample_engine = []" "en_calls sample_engine = []"
  by (simp_all add: sample_engine_def)

lemma sample_plan_ops [simp]: "pl_operations sample_plan = [sample_exact, sample_forward]"
  by (simp add: sample_plan_def built_plan_def)

lemma sample_plan_valid: "validate_plan sample_env sample_plan = Inr ()"
  using build_plan_rebuild [OF sample_build] by (simp add: validate_plan_def)

lemma sample_willing: "\<forall>x\<in>set (pl_operations sample_plan). willing [sample_adapter] x"
  by (simp add: willing_def adapter_for_def sample_adapter_def sample_exact_def sample_forward_def sample_op_def)

lemma sample_no_package: "\<not> list_ex is_package_operation (pl_operations sample_plan)"
  by (simp add: is_package_operation_def sample_exact_def sample_forward_def sample_op_def)

lemma sample_small: "length (pl_operations sample_plan) \<le> 2 ^ 60"
  by simp

lemma sample_operation_lists:
  "exact_operations sample_plan = [sample_exact]" "forward_operations sample_plan = [sample_forward]"
  by (simp_all add: exact_operations_def forward_operations_def sample_exact_def sample_forward_def)

lemma sample_execute:
  "execute sample_env sample_plan sample_run [sample_adapter] sample_engine = (Inr OutSucceeded, sample_final)"
  and sample_final_live: "\<exists>k. live sample_env (pl_schema_version sample_plan) k StSucceeded
    (all_at (pl_operations sample_plan) PhVerified (\<lambda>_. None)) (success_trace sample_plan) sample_final"
  and sample_final_run: "rc_run_id (en_journal sample_final) = sample_run"
proof -
  obtain t k where t: "execute sample_env sample_plan sample_run [sample_adapter] sample_engine = (Inr OutSucceeded, t)"
    "live sample_env (pl_schema_version sample_plan) k StSucceeded
      (all_at (pl_operations sample_plan) PhVerified (\<lambda>_. None)) (call_trace sample_engine @ success_trace sample_plan) t"
    "rc_run_id (en_journal t) = sample_run"
    using execute_live [OF sample_digests_ok sample_plan_valid sample_no_package sample_willing sample_small,
        of sample_engine "\<lambda>_. None" sample_run] by auto
  then have "sample_final = t" by (simp add: sample_final_def)
  with t show "execute sample_env sample_plan sample_run [sample_adapter] sample_engine = (Inr OutSucceeded, sample_final)"
    "\<exists>k. live sample_env (pl_schema_version sample_plan) k StSucceeded
      (all_at (pl_operations sample_plan) PhVerified (\<lambda>_. None)) (success_trace sample_plan) sample_final"
    "rc_run_id (en_journal sample_final) = sample_run"
    by (auto simp: call_trace_def)
qed

lemma sample_trace:
  "call_trace sample_final = [(CallPrepare, sample_exact), (CallPrepare, sample_forward), (CallApply, sample_exact),
     (CallVerify, sample_exact), (CallApply, sample_forward), (CallVerify, sample_forward)]"
  using sample_final_live by (auto simp: live_def success_trace_def sample_operation_lists forward_trace_def)

lemma sample_forward_applied:
  "\<exists>c\<in>set (en_calls sample_final). lc_kind c = CallApply \<and> lc_operation c = sample_forward"
proof -
  have "(CallApply, sample_forward) \<in> set (call_trace sample_final)" by (simp add: sample_trace)
  then show ?thesis unfolding call_trace_def by (metis (no_types, lifting) fst_conv imageE list.set_map snd_conv)
qed

lemma sample_final_store: "\<exists>store rs. en_store sample_final = Some store \<and> store_holds sample_env store sample_run rs
    \<and> rs \<noteq> [] \<and> last rs = en_journal sample_final"
  using sample_final_live sample_final_run by (auto simp: live_def kept_def in_step_def)

section \<open>Properties of execution\<close>

lemma either_ran:
  assumes "en_store s = Some store" "unused_run store run_id" "length (pl_operations plan) \<le> 2 ^ 60"
    and "execute E plan run_id adapters s = (r, t)
      \<or> execute_with_package_consent E plan run_id consent adapters s = (r, t)"
  shows "ran E run_id plan (en_calls s) r t"
  using assms(4) execute_ran [OF assms(1,2)] execute_with_package_consent_ran [OF assms(1,2)] assms(3)
  by (auto simp: small_plan_def)

text \<open>
  C2: Write-ahead: whatever adapters and operating system do, each \<open>apply\<close> call of an execution is made
  only when a restart at that moment would load a receipt that records the operation as started.
\<close>

theorem run_writes_ahead:
  assumes "en_store s = Some store" "unused_run store run_id" "length (pl_operations plan) \<le> 2 ^ 60"
    and "execute E plan run_id adapters s = (r, t)
      \<or> execute_with_package_consent E plan run_id consent adapters s = (r, t)"
  shows "\<exists>new. en_calls t = en_calls s @ new \<and> (\<forall>c\<in>set new. lc_kind c = CallApply \<longrightarrow>
     (\<exists>j. lc_durable c = Some j \<and> phase_of j (op_id (lc_operation c)) = Some PhApplyStarted))"
proof -
  have "ran E run_id plan (en_calls s) r t" by (rule either_ran [OF assms(1-4)])
  then show ?thesis
    by (auto simp: ran_def stopped_def write_ahead_def started_durably_def)
qed

theorem run_writes_ahead_witness:
  "\<exists>c j. c \<in> set (en_calls sample_final) \<and> lc_kind c = CallApply \<and> lc_operation c = sample_forward
    \<and> lc_durable c = Some j \<and> phase_of j (op_id sample_forward) = Some PhApplyStarted"
  using run_writes_ahead [of sample_engine "\<lambda>_. None" sample_run sample_plan sample_env "[sample_adapter]"
      "Inr OutSucceeded" sample_final] sample_execute sample_forward_applied by fastforce

text \<open>
  C6: Ordering: the adapter calls of an execution are all its exactly reversible work, then all its
  forward-only work; only exactly reversible operations are ever rolled back, and no call concerns
  an operation outside the plan.
\<close>

theorem run_orders_work:
  assumes "en_store s = Some store" "unused_run store run_id" "length (pl_operations plan) \<le> 2 ^ 60"
    and "execute E plan run_id adapters s = (r, t)
      \<or> execute_with_package_consent E plan run_id consent adapters s = (r, t)"
  shows "\<exists>exact forward. en_calls t = en_calls s @ exact @ forward
    \<and> (\<forall>c\<in>set exact. lc_operation c \<in> set (pl_operations plan) \<and> (lc_kind c = CallPrepare
         \<or> lc_kind c \<in> {CallApply, CallVerify, CallRollback}
            \<and> op_recovery_capability (lc_operation c) \<noteq> ConvergeForwardOnly))
    \<and> (\<forall>c\<in>set forward. lc_operation c \<in> set (pl_operations plan) \<and> lc_kind c \<in> {CallApply, CallVerify}
         \<and> op_recovery_capability (lc_operation c) = ConvergeForwardOnly)"
proof -
  have "ran E run_id plan (en_calls s) r t" by (rule either_ran [OF assms(1-4)])
  then consider "en_calls t = en_calls s" | "stopped E run_id plan (en_calls s) t" by (auto simp: ran_def)
  then show ?thesis
  proof cases
    case 2
    then obtain mid where m: "calls_after (en_calls s) (exact_calls plan) mid"
      "calls_after mid (forward_calls plan) (en_calls t)"
      unfolding stopped_def by blast
    then obtain a b where "en_calls t = en_calls s @ a @ b"
      "\<forall>c\<in>set a. exact_calls plan (lc_kind c) (lc_operation c)"
      "\<forall>c\<in>set b. forward_calls plan (lc_kind c) (lc_operation c)"
      unfolding calls_after_def by auto
    then show ?thesis
      by (intro exI [of _ a] exI [of _ b]) (auto simp: exact_calls_def forward_calls_def forward_op_def)
  qed simp
qed

theorem run_orders_work_witness:
  "\<exists>exact forward. en_calls sample_final = exact @ forward
    \<and> list_all (\<lambda>c. lc_kind c = CallPrepare \<or> op_recovery_capability (lc_operation c) = ExactRollback) exact
    \<and> list_all (\<lambda>c. op_recovery_capability (lc_operation c) = ConvergeForwardOnly) forward"
proof -
  from run_orders_work [of sample_engine "\<lambda>_. None" sample_run sample_plan sample_env "[sample_adapter]"
      "Inr OutSucceeded" sample_final] sample_execute
  obtain exact forward where "en_calls sample_final = exact @ forward"
    "\<forall>c\<in>set exact. lc_kind c = CallPrepare \<or> op_recovery_capability (lc_operation c) \<noteq> ConvergeForwardOnly"
    "\<forall>c\<in>set forward. op_recovery_capability (lc_operation c) = ConvergeForwardOnly"
    by auto
  moreover have "q \<noteq> ConvergeForwardOnly \<longleftrightarrow> q = ExactRollback" for q by (cases q) auto
  ultimately show ?thesis unfolding list_all_iff by auto
qed

text \<open>
  C3: Crash safety: an execution either fails before its first adapter call, or leaves a store from
  which a restart loads a verified journal of the run, whatever step of whatever write failed; when
  it returns an outcome, the loaded journal is its own and records that outcome.
\<close>

theorem run_survives_crash:
  assumes "en_store s = Some store" "unused_run store run_id" "length (pl_operations plan) \<le> 2 ^ 60"
    and "execute E plan run_id adapters s = (r, t)
      \<or> execute_with_package_consent E plan run_id consent adapters s = (r, t)"
  shows "(\<exists>e. r = Inl e) \<and> en_calls t = en_calls s
    \<or> (\<exists>store' j. en_store t = Some store' \<and> load_unlocked E store' run_id = Inr j
         \<and> rc_run_id j = run_id \<and> verify_chain E j = Inr ()
         \<and> (\<forall>outcome. r = Inr outcome \<longrightarrow> j = en_journal t \<and> rc_state j = outcome_state outcome))"
proof -
  have "ran E run_id plan (en_calls s) r t" by (rule either_ran [OF assms(1-4)])
  then consider "(\<exists>e. r = Inl e) \<and> en_calls t = en_calls s"
    | "tracked t" "stopped E run_id plan (en_calls s) t"
      "\<forall>outcome. r = Inr outcome \<longrightarrow> completed E run_id plan (en_calls s) outcome t"
    unfolding ran_def by blast
  then show ?thesis
  proof cases
    case 2
    have run: "rc_run_id (en_journal t) = run_id" using 2(2) by (simp add: stopped_def)
    have "\<exists>rs. held E t rs \<and> rs \<noteq> [] \<and> (\<forall>outcome. r = Inr outcome \<longrightarrow> last rs = en_journal t)"
      using 2 by (cases r) (auto simp: stopped_def completed_def in_step_def)
    then obtain rs store' where rs: "en_store t = Some store'" "store_holds E store' run_id rs" "rs \<noteq> []"
      "\<forall>outcome. r = Inr outcome \<longrightarrow> last rs = en_journal t"
      using run by (auto simp: held_def)
    note l = load_store_holds [OF rs(2,3)]
    have "\<forall>outcome. r = Inr outcome \<longrightarrow> last rs = en_journal t \<and> rc_state (last rs) = outcome_state outcome"
      using rs(4) 2(3) by (simp add: completed_def)
    then show ?thesis using rs(1) l history_receipt [OF rs(2) l] by blast
  qed blast
qed

theorem run_survives_crash_witness:
  "\<exists>store' j. en_store sample_final = Some store' \<and> load_unlocked sample_env store' sample_run = Inr j
     \<and> j = en_journal sample_final \<and> rc_state j = StSucceeded"
  using run_survives_crash [of sample_engine "\<lambda>_. None" sample_run sample_plan sample_env "[sample_adapter]"
      "Inr OutSucceeded" sample_final] sample_execute by auto

text \<open>
  C4: The forward barrier is one-way across restarts: once an execution has called \<open>apply\<close> for a
  forward-only operation, no later recovery of the run from the store it left, with any adapters, rolls anything back.
\<close>

theorem barrier_survives_restart:
  assumes "en_store s = Some store" "unused_run store run_id" "length (pl_operations plan) \<le> 2 ^ 60"
    and x: "execute E plan run_id adapters s = (r, t)
      \<or> execute_with_package_consent E plan run_id consent adapters s = (r, t)"
    and c: "en_calls t = en_calls s @ new" "c \<in> set new" "lc_kind c = CallApply"
      "op_recovery_capability (lc_operation c) = ConvergeForwardOnly"
    and u: "en_store u = en_store t" "recover_run E run_id plan adapters' u = (r', v)"
  shows "\<exists>later. en_calls v = en_calls u @ later \<and> (\<forall>d\<in>set later. lc_kind d \<noteq> CallRollback)"
proof -
  have "ran E run_id plan (en_calls s) r t" by (rule either_ran [OF assms(1-4)])
  then obtain mid rs where m: "calls_after (en_calls s) (exact_calls plan) mid"
    "held E t rs" "rs \<noteq> []" "en_calls t = mid \<or> rc_state (last rs) \<in> barrier_states"
    "rc_run_id (en_journal t) = run_id"
    using c(1,2) by (auto simp: ran_def stopped_def)
  have "en_calls t \<noteq> mid"
    using m(1) c by (auto simp: calls_after_def exact_calls_def forward_op_def)
  with m(4) have b: "rc_state (last rs) \<in> barrier_states" by blast
  obtain st where st: "en_store u = Some st" "store_holds E st run_id rs"
    using m(2,5) u(1) by (auto simp: held_def)
  have l: "load_unlocked E st run_id = Inr (last rs)" by (rule load_store_holds [OF st(2) m(3)])
  have safe: "calls_after (en_calls u) (recovery_calls plan (last rs)) (en_calls v)
      \<and> (rc_state (last rs) = StSucceeded \<longrightarrow> after_forward_barrier plan (last rs) \<or> en_calls v = en_calls u)
      \<or> en_calls v = en_calls u"
    using recover_run_result [OF st u(2)] l by (auto simp: recovered_def)
  show ?thesis
  proof (cases "after_forward_barrier plan (last rs)")
    case True
    then show ?thesis using safe recovery_calls_safe(2) unfolding calls_after_def by fastforce
  next
    case False
    then have "en_calls v = en_calls u" using safe barrier_states_cases [OF b] by blast
    then show ?thesis by simp
  qed
qed

theorem barrier_survives_restart_witness:
  "(\<exists>c. c \<in> set (en_calls sample_final) \<and> lc_kind c = CallApply
      \<and> op_recovery_capability (lc_operation c) = ConvergeForwardOnly)
   \<and> list_all (\<lambda>d. lc_kind d \<noteq> CallRollback) (en_calls (snd (recover_run sample_env sample_run sample_plan
         [sample_adapter] (sample_engine\<lparr>en_store := en_store sample_final\<rparr>))))"
proof -
  let ?u = "sample_engine\<lparr>en_store := en_store sample_final\<rparr>"
  obtain c where c: "c \<in> set (en_calls sample_final)" "lc_kind c = CallApply"
    "op_recovery_capability (lc_operation c) = ConvergeForwardOnly"
    using sample_forward_applied by (auto simp: sample_forward_def)
  obtain r v where v: "recover_run sample_env sample_run sample_plan [sample_adapter] ?u = (r, v)" by fastforce
  have x: "execute sample_env sample_plan sample_run [sample_adapter] sample_engine = (Inr OutSucceeded, sample_final)
      \<or> execute_with_package_consent sample_env sample_plan sample_run undefined [sample_adapter] sample_engine
          = (Inr OutSucceeded, sample_final)" using sample_execute by blast
  have "\<exists>later. en_calls v = en_calls ?u @ later \<and> (\<forall>d\<in>set later. lc_kind d \<noteq> CallRollback)"
    by (rule barrier_survives_restart [OF _ unused_empty sample_small x _ c _ v]) simp_all
  then show ?thesis using c v by (auto simp: list_all_iff)
qed

text \<open>
  C5: Progress: with a working digest service, no operating system failures and adapters that accept
  the operations, executing a valid plan without package operations ends in \<open>Succeeded\<close>: it prepares
  every operation, applies and then verifies the exactly reversible ones, applies and verifies each
  forward-only one in turn, and leaves a durable receipt with every operation verified.
\<close>

theorem execute_succeeds:
  assumes "digests_ok E" "validate_plan E plan = Inr ()" "\<not> list_ex is_package_operation (pl_operations plan)"
    and "\<forall>x\<in>set (pl_operations plan). willing adapters x" "length (pl_operations plan) \<le> 2 ^ 60"
    and "en_store s = Some store" "unused_run store run_id" "en_faults s = []"
  shows "\<exists>t store'. execute E plan run_id adapters s = (Inr OutSucceeded, t)
    \<and> map (\<lambda>c. (lc_kind c, lc_operation c)) (en_calls t) = map (\<lambda>c. (lc_kind c, lc_operation c)) (en_calls s)
        @ map (Pair CallPrepare) (pl_operations plan)
        @ map (Pair CallApply) (exact_operations plan) @ map (Pair CallVerify) (exact_operations plan)
        @ concat (map (\<lambda>x. [(CallApply, x), (CallVerify, x)]) (forward_operations plan))
    \<and> en_store t = Some store' \<and> load_unlocked E store' run_id = Inr (en_journal t)
    \<and> rc_state (en_journal t) = StSucceeded
    \<and> (\<forall>x\<in>set (pl_operations plan). phase_of (en_journal t) (op_id x) = Some PhVerified)"
proof -
  obtain t k where t: "execute E plan run_id adapters s = (Inr OutSucceeded, t)"
    "live E (pl_schema_version plan) k StSucceeded (all_at (pl_operations plan) PhVerified (\<lambda>_. None))
        (call_trace s @ success_trace plan) t" "rc_run_id (en_journal t) = run_id"
    using execute_live [OF assms] by blast
  obtain store' rs where l: "en_store t = Some store'" "store_holds E store' run_id rs" "rs \<noteq> []"
    "last rs = en_journal t" using t(2,3) by (auto simp: live_def kept_def in_step_def)
  have "load_unlocked E store' run_id = Inr (en_journal t)" using load_store_holds [OF l(2,3)] l(4) by simp
  with t l(1) show ?thesis
    by (auto simp: live_def call_trace_def success_trace_def forward_trace_def all_at_def)
qed

theorem execute_succeeds_witness:
  "\<exists>t. execute sample_env sample_plan sample_run [sample_adapter] sample_engine = (Inr OutSucceeded, t)
    \<and> map (\<lambda>c. (lc_kind c, lc_operation c)) (en_calls t) =
       [(CallPrepare, sample_exact), (CallPrepare, sample_forward), (CallApply, sample_exact),
        (CallVerify, sample_exact), (CallApply, sample_forward), (CallVerify, sample_forward)]"
  using execute_succeeds [OF sample_digests_ok sample_plan_valid sample_no_package sample_willing sample_small,
      of sample_engine "\<lambda>_. None" sample_run]
  by (auto simp: sample_operation_lists)

end
