(* ===== verification/Recovery_Properties.thy ===== *)
theory Recovery_Properties
  imports Engine_Rollback Engine_Properties
begin

text \<open>
  The properties of recovery and rollback, and the bound on the journal of a run, each with an
  instance on a concrete run.
\<close>

section \<open>A concrete plan without forward operations, and a failed rollback\<close>

definition exact_draft :: plan_draft where
  "exact_draft = sample_plan_draft\<lparr>pd_operations := [sample_exact]\<rparr>"

definition exact_plan :: plan where
  "exact_plan = built_plan exact_draft [sample_exact] (sample_digest (CHR ''0'') (CHR ''6''))"

lemma exact_build: "build_plan sample_env exact_draft = Inr exact_plan"
proof -
  have "order_operations {} [sample_exact] = Inr [sample_exact]"
    by (simp add: order_operations.simps next_operation_def sample_exact_def remove_index_def)
  moreover have "check_exact_dependencies [sample_exact] = Inr ()"
    by (simp add: check_exact_dependencies_def sample_exact_def exact_walk.simps)
  moreover have "digest_domain_json sample_env (plan_domain [sample_exact])
      (ser_plan_semantic exact_draft [sample_exact]) = Inr (sample_digest (CHR ''0'') (CHR ''6''))"
    by (simp add: sample_digest_json ser_plan_semantic_def sample_text_struct plan_domain_def)
  moreover have "identities_hold sample_env [sample_exact]"
    using sample_identities by (simp add: identities_hold_def)
  ultimately show ?thesis
    unfolding build_plan_Ok exact_plan_def exact_draft_def
    by simp (simp add: sample_exact_def)
qed

lemma exact_plan_sel [simp]: "pl_operations exact_plan = [sample_exact]"
  by (simp add: exact_plan_def built_plan_def)

lemma exact_plan_valid: "validate_plan sample_env exact_plan = Inr ()"
  using build_plan_rebuild [OF exact_build] by (simp add: validate_plan_def)

text \<open>A run that crashed after it recorded that the only rollback failed.\<close>

definition failure_code :: "stable_id option" where
  "failure_code = Some (StableId ''adapter_failure'')"

lemma failed_rollback_state:
  "\<exists>s :: unit engine. live sample_env (pl_schema_version exact_plan) (Suc (Suc (Suc (Suc (Suc (Suc (Suc (Suc 0)))))))) StRollingBack
     [op_id sample_exact \<mapsto> PhRollbackFailed] [] s"
proof -
  let ?sv = "pl_schema_version exact_plan" and ?x = sample_exact
  let ?steps = "and_do (step_record sample_env ?x PhPrepared None) (and_do (persist sample_env)
    (and_do (step_transition sample_env StApplying) (and_do (persist sample_env)
    (and_do (step_record sample_env ?x PhApplyStarted None) (and_do (persist sample_env)
    (and_do (step_record sample_env ?x PhApplyFailed failure_code) (and_do (persist sample_env)
    (and_do (step_transition sample_env StRecoveryRequired) (and_do (persist sample_env)
    (and_do (step_transition sample_env StRollingBack) (and_do (persist sample_env)
    (and_do (step_record sample_env ?x PhRollbackFailed failure_code) (and_do (persist sample_env)
      (ret ()))))))))))))))"
  obtain u :: "unit engine" where u: "live sample_env ?sv (Suc 0) StPrepared (\<lambda>_. None) [] u"
    using first_checkpoint_live [OF sample_digests_ok exact_plan_valid, of sample_engine "\<lambda>_. None" sample_run]
    by (auto simp: call_trace_def)
  have "triple (live sample_env ?sv (Suc 0) StPrepared (\<lambda>_. None) []) ?steps
     (\<lambda>_. live sample_env ?sv (Suc (Suc (Suc (Suc (Suc (Suc (Suc (Suc 0)))))))) StRollingBack [op_id ?x \<mapsto> PhRollbackFailed] []) (never :: unit engine \<Rightarrow> bool)"
    by (rule live_record [where ph = "\<lambda>_. None"] live_transition live_record [where ph = "[op_id ?x \<mapsto> PhPrepared]"]
        live_record [where ph = "[op_id ?x \<mapsto> PhApplyStarted]"] live_record [where ph = "[op_id ?x \<mapsto> PhApplyFailed]"]
        triple_ret | simp add: failure_code_def failure_phase_def follows_def receipt_state_supported_def operation_phase_supported_def)+
  from this [unfolded triple_def, rule_format, OF u] show ?thesis
    by (auto simp: never_def split: prod.splits sum.splits)
qed

section \<open>Entries of a run\<close>

lemma execute_entries:
  assumes "execute E plan run_id adapters s = (Inr outcome, t)"
  shows "entries t \<le> Suc (entry_bound plan)"
proof -
  obtain w j where j: "journal_for_plan E run_id plan = Inr j"
    and x: "execute_preflighted E plan adapters (s\<lparr>en_world := w, en_journal := j\<rparr>) = (Inr outcome, t)"
    using execute_split [OF assms] by blast
  show ?thesis
    using growsD(1) [OF grows_execute_preflighted x] new_journal_shape(2) [OF j [unfolded journal_for_plan_def]]
    by (simp add: entries_def)
qed

lemma verify_entries_sequence:
  "verify_entries E sv n previous previous_state ts = Inr r \<Longrightarrow> i < length ts \<Longrightarrow>
   tr_sequence (ts ! i) = of_nat (n + i)"
proof (induction ts arbitrary: n previous previous_state i)
  case (Cons t ts)
  then have v: "verify_entry E sv (of_nat n) previous previous_state t = Inr ()"
    "verify_entries E sv (Suc n) (Some (tr_entry_digest t)) (Some (tr_state t)) ts = Inr r"
    by (auto simp: result_simps)
  show ?case
  proof (cases i)
    case 0
    then show ?thesis using v(1) by (simp add: verify_entry_Ok)
  next
    case (Suc k)
    then show ?thesis using Cons.IH [OF v(2), of k] Cons.prems(2) by simp
  qed
qed simp

lemma verified_sequence:
  "verify_chain E j = Inr u \<Longrightarrow> i < length (rc_transitions j) \<Longrightarrow> tr_sequence (rc_transitions j ! i) = of_nat i"
  using verify_entries_sequence [of E "rc_schema_version j" 0 None None "rc_transitions j" _ i]
  by (auto simp: verify_chain_Ok)

section \<open>Properties\<close>

text \<open>
  C7: Recovery is safe: from a store that holds a history of the run, a recovery never applies an
  operation, rolls back only exactly reversible operations of the plan and none when the loaded
  receipt is past the forward barrier, and leaves a store that again holds a history of the run,
  whatever failed; when it returns an outcome, the last durable receipt is its journal and records
  that outcome.
\<close>

theorem recovery_is_safe:
  assumes "en_store s = Some store" "store_holds E store run_id rs"
    and "length rs + 3 * length (pl_operations plan) + 3 \<le> 2 ^ 64"
    and x: "recover_run E run_id plan adapters s = (r, t)"
  shows "(\<exists>new. en_calls t = en_calls s @ new \<and> (\<forall>c\<in>set new. lc_operation c \<in> set (pl_operations plan)
        \<and> lc_kind c \<noteq> CallApply
        \<and> (lc_kind c = CallRollback \<longrightarrow> op_recovery_capability (lc_operation c) \<noteq> ConvergeForwardOnly
             \<and> \<not> after_forward_barrier plan (last rs))))
    \<and> (\<exists>store' rs'. en_store t = Some store' \<and> store_holds E store' run_id rs'
        \<and> (\<forall>outcome. r = Inr outcome \<longrightarrow> rs' \<noteq> [] \<and> last rs' = en_journal t
             \<and> rc_state (en_journal t) = outcome_state outcome))"
proof -
  consider (none) "(\<exists>e. r = Inl e) \<and> en_calls t = en_calls s \<and> en_store t = en_store s"
    | (cont) j where "continued E run_id plan adapters store j s r t"
    using recover_run_split [OF assms(1) x] by blast
  then show ?thesis
  proof cases
    case none
    then show ?thesis using assms(1,2) by auto
  next
    case cont
    note c = continued_recovered [OF assms(1,2) cont]
    have "load_unlocked E store run_id = Inr j" using cont by (simp add: continued_def)
    then have j: "rs \<noteq> []" "last rs = j"
      using load_of_history [OF assms(2)] by (simp_all add: in_step_def)
    then have "tracked t"
      using c(3,4) assms(3) history_last_length [OF store_holds_good [OF assms(2)]]
      by (simp add: tracked_def entries_def recovery_bound_def)
    with c(1) obtain new rs' where n: "en_calls t = en_calls s @ new"
      "\<forall>c\<in>set new. recovery_calls plan j (lc_kind c) (lc_operation c)" "rc_run_id (en_journal t) = run_id"
      "held E t rs'" "rs' \<noteq> []" "\<forall>outcome. r = Inr outcome \<longrightarrow> last rs' = en_journal t
         \<and> rc_state (en_journal t) = outcome_state outcome"
      unfolding recovered_def calls_after_def by blast
    have "lc_operation c \<in> set (pl_operations plan) \<and> lc_kind c \<noteq> CallApply \<and> (lc_kind c = CallRollback \<longrightarrow>
        op_recovery_capability (lc_operation c) \<noteq> ConvergeForwardOnly \<and> \<not> after_forward_barrier plan (last rs))"
      if "c \<in> set new" for c
      using n(2) that recovery_calls_safe [of plan j "lc_kind c" "lc_operation c"] j(2) by (auto simp: forward_op_def)
    with n show ?thesis by (auto simp: held_def)
  qed
qed

theorem recovery_is_safe_witness:
  "\<exists>store' rs'. en_store (snd (recover_run sample_env sample_run sample_plan [sample_adapter]
      (sample_engine\<lparr>en_store := en_store sample_final\<rparr>))) = Some store'
    \<and> store_holds sample_env store' sample_run rs'"
proof -
  let ?s = "sample_engine\<lparr>en_store := en_store sample_final\<rparr>"
  obtain store rs where h: "en_store sample_final = Some store" "store_holds sample_env store sample_run rs"
    "rs \<noteq> []" "last rs = en_journal sample_final" using sample_final_store by blast
  have "length rs = entries sample_final"
    using history_last_length [OF store_holds_good [OF h(2)] h(3)] h(4) by (simp add: entries_def)
  also have "\<dots> \<le> 30"
    using execute_entries [OF sample_execute] by (simp add: entry_bound_def)
  finally have b: "length rs + 3 * length (pl_operations sample_plan) + 3 \<le> 2 ^ 64" by simp
  obtain r t where "recover_run sample_env sample_run sample_plan [sample_adapter] ?s = (r, t)" by fastforce
  from recovery_is_safe [OF _ h(2) b this] h(1) this show ?thesis by auto
qed

text \<open>
  Undoing a succeeded run calls \<open>rollback\<close> for the operations of the plan in reverse order, a
  prefix of them when it is cut short and all of them when it returns, only for a plan without
  forward-only operations; every operation then stands as rolled back or as failed, and the outcome
  is \<open>RolledBack\<close> exactly when none failed.
\<close>

lemma rollback_reverses_run:
  assumes "rollback_succeeded_run E run_id plan adapters s = (r, t)"
  shows "(\<exists>k. map (\<lambda>c. (lc_kind c, lc_operation c)) (en_calls t)
        = map (\<lambda>c. (lc_kind c, lc_operation c)) (en_calls s)
          @ map (Pair CallRollback) (take k (rev (pl_operations plan))))
    \<and> (\<forall>outcome. r = Inr outcome \<longrightarrow>
         map (\<lambda>c. (lc_kind c, lc_operation c)) (en_calls t)
           = map (\<lambda>c. (lc_kind c, lc_operation c)) (en_calls s)
             @ map (Pair CallRollback) (rev (pl_operations plan))
         \<and> \<not> forward_capable (pl_operations plan)
         \<and> (\<forall>x\<in>set (pl_operations plan).
              phase_of (en_journal t) (op_id x) \<in> {Some PhRolledBack, Some PhRollbackFailed})
         \<and> (outcome = OutRolledBack \<longleftrightarrow>
              (\<forall>x\<in>set (pl_operations plan). phase_of (en_journal t) (op_id x) \<noteq> Some PhRollbackFailed)))"
proof (cases "(\<exists>e. r = Inl e) \<and> en_calls t = en_calls s")
  case True
  then show ?thesis by (auto intro: exI [of _ 0])
next
  case False
  then obtain w j where v: "validate_plan E plan = Inr ()" "\<not> forward_capable (pl_operations plan)"
    and m: "and_do (step_transition E StRollingBack) (and_do (persist E)
           (rollback_from_rolling_back E adapters (pl_operations plan))) (s\<lparr>en_world := w, en_journal := j\<rparr>) = (r, t)"
    using rollback_succeeded_split [OF assms] by blast
  have s: "call_trace (s\<lparr>en_world := w, en_journal := j\<rparr>) = call_trace s" by (simp add: call_trace_def)
  note d = rolling_back_traced [OF validated_plan(1) [OF v(1)] m, unfolded s]
  from d(1) d(2) v(2) show ?thesis
    unfolding cut_short_def call_trace_def by (auto split: if_splits)
qed

text \<open>
  C19: A restart can forget that a rollback failed: when a run was interrupted while rolling back and
  every operation is already rolled back or failed to roll back, resuming it ends in the state
  \<open>RolledBack\<close> although the journal records the failure.
\<close>

theorem resume_forgets_rollback_failure:
  assumes s: "live E sv n StRollingBack ph cs s" and n: "n < 2 ^ 64"
    and x: "ph i = Some PhRollbackFailed"
    and ops: "\<forall>x\<in>set (pl_operations plan). ph (op_id x) \<in> {None, Some PhRolledBack, Some PhRollbackFailed}"
  shows "\<exists>t. resume_rollback E plan adapters s = (Inr OutRolledBack, t)
    \<and> rc_state (en_journal t) = StRolledBack \<and> phase_of (en_journal t) i = Some PhRollbackFailed"
proof -
  have p: "map_option pr_phase (progress_of (en_journal s) i) = ph i" for i
    using s by (auto simp: live_def phase_of_def fun_eq_iff)
  have "rollback_candidates plan (en_journal s) = []"
    unfolding rollback_candidates_def filter_empty_conv
  proof
    fix x assume "x \<in> set (pl_operations plan)"
    then show "\<not> (case progress_of (en_journal s) (op_id x) of None \<Rightarrow> False
       | Some progress \<Rightarrow> pr_phase progress \<in> {PhApplyStarted, PhApplied, PhApplyFailed, PhVerified, PhVerifyFailed})"
      using ops p [of "op_id x"] by (cases "progress_of (en_journal s) (op_id x)") auto
  qed
  from resume_nothing_left [OF s n this] x show ?thesis by (auto simp: live_def)
qed

theorem resume_forgets_rollback_failure_witness:
  "\<exists>(s :: unit engine) t. phase_of (en_journal s) (op_id sample_exact) = Some PhRollbackFailed
    \<and> resume_rollback sample_env exact_plan [sample_adapter] s = (Inr OutRolledBack, t)
    \<and> rc_state (en_journal t) = StRolledBack"
proof -
  obtain s :: "unit engine" where s: "live sample_env (pl_schema_version exact_plan) (Suc (Suc (Suc (Suc (Suc (Suc (Suc (Suc 0)))))))) StRollingBack
     [op_id sample_exact \<mapsto> PhRollbackFailed] [] s" using failed_rollback_state by blast
  then have "phase_of (en_journal s) (op_id sample_exact) = Some PhRollbackFailed" by (simp add: live_def)
  moreover obtain t where "resume_rollback sample_env exact_plan [sample_adapter] s = (Inr OutRolledBack, t)"
    "rc_state (en_journal t) = StRolledBack"
    using resume_forgets_rollback_failure [OF s, of "op_id sample_exact" exact_plan "[sample_adapter]"] by auto
  ultimately show ?thesis by blast
qed

text \<open>
  C18: The journal of an execution stays short: at most eight entries per operation and fourteen
  more, so for any plan of at most \<open>2\<^sup>6\<^sup>0\<close> operations the 64-bit sequence number of every entry is its
  position.
\<close>

theorem execution_entries_bounded:
  assumes "execute E plan run_id adapters s = (Inr outcome, t)"
    and "en_store s = Some store" "unused_run store run_id" "length (pl_operations plan) \<le> 2 ^ 60"
  shows "length (rc_transitions (en_journal t)) \<le> 8 * length (pl_operations plan) + 14
    \<and> (\<forall>i<length (rc_transitions (en_journal t)). unat (tr_sequence (rc_transitions (en_journal t) ! i)) = i)"
proof -
  have b: "entries t \<le> 8 * length (pl_operations plan) + 14"
    using execute_entries [OF assms(1)] by (simp add: entry_bound_def)
  have "ran E run_id plan (en_calls s) (Inr outcome) t"
    using execute_ran [OF assms(2,3) _ assms(1)] assms(4) by (simp add: small_plan_def)
  then have "verify_chain E (en_journal t) = Inr ()" by (auto simp: ran_def completed_def)
  note q = verified_sequence [OF this]
  have "unat (of_nat i :: u64) = i" if "i < entries t" for i
    using that b assms(4) by (intro unat_of_nat_u64) simp
  then show ?thesis using b q by (simp add: entries_def)
qed

theorem execution_entries_bounded_witness:
  "length (rc_transitions (en_journal sample_final)) \<le> 30
    \<and> unat (tr_sequence (rc_transitions (en_journal sample_final) ! 0)) = 0"
proof -
  have "0 < length (rc_transitions (en_journal sample_final))"
    using sample_final_live by (auto simp: live_def verify_chain_Ok)
  then show ?thesis using execution_entries_bounded [OF sample_execute, of "\<lambda>_. None"] by simp
qed

end
