(* ===== verification/Journal_Properties.thy ===== *)
theory Journal_Properties
  imports Engine_Properties
begin

text \<open>
  The properties of the receipt journal and of its store, each with an instance on the journal of
  the sample plan.
\<close>

section \<open>A concrete journal\<close>

definition sample_journal :: run_receipt where
  "sample_journal = (case journal_for_plan sample_env sample_run sample_plan of
     Inr j \<Rightarrow> j | Inl _ \<Rightarrow> sample_receipt)"

lemma sample_journal_new: "journal_for_plan sample_env sample_run sample_plan = Inr sample_journal"
  using first_checkpoint_live [OF sample_digests_ok sample_plan_valid, of sample_engine "\<lambda>_. None" sample_run]
  by (auto simp: sample_journal_def)

lemma sample_journal_facts:
  "rc_run_id sample_journal = sample_run" "length (rc_transitions sample_journal) = 1"
  "rc_state sample_journal = StPrepared" "verify_chain sample_env sample_journal = Inr ()"
  using new_journal_shape [OF sample_journal_new [unfolded journal_for_plan_def]] by simp_all

lemma new_journal_fields:
  assumes "new_versioned E run_id plan_id target desired observed policy bindings sv cv a = Inr j"
  shows "rc_schema_version j = sv" "rc_operation_progress j = []" "rc_package_authorization j = a"
  using assms by (auto simp: new_versioned_def result_simps)

lemma sample_journal_schema: "rc_schema_version sample_journal = SchemaVersion FORWARD_SCHEMA_VERSION"
  "rc_operation_progress sample_journal = []" "rc_package_authorization sample_journal = None"
proof -
  have "pl_schema_version sample_plan = SchemaVersion FORWARD_SCHEMA_VERSION"
    by (simp add: sample_plan_def built_plan_def forward_capable_def sample_exact_def sample_forward_def)
  then show "rc_schema_version sample_journal = SchemaVersion FORWARD_SCHEMA_VERSION"
    "rc_operation_progress sample_journal = []" "rc_package_authorization sample_journal = None"
    using new_journal_fields [OF sample_journal_new [unfolded journal_for_plan_def]] by simp_all
qed

lemma sample_images: "digests_distinct_on sample_env (receipt_images sample_journal)"
proof -
  obtain t where t: "rc_transitions sample_journal = [t]"
    using sample_journal_facts(2) by (cases "rc_transitions sample_journal") auto
  let ?d = "\<lambda>(t, v). digest_domain_json sample_env t v"
  have "?d (progress_image (rc_schema_version sample_journal) [] None) \<noteq> ?d (transition_image (rc_schema_version sample_journal) t)"
    by (simp add: sample_journal_schema progress_image_def transition_image_def transition_domain_def version_defs
        sample_digest_json)
  then show ?thesis
    by (simp add: digests_distinct_on_def receipt_images_def entry_images_def t sample_journal_schema inj_on_def)
       metis
qed

section \<open>Properties of the journal\<close>

text \<open>
  C14: Every journal operation keeps the chain valid: from a journal that verifies, a transition, a
  progress record or a package result that succeeds yields a journal of the same run that verifies
  and whose entries are the old ones followed by one more; a failing operation adds no entry.
\<close>

theorem journal_operations_keep_chain:
  assumes "verify_chain E j = Inr ()"
    and "f \<in> {journal_transition E st, record_operation E i phase code, record_package_exit E i exit_class final_digest}"
    and "f j = (r, j')"
  shows "rc_run_id j' = rc_run_id j
    \<and> (case r of Inr _ \<Rightarrow> verify_chain E j' = Inr () \<and> (\<exists>t. rc_transitions j' = rc_transitions j @ [t])
         | Inl _ \<Rightarrow> rc_transitions j' = rc_transitions j)"
proof -
  have "journal_operation E f"
    using assms(2) transition_op.journal_operation_axioms record_op.journal_operation_axioms
      exit_op.journal_operation_axioms by blast
  then show ?thesis
    using journal_operation.keeps [of E f j _ j'] journal_operation.appends_one [of E f j _ j']
      journal_operation.error_appends_none [of E f j _ j'] assms(1,3)
    by (cases r) (auto simp: extends_by_def same_entries_def)
qed

theorem journal_operations_keep_chain_witness:
  "\<exists>j'. journal_transition sample_env StApplying sample_journal = (Inr (), j')
     \<and> verify_chain sample_env j' = Inr () \<and> length (rc_transitions j') = 2"
proof -
  obtain t where t: "journal_transition sample_env StApplying sample_journal = (Inr (), push_entry t sample_journal)"
    using journal_transition_total [OF sample_digests_ok, of sample_journal StApplying] sample_journal_facts(3)
    by (auto simp: receipt_state_supported_def)
  have "verify_chain sample_env (push_entry t sample_journal) = Inr ()
      \<and> (\<exists>u. rc_transitions (push_entry t sample_journal) = rc_transitions sample_journal @ [u])"
    using journal_operations_keep_chain [OF sample_journal_facts(4), of "journal_transition sample_env StApplying"
        StApplying _ _ _ _ _ "Inr ()" "push_entry t sample_journal"] t by simp
  then show ?thesis using t sample_journal_facts(2) by (auto simp: numeral_2_eq_2)
qed

text \<open>
  A transition succeeds exactly when the schema of the receipt supports the next state and the
  transition is legal; otherwise it returns \<open>IllegalTransition\<close> and leaves the journal as it was.
\<close>

lemma journal_transition_total_iff:
  assumes "digests_ok E"
  shows "((\<exists>j'. journal_transition E st j = (Inr (), j')) \<longleftrightarrow>
      receipt_state_supported (rc_schema_version j) st \<and> legal_transition (rc_state j) st)
    \<and> ((\<nexists>j'. journal_transition E st j = (Inr (), j')) \<longrightarrow>
        journal_transition E st j = (Inl (IllegalTransition (rc_state j) st), j))"
  using journal_transition_total [OF assms, of j st] by (auto simp: journal_transition_def)

text \<open>Longer histories of the sample run, each made by the journal operations.\<close>

fun legal_path :: "receipt_state \<Rightarrow> receipt_state list \<Rightarrow> bool" where
  "legal_path s [] = True"
| "legal_path s (t # ts) = (legal_transition s t \<and> legal_path t ts)"

definition follow :: "receipt_state list \<Rightarrow> receipt_journal \<Rightarrow> receipt_journal" where
  "follow path j = fold (\<lambda>st j. snd (journal_transition sample_env st j)) path j"

lemma follow_path:
  assumes "verify_chain sample_env j = Inr ()" "rc_schema_version j = SchemaVersion FORWARD_SCHEMA_VERSION"
    "rc_operation_progress j = []" "legal_path (rc_state j) path"
  shows "verify_chain sample_env (follow path j) = Inr () \<and> chain_states (follow path j) = chain_states j @ path
    \<and> rc_schema_version (follow path j) = SchemaVersion FORWARD_SCHEMA_VERSION
    \<and> rc_operation_progress (follow path j) = [] \<and> rc_state (follow path j) = last (rc_state j # path)"
  using assms
proof (induction path arbitrary: j)
  case (Cons st path)
  obtain t where t: "journal_transition sample_env st j = (Inr (), push_entry t j)" "tr_state t = st"
    using journal_transition_total [OF sample_digests_ok, of j st] Cons.prems(2,4)
    by (auto simp: receipt_state_supported_def)
  have "verify_chain sample_env (push_entry t j) = Inr ()"
    using transition_op.keeps [OF Cons.prems(1) t(1)] .
  from Cons.IH [OF this] Cons.prems t show ?case
    by (simp add: follow_def push_entry_def chain_states_def)
qed (simp add: follow_def chain_states_def)

definition sample_converged :: receipt_journal where
  "sample_converged = follow [StApplying, StForwardRecoveryRequired, StConvergingForward, StForwardRecoveryFailed,
     StConvergingForward, StForwardRecovered] sample_journal"

definition sample_rolled_back :: receipt_journal where
  "sample_rolled_back = snd (record_operation sample_env (op_id sample_exact) PhPrepared None
     (follow [StApplying, StRecoveryRequired, StRollingBack, StRolledBack] sample_journal))"

lemmas follow_sample = follow_path [OF sample_journal_facts(4) sample_journal_schema(1,2), unfolded sample_journal_facts(3)]

lemma sample_journal_states: "chain_states sample_journal = [StPrepared]"
  using verified_first_last [OF sample_journal_facts(4)] sample_journal_facts(2)
  by (cases "rc_transitions sample_journal") (auto simp: chain_states_def)

lemma sample_converged_facts:
  "verify_chain sample_env sample_converged = Inr ()"
  "map tr_state (rc_transitions sample_converged) = [StPrepared, StApplying, StForwardRecoveryRequired,
     StConvergingForward, StForwardRecoveryFailed, StConvergingForward, StForwardRecovered]"
  using follow_sample [of "[StApplying, StForwardRecoveryRequired, StConvergingForward, StForwardRecoveryFailed,
     StConvergingForward, StForwardRecovered]"]
  by (simp_all add: sample_converged_def sample_journal_states chain_states_def [symmetric])

lemma sample_rolled_back_facts:
  "verify_chain sample_env sample_rolled_back = Inr ()"
  "map tr_state (rc_transitions sample_rolled_back) = [StPrepared, StApplying, StRecoveryRequired, StRollingBack,
     StRolledBack, StRolledBack]"
proof -
  let ?j = "follow [StApplying, StRecoveryRequired, StRollingBack, StRolledBack] sample_journal"
  have j: "verify_chain sample_env ?j = Inr ()" "chain_states ?j = [StPrepared, StApplying, StRecoveryRequired,
      StRollingBack, StRolledBack]" "rc_operation_progress ?j = []" "rc_state ?j = StRolledBack"
    using follow_sample [of "[StApplying, StRecoveryRequired, StRollingBack, StRolledBack]"]
    by (simp_all add: sample_journal_states)
  let ?k = "?j\<lparr>rc_operation_progress := [\<lparr>pr_operation_id = op_id sample_exact, pr_phase = PhPrepared, pr_failure_code = None\<rparr>]\<rparr>"
  obtain t where t: "append_progress_transition sample_env ?k = (Inr (), push_entry t ?k)" "tr_state t = StRolledBack"
    using append_progress_total [OF sample_digests_ok, of ?k] j(4) by auto
  have r: "record_operation sample_env (op_id sample_exact) PhPrepared None ?j = (Inr (), push_entry t ?k)"
    using t(1) j(3) by (simp add: record_operation_def operation_phase_supported_def failure_phase_def progress_of_def)
  show "verify_chain sample_env sample_rolled_back = Inr ()"
    using record_op.keeps [OF j(1) r] r by (simp add: sample_rolled_back_def)
  show "map tr_state (rc_transitions sample_rolled_back) = [StPrepared, StApplying, StRecoveryRequired, StRollingBack,
     StRolledBack, StRolledBack]"
    using r t(2) j(2) by (simp add: sample_rolled_back_def push_entry_def chain_states_def)
qed

text \<open>
  C17: The history that a verified journal records starts in \<open>Prepared\<close> and ends in its state; once
  it entered forward recovery it never left it, so it never rolled back afterwards, and once it was
  canceled, rolled back or failed to roll back it stayed in that state. A succeeded run is not among
  these: the code lets it be rolled back.
\<close>

theorem journal_history_one_way:
  assumes "verify_chain E j = Inr ()" "i \<le> k" "k < length (rc_transitions j)"
  shows "tr_state (hd (rc_transitions j)) = StPrepared \<and> tr_state (last (rc_transitions j)) = rc_state j
    \<and> (tr_state (rc_transitions j ! i) \<in> {StForwardRecoveryRequired, StConvergingForward, StForwardRecovered,
          StForwardRecoveryFailed} \<longrightarrow>
        tr_state (rc_transitions j ! k) \<in> {StForwardRecoveryRequired, StConvergingForward, StForwardRecovered,
          StForwardRecoveryFailed})
    \<and> (tr_state (rc_transitions j ! i) \<in> {StRolledBack, StRollbackFailed, StCanceled} \<longrightarrow>
        tr_state (rc_transitions j ! k) = tr_state (rc_transitions j ! i))"
proof (intro conjI impI)
  have l: "length (chain_states j) = length (rc_transitions j)" by (simp add: chain_states_def)
  have s: "chain_states j ! m = tr_state (rc_transitions j ! m)" if "m \<le> k" for m
    using that assms(3) by (simp add: chain_states_def)
  have ne: "rc_transitions j \<noteq> []" using assms(3) by auto
  show "tr_state (hd (rc_transitions j)) = StPrepared" "tr_state (last (rc_transitions j)) = rc_state j"
    using verified_first_last [OF assms(1)] ne by (simp_all add: chain_states_def hd_map last_map)
  show "tr_state (rc_transitions j ! k) \<in> {StForwardRecoveryRequired, StConvergingForward, StForwardRecovered,
      StForwardRecoveryFailed}" if "tr_state (rc_transitions j ! i) \<in> {StForwardRecoveryRequired, StConvergingForward,
      StForwardRecovered, StForwardRecoveryFailed}"
    using forward_history.history [OF assms(1,2)] that assms(2,3) l s by (simp add: forward_committed_def)
  show "tr_state (rc_transitions j ! k) = tr_state (rc_transitions j ! i)"
    if "tr_state (rc_transitions j ! i) \<in> {StRolledBack, StRollbackFailed, StCanceled}"
    using finished_history.history [OF assms(1,2), of "tr_state (rc_transitions j ! i)"] that assms(2,3) l s
    by (simp add: finished_def)
qed

theorem journal_history_one_way_witness:
  "length (rc_transitions sample_converged) = 7
    \<and> tr_state (rc_transitions sample_converged ! 2) = StForwardRecoveryRequired
    \<and> tr_state (rc_transitions sample_converged ! 6) \<in> {StForwardRecoveryRequired, StConvergingForward,
        StForwardRecovered, StForwardRecoveryFailed}
    \<and> length (rc_transitions sample_rolled_back) = 6
    \<and> tr_state (rc_transitions sample_rolled_back ! 4) = StRolledBack
    \<and> tr_state (rc_transitions sample_rolled_back ! 5) = tr_state (rc_transitions sample_rolled_back ! 4)"
proof -
  have len: "length (rc_transitions sample_converged) = 7" "length (rc_transitions sample_rolled_back) = 6"
    using arg_cong [OF sample_converged_facts(2), of length] arg_cong [OF sample_rolled_back_facts(2), of length]
    by simp_all
  have entered: "tr_state (rc_transitions sample_converged ! 2) = StForwardRecoveryRequired"
      "tr_state (rc_transitions sample_rolled_back ! 4) = StRolledBack"
    using arg_cong [OF sample_converged_facts(2), of "\<lambda>xs. xs ! 2"] arg_cong [OF sample_rolled_back_facts(2), of "\<lambda>xs. xs ! 4"]
    by (simp_all add: len)
  show ?thesis
    using journal_history_one_way [OF sample_converged_facts(1), of 2 6]
      journal_history_one_way [OF sample_rolled_back_facts(1), of 4 5] len entered by simp
qed

text \<open>
  Tamper evidence: two receipts that verify and have the same identity, on whose digested values
  the digest does not collide, record the same history, progress, package authorization and
  contract version.
\<close>

lemma receipt_identity_binds:
  assumes "verify_chain E r = Inr ()" "verify_chain E r' = Inr ()" "rc_receipt_id r = rc_receipt_id r'"
    and "digests_distinct_on E (receipt_images r \<union> receipt_images r')"
  shows "rc_transitions r = rc_transitions r' \<and> rc_state r = rc_state r'
    \<and> rc_operation_progress r = rc_operation_progress r'
    \<and> rc_package_authorization r = rc_package_authorization r'
    \<and> rc_schema_version r = rc_schema_version r' \<and> rc_contract_version r = rc_contract_version r'"
  by (rule verify_chain_binds [OF assms])

section \<open>Properties of the store\<close>

text \<open>
  C13: The store implements an append-only log of receipts: when the store holds a history of a run,
  persisting a verified journal that is the last receipt or one entry ahead leaves a history that
  is the same or extended by the journal, whichever operating system step fails; it holds the
  journal when the call succeeds, and the directories of other runs do not change.
\<close>

theorem persist_refines_log:
  assumes "store_holds E store (rc_run_id j) rs" "verify_chain E j = Inr ()"
    and "rs \<noteq> [] \<and> last rs = j \<or> length (rc_transitions j) = Suc (length rs)
      \<and> (rs \<noteq> [] \<longrightarrow> rc_transitions (last rs) = take (length rs) (rc_transitions j))"
    and "length (rc_transitions j) \<le> 2 ^ 64" and "persist_unlocked E fault j store = (r, store')"
  shows "(\<exists>rs'. store_holds E store' (rc_run_id j) rs' \<and> rs' \<in> {rs, rs @ [j]}
       \<and> (r = Inr () \<longrightarrow> rs' \<noteq> [] \<and> last rs' = j \<and> load_unlocked E store' (rc_run_id j) = Inr j))
    \<and> (\<forall>run. run \<noteq> sid_str (rc_run_id j) \<longrightarrow> store' run = store run)"
proof -
  have "in_step rs j \<or> extends_history rs j" using assms(3) by (auto simp: in_step_def extends_history_def)
  from persist_history [OF assms(1,2) this assms(4,5)] obtain rs' where rs':
    "store_holds E store' (rc_run_id j) rs'" "rs' \<in> {rs, rs @ [j]}" "r = Inr () \<longrightarrow> in_step rs' j" by blast
  then have "r = Inr () \<longrightarrow> load_unlocked E store' (rc_run_id j) = Inr j"
    using load_store_holds [OF rs'(1)] by (auto simp: in_step_def)
  with rs' persist_other_runs [OF assms(5)] show ?thesis unfolding in_step_def by blast
qed

theorem persist_refines_log_witness:
  "\<exists>rs. store_holds sample_env (snd (persist_unlocked sample_env (Some IoRename) sample_journal (\<lambda>_. None))) sample_run rs"
proof -
  obtain r store' where p: "persist_unlocked sample_env (Some IoRename) sample_journal (\<lambda>_. None) = (r, store')" by fastforce
  have "store_holds sample_env (\<lambda>_. None) (rc_run_id sample_journal) []" by (simp add: store_holds_def)
  from persist_refines_log [OF this sample_journal_facts(4) _ _ p] show ?thesis
    using p sample_journal_facts(1,2) by auto
qed

text \<open>
  A snapshot name round-trips: for every sequence number that fits 64 bits, scanning a snapshot
  file reads back the number that was padded into its name, and the temporary file of a write is
  never taken for a snapshot.
\<close>

lemma snapshot_name_roundtrip:
  assumes "n < 2 ^ 64"
  shows "scan_entry (snapshot_name n d, c) = Inr (Some (of_nat n, c)) \<and> unat (of_nat n :: u64) = n
    \<and> scan_entry (temporary_name n d, c) = Inr None"
  using scan_snapshot [OF assms] scan_temporary unat_of_nat_u64 [OF assms] by blast

text \<open>
  A leftover temporary file blocks a run for good: once a write of an entry was interrupted between
  creating its temporary file and renaming it, every further attempt to persist the same entry
  fails, whether or not the operating system fails again, and changes nothing.
\<close>

lemma leftover_temporary_blocks:
  assumes "store_holds E store (rc_run_id j) rs" "verify_chain E j = Inr ()"
    and "length (rc_transitions j) = Suc (length rs)"
      "rs \<noteq> [] \<longrightarrow> rc_transitions (last rs) = take (length rs) (rc_transitions j)" "length rs < 2 ^ 64"
    and "temporary_name (length rs) (tr_entry_digest (last (rc_transitions j)))
      \<in> fst ` set (directory_of store (sid_str (rc_run_id j)))"
  shows "\<exists>e. persist_unlocked E fault j store = (Inl e, store)"
proof -
  have e: "extends_history rs j" using assms(3,4) by (simp add: extends_history_def)
  have ns: "\<not> in_step rs j"
    using assms(3) history_last_length [OF store_holds_good [OF assms(1)]] by (auto simp: in_step_def)
  obtain r store' where p: "persist_unlocked E fault j store = (r, store')" by fastforce
  from p persist_blocked [OF assms(1,2) e ns assms(5,6) p] show ?thesis by blast
qed

end
