(* ===== verification/Contracts_Layers.thy ===== *)
theory Contracts_Layers
  imports Contracts_Serial
begin

text \<open>
  Layers, security policies, provenance traces and locks of
  \<open>crates/commonkit-contracts/src/lib.rs\<close>, with the serialization of a layer document.
\<close>

section \<open>Layers\<close>

datatype layer_kind = PublicBase | OrganizationPolicy | PersonalKit | ProjectLoadout | TargetOverrides

record source_metadata =
  sm_path :: portable_source_path
  sm_revision :: "git_revision option"
  sm_content_digest :: sha256_digest

record layer_document =
  ly_schema_version :: schema_version
  ly_id :: stable_id
  ly_kind :: layer_kind
  ly_source :: source_metadata
  ly_spec :: json

definition V1_LAYER_SPEC_FIELDS :: "string list" where
  "V1_LAYER_SPEC_FIELDS = [''capabilities'', ''contextBudget'', ''files'', ''packages'', ''securityPolicy'']"

text \<open>A 64-bit signed bound of a policy is an \<open>int\<close>: it is only compared.\<close>

record security_policy =
  po_denied_paths :: "string btree_set"
  po_required_controls :: "(stable_id, bool) btree_map"
  po_allowlists :: "(stable_id, string btree_set) btree_map"
  po_minimums :: "(stable_id, int) btree_map"
  po_maximums :: "(stable_id, int) btree_map"

fun layer_kind_name :: "layer_kind \<Rightarrow> string" where
  "layer_kind_name PublicBase = ''public_base''"
| "layer_kind_name OrganizationPolicy = ''organization_policy''"
| "layer_kind_name PersonalKit = ''personal_kit''"
| "layer_kind_name ProjectLoadout = ''project_loadout''"
| "layer_kind_name TargetOverrides = ''target_overrides''"

definition ser_source_metadata :: "source_metadata \<Rightarrow> json" where
  "ser_source_metadata s = json_struct
     ([(''path'', JString (path_str (sm_path s)))]
      @ opt_field ''revision'' (\<lambda>r. JString (revision_str r)) (sm_revision s)
      @ [(''contentDigest'', ser_digest (sm_content_digest s))])"

definition ser_layer :: "layer_document \<Rightarrow> json" where
  "ser_layer l = json_struct
     [(''schemaVersion'', json_u32 (schema_number (ly_schema_version l))),
      (''id'', ser_stable_id (ly_id l)),
      (''kind'', JString (layer_kind_name (ly_kind l))),
      (''source'', ser_source_metadata (ly_source l)),
      (''spec'', ly_spec l)]"

section \<open>Provenance\<close>

datatype merge_operation =
  MergeSet | MergeReplace | MergeRecursive | MergeUnion | MergeItems | MergeDelete

record contribution =
  ct_layer_id :: stable_id
  ct_layer_kind :: layer_kind
  ct_source :: source_metadata
  ct_operation :: merge_operation
  ct_value_digest :: "sha256_digest option"

record trace_entry =
  te_winner :: contribution
  te_contributions :: "contribution list"
  te_governing_rules :: "string list"

record provenance_trace =
  pt_schema_version :: schema_version
  pt_state_digest :: sha256_digest
  pt_entries :: "(string, trace_entry) btree_map"

record locked_layer =
  lk_id :: stable_id
  lk_kind :: layer_kind
  lk_path :: portable_source_path
  lk_schema_version :: schema_version
  lk_revision :: "git_revision option"
  lk_content_digest :: sha256_digest

record common_kit_lock =
  cl_schema_version :: schema_version
  cl_contract_version :: string
  cl_repository_revision :: "string option"
  cl_layers :: "locked_layer list"
  cl_normalized_digest :: sha256_digest

lemma layer_kind_name_inject [simp]: "layer_kind_name a = layer_kind_name b \<longleftrightarrow> a = b"
  by (cases a; cases b) simp_all

end
