(* ===== verification/Contracts_Secrets.thy ===== *)
theory Contracts_Secrets
  imports Contracts_Ids
begin

text \<open>
  The scan for embedded secrets of \<open>crates/commonkit-contracts/src/lib.rs\<close>. The three regular
  expressions are passed to the services of the environment as their source text. The reference
  definition is a search for the first offending position in document order.
\<close>

section \<open>Keys and references\<close>

definition secret_markers :: "string list" where
  "secret_markers = [''apikey'', ''token'', ''secret'', ''password'', ''passwd'', ''authorization'',
     ''credential'', ''privatekey'']"

definition is_secret_key :: "string \<Rightarrow> bool" where
  "is_secret_key key =
     (let normalized = to_ascii_lowercase (filter is_ascii_alphanumeric key) in
      list_ex (\<lambda>marker. normalized = marker \<or> ends_with normalized marker) secret_markers)"

definition is_reference :: "string \<Rightarrow> bool" where
  "is_reference value =
     (let value = to_ascii_lowercase (trim value) in
      starts_with value ''$''
      \<or> list_ex (\<lambda>prefix. starts_with value prefix)
          [''env:'', ''secret:'', ''bws:'', ''keychain:'', ''vault:''])"

definition is_empty_or_false :: "json \<Rightarrow> bool" where
  "is_empty_or_false value \<longleftrightarrow> value = JNull \<or> value = JBool False \<or> as_str value = Some []"

fun value_can_contain_secret :: "json \<Rightarrow> bool" where
  "value_can_contain_secret (JString _) = True"
| "value_can_contain_secret (JArray _) = True"
| "value_can_contain_secret (JObject _) = True"
| "value_can_contain_secret _ = False"

section \<open>Strings\<close>

definition quote_chars :: string where
  "quote_chars = [CHR 0x22, CHR 0x27]"

definition auth_pattern :: string where
  "auth_pattern = ''(?i)'' @ [CHR 0x5C] @ ''b(?:bearer|basic)'' @ [CHR 0x5C] @ ''s+[A-Za-z0-9+/_.=-]{8,}''"

definition url_userinfo_pattern :: string where
  "url_userinfo_pattern = ''(?i)'' @ [CHR 0x5C] @ ''b[a-z][a-z0-9+.-]*://[^'' @ [CHR 0x5C] @ ''s/@:]+:[^''
     @ [CHR 0x5C] @ ''s/@]+@''"

definition assignment_pattern :: string where
  "assignment_pattern = ''(?i)['' @ quote_chars @ '']?(?P<key>[A-Za-z_][A-Za-z0-9_.-]*)['' @ quote_chars
     @ '']?'' @ [CHR 0x5C] @ ''s*='' @ [CHR 0x5C] @ ''s*['' @ quote_chars @ '']?(?P<value>[^''
     @ [CHR 0x5C] @ ''s,'' @ quote_chars @ ''}#]+)''"

definition assert_safe_string :: "env \<Rightarrow> string \<Rightarrow> string \<Rightarrow> contract_error + unit" where
  "assert_safe_string E value location =
     (if env_is_match E auth_pattern value \<or> env_is_match E url_userinfo_pattern value
      then Err (EmbeddedSecret location)
      else for_each (\<lambda>(key, assigned).
          if is_secret_key key \<and> \<not> is_reference assigned then Err (EmbeddedSecret location) else Ok ())
        (env_captures E assignment_pattern value))"

section \<open>Values\<close>

definition secret_entry :: "string \<Rightarrow> json \<Rightarrow> bool" where
  "secret_entry key value \<longleftrightarrow> is_secret_key key \<and> value_can_contain_secret value
     \<and> \<not> is_empty_or_false value
     \<and> \<not> (case as_str value of None \<Rightarrow> False | Some s \<Rightarrow> is_reference s)"

fun visit :: "env \<Rightarrow> json \<Rightarrow> string \<Rightarrow> contract_error + unit"
  and visit_items :: "env \<Rightarrow> json list \<Rightarrow> nat \<Rightarrow> string \<Rightarrow> contract_error + unit"
  and visit_entries :: "env \<Rightarrow> (string \<times> json) list \<Rightarrow> string \<Rightarrow> contract_error + unit" where
  "visit E (JString value) location = assert_safe_string E value location"
| "visit E (JArray values) location = visit_items E values 0 location"
| "visit E (JObject values) location = visit_entries E values location"
| "visit E JNull location = Ok ()"
| "visit E (JBool _) location = Ok ()"
| "visit E (JNumber _) location = Ok ()"
| "visit_items E [] index location = Ok ()"
| "visit_items E (value # values) index location =
     and_then (visit E value (location @ ''/'' @ decimal index)) (\<lambda>_.
       visit_items E values (Suc index) location)"
| "visit_entries E [] location = Ok ()"
| "visit_entries E ((key, value) # values) location =
     (let child_location = child_pointer location key in
      if secret_entry key value then Err (EmbeddedSecret child_location)
      else and_then (visit E value child_location) (\<lambda>_. visit_entries E values location))"

definition assert_no_embedded_secrets :: "env \<Rightarrow> json \<Rightarrow> contract_error + unit" where
  "assert_no_embedded_secrets E value = visit E value []"

section \<open>Reference definition\<close>

text \<open>A position of a document: its pointer, the key it stands under, if any, and its value.\<close>

type_synonym position = "string \<times> string option \<times> json"

fun positions :: "string \<Rightarrow> string option \<Rightarrow> json \<Rightarrow> position list"
  and item_positions :: "string \<Rightarrow> nat \<Rightarrow> json list \<Rightarrow> position list"
  and entry_positions :: "string \<Rightarrow> (string \<times> json) list \<Rightarrow> position list" where
  "positions location key (JArray values) = (location, key, JArray values) # item_positions location 0 values"
| "positions location key (JObject values) = (location, key, JObject values) # entry_positions location values"
| "positions location key (JString s) = [(location, key, JString s)]"
| "positions location key (JNumber n) = [(location, key, JNumber n)]"
| "positions location key (JBool b) = [(location, key, JBool b)]"
| "positions location key JNull = [(location, key, JNull)]"
| "item_positions location index [] = []"
| "item_positions location index (value # values) =
     positions (location @ ''/'' @ decimal index) None value @ item_positions location (Suc index) values"
| "entry_positions location [] = []"
| "entry_positions location ((key, value) # values) =
     positions (child_pointer location key) (Some key) value @ entry_positions location values"

definition unsafe_string :: "env \<Rightarrow> string \<Rightarrow> bool" where
  "unsafe_string E s \<longleftrightarrow> env_is_match E auth_pattern s \<or> env_is_match E url_userinfo_pattern s
     \<or> (\<exists>(key, assigned)\<in>set (env_captures E assignment_pattern s). is_secret_key key \<and> \<not> is_reference assigned)"

definition offends :: "env \<Rightarrow> position \<Rightarrow> bool" where
  "offends E p = (case p of (location, key, value) \<Rightarrow>
     (case key of None \<Rightarrow> False | Some k \<Rightarrow> secret_entry k value)
     \<or> (case value of JString s \<Rightarrow> unsafe_string E s | _ \<Rightarrow> False))"

definition first_offence :: "env \<Rightarrow> position list \<Rightarrow> contract_error + unit" where
  "first_offence E ps = (case find (offends E) ps of
     None \<Rightarrow> Ok () | Some (location, _) \<Rightarrow> Err (EmbeddedSecret location))"

lemma assert_safe_string_unsafe:
  "assert_safe_string E s location = (if unsafe_string E s then Err (EmbeddedSecret location) else Ok ())"
proof -
  have "for_each (\<lambda>(key, assigned).
          if is_secret_key key \<and> \<not> is_reference assigned then Err (EmbeddedSecret location) else Ok ()) cs
      = (if \<exists>(key, assigned)\<in>set cs. is_secret_key key \<and> \<not> is_reference assigned
         then Err (EmbeddedSecret location) else Ok ())" for cs
    by (induction cs) (auto simp del: for_each_Ok_iff simp: for_each.simps split: if_splits)
  then show ?thesis by (auto simp: assert_safe_string_def unsafe_string_def)
qed

lemma first_offence_append:
  "first_offence E (ps @ qs) = and_then (first_offence E ps) (\<lambda>_. first_offence E qs)"
  unfolding first_offence_def
  by (induction ps) (auto split: option.split prod.split)

lemma first_offence_Cons:
  "first_offence E ((location, key, value) # ps) =
     (if offends E (location, key, value) then Err (EmbeddedSecret location) else first_offence E ps)"
  by (simp add: first_offence_def)

text \<open>The position of an entry is checked for its key before its value is visited.\<close>

lemma visit_positions:
  "first_offence E (positions location key v) =
     (if (case key of None \<Rightarrow> False | Some k \<Rightarrow> secret_entry k v) then Err (EmbeddedSecret location)
      else visit E v location)"
  "first_offence E (item_positions location index items) = visit_items E items index location"
  "first_offence E (entry_positions location entries) = visit_entries E entries location"
  by (induction location key v and location index items and location entries
      rule: positions_item_positions_entry_positions.induct)
     (auto simp: first_offence_Cons first_offence_append offends_def assert_safe_string_unsafe Let_def
       first_offence_def [of E "[]"])

lemma assert_no_embedded_secrets_first:
  "assert_no_embedded_secrets E v = first_offence E (positions [] None v)"
  by (simp add: assert_no_embedded_secrets_def visit_positions)

end
