(* ===== verification/Contracts_Skills.thy ===== *)
theory Contracts_Skills
  imports Contracts_Plan Contracts_Secrets
begin

text \<open>
  Skills, styleguides, evaluation suites and optimization candidates of
  \<open>crates/commonkit-contracts/src/lib.rs\<close>: the records, their serialization where a digest covers
  it, and every validation.
\<close>

section \<open>Skills and styleguides\<close>

datatype skill_lifecycle = LifecycleActive | LifecycleLibrary | LifecycleExperimental | LifecycleRetired

datatype content_sensitivity = SensPortable | SensLocalSensitive

record skill_descriptor =
  sd_id :: stable_id
  sd_source_path :: portable_source_path
  sd_source_digest :: sha256_digest
  sd_package :: "stable_id option"
  sd_targets :: "stable_id btree_set"
  sd_lifecycle :: skill_lifecycle

datatype styleguide_activation = ActivationRouted

record styleguide_selection =
  ss_skill_id :: stable_id
  ss_activation :: styleguide_activation

record styleguide_package_provenance =
  sp_id :: stable_id
  sp_version :: string
  sp_manifest_digest :: sha256_digest
  sp_lock_digest :: sha256_digest

record styleguide_descriptor =
  sg_schema_version :: schema_version
  sg_id :: stable_id
  sg_exported_skill :: stable_id
  sg_modes :: "stable_id btree_set"
  sg_prose_scopes :: "stable_id btree_set"
  sg_exclusions :: "stable_id btree_set"
  sg_evaluation_suite :: stable_id
  sg_evaluation_suite_digest :: sha256_digest
  sg_upstream_url :: string
  sg_upstream_revision :: git_revision
  sg_retention_map_digest :: sha256_digest
  sg_package :: styleguide_package_provenance

record styleguide_binding =
  sb_selection :: styleguide_selection
  sb_descriptor_digest :: sha256_digest
  sb_package_manifest_digest :: sha256_digest
  sb_package_lock_digest :: sha256_digest
  sb_evaluation_suite_digest :: sha256_digest
  sb_retention_map_digest :: sha256_digest

fun lifecycle_name :: "skill_lifecycle \<Rightarrow> string" where
  "lifecycle_name LifecycleActive = ''active''"
| "lifecycle_name LifecycleLibrary = ''library''"
| "lifecycle_name LifecycleExperimental = ''experimental''"
| "lifecycle_name LifecycleRetired = ''retired''"

definition ser_stable_ids :: "stable_id btree_set \<Rightarrow> json" where
  "ser_stable_ids ids = JArray (map ser_stable_id ids)"

definition ser_path :: "portable_source_path \<Rightarrow> json" where "ser_path p = JString (path_str p)"
definition ser_revision :: "git_revision \<Rightarrow> json" where "ser_revision r = JString (revision_str r)"

definition ser_skill_descriptor :: "skill_descriptor \<Rightarrow> json" where
  "ser_skill_descriptor d = json_struct
     ([(''id'', ser_stable_id (sd_id d)),
       (''sourcePath'', ser_path (sd_source_path d)),
       (''sourceDigest'', ser_digest (sd_source_digest d))]
      @ opt_field ''package'' ser_stable_id (sd_package d)
      @ [(''targets'', ser_stable_ids (sd_targets d)),
         (''lifecycle'', JString (lifecycle_name (sd_lifecycle d)))])"

definition ser_styleguide_selection :: "styleguide_selection \<Rightarrow> json" where
  "ser_styleguide_selection s = json_struct
     [(''skillId'', ser_stable_id (ss_skill_id s)), (''activation'', JString ''routed'')]"

definition ser_styleguide_package :: "styleguide_package_provenance \<Rightarrow> json" where
  "ser_styleguide_package p = json_struct
     [(''id'', ser_stable_id (sp_id p)),
      (''version'', JString (sp_version p)),
      (''manifestDigest'', ser_digest (sp_manifest_digest p)),
      (''lockDigest'', ser_digest (sp_lock_digest p))]"

definition ser_styleguide_descriptor :: "styleguide_descriptor \<Rightarrow> json" where
  "ser_styleguide_descriptor d = json_struct
     [(''schemaVersion'', json_u32 (schema_number (sg_schema_version d))),
      (''id'', ser_stable_id (sg_id d)),
      (''exportedSkill'', ser_stable_id (sg_exported_skill d)),
      (''modes'', ser_stable_ids (sg_modes d)),
      (''proseScopes'', ser_stable_ids (sg_prose_scopes d)),
      (''exclusions'', ser_stable_ids (sg_exclusions d)),
      (''evaluationSuite'', ser_stable_id (sg_evaluation_suite d)),
      (''evaluationSuiteDigest'', ser_digest (sg_evaluation_suite_digest d)),
      (''upstreamUrl'', JString (sg_upstream_url d)),
      (''upstreamRevision'', ser_revision (sg_upstream_revision d)),
      (''retentionMapDigest'', ser_digest (sg_retention_map_digest d)),
      (''package'', ser_styleguide_package (sg_package d))]"

definition ser_styleguide_binding :: "styleguide_binding \<Rightarrow> json" where
  "ser_styleguide_binding b = json_struct
     [(''selection'', ser_styleguide_selection (sb_selection b)),
      (''descriptorDigest'', ser_digest (sb_descriptor_digest b)),
      (''packageManifestDigest'', ser_digest (sb_package_manifest_digest b)),
      (''packageLockDigest'', ser_digest (sb_package_lock_digest b)),
      (''evaluationSuiteDigest'', ser_digest (sb_evaluation_suite_digest b)),
      (''retentionMapDigest'', ser_digest (sb_retention_map_digest b))]"

definition styleguide_binding_digest :: "env \<Rightarrow> styleguide_binding \<Rightarrow> contract_error + sha256_digest" where
  "styleguide_binding_digest E b =
     digest_domain_json E ''commonkit.styleguide-binding.v1'' (ser_styleguide_binding b)"

definition styleguide_descriptor_validate :: "styleguide_descriptor \<Rightarrow> contract_error + unit" where
  "styleguide_descriptor_validate d =
     (if sg_modes d = [] \<or> sg_prose_scopes d = [] \<or> sg_exclusions d = []
         \<or> sp_version (sg_package d) = [] \<or> contains_white (sp_version (sg_package d))
         \<or> \<not> (starts_with (sg_upstream_url d) ''https://'' \<or> starts_with (sg_upstream_url d) ''http://'')
      then Err InvalidStyleguideDescriptor else Ok ())"

definition styleguide_descriptor_digest :: "env \<Rightarrow> styleguide_descriptor \<Rightarrow> contract_error + sha256_digest" where
  "styleguide_descriptor_digest E d =
     and_then (styleguide_descriptor_validate d) (\<lambda>_.
       digest_domain_json E ''commonkit.styleguide-descriptor.v1'' (ser_styleguide_descriptor d))"

section \<open>Evaluation suites\<close>

record evaluation_case_manifest =
  cm_content_digest :: sha256_digest
  cm_case_ids :: "stable_id btree_set"

record harness_lock =
  hl_kind :: stable_id
  hl_version :: string
  hl_environment_digest :: sha256_digest

record evaluation_metric =
  em_id :: stable_id
  em_minimum_improvement_basis_points :: u32
  em_maximum_held_out_regression_basis_points :: u32
  em_required_case_ids :: "stable_id btree_set"

record skill_evaluation_suite =
  es_schema_version :: schema_version
  es_id :: stable_id
  es_skill_id :: stable_id
  es_train :: evaluation_case_manifest
  es_validation :: evaluation_case_manifest
  es_held_out :: evaluation_case_manifest
  es_rubric_digest :: sha256_digest
  es_harness :: harness_lock
  es_metric :: evaluation_metric

definition ser_case_manifest :: "evaluation_case_manifest \<Rightarrow> json" where
  "ser_case_manifest m = json_struct
     [(''contentDigest'', ser_digest (cm_content_digest m)),
      (''caseIds'', ser_stable_ids (cm_case_ids m))]"

definition ser_harness :: "harness_lock \<Rightarrow> json" where
  "ser_harness h = json_struct
     [(''kind'', ser_stable_id (hl_kind h)), (''version'', JString (hl_version h)),
      (''environmentDigest'', ser_digest (hl_environment_digest h))]"

definition ser_metric :: "evaluation_metric \<Rightarrow> json" where
  "ser_metric m = json_struct
     [(''id'', ser_stable_id (em_id m)),
      (''minimumImprovementBasisPoints'', json_u32 (em_minimum_improvement_basis_points m)),
      (''maximumHeldOutRegressionBasisPoints'', json_u32 (em_maximum_held_out_regression_basis_points m)),
      (''requiredCaseIds'', ser_stable_ids (em_required_case_ids m))]"

definition ser_suite :: "skill_evaluation_suite \<Rightarrow> json" where
  "ser_suite s = json_struct
     [(''schemaVersion'', json_u32 (schema_number (es_schema_version s))),
      (''id'', ser_stable_id (es_id s)),
      (''skillId'', ser_stable_id (es_skill_id s)),
      (''train'', ser_case_manifest (es_train s)),
      (''validation'', ser_case_manifest (es_validation s)),
      (''heldOut'', ser_case_manifest (es_held_out s)),
      (''rubricDigest'', ser_digest (es_rubric_digest s)),
      (''harness'', ser_harness (es_harness s)),
      (''metric'', ser_metric (es_metric s))]"

text \<open>The inner loop over the cases of one manifest, with the set of the cases seen so far.\<close>

fun insert_cases ::
  "stable_id list \<Rightarrow> stable_id btree_set \<Rightarrow> contract_error + stable_id btree_set" where
  "insert_cases [] seen = Ok seen"
| "insert_cases (case_id # rest) seen =
     (if case_id \<in> set seen then Err (EvaluationCaseOverlap (sid_str case_id))
      else insert_cases rest (set_insert case_id seen))"

definition validate_lock_text :: "string \<Rightarrow> string \<Rightarrow> contract_error + unit" where
  "validate_lock_text value field =
     (if trim value = [] \<or> length value > 200
         \<or> list_ex (\<lambda>c. c \<in> {CHR 0x00, CHR 0x0A, CHR 0x0D}) value
      then Err (InvalidLockText field) else Ok ())"

definition suite_validate :: "skill_evaluation_suite \<Rightarrow> contract_error + unit" where
  "suite_validate s =
     and_then (insert_cases (cm_case_ids (es_train s)) []) (\<lambda>seen.
     and_then (insert_cases (cm_case_ids (es_validation s)) seen) (\<lambda>seen.
     and_then (insert_cases (cm_case_ids (es_held_out s)) seen) (\<lambda>_.
       if cm_case_ids (es_train s) = [] \<or> cm_case_ids (es_validation s) = []
          \<or> cm_case_ids (es_held_out s) = []
       then Err EmptyEvaluationSplit
       else if \<not> is_subset (em_required_case_ids (es_metric s)) (cm_case_ids (es_held_out s))
       then Err RequiredCaseOutsideHeldOut
       else validate_lock_text (hl_version (es_harness s)) ''harness version'')))"

definition suite_digest :: "env \<Rightarrow> skill_evaluation_suite \<Rightarrow> contract_error + sha256_digest" where
  "suite_digest E s =
     and_then (suite_validate s) (\<lambda>_.
       digest_domain_json E ''commonkit.skill-evaluation-suite.v1'' (ser_suite s))"

section \<open>Optimization manifests\<close>

datatype provider_source = SourcePypi | SourceContainer

record provider_lock =
  pv_id :: stable_id
  pv_version :: string
  pv_adapter_contract :: stable_id
  pv_source :: provider_source
  pv_package_digest :: sha256_digest
  pv_capabilities :: "stable_id btree_set"
  pv_source_revision :: "git_revision option"

record model_lock =
  ml_provider :: stable_id
  ml_model :: string

record optimization_limits =
  ol_maximum_cases :: u32
  ol_maximum_edits :: u32
  ol_timeout_seconds :: u32
  ol_maximum_cost_micros :: u64

record skill_optimization_manifest =
  om_schema_version :: schema_version
  om_id :: stable_id
  om_skill :: skill_descriptor
  om_suite_digest :: sha256_digest
  om_evidence_digests :: "sha256_digest list"
  om_provider :: provider_lock
  om_optimizer :: model_lock
  om_target :: model_lock
  om_limits :: optimization_limits
  om_policy_digest :: sha256_digest
  om_repository_revision :: git_revision

fun provider_source_name :: "provider_source \<Rightarrow> string" where
  "provider_source_name SourcePypi = ''pypi''"
| "provider_source_name SourceContainer = ''container''"

definition ser_provider :: "provider_lock \<Rightarrow> json" where
  "ser_provider p = json_struct
     ([(''id'', ser_stable_id (pv_id p)),
       (''version'', JString (pv_version p)),
       (''adapterContract'', ser_stable_id (pv_adapter_contract p)),
       (''source'', JString (provider_source_name (pv_source p))),
       (''packageDigest'', ser_digest (pv_package_digest p)),
       (''capabilities'', ser_stable_ids (pv_capabilities p))]
      @ opt_field ''sourceRevision'' ser_revision (pv_source_revision p))"

definition ser_model :: "model_lock \<Rightarrow> json" where
  "ser_model m = json_struct
     [(''provider'', ser_stable_id (ml_provider m)), (''model'', JString (ml_model m))]"

definition ser_limits :: "optimization_limits \<Rightarrow> json" where
  "ser_limits l = json_struct
     [(''maximumCases'', json_u32 (ol_maximum_cases l)),
      (''maximumEdits'', json_u32 (ol_maximum_edits l)),
      (''timeoutSeconds'', json_u32 (ol_timeout_seconds l)),
      (''maximumCostMicros'', json_u64 (ol_maximum_cost_micros l))]"

definition ser_manifest :: "skill_optimization_manifest \<Rightarrow> json" where
  "ser_manifest m = json_struct
     [(''schemaVersion'', json_u32 (schema_number (om_schema_version m))),
      (''id'', ser_stable_id (om_id m)),
      (''skill'', ser_skill_descriptor (om_skill m)),
      (''suiteDigest'', ser_digest (om_suite_digest m)),
      (''evidenceDigests'', JArray (map ser_digest (om_evidence_digests m))),
      (''provider'', ser_provider (om_provider m)),
      (''optimizer'', ser_model (om_optimizer m)),
      (''target'', ser_model (om_target m)),
      (''limits'', ser_limits (om_limits m)),
      (''policyDigest'', ser_digest (om_policy_digest m)),
      (''repositoryRevision'', ser_revision (om_repository_revision m))]"

definition unsupported_provider :: "provider_lock \<Rightarrow> bool" where
  "unsupported_provider p \<longleftrightarrow>
     sid_str (pv_id p) = ''skillopt''
     \<and> (pv_version p \<noteq> ''0.2.0''
        \<or> sid_str (pv_adapter_contract p) \<noteq> ''skillopt-sleep-v1''
        \<or> pv_source p \<noteq> SourcePypi
        \<or> \<not> list_all (\<lambda>capability. list_ex (\<lambda>present. sid_str present = capability) (pv_capabilities p))
             [''reviewed-tasks'', ''staged-skill'', ''json-report''])"

definition manifest_validate :: "env \<Rightarrow> skill_optimization_manifest \<Rightarrow> contract_error + unit" where
  "manifest_validate E m =
     (if sd_targets (om_skill m) = [] then Err MissingSkillTarget
      else and_then (validate_lock_text (pv_version (om_provider m)) ''provider version'') (\<lambda>_.
        if unsupported_provider (om_provider m) then Err UnsupportedProviderVersion
        else and_then (validate_lock_text (ml_model (om_optimizer m)) ''optimizer model'') (\<lambda>_.
          and_then (validate_lock_text (ml_model (om_target m)) ''target model'') (\<lambda>_.
            if ol_maximum_cases (om_limits m) = 0 \<or> ol_maximum_edits (om_limits m) = 0
               \<or> ol_timeout_seconds (om_limits m) = 0 \<or> ol_maximum_cost_micros (om_limits m) = 0
            then Err InvalidOptimizationLimits
            else assert_no_embedded_secrets E (ser_manifest m)))))"

definition manifest_digest :: "env \<Rightarrow> skill_optimization_manifest \<Rightarrow> contract_error + sha256_digest" where
  "manifest_digest E m =
     and_then (manifest_validate E m) (\<lambda>_.
       digest_domain_json E ''commonkit.skill-optimization-manifest.v1'' (ser_manifest m))"

section \<open>Candidates\<close>

datatype evaluation_outcome = EvaluationPassed | EvaluationFailed

record evaluation_receipt =
  er_schema_version :: schema_version
  er_baseline_basis_points :: u32
  er_candidate_basis_points :: u32
  er_held_out_baseline_basis_points :: u32
  er_held_out_candidate_basis_points :: u32
  er_required_cases :: "(stable_id, evaluation_outcome) btree_map"
  er_cost_micros :: u64
  er_harness :: harness_lock
  er_scorer_digest :: sha256_digest

datatype candidate_state =
  CandidateStaged | CandidateRejected | CandidateApprovable | CandidateApproved | CandidatePromoted
  | CandidateSuperseded

record skill_candidate =
  sc_schema_version :: schema_version
  sc_id :: stable_id
  sc_manifest_digest :: sha256_digest
  sc_parent_skill_digest :: sha256_digest
  sc_provider :: provider_lock
  sc_optimizer :: model_lock
  sc_target :: model_lock
  sc_configuration_digest :: sha256_digest
  sc_input_digests :: "sha256_digest list"
  sc_candidate_digest :: sha256_digest
  sc_candidate_bytes :: u64
  sc_candidate_sensitivity :: content_sensitivity
  sc_patch_digest :: sha256_digest
  sc_evaluation :: evaluation_receipt
  sc_optimization_history_digest :: sha256_digest
  sc_policy_passed :: bool
  sc_state :: candidate_state

definition expected_inputs :: "skill_optimization_manifest \<Rightarrow> sha256_digest list" where
  "expected_inputs m =
     [sd_source_digest (om_skill m), om_suite_digest m, om_policy_digest m] @ om_evidence_digests m"

text \<open>The checks of \<open>validate_against\<close> on the evaluation, after the provenance checks.\<close>

definition evaluation_checks ::
  "skill_candidate \<Rightarrow> skill_optimization_manifest \<Rightarrow> skill_evaluation_suite \<Rightarrow> contract_error + unit" where
  "evaluation_checks c m s =
     (let e = sc_evaluation c; metric = es_metric s;
          improvement = saturating_sub (er_candidate_basis_points e) (er_baseline_basis_points e);
          regression = saturating_sub (er_held_out_baseline_basis_points e)
            (er_held_out_candidate_basis_points e)
      in if sc_candidate_bytes c = 0 \<or> \<not> sc_policy_passed c then Err CandidatePolicyFailed
      else if improvement < em_minimum_improvement_basis_points metric
      then Err CandidateInsufficientImprovement
      else if regression > em_maximum_held_out_regression_basis_points metric
      then Err CandidateHeldOutRegression
      else if list_ex (\<lambda>case_id. bt_get (er_required_cases e) case_id \<noteq> Some EvaluationPassed)
          (em_required_case_ids metric)
      then Err CandidateRequiredCaseFailed
      else if er_cost_micros e > ol_maximum_cost_micros (om_limits m) then Err CandidateCostExceeded
      else Ok ())"

definition candidate_validate_against ::
  "env \<Rightarrow> skill_candidate \<Rightarrow> skill_optimization_manifest \<Rightarrow> skill_evaluation_suite
   \<Rightarrow> contract_error + unit" where
  "candidate_validate_against E c m s =
     and_then (manifest_validate E m) (\<lambda>_.
     and_then (suite_validate s) (\<lambda>_.
     and_then (manifest_digest E m) (\<lambda>digest.
       if sc_manifest_digest c \<noteq> digest then Err CandidateManifestMismatch
       else if sc_parent_skill_digest c \<noteq> sd_source_digest (om_skill m) then Err CandidateParentMismatch
       else if sc_provider c \<noteq> om_provider m \<or> sc_optimizer c \<noteq> om_optimizer m
               \<or> sc_target c \<noteq> om_target m then Err CandidateProviderMismatch
       else and_then (digest_domain_json E ''commonkit.skillopt-configuration.v1'' (ser_limits (om_limits m)))
         (\<lambda>configuration.
           if sc_configuration_digest c \<noteq> configuration then Err CandidateProviderMismatch
           else if sc_input_digests c \<noteq> expected_inputs m then Err CandidateInputMismatch
           else if er_harness (sc_evaluation c) \<noteq> es_harness s then Err CandidateHarnessMismatch
           else evaluation_checks c m s))))"

section \<open>Evidence\<close>

datatype evidence_source_kind =
  EvManualFailure | EvClaudeSession | EvCodexSession | EvEvaluationCase

datatype evidence_consent = ConsentLocalOnly | ConsentApprovedForProvider | ConsentApprovedPortable

record evidence_retention =
  rt_delete_after_unix_ms :: u64

record evidence_envelope =
  ee_schema_version :: schema_version
  ee_id :: stable_id
  ee_skill_id :: stable_id
  ee_source_kind :: evidence_source_kind
  ee_content_digest :: sha256_digest
  ee_content_bytes :: u64
  ee_sensitivity :: content_sensitivity
  ee_redaction_report_digest :: sha256_digest
  ee_consent :: evidence_consent
  ee_retention :: evidence_retention
  ee_created_at_unix_ms :: u64

section \<open>Facts\<close>

lemma insert_cases_Ok:
  "insert_cases ids seen = Inr r \<longleftrightarrow> distinct ids \<and> set ids \<inter> set seen = {} \<and> r = fold set_insert ids seen"
  by (induction ids arbitrary: seen) (auto simp: set_set_insert)

lemma set_fold_insert: "set (fold set_insert ids seen) = set ids \<union> set seen"
  by (induction ids arbitrary: seen) (auto simp: set_set_insert)

lemma suite_validate_Ok:
  "suite_validate s = Inr () \<longleftrightarrow>
     (let a = cm_case_ids (es_train s); b = cm_case_ids (es_validation s); c = cm_case_ids (es_held_out s) in
      distinct (a @ b @ c) \<and> a \<noteq> [] \<and> b \<noteq> [] \<and> c \<noteq> []
      \<and> set (em_required_case_ids (es_metric s)) \<subseteq> set c
      \<and> validate_lock_text (hl_version (es_harness s)) ''harness version'' = Inr ())"
  by (auto simp: suite_validate_def result_simps insert_cases_Ok set_fold_insert Let_def is_subset_iff)

lemma unat_saturating: "unat (saturating_sub a b) = unat a - unat b"
  by (rule unat_saturating_sub)

lemma evaluation_checks_Ok:
  "evaluation_checks c m s = Inr () \<longleftrightarrow>
     (let e = sc_evaluation c; metric = es_metric s in
      sc_candidate_bytes c \<noteq> 0 \<and> sc_policy_passed c
      \<and> unat (em_minimum_improvement_basis_points metric)
          \<le> unat (er_candidate_basis_points e) - unat (er_baseline_basis_points e)
      \<and> unat (er_held_out_baseline_basis_points e)
          \<le> unat (er_held_out_candidate_basis_points e) + unat (em_maximum_held_out_regression_basis_points metric)
      \<and> (\<forall>i\<in>set (em_required_case_ids metric). bt_get (er_required_cases e) i = Some EvaluationPassed)
      \<and> unat (er_cost_micros e) \<le> unat (ol_maximum_cost_micros (om_limits m)))"
  unfolding evaluation_checks_def Let_def
  by (auto simp: word_less_nat_alt word_le_nat_alt unat_saturating_sub list_ex_iff not_less le_diff_conv)

end
