(* ===== verification/Config_Merge.thy ===== *)
theory Config_Merge
  imports Contracts_Ids
begin

text \<open>
  The merge of layer specifications of \<open>crates/commonkit-config/src/lib.rs\<close>: \<open>MergeRules\<close>,
  \<open>merge_specs\<close> and the recursion under it. The three loops of the source, over the entries of an
  overlay object, over the values of a set union and over the items of a merge by ID, are
  functions of their own; \<open>merge_value\<close>, \<open>merge_entries\<close> and \<open>merge_items\<close> recurse on the overlay.
\<close>

section \<open>Rules\<close>

datatype merge_strategy = Replace | RecursiveMap | SetUnion | MergeById (id_key: string)

record merge_rules =
  strategies :: "(string, merge_strategy) btree_map"
  deletable :: "string btree_set"

datatype merge_error =
    DeleteNotAllowed string
  | StrategyTypeMismatch string string
  | MissingItemId string string
  | DuplicateItemId string string
  | MergeCanonicalization

definition merge_rules_new :: merge_rules where
  "merge_rules_new = \<lparr>strategies = [], deletable = []\<rparr>"

definition with_strategy :: "string \<Rightarrow> merge_strategy \<Rightarrow> merge_rules \<Rightarrow> merge_rules" where
  "with_strategy pointer s rules = rules\<lparr>strategies := bt_insert pointer s (strategies rules)\<rparr>"

definition allow_delete :: "string \<Rightarrow> merge_rules \<Rightarrow> merge_rules" where
  "allow_delete pointer rules = rules\<lparr>deletable := set_insert pointer (deletable rules)\<rparr>"

definition strategy :: "merge_rules \<Rightarrow> string \<Rightarrow> json \<Rightarrow> json \<Rightarrow> merge_strategy" where
  "strategy rules pointer base overlay =
     (case bt_get (strategies rules) pointer of
        Some s \<Rightarrow> s
      | None \<Rightarrow> if is_object base \<and> is_object overlay then RecursiveMap else Replace)"

fun strategy_text :: "merge_strategy \<Rightarrow> string" where
  "strategy_text Replace = ''replace''"
| "strategy_text RecursiveMap = ''recursive_map''"
| "strategy_text SetUnion = ''set_union''"
| "strategy_text (MergeById key) = ''merge_by_id('' @ key @ '')''"

definition governing_rules :: "merge_rules \<Rightarrow> string \<Rightarrow> string list" where
  "governing_rules rules pointer =
     (case bt_get (strategies rules) pointer of
        Some s \<Rightarrow> [''schema:'' @ pointer @ '':'' @ strategy_text s] | None \<Rightarrow> [])
     @ (if pointer = ''/securityPolicy'' \<or> starts_with pointer ''/securityPolicy/''
        then [''organization-security-floor:non-overridable''] else [])"

definition v1_merge_rules :: merge_rules where
  "v1_merge_rules =
     with_strategy ''/packages'' (MergeById ''id'')
       (with_strategy ''/capabilities/styleguide'' Replace
         (with_strategy ''/securityPolicy/deniedPaths'' SetUnion merge_rules_new))"

section \<open>Deletion markers and item identifiers\<close>

definition is_delete :: "json \<Rightarrow> bool" where
  "is_delete value \<longleftrightarrow>
     (case as_object value of
        None \<Rightarrow> False
      | Some object \<Rightarrow> length object = 1
          \<and> Option.bind (bt_get object ''$delete'') as_bool = Some True)"

definition item_id :: "json \<Rightarrow> string \<Rightarrow> string \<Rightarrow> merge_error + string" where
  "item_id value pointer key =
     ok_or (MissingItemId pointer key)
       (Option.bind (Option.bind (as_object value) (\<lambda>object. bt_get object key)) as_str)"

section \<open>Merging\<close>

text \<open>The loop of the set union, with the canonical forms seen and the result so far.\<close>

fun union_loop ::
  "env \<Rightarrow> json list \<Rightarrow> json list \<Rightarrow> string list \<Rightarrow> json list \<Rightarrow> merge_error + json list" where
  "union_loop E base [] seen result = Ok result"
| "union_loop E base (value # values) seen result =
     and_then (map_err (\<lambda>_. MergeCanonicalization) (canonical_json E value)) (\<lambda>key.
       if key \<notin> set seen \<and> value \<notin> set base
       then union_loop E base values (key # seen) (result @ [value])
       else union_loop E base values (key # seen) result)"

definition merge_set_union :: "env \<Rightarrow> json \<Rightarrow> json \<Rightarrow> string \<Rightarrow> merge_error + json" where
  "merge_set_union E base overlay pointer =
     (case (as_array base, as_array overlay) of
        (Some base, Some overlay) \<Rightarrow>
          and_then (union_loop E base (base @ overlay) [] base) (\<lambda>result. Ok (JArray result))
      | _ \<Rightarrow> Err (StrategyTypeMismatch pointer ''array''))"

text \<open>The positions of the items of the base, by their identifiers.\<close>

fun index_items ::
  "string \<Rightarrow> string \<Rightarrow> json list \<Rightarrow> nat \<Rightarrow> (string, nat) btree_map
   \<Rightarrow> merge_error + (string, nat) btree_map" where
  "index_items pointer key [] index positions = Ok positions"
| "index_items pointer key (value # values) index positions =
     and_then (item_id value pointer key) (\<lambda>id.
       if bt_contains positions id then Err (DuplicateItemId pointer id)
       else index_items pointer key values (Suc index) (bt_insert id index positions))"

function (sequential) merge_value ::
    "env \<Rightarrow> merge_rules \<Rightarrow> json \<Rightarrow> json \<Rightarrow> string \<Rightarrow> merge_error + json option"
  and merge_entries ::
    "env \<Rightarrow> merge_rules \<Rightarrow> (string, json) btree_map \<Rightarrow> (string \<times> json) list \<Rightarrow> string
     \<Rightarrow> merge_error + (string, json) btree_map"
  and merge_items ::
    "env \<Rightarrow> merge_rules \<Rightarrow> string \<Rightarrow> string \<Rightarrow> json list \<Rightarrow> (string, nat) btree_map \<Rightarrow> string btree_set
     \<Rightarrow> json list \<Rightarrow> merge_error + json list" where
  "merge_value E rules base overlay pointer =
     (if is_delete overlay then
        if pointer \<in> set (deletable rules) then Ok None else Err (DeleteNotAllowed pointer)
      else if is_null base then Ok (Some overlay)
      else case strategy rules pointer base overlay of
        Replace \<Rightarrow> Ok (Some overlay)
      | RecursiveMap \<Rightarrow>
          (case as_object base of
             None \<Rightarrow> Err (StrategyTypeMismatch pointer ''object'')
           | Some base_map \<Rightarrow>
               (case overlay of
                  JObject overlay_map \<Rightarrow>
                    and_then (merge_entries E rules base_map overlay_map pointer) (\<lambda>merged.
                      Ok (Some (JObject merged)))
                | _ \<Rightarrow> Err (StrategyTypeMismatch pointer ''object'')))
      | SetUnion \<Rightarrow> and_then (merge_set_union E base overlay pointer) (\<lambda>v. Ok (Some v))
      | MergeById key \<Rightarrow>
          (case as_array base of
             None \<Rightarrow> Err (StrategyTypeMismatch pointer ''array'')
           | Some base_items \<Rightarrow>
               (case overlay of
                  JArray overlay_items \<Rightarrow>
                    and_then (index_items pointer key base_items 0 []) (\<lambda>positions.
                    and_then (merge_items E rules pointer key base_items positions [] overlay_items) (\<lambda>result.
                      Ok (Some (JArray result))))
                | _ \<Rightarrow> Err (StrategyTypeMismatch pointer ''array''))))"
| "merge_entries E rules merged [] pointer = Ok merged"
| "merge_entries E rules merged ((key, value) # entries) pointer =
     (let previous = (case bt_get merged key of Some v \<Rightarrow> v | None \<Rightarrow> JNull) in
      and_then (merge_value E rules previous value (child_pointer pointer key)) (\<lambda>r. case r of
        Some v \<Rightarrow> merge_entries E rules (bt_insert key v merged) entries pointer
      | None \<Rightarrow> merge_entries E rules (bt_remove key merged) entries pointer))"
| "merge_items E rules pointer key result positions overlay_ids [] = Ok result"
| "merge_items E rules pointer key result positions overlay_ids (value # values) =
     and_then (item_id value pointer key) (\<lambda>id.
       if id \<in> set overlay_ids then Err (DuplicateItemId pointer id)
       else case bt_get positions id of
         Some index \<Rightarrow>
           and_then (merge_value E rules (result ! index) value (pointer @ ''/'' @ id)) (\<lambda>r.
           and_then (ok_or (DeleteNotAllowed (pointer @ ''/'' @ id)) r) (\<lambda>v.
             merge_items E rules pointer key (result[index := v]) positions (set_insert id overlay_ids) values))
       | None \<Rightarrow>
           merge_items E rules pointer key (result @ [value]) (bt_insert id (length result) positions)
             (set_insert id overlay_ids) values)"
  by pat_completeness auto

termination
  by (relation "measure (case_sum (\<lambda>(E, rules, base, overlay, pointer). size overlay)
        (case_sum (\<lambda>(E, rules, merged, entries, pointer). size_list (size_prod (\<lambda>_. 0) size) entries)
          (\<lambda>(E, rules, pointer, key, result, positions, ids, items). size_list size items)))") auto

definition merge_specs :: "env \<Rightarrow> json \<Rightarrow> json \<Rightarrow> merge_rules \<Rightarrow> merge_error + json" where
  "merge_specs E base overlay rules =
     and_then (merge_value E rules base overlay []) (\<lambda>r. ok_or (DeleteNotAllowed []) r)"

fun merge_error_pointer :: "merge_error \<Rightarrow> string" where
  "merge_error_pointer (DeleteNotAllowed pointer) = pointer"
| "merge_error_pointer (StrategyTypeMismatch pointer _) = pointer"
| "merge_error_pointer (MissingItemId pointer _) = pointer"
| "merge_error_pointer (DuplicateItemId pointer _) = pointer"
| "merge_error_pointer MergeCanonicalization = []"

declare merge_value.simps [simp del]

end
