(* ===== verification/Config_Compose.thy ===== *)
theory Config_Compose
  imports Contracts_Layers Contracts_Packages Contracts_Skills Config_Merge
begin

text \<open>
  Layer sets, their validation, their composition and the resolution of a styleguide selection, from
  \<open>crates/commonkit-config/src/lib.rs\<close>. What \<open>serde_json::from_value\<close> makes of a value and the
  display text of a contract error are parameters.
\<close>

section \<open>Layer sets\<close>

datatype layer_set_error =
    MissingRequired layer_kind
  | DuplicateKind layer_kind
  | SpecMustBeObject
  | UnknownSpecField string
  | UnsupportedLayerSpecField string
  | InvalidSpecFieldType string string
  | InvalidStyleguideSelection string
  | InvalidPackagesDeclaration string

datatype layer_set = LayerSet (set_layers: "layer_document list")

text \<open>
  \<open>from_value::<StyleguideSelection>\<close> and \<open>from_value::<Vec<PackageDeclaration>>\<close> with the text of
  their errors, and \<open>ContractError::to_string\<close>.
\<close>

record spec_codec =
  de_styleguide_selection :: "json \<Rightarrow> string + styleguide_selection"
  de_package_declarations :: "json \<Rightarrow> string + package_declaration list"
  contract_error_text :: "contract_error \<Rightarrow> string"

definition FORMER_V1_LAYER_SPEC_FIELDS :: "string list" where
  "FORMER_V1_LAYER_SPEC_FIELDS =
     [''adapters'', ''arguments'', ''credentials'', ''databases'', ''denials'', ''hooks'', ''plugins'',
      ''relay'', ''requirements'', ''schedules'', ''services'', ''settings'', ''snapshots'', ''targets'',
      ''theme'']"

text \<open>\<open>object.get(field).is_some_and(|value| !ok(value))\<close>\<close>

definition field_type :: "string \<Rightarrow> (json \<Rightarrow> bool) \<Rightarrow> string \<Rightarrow> (string, json) btree_map
    \<Rightarrow> layer_set_error + unit" where
  "field_type field ok expected object =
     (case bt_get object field of
        Some v \<Rightarrow> if ok v then Ok () else Err (InvalidSpecFieldType field expected)
      | None \<Rightarrow> Ok ())"

definition validate_v1_spec :: "spec_codec \<Rightarrow> json \<Rightarrow> layer_set_error + unit" where
  "validate_v1_spec D spec =
     and_then (ok_or SpecMustBeObject (as_object spec)) (\<lambda>object.
     and_then (case find (\<lambda>field. field \<notin> set V1_LAYER_SPEC_FIELDS) (map fst object) of
          Some field \<Rightarrow>
            if field \<in> set FORMER_V1_LAYER_SPEC_FIELDS then Err (UnsupportedLayerSpecField field)
            else Err (UnknownSpecField field)
        | None \<Rightarrow> Ok ()) (\<lambda>_.
     and_then (field_type ''files'' is_array ''array'' object) (\<lambda>_.
     and_then (field_type ''securityPolicy'' is_object ''object'' object) (\<lambda>_.
     and_then (field_type ''capabilities'' is_object ''object'' object) (\<lambda>_.
     and_then (case Option.bind (Option.bind (bt_get object ''capabilities'') as_object)
            (\<lambda>capabilities. bt_get capabilities ''styleguide'') of
          Some styleguide \<Rightarrow>
            and_then (map_err InvalidStyleguideSelection (de_styleguide_selection D styleguide)) (\<lambda>_. Ok ())
        | None \<Rightarrow> Ok ()) (\<lambda>_.
     case bt_get object ''packages'' of
       Some packages \<Rightarrow>
         and_then (map_err InvalidPackagesDeclaration (de_package_declarations D packages)) (\<lambda>declarations.
           for_each (\<lambda>declaration. map_err (\<lambda>error. InvalidPackagesDeclaration (contract_error_text D error))
             (package_declaration_validate declaration)) declarations)
     | None \<Rightarrow> Ok ()))))))"

fun precedence :: "layer_kind \<Rightarrow> u8" where
  "precedence PublicBase = 0"
| "precedence OrganizationPolicy = 1"
| "precedence PersonalKit = 2"
| "precedence ProjectLoadout = 3"
| "precedence TargetOverrides = 4"

text \<open>The loop over the layers, with the kinds seen so far.\<close>

fun check_layers :: "spec_codec \<Rightarrow> layer_document list \<Rightarrow> layer_kind list
    \<Rightarrow> layer_set_error + layer_kind list" where
  "check_layers D [] seen = Ok seen"
| "check_layers D (layer # rest) seen =
     and_then (validate_v1_spec D (ly_spec layer)) (\<lambda>_.
       if ly_kind layer \<in> set seen then Err (DuplicateKind (ly_kind layer))
       else check_layers D rest (ly_kind layer # seen))"

definition layer_set_new :: "spec_codec \<Rightarrow> layer_document list \<Rightarrow> layer_set_error + layer_set" where
  "layer_set_new D layers =
     and_then (check_layers D layers []) (\<lambda>seen.
     and_then (for_each (\<lambda>required. ensure (required \<in> set seen) (MissingRequired required))
         [PublicBase, OrganizationPolicy]) (\<lambda>_.
       Ok (LayerSet (sort_key (\<lambda>layer. precedence (ly_kind layer)) layers))))"

section \<open>Layer integrity\<close>

datatype layer_integrity_error = ContentDigestMismatch | IntegrityContract contract_error

definition without_content_digest :: "json \<Rightarrow> json option" where
  "without_content_digest v =
     Option.bind (as_object v) (\<lambda>m.
     Option.bind (Option.bind (bt_get m ''source'') as_object) (\<lambda>source.
       if bt_contains source ''contentDigest''
       then Some (JObject (bt_insert ''source'' (JObject (bt_remove ''contentDigest'' source)) m))
       else None))"

definition layer_content_digest :: "env \<Rightarrow> layer_document \<Rightarrow> contract_error + sha256_digest" where
  "layer_content_digest E layer =
     and_then (ok_or Canonicalization (without_content_digest (ser_layer layer))) (\<lambda>v.
       digest_domain_json E ''commonkit.layer-content.v1'' v)"

definition validate_layer_content_digest :: "env \<Rightarrow> layer_document \<Rightarrow> layer_integrity_error + unit" where
  "validate_layer_content_digest E layer =
     and_then (map_err IntegrityContract (layer_content_digest E layer)) (\<lambda>actual.
       if actual \<noteq> sm_content_digest (ly_source layer) then Err ContentDigestMismatch else Ok ())"

section \<open>Composition\<close>

datatype compose_error = ComposeMerge merge_error | ComposeContract contract_error

type_synonym contributions = "(string, contribution list) btree_map"

definition record_contribution ::
  "env \<Rightarrow> json \<Rightarrow> string \<Rightarrow> json \<Rightarrow> layer_document \<Rightarrow> contributions \<Rightarrow> contract_error + contributions" where
  "record_contribution E overlay pointer current layer contributions =
     (if pointer = [] then Ok contributions
      else let operation = (if is_delete overlay then MergeDelete
          else if env_pointer E current pointer \<noteq> None then MergeReplace else MergeSet)
      in and_then (if operation = MergeDelete then Ok None
            else and_then (digest_json E overlay) (\<lambda>d. Ok (Some d))) (\<lambda>digest.
        Ok (bt_insert pointer
          ((case bt_get contributions pointer of None \<Rightarrow> [] | Some cs \<Rightarrow> cs)
           @ [\<lparr>ct_layer_id = ly_id layer, ct_layer_kind = ly_kind layer, ct_source = ly_source layer,
               ct_operation = operation, ct_value_digest = digest\<rparr>]) contributions)))"

fun collect_contributions ::
    "env \<Rightarrow> json \<Rightarrow> string \<Rightarrow> json \<Rightarrow> layer_document \<Rightarrow> contributions \<Rightarrow> contract_error + contributions"
  and collect_entries ::
    "env \<Rightarrow> (string \<times> json) list \<Rightarrow> string \<Rightarrow> json \<Rightarrow> layer_document \<Rightarrow> contributions
     \<Rightarrow> contract_error + contributions" where
  "collect_contributions E (JObject object) pointer current layer contributions =
     (if object \<noteq> [] \<and> \<not> is_delete (JObject object)
      then collect_entries E object pointer current layer contributions
      else record_contribution E (JObject object) pointer current layer contributions)"
| "collect_contributions E overlay pointer current layer contributions =
     record_contribution E overlay pointer current layer contributions"
| "collect_entries E [] pointer current layer contributions = Ok contributions"
| "collect_entries E ((key, v) # entries) pointer current layer contributions =
     and_then (collect_contributions E v (child_pointer pointer key) current layer contributions)
       (\<lambda>contributions. collect_entries E entries pointer current layer contributions)"

fun compose_loop ::
  "env \<Rightarrow> merge_rules \<Rightarrow> layer_document list \<Rightarrow> json \<Rightarrow> contributions
   \<Rightarrow> compose_error + json \<times> contributions" where
  "compose_loop E rules [] spec contributions = Ok (spec, contributions)"
| "compose_loop E rules (layer # layers) spec contributions =
     and_then (map_err ComposeContract
         (collect_contributions E (ly_spec layer) [] spec layer contributions)) (\<lambda>contributions.
     and_then (map_err ComposeMerge (merge_specs E spec (ly_spec layer) rules)) (\<lambda>spec.
       compose_loop E rules layers spec contributions))"

record composition_result =
  cr_spec :: json
  cr_spec_digest :: sha256_digest
  cr_trace :: provenance_trace
  cr_lock :: common_kit_lock

definition trace_entries :: "merge_rules \<Rightarrow> contributions \<Rightarrow> (string, trace_entry) btree_map" where
  "trace_entries rules contributions = bt_collect (List.map_filter (\<lambda>(pointer, cs).
     if cs = [] then None
     else Some (pointer, \<lparr>te_winner = last cs, te_contributions = cs,
       te_governing_rules = governing_rules rules pointer\<rparr>)) contributions)"

definition locked_layer_of :: "layer_document \<Rightarrow> locked_layer" where
  "locked_layer_of layer = \<lparr>lk_id = ly_id layer, lk_kind = ly_kind layer,
     lk_path = sm_path (ly_source layer), lk_schema_version = ly_schema_version layer,
     lk_revision = sm_revision (ly_source layer), lk_content_digest = sm_content_digest (ly_source layer)\<rparr>"

definition compose_layers :: "env \<Rightarrow> layer_set \<Rightarrow> merge_rules \<Rightarrow> compose_error + composition_result" where
  "compose_layers E layers rules =
     and_then (compose_loop E rules (set_layers layers) (JObject []) []) (\<lambda>(spec, contributions).
     and_then (map_err ComposeContract (digest_json E spec)) (\<lambda>spec_digest.
       Ok \<lparr>cr_spec = spec, cr_spec_digest = spec_digest,
         cr_trace = \<lparr>pt_schema_version = SchemaVersion SCHEMA_VERSION, pt_state_digest = spec_digest,
           pt_entries = trace_entries rules contributions\<rparr>,
         cr_lock = \<lparr>cl_schema_version = SchemaVersion SCHEMA_VERSION,
           cl_contract_version = CONTRACT_VERSION, cl_repository_revision = None,
           cl_layers = map locked_layer_of (set_layers layers), cl_normalized_digest = spec_digest\<rparr>\<rparr>))"

section \<open>Styleguides\<close>

record styleguide_policy =
  gp_denied :: bool
  gp_pinned_skill_id :: "stable_id option"

record resolved_styleguide =
  rs_selection :: styleguide_selection
  rs_descriptor :: styleguide_descriptor
  rs_binding :: styleguide_binding

datatype styleguide_resolution_error =
    DeniedByOrganization
  | OrganizationPinMismatch stable_id stable_id
  | MissingExport stable_id
  | AmbiguousExports
  | MissingDescriptor stable_id
  | DescriptorExportMismatch stable_id stable_id
  | InvalidDescriptor contract_error

text \<open>The checks of the export and the descriptor, after those of the policy.\<close>

definition resolve_export ::
  "env \<Rightarrow> styleguide_selection \<Rightarrow> stable_id \<Rightarrow> (stable_id, styleguide_descriptor) btree_map
   \<Rightarrow> stable_id btree_set \<Rightarrow> styleguide_resolution_error + resolved_styleguide option" where
  "resolve_export E selection skill descriptors exports =
     (if length exports > 1 then Err AmbiguousExports
      else if skill \<notin> set exports then Err (MissingExport skill)
      else and_then (ok_or (MissingDescriptor skill) (bt_get descriptors skill)) (\<lambda>descriptor.
        if sg_exported_skill descriptor \<noteq> skill
        then Err (DescriptorExportMismatch skill (sg_exported_skill descriptor))
        else and_then (map_err InvalidDescriptor (styleguide_descriptor_digest E descriptor)) (\<lambda>digest.
          Ok (Some \<lparr>rs_selection = selection, rs_descriptor = descriptor,
            rs_binding = \<lparr>sb_selection = selection, sb_descriptor_digest = digest,
              sb_package_manifest_digest = sp_manifest_digest (sg_package descriptor),
              sb_package_lock_digest = sp_lock_digest (sg_package descriptor),
              sb_evaluation_suite_digest = sg_evaluation_suite_digest descriptor,
              sb_retention_map_digest = sg_retention_map_digest descriptor\<rparr>\<rparr>))))"

definition resolve_styleguide_selection ::
  "env \<Rightarrow> styleguide_selection option \<Rightarrow> (stable_id, styleguide_descriptor) btree_map
   \<Rightarrow> stable_id btree_set \<Rightarrow> styleguide_policy
   \<Rightarrow> styleguide_resolution_error + resolved_styleguide option" where
  "resolve_styleguide_selection E selection descriptors exports policy =
     (case selection of None \<Rightarrow> Ok None
      | Some selection \<Rightarrow>
        let skill = ss_skill_id selection in
        if gp_denied policy then Err DeniedByOrganization
        else case gp_pinned_skill_id policy of
          Some expected \<Rightarrow>
            if expected \<noteq> skill then Err (OrganizationPinMismatch expected skill)
            else resolve_export E selection skill descriptors exports
        | None \<Rightarrow> resolve_export E selection skill descriptors exports)"

end
