(* ===== verification/Merge_Facts.thy ===== *)
theory Merge_Facts
  imports Config_Merge
begin

text \<open>
  Facts about the merge of layer specifications: each loop reduced to a lookup or list equation
  independent of the loop, preservation of well-formed vs, and idempotence.
\<close>

definition get_or_null :: "(string, json) btree_map \<Rightarrow> string \<Rightarrow> json" where
  "get_or_null m k = (case bt_get m k of Some v \<Rightarrow> v | None \<Rightarrow> JNull)"

section \<open>The loop over the entries of an object\<close>

lemma merge_entries_lookup:
  assumes "merge_entries E rules m es p = Inr m'" "distinct (map fst es)"
  shows "map_of es k = None \<Longrightarrow> bt_get m' k = bt_get m k"
    and "map_of es k = Some v \<Longrightarrow>
      merge_value E rules (get_or_null m k) v (child_pointer p k) = Inr (bt_get m' k)"
proof -
  have "(map_of es k = None \<longrightarrow> bt_get m' k = bt_get m k)
    \<and> (\<forall>v. map_of es k = Some v \<longrightarrow>
      merge_value E rules (get_or_null m k) v (child_pointer p k) = Inr (bt_get m' k))"
    using assms
  proof (induction es arbitrary: m)
    case (Cons e es)
    obtain key w where e: "e = (key, w)" by (cases e)
    from Cons.prems(1) obtain r where r:
      "merge_value E rules (get_or_null m key) w (child_pointer p key) = Inr r"
      "merge_entries E rules (case r of Some v \<Rightarrow> bt_insert key v m | None \<Rightarrow> bt_remove key m) es p = Inr m'"
      by (auto simp: e Let_def result_simps get_or_null_def split: option.splits)
    let ?m = "case r of Some v \<Rightarrow> bt_insert key v m | None \<Rightarrow> bt_remove key m"
    have get: "bt_get ?m a = (if a = key then r else bt_get m a)" for a
      by (cases r) (auto simp: bt_get_insert bt_get_remove)
    have ih: "(map_of es k = None \<longrightarrow> bt_get m' k = bt_get ?m k)
      \<and> (\<forall>v. map_of es k = Some v \<longrightarrow>
        merge_value E rules (get_or_null ?m k) v (child_pointer p k) = Inr (bt_get m' k))"
      using Cons.IH [OF r(2)] Cons.prems(2) by simp
    have fresh: "map_of es key = None"
      using Cons.prems(2) by (auto simp: e map_of_eq_None_iff)
    show ?case
      using ih r(1) fresh by (auto simp: e get get_or_null_def)
  qed simp
  then show "map_of es k = None \<Longrightarrow> bt_get m' k = bt_get m k"
    and "map_of es k = Some v \<Longrightarrow>
      merge_value E rules (get_or_null m k) v (child_pointer p k) = Inr (bt_get m' k)"
    by auto
qed

lemma merge_entries_wf:
  "merge_entries E rules m es p = Inr m' \<Longrightarrow> bt_wf m \<Longrightarrow> bt_wf m'"
  by (induction es arbitrary: m)
     (auto simp: Let_def result_simps bt_wf_insert bt_wf_remove split: option.splits)

section \<open>The loop of the set union\<close>

lemma union_loop_Ok:
  assumes "union_loop E base vs seen result = Inr r"
  shows "\<exists>new. r = result @ new \<and> set new \<subseteq> set vs - set base
    \<and> (\<forall>x\<in>set vs. env_jcs E x \<noteq> None)
    \<and> distinct (map (env_jcs E) new) \<and> (\<forall>x\<in>set new. env_jcs E x \<notin> Some ` set seen)
    \<and> (\<forall>x\<in>set vs. env_jcs E x \<notin> Some ` set seen \<longrightarrow>
         (\<exists>y\<in>set base \<union> set new. env_jcs E y = env_jcs E x))"
  using assms
proof (induction vs arbitrary: seen result)
  case (Cons v vs)
  then obtain key where key: "env_jcs E v = Some key"
    by (auto simp: canonical_json_def result_simps)
  show ?case
  proof (cases "key \<notin> set seen \<and> v \<notin> set base")
    case True
    then have "union_loop E base vs (key # seen) (result @ [v]) = Inr r"
      using Cons.prems key by (simp add: canonical_json_def)
    from Cons.IH [OF this] obtain new where new: "r = (result @ [v]) @ new"
      "set new \<subseteq> set vs - set base" "\<forall>x\<in>set vs. env_jcs E x \<noteq> None"
      "distinct (map (env_jcs E) new)" "\<forall>x\<in>set new. env_jcs E x \<notin> Some ` set (key # seen)"
      "\<forall>x\<in>set vs. env_jcs E x \<notin> Some ` set (key # seen) \<longrightarrow>
         (\<exists>y\<in>set base \<union> set new. env_jcs E y = env_jcs E x)" by blast
    show ?thesis
      by (rule exI [of _ "v # new"]) (use new True key in \<open>fastforce simp: image_iff\<close>)
  next
    case False
    then have "union_loop E base vs (key # seen) result = Inr r"
      using Cons.prems key by (simp add: canonical_json_def split: if_splits)
    from Cons.IH [OF this] obtain new where new: "r = result @ new"
      "set new \<subseteq> set vs - set base" "\<forall>x\<in>set vs. env_jcs E x \<noteq> None"
      "distinct (map (env_jcs E) new)" "\<forall>x\<in>set new. env_jcs E x \<notin> Some ` set (key # seen)"
      "\<forall>x\<in>set vs. env_jcs E x \<notin> Some ` set (key # seen) \<longrightarrow>
         (\<exists>y\<in>set base \<union> set new. env_jcs E y = env_jcs E x)" by blast
    show ?thesis
      by (rule exI [of _ new]) (use new False key in \<open>auto simp: image_iff\<close>)
  qed
qed simp

lemma merge_set_union_Ok:
  assumes "merge_set_union E base overlay p = Inr r"
  shows "\<exists>a b new. base = JArray a \<and> overlay = JArray b \<and> r = JArray (a @ new)
    \<and> set new \<subseteq> set b - set a \<and> distinct (map (env_jcs E) new)
    \<and> (\<forall>x\<in>set a \<union> set b. \<exists>y\<in>set (a @ new). env_jcs E y = env_jcs E x)"
proof -
  from assms obtain a b s where ab: "base = JArray a" "overlay = JArray b" "r = JArray s"
    "union_loop E a (a @ b) [] a = Inr s"
    by (auto simp: merge_set_union_def result_simps split: option.splits)
  from union_loop_Ok [OF ab(4)] obtain new where new: "s = a @ new"
    "set new \<subseteq> set (a @ b) - set a" "distinct (map (env_jcs E) new)"
    "\<forall>x\<in>set (a @ b). \<exists>y\<in>set a \<union> set new. env_jcs E y = env_jcs E x"
    by auto
  then show ?thesis using ab by (intro exI [of _ a] exI [of _ b] exI [of _ new]) auto
qed

lemma union_loop_same: "set vs \<subseteq> set base \<Longrightarrow> union_loop E base vs seen result = Inr r \<Longrightarrow> r = result"
  by (induction vs arbitrary: seen) (auto simp: result_simps split: if_splits)

section \<open>The index of the items\<close>

lemma index_items_Ok:
  assumes "index_items p key xs i pos = Inr pos'"
  shows "\<exists>ids. map (\<lambda>x. item_id x p key) xs = map Inr ids \<and> distinct ids
    \<and> (\<forall>id\<in>set ids. bt_get pos id = None)
    \<and> (\<forall>id. bt_get pos' id =
         (case map_of (zip ids [i..<i + length xs]) id of Some n \<Rightarrow> Some n | None \<Rightarrow> bt_get pos id))"
  using assms
proof (induction xs arbitrary: i pos)
  case Nil
  then show ?case by simp
next
  case (Cons x xs)
  then obtain d where d: "item_id x p key = Inr d" "bt_get pos d = None"
    "index_items p key xs (Suc i) (bt_insert d i pos) = Inr pos'"
    by (auto simp: result_simps bt_contains_def split: if_splits)
  from Cons.IH [OF d(3)] obtain ids where ids: "map (\<lambda>x. item_id x p key) xs = map Inr ids"
    "distinct ids" "\<forall>id\<in>set ids. bt_get (bt_insert d i pos) id = None"
    "\<forall>id. bt_get pos' id = (case map_of (zip ids [Suc i..<Suc i + length xs]) id of
        Some n \<Rightarrow> Some n | None \<Rightarrow> bt_get (bt_insert d i pos) id)" by blast
  have len: "length ids = length xs" using arg_cong [OF ids(1), of length] by simp
  have fresh: "d \<notin> set ids" using ids(3) by (auto simp: bt_get_insert)
  have "map_of (zip ids [Suc i..<Suc i + length xs]) d = None"
    using fresh by (auto simp: map_of_eq_None_iff dest: set_zip_leftD simp del: upt_Suc)
  moreover have "[i..<i + length (x # xs)] = i # [Suc i..<Suc i + length xs]"
    using upt_conv_Cons [of i "Suc i + length xs"] by (simp del: upt_Suc)
  ultimately show ?case
    using ids d fresh
    by (intro exI [of _ "d # ids"]) (auto simp: bt_get_insert split: if_splits option.splits)
qed

lemma index_items_bound:
  assumes "index_items p key xs 0 [] = Inr pos"
  shows "\<forall>id index. bt_get pos id = Some index \<longrightarrow> index < length xs"
proof -
  from index_items_Ok [OF assms] obtain ids where
    "\<forall>id. bt_get pos id = (case map_of (zip ids [0..<length xs]) id of
        Some n \<Rightarrow> Some n | None \<Rightarrow> bt_get [] id)" by auto
  then show ?thesis
    by (auto simp: bt_get_def split: option.splits dest!: map_of_SomeD set_zip_rightD)
qed

section \<open>Well-formed values\<close>

lemma merge_wf:
  "merge_value E rules base overlay p = Inr (Some v) \<Longrightarrow> wf_json base \<Longrightarrow> wf_json overlay \<Longrightarrow> wf_json v"
  "merge_entries E rules m es p = Inr m' \<Longrightarrow> bt_wf m \<Longrightarrow> \<forall>(k, x)\<in>set m. wf_json x
     \<Longrightarrow> \<forall>(k, x)\<in>set es. wf_json x \<Longrightarrow> \<forall>(k, x)\<in>set m'. wf_json x"
  "merge_items E rules p key result positions ids items = Inr r \<Longrightarrow> \<forall>x\<in>set result. wf_json x
     \<Longrightarrow> \<forall>id index. bt_get positions id = Some index \<longrightarrow> index < length result
     \<Longrightarrow> \<forall>x\<in>set items. wf_json x \<Longrightarrow> \<forall>x\<in>set r. wf_json x"
proof (induction E rules base overlay p and E rules m es p and E rules p key result positions ids items
    arbitrary: v and m' and r rule: merge_value_merge_entries_merge_items.induct)
  case (1 E rules base overlay p)
  show ?case
  proof (cases "is_delete overlay \<or> is_null base")
    case True
    then show ?thesis using "1.prems" by (auto simp: merge_value.simps split: if_splits)
  next
    case False
    then have pre: "\<not> is_delete overlay" "\<not> is_null base" by auto
    show ?thesis
    proof (cases "strategy rules p base overlay")
      case Replace
      then show ?thesis using "1.prems" pre by (simp add: merge_value.simps)
    next
      case RecursiveMap
      with "1.prems"(1) pre obtain bm om m' where om: "base = JObject bm" "overlay = JObject om"
        "merge_entries E rules bm om p = Inr m'" "v = JObject m'"
        by (auto simp: merge_value.simps [of _ _ base] result_simps split: option.splits json.splits)
      have "\<forall>(k, x)\<in>set m'. wf_json x"
        by (rule "1.IH"(1) [OF pre RecursiveMap _ om(2,3)]) (use om "1.prems" in auto)
      then show ?thesis using om "1.prems" merge_entries_wf [OF om(3)] by auto
    next
      case SetUnion
      then obtain r where r: "merge_set_union E base overlay p = Inr r" "v = r"
        using "1.prems" pre by (auto simp: merge_value.simps result_simps)
      from merge_set_union_Ok [OF r(1)] "1.prems"(2,3) show ?thesis
        unfolding r(2) by (elim exE conjE) auto
    next
      case (MergeById key)
      with "1.prems"(1) pre obtain bm om pos r where om: "base = JArray bm" "overlay = JArray om"
        "index_items p key bm 0 [] = Inr pos" "merge_items E rules p key bm pos [] om = Inr r" "v = JArray r"
        by (auto simp: merge_value.simps [of _ _ base] result_simps split: option.splits json.splits)
      have "\<forall>id index. bt_get pos id = Some index \<longrightarrow> index < length bm"
        by (rule index_items_bound [OF om(3)])
      then have "\<forall>x\<in>set r. wf_json x"
        using "1.IH"(2) [OF pre MergeById _ om(2,4)] om "1.prems" by auto
      then show ?thesis by (simp add: om)
    qed
  qed
next
  case (3 E rules m key w es p)
  then obtain r where r:
    "merge_value E rules (get_or_null m key) w (child_pointer p key) = Inr r"
    "merge_entries E rules (case r of Some v \<Rightarrow> bt_insert key v m | None \<Rightarrow> bt_remove key m) es p = Inr m'"
    by (auto simp: Let_def result_simps get_or_null_def split: option.splits)
  have prev: "wf_json (get_or_null m key)"
    using "3.prems"(3) by (auto simp: get_or_null_def dest: bt_get_SomeD split: option.splits)
  show ?case
  proof (cases r)
    case None
    have "bt_wf (bt_remove key m)" "\<forall>(k, x)\<in>set (bt_remove key m). wf_json x"
      using "3.prems" by (auto simp: bt_remove_def bt_wf_remove [unfolded bt_remove_def])
    then show ?thesis
      using "3.IH"(2) [OF refl] r(2) None "3.prems" by auto
  next
    case (Some u)
    have u: "wf_json u"
      using "3.IH"(1) [OF refl] r(1) Some prev "3.prems"(4) by (auto simp: get_or_null_def)
    have "set (bt_insert key u m) \<subseteq> insert (key, u) (set m)"
      by (induction key u m rule: bt_insert.induct) auto
    then have "\<forall>(k, x)\<in>set (bt_insert key u m). wf_json x" using u "3.prems"(3) by auto
    then show ?thesis
      using "3.IH"(3) [OF refl] r(2) Some "3.prems"
      by (auto simp: bt_wf_insert)
  qed
next
  case (5 E rules p key result positions ids w items)
  then obtain id where id: "item_id w p key = Inr id" "id \<notin> set ids"
    by (auto simp: result_simps split: if_splits)
  show ?case
  proof (cases "bt_get positions id")
    case None
    have pos: "\<forall>i index. bt_get (bt_insert id (length result) positions) i = Some index \<longrightarrow>
        index < length (result @ [w])"
      using "5.prems"(3) by (auto simp: bt_get_insert less_Suc_eq)
    show ?thesis
      by (rule "5.IH"(1) [OF id(2) None]) (use "5.prems" id None pos in auto)
  next
    case (Some index)
    then obtain u where u: "merge_value E rules (result ! index) w (p @ ''/'' @ id) = Inr (Some u)"
      "merge_items E rules p key (result[index := u]) positions (set_insert id ids) items = Inr r"
      using "5.prems"(1) id by (auto simp: result_simps)
    have "index < length result" using "5.prems"(3) Some by blast
    then have "wf_json u"
      using "5.IH"(2) [OF id(2) Some u(1)] "5.prems" by auto
    then have "\<forall>x\<in>set (result[index := u]). wf_json x"
      using "5.prems"(2) set_update_subset_insert [of result index u] by auto
    then show ?thesis
      using "5.IH"(3) [OF id(2) Some u(2)] "5.prems" by auto
  qed
qed auto

section \<open>Items by identifier\<close>

definition item_key :: "string \<Rightarrow> json \<Rightarrow> string option" where
  "item_key key x = Option.bind (Option.bind (as_object x) (\<lambda>m. bt_get m key)) as_str"

definition item_at :: "string \<Rightarrow> json list \<Rightarrow> string \<Rightarrow> json option" where
  "item_at key xs i = find (\<lambda>x. item_key key x = Some i) xs"

lemma item_id_Ok [simp]: "item_id x p key = Inr i \<longleftrightarrow> item_key key x = Some i"
  by (simp add: item_id_def item_key_def)

lemma item_key_Some_iff:
  "item_key key x = Some i \<longleftrightarrow> (\<exists>m. x = JObject m \<and> bt_get m key = Some (JString i))"
  by (auto simp: item_key_def bind_eq_Some_conv)

definition indexed :: "string \<Rightarrow> json list \<Rightarrow> (string, nat) btree_map \<Rightarrow> bool" where
  "indexed key xs positions \<longleftrightarrow> None \<notin> set (map (item_key key) xs) \<and> distinct (map (item_key key) xs)
     \<and> (\<forall>i n. bt_get positions i = Some n \<longleftrightarrow> n < length xs \<and> item_key key (xs ! n) = Some i)"

lemma item_at_nth:
  assumes "distinct (map (item_key key) xs)" "n < length xs" "item_key key (xs ! n) = Some i"
  shows "item_at key xs i = Some (xs ! n)"
proof -
  have "item_key key (xs ! j) \<noteq> Some i" if "j < n" for j
    using nth_eq_iff_index_eq [OF assms(1), of j n] assms(2,3) that by simp
  then show ?thesis
    unfolding item_at_def find_Some_iff using assms by (intro exI [of _ n]) auto
qed

lemma item_at_None_iff: "item_at key xs i = None \<longleftrightarrow> Some i \<notin> set (map (item_key key) xs)"
  by (auto simp: item_at_def find_None_iff image_iff)

lemma item_at_SomeD: "item_at key xs i = Some x \<Longrightarrow> x \<in> set xs \<and> item_key key x = Some i"
  by (auto simp: item_at_def find_Some_iff)

lemma indexed_get:
  "indexed key xs positions \<Longrightarrow>
     bt_get positions i = Some n \<longleftrightarrow> n < length xs \<and> item_key key (xs ! n) = Some i"
  by (simp add: indexed_def)

lemma item_at_indexed:
  assumes "indexed key xs positions"
  shows "item_at key xs i = map_option (\<lambda>n. xs ! n) (bt_get positions i)"
proof (cases "bt_get positions i")
  case None
  then have "Some i \<notin> set (map (item_key key) xs)"
    using indexed_get [OF assms, of i] by (metis in_set_conv_nth length_map nth_map option.distinct(1))
  then show ?thesis using None item_at_None_iff by simp
next
  case (Some n)
  then have "n < length xs" "item_key key (xs ! n) = Some i" using indexed_get [OF assms] by auto
  moreover have "distinct (map (item_key key) xs)" using assms by (simp add: indexed_def)
  ultimately show ?thesis using Some item_at_nth by simp
qed

lemma indexed_update:
  assumes "indexed key xs positions" "bt_get positions i = Some n" "item_key key u = Some i"
  shows "indexed key (xs[n := u]) positions"
proof -
  have n: "n < length xs" "item_key key (xs ! n) = Some i" using assms by (auto simp: indexed_def)
  have "map (item_key key) (xs[n := u]) = map (item_key key) xs"
    using n assms(3) by (metis length_map list_update_id map_update nth_map)
  moreover have "item_key key (xs[n := u] ! j) = item_key key (xs ! j)" if "j < length xs" for j
    using n assms(3) that by (cases "j = n") auto
  ultimately show ?thesis using assms(1) by (auto simp: indexed_def)
qed

lemma indexed_append:
  assumes "indexed key xs positions" "bt_get positions i = None" "item_key key u = Some i"
  shows "indexed key (xs @ [u]) (bt_insert i (length xs) positions)"
proof -
  have "Some i \<notin> set (map (item_key key) xs)"
    using item_at_indexed [OF assms(1), of i] assms(2) item_at_None_iff by simp
  then have no: "item_key key (xs ! n) \<noteq> Some i" if "n < length xs" for n
    using that by (metis image_eqI list.set_map nth_mem)
  have "bt_get (bt_insert i (length xs) positions) j = Some n \<longleftrightarrow>
      n < length (xs @ [u]) \<and> item_key key ((xs @ [u]) ! n) = Some j" for j n
    unfolding bt_get_insert using no [of n] indexed_get [OF assms(1), of j n] assms(3)
    by (auto simp: nth_append less_Suc_eq)
  moreover have "distinct (map (item_key key) (xs @ [u]))" "None \<notin> set (map (item_key key) (xs @ [u]))"
    using assms(1,3) \<open>Some i \<notin> set (map (item_key key) xs)\<close> by (auto simp: indexed_def)
  ultimately show ?thesis by (simp add: indexed_def)
qed

lemma indexed_index_items:
  assumes "index_items p key xs 0 [] = Inr pos"
  shows "indexed key xs pos"
proof -
  from index_items_Ok [OF assms] obtain ids where ids:
    "map (\<lambda>x. item_id x p key) xs = map Inr ids" "distinct ids"
    "\<forall>i. bt_get pos i = (case map_of (zip ids [0..<length xs]) i of
        Some n \<Rightarrow> Some n | None \<Rightarrow> bt_get [] i)" by auto
  have len: "length ids = length xs" using arg_cong [OF ids(1), of length] by simp
  have keys: "map (item_key key) xs = map Some ids"
  proof (rule nth_equalityI)
    fix n assume "n < length (map (item_key key) xs)"
    then have "item_id (xs ! n) p key = Inr (ids ! n)"
      using arg_cong [OF ids(1), of "\<lambda>l. l ! n"] len by simp
    then show "map (item_key key) xs ! n = map Some ids ! n"
      using \<open>n < length (map (item_key key) xs)\<close> len by simp
  qed (simp add: len)
  have "bt_get pos i = Some n \<longleftrightarrow> n < length xs \<and> item_key key (xs ! n) = Some i" for i n
  proof -
    have "bt_get pos i = Some n \<longleftrightarrow> map_of (zip ids [0..<length xs]) i = Some n"
      using ids(3) by (auto simp: bt_get_def split: option.splits)
    also have "\<dots> \<longleftrightarrow> (i, n) \<in> set (zip ids [0..<length xs])"
      using ids(2) len by (simp add: map_of_eq_Some_iff)
    also have "\<dots> \<longleftrightarrow> n < length xs \<and> ids ! n = i"
      using len by (auto simp: set_zip)
    also have "\<dots> \<longleftrightarrow> n < length xs \<and> item_key key (xs ! n) = Some i"
      using keys len by (auto dest: arg_cong [of _ _ "\<lambda>l. l ! n"])
    finally show ?thesis .
  qed
  moreover have "distinct (map (item_key key) xs)" "None \<notin> set (map (item_key key) xs)"
    using ids(2) unfolding keys by (auto simp: distinct_map)
  ultimately show ?thesis by (simp add: indexed_def)
qed

text \<open>Merging two items with the same identifier keeps the identifier.\<close>

lemma merge_strings: "merge_value E rules (JString s) (JString t) p = Inr r \<Longrightarrow> r = Some (JString t)"
  by (auto simp: merge_value.simps is_delete_def is_null_def merge_set_union_def
      split: merge_strategy.splits)

lemma merge_item_key:
  assumes "merge_value E rules x y p = Inr (Some u)" "item_key key x = Some i" "item_key key y = Some i"
    and "wf_json y"
  shows "item_key key u = Some i"
proof -
  from assms(2,3) obtain m n where mn: "x = JObject m" "y = JObject n"
    "bt_get m key = Some (JString i)" "bt_get n key = Some (JString i)"
    by (auto simp: item_key_Some_iff)
  show ?thesis
  proof (cases "strategy rules p x y")
    case RecursiveMap
    with assms(1) mn obtain m' where m': "merge_entries E rules m n p = Inr m'" "u = JObject m'"
      by (auto simp: merge_value.simps [of _ _ "JObject m"] is_null_def result_simps split: if_splits)
    have "distinct (map fst n)" using assms(4) mn by (simp add: bt_wf_distinct)
    from merge_entries_lookup(2) [OF m'(1) this] mn
    have "merge_value E rules (JString i) (JString i) (child_pointer p key) = Inr (bt_get m' key)"
      by (metis bt_get_def get_or_null_def option.simps(5))
    then show ?thesis using merge_strings m' by (auto simp: item_key_Some_iff)
  qed (use assms mn in \<open>auto simp: merge_value.simps [of _ _ "JObject m"] is_null_def merge_set_union_def
      result_simps split: if_splits option.splits\<close>)
qed

text \<open>The item with an identifier after a merge, from the item of the base and of the overlay.\<close>

definition item_merged ::
  "env \<Rightarrow> merge_rules \<Rightarrow> string \<Rightarrow> string \<Rightarrow> json option \<Rightarrow> json option \<Rightarrow> json option \<Rightarrow> bool" where
  "item_merged E rules p i base overlay r \<longleftrightarrow> (case overlay of
      None \<Rightarrow> r = base
    | Some v \<Rightarrow> (case base of
          None \<Rightarrow> r = Some v
        | Some b \<Rightarrow> merge_value E rules b v (p @ ''/'' @ i) = Inr r))"

lemma merge_items_Ok:
  assumes "merge_items E rules p key result positions ids items = Inr r"
    and "indexed key result positions" "\<forall>x\<in>set items. wf_json x"
  shows "None \<notin> set (map (item_key key) items) \<and> distinct (map (item_key key) items)
    \<and> set (map (item_key key) items) \<inter> Some ` set ids = {}
    \<and> map (item_key key) r = map (item_key key) result
        @ filter (\<lambda>k. k \<notin> set (map (item_key key) result)) (map (item_key key) items)
    \<and> (\<forall>i. item_merged E rules p i (item_at key result i) (item_at key items i) (item_at key r i))"
  using assms
proof (induction items arbitrary: result positions ids)
  case Nil
  then show ?case by (simp add: item_at_def item_merged_def)
next
  case (Cons x items)
  then obtain d where d: "item_key key x = Some d" "d \<notin> set ids"
    by (auto simp: result_simps split: if_splits)
  then have iid: "item_id x p key = Inr d" by simp
  have at: "item_at key (x # items) i = (if i = d then Some x else item_at key items i)" for i
    using d(1) by (auto simp: item_at_def)
  have pos: "item_at key result i = map_option (\<lambda>n. result ! n) (bt_get positions i)" for i
    by (rule item_at_indexed [OF Cons.prems(2)])
  show ?case
  proof (cases "bt_get positions d")
    case None
    then have run: "merge_items E rules p key (result @ [x]) (bt_insert d (length result) positions)
        (set_insert d ids) items = Inr r"
      using Cons.prems(1) d iid by simp
    have idx: "indexed key (result @ [x]) (bt_insert d (length result) positions)"
      by (rule indexed_append [OF Cons.prems(2) None d(1)])
    have fresh: "Some d \<notin> set (map (item_key key) result)"
      using pos [of d] None item_at_None_iff by simp
    have found: "item_at key (result @ [x]) i = (if i = d then Some x else item_at key result i)" for i
      unfolding item_at_indexed [OF idx] pos bt_get_insert
      using indexed_get [OF Cons.prems(2), of i]
      by (cases "bt_get positions i") (auto simp: nth_append)
    note ih = Cons.IH [OF run idx]
    have 1: "None \<notin> set (map (item_key key) items)" "distinct (map (item_key key) items)"
      "set (map (item_key key) items) \<inter> Some ` insert d (set ids) = {}"
      using ih Cons.prems(3) by auto
    then have new: "Some d \<notin> set (map (item_key key) items)" by auto
    have 2: "map (item_key key) r = map (item_key key) result
        @ filter (\<lambda>k. k \<notin> set (map (item_key key) result)) (map (item_key key) (x # items))"
    proof -
      have "filter (\<lambda>k. k \<notin> set (map (item_key key) (result @ [x]))) (map (item_key key) items)
          = filter (\<lambda>k. k \<notin> set (map (item_key key) result)) (map (item_key key) items)"
        by (rule filter_cong [OF refl]) (use new d in \<open>auto simp: image_iff\<close>)
      then show ?thesis using ih Cons.prems(3) d fresh by auto
    qed
    have 3: "item_merged E rules p i (item_at key (result @ [x]) i) (item_at key items i) (item_at key r i)" for i
      using ih Cons.prems(3) by simp
    have "item_at key items d = None" using new item_at_None_iff by blast
    moreover have "item_at key result d = None" using fresh item_at_None_iff by blast
    ultimately have "item_merged E rules p i (item_at key result i) (item_at key (x # items) i)
        (item_at key r i)" for i
      using 3 [of i] unfolding at found item_merged_def by (cases "i = d") (simp_all split: option.splits)
    then show ?thesis using 1 2 d new by auto
  next
    case (Some n)
    then obtain u where u: "merge_value E rules (result ! n) x (p @ ''/'' @ d) = Inr (Some u)"
      "merge_items E rules p key (result[n := u]) positions (set_insert d ids) items = Inr r"
      using Cons.prems(1) d iid by (auto simp: result_simps)
    have n: "n < length result" "item_key key (result ! n) = Some d"
      using Cons.prems(2) Some by (auto simp: indexed_def)
    have uk: "item_key key u = Some d"
      by (rule merge_item_key [OF u(1) n(2) d(1)]) (use Cons.prems(3) in simp)
    have idx: "indexed key (result[n := u]) positions"
      by (rule indexed_update [OF Cons.prems(2) Some uk])
    have keys: "map (item_key key) (result[n := u]) = map (item_key key) result"
      using n uk by (metis length_map list_update_id map_update nth_map)
    have found: "item_at key (result[n := u]) i = (if i = d then Some u else item_at key result i)" for i
    proof (cases "bt_get positions i")
      case None
      then show ?thesis unfolding item_at_indexed [OF idx] pos using Some by auto
    next
      case S: (Some j)
      then have "j < length result" "item_key key (result ! j) = Some i"
        using indexed_get [OF Cons.prems(2), of i j] by simp_all
      then have "j = n \<longleftrightarrow> i = d" using n S Some by auto
      then show ?thesis unfolding item_at_indexed [OF idx] pos using S n by auto
    qed
    note ih = Cons.IH [OF u(2) idx]
    have 1: "None \<notin> set (map (item_key key) items)" "distinct (map (item_key key) items)"
      "set (map (item_key key) items) \<inter> Some ` insert d (set ids) = {}"
      using ih Cons.prems(3) by auto
    then have new: "Some d \<notin> set (map (item_key key) items)" by auto
    have old: "Some d \<in> set (map (item_key key) result)"
      using n by (metis image_eqI list.set_map nth_mem)
    have 2: "map (item_key key) r = map (item_key key) result
        @ filter (\<lambda>k. k \<notin> set (map (item_key key) result)) (map (item_key key) (x # items))"
      using ih Cons.prems(3) d old unfolding keys by auto
    have 3: "item_merged E rules p i (item_at key (result[n := u]) i) (item_at key items i) (item_at key r i)" for i
      using ih Cons.prems(3) by simp
    have "item_at key items d = None" using new item_at_None_iff by blast
    moreover have "item_at key result d = Some (result ! n)" using pos Some by simp
    ultimately have "item_merged E rules p i (item_at key result i) (item_at key (x # items) i)
        (item_at key r i)" for i
      using 3 [of i] u(1) unfolding at found item_merged_def by (cases "i = d") (simp_all split: option.splits)
    then show ?thesis using 1 2 d new by auto
  qed
qed

end
