(* ===== verification/Merge_Laws.thy ===== *)
theory Merge_Laws
  imports Merge_Facts
begin

text \<open>
  Laws of the merge: merging lists by identifier is a merge of the items with the same
  identifier, merging a value without deletion markers with itself changes nothing, and a denied
  path is never lost under the rules of version one.
\<close>

section \<open>Merging by identifier\<close>

lemma merge_by_id_run:
  assumes "merge_value E rules base overlay p = Inr r" "strategy rules p base overlay = MergeById key"
    and "\<not> is_delete overlay" "\<not> is_null base"
  obtains a b pos xs where "base = JArray a" "overlay = JArray b" "r = Some (JArray xs)"
    "indexed key a pos" "merge_items E rules p key a pos [] b = Inr xs"
proof -
  from assms obtain a b pos xs where "base = JArray a" "overlay = JArray b" "r = Some (JArray xs)"
    "index_items p key a 0 [] = Inr pos" "merge_items E rules p key a pos [] b = Inr xs"
    by (auto simp: merge_value.simps [of _ _ base] result_simps split: option.splits json.splits)
  with that indexed_index_items show thesis by blast
qed

lemma is_delete_array [simp]: "\<not> is_delete (JArray xs)"
  by (simp add: is_delete_def)

lemma merge_by_id_lookup:
  assumes "merge_value E rules (JArray a) (JArray b) p = Inr r"
    and "bt_get (strategies rules) p = Some (MergeById key)" "wf_json (JArray b)"
  shows "\<exists>xs. r = Some (JArray xs)
    \<and> None \<notin> set (map (item_key key) (a @ b))
    \<and> distinct (map (item_key key) a) \<and> distinct (map (item_key key) b)
    \<and> map (item_key key) xs = map (item_key key) a
        @ filter (\<lambda>k. k \<notin> set (map (item_key key) a)) (map (item_key key) b)
    \<and> (\<forall>i. item_merged E rules p i (item_at key a i) (item_at key b i) (item_at key xs i))"
proof -
  have "strategy rules p (JArray a) (JArray b) = MergeById key"
    using assms(2) by (simp add: strategy_def)
  moreover have "\<not> is_null (JArray a)" by (simp add: is_null_def)
  ultimately obtain pos xs where xs: "r = Some (JArray xs)"
    "indexed key a pos" "merge_items E rules p key a pos [] b = Inr xs"
    using merge_by_id_run [OF assms(1)] is_delete_array by (metis json.inject(4))
  from merge_items_Ok [OF xs(3,2)] assms(3) xs show ?thesis by (auto simp: indexed_def)
qed

section \<open>Idempotence\<close>

fun marker_free :: "json \<Rightarrow> bool" where
  "marker_free (JArray xs) = list_all marker_free xs"
| "marker_free (JObject m) = (\<not> is_delete (JObject m) \<and> list_all (\<lambda>(k, x). marker_free x) m)"
| "marker_free _ = True"

lemma marker_free_not_delete: "marker_free v \<Longrightarrow> \<not> is_delete v"
  by (cases v) (simp_all add: is_delete_def)

lemma size_entry: "(k, x) \<in> set m \<Longrightarrow> size x < size (JObject m)"
  using size_list_estimation' [of "(k, x)" m "size x" "size_prod (\<lambda>_. 0) size"] by simp

lemma size_item: "x \<in> set xs \<Longrightarrow> size x < size (JArray xs)"
  using size_list_estimation' [of x xs "size x" size] by simp

lemma items_eqI:
  assumes "map (item_key key) xs = map (item_key key) ys" "distinct (map (item_key key) ys)"
    and "None \<notin> set (map (item_key key) ys)" "\<And>i. item_at key xs i = item_at key ys i"
  shows "xs = ys"
proof (rule nth_equalityI)
  show len: "length xs = length ys" using arg_cong [OF assms(1), of length] by simp
  fix n assume n: "n < length xs"
  then have k: "item_key key (xs ! n) = item_key key (ys ! n)"
    using arg_cong [OF assms(1), of "\<lambda>l. l ! n"] len by simp
  have "item_key key (ys ! n) \<in> set (map (item_key key) ys)" using n len by simp
  then obtain i where i: "item_key key (ys ! n) = Some i"
    using assms(3) by (metis not_None_eq)
  have "item_at key xs i = Some (xs ! n)" "item_at key ys i = Some (ys ! n)"
    using item_at_nth [of key _ n i] n len i k assms(1,2) by simp_all
  then show "xs ! n = ys ! n" using assms(4) [of i] by simp
qed

lemma merge_idempotent:
  "merge_value E rules v v p = Inr r \<Longrightarrow> wf_json v \<Longrightarrow> marker_free v \<Longrightarrow> r = Some v"
proof (induction v arbitrary: p r rule: measure_induct_rule [of size])
  case (less v)
  have live: "\<not> is_delete v" by (rule marker_free_not_delete [OF less.prems(3)])
  show ?case
  proof (cases "is_null v")
    case True
    then show ?thesis using less.prems live by (simp add: merge_value.simps)
  next
    case False
    show ?thesis
    proof (cases "strategy rules p v v")
      case Replace
      then show ?thesis using less.prems live False by (simp add: merge_value.simps)
    next
      case RecursiveMap
      with less.prems(1) live False obtain m m' where m: "v = JObject m"
        "merge_entries E rules m m p = Inr m'" "r = Some (JObject m')"
        by (auto simp: merge_value.simps [of _ _ v] result_simps split: option.splits json.splits)
      have wf: "bt_wf m" using less.prems(2) m by simp
      have "bt_get m' k = bt_get m k" for k
      proof (cases "bt_get m k")
        case None
        then show ?thesis
          using merge_entries_lookup(1) [OF m(2) bt_wf_distinct [OF wf]] by (simp add: bt_get_def)
      next
        case (Some x)
        then have x: "(k, x) \<in> set m" by (rule bt_get_SomeD)
        have "merge_value E rules x x (child_pointer p k) = Inr (bt_get m' k)"
          using merge_entries_lookup(2) [OF m(2) bt_wf_distinct [OF wf], of k x] Some
          by (simp add: bt_get_def get_or_null_def)
        moreover have "wf_json x" "marker_free x"
          using less.prems x m by (auto simp: list_all_iff)
        ultimately show ?thesis using less.IH [of x] size_entry [OF x] m Some by simp
      qed
      then show ?thesis using bt_get_eqI [OF merge_entries_wf [OF m(2) wf] wf] m by simp
    next
      case SetUnion
      then obtain w where w: "merge_set_union E v v p = Inr w" "r = Some w"
        using less.prems live False by (auto simp: merge_value.simps result_simps)
      from merge_set_union_Ok [OF w(1)] obtain a new where
        "v = JArray a" "w = JArray (a @ new)" "set new \<subseteq> set a - set a" by auto
      then show ?thesis using w by simp
    next
      case (MergeById key)
      from merge_by_id_run [OF less.prems(1) MergeById live False] obtain a b pos xs where
        "v = JArray a" "v = JArray b" "r = Some (JArray xs)" "indexed key a pos"
        "merge_items E rules p key a pos [] b = Inr xs" .
      then have a: "v = JArray a" "r = Some (JArray xs)" "indexed key a pos"
        "merge_items E rules p key a pos [] a = Inr xs" by simp_all
      have idx: "None \<notin> set (map (item_key key) a)" "distinct (map (item_key key) a)"
        using a(3) by (auto simp: indexed_def)
      have run: "map (item_key key) xs = map (item_key key) a
          @ filter (\<lambda>k. k \<notin> set (map (item_key key) a)) (map (item_key key) a)"
        "item_merged E rules p i (item_at key a i) (item_at key a i) (item_at key xs i)" for i
        using merge_items_Ok [OF a(4,3)] less.prems(2) a(1) by auto
      have "item_at key xs i = item_at key a i" for i
      proof (cases "item_at key a i")
        case None
        then show ?thesis using run(2) [of i] by (simp add: item_merged_def)
      next
        case (Some x)
        then have x: "x \<in> set a" by (rule item_at_SomeD [THEN conjunct1])
        have "merge_value E rules x x (p @ ''/'' @ i) = Inr (item_at key xs i)"
          using run(2) [of i] Some by (simp add: item_merged_def)
        moreover have "wf_json x" "marker_free x"
          using less.prems x a by (auto simp: list_all_iff)
        ultimately show ?thesis using less.IH [of x] size_item [OF x] a Some by simp
      qed
      moreover have "map (item_key key) xs = map (item_key key) a"
        using run(1) by (simp add: filter_empty_conv)
      ultimately show ?thesis using items_eqI [OF _ idx(2,1)] a by simp
    qed
  qed
qed

section \<open>Denied paths\<close>

definition object_field :: "string \<Rightarrow> json \<Rightarrow> json option" where
  "object_field k v = Option.bind (as_object v) (\<lambda>m. bt_get m k)"

definition denied_paths :: "json \<Rightarrow> json list" where
  "denied_paths spec =
     (case Option.bind (object_field ''securityPolicy'' spec) (object_field ''deniedPaths'') of
        Some (JArray xs) \<Rightarrow> xs | _ \<Rightarrow> [])"

definition denies :: "env \<Rightarrow> json \<Rightarrow> json \<Rightarrow> bool" where
  "denies E spec x \<longleftrightarrow> list_ex (\<lambda>y. env_jcs E y = env_jcs E x) (denied_paths spec)"

lemma denies_iff:
  "denies E spec x \<longleftrightarrow> (\<exists>m n xs y. spec = JObject m \<and> bt_get m ''securityPolicy'' = Some (JObject n)
     \<and> bt_get n ''deniedPaths'' = Some (JArray xs) \<and> y \<in> set xs \<and> env_jcs E y = env_jcs E x)"
proof -
  have "y \<in> set (denied_paths spec) \<longleftrightarrow> (\<exists>m n xs. spec = JObject m
     \<and> bt_get m ''securityPolicy'' = Some (JObject n) \<and> bt_get n ''deniedPaths'' = Some (JArray xs)
     \<and> y \<in> set xs)" for y
    unfolding denied_paths_def object_field_def
    by (cases spec) (auto split: option.splits json.splits bind_splits, metis)
  then show ?thesis unfolding denies_def list_ex_iff by blast
qed

lemma v1_strategies:
  "bt_get (strategies v1_merge_rules) p =
     (if p = ''/packages'' then Some (MergeById ''id'')
      else if p = ''/capabilities/styleguide'' then Some Replace
      else if p = ''/securityPolicy/deniedPaths'' then Some SetUnion else None)"
  by (simp add: v1_merge_rules_def with_strategy_def merge_rules_new_def bt_get_insert)
     (simp add: bt_get_def)

lemma v1_deletable [simp]: "deletable v1_merge_rules = []"
  by (simp add: v1_merge_rules_def with_strategy_def merge_rules_new_def)

lemma v1_pointers:
  "child_pointer [] ''securityPolicy'' = ''/securityPolicy''"
  "child_pointer ''/securityPolicy'' ''deniedPaths'' = ''/securityPolicy/deniedPaths''"
  by (simp_all add: child_pointer_def escape_pointer_def replace_char_def)

lemma v1_not_delete: "merge_value E v1_merge_rules b v p = Inr r \<Longrightarrow> \<not> is_delete v"
  by (simp add: merge_value.simps split: if_splits)

lemma merge_objects:
  assumes "merge_value E rules (JObject m) (JObject n) p = Inr r" "\<not> is_delete (JObject n)"
    and "bt_get (strategies rules) p = None"
  obtains m' where "r = Some (JObject m')" "merge_entries E rules m n p = Inr m'"
  using assms by (auto simp: merge_value.simps [of _ _ "JObject m"] strategy_def is_object_def is_null_def
      result_simps)

lemma denied_paths_merge:
  assumes "merge_value E v1_merge_rules b z ''/securityPolicy/deniedPaths'' = Inr r"
    and "b = JArray xs \<and> x \<in> set xs \<or> z = JArray ys \<and> x \<in> set ys"
  shows "\<exists>zs. r = Some (JArray zs) \<and> (\<exists>y\<in>set zs. env_jcs E y = env_jcs E x)"
proof (cases "b = JNull")
  case True
  then show ?thesis using assms by (auto simp: merge_value.simps is_null_def split: if_splits)
next
  case False
  with assms(1) obtain w where w: "merge_set_union E b z ''/securityPolicy/deniedPaths'' = Inr w"
      "r = Some w"
    by (auto simp: merge_value.simps strategy_def v1_strategies is_null_def result_simps split: if_splits)
  from merge_set_union_Ok [OF w(1)] w(2) assms(2) show ?thesis by auto
qed

lemma merge_onto_other:
  assumes "merge_value E rules b (JObject n) p = Inr r" "\<not> is_object b" "\<not> is_delete (JObject n)"
    and "bt_get (strategies rules) p = None"
  shows "r = Some (JObject n)"
  using assms by (auto simp: merge_value.simps strategy_def split: if_splits)

lemma denies_merge:
  assumes run: "merge_value E v1_merge_rules (JObject m) (JObject n) [] = Inr r"
    and wf: "wf_json (JObject n)"
    and policy: "\<And>q. bt_get n ''securityPolicy'' = Some q \<Longrightarrow> is_object q"
    and denied: "denies E (JObject m) x \<or> denies E (JObject n) x"
  shows "\<exists>v. r = Some v \<and> denies E v x"
proof -
  have none: "bt_get (strategies v1_merge_rules) [] = None"
    "bt_get (strategies v1_merge_rules) ''/securityPolicy'' = None" by (simp_all add: v1_strategies)
  from merge_objects [OF run v1_not_delete [OF run] none(1)] obtain m' where
    m': "r = Some (JObject m')" "merge_entries E v1_merge_rules m n [] = Inr m'" .
  have n: "distinct (map fst n)" using wf by (simp add: bt_wf_distinct)
  note look = merge_entries_lookup [OF m'(2) n]
  have "denies E (JObject m') x"
  proof (cases "bt_get n ''securityPolicy''")
    case None
    then have "bt_get m' ''securityPolicy'' = bt_get m ''securityPolicy''"
      using look(1) by (simp add: bt_get_def)
    then show ?thesis using denied None by (auto simp: denies_iff)
  next
    case (Some sp)
    then obtain q where q: "sp = JObject q" using policy [OF Some] by (auto simp: is_object_def)
    have wfq: "distinct (map fst q)"
      using wf bt_get_SomeD [OF Some] q by (auto simp: bt_wf_distinct)
    have sub: "merge_value E v1_merge_rules (get_or_null m ''securityPolicy'') (JObject q)
        ''/securityPolicy'' = Inr (bt_get m' ''securityPolicy'')"
      using look(2) [of "''securityPolicy''"] Some q by (simp add: bt_get_def v1_pointers)
    show ?thesis
    proof (cases "is_object (get_or_null m ''securityPolicy'')")
      case False
      then have "bt_get m' ''securityPolicy'' = Some (JObject q)"
        using merge_onto_other [OF sub _ v1_not_delete [OF sub] none(2)] by simp
      moreover have "\<not> denies E (JObject m) x"
        using False by (auto simp: denies_iff get_or_null_def is_object_def)
      ultimately show ?thesis using denied Some q by (auto simp: denies_iff)
    next
      case True
      then obtain b where b: "get_or_null m ''securityPolicy'' = JObject b" by (auto simp: is_object_def)
      from merge_objects [OF sub [unfolded b] v1_not_delete [OF sub] none(2)] obtain q' where
        q': "bt_get m' ''securityPolicy'' = Some (JObject q')"
          "merge_entries E v1_merge_rules b q ''/securityPolicy'' = Inr q'" .
      note inner = merge_entries_lookup [OF q'(2) wfq]
      have base: "bt_get m ''securityPolicy'' = Some (JObject b)"
        using b by (auto simp: get_or_null_def split: option.splits)
      show ?thesis
      proof (cases "bt_get q ''deniedPaths''")
        case None
        then have "bt_get q' ''deniedPaths'' = bt_get b ''deniedPaths''"
          using inner(1) by (simp add: bt_get_def)
        then show ?thesis using denied None base q' Some q by (auto simp: denies_iff)
      next
        case (Some z)
        then have "merge_value E v1_merge_rules (get_or_null b ''deniedPaths'') z
            ''/securityPolicy/deniedPaths'' = Inr (bt_get q' ''deniedPaths'')"
          using inner(2) [of "''deniedPaths''"] by (simp add: bt_get_def v1_pointers)
        note union = denied_paths_merge [OF this]
        from denied show ?thesis
        proof
          assume "denies E (JObject m) x"
          then obtain xs y where y: "bt_get b ''deniedPaths'' = Some (JArray xs)" "y \<in> set xs"
            "env_jcs E y = env_jcs E x" using base by (auto simp: denies_iff)
          then obtain zs u where "bt_get q' ''deniedPaths'' = Some (JArray zs)" "u \<in> set zs"
            "env_jcs E u = env_jcs E y"
            using union [of xs y] by (auto simp: get_or_null_def)
          then show ?thesis using q' y by (auto simp: denies_iff)
        next
          assume "denies E (JObject n) x"
          then obtain ys y where y: "z = JArray ys" "y \<in> set ys" "env_jcs E y = env_jcs E x"
            using \<open>bt_get n ''securityPolicy'' = Some sp\<close> q Some by (auto simp: denies_iff)
          then obtain zs u where "bt_get q' ''deniedPaths'' = Some (JArray zs)" "u \<in> set zs"
            "env_jcs E u = env_jcs E y"
            using union [of _ y ys] by auto
          then show ?thesis using q' y by (auto simp: denies_iff)
        qed
      qed
    qed
  qed
  then show ?thesis using m' by blast
qed

end
