(* ===== verification/Compose_Facts.thy ===== *)
theory Compose_Facts
  imports Config_Compose Merge_Laws
begin

text \<open>
  Facts about layer sets and their composition: when a set is accepted, the leaves of a
  specification as the reference for the collected contributions, and the denied paths of every
  layer under composition.
\<close>

section \<open>Layer sets\<close>

lemma check_layers_Ok:
  "check_layers D layers seen = Inr r \<longleftrightarrow>
     (\<forall>l\<in>set layers. validate_v1_spec D (ly_spec l) = Inr ()) \<and> distinct (map ly_kind layers)
     \<and> set (map ly_kind layers) \<inter> set seen = {} \<and> r = rev (map ly_kind layers) @ seen"
  by (induction layers arbitrary: seen) (auto simp: result_simps)

lemma layer_set_new_Ok:
  "layer_set_new D layers = Inr s \<longleftrightarrow>
     (\<forall>l\<in>set layers. validate_v1_spec D (ly_spec l) = Inr ()) \<and> distinct (map ly_kind layers)
     \<and> {PublicBase, OrganizationPolicy} \<subseteq> ly_kind ` set layers
     \<and> s = LayerSet (sort_key (\<lambda>l. precedence (ly_kind l)) layers)"
  by (auto simp: layer_set_new_def result_simps check_layers_Ok)

lemma precedence_inj: "precedence a = precedence b \<Longrightarrow> a = b"
  by (cases a; cases b) simp_all

lemma layer_set_new_perm:
  assumes "layer_set_new D xs = Inr s" "mset ys = mset xs"
  shows "layer_set_new D ys = Inr s"
proof -
  have set: "set ys = set xs" using assms(2) by (rule mset_eq_setD)
  from assms(1) have ok: "\<forall>l\<in>set xs. validate_v1_spec D (ly_spec l) = Inr ()" "distinct (map ly_kind xs)"
    "{PublicBase, OrganizationPolicy} \<subseteq> ly_kind ` set xs"
    "s = LayerSet (sort_key (\<lambda>l. precedence (ly_kind l)) xs)"
    unfolding layer_set_new_Ok by auto
  have inj: "inj_on (\<lambda>l. precedence (ly_kind l)) (set xs)"
    using ok(2) precedence_inj by (auto simp: distinct_map inj_on_def)
  have "distinct (map ly_kind ys)"
    using ok(2) assms(2) mset_eq_imp_distinct_iff [of "map ly_kind ys" "map ly_kind xs"] by simp
  moreover have "sort_key (\<lambda>l. precedence (ly_kind l)) ys = sort_key (\<lambda>l. precedence (ly_kind l)) xs"
    by (rule sort_key_perm [OF assms(2)]) (simp add: set inj)
  moreover have "\<forall>l\<in>set ys. validate_v1_spec D (ly_spec l) = Inr ()"
    "{PublicBase, OrganizationPolicy} \<subseteq> ly_kind ` set ys"
    using ok(1,3) unfolding set by blast+
  ultimately show ?thesis using ok(4) unfolding layer_set_new_Ok by simp
qed

section \<open>Leaves of a specification\<close>

text \<open>The leaves of a value, each with the keys that lead to it.\<close>

fun leaves :: "json \<Rightarrow> (string list \<times> json) list"
  and entry_leaves :: "(string \<times> json) list \<Rightarrow> (string list \<times> json) list" where
  "leaves (JObject m) =
     (if m \<noteq> [] \<and> \<not> is_delete (JObject m) then entry_leaves m else [([], JObject m)])"
| "leaves v = [([], v)]"
| "entry_leaves [] = []"
| "entry_leaves ((k, v) # m) = map (\<lambda>(ks, x). (k # ks, x)) (leaves v) @ entry_leaves m"

definition key_pointer :: "string \<Rightarrow> string list \<Rightarrow> string" where
  "key_pointer p ks = foldl child_pointer p ks"

lemma key_pointer_simps [simp]:
  "key_pointer p [] = p" "key_pointer p (k # ks) = key_pointer (child_pointer p k) ks"
  by (simp_all add: key_pointer_def)

lemma key_pointer_snoc: "key_pointer p (ks @ [k]) = child_pointer (key_pointer p ks) k"
  by (simp add: key_pointer_def)

lemma child_pointer_not_Nil [simp]: "child_pointer p k \<noteq> []" "[] \<noteq> child_pointer p k"
  by (simp_all add: child_pointer_def)

lemma key_pointer_inj: "key_pointer [] ks = key_pointer [] ls \<longleftrightarrow> ks = ls"
proof (induction ks arbitrary: ls rule: rev_induct)
  case Nil
  then show ?case by (cases ls rule: rev_cases) (auto simp: key_pointer_snoc)
next
  case (snoc k ks)
  then show ?case by (cases ls rule: rev_cases) (auto simp: key_pointer_snoc)
qed

lemma entry_leaves_keys: "ks \<in> fst ` set (entry_leaves m) \<Longrightarrow> \<exists>k ls. ks = k # ls \<and> k \<in> fst ` set m"
  by (induction m) (force simp: image_iff)+

lemma distinct_leaves:
  "wf_json v \<Longrightarrow> distinct (map fst (leaves v))"
  "distinct (map fst m) \<Longrightarrow> \<forall>(k, x)\<in>set m. wf_json x \<Longrightarrow> distinct (map fst (entry_leaves m))"
proof (induction v and m rule: leaves_entry_leaves.induct)
  fix k v m
  assume ih: "wf_json v \<Longrightarrow> distinct (map fst (leaves v))"
    "distinct (map fst m) \<Longrightarrow> \<forall>(k, x)\<in>set m. wf_json x \<Longrightarrow> distinct (map fst (entry_leaves m))"
    and prems: "distinct (map fst ((k, v) # m))" "\<forall>(k, x)\<in>set ((k, v) # m). wf_json x"
  have 1: "distinct (map fst (leaves v))" "distinct (map fst (entry_leaves m))"
    using ih prems by auto
  have "map fst (map (\<lambda>(ks, x). (k # ks, x)) (leaves v)) = map ((#) k) (map fst (leaves v))"
    by (simp add: split_beta comp_def)
  moreover have "distinct (map ((#) k) (map fst (leaves v)))"
    using 1 by (simp only: distinct_map [of "(#) k"]) simp
  moreover have "ks \<notin> fst ` set (entry_leaves m)" if "ks \<in> set (map ((#) k) (map fst (leaves v)))" for ks
    using that entry_leaves_keys [of ks m] prems(1) by auto
  ultimately show "distinct (map fst (entry_leaves ((k, v) # m)))"
    using 1 by (simp del: map_map) blast
qed (auto simp: bt_wf_distinct)

text \<open>The contributions of the leaves of one layer, recorded one after the other.\<close>

fun record_leaves ::
  "env \<Rightarrow> string \<Rightarrow> (string list \<times> json) list \<Rightarrow> json \<Rightarrow> layer_document \<Rightarrow> contributions
   \<Rightarrow> contract_error + contributions" where
  "record_leaves E p [] current layer cs = Ok cs"
| "record_leaves E p ((ks, x) # ls) current layer cs =
     and_then (record_contribution E x (key_pointer p ks) current layer cs)
       (\<lambda>cs. record_leaves E p ls current layer cs)"

lemma record_leaves_append:
  "record_leaves E p (ls @ ms) current layer cs =
     and_then (record_leaves E p ls current layer cs) (\<lambda>cs. record_leaves E p ms current layer cs)"
proof (induction ls arbitrary: cs)
  case (Cons l ls)
  then show ?case
    by (cases l) (auto split: sum.splits simp: and_then_def)
qed simp

lemma record_leaves_Cons_key:
  "record_leaves E p (map (\<lambda>(ks, x). (k # ks, x)) ls) current layer cs =
     record_leaves E (child_pointer p k) ls current layer cs"
  by (induction ls arbitrary: cs) (auto intro!: ext arg_cong [where f = "and_then _"])

lemma collect_leaves:
  "collect_contributions E v p current layer cs = record_leaves E p (leaves v) current layer cs"
  "collect_entries E m p current layer cs = record_leaves E p (entry_leaves m) current layer cs"
  by (induction v and m arbitrary: p cs and p cs rule: leaves_entry_leaves.induct)
     (auto simp: record_leaves_append record_leaves_Cons_key and_then_def split: sum.splits)

text \<open>What one layer contributes at a pointer, apart from the kind of the operation.\<close>

type_synonym share = "stable_id \<times> layer_kind \<times> source_metadata \<times> (contract_error + sha256_digest option)"

definition leaf_digest :: "env \<Rightarrow> json \<Rightarrow> contract_error + sha256_digest option" where
  "leaf_digest E x = (if is_delete x then Ok None else and_then (digest_json E x) (\<lambda>d. Ok (Some d)))"

definition share_of :: "contribution \<Rightarrow> share" where
  "share_of c = (ct_layer_id c, ct_layer_kind c, ct_source c, Ok (ct_value_digest c))"

definition layer_shares :: "env \<Rightarrow> (string list \<times> json) list \<Rightarrow> string list \<Rightarrow> layer_document \<Rightarrow> share list" where
  "layer_shares E ls ks layer = (case map_of ls ks of
     None \<Rightarrow> [] | Some x \<Rightarrow> [(ly_id layer, ly_kind layer, ly_source layer, leaf_digest E x)])"

definition at_pointer :: "contributions \<Rightarrow> string \<Rightarrow> contribution list" where
  "at_pointer cs p = (case bt_get cs p of None \<Rightarrow> [] | Some c \<Rightarrow> c)"

lemma record_contribution_Ok:
  assumes "record_contribution E x p current layer cs = Inr cs'" "p \<noteq> []" "bt_wf cs"
  shows "bt_wf cs' \<and> map share_of (at_pointer cs' q) = map share_of (at_pointer cs q)
    @ (if q = p then [(ly_id layer, ly_kind layer, ly_source layer, leaf_digest E x)] else [])
    \<and> (\<forall>q. bt_get cs' q = Some [] \<longrightarrow> bt_get cs q = Some [])"
proof -
  from assms(1,2) obtain op d where d: "leaf_digest E x = Inr d"
    "cs' = bt_insert p (at_pointer cs p @ [\<lparr>ct_layer_id = ly_id layer, ct_layer_kind = ly_kind layer,
       ct_source = ly_source layer, ct_operation = op, ct_value_digest = d\<rparr>]) cs"
    by (auto simp: record_contribution_def Let_def result_simps leaf_digest_def at_pointer_def
        split: if_splits)
  then show ?thesis
    using assms(3) by (auto simp: at_pointer_def bt_get_insert bt_wf_insert share_of_def split: option.splits)
qed

lemma record_leaves_Ok:
  assumes "record_leaves E [] ls current layer cs = Inr cs'" "distinct (map fst ls)" "bt_wf cs"
    and "[] \<notin> fst ` set ls"
  shows "bt_wf cs' \<and> map share_of (at_pointer cs' (key_pointer [] ks))
      = map share_of (at_pointer cs (key_pointer [] ks)) @ layer_shares E ls ks layer
    \<and> (\<forall>q. bt_get cs' q = Some [] \<longrightarrow> bt_get cs q = Some [])
    \<and> (\<forall>q. q \<notin> key_pointer [] ` (- {[]}) \<longrightarrow> at_pointer cs' q = [] \<longleftrightarrow> at_pointer cs q = [])"
  using assms
proof (induction ls arbitrary: cs)
  case Nil
  then show ?case by (simp add: layer_shares_def)
next
  case (Cons l ls)
  obtain ls0 x where l: "l = (ls0, x)" by (cases l)
  from Cons.prems(1) obtain c1 where c1: "record_contribution E x (key_pointer [] ls0) current layer cs = Inr c1"
    "record_leaves E [] ls current layer c1 = Inr cs'"
    by (auto simp: l result_simps)
  have ne: "key_pointer [] ls0 \<noteq> []"
    using Cons.prems(4) key_pointer_inj [of ls0 "[]"] by (auto simp: l)
  note one = record_contribution_Ok [OF c1(1) ne Cons.prems(3)]
  have fresh: "map_of ls ls0 = None"
    using Cons.prems(2) by (auto simp: l map_of_eq_None_iff)
  have "bt_wf c1" using one by blast
  note ih = Cons.IH [OF c1(2) _ this]
  have 1: "map share_of (at_pointer c1 (key_pointer [] ks)) = map share_of (at_pointer cs (key_pointer [] ks))
      @ (if ks = ls0 then [(ly_id layer, ly_kind layer, ly_source layer, leaf_digest E x)] else [])"
    using one by (simp add: key_pointer_inj)
  have 2: "at_pointer c1 q = [] \<longleftrightarrow> at_pointer cs q = []" if "q \<notin> key_pointer [] ` (- {[]})" for q
  proof -
    have "ls0 \<noteq> []" using Cons.prems(4) by (auto simp: l)
    then have "q \<noteq> key_pointer [] ls0" using that by auto
    then have "map share_of (at_pointer c1 q) = map share_of (at_pointer cs q)" using one by simp
    then show ?thesis by (metis map_is_Nil_conv)
  qed
  have "layer_shares E (l # ls) ks layer =
      (if ks = ls0 then [(ly_id layer, ly_kind layer, ly_source layer, leaf_digest E x)] else [])
      @ layer_shares E ls ks layer"
    using fresh by (auto simp: layer_shares_def l)
  then show ?case using ih 1 2 one Cons.prems(2,4) by (auto simp: l)
qed

end
