(* ===== verification/Compose_Laws.thy ===== *)
theory Compose_Laws
  imports Compose_Facts
begin

text \<open>
  What a composition guarantees: the trace lists, for every leaf, the layers that set it in order of
  precedence; the denied paths of every layer are kept; the content digest of a layer binds every
  field but itself.
\<close>

section \<open>The trace\<close>

definition pointer_shares :: "env \<Rightarrow> layer_document list \<Rightarrow> string list \<Rightarrow> share list" where
  "pointer_shares E layers ks = concat (map (\<lambda>l. layer_shares E (leaves (ly_spec l)) ks l) layers)"

lemma record_leaves_proper:
  "record_leaves E [] ls current layer cs =
     record_leaves E [] (filter (\<lambda>(ks, x). ks \<noteq> []) ls) current layer cs"
proof (induction ls arbitrary: cs)
  case (Cons l ls)
  then show ?case
    by (cases l) (auto simp: record_contribution_def intro!: ext arg_cong [where f = "and_then _"])
qed simp

lemma layer_shares_proper:
  assumes "ks \<noteq> []"
  shows "layer_shares E (filter (\<lambda>(ks, x). ks \<noteq> []) ls) ks layer = layer_shares E ls ks layer"
proof -
  have "map_of (filter (\<lambda>(ks, x). ks \<noteq> []) ls) ks = map_of ls ks"
    using assms by (induction ls) auto
  then show ?thesis by (simp add: layer_shares_def)
qed

lemma collect_shares:
  assumes "collect_contributions E v [] current layer cs = Inr cs'" "wf_json v" "bt_wf cs"
  shows "bt_wf cs'"
    and "ks \<noteq> [] \<Longrightarrow> map share_of (at_pointer cs' (key_pointer [] ks))
      = map share_of (at_pointer cs (key_pointer [] ks)) @ layer_shares E (leaves v) ks layer"
    and "bt_get cs' q = Some [] \<Longrightarrow> bt_get cs q = Some []"
    and "q \<notin> key_pointer [] ` (- {[]}) \<Longrightarrow> at_pointer cs' q = [] \<longleftrightarrow> at_pointer cs q = []"
proof -
  let ?ls = "filter (\<lambda>(ks, x). ks \<noteq> []) (leaves v)"
  have run: "record_leaves E [] ?ls current layer cs = Inr cs'"
    using assms(1) unfolding collect_leaves record_leaves_proper [of E "leaves v"] .
  have d: "distinct (map fst ?ls)"
    using distinct_leaves(1) [OF assms(2)] by (rule distinct_map_filter)
  have ne: "[] \<notin> fst ` set ?ls" by auto
  note ok = record_leaves_Ok [OF run d assms(3) ne]
  show "bt_wf cs'" using ok by blast
  show "bt_get cs' q = Some [] \<Longrightarrow> bt_get cs q = Some []" using ok by blast
  show "q \<notin> key_pointer [] ` (- {[]}) \<Longrightarrow> at_pointer cs' q = [] \<longleftrightarrow> at_pointer cs q = []" using ok by blast
  show "ks \<noteq> [] \<Longrightarrow> map share_of (at_pointer cs' (key_pointer [] ks))
      = map share_of (at_pointer cs (key_pointer [] ks)) @ layer_shares E (leaves v) ks layer"
    using ok layer_shares_proper [of ks E "leaves v" layer] by metis
qed

lemma compose_loop_shares:
  assumes "compose_loop E rules layers spec cs = Inr (spec', cs')" "\<forall>l\<in>set layers. wf_json (ly_spec l)"
    and "bt_wf cs"
  shows "bt_wf cs'"
    and "ks \<noteq> [] \<Longrightarrow> map share_of (at_pointer cs' (key_pointer [] ks))
      = map share_of (at_pointer cs (key_pointer [] ks)) @ pointer_shares E layers ks"
    and "bt_get cs' q = Some [] \<Longrightarrow> bt_get cs q = Some []"
    and "q \<notin> key_pointer [] ` (- {[]}) \<Longrightarrow> at_pointer cs' q = [] \<longleftrightarrow> at_pointer cs q = []"
proof -
  have "bt_wf cs' \<and> (ks \<noteq> [] \<longrightarrow> map share_of (at_pointer cs' (key_pointer [] ks))
      = map share_of (at_pointer cs (key_pointer [] ks)) @ pointer_shares E layers ks)
    \<and> (bt_get cs' q = Some [] \<longrightarrow> bt_get cs q = Some [])
    \<and> (q \<notin> key_pointer [] ` (- {[]}) \<longrightarrow> (at_pointer cs' q = [] \<longleftrightarrow> at_pointer cs q = []))"
    using assms
  proof (induction layers arbitrary: spec cs)
    case Nil
    then show ?case by (simp add: pointer_shares_def)
  next
    case (Cons l layers)
    then obtain c1 s1 where c1: "collect_contributions E (ly_spec l) [] spec l cs = Inr c1"
      "compose_loop E rules layers s1 c1 = Inr (spec', cs')"
      by (auto simp: result_simps)
    have wf: "wf_json (ly_spec l)" using Cons.prems(2) by simp
    note one = collect_shares [OF c1(1) wf Cons.prems(3)]
    note ih = Cons.IH [OF c1(2) _ one(1)]
    show ?case using ih Cons.prems(2) one(2) [of ks] one(3) [of q] one(4) [of q]
      by (simp add: pointer_shares_def)
  qed
  then show "bt_wf cs'"
    and "ks \<noteq> [] \<Longrightarrow> map share_of (at_pointer cs' (key_pointer [] ks))
      = map share_of (at_pointer cs (key_pointer [] ks)) @ pointer_shares E layers ks"
    and "bt_get cs' q = Some [] \<Longrightarrow> bt_get cs q = Some []"
    and "q \<notin> key_pointer [] ` (- {[]}) \<Longrightarrow> at_pointer cs' q = [] \<longleftrightarrow> at_pointer cs q = []" by auto
qed

lemma map_of_rev_distinct:
  assumes "distinct (map fst m)"
  shows "map_of (rev m) k = map_of m k"
proof -
  have "distinct (map fst (rev m))" using assms by (simp add: rev_map [symmetric])
  then have "map_of (rev m) k = Some v \<longleftrightarrow> map_of m k = Some v" for v
    using assms by (simp add: map_of_eq_Some_iff)
  then show ?thesis by (metis not_None_eq)
qed

lemma trace_entries_lookup:
  assumes "bt_wf cs"
  shows "bt_get (trace_entries rules cs) p = (if at_pointer cs p = [] then None
     else Some \<lparr>te_winner = last (at_pointer cs p), te_contributions = at_pointer cs p,
       te_governing_rules = governing_rules rules p\<rparr>)"
proof -
  let ?entry = "\<lambda>p c. \<lparr>te_winner = last c, te_contributions = c, te_governing_rules = governing_rules rules p\<rparr>"
  let ?f = "\<lambda>(p, c). if c = [] then None else Some (p, ?entry p c)"
  have keys: "fst ` set (List.map_filter ?f m) \<subseteq> fst ` set m" for m
    by (auto simp: List.map_filter_def split: if_splits) force
  have d: "distinct (map fst m) \<Longrightarrow> distinct (map fst (List.map_filter ?f m))" for m
  proof (induction m)
    case (Cons a m)
    then show ?case using keys [of m] by (cases a) (auto simp: map_filter_simps)
  qed (simp add: map_filter_simps)
  have look: "distinct (map fst m) \<Longrightarrow> map_of (List.map_filter ?f m) p =
      (case map_of m p of None \<Rightarrow> None | Some c \<Rightarrow> if c = [] then None else Some (?entry p c))" for m
  proof (induction m)
    case (Cons a m)
    have "map_of (List.map_filter ?f m) k = None" if "k \<notin> fst ` set m" for k
      using that keys [of m] by (auto simp: map_of_eq_None_iff)
    then show ?case using Cons by (cases a) (auto simp: map_filter_simps split: option.splits)
  qed (simp add: map_filter_simps)
  have dc: "distinct (map fst cs)" using assms by (rule bt_wf_distinct)
  show ?thesis
    unfolding trace_entries_def bt_get_collect map_of_rev_distinct [OF d [OF dc]] look [OF dc]
    by (auto simp: at_pointer_def bt_get_def split: option.splits)
qed

lemma compose_layers_run:
  assumes "compose_layers E s rules = Inr res"
  obtains cs where "compose_loop E rules (set_layers s) (JObject []) [] = Inr (cr_spec res, cs)"
    "digest_json E (cr_spec res) = Inr (cr_spec_digest res)"
    "pt_entries (cr_trace res) = trace_entries rules cs" "pt_state_digest (cr_trace res) = cr_spec_digest res"
    "cl_layers (cr_lock res) = map locked_layer_of (set_layers s)"
    "cl_normalized_digest (cr_lock res) = cr_spec_digest res"
  using assms by (auto simp: compose_layers_def result_simps)

definition trace_explains :: "env \<Rightarrow> merge_rules \<Rightarrow> layer_document list \<Rightarrow> string list \<Rightarrow> trace_entry option \<Rightarrow> bool" where
  "trace_explains E rules layers ks entry \<longleftrightarrow> (case entry of
      None \<Rightarrow> pointer_shares E layers ks = []
    | Some t \<Rightarrow> map share_of (te_contributions t) = pointer_shares E layers ks
        \<and> te_contributions t \<noteq> [] \<and> te_winner t = last (te_contributions t)
        \<and> te_governing_rules t = governing_rules rules (key_pointer [] ks))"

lemma compose_trace:
  assumes "compose_layers E s rules = Inr res" "\<forall>l\<in>set (set_layers s). wf_json (ly_spec l)"
  shows "ks \<noteq> [] \<Longrightarrow> trace_explains E rules (set_layers s) ks
      (bt_get (pt_entries (cr_trace res)) (key_pointer [] ks))"
    and "bt_get (pt_entries (cr_trace res)) p \<noteq> None \<Longrightarrow> \<exists>ks. ks \<noteq> [] \<and> p = key_pointer [] ks"
proof -
  from compose_layers_run [OF assms(1)] obtain cs where cs:
    "compose_loop E rules (set_layers s) (JObject []) [] = Inr (cr_spec res, cs)"
    "pt_entries (cr_trace res) = trace_entries rules cs" by blast
  note sh = compose_loop_shares [OF cs(1) assms(2) bt_wf_Nil]
  note look = trace_entries_lookup [OF sh(1)]
  have empty: "at_pointer [] q = []" for q by (simp add: at_pointer_def bt_get_def)
  show "trace_explains E rules (set_layers s) ks (bt_get (pt_entries (cr_trace res)) (key_pointer [] ks))"
    if "ks \<noteq> []"
    using sh(2) [OF that] unfolding cs(2) look trace_explains_def empty by (auto simp: Nil_is_map_conv)
  show "\<exists>ks. ks \<noteq> [] \<and> p = key_pointer [] ks" if "bt_get (pt_entries (cr_trace res)) p \<noteq> None"
  proof -
    have ne: "at_pointer cs p \<noteq> []" using that unfolding cs(2) look by (auto split: if_splits)
    then show ?thesis using sh(4) [of p] empty by auto
  qed
qed

section \<open>Denied paths\<close>

lemma validate_v1_spec_shape:
  assumes "validate_v1_spec D spec = Inr ()"
  obtains n where "spec = JObject n" "\<And>q. bt_get n ''securityPolicy'' = Some q \<Longrightarrow> is_object q"
    "set (map fst n) \<subseteq> set V1_LAYER_SPEC_FIELDS"
proof -
  from assms obtain n where n: "spec = JObject n"
    "find (\<lambda>field. field \<notin> set V1_LAYER_SPEC_FIELDS) (map fst n) = None"
    "field_type ''securityPolicy'' is_object ''object'' n = Inr ()"
    by (auto simp: validate_v1_spec_def result_simps split: option.splits if_splits)
  have "is_object q" if "bt_get n ''securityPolicy'' = Some q" for q
    using n(3) that by (simp add: field_type_def split: if_splits)
  moreover have "set (map fst n) \<subseteq> set V1_LAYER_SPEC_FIELDS"
    using n(2) unfolding find_None_iff by blast
  ultimately show thesis using that n(1) by blast
qed

lemma compose_loop_denies:
  assumes "compose_loop E v1_merge_rules layers (JObject m) cs = Inr (spec', cs')"
    and "\<forall>l\<in>set layers. wf_json (ly_spec l) \<and> validate_v1_spec D (ly_spec l) = Inr ()"
    and "denies E (JObject m) x \<or> (\<exists>l\<in>set layers. denies E (ly_spec l) x)"
  shows "denies E spec' x"
  using assms
proof (induction layers arbitrary: m cs)
  case Nil
  then show ?case by simp
next
  case (Cons l layers)
  from Cons.prems(2) obtain n where n: "ly_spec l = JObject n" "wf_json (JObject n)"
    "\<And>q. bt_get n ''securityPolicy'' = Some q \<Longrightarrow> is_object q"
    by (metis list.set_intros(1) validate_v1_spec_shape)
  from Cons.prems(1) obtain c1 r where r:
    "merge_value E v1_merge_rules (JObject m) (JObject n) [] = Inr (Some r)"
    "compose_loop E v1_merge_rules layers r c1 = Inr (spec', cs')"
    by (auto simp: result_simps merge_specs_def n(1))
  have "bt_get (strategies v1_merge_rules) [] = None" by (simp add: v1_strategies)
  from merge_objects [OF r(1) v1_not_delete [OF r(1)] this] obtain m' where m': "r = JObject m'" by auto
  have "denies E r x" if "denies E (JObject m) x \<or> denies E (ly_spec l) x"
    using denies_merge [OF r(1) n(2,3)] that n(1) by simp
  then have "denies E (JObject m') x \<or> (\<exists>l\<in>set layers. denies E (ly_spec l) x)"
    using Cons.prems(3) m' by auto
  then show ?case using Cons.IH [OF r(2) [unfolded m']] Cons.prems(2) by simp
qed

lemma set_sort_layers [simp]: "layer_set_new D layers = Inr s \<Longrightarrow> set (set_layers s) = set layers"
  by (auto simp: layer_set_new_Ok)

lemma compose_keeps_denied:
  assumes "layer_set_new D layers = Inr s" "compose_layers E s v1_merge_rules = Inr res"
    and "\<forall>l\<in>set layers. wf_json (ly_spec l)" "l \<in> set layers" "x \<in> set (denied_paths (ly_spec l))"
  shows "denies E (cr_spec res) x"
proof -
  from compose_layers_run [OF assms(2)] obtain cs where cs:
    "compose_loop E v1_merge_rules (set_layers s) (JObject []) [] = Inr (cr_spec res, cs)" by blast
  have "\<forall>l\<in>set (set_layers s). wf_json (ly_spec l) \<and> validate_v1_spec D (ly_spec l) = Inr ()"
    using assms(1,3) by (auto simp: layer_set_new_Ok)
  moreover have "denies E (ly_spec l) x" using assms(5) by (auto simp: denies_def list_ex_iff)
  ultimately show ?thesis using compose_loop_denies [OF cs] assms(1,4) by auto
qed

section \<open>Content digests of layers\<close>

definition layer_image :: "layer_document \<Rightarrow> string \<times> json" where
  "layer_image l = (''commonkit.layer-content.v1'', the (without_content_digest (ser_layer l)))"

definition layer_content :: "layer_document \<Rightarrow> schema_version \<times> stable_id \<times> layer_kind
    \<times> portable_source_path \<times> git_revision option \<times> json" where
  "layer_content l = (ly_schema_version l, ly_id l, ly_kind l, sm_path (ly_source l),
     sm_revision (ly_source l), ly_spec l)"

lemma without_digest_ser:
  obtains m source where "without_content_digest (ser_layer l) = Some (JObject m)"
    "bt_get m ''schemaVersion'' = Some (json_u32 (schema_number (ly_schema_version l)))"
    "bt_get m ''id'' = Some (ser_stable_id (ly_id l))"
    "bt_get m ''kind'' = Some (JString (layer_kind_name (ly_kind l)))"
    "bt_get m ''spec'' = Some (ly_spec l)"
    "bt_get m ''source'' = Some (JObject source)"
    "bt_get source ''path'' = Some (JString (path_str (sm_path (ly_source l))))"
    "bt_get source ''revision'' = map_option (\<lambda>r. JString (revision_str r)) (sm_revision (ly_source l))"
  by (rule that)
     (auto simp: without_content_digest_def ser_layer_def ser_source_metadata_def json_struct_def
       bt_get_collect bt_contains_def opt_field_def bt_get_insert bt_get_remove split: option.splits)

lemma layer_image_binds:
  assumes "without_content_digest (ser_layer a) = without_content_digest (ser_layer b)"
  shows "layer_content a = layer_content b"
proof -
  obtain m s where m: "without_content_digest (ser_layer a) = Some (JObject m)"
    "bt_get m ''schemaVersion'' = Some (json_u32 (schema_number (ly_schema_version a)))"
    "bt_get m ''id'' = Some (ser_stable_id (ly_id a))"
    "bt_get m ''kind'' = Some (JString (layer_kind_name (ly_kind a)))"
    "bt_get m ''spec'' = Some (ly_spec a)" "bt_get m ''source'' = Some (JObject s)"
    "bt_get s ''path'' = Some (JString (path_str (sm_path (ly_source a))))"
    "bt_get s ''revision'' = map_option (\<lambda>r. JString (revision_str r)) (sm_revision (ly_source a))"
    by (rule without_digest_ser)
  obtain n t where n: "without_content_digest (ser_layer b) = Some (JObject n)"
    "bt_get n ''schemaVersion'' = Some (json_u32 (schema_number (ly_schema_version b)))"
    "bt_get n ''id'' = Some (ser_stable_id (ly_id b))"
    "bt_get n ''kind'' = Some (JString (layer_kind_name (ly_kind b)))"
    "bt_get n ''spec'' = Some (ly_spec b)" "bt_get n ''source'' = Some (JObject t)"
    "bt_get t ''path'' = Some (JString (path_str (sm_path (ly_source b))))"
    "bt_get t ''revision'' = map_option (\<lambda>r. JString (revision_str r)) (sm_revision (ly_source b))"
    by (rule without_digest_ser)
  have mn: "m = n" using m(1) n(1) assms by simp
  have st: "s = t" using m(6) n(6) mn by simp
  have "map_option revision_str (sm_revision (ly_source a)) = map_option revision_str (sm_revision (ly_source b))"
    using m(8) n(8) st by (cases "sm_revision (ly_source a)"; cases "sm_revision (ly_source b)") simp_all
  then have "sm_revision (ly_source a) = sm_revision (ly_source b)"
    by (cases "sm_revision (ly_source a)"; cases "sm_revision (ly_source b)") (auto intro: git_revision.expand)
  moreover have "schema_number (ly_schema_version a) = schema_number (ly_schema_version b)"
    using m(2) n(2) mn by simp
  moreover have "path_str (sm_path (ly_source a)) = path_str (sm_path (ly_source b))"
    using m(7) n(7) st by simp
  ultimately show ?thesis
    using m(3-5) n(3-5) mn
    by (simp add: layer_content_def schema_version.expand portable_source_path.expand)
qed

lemma layer_content_digest_image:
  "layer_content_digest E l = (case layer_image l of (d, v) \<Rightarrow> digest_domain_json E d v)"
  by (rule without_digest_ser [of l]) (simp add: layer_content_digest_def layer_image_def)

lemma without_digest_ignores:
  assumes "layer_content a = layer_content b"
  shows "without_content_digest (ser_layer a) = without_content_digest (ser_layer b)"
proof -
  let ?src = "\<lambda>l d. bt_remove ''contentDigest'' (bt_collect
     ([(''path'', JString (path_str (sm_path (ly_source l))))]
      @ opt_field ''revision'' (\<lambda>r. JString (revision_str r)) (sm_revision (ly_source l))
      @ [(''contentDigest'', ser_digest d)]))"
  have src: "?src a d = ?src b e" for d e
    by (rule bt_get_eqI)
       (use assms in \<open>auto simp: layer_content_def bt_wf_remove bt_get_remove bt_get_collect opt_field_def
          split: option.splits\<close>)
  show ?thesis
    using assms src [of "sm_content_digest (ly_source a)" "sm_content_digest (ly_source b)"]
    by (simp add: without_content_digest_def ser_layer_def json_struct_def bt_get_collect
       ser_source_metadata_def bt_contains_def layer_content_def)
       (rule bt_get_eqI, simp_all add: bt_wf_insert bt_get_insert bt_get_collect)
qed

lemma layer_digest_binds:
  assumes "digests_distinct_on E {layer_image a, layer_image b}"
  shows "layer_content_digest E a = layer_content_digest E b \<longleftrightarrow> layer_content a = layer_content b"
proof
  assume "layer_content_digest E a = layer_content_digest E b"
  then have "layer_image a = layer_image b"
    using digests_distinct_onD [OF assms, of "fst (layer_image a)" "snd (layer_image a)"
        "fst (layer_image b)" "snd (layer_image b)"]
    unfolding layer_content_digest_image by (simp add: split_beta prod_eq_iff)
  moreover obtain v w where "without_content_digest (ser_layer a) = Some v"
    "without_content_digest (ser_layer b) = Some w"
    using without_digest_ser [of a] without_digest_ser [of b] by metis
  ultimately show "layer_content a = layer_content b"
    by (intro layer_image_binds) (simp add: layer_image_def)
next
  assume "layer_content a = layer_content b"
  then show "layer_content_digest E a = layer_content_digest E b"
    unfolding layer_content_digest_def by (simp only: without_digest_ignores [of a b])
qed

section \<open>When a composition succeeds\<close>

fun merge_all :: "env \<Rightarrow> merge_rules \<Rightarrow> layer_document list \<Rightarrow> json \<Rightarrow> merge_error + json" where
  "merge_all E rules [] spec = Ok spec"
| "merge_all E rules (layer # layers) spec =
     and_then (merge_specs E spec (ly_spec layer) rules) (\<lambda>spec. merge_all E rules layers spec)"

lemma digest_json_total: "digests_ok E \<Longrightarrow> \<exists>d. digest_json E v = Inr d"
  unfolding digest_json_def canonical_json_def
  using sha256_digest_parse_hex [of E] by (auto simp: digests_ok_def jcs_total_def ok_or_def split: option.splits)

lemma record_total:
  assumes "digests_ok E"
  shows "\<exists>cs'. record_contribution E v p current layer cs = Inr cs'"
proof -
  obtain d where "digest_json E v = Inr d" using digest_json_total [OF assms] by blast
  then show ?thesis by (simp add: record_contribution_def Let_def)
qed

lemma collect_total:
  assumes "digests_ok E"
  shows "\<exists>cs'. collect_contributions E v p current layer cs = Inr cs'"
    and "\<exists>cs'. collect_entries E m p current layer cs = Inr cs'"
proof (induction v and m arbitrary: p cs and p cs rule: leaves_entry_leaves.induct)
  case (1 m)
  then show ?case using record_total [OF assms] by auto
next
  fix k v m p cs
  assume "\<And>p cs. \<exists>cs'. collect_contributions E v p current layer cs = Inr cs'"
    and "\<And>p cs. \<exists>cs'. collect_entries E m p current layer cs = Inr cs'"
  then show "\<exists>cs'. collect_entries E ((k, v) # m) p current layer cs = Inr cs'"
    by (auto simp: result_simps) metis
qed (use record_total [OF assms] in auto)

lemma compose_loop_merges:
  assumes "digests_ok E"
  shows "compose_loop E rules layers spec cs = Inl e \<longleftrightarrow> (\<exists>d. merge_all E rules layers spec = Inl d \<and> e = ComposeMerge d)"
    and "merge_all E rules layers spec = Inr spec' \<longleftrightarrow> (\<exists>cs'. compose_loop E rules layers spec cs = Inr (spec', cs'))"
proof -
  have "(compose_loop E rules layers spec cs = Inl e \<longleftrightarrow>
      (\<exists>d. merge_all E rules layers spec = Inl d \<and> e = ComposeMerge d))
    \<and> (merge_all E rules layers spec = Inr spec' \<longleftrightarrow> (\<exists>cs'. compose_loop E rules layers spec cs = Inr (spec', cs')))"
  proof (induction layers arbitrary: spec cs)
    case (Cons l layers)
    obtain c1 where c1: "collect_contributions E (ly_spec l) [] spec l cs = Inr c1"
      using collect_total(1) [OF assms] by blast
    show ?case
      by (cases "merge_specs E spec (ly_spec l) rules") (use Cons.IH c1 in auto)
  qed simp
  then show "compose_loop E rules layers spec cs = Inl e \<longleftrightarrow> (\<exists>d. merge_all E rules layers spec = Inl d \<and> e = ComposeMerge d)"
    and "merge_all E rules layers spec = Inr spec' \<longleftrightarrow> (\<exists>cs'. compose_loop E rules layers spec cs = Inr (spec', cs'))"
    by blast+
qed

lemma compose_layers_total:
  assumes "digests_ok E" "merge_all E rules (set_layers s) (JObject []) = Inr spec"
  obtains res where "compose_layers E s rules = Inr res" "cr_spec res = spec"
proof -
  from assms obtain cs where "compose_loop E rules (set_layers s) (JObject []) [] = Inr (spec, cs)"
    using compose_loop_merges(2) by blast
  moreover obtain d where "digest_json E spec = Inr d" using digest_json_total [OF assms(1)] by blast
  ultimately show thesis using that by (auto simp: compose_layers_def)
qed

end
