(* ===== verification/Config_Properties.thy ===== *)
theory Config_Properties
  imports Compose_Laws Samples
begin

text \<open>
  The properties of layer sets, merging and composition, each with its evaluation on concrete
  specifications and layers.
\<close>

section \<open>Concrete layers\<close>

text \<open>The sample services with a canonical form of a string that shows the string.\<close>

definition text_env :: env where
  "text_env = sample_env\<lparr>env_jcs := \<lambda>v. case v of JString s \<Rightarrow> Some (CHR 0x22 # s) | _ \<Rightarrow> Some (sample_text v)\<rparr>"

definition policy_spec :: "string list \<Rightarrow> json" where
  "policy_spec paths =
     JObject [(''securityPolicy'', JObject [(''deniedPaths'', JArray (map JString paths))])]"

definition sample_layer :: "layer_kind \<Rightarrow> char \<Rightarrow> json \<Rightarrow> layer_document" where
  "sample_layer k c spec = \<lparr>ly_schema_version = SchemaVersion 1, ly_id = StableId [c], ly_kind = k,
     ly_source = \<lparr>sm_path = PortableSourcePath [c], sm_revision = None,
       sm_content_digest = sample_digest c c\<rparr>, ly_spec = spec\<rparr>"

definition sample_codec :: spec_codec where
  "sample_codec = \<lparr>de_styleguide_selection = \<lambda>_. Inl [], de_package_declarations = \<lambda>_. Inr [],
     contract_error_text = \<lambda>_. []\<rparr>"

definition sample_base :: layer_document where
  "sample_base = sample_layer PublicBase (CHR ''b'') (policy_spec [''/etc''])"

definition sample_organization :: layer_document where
  "sample_organization = sample_layer OrganizationPolicy (CHR ''o'') (policy_spec [''/root''])"

definition sample_set :: layer_set where
  "sample_set = LayerSet [sample_base, sample_organization]"

lemma sample_layer_sel [simp]:
  "ly_kind (sample_layer k c spec) = k" "ly_spec (sample_layer k c spec) = spec"
  "ly_id (sample_layer k c spec) = StableId [c]"
  by (simp_all add: sample_layer_def)

lemma sample_layers_set:
  "layer_set_new sample_codec [sample_organization, sample_base] = Inr sample_set"
proof -
  have "validate_v1_spec sample_codec (policy_spec ps) = Inr ()" for ps
    by (simp add: validate_v1_spec_def policy_spec_def V1_LAYER_SPEC_FIELDS_def field_type_def
        bt_get_def is_object_def)
  then show ?thesis
    by (simp add: layer_set_new_Ok sample_set_def sample_base_def sample_organization_def)
qed

lemma text_env_sel [simp]:
  "env_jcs text_env (JString s) = Some (CHR 0x22 # s)" "env_sha256 text_env = sample_hash"
  by (simp_all add: text_env_def sample_env_def)

lemma text_digests_ok: "digests_ok text_env"
  using sample_digests_ok
  by (auto simp: digests_ok_def sha256_hex_def jcs_total_def text_env_def split: json.splits)

lemma bt_get_Nil: "bt_get [] k = None"
  by (simp add: bt_get_def)

lemma bt_get_Cons: "bt_get ((k, v) # m) a = (if a = k then Some v else bt_get m a)"
  by (auto simp: bt_get_def)

lemma policy_not_delete [simp]: "\<not> is_delete (JObject [(k, JArray xs)])" "\<not> is_delete (JObject [(k, JObject m)])"
  by (auto simp: is_delete_def bt_get_def)

lemma sample_merge:
  "merge_all text_env v1_merge_rules (set_layers sample_set) (JObject []) = Inr (policy_spec [''/etc'', ''/root''])"
proof -
  note eval = merge_value.simps is_null_def strategy_def is_object_def v1_strategies v1_pointers bt_get_Nil bt_get_Cons
  have "merge_specs text_env (JObject []) (policy_spec [''/etc'']) v1_merge_rules = Inr (policy_spec [''/etc''])"
    by (simp add: merge_specs_def policy_spec_def eval)
  moreover have "merge_set_union text_env (JArray [JString ''/etc'']) (JArray [JString ''/root''])
      ''/securityPolicy/deniedPaths'' = Inr (JArray [JString ''/etc'', JString ''/root''])"
    by (simp add: merge_set_union_def canonical_json_def)
  then have "merge_specs text_env (policy_spec [''/etc'']) (policy_spec [''/root'']) v1_merge_rules
      = Inr (policy_spec [''/etc'', ''/root''])"
    by (simp add: merge_specs_def policy_spec_def eval)
  ultimately show ?thesis by (simp add: sample_set_def sample_base_def sample_organization_def)
qed

lemma sample_wf: "wf_json (policy_spec ps)"
  by (simp add: policy_spec_def)

lemma sample_composed:
  obtains res where "compose_layers text_env sample_set v1_merge_rules = Inr res"
    "cr_spec res = policy_spec [''/etc'', ''/root'']"
  by (rule compose_layers_total [OF text_digests_ok sample_merge])

section \<open>Properties\<close>

text \<open>
  C20: No layer can remove a denied path: in a composition of a valid layer set under the rules of
  version one, every entry of a \<open>securityPolicy.deniedPaths\<close> list of any layer is, up to its
  canonical form, in the list of the composed specification.
\<close>

theorem composition_keeps_denials:
  assumes "layer_set_new D layers = Inr s" "compose_layers E s v1_merge_rules = Inr res"
    and "list_all (\<lambda>l. wf_json (ly_spec l)) layers" "l \<in> set layers" "x \<in> set (denied_paths (ly_spec l))"
  shows "\<exists>y. y \<in> set (denied_paths (cr_spec res)) \<and> env_jcs E y = env_jcs E x"
  using compose_keeps_denied [OF assms(1,2) _ assms(4,5)] assms(3)
  by (auto simp: denies_def list_ex_iff list_all_iff)

theorem composition_keeps_denials_witness:
  "\<exists>res y. compose_layers text_env sample_set v1_merge_rules = Inr res
     \<and> y \<in> set (denied_paths (cr_spec res)) \<and> env_jcs text_env y = Some (CHR 0x22 # ''/etc'')"
proof -
  obtain res where res: "compose_layers text_env sample_set v1_merge_rules = Inr res"
    using sample_composed by blast
  have "JString ''/etc'' \<in> set (denied_paths (ly_spec sample_base))"
    by (simp add: sample_base_def policy_spec_def denied_paths_def object_field_def bt_get_def)
  from composition_keeps_denials [OF sample_layers_set res _ _ this] res show ?thesis
    by (auto simp: sample_wf sample_base_def sample_organization_def)
qed

text \<open>
  C21: The provenance trace is complete and exact: for every pointer, its entry lists one
  contribution for each layer that has a leaf there, in order of precedence, with that layer's
  identity, kind, source and the digest of the leaf (none for a deletion marker); the winner is the
  last of them, a pointer without an entry is a leaf of no layer, and nothing else is traced.
\<close>

theorem composition_trace_exact:
  assumes "compose_layers E s rules = Inr res" "list_all (\<lambda>l. wf_json (ly_spec l)) (set_layers s)"
  shows "(\<forall>ks. ks = [] \<or> trace_explains E rules (set_layers s) ks
      (bt_get (pt_entries (cr_trace res)) (key_pointer [] ks)))
    \<and> (\<forall>p. bt_get (pt_entries (cr_trace res)) p = None \<or> (\<exists>ks. ks \<noteq> [] \<and> p = key_pointer [] ks))"
  using compose_trace [OF assms(1)] assms(2) unfolding list_all_iff by blast

theorem composition_trace_exact_witness:
  "\<exists>res. compose_layers text_env sample_set v1_merge_rules = Inr res
     \<and> trace_explains text_env v1_merge_rules [sample_base, sample_organization]
         [''securityPolicy'', ''deniedPaths''] (bt_get (pt_entries (cr_trace res)) ''/securityPolicy/deniedPaths'')"
proof -
  obtain res where res: "compose_layers text_env sample_set v1_merge_rules = Inr res"
    using sample_composed by blast
  have "key_pointer [] [''securityPolicy'', ''deniedPaths''] = ''/securityPolicy/deniedPaths''"
    by (simp add: v1_pointers)
  with conjunct1 [OF composition_trace_exact [OF res], rule_format, of "[''securityPolicy'', ''deniedPaths'']"]
  show ?thesis using res by (auto simp: sample_set_def sample_wf sample_base_def sample_organization_def)
qed

text \<open>
  C22: Composition fails only when a merge fails: with a working digest service it succeeds exactly
  when merging the layers in order succeeds, the composed specification is the result, and the state
  digest of the trace and the normalized digest of the lock are its digest.
\<close>

theorem composition_is_merge:
  assumes "digests_ok E"
  shows "(\<exists>res. compose_layers E s rules = Inr res \<and> cr_spec res = spec
        \<and> digest_json E spec = Inr (pt_state_digest (cr_trace res))
        \<and> digest_json E spec = Inr (cl_normalized_digest (cr_lock res))
        \<and> cl_layers (cr_lock res) = map locked_layer_of (set_layers s))
      \<longleftrightarrow> merge_all E rules (set_layers s) (JObject []) = Inr spec"
proof
  assume "merge_all E rules (set_layers s) (JObject []) = Inr spec"
  then obtain res where res: "compose_layers E s rules = Inr res" "cr_spec res = spec"
    using compose_layers_total [OF assms] by blast
  with compose_layers_run [OF res(1)] show "\<exists>res. compose_layers E s rules = Inr res \<and> cr_spec res = spec
        \<and> digest_json E spec = Inr (pt_state_digest (cr_trace res))
        \<and> digest_json E spec = Inr (cl_normalized_digest (cr_lock res))
        \<and> cl_layers (cr_lock res) = map locked_layer_of (set_layers s)" by metis
next
  assume "\<exists>res. compose_layers E s rules = Inr res \<and> cr_spec res = spec
        \<and> digest_json E spec = Inr (pt_state_digest (cr_trace res))
        \<and> digest_json E spec = Inr (cl_normalized_digest (cr_lock res))
        \<and> cl_layers (cr_lock res) = map locked_layer_of (set_layers s)"
  then show "merge_all E rules (set_layers s) (JObject []) = Inr spec"
    using compose_layers_run compose_loop_merges(2) [OF assms] by metis
qed

theorem composition_is_merge_witness:
  "digests_ok text_env \<and> (\<exists>res. compose_layers text_env sample_set v1_merge_rules = Inr res
     \<and> cr_spec res = policy_spec [''/etc'', ''/root''])"
  using iffD2 [OF composition_is_merge [OF text_digests_ok] sample_merge] text_digests_ok by blast

text \<open>
  A layer set does not depend on the order its layers are loaded in. It is accepted exactly when
  every specification is valid, no kind occurs twice and the base and the organization policy are
  present; its layers are then a rearrangement sorted by precedence.
\<close>

lemma layer_set_canonical:
  assumes "mset ys = mset xs"
  shows "((\<exists>s. layer_set_new D xs = Inr s) \<longleftrightarrow>
       (\<forall>l\<in>set xs. validate_v1_spec D (ly_spec l) = Inr ()) \<and> distinct (map ly_kind xs)
       \<and> {PublicBase, OrganizationPolicy} \<subseteq> ly_kind ` set xs)
    \<and> (\<forall>s. layer_set_new D xs = Inr s \<longrightarrow> layer_set_new D ys = Inr s \<and> mset (set_layers s) = mset xs
       \<and> sorted (map (\<lambda>l. precedence (ly_kind l)) (set_layers s)))"
  using layer_set_new_perm [OF _ assms] by (auto simp: layer_set_new_Ok)

text \<open>
  The content digest of a layer covers every field but itself: on layers whose digested values
  do not collide, two layers have the same content digest exactly when they agree in schema version,
  identity, kind, source path, source revision and specification.
\<close>

lemma layer_digest_covers:
  assumes "digests_distinct_on E {layer_image a, layer_image b}"
  shows "layer_content_digest E a = layer_content_digest E b \<longleftrightarrow> layer_content a = layer_content b"
  by (rule layer_digest_binds [OF assms])

text \<open>
  C23: Merging lists by identifier merges the items with the same identifier and keeps the others:
  when it succeeds, identifiers are present and unique on both sides, the result has the base's
  items in their order followed by the new ones of the overlay, and the item with an identifier is
  the merge of the two items that have it, or the only one.
\<close>

theorem merge_by_id_joins_items:
  assumes "merge_value E rules (JArray a) (JArray b) p = Inr r"
    and "bt_get (strategies rules) p = Some (MergeById key)" "wf_json (JArray b)"
  shows "\<exists>xs. r = Some (JArray xs)
    \<and> None \<notin> set (map (item_key key) (a @ b))
    \<and> distinct (map (item_key key) a) \<and> distinct (map (item_key key) b)
    \<and> map (item_key key) xs = map (item_key key) a
        @ filter (\<lambda>k. k \<notin> set (map (item_key key) a)) (map (item_key key) b)
    \<and> (\<forall>i. item_merged E rules p i (item_at key a i) (item_at key b i) (item_at key xs i))"
  by (rule merge_by_id_lookup [OF assms])

definition sample_item :: "string \<Rightarrow> string \<Rightarrow> json" where
  "sample_item i v = JObject [(''id'', JString i), (''version'', JString v)]"

lemma sample_items_merge:
  "merge_value text_env v1_merge_rules (JArray [sample_item ''git'' ''1'', sample_item ''jq'' ''1''])
     (JArray [sample_item ''jq'' ''2'', sample_item ''rg'' ''3'']) ''/packages''
     = Inr (Some (JArray [sample_item ''git'' ''1'', sample_item ''jq'' ''2'', sample_item ''rg'' ''3'']))"
proof -
  have "child_pointer ''/packages/jq'' ''id'' = ''/packages/jq/id''"
    "child_pointer ''/packages/jq'' ''version'' = ''/packages/jq/version''" by code_simp+
  then show ?thesis
    by (simp add: merge_value.simps is_null_def strategy_def v1_strategies sample_item_def item_id_def
        bt_get_Nil bt_get_Cons bt_contains_def is_object_def is_delete_def)
qed

theorem merge_by_id_joins_items_witness:
  "merge_value text_env v1_merge_rules (sample_item ''jq'' ''1'') (sample_item ''jq'' ''2'') ''/packages/jq''
     = Inr (Some (sample_item ''jq'' ''2''))
   \<and> map (item_key ''id'') [sample_item ''git'' ''1'', sample_item ''jq'' ''2'', sample_item ''rg'' ''3'']
     = map (item_key ''id'') [sample_item ''git'' ''1'', sample_item ''jq'' ''1''] @ [Some ''rg'']"
proof -
  have "bt_get (strategies v1_merge_rules) ''/packages'' = Some (MergeById ''id'')" by (simp add: v1_strategies)
  moreover have "wf_json (JArray [sample_item ''jq'' ''2'', sample_item ''rg'' ''3''])" by (simp add: sample_item_def)
  moreover have keys: "item_key ''id'' (sample_item i v) = Some i" for i v
    by (simp add: item_key_def sample_item_def bt_get_Cons)
  ultimately obtain xs where xs: "xs = [sample_item ''git'' ''1'', sample_item ''jq'' ''2'', sample_item ''rg'' ''3'']"
    and order: "map (item_key ''id'') xs = map (item_key ''id'') [sample_item ''git'' ''1'', sample_item ''jq'' ''1'']
        @ filter (\<lambda>k. k \<notin> set (map (item_key ''id'') [sample_item ''git'' ''1'', sample_item ''jq'' ''1'']))
            (map (item_key ''id'') [sample_item ''jq'' ''2'', sample_item ''rg'' ''3''])"
    and items: "\<forall>i. item_merged text_env v1_merge_rules ''/packages'' i
        (item_at ''id'' [sample_item ''git'' ''1'', sample_item ''jq'' ''1''] i)
        (item_at ''id'' [sample_item ''jq'' ''2'', sample_item ''rg'' ''3''] i) (item_at ''id'' xs i)"
    using merge_by_id_joins_items [OF sample_items_merge, of "''id''"] by auto
  show ?thesis
    using order items [rule_format, of "''jq''"] by (simp add: xs keys item_merged_def item_at_def)
qed

text \<open>
  Merging is idempotent: merging a value without deletion markers with itself, when it
  succeeds, gives the value back, whatever the strategies.
\<close>

lemma merge_self:
  assumes "merge_value E rules v v p = Inr r" "wf_json v" "marker_free v"
  shows "r = Some v"
  by (rule merge_idempotent [OF assms])

text \<open>
  Merging well-formed specifications, whose objects are ordered maps, gives a well-formed
  specification.
\<close>

lemma merge_well_formed:
  assumes "merge_specs E base overlay rules = Inr v" "wf_json base" "wf_json overlay"
  shows "wf_json v"
  using assms merge_wf(1) by (auto simp: merge_specs_def result_simps)

definition delete_marker :: json where
  "delete_marker = JObject [(''$delete'', JBool True)]"

text \<open>
  A deletion marker is only checked where both sides are merged: under an object the base
  already has, a marker at a path that may not be deleted is refused, but under an object the base
  does not have the same overlay is accepted and the marker stays in the result.
\<close>

lemma nested_marker_unchecked:
  "merge_specs E (JObject []) (JObject [(''capabilities'', JObject [(k, delete_marker)])]) v1_merge_rules
     = Inr (JObject [(''capabilities'', JObject [(k, delete_marker)])])
   \<and> merge_specs E (JObject [(''capabilities'', JObject [])])
        (JObject [(''capabilities'', JObject [(k, delete_marker)])]) v1_merge_rules
     = Inl (DeleteNotAllowed (child_pointer ''/capabilities'' k))"
proof -
  have ptr: "child_pointer [] ''capabilities'' = ''/capabilities''"
    by (simp add: child_pointer_def escape_pointer_def replace_char_def)
  show ?thesis
    by (simp add: merge_specs_def merge_value.simps delete_marker_def is_null_def strategy_def is_object_def
        v1_strategies bt_get_Nil bt_get_Cons ptr)
       (simp add: is_delete_def bt_get_Cons)
qed

text \<open>
  A styleguide is resolved only when the organization allows it: a result means that styleguides
  are not denied, a pin names the selected skill, the skill is the only staged export and its
  descriptor exports it, and the binding holds the digest of that descriptor; without a selection
  nothing is resolved.
\<close>

lemma styleguide_resolution_authorized:
  "(resolve_styleguide_selection E None descriptors exports policy = Inr None)
   \<and> (resolve_styleguide_selection E (Some selection) descriptors exports policy = Inr r \<longleftrightarrow>
      (\<exists>descriptor digest. r = Some \<lparr>rs_selection = selection, rs_descriptor = descriptor,
         rs_binding = \<lparr>sb_selection = selection, sb_descriptor_digest = digest,
              sb_package_manifest_digest = sp_manifest_digest (sg_package descriptor),
              sb_package_lock_digest = sp_lock_digest (sg_package descriptor),
              sb_evaluation_suite_digest = sg_evaluation_suite_digest descriptor,
              sb_retention_map_digest = sg_retention_map_digest descriptor\<rparr>\<rparr>
        \<and> \<not> gp_denied policy \<and> gp_pinned_skill_id policy \<in> {None, Some (ss_skill_id selection)}
        \<and> exports = [ss_skill_id selection]
        \<and> bt_get descriptors (ss_skill_id selection) = Some descriptor
        \<and> sg_exported_skill descriptor = ss_skill_id selection
        \<and> styleguide_descriptor_digest E descriptor = Inr digest))"
proof -
  have one: "length xs \<le> 1 \<and> x \<in> set xs \<longleftrightarrow> xs = [x]" for x :: stable_id and xs
    by (cases xs) auto
  have export: "resolve_export E selection skill descriptors exports = Inr r \<longleftrightarrow>
      (exports = [skill] \<and> (\<exists>descriptor digest. bt_get descriptors skill = Some descriptor
        \<and> sg_exported_skill descriptor = skill \<and> styleguide_descriptor_digest E descriptor = Inr digest
        \<and> r = Some \<lparr>rs_selection = selection, rs_descriptor = descriptor,
         rs_binding = \<lparr>sb_selection = selection, sb_descriptor_digest = digest,
              sb_package_manifest_digest = sp_manifest_digest (sg_package descriptor),
              sb_package_lock_digest = sp_lock_digest (sg_package descriptor),
              sb_evaluation_suite_digest = sg_evaluation_suite_digest descriptor,
              sb_retention_map_digest = sg_retention_map_digest descriptor\<rparr>\<rparr>))" for skill
    unfolding resolve_export_def one [symmetric] by (auto simp: result_simps)
  show ?thesis
    by (auto simp: resolve_styleguide_selection_def Let_def export split: option.splits if_splits)
qed

end
