(* ===== verification/Contracts_Execution.thy ===== *)
theory Contracts_Execution
  imports Contracts_Secrets
begin

text \<open>
  Execution manifests, jobs, attempts, leases and receipts of
  \<open>crates/commonkit-contracts/src/lib.rs\<close>. Counters the scheduler computes in SQL (revisions,
  sequence numbers and fencing tokens, 64-bit columns that only grow by one) are natural numbers;
  times, sizes and the numbers taken from a manifest keep their width.
\<close>

section \<open>Job states\<close>

datatype job_state =
    JobQueued | JobAssigned | JobPreparing | JobRunning | JobCheckpointing
  | JobSucceeded | JobFailed | JobCanceled | JobInterrupted

definition terminal :: "job_state \<Rightarrow> bool" where
  "terminal s \<longleftrightarrow> s \<in> {JobSucceeded, JobFailed, JobCanceled, JobInterrupted}"

lemma terminal_simps [simp]:
  "\<not> terminal JobQueued" "\<not> terminal JobAssigned" "\<not> terminal JobPreparing" "\<not> terminal JobRunning"
  "\<not> terminal JobCheckpointing" "terminal JobSucceeded" "terminal JobFailed" "terminal JobCanceled"
  "terminal JobInterrupted"
  by (simp_all add: terminal_def)

section \<open>Manifests\<close>

datatype network_policy = NetworkDeny | NetworkRestricted | NetworkAllow

record resource_requirements =
  rq_cpu_millis :: u32
  rq_memory_mib :: u64
  rq_disk_mib :: u64

text \<open>Exit codes are 32-bit signed numbers; they are only compared and serialized.\<close>

record retry_policy =
  rp_max_attempts :: u32
  rp_retryable_exit_codes :: "int btree_set"

record artifact_policy =
  ap_globs :: "string list"
  ap_retention_seconds :: u64
  ap_max_bytes :: u64

record browser_profile =
  bp_chromium_revision :: string
  bp_operating_system :: string
  bp_fonts_digest :: sha256_digest
  bp_locale :: string
  bp_timezone :: string
  bp_viewport_width :: u32
  bp_viewport_height :: u32
  bp_device_scale_factor_milli :: u32
  bp_headless :: bool
  bp_performance_class :: "stable_id option"

record execution_manifest =
  xm_schema_version :: schema_version
  xm_repository :: string
  xm_repository_revision :: git_revision
  xm_workspace_bundle_digest :: "sha256_digest option"
  xm_argv :: "string list"
  xm_workdir :: portable_source_path
  xm_secret_refs :: "string list"
  xm_timeout_seconds :: u64
  xm_cancel_grace_seconds :: u64
  xm_resources :: resource_requirements
  xm_required_capabilities :: "stable_id btree_set"
  xm_loadout_digest :: sha256_digest
  xm_execution_profile_digest :: sha256_digest
  xm_retry :: retry_policy
  xm_checkpoint_enabled :: bool
  xm_artifacts :: artifact_policy
  xm_network_policy :: network_policy
  xm_repository_write :: bool
  xm_browser :: "browser_profile option"

section \<open>Serialization\<close>

text \<open>A signed number: \<open>serde_json\<close> keeps non-negative numbers apart from negative ones.\<close>

definition json_i32 :: "int \<Rightarrow> json" where
  "json_i32 n = JNumber (if n < 0 then NegInt n else PosInt (of_int n))"

fun network_policy_name :: "network_policy \<Rightarrow> string" where
  "network_policy_name NetworkDeny = ''deny''"
| "network_policy_name NetworkRestricted = ''restricted''"
| "network_policy_name NetworkAllow = ''allow''"

definition ser_resources :: "resource_requirements \<Rightarrow> json" where
  "ser_resources r = json_struct
     [(''cpuMillis'', json_u32 (rq_cpu_millis r)), (''memoryMib'', json_u64 (rq_memory_mib r)),
      (''diskMib'', json_u64 (rq_disk_mib r))]"

definition ser_retry :: "retry_policy \<Rightarrow> json" where
  "ser_retry r = json_struct
     [(''maxAttempts'', json_u32 (rp_max_attempts r)),
      (''retryableExitCodes'', JArray (map json_i32 (rp_retryable_exit_codes r)))]"

definition ser_artifact_policy :: "artifact_policy \<Rightarrow> json" where
  "ser_artifact_policy a = json_struct
     [(''globs'', JArray (map JString (ap_globs a))),
      (''retentionSeconds'', json_u64 (ap_retention_seconds a)),
      (''maxBytes'', json_u64 (ap_max_bytes a))]"

definition ser_browser_profile :: "browser_profile \<Rightarrow> json" where
  "ser_browser_profile b = json_struct
     [(''chromiumRevision'', JString (bp_chromium_revision b)),
      (''operatingSystem'', JString (bp_operating_system b)),
      (''fontsDigest'', ser_digest (bp_fonts_digest b)),
      (''locale'', JString (bp_locale b)),
      (''timezone'', JString (bp_timezone b)),
      (''viewportWidth'', json_u32 (bp_viewport_width b)),
      (''viewportHeight'', json_u32 (bp_viewport_height b)),
      (''deviceScaleFactorMilli'', json_u32 (bp_device_scale_factor_milli b)),
      (''headless'', JBool (bp_headless b)),
      (''performanceClass'', json_option ser_stable_id (bp_performance_class b))]"

definition ser_execution_manifest :: "execution_manifest \<Rightarrow> json" where
  "ser_execution_manifest m = json_struct
     [(''schemaVersion'', json_u32 (schema_number (xm_schema_version m))),
      (''repository'', JString (xm_repository m)),
      (''repositoryRevision'', JString (revision_str (xm_repository_revision m))),
      (''workspaceBundleDigest'', json_option ser_digest (xm_workspace_bundle_digest m)),
      (''argv'', JArray (map JString (xm_argv m))),
      (''workdir'', JString (path_str (xm_workdir m))),
      (''secretRefs'', JArray (map JString (xm_secret_refs m))),
      (''timeoutSeconds'', json_u64 (xm_timeout_seconds m)),
      (''cancelGraceSeconds'', json_u64 (xm_cancel_grace_seconds m)),
      (''resources'', ser_resources (xm_resources m)),
      (''requiredCapabilities'', JArray (map ser_stable_id (xm_required_capabilities m))),
      (''loadoutDigest'', ser_digest (xm_loadout_digest m)),
      (''executionProfileDigest'', ser_digest (xm_execution_profile_digest m)),
      (''retry'', ser_retry (xm_retry m)),
      (''checkpointEnabled'', JBool (xm_checkpoint_enabled m)),
      (''artifacts'', ser_artifact_policy (xm_artifacts m)),
      (''networkPolicy'', JString (network_policy_name (xm_network_policy m))),
      (''repositoryWrite'', JBool (xm_repository_write m)),
      (''browser'', json_option ser_browser_profile (xm_browser m))]"

definition execution_manifest_validate :: "env \<Rightarrow> execution_manifest \<Rightarrow> contract_error + unit" where
  "execution_manifest_validate E m =
     (if xm_argv m = [] then Err (InvalidExecutionManifest ''argv must not be empty'')
      else if list_ex (\<lambda>arg. CHR 0x00 \<in> set arg) (xm_argv m)
      then Err (InvalidExecutionManifest ''argv contains NUL'')
      else if list_ex (\<lambda>v. \<not> is_reference v) (xm_secret_refs m)
      then Err (InvalidExecutionManifest ''secretRefs must contain references only'')
      else assert_no_embedded_secrets E (ser_execution_manifest m))"

definition execution_manifest_digest :: "env \<Rightarrow> execution_manifest \<Rightarrow> contract_error + sha256_digest" where
  "execution_manifest_digest E m =
     and_then (execution_manifest_validate E m) (\<lambda>_.
       digest_domain_json E ''commonkit.execution-manifest.v1'' (ser_execution_manifest m))"

section \<open>Jobs\<close>

record job =
  jb_id :: string
  jb_manifest_digest :: sha256_digest
  jb_manifest :: execution_manifest
  jb_created_at :: u64

record attempt =
  at_id :: string
  at_job_id :: string
  at_number :: u32
  at_revision :: nat
  at_state :: job_state
  at_target_id :: "stable_id option"
  at_engine_run_ref :: "string option"
  at_fencing_token :: "nat option"

record job_event =
  ev_id :: string
  ev_job_id :: string
  ev_sequence :: nat
  ev_attempt_id :: "string option"
  ev_kind :: string
  ev_at :: u64
  ev_data :: json

record lease =
  le_job_id :: string
  le_attempt_id :: string
  le_worker_id :: stable_id
  le_fencing_token :: nat
  le_expires_at :: u64

record checkpoint =
  cp_id :: string
  cp_job_id :: string
  cp_attempt_id :: string
  cp_stage :: string
  cp_fencing_token :: nat
  cp_object_digest :: sha256_digest
  cp_committed_at :: u64

record artifact =
  af_id :: string
  af_job_id :: string
  af_attempt_id :: string
  af_name :: string
  af_object_digest :: sha256_digest
  af_size_bytes :: u64
  af_media_type :: string
  af_committed_at :: u64

record execution_target =
  xt_id :: stable_id
  xt_platform :: string
  xt_healthy :: bool
  xt_draining :: bool
  xt_loadout_digest :: sha256_digest
  xt_execution_profile_digest :: sha256_digest
  xt_capabilities :: "stable_id btree_set"
  xt_ready_secret_refs :: "string btree_set"
  xt_free :: resource_requirements
  xt_queue_depth :: u32
  xt_cost_score :: u32

record placement_explanation =
  px_target_id :: stable_id
  px_eligible :: bool
  px_reasons :: "string list"
  px_score :: "int option"

record execution_receipt =
  xr_schema_version :: schema_version
  xr_job_id :: string
  xr_attempt_id :: string
  xr_state :: job_state
  xr_exit_code :: "int option"
  xr_started_at :: "u64 option"
  xr_finished_at :: "u64 option"
  xr_artifact_ids :: "string list"
  xr_checkpoint_ids :: "string list"

record browser_shard =
  bs_shard_id :: string
  bs_ordinal :: u32
  bs_task_id :: string

end
