(* ===== verification/Exec_Placement.thy ===== *)
theory Exec_Placement
  imports Contracts_Execution
begin

text \<open>
  Placement of a manifest on execution targets, from \<open>crates/commonkit-execution/src/lib.rs\<close>. The
  score is 64-bit signed arithmetic on casts of 64-bit unsigned sizes, with the wrap-around of
  release builds; \<open>Option<i64>\<close> is ordered with \<open>None\<close> first.
\<close>

definition saturating_mul :: "u64 \<Rightarrow> u64 \<Rightarrow> u64" where
  "saturating_mul a b = (if uint a * uint b < 2 ^ 64 then a * b else - 1)"

definition saturating_add :: "u64 \<Rightarrow> u64 \<Rightarrow> u64" where
  "saturating_add a b = (if uint a + uint b < 2 ^ 64 then a + b else - 1)"

definition fits :: "resource_requirements \<Rightarrow> resource_requirements \<Rightarrow> bool" where
  "fits required free \<longleftrightarrow> rq_cpu_millis required \<le> rq_cpu_millis free
     \<and> rq_memory_mib required \<le> rq_memory_mib free \<and> rq_disk_mib required \<le> rq_disk_mib free"

text \<open>\<open>if condition { reasons.push(reason) }\<close>\<close>

definition reason :: "bool \<Rightarrow> string \<Rightarrow> string list" where
  "reason condition name = (if condition then [name] else [])"

definition placement_reasons :: "execution_manifest \<Rightarrow> execution_target \<Rightarrow> string list" where
  "placement_reasons manifest target =
     reason (\<not> xt_healthy target) ''target_unhealthy''
     @ reason (xt_draining target) ''target_draining''
     @ reason (xt_loadout_digest target \<noteq> xm_loadout_digest manifest) ''loadout_digest_mismatch''
     @ reason (xt_execution_profile_digest target \<noteq> xm_execution_profile_digest manifest)
         ''execution_profile_digest_mismatch''
     @ reason (\<not> is_subset (xm_required_capabilities manifest) (xt_capabilities target)) ''capability_missing''
     @ reason (\<not> list_all (\<lambda>r. r \<in> set (xt_ready_secret_refs target)) (xm_secret_refs manifest))
         ''secret_not_ready''
     @ reason (\<not> fits (xm_resources manifest) (xt_free target)) ''insufficient_reserved_headroom''
     @ reason (xm_browser manifest \<noteq> None
           \<and> rq_memory_mib (xt_free target) < saturating_mul (rq_memory_mib (xm_resources manifest)) 2)
         ''browser_memory_overcommit''
     @ (case Option.bind (xm_browser manifest) bp_performance_class of
          Some c \<Rightarrow> reason (c \<notin> set (xt_capabilities target)) ''performance_class_mismatch''
        | None \<Rightarrow> [])"

text \<open>The score as the 64-bit pattern the release build computes, read as a signed number.\<close>

definition placement_score :: "execution_target \<Rightarrow> int" where
  "placement_score target = sint
     (rq_memory_mib (xt_free target) + rq_disk_mib (xt_free target)
      - ucast (xt_queue_depth target) * 100 - ucast (xt_cost_score target) :: u64)"

definition explain_target :: "execution_manifest \<Rightarrow> execution_target \<Rightarrow> placement_explanation" where
  "explain_target manifest target =
     (let reasons = placement_reasons manifest target in
      \<lparr>px_target_id = xt_id target, px_eligible = (reasons = []), px_reasons = reasons,
       px_score = (if reasons = [] then Some (placement_score target) else None)\<rparr>)"

text \<open>
  The comparison of the sort, \<open>b.score.cmp(&a.score)\<close> then the identity: the key is smaller for a
  present score than for an absent one, and for a greater score.
\<close>

definition explanation_key :: "placement_explanation \<Rightarrow> nat \<times> int \<times> stable_id" where
  "explanation_key e = (case px_score e of
     Some score \<Rightarrow> (0, - score, px_target_id e) | None \<Rightarrow> (1, 0, px_target_id e))"

record placement_result =
  pr_selected :: "stable_id option"
  pr_explanations :: "placement_explanation list"

definition placement :: "execution_manifest \<Rightarrow> execution_target list \<Rightarrow> placement_result" where
  "placement manifest targets =
     (let explanations = sort_key explanation_key (map (explain_target manifest) targets) in
      \<lparr>pr_selected = map_option px_target_id (find px_eligible explanations),
       pr_explanations = explanations\<rparr>)"

section \<open>Facts\<close>

lemma unat_saturating_mul: "unat (saturating_mul a b) = min (unat a * unat b) (2 ^ 64 - 1)"
proof -
  have "unat (- 1 :: u64) = 2 ^ 64 - 1" by (simp add: unsigned_minus_1_eq_mask mask_eq_exp_minus_1)
  moreover have "unat (a * b) = unat a * unat b" if "unat a * unat b < 2 ^ 64"
    using that by (simp add: unat_word_ariths)
  moreover have "uint a * uint b < 2 ^ 64 \<longleftrightarrow> unat a * unat b < 2 ^ 64"
    unfolding uint_nat of_nat_mult [symmetric] by (metis of_nat_less_iff of_nat_numeral of_nat_power)
  ultimately show ?thesis by (auto simp: saturating_mul_def)
qed

lemma explain_sel [simp]:
  "px_target_id (explain_target m t) = xt_id t"
  "px_eligible (explain_target m t) \<longleftrightarrow> placement_reasons m t = []"
  "px_reasons (explain_target m t) = placement_reasons m t"
  "px_score (explain_target m t) =
     (if placement_reasons m t = [] then Some (placement_score t) else None)"
  by (simp_all add: explain_target_def Let_def)

text \<open>The score does not wrap on targets with less than \<open>2 ^ 62\<close> MiB of memory and disk.\<close>

lemma two_63: "(2::int) ^ 63 = 9223372036854775808"
  by simp

lemma placement_score_exact:
  assumes "unat (rq_memory_mib (xt_free t)) + unat (rq_disk_mib (xt_free t)) < 2 ^ 62"
  shows "placement_score t = uint (rq_memory_mib (xt_free t)) + uint (rq_disk_mib (xt_free t))
    - uint (xt_queue_depth t) * 100 - uint (xt_cost_score t)"
proof -
  let ?m = "uint (rq_memory_mib (xt_free t))" and ?d = "uint (rq_disk_mib (xt_free t))"
  let ?q = "uint (xt_queue_depth t)" and ?c = "uint (xt_cost_score t)"
  let ?k = "?m + ?d - ?q * 100 - ?c"
  have "unat (rq_memory_mib (xt_free t)) + unat (rq_disk_mib (xt_free t)) < 4611686018427387904"
    using assms by simp
  then have md: "?m + ?d < 4611686018427387904"
    unfolding uint_nat by linarith
  have pos: "0 \<le> ?m" "0 \<le> ?d" "0 \<le> ?q" "0 \<le> ?c" by simp_all
  have qc: "?q < 4294967296" "?c < 4294967296"
    using uint_bounded [of "xt_queue_depth t"] uint_bounded [of "xt_cost_score t"] by simp_all
  have "- 9223372036854775808 \<le> ?k" "?k < 9223372036854775808"
    using md pos qc by linarith+
  then have "signed_take_bit 63 ?k = ?k"
    by (intro signed_take_bit_int_eq_self) (simp_all only: two_63)
  moreover have "placement_score t = sint (word_of_int ?k :: u64)"
    unfolding placement_score_def ucast_eq
    by (simp only: of_int_add of_int_diff of_int_mult of_int_numeral word_of_int_uint)
  moreover have "sint (word_of_int ?k :: u64) = signed_take_bit 63 ?k"
    by (subst sint_sbintrunc') simp
  ultimately show ?thesis by (simp only:)
qed

text \<open>The first eligible explanation of a sorted list has the least key of the eligible ones.\<close>

lemma find_sorted:
  assumes "sorted (map f xs)" "find P xs = Some x"
  shows "x \<in> set xs \<and> P x \<and> (\<forall>y\<in>set xs. P y \<longrightarrow> f x \<le> f y)"
proof -
  from assms(2) obtain i where i: "i < length xs" "P (xs ! i)" "x = xs ! i" "\<forall>j<i. \<not> P (xs ! j)"
    by (auto simp: find_Some_iff)
  have "f x \<le> f y" if "y \<in> set xs" "P y" for y
  proof -
    from that obtain j where j: "j < length xs" "y = xs ! j" by (auto simp: in_set_conv_nth)
    then have "i \<le> j" using i that(2) by (meson not_le)
    then show ?thesis using assms(1) i j sorted_nth_mono [of "map f xs" i j] by simp
  qed
  then show ?thesis using i by auto
qed

lemma placement_selected:
  "pr_selected (placement m ts) = Some i \<Longrightarrow>
     \<exists>t\<in>set ts. xt_id t = i \<and> placement_reasons m t = []
       \<and> (\<forall>u\<in>set ts. placement_reasons m u = [] \<longrightarrow>
            (- placement_score t, xt_id t) \<le> (- placement_score u, xt_id u))"
  "pr_selected (placement m ts) = None \<longleftrightarrow> (\<forall>t\<in>set ts. placement_reasons m t \<noteq> [])"
proof -
  let ?es = "sort_key explanation_key (map (explain_target m) ts)"
  have sel: "pr_selected (placement m ts) = map_option px_target_id (find px_eligible ?es)"
    by (simp add: placement_def Let_def)
  show "pr_selected (placement m ts) = None \<longleftrightarrow> (\<forall>t\<in>set ts. placement_reasons m t \<noteq> [])"
    unfolding sel by (auto simp: find_None_iff)
  assume "pr_selected (placement m ts) = Some i"
  then obtain e where e: "find px_eligible ?es = Some e" "px_target_id e = i" unfolding sel by auto
  have "sorted (map explanation_key ?es)" by simp
  from find_sorted [OF this e(1)] have f: "e \<in> set ?es" "px_eligible e"
    "\<forall>y\<in>set ?es. px_eligible y \<longrightarrow> explanation_key e \<le> explanation_key y" by auto
  then obtain t where t: "t \<in> set ts" "e = explain_target m t" by auto
  have "(- placement_score t, xt_id t) \<le> (- placement_score u, xt_id u)"
    if "u \<in> set ts" "placement_reasons m u = []" for u
  proof -
    have "explanation_key (explain_target m t) \<le> explanation_key (explain_target m u)"
      using f(3) that t by auto
    then show ?thesis using f(2) t(2) that(2) by (auto simp: explanation_key_def)
  qed
  then show "\<exists>t\<in>set ts. xt_id t = i \<and> placement_reasons m t = []
       \<and> (\<forall>u\<in>set ts. placement_reasons m u = [] \<longrightarrow>
            (- placement_score t, xt_id t) \<le> (- placement_score u, xt_id u))"
    using t f(2) e(2) by auto
qed

end
