(* ===== verification/Exec_Scheduler.thy ===== *)
theory Exec_Scheduler
  imports Exec_Placement
begin

text \<open>
  The scheduler of \<open>crates/commonkit-execution/src/lib.rs\<close>. The SQLite tables of its schema are
  lists of rows in insertion order; an insertion checks the primary keys, the unique indexes and the
  reference to \<open>jobs\<close> the schema declares, and a transaction that fails leaves the tables as they
  were. Rows hold typed values: the text columns they are stored in are read back by the parsers
  they were written with (\<open>parse_state\<close> inverts \<open>state_name\<close>). Random UUIDs are drawn from a
  supply that is a parameter; drawing is not undone by a failed transaction.
\<close>

section \<open>State\<close>

datatype execution_error =
    SqlError
  | ExecutionContract contract_error
  | JobNotFound
  | IdempotencyConflict
  | InvalidIdempotencyKey
  | StaleFence
  | RevisionConflict
  | InvalidTransition job_state job_state
  | InvalidTerminalState
  | DuplicateImplementorRun
  | CursorExpired nat
  | UnsafeArtifactPath
  | ArtifactTooLarge
  | ObjectEncryption
  | AttemptActive
  | RetryExhausted
  | CheckpointNotFound
  | TargetIdentityMismatch
  | ObjectIo

datatype submit_outcome = SubmitCreated string | SubmitExisting string

record job_snapshot =
  js_job :: job
  js_attempt :: attempt
  js_receipt :: "execution_receipt option"

record audit_entry =
  au_sequence :: nat
  au_at :: u64
  au_identity :: string
  au_action :: string
  au_resource :: string
  au_allowed :: bool
  au_reason :: string

record target_row =
  tr_target :: execution_target
  tr_worker_id :: stable_id
  tr_heartbeat :: u64

record scheduler =
  db_jobs :: "job list"
  db_keys :: "(string \<times> sha256_digest \<times> string) list"
  db_attempts :: "attempt list"
  db_events :: "job_event list"
  db_leases :: "lease list"
  db_checkpoints :: "checkpoint list"
  db_artifacts :: "artifact list"
  db_receipts :: "(string \<times> execution_receipt) list"
  db_audit :: "audit_entry list"
  db_audit_next :: nat
  db_targets :: "target_row list"
  db_drawn :: nat

definition empty_scheduler :: scheduler where
  "empty_scheduler = \<lparr>db_jobs = [], db_keys = [], db_attempts = [], db_events = [], db_leases = [],
     db_checkpoints = [], db_artifacts = [], db_receipts = [], db_audit = [], db_audit_next = 1,
     db_targets = [], db_drawn = 0\<rparr>"

type_synonym uuids = "nat \<Rightarrow> string"

section \<open>Actions\<close>

type_synonym 'a action = "scheduler \<Rightarrow> (execution_error + 'a) \<times> scheduler"

definition done_with :: "'a \<Rightarrow> 'a action" where
  "done_with x s = (Ok x, s)"

definition fail_with :: "execution_error \<Rightarrow> 'a action" where
  "fail_with e s = (Err e, s)"

definition act :: "'a action \<Rightarrow> ('a \<Rightarrow> 'b action) \<Rightarrow> 'b action" where
  "act m f s = (case m s of (Inl e, t) \<Rightarrow> (Inl e, t) | (Inr x, t) \<Rightarrow> f x t)"

definition lift :: "execution_error + 'a \<Rightarrow> 'a action" where
  "lift r s = (r, s)"

definition read_db :: "(scheduler \<Rightarrow> 'a) \<Rightarrow> 'a action" where
  "read_db f s = (Ok (f s), s)"

definition write_db :: "(scheduler \<Rightarrow> scheduler) \<Rightarrow> unit action" where
  "write_db f s = (Ok (), f s)"

text \<open>A transaction: committed when its body succeeds, rolled back when it fails.\<close>

definition transaction :: "'a action \<Rightarrow> 'a action" where
  "transaction body s = (case body s of
     (Inl e, t) \<Rightarrow> (Inl e, s\<lparr>db_drawn := db_drawn t\<rparr>) | (Inr x, t) \<Rightarrow> (Inr x, t))"

definition draw :: "uuids \<Rightarrow> string \<Rightarrow> string action" where
  "draw U prefix s = (Ok (prefix @ U (db_drawn s)), s\<lparr>db_drawn := Suc (db_drawn s)\<rparr>)"

definition require :: "bool \<Rightarrow> execution_error \<Rightarrow> unit action" where
  "require b e = (if b then done_with () else fail_with e)"

section \<open>Rows\<close>

definition job_exists :: "string \<Rightarrow> scheduler \<Rightarrow> bool" where
  "job_exists job_id s \<longleftrightarrow> job_id \<in> set (map jb_id (db_jobs s))"

definition insert_job :: "job \<Rightarrow> unit action" where
  "insert_job row s =
     (if jb_id row \<in> set (map jb_id (db_jobs s)) then (Err SqlError, s)
      else (Ok (), s\<lparr>db_jobs := db_jobs s @ [row]\<rparr>))"

definition insert_key :: "string \<Rightarrow> sha256_digest \<Rightarrow> string \<Rightarrow> unit action" where
  "insert_key key digest job_id s =
     (if key \<in> set (map fst (db_keys s)) \<or> \<not> job_exists job_id s then (Err SqlError, s)
      else (Ok (), s\<lparr>db_keys := db_keys s @ [(key, digest, job_id)]\<rparr>))"

definition insert_attempt :: "attempt \<Rightarrow> unit action" where
  "insert_attempt row s =
     (if at_id row \<in> set (map at_id (db_attempts s))
         \<or> (at_job_id row, at_number row) \<in> set (map (\<lambda>a. (at_job_id a, at_number a)) (db_attempts s))
         \<or> \<not> job_exists (at_job_id row) s
      then (Err SqlError, s)
      else (Ok (), s\<lparr>db_attempts := db_attempts s @ [row]\<rparr>))"

definition insert_event :: "job_event \<Rightarrow> unit action" where
  "insert_event row s =
     (if ev_id row \<in> set (map ev_id (db_events s))
         \<or> (ev_job_id row, ev_sequence row) \<in> set (map (\<lambda>e. (ev_job_id e, ev_sequence e)) (db_events s))
         \<or> \<not> job_exists (ev_job_id row) s
      then (Err SqlError, s)
      else (Ok (), s\<lparr>db_events := db_events s @ [row]\<rparr>))"

text \<open>\<open>INSERT OR REPLACE INTO leases\<close>, with its two unique columns.\<close>

definition replace_lease :: "lease \<Rightarrow> unit action" where
  "replace_lease row = write_db (\<lambda>s. s\<lparr>db_leases :=
     filter (\<lambda>l. le_job_id l \<noteq> le_job_id row \<and> le_attempt_id l \<noteq> le_attempt_id row) (db_leases s) @ [row]\<rparr>)"

text \<open>\<open>UPDATE attempts SET ... WHERE ...\<close>, with the number of changed rows.\<close>

definition update_attempts :: "(attempt \<Rightarrow> bool) \<Rightarrow> (attempt \<Rightarrow> attempt) \<Rightarrow> nat action" where
  "update_attempts p f s =
     (Ok (length (filter p (db_attempts s))),
      s\<lparr>db_attempts := map (\<lambda>a. if p a then f a else a) (db_attempts s)\<rparr>)"

definition new_attempt :: "string \<Rightarrow> string \<Rightarrow> u32 \<Rightarrow> attempt" where
  "new_attempt i job_id number = \<lparr>at_id = i, at_job_id = job_id, at_number = number, at_revision = 0,
     at_state = JobQueued, at_target_id = None, at_engine_run_ref = None, at_fencing_token = None\<rparr>"

text \<open>\<open>WHERE job_id=?1 ORDER BY number DESC LIMIT 1\<close>\<close>

definition latest_attempt :: "string \<Rightarrow> scheduler \<Rightarrow> attempt option" where
  "latest_attempt job_id s =
     (case sort_key at_number (filter (\<lambda>a. at_job_id a = job_id) (db_attempts s)) of
        [] \<Rightarrow> None | rows \<Rightarrow> Some (last rows))"

definition attempt_by_id :: "string \<Rightarrow> scheduler \<Rightarrow> attempt option" where
  "attempt_by_id i s = find (\<lambda>a. at_id a = i) (db_attempts s)"

definition job_by_id :: "string \<Rightarrow> scheduler \<Rightarrow> job option" where
  "job_by_id i s = find (\<lambda>j. jb_id j = i) (db_jobs s)"

text \<open>\<open>COALESCE(MAX(...),0)\<close>\<close>

definition max_or_zero :: "nat list \<Rightarrow> nat" where
  "max_or_zero ns = fold max ns 0"

section \<open>States\<close>

fun state_name :: "job_state \<Rightarrow> string" where
  "state_name JobQueued = ''queued''"
| "state_name JobAssigned = ''assigned''"
| "state_name JobPreparing = ''preparing''"
| "state_name JobRunning = ''running''"
| "state_name JobCheckpointing = ''checkpointing''"
| "state_name JobSucceeded = ''succeeded''"
| "state_name JobFailed = ''failed''"
| "state_name JobCanceled = ''canceled''"
| "state_name JobInterrupted = ''interrupted''"

definition parse_state :: "string \<Rightarrow> execution_error + job_state" where
  "parse_state v =
     (if v = ''queued'' then Ok JobQueued else if v = ''assigned'' then Ok JobAssigned
      else if v = ''preparing'' then Ok JobPreparing else if v = ''running'' then Ok JobRunning
      else if v = ''checkpointing'' then Ok JobCheckpointing else if v = ''succeeded'' then Ok JobSucceeded
      else if v = ''failed'' then Ok JobFailed else if v = ''canceled'' then Ok JobCanceled
      else if v = ''interrupted'' then Ok JobInterrupted else Err SqlError)"

definition valid_transition :: "job_state \<Rightarrow> job_state \<Rightarrow> bool" where
  "valid_transition from to \<longleftrightarrow> (from, to) \<in>
     {(JobQueued, JobAssigned), (JobAssigned, JobPreparing), (JobPreparing, JobRunning),
      (JobRunning, JobCheckpointing), (JobCheckpointing, JobRunning),
      (JobRunning, JobSucceeded), (JobRunning, JobFailed), (JobRunning, JobCanceled),
      (JobRunning, JobInterrupted),
      (JobPreparing, JobFailed), (JobPreparing, JobCanceled), (JobPreparing, JobInterrupted),
      (JobAssigned, JobCanceled), (JobAssigned, JobInterrupted), (JobQueued, JobCanceled)}"

lemma parse_state_name: "parse_state (state_name s) = Inr s"
  by (cases s) (simp_all add: parse_state_def)

lemma valid_transition_from: "valid_transition from to \<Longrightarrow> \<not> terminal from"
  by (auto simp: valid_transition_def)

definition safe_artifact_name :: "string \<Rightarrow> execution_error + unit" where
  "safe_artifact_name name =
     (if name = [] \<or> starts_with name ''/'' \<or> ''..'' \<in> set (split_char (CHR ''/'') name)
         \<or> CHR 0x00 \<in> set name
      then Err UnsafeArtifactPath else Ok ())"

section \<open>Events\<close>

definition append_event ::
  "env \<Rightarrow> uuids \<Rightarrow> string \<Rightarrow> string option \<Rightarrow> string \<Rightarrow> u64 \<Rightarrow> json \<Rightarrow> unit action" where
  "append_event E U job_id attempt_id kind now data =
     act (lift (map_err ExecutionContract (assert_no_embedded_secrets E data))) (\<lambda>_.
     act (read_db (\<lambda>s. Suc (max_or_zero
         (map ev_sequence (filter (\<lambda>e. ev_job_id e = job_id) (db_events s)))))) (\<lambda>sequence.
     act (draw U ''event_'') (\<lambda>i.
       insert_event \<lparr>ev_id = i, ev_job_id = job_id, ev_sequence = sequence, ev_attempt_id = attempt_id,
         ev_kind = kind, ev_at = now, ev_data = data\<rparr>)))"

definition json_nat :: "nat \<Rightarrow> json" where
  "json_nat n = json_u64 (of_nat n)"

section \<open>Submission and queries\<close>

definition submit ::
  "env \<Rightarrow> uuids \<Rightarrow> execution_manifest \<Rightarrow> string \<Rightarrow> u64 \<Rightarrow> submit_outcome action" where
  "submit E U manifest key now =
     act (lift (map_err ExecutionContract (execution_manifest_validate E manifest))) (\<lambda>_.
     act (require (key \<noteq> [] \<and> length key \<le> 200) InvalidIdempotencyKey) (\<lambda>_.
     act (lift (map_err ExecutionContract (execution_manifest_digest E manifest))) (\<lambda>digest.
     transaction (
       act (read_db (\<lambda>s. map_of (db_keys s) key)) (\<lambda>existing. case existing of
         Some (existing_digest, job_id) \<Rightarrow>
           if existing_digest = digest then done_with (SubmitExisting job_id)
           else fail_with IdempotencyConflict
       | None \<Rightarrow>
           act (draw U ''job_'') (\<lambda>job_id.
           act (draw U ''attempt_'') (\<lambda>attempt_id.
           act (insert_job \<lparr>jb_id = job_id, jb_manifest_digest = digest, jb_manifest = manifest,
             jb_created_at = now\<rparr>) (\<lambda>_.
           act (insert_attempt (new_attempt attempt_id job_id 1)) (\<lambda>_.
           act (insert_key key digest job_id) (\<lambda>_.
           act (append_event E U job_id (Some attempt_id) ''job_queued'' now
               (json_struct [(''manifestDigest'', ser_digest digest)])) (\<lambda>_.
             done_with (SubmitCreated job_id)))))))))))) "

definition snapshot :: "string \<Rightarrow> job_snapshot action" where
  "snapshot job_id s =
     (case job_by_id job_id s of None \<Rightarrow> (Err JobNotFound, s)
      | Some j \<Rightarrow> (case latest_attempt job_id s of None \<Rightarrow> (Err SqlError, s)
        | Some a \<Rightarrow> (Ok \<lparr>js_job = j, js_attempt = a, js_receipt = map_of (db_receipts s) (at_id a)\<rparr>, s)))"

text \<open>
  A page of the events of a job. The cursor is a 64-bit number: \<open>after + 1\<close> wraps in release
  builds.
\<close>

definition events :: "string \<Rightarrow> u64 \<Rightarrow> u32 \<Rightarrow> job_event list action" where
  "events job_id after limit s =
     (let rows = filter (\<lambda>e. ev_job_id e = job_id) (db_events s);
          minimum = (case map ev_sequence rows of [] \<Rightarrow> 1 | n # ns \<Rightarrow> fold min ns n)
      in if 0 < after \<and> unat (after + 1) < minimum then (Err (CursorExpired minimum), s)
         else (Ok (take (max 1 (min 1000 (unat limit)))
           (sort_key ev_sequence (filter (\<lambda>e. unat after < ev_sequence e) rows))), s))"

definition prune_events_before :: "string \<Rightarrow> nat \<Rightarrow> nat action" where
  "prune_events_before job_id minimum s =
     (let old = (\<lambda>e. ev_job_id e = job_id \<and> ev_sequence e < minimum) in
      (Ok (length (filter old (db_events s))),
       s\<lparr>db_events := filter (\<lambda>e. \<not> old e) (db_events s)\<rparr>))"

definition audit ::
  "env \<Rightarrow> u64 \<Rightarrow> string \<Rightarrow> string \<Rightarrow> string \<Rightarrow> bool \<Rightarrow> string \<Rightarrow> unit action" where
  "audit E at identity action resource allowed why =
     act (lift (map_err ExecutionContract (for_each (\<lambda>v. assert_no_embedded_secrets E (JString v))
         [identity, action, resource, why]))) (\<lambda>_.
       write_db (\<lambda>s. s\<lparr>db_audit := db_audit s @ [\<lparr>au_sequence = db_audit_next s, au_at = at,
           au_identity = identity, au_action = action, au_resource = resource, au_allowed = allowed,
           au_reason = why\<rparr>], db_audit_next := Suc (db_audit_next s)\<rparr>))"

definition audit_entries :: "audit_entry list action" where
  "audit_entries = read_db (\<lambda>s. sort_key au_sequence (db_audit s))"

section \<open>Leases\<close>

definition lease_matches :: "lease \<Rightarrow> u64 \<Rightarrow> lease \<Rightarrow> bool" where
  "lease_matches lease now row \<longleftrightarrow> le_job_id row = le_job_id lease
     \<and> le_attempt_id row = le_attempt_id lease \<and> le_worker_id row = le_worker_id lease
     \<and> le_fencing_token row = le_fencing_token lease \<and> now \<le> le_expires_at row"

definition assert_fence :: "lease \<Rightarrow> u64 \<Rightarrow> unit action" where
  "assert_fence lease now s =
     (if list_ex (lease_matches lease now) (db_leases s) then (Ok (), s) else (Err StaleFence, s))"

text \<open>The queued attempts with their jobs, oldest job first; rows of equal age in table order.\<close>

definition queued_candidates :: "scheduler \<Rightarrow> (attempt \<times> job) list" where
  "queued_candidates s =
     take 100 (sort_key (\<lambda>(a, j). jb_created_at j)
       (List.map_filter (\<lambda>a. if at_state a = JobQueued
           then map_option (Pair a) (job_by_id (at_job_id a) s) else None) (db_attempts s)))"

definition job_tokens :: "string \<Rightarrow> scheduler \<Rightarrow> nat list" where
  "job_tokens job_id s =
     List.map_filter (\<lambda>a. if at_job_id a = job_id then at_fencing_token a else None) (db_attempts s)"

definition acquire ::
  "env \<Rightarrow> uuids \<Rightarrow> stable_id \<Rightarrow> execution_target \<Rightarrow> u64 \<Rightarrow> u64 \<Rightarrow> lease option action" where
  "acquire E U worker target now ttl = transaction (
     act (read_db (\<lambda>s. find (\<lambda>(a, j). pr_selected (placement (jb_manifest j) [target]) \<noteq> None)
         (queued_candidates s))) (\<lambda>candidate. case candidate of
       None \<Rightarrow> done_with None
     | Some (a, j) \<Rightarrow>
         act (read_db (\<lambda>s. Suc (max_or_zero (job_tokens (at_job_id a) s)))) (\<lambda>token.
         act (update_attempts (\<lambda>r. at_id r = at_id a \<and> at_state r = JobQueued)
             (\<lambda>r. r\<lparr>at_state := JobAssigned, at_revision := Suc (at_revision r),
               at_target_id := Some (xt_id target), at_fencing_token := Some token\<rparr>)) (\<lambda>changed.
         act (require (changed = 1) RevisionConflict) (\<lambda>_.
           let lease = \<lparr>le_job_id = at_job_id a, le_attempt_id = at_id a, le_worker_id = worker,
             le_fencing_token = token, le_expires_at = saturating_add now ttl\<rparr> in
         act (replace_lease lease) (\<lambda>_.
         act (append_event E U (at_job_id a) (Some (at_id a)) ''attempt_assigned'' now
             (json_struct [(''targetId'', ser_stable_id (xt_id target)), (''fencingToken'', json_nat token)]))
           (\<lambda>_. done_with (Some lease))))))))"

definition renew :: "lease \<Rightarrow> u64 \<Rightarrow> u64 \<Rightarrow> lease action" where
  "renew lease now ttl s =
     (let expires = saturating_add now ttl;
          changed = length (filter (lease_matches lease now) (db_leases s));
          t = s\<lparr>db_leases := map (\<lambda>l. if lease_matches lease now l then l\<lparr>le_expires_at := expires\<rparr> else l)
            (db_leases s)\<rparr>
      in if changed \<noteq> 1 then (Err StaleFence, t) else (Ok (lease\<lparr>le_expires_at := expires\<rparr>), t))"

section \<open>Attempts\<close>

definition transition :: "env \<Rightarrow> uuids \<Rightarrow> string \<Rightarrow> nat \<Rightarrow> job_state \<Rightarrow> u64 \<Rightarrow> attempt action" where
  "transition E U attempt_id expected_revision state now =
     act (transaction (
       act (read_db (attempt_by_id attempt_id)) (\<lambda>row.
       act (lift (ok_or JobNotFound row)) (\<lambda>current.
       act (require (at_revision current = expected_revision) RevisionConflict) (\<lambda>_.
       act (require (valid_transition (at_state current) state) (InvalidTransition (at_state current) state)) (\<lambda>_.
       act (update_attempts (\<lambda>r. at_id r = attempt_id \<and> at_revision r = expected_revision)
           (\<lambda>r. r\<lparr>at_state := state, at_revision := Suc (at_revision r)\<rparr>)) (\<lambda>_.
         append_event E U (at_job_id current) (Some attempt_id) ''attempt_state_changed'' now
           (json_struct [(''from'', JString (state_name (at_state current))), (''to'', JString (state_name state)),
             (''revision'', json_nat (expected_revision + 1))]))))))))
       (\<lambda>_. act (read_db (attempt_by_id attempt_id)) (\<lambda>row. lift (ok_or SqlError row)))"

definition correlate_engine_run :: "env \<Rightarrow> uuids \<Rightarrow> string \<Rightarrow> nat \<Rightarrow> string \<Rightarrow> u64 \<Rightarrow> unit action" where
  "correlate_engine_run E U attempt_id token run now = transaction (
     act (read_db (\<lambda>s. find (\<lambda>a. at_id a = attempt_id \<and> at_fencing_token a = Some token) (db_attempts s))) (\<lambda>row.
     act (lift (ok_or StaleFence row)) (\<lambda>current.
     case at_engine_run_ref current of
       Some existing \<Rightarrow> require (existing = run) DuplicateImplementorRun
     | None \<Rightarrow>
         act (update_attempts (\<lambda>r. at_id r = attempt_id \<and> at_fencing_token r = Some token)
             (\<lambda>r. r\<lparr>at_engine_run_ref := Some run, at_revision := Suc (at_revision r)\<rparr>)) (\<lambda>_.
           append_event E U (at_job_id current) (Some attempt_id) ''implementor_correlated'' now
             (json_struct [(''engineRunRef'', JString run)])))))"

text \<open>\<open>INSERT OR IGNORE INTO checkpoints\<close> and the row of the job and stage.\<close>

definition commit_checkpoint ::
  "env \<Rightarrow> uuids \<Rightarrow> lease \<Rightarrow> string \<Rightarrow> sha256_digest \<Rightarrow> u64 \<Rightarrow> checkpoint action" where
  "commit_checkpoint E U lease stage digest now =
     act (assert_fence lease now) (\<lambda>_.
     act (draw U ''checkpoint_'') (\<lambda>i.
     transaction (
       act (write_db (\<lambda>s.
           if list_ex (\<lambda>c. cp_id c = i \<or> cp_job_id c = le_job_id lease \<and> cp_stage c = stage) (db_checkpoints s)
           then s
           else s\<lparr>db_checkpoints := db_checkpoints s @ [\<lparr>cp_id = i, cp_job_id = le_job_id lease,
             cp_attempt_id = le_attempt_id lease, cp_stage = stage, cp_fencing_token = le_fencing_token lease,
             cp_object_digest = digest, cp_committed_at = now\<rparr>]\<rparr>)) (\<lambda>_.
       act (read_db (\<lambda>s. find (\<lambda>c. cp_job_id c = le_job_id lease \<and> cp_stage c = stage) (db_checkpoints s))) (\<lambda>row.
       act (lift (ok_or SqlError row)) (\<lambda>checkpoint.
       act (append_event E U (le_job_id lease) (Some (le_attempt_id lease)) ''checkpoint_committed'' now
           (json_struct [(''checkpointId'', JString (cp_id checkpoint)), (''stage'', JString stage)])) (\<lambda>_.
         done_with checkpoint)))))))"

definition commit_artifact ::
  "env \<Rightarrow> uuids \<Rightarrow> lease \<Rightarrow> string \<Rightarrow> sha256_digest \<Rightarrow> u64 \<Rightarrow> string \<Rightarrow> u64 \<Rightarrow> artifact action" where
  "commit_artifact E U lease name digest bytes media_type now =
     act (assert_fence lease now) (\<lambda>_.
     act (lift (safe_artifact_name name)) (\<lambda>_.
     act (draw U ''artifact_'') (\<lambda>i.
     transaction (
       act (write_db (\<lambda>s.
           if list_ex (\<lambda>a. af_id a = i \<or> af_job_id a = le_job_id lease \<and> af_name a = name) (db_artifacts s)
           then s
           else s\<lparr>db_artifacts := db_artifacts s @ [\<lparr>af_id = i, af_job_id = le_job_id lease,
             af_attempt_id = le_attempt_id lease, af_name = name, af_object_digest = digest,
             af_size_bytes = bytes, af_media_type = media_type, af_committed_at = now\<rparr>]\<rparr>)) (\<lambda>_.
       act (read_db (\<lambda>s. find (\<lambda>a. af_job_id a = le_job_id lease \<and> af_name a = name) (db_artifacts s))) (\<lambda>row.
       act (lift (ok_or SqlError row)) (\<lambda>artifact.
       act (append_event E U (le_job_id lease) (Some (le_attempt_id lease)) ''artifact_committed'' now
           (json_struct [(''artifactId'', JString (af_id artifact)), (''name'', JString name)])) (\<lambda>_.
         done_with artifact))))))))"

definition artifacts :: "string \<Rightarrow> artifact list action" where
  "artifacts job_id = read_db (\<lambda>s. sort_key af_committed_at
     (filter (\<lambda>a. af_job_id a = job_id) (db_artifacts s)))"

definition artifact_of :: "string \<Rightarrow> artifact action" where
  "artifact_of artifact_id =
     act (read_db (\<lambda>s. find (\<lambda>a. af_id a = artifact_id) (db_artifacts s))) (\<lambda>row. lift (ok_or JobNotFound row))"

definition ser_exit_code :: "int option \<Rightarrow> json" where
  "ser_exit_code code = json_option json_i32 code"

definition complete ::
  "env \<Rightarrow> uuids \<Rightarrow> lease \<Rightarrow> job_state \<Rightarrow> int option \<Rightarrow> u64 \<Rightarrow> execution_receipt action" where
  "complete E U lease state exit_code now =
     act (require (terminal state) InvalidTerminalState) (\<lambda>_.
     act (assert_fence lease now) (\<lambda>_.
     transaction (
       act (update_attempts (\<lambda>r. at_id r = le_attempt_id lease
             \<and> at_fencing_token r = Some (le_fencing_token lease) \<and> \<not> terminal (at_state r))
           (\<lambda>r. r\<lparr>at_state := state, at_revision := Suc (at_revision r)\<rparr>)) (\<lambda>changed.
       act (if changed = 1 then done_with ()
            else act (read_db (\<lambda>s. find (\<lambda>a. at_id a = le_attempt_id lease
                   \<and> at_fencing_token a = Some (le_fencing_token lease)) (db_attempts s))) (\<lambda>row.
                 act (lift (ok_or StaleFence row)) (\<lambda>existing.
                   require (at_state existing = state) StaleFence))) (\<lambda>_.
       act (read_db (\<lambda>s. map af_id (sort_key af_committed_at
           (filter (\<lambda>a. af_attempt_id a = le_attempt_id lease) (db_artifacts s))))) (\<lambda>artifact_ids.
       act (read_db (\<lambda>s. map cp_id (sort_key cp_committed_at
           (filter (\<lambda>c. cp_attempt_id c = le_attempt_id lease) (db_checkpoints s))))) (\<lambda>checkpoint_ids.
         let receipt = \<lparr>xr_schema_version = SchemaVersion 1, xr_job_id = le_job_id lease,
           xr_attempt_id = le_attempt_id lease, xr_state = state, xr_exit_code = exit_code,
           xr_started_at = None, xr_finished_at = Some now, xr_artifact_ids = artifact_ids,
           xr_checkpoint_ids = checkpoint_ids\<rparr> in
       act (write_db (\<lambda>s. if le_attempt_id lease \<in> set (map fst (db_receipts s)) then s
           else s\<lparr>db_receipts := db_receipts s @ [(le_attempt_id lease, receipt)]\<rparr>)) (\<lambda>_.
       act (write_db (\<lambda>s. s\<lparr>db_leases := filter (\<lambda>l. \<not> (le_attempt_id l = le_attempt_id lease
           \<and> le_fencing_token l = le_fencing_token lease)) (db_leases s)\<rparr>)) (\<lambda>_.
       act (append_event E U (le_job_id lease) (Some (le_attempt_id lease)) ''attempt_completed'' now
           (json_struct [(''state'', JString (state_name state)), (''exitCode'', ser_exit_code exit_code)])) (\<lambda>_.
         done_with receipt))))))))))"

definition cancel :: "env \<Rightarrow> uuids \<Rightarrow> string \<Rightarrow> u64 \<Rightarrow> attempt action" where
  "cancel E U job_id now =
     act (snapshot job_id) (\<lambda>snap.
       let attempt = js_attempt snap in
       if terminal (at_state attempt) then done_with attempt
       else transition E U (at_id attempt) (at_revision attempt) JobCanceled now)"

section \<open>Recovery and retries\<close>

definition attempt_limit :: "job \<Rightarrow> u32" where
  "attempt_limit j = max (rp_max_attempts (xm_retry (jb_manifest j))) 1"

text \<open>The transaction for one expired lease.\<close>

definition recover_lease :: "env \<Rightarrow> uuids \<Rightarrow> string \<Rightarrow> string \<Rightarrow> u64 \<Rightarrow> unit action" where
  "recover_lease E U attempt_id job_id now = transaction (
     act (update_attempts (\<lambda>r. at_id r = attempt_id \<and> \<not> terminal (at_state r))
         (\<lambda>r. r\<lparr>at_state := JobInterrupted, at_revision := Suc (at_revision r)\<rparr>)) (\<lambda>_.
     act (write_db (\<lambda>s. s\<lparr>db_leases := filter (\<lambda>l. le_attempt_id l \<noteq> attempt_id) (db_leases s)\<rparr>)) (\<lambda>_.
     act (read_db (\<lambda>s. Option.bind (attempt_by_id attempt_id s) (\<lambda>a.
         map_option (Pair a) (job_by_id (at_job_id a) s)))) (\<lambda>row.
     act (lift (ok_or SqlError row)) (\<lambda>(a, j).
     act (append_event E U job_id (Some attempt_id) ''attempt_interrupted'' now
         (json_struct [(''reason'', JString ''lease_expired'')])) (\<lambda>_.
     if at_number a < attempt_limit j
     then act (draw U ''attempt_'') (\<lambda>next_id.
          act (insert_attempt (new_attempt next_id job_id (at_number a + 1))) (\<lambda>_.
            append_event E U job_id (Some next_id) ''attempt_retry_queued'' now
              (json_struct [(''previousAttemptId'', JString attempt_id)])))
     else done_with ()))))))"

fun recover_leases :: "env \<Rightarrow> uuids \<Rightarrow> (string \<times> string) list \<Rightarrow> u64 \<Rightarrow> string list \<Rightarrow> string list action" where
  "recover_leases E U [] now recovered = done_with recovered"
| "recover_leases E U ((attempt_id, job_id) # rest) now recovered =
     act (recover_lease E U attempt_id job_id now) (\<lambda>_.
       recover_leases E U rest now (recovered @ [job_id]))"

definition recover_expired :: "env \<Rightarrow> uuids \<Rightarrow> u64 \<Rightarrow> string list action" where
  "recover_expired E U now =
     act (read_db (\<lambda>s. map (\<lambda>l. (le_attempt_id l, le_job_id l))
         (filter (\<lambda>l. le_expires_at l < now) (db_leases s)))) (\<lambda>expired.
       recover_leases E U expired now [])"

definition queue_followup ::
  "env \<Rightarrow> uuids \<Rightarrow> string \<Rightarrow> string option \<Rightarrow> string \<Rightarrow> u64 \<Rightarrow> attempt action" where
  "queue_followup E U job_id stage kind now =
     act (transaction (
       act (read_db (\<lambda>s. Option.bind (latest_attempt job_id s) (\<lambda>a.
           map_option (Pair a) (job_by_id (at_job_id a) s)))) (\<lambda>row.
       act (lift (ok_or JobNotFound row)) (\<lambda>(a, j).
       act (require (terminal (at_state a)) AttemptActive) (\<lambda>_.
       act (require (at_number a < attempt_limit j) RetryExhausted) (\<lambda>_.
       act (draw U ''attempt_'') (\<lambda>attempt_id.
       act (insert_attempt (new_attempt attempt_id job_id (at_number a + 1))) (\<lambda>_.
       act (append_event E U job_id (Some attempt_id) ''attempt_followup_queued'' now
           (json_struct [(''kind'', JString kind), (''checkpoint'', json_option JString stage)])) (\<lambda>_.
         done_with attempt_id)))))))))
       (\<lambda>attempt_id. act (read_db (attempt_by_id attempt_id)) (\<lambda>row. lift (ok_or SqlError row)))"

definition retry :: "env \<Rightarrow> uuids \<Rightarrow> string \<Rightarrow> u64 \<Rightarrow> attempt action" where
  "retry E U job_id now = queue_followup E U job_id None ''manual_retry'' now"

definition resume :: "env \<Rightarrow> uuids \<Rightarrow> string \<Rightarrow> string \<Rightarrow> u64 \<Rightarrow> attempt action" where
  "resume E U job_id stage now =
     act (read_db (\<lambda>s. list_ex (\<lambda>c. cp_job_id c = job_id \<and> cp_stage c = stage) (db_checkpoints s))) (\<lambda>exists.
     act (require exists CheckpointNotFound) (\<lambda>_. queue_followup E U job_id (Some stage) ''resume'' now))"

section \<open>Targets\<close>

definition register_target :: "stable_id \<Rightarrow> execution_target \<Rightarrow> u64 \<Rightarrow> unit action" where
  "register_target worker target now =
     act (require (worker = xt_id target) TargetIdentityMismatch) (\<lambda>_.
       write_db (\<lambda>s. s\<lparr>db_targets :=
         (let row = \<lparr>tr_target = target, tr_worker_id = worker, tr_heartbeat = now\<rparr> in
          if list_ex (\<lambda>r. xt_id (tr_target r) = xt_id target) (db_targets s)
          then map (\<lambda>r. if xt_id (tr_target r) = xt_id target then row else r) (db_targets s)
          else db_targets s @ [row])\<rparr>))"

definition targets :: "u64 \<Rightarrow> u64 \<Rightarrow> execution_target list action" where
  "targets now stale_after = read_db (\<lambda>s.
     map (\<lambda>r. if saturating_sub now (tr_heartbeat r) > stale_after
         then (tr_target r)\<lparr>xt_healthy := False\<rparr> else tr_target r)
       (sort_key (\<lambda>r. xt_id (tr_target r)) (db_targets s)))"

end
