(* ===== verification/Exec_Lifecycle.thy ===== *)
theory Exec_Lifecycle
  imports Exec_Scheduler "HOL-Library.Transitive_Closure_Table"
begin

text \<open>
  The lifecycle of jobs as an abstract machine, and its refinement by the scheduler: the state of the
  machine is the table of jobs, the table of attempts and the table of leases, its steps are what may
  happen to an attempt, and every operation of the scheduler performs a sequence of such steps.
\<close>

section \<open>The abstract machine\<close>

type_synonym core = "job list \<times> attempt list \<times> lease list"

definition core :: "scheduler \<Rightarrow> core" where
  "core s = (db_jobs s, db_attempts s, db_leases s)"

definition tokens_of :: "string \<Rightarrow> attempt list \<Rightarrow> nat list" where
  "tokens_of job_id A = List.map_filter (\<lambda>a. if at_job_id a = job_id then at_fencing_token a else None) A"

definition set_state :: "job_state \<Rightarrow> attempt \<Rightarrow> attempt" where
  "set_state st r = r\<lparr>at_state := st, at_revision := Suc (at_revision r)\<rparr>"

definition update_where :: "('a \<Rightarrow> bool) \<Rightarrow> ('a \<Rightarrow> 'a) \<Rightarrow> 'a list \<Rightarrow> 'a list" where
  "update_where p f rows = map (\<lambda>r. if p r then f r else r) rows"

inductive lifecycle :: "core \<Rightarrow> core \<Rightarrow> bool" where
  submitted: "jb_id j \<notin> jb_id ` set J \<Longrightarrow> i \<notin> at_id ` set A \<Longrightarrow>
    lifecycle (J, A, L) (J @ [j], A @ [new_attempt i (jb_id j) 1], L)"
| assigned: "a \<in> set A \<Longrightarrow> at_state a = JobQueued \<Longrightarrow> at_job_id a \<in> jb_id ` set J \<Longrightarrow>
    le_job_id l = at_job_id a \<Longrightarrow> le_attempt_id l = at_id a \<Longrightarrow>
    le_fencing_token l = Suc (max_or_zero (tokens_of (at_job_id a) A)) \<Longrightarrow>
    lifecycle (J, A, L) (J,
      update_where (\<lambda>r. at_id r = at_id a \<and> at_state r = JobQueued)
        (\<lambda>r. r\<lparr>at_state := JobAssigned, at_revision := Suc (at_revision r), at_target_id := t,
          at_fencing_token := Some (le_fencing_token l)\<rparr>) A,
      filter (\<lambda>k. le_job_id k \<noteq> le_job_id l \<and> le_attempt_id k \<noteq> le_attempt_id l) L @ [l])"
| moved: "a \<in> set A \<Longrightarrow> valid_transition (at_state a) st \<Longrightarrow>
    lifecycle (J, A, L) (J, update_where (\<lambda>r. at_id r = at_id a \<and> at_revision r = at_revision a)
      (set_state st) A, L)"
| correlated: "(\<And>r. p r \<Longrightarrow> at_state (f r) = at_state r \<and> at_id (f r) = at_id r \<and> at_job_id (f r) = at_job_id r
      \<and> at_number (f r) = at_number r \<and> at_fencing_token (f r) = at_fencing_token r) \<Longrightarrow>
    lifecycle (J, A, L) (J, update_where p f A, L)"
| finished: "l \<in> set L \<Longrightarrow> terminal st \<Longrightarrow>
    lifecycle (J, A, L) (J,
      update_where (\<lambda>r. at_id r = le_attempt_id l \<and> at_fencing_token r = Some (le_fencing_token l)
        \<and> \<not> terminal (at_state r)) (set_state st) A,
      filter (\<lambda>k. \<not> (le_attempt_id k = le_attempt_id l \<and> le_fencing_token k = le_fencing_token l)) L)"
| expired: "l \<in> set L \<Longrightarrow> lifecycle (J, A, L) (J,
      update_where (\<lambda>r. at_id r = le_attempt_id l \<and> \<not> terminal (at_state r)) (set_state JobInterrupted) A,
      filter (\<lambda>k. le_attempt_id k \<noteq> le_attempt_id l) L)"
| followed: "a \<in> set A \<Longrightarrow> terminal (at_state a) \<Longrightarrow> j \<in> set J \<Longrightarrow> jb_id j = at_job_id a \<Longrightarrow>
    at_number a < attempt_limit j \<Longrightarrow> i \<notin> at_id ` set A \<Longrightarrow>
    (at_job_id a, at_number a + 1) \<notin> (\<lambda>b. (at_job_id b, at_number b)) ` set A \<Longrightarrow>
    lifecycle (J, A, L) (J, A @ [new_attempt i (at_job_id a) (at_number a + 1)], L)"
| renewed: "(\<And>k. le_job_id (f k) = le_job_id k \<and> le_attempt_id (f k) = le_attempt_id k
      \<and> le_fencing_token (f k) = le_fencing_token k) \<Longrightarrow>
    lifecycle (J, A, L) (J, A, map f L)"

section \<open>Reasoning about actions\<close>

named_theorems action_simps \<open>successful runs of scheduler actions\<close>

lemma act_Ok [action_simps]:
  "act m f s = (Inr y, u) \<longleftrightarrow> (\<exists>x t. m s = (Inr x, t) \<and> f x t = (Inr y, u))"
  by (auto simp: act_def split: prod.splits sum.splits)

lemma act_Err:
  "act m f s = (Inl e, u) \<longleftrightarrow> m s = (Inl e, u) \<or> (\<exists>x t. m s = (Inr x, t) \<and> f x t = (Inl e, u))"
  by (auto simp: act_def split: prod.splits sum.splits)

lemma transaction_Ok [action_simps]: "transaction m s = (Inr x, t) \<longleftrightarrow> m s = (Inr x, t)"
  by (auto simp: transaction_def split: prod.splits sum.splits)

lemma simple_actions [action_simps]:
  "done_with x s = (Inr y, t) \<longleftrightarrow> y = x \<and> t = s"
  "fail_with e s = (Inr y, t) \<longleftrightarrow> False"
  "lift r s = (Inr y, t) \<longleftrightarrow> r = Inr y \<and> t = s"
  "read_db g s = (Inr z, t) \<longleftrightarrow> z = g s \<and> t = s"
  "write_db h s = (Inr v, t) \<longleftrightarrow> t = h s"
  "require b e s = (Inr v, t) \<longleftrightarrow> b \<and> t = s"
  "draw U q s = (Inr i, t) \<longleftrightarrow> i = q @ U (db_drawn s) \<and> t = s\<lparr>db_drawn := Suc (db_drawn s)\<rparr>"
  "update_attempts p f s = (Inr n, t) \<longleftrightarrow> n = length (filter p (db_attempts s))
     \<and> t = s\<lparr>db_attempts := update_where p f (db_attempts s)\<rparr>"
  by (auto simp: done_with_def fail_with_def lift_def read_db_def write_db_def require_def draw_def
      update_attempts_def update_where_def)

lemma core_drawn [simp]: "core (s\<lparr>db_drawn := n\<rparr>) = core s"
  by (simp add: core_def)

definition frames :: "'a action \<Rightarrow> bool" where
  "frames m \<longleftrightarrow> (\<forall>s. core (snd (m s)) = core s)"

definition steps :: "'a action \<Rightarrow> bool" where
  "steps m \<longleftrightarrow> (\<forall>s. lifecycle\<^sup>*\<^sup>* (core s) (core (snd (m s))))"

lemma frames_steps: "frames m \<Longrightarrow> steps m"
  by (simp add: frames_def steps_def)

lemma framesD: "frames m \<Longrightarrow> m s = (r, t) \<Longrightarrow> core t = core s"
  by (metis frames_def snd_conv)

lemma frames_act: "frames m \<Longrightarrow> (\<And>x. frames (f x)) \<Longrightarrow> frames (act m f)"
  unfolding frames_def act_def by (auto split: prod.split sum.split) (metis snd_conv)+

lemma steps_act: "steps m \<Longrightarrow> (\<And>x. steps (f x)) \<Longrightarrow> steps (act m f)"
  unfolding steps_def act_def
  by (auto split: prod.split sum.split) (metis rtranclp_trans snd_conv)+

lemma frames_simple [simp]:
  "frames (done_with x)" "frames (fail_with e)" "frames (lift r)" "frames (read_db g)"
  "frames (require b e)" "frames (draw U p)" "frames (assert_fence l now)" "frames (snapshot j)"
  by (auto simp: frames_def done_with_def fail_with_def lift_def read_db_def require_def draw_def
      assert_fence_def snapshot_def split: option.splits)

lemma frames_write: "(\<And>s. core (h s) = core s) \<Longrightarrow> frames (write_db h)"
  by (simp add: frames_def write_db_def)

lemma frames_insert_event [simp]: "frames (insert_event row)"
  by (simp add: frames_def insert_event_def core_def)

lemma frames_append_event [simp]: "frames (append_event E U j a k now d)"
  unfolding append_event_def by (intro frames_act frames_simple frames_insert_event)

lemma steps_transaction:
  assumes "\<And>s x t. m s = (Inr x, t) \<Longrightarrow> lifecycle\<^sup>*\<^sup>* (core s) (core t)"
  shows "steps (transaction m)"
  unfolding steps_def
proof
  fix s
  show "lifecycle\<^sup>*\<^sup>* (core s) (core (snd (transaction m s)))"
    using assms [of s] by (cases "m s"; cases "fst (m s)") (auto simp: transaction_def)
qed

lemma append_event_core: "append_event E U j a k now d s = (r, t) \<Longrightarrow> core t = core s"
  by (rule framesD [OF frames_append_event])

text \<open>Insertions, on success.\<close>

lemma insert_attempt_Ok [action_simps]:
  "insert_attempt row s = (Inr v, t) \<longleftrightarrow>
     at_id row \<notin> at_id ` set (db_attempts s)
     \<and> (at_job_id row, at_number row) \<notin> (\<lambda>a. (at_job_id a, at_number a)) ` set (db_attempts s)
     \<and> job_exists (at_job_id row) s \<and> t = s\<lparr>db_attempts := db_attempts s @ [row]\<rparr>"
  by (auto simp: insert_attempt_def)

lemma insert_job_Ok [action_simps]:
  "insert_job row s = (Inr v, t) \<longleftrightarrow>
     jb_id row \<notin> jb_id ` set (db_jobs s) \<and> t = s\<lparr>db_jobs := db_jobs s @ [row]\<rparr>"
  by (auto simp: insert_job_def)

lemma insert_key_Ok [action_simps]:
  "insert_key key digest job_id s = (Inr v, t) \<longleftrightarrow>
     key \<notin> fst ` set (db_keys s) \<and> job_exists job_id s \<and> t = s\<lparr>db_keys := db_keys s @ [(key, digest, job_id)]\<rparr>"
  by (auto simp: insert_key_def)

lemma find_SomeD: "find p xs = Some x \<Longrightarrow> x \<in> set xs \<and> p x"
  by (auto simp: find_Some_iff)

lemma job_by_id_SomeD: "job_by_id i s = Some j \<Longrightarrow> j \<in> set (db_jobs s) \<and> jb_id j = i"
  unfolding job_by_id_def by (drule find_SomeD) simp

lemma attempt_by_id_SomeD: "attempt_by_id i s = Some a \<Longrightarrow> a \<in> set (db_attempts s) \<and> at_id a = i"
  unfolding attempt_by_id_def by (drule find_SomeD) simp

lemma latest_attempt_SomeD:
  assumes "latest_attempt j s = Some a"
  shows "a \<in> set (db_attempts s) \<and> at_job_id a = j
    \<and> (\<forall>b\<in>set (db_attempts s). at_job_id b = j \<longrightarrow> at_number b \<le> at_number a)"
proof -
  let ?rows = "sort_key at_number (filter (\<lambda>a. at_job_id a = j) (db_attempts s))"
  have ne: "?rows \<noteq> []" and a: "a = last ?rows"
    using assms by (auto simp: latest_attempt_def split: list.splits)
  have in_rows: "a \<in> set ?rows" using ne a last_in_set by blast
  have "at_number b \<le> at_number a" if b: "b \<in> set ?rows" for b
  proof -
    obtain i where i: "i < length ?rows" "?rows ! i = b" using b unfolding in_set_conv_nth by blast
    have "sorted (map at_number ?rows)" by simp
    from sorted_nth_mono [OF this, of i "length ?rows - 1"] i ne show ?thesis
      by (simp add: a last_conv_nth)
  qed
  then show ?thesis using in_rows by auto
qed

section \<open>The invariant\<close>

text \<open>
  Attempts of a job are numbered from one without gaps up to the limit of its manifest; only the
  latest attempt of a job can be unfinished; fencing tokens grow with the number of the attempt; and
  a lease belongs to an attempt that has its token, which is the highest of the job.
\<close>

definition attempts_numbered :: "job list \<Rightarrow> attempt list \<Rightarrow> bool" where
  "attempts_numbered J A \<longleftrightarrow> distinct (map jb_id J) \<and> distinct (map at_id A)
     \<and> distinct (map (\<lambda>a. (at_job_id a, at_number a)) A)
     \<and> (\<forall>a\<in>set A. 1 \<le> unat (at_number a)
         \<and> (\<forall>k. 1 \<le> k \<longrightarrow> k < unat (at_number a) \<longrightarrow>
              (\<exists>b\<in>set A. at_job_id b = at_job_id a \<and> unat (at_number b) = k))
         \<and> (\<exists>j\<in>set J. jb_id j = at_job_id a \<and> at_number a \<le> attempt_limit j))"

definition latest_live :: "attempt list \<Rightarrow> bool" where
  "latest_live A \<longleftrightarrow> (\<forall>a\<in>set A. \<not> terminal (at_state a) \<longrightarrow>
     (\<forall>b\<in>set A. at_job_id b = at_job_id a \<longrightarrow> at_number b \<le> at_number a))"

definition fenced :: "attempt list \<Rightarrow> bool" where
  "fenced A \<longleftrightarrow> (\<forall>a\<in>set A. at_state a = JobQueued \<longrightarrow> at_fencing_token a = None)
     \<and> (\<forall>a\<in>set A. \<forall>b\<in>set A. \<forall>s t. at_job_id a = at_job_id b \<longrightarrow> at_fencing_token a = Some s \<longrightarrow>
          at_fencing_token b = Some t \<longrightarrow> at_number a < at_number b \<longrightarrow> s < t)"

definition leased :: "attempt list \<Rightarrow> lease list \<Rightarrow> bool" where
  "leased A L \<longleftrightarrow> distinct (map le_job_id L)
     \<and> (\<forall>l\<in>set L. (\<exists>a\<in>set A. at_id a = le_attempt_id l \<and> at_job_id a = le_job_id l
            \<and> at_fencing_token a = Some (le_fencing_token l))
         \<and> (\<forall>b\<in>set A. \<forall>t. at_job_id b = le_job_id l \<longrightarrow> at_fencing_token b = Some t \<longrightarrow> t \<le> le_fencing_token l))"

fun sound :: "core \<Rightarrow> bool" where
  "sound (J, A, L) \<longleftrightarrow> attempts_numbered J A \<and> latest_live A \<and> fenced A \<and> leased A L"

text \<open>What an update of attempts may change, for each part of the invariant.\<close>

lemma numbered_map:
  assumes "attempts_numbered J A" "\<And>r. r \<in> set A \<Longrightarrow> at_id (g r) = at_id r \<and> at_job_id (g r) = at_job_id r
    \<and> at_number (g r) = at_number r"
  shows "attempts_numbered J (map g A)"
proof -
  have "map at_id (map g A) = map at_id A"
    "map (\<lambda>a. (at_job_id a, at_number a)) (map g A) = map (\<lambda>a. (at_job_id a, at_number a)) A"
    using assms(2) by simp_all
  moreover have "1 \<le> unat (at_number (g a)) \<and> (\<forall>k. 1 \<le> k \<longrightarrow> k < unat (at_number (g a)) \<longrightarrow>
              (\<exists>b\<in>set (map g A). at_job_id b = at_job_id (g a) \<and> unat (at_number b) = k))
         \<and> (\<exists>j\<in>set J. jb_id j = at_job_id (g a) \<and> at_number (g a) \<le> attempt_limit j)" if a: "a \<in> set A" for a
  proof -
    have "\<exists>b\<in>set (map g A). at_job_id b = at_job_id a \<and> unat (at_number b) = k"
      if "1 \<le> k" "k < unat (at_number a)" for k
    proof -
      from assms(1) a that obtain b where "b \<in> set A" "at_job_id b = at_job_id a" "unat (at_number b) = k"
        unfolding attempts_numbered_def by blast
      then show ?thesis using assms(2) [of b] by (intro bexI [of _ "g b"]) simp_all
    qed
    then show ?thesis using assms(1) assms(2) [OF a] a unfolding attempts_numbered_def by simp
  qed
  ultimately show ?thesis using assms(1) unfolding attempts_numbered_def by (simp del: map_map)
qed

lemma latest_live_map:
  assumes "latest_live A" "\<And>r. r \<in> set A \<Longrightarrow> at_job_id (g r) = at_job_id r \<and> at_number (g r) = at_number r
    \<and> (terminal (at_state r) \<longrightarrow> terminal (at_state (g r)))"
  shows "latest_live (map g A)"
proof -
  have "at_number (g b) \<le> at_number (g a)"
    if "a \<in> set A" "b \<in> set A" "\<not> terminal (at_state (g a))" "at_job_id (g b) = at_job_id (g a)" for a b
    using assms(1) that assms(2) [OF that(1)] assms(2) [OF that(2)] unfolding latest_live_def by simp
  then show ?thesis unfolding latest_live_def by simp
qed

lemma fenced_map:
  assumes "fenced A" "\<And>r. r \<in> set A \<Longrightarrow> at_job_id (g r) = at_job_id r \<and> at_number (g r) = at_number r
    \<and> at_fencing_token (g r) = at_fencing_token r \<and> (at_state (g r) = JobQueued \<longrightarrow> at_state r = JobQueued)"
  shows "fenced (map g A)"
proof -
  have "at_fencing_token (g a) = None" if "a \<in> set A" "at_state (g a) = JobQueued" for a
    using assms(1) that assms(2) [OF that(1)] unfolding fenced_def by simp
  moreover have "s < t" if "a \<in> set A" "b \<in> set A" "at_job_id (g a) = at_job_id (g b)"
      "at_fencing_token (g a) = Some s" "at_fencing_token (g b) = Some t" "at_number (g a) < at_number (g b)"
    for a b s t
  proof -
    have "at_job_id a = at_job_id b" "at_fencing_token a = Some s" "at_fencing_token b = Some t"
      "at_number a < at_number b"
      using that assms(2) [OF that(1)] assms(2) [OF that(2)] by simp_all
    then show ?thesis using assms(1) that(1,2) unfolding fenced_def by blast
  qed
  ultimately show ?thesis unfolding fenced_def by simp
qed

lemma leased_map:
  assumes "leased A L" "\<And>r. r \<in> set A \<Longrightarrow> at_id (g r) = at_id r \<and> at_job_id (g r) = at_job_id r
    \<and> at_fencing_token (g r) = at_fencing_token r"
  shows "leased (map g A) (filter q L)"
proof -
  have d: "distinct (map le_job_id (filter q L))" using assms(1) by (simp add: leased_def distinct_map_filter)
  moreover have "\<exists>a\<in>set (map g A). at_id a = le_attempt_id l \<and> at_job_id a = le_job_id l
      \<and> at_fencing_token a = Some (le_fencing_token l)" if l: "l \<in> set L" for l
  proof -
    from assms(1) l obtain a where "a \<in> set A" "at_id a = le_attempt_id l" "at_job_id a = le_job_id l"
      "at_fencing_token a = Some (le_fencing_token l)" unfolding leased_def by blast
    then show ?thesis using assms(2) [of a] by (intro bexI [of _ "g a"]) simp_all
  qed
  moreover have "t \<le> le_fencing_token l" if "l \<in> set L" "b \<in> set A" "at_job_id (g b) = le_job_id l"
      "at_fencing_token (g b) = Some t" for l b t
    using assms(1) that assms(2) [OF that(2)] unfolding leased_def by simp
  ultimately show ?thesis unfolding leased_def by simp
qed

text \<open>An update that keeps identity, job, number and token, and never leaves a finished state.\<close>

lemma sound_update:
  assumes "sound (J, A, L)"
    and "\<And>r. r \<in> set A \<Longrightarrow> p r \<Longrightarrow> at_id (f r) = at_id r \<and> at_job_id (f r) = at_job_id r
      \<and> at_number (f r) = at_number r \<and> at_fencing_token (f r) = at_fencing_token r
      \<and> (terminal (at_state r) \<longrightarrow> terminal (at_state (f r)))
      \<and> (at_state (f r) = JobQueued \<longrightarrow> at_state r = JobQueued)"
  shows "sound (J, update_where p f A, filter q L)"
proof -
  define g where "g r = (if p r then f r else r)" for r
  have g: "at_id (g r) = at_id r \<and> at_job_id (g r) = at_job_id r
      \<and> at_number (g r) = at_number r \<and> at_fencing_token (g r) = at_fencing_token r
      \<and> (terminal (at_state r) \<longrightarrow> terminal (at_state (g r)))
      \<and> (at_state (g r) = JobQueued \<longrightarrow> at_state r = JobQueued)" if "r \<in> set A" for r
    using assms(2) [OF that] by (simp add: g_def)
  have "update_where p f A = map g A" by (simp add: update_where_def g_def)
  moreover have "attempts_numbered J (map g A)" by (rule numbered_map) (use assms(1) g in simp_all)
  moreover have "latest_live (map g A)" by (rule latest_live_map) (use assms(1) g in simp_all)
  moreover have "fenced (map g A)" by (rule fenced_map) (use assms(1) g in simp_all)
  moreover have "leased (map g A) (filter q L)" by (rule leased_map) (use assms(1) g in simp_all)
  ultimately show ?thesis by simp
qed

end
