(* ===== verification/Exec_Invariant.thy ===== *)
theory Exec_Invariant
  imports Exec_Lifecycle
begin

text \<open>
  The invariant of the attempt lifecycle holds of the empty scheduler and every step keeps it, so it
  holds of every state the scheduler can reach.
\<close>

section \<open>New attempts\<close>

lemma numberedD:
  assumes "attempts_numbered J A" "a \<in> set A"
  shows "1 \<le> unat (at_number a)" and "\<exists>j\<in>set J. jb_id j = at_job_id a \<and> at_number a \<le> attempt_limit j"
    and "1 \<le> k \<Longrightarrow> k < unat (at_number a) \<Longrightarrow> \<exists>b\<in>set A. at_job_id b = at_job_id a \<and> unat (at_number b) = k"
  using assms unfolding attempts_numbered_def by blast+

lemma numbered_same:
  assumes "attempts_numbered J A" "a \<in> set A" "b \<in> set A" "at_job_id a = at_job_id b" "at_number a = at_number b"
  shows "a = b"
  using assms unfolding attempts_numbered_def distinct_map by (metis (mono_tags, lifting) inj_onD)

lemma numbered_id:
  assumes "attempts_numbered J A" "a \<in> set A" "b \<in> set A" "at_id a = at_id b"
  shows "a = b"
  using assms unfolding attempts_numbered_def distinct_map by (meson inj_onD)

lemma numbered_jobs: "attempts_numbered J A \<Longrightarrow> jb_id j \<notin> jb_id ` set J \<Longrightarrow> attempts_numbered (J @ [j]) A"
  unfolding attempts_numbered_def by auto

lemma numbered_append:
  assumes A: "attempts_numbered J A" and "at_id n \<notin> at_id ` set A"
    and "(at_job_id n, at_number n) \<notin> (\<lambda>b. (at_job_id b, at_number b)) ` set A"
    and "1 \<le> unat (at_number n)"
    and below: "\<And>k. 1 \<le> k \<Longrightarrow> k < unat (at_number n) \<Longrightarrow> \<exists>b\<in>set A. at_job_id b = at_job_id n \<and> unat (at_number b) = k"
    and "j \<in> set J" "jb_id j = at_job_id n" "at_number n \<le> attempt_limit j"
  shows "attempts_numbered J (A @ [n])"
proof -
  have "1 \<le> unat (at_number a) \<and> (\<forall>k. 1 \<le> k \<longrightarrow> k < unat (at_number a) \<longrightarrow>
              (\<exists>b\<in>set (A @ [n]). at_job_id b = at_job_id a \<and> unat (at_number b) = k))
         \<and> (\<exists>j\<in>set J. jb_id j = at_job_id a \<and> at_number a \<le> attempt_limit j)" if "a \<in> set (A @ [n])" for a
  proof (cases "a = n")
    case True
    then show ?thesis using assms by auto
  next
    case False
    then have "a \<in> set A" using that by simp
    from numberedD [OF A this] show ?thesis by auto
  qed
  then show ?thesis using assms(1-3) unfolding attempts_numbered_def by (auto simp: image_iff)
qed

lemma latest_live_append:
  assumes "latest_live A" "\<And>b. b \<in> set A \<Longrightarrow> at_job_id b = at_job_id n \<Longrightarrow> terminal (at_state b) \<and> at_number b \<le> at_number n"
  shows "latest_live (A @ [n])"
  using assms unfolding latest_live_def by auto

lemma fenced_append:
  "fenced A \<Longrightarrow> at_fencing_token n = None \<Longrightarrow> fenced (A @ [n])"
  unfolding fenced_def by (simp add: ball_Un) 

lemma leased_append:
  "leased A L \<Longrightarrow> at_fencing_token n = None \<Longrightarrow> leased (A @ [n]) L"
  unfolding leased_def by (simp add: bex_Un ball_Un)

lemma new_attempt_fields [simp]:
  "at_id (new_attempt i j n) = i" "at_job_id (new_attempt i j n) = j" "at_number (new_attempt i j n) = n"
  "at_state (new_attempt i j n) = JobQueued" "at_fencing_token (new_attempt i j n) = None"
  "at_revision (new_attempt i j n) = 0"
  by (simp_all add: new_attempt_def)

lemma attempt_limit_pos: "1 \<le> attempt_limit j"
  by (simp add: attempt_limit_def)

lemma sound_submitted:
  assumes "sound (J, A, L)" "jb_id j \<notin> jb_id ` set J" "i \<notin> at_id ` set A"
  shows "sound (J @ [j], A @ [new_attempt i (jb_id j) 1], L)"
proof -
  have A: "attempts_numbered J A" "latest_live A" "fenced A" "leased A L" using assms(1) by simp_all
  have no: "at_job_id b \<noteq> jb_id j" if "b \<in> set A" for b
    using numberedD(2) [OF A(1) that] assms(2) by (metis image_eqI)
  have fresh: "(jb_id j, 1) \<notin> (\<lambda>b. (at_job_id b, at_number b)) ` set A" using no by (metis (mono_tags) imageE prod.inject)
  have "attempts_numbered (J @ [j]) (A @ [new_attempt i (jb_id j) 1])"
    by (rule numbered_append [OF numbered_jobs [OF A(1) assms(2)], where j = j])
      (use assms(3) fresh attempt_limit_pos in simp_all)
  moreover have "latest_live (A @ [new_attempt i (jb_id j) 1])"
    by (rule latest_live_append [OF A(2)]) (use no in auto)
  ultimately show ?thesis using A by (simp add: fenced_append leased_append)
qed

lemma number_suc:
  assumes "attempts_numbered J A" "a \<in> set A" "at_number a < attempt_limit j"
  shows "unat (at_number a + 1) = Suc (unat (at_number a))"
proof -
  have "unat (at_number a) < unat (attempt_limit j)" using assms(3) word_less_nat_alt by blast
  then have "Suc (unat (at_number a)) < 2 ^ LENGTH(32)" using unsigned_less [of "attempt_limit j", where 'a = nat] by linarith
  then show ?thesis by (simp add: unat_word_ariths)
qed

lemma followed_latest:
  assumes "sound (J, A, L)" "a \<in> set A" "terminal (at_state a)" "at_number a < attempt_limit j"
    "(at_job_id a, at_number a + 1) \<notin> (\<lambda>b. (at_job_id b, at_number b)) ` set A"
    "b \<in> set A" "at_job_id b = at_job_id a"
  shows "terminal (at_state b) \<and> at_number b \<le> at_number a"
proof -
  have n: "attempts_numbered J A" and live: "latest_live A" using assms(1) by simp_all
  have le: "at_number b \<le> at_number a"
  proof (rule ccontr)
    assume "\<not> ?thesis"
    then have lt: "unat (at_number a) < unat (at_number b)" using word_le_nat_alt not_le by blast
    have "\<exists>c\<in>set A. at_job_id c = at_job_id a \<and> at_number c = at_number a + 1"
    proof (cases "unat (at_number b) = Suc (unat (at_number a))")
      case True
      then show ?thesis using assms(6,7) number_suc [OF n assms(2,4)]
        by (metis word_eq_iff_unsigned)
    next
      case False
      then have "Suc (unat (at_number a)) < unat (at_number b)" using lt by simp
      from numberedD(3) [OF n assms(6) _ this] obtain c where
        "c \<in> set A" "at_job_id c = at_job_id b" "unat (at_number c) = Suc (unat (at_number a))" by auto
      then show ?thesis using number_suc [OF n assms(2,4)] assms(7) by (metis word_eq_iff_unsigned)
    qed
    then show False using assms(5) by (auto simp: image_iff)
  qed
  moreover have "terminal (at_state b)"
  proof (rule ccontr)
    assume "\<not> ?thesis"
    then have "at_number a \<le> at_number b" using live assms(2,6,7) unfolding latest_live_def by simp
    with le have "a = b" using numbered_same [OF n assms(2,6)] assms(7) by simp
    then show False using assms(3) \<open>\<not> terminal (at_state b)\<close> by simp
  qed
  ultimately show ?thesis by simp
qed

lemma sound_followed:
  assumes "sound (J, A, L)" "a \<in> set A" "terminal (at_state a)" "j \<in> set J" "jb_id j = at_job_id a"
    "at_number a < attempt_limit j" "i \<notin> at_id ` set A"
    "(at_job_id a, at_number a + 1) \<notin> (\<lambda>b. (at_job_id b, at_number b)) ` set A"
  shows "sound (J, A @ [new_attempt i (at_job_id a) (at_number a + 1)], L)"
proof -
  let ?n = "new_attempt i (at_job_id a) (at_number a + 1)"
  have n: "attempts_numbered J A" and A: "latest_live A" "fenced A" "leased A L" using assms(1) by simp_all
  note suc = number_suc [OF n assms(2,6)]
  have below: "\<exists>b\<in>set A. at_job_id b = at_job_id a \<and> unat (at_number b) = k"
    if "1 \<le> k" "k < unat (at_number a + 1)" for k
  proof (cases "k = unat (at_number a)")
    case False
    then have "k < unat (at_number a)" using that suc by simp
    then show ?thesis using numberedD(3) [OF n assms(2) that(1)] by simp
  qed (use assms(2) in blast)
  have limit: "at_number a + 1 \<le> attempt_limit j"
    using suc assms(6) by (simp add: word_le_nat_alt word_less_nat_alt)
  have "attempts_numbered J (A @ [?n])"
    by (rule numbered_append [OF n, where j = j]) (use assms suc below limit in simp_all)
  moreover have "latest_live (A @ [?n])"
  proof (rule latest_live_append [OF A(1)])
    fix b assume b: "b \<in> set A" "at_job_id b = at_job_id ?n"
    have "terminal (at_state b) \<and> at_number b \<le> at_number a"
      by (rule followed_latest [OF assms(1-3,6,8) b(1)]) (use b(2) in simp)
    then show "terminal (at_state b) \<and> at_number b \<le> at_number ?n"
      using suc by (simp add: word_le_nat_alt)
  qed
  ultimately show ?thesis using A by (simp add: fenced_append leased_append)
qed


section \<open>Assignment\<close>

lemma max_or_zero_ge: "t \<in> set ns \<Longrightarrow> t \<le> max_or_zero ns"
proof -
  have "t \<in> set ns \<or> t \<le> m \<Longrightarrow> t \<le> fold max ns m" for m
    by (induction ns arbitrary: m) (auto simp: le_max_iff_disj)
  then show "t \<in> set ns \<Longrightarrow> t \<le> max_or_zero ns" by (simp add: max_or_zero_def)
qed

lemma tokens_of_iff: "t \<in> set (tokens_of j A) \<longleftrightarrow> (\<exists>b\<in>set A. at_job_id b = j \<and> at_fencing_token b = Some t)"
proof -
  have "List.map_filter f xs = map (the \<circ> f) (filter (\<lambda>x. f x \<noteq> None) xs)" for f :: "attempt \<Rightarrow> nat option" and xs
    by (simp add: map_filter_def)
  then show ?thesis unfolding tokens_of_def by (force simp: image_iff split: if_splits)
qed

lemma max_tokens_ge:
  "b \<in> set A \<Longrightarrow> at_job_id b = j \<Longrightarrow> at_fencing_token b = Some t \<Longrightarrow> t < Suc (max_or_zero (tokens_of j A))"
  using max_or_zero_ge [of t "tokens_of j A"] tokens_of_iff [of t j A] by (simp add: less_Suc_eq_le) blast

lemma fenced_assigned:
  assumes A: "attempts_numbered J A" "latest_live A" "fenced A" and a: "a \<in> set A" "at_state a = JobQueued"
    and T: "T = Suc (max_or_zero (tokens_of (at_job_id a) A))"
    and g: "\<And>r. r \<in> set A \<Longrightarrow> r \<noteq> a \<Longrightarrow> g r = r"
    and ga: "at_job_id (g a) = at_job_id a" "at_number (g a) = at_number a"
      "at_state (g a) \<noteq> JobQueued" "at_fencing_token (g a) = Some T"
  shows "fenced (map g A)"
proof -
  have "at_fencing_token (g b) = None" if "b \<in> set A" "at_state (g b) = JobQueued" for b
    using that g [OF that(1)] ga(3) A(3) unfolding fenced_def by (cases "b = a") auto
  moreover have "s < t" if b: "b \<in> set A" "c \<in> set A" "at_job_id (g b) = at_job_id (g c)"
      "at_fencing_token (g b) = Some s" "at_fencing_token (g c) = Some t" "at_number (g b) < at_number (g c)"
    for b c s t
  proof (cases "b = a")
    case True
    then have "c \<noteq> a" using b(6) by auto
    then have "at_job_id c = at_job_id a" "at_number a < at_number c"
      using b(3,6) g [OF b(2)] ga True by simp_all
    moreover have "at_number c \<le> at_number a" 
      using A(2) a b(2) calculation(1) unfolding latest_live_def by simp
    ultimately show ?thesis by simp
  next
    case False
    note gb = g [OF b(1) False]
    show ?thesis
    proof (cases "c = a")
      case True
      then show ?thesis using max_tokens_ge [OF b(1), of "at_job_id a" s] b(3,4,5) gb ga T by simp
    next
      case False
      note gc = g [OF b(2) False]
      show ?thesis using A(3) b gb gc unfolding fenced_def by metis
    qed
  qed
  ultimately show ?thesis unfolding fenced_def by simp
qed

lemma leased_assigned:
  assumes A: "attempts_numbered J A" "leased A L" and a: "a \<in> set A"
    and T: "T = Suc (max_or_zero (tokens_of (at_job_id a) A))"
    and g: "\<And>r. r \<in> set A \<Longrightarrow> r \<noteq> a \<Longrightarrow> g r = r"
    and ga: "at_job_id (g a) = at_job_id a" "at_id (g a) = at_id a" "at_fencing_token (g a) = Some T"
    and l: "le_job_id l = at_job_id a" "le_attempt_id l = at_id a" "le_fencing_token l = T"
  shows "leased (map g A) (filter (\<lambda>k. le_job_id k \<noteq> le_job_id l \<and> le_attempt_id k \<noteq> le_attempt_id l) L @ [l])"
proof -
  let ?L = "filter (\<lambda>k. le_job_id k \<noteq> le_job_id l \<and> le_attempt_id k \<noteq> le_attempt_id l) L"
  have d: "distinct (map le_job_id (?L @ [l]))"
    using A(2) by (auto simp: leased_def distinct_map_filter)
  have holder: "\<exists>b\<in>set (map g A). at_id b = le_attempt_id k \<and> at_job_id b = le_job_id k
      \<and> at_fencing_token b = Some (le_fencing_token k)" if k: "k \<in> set (?L @ [l])" for k
  proof (cases "k = l")
    case True
    then show ?thesis using a ga l by (intro bexI [of _ "g a"]) simp_all
  next
    case False
    then have k: "k \<in> set L" "le_attempt_id k \<noteq> at_id a" using that l by auto
    from A(2) k(1) obtain b where b: "b \<in> set A" "at_id b = le_attempt_id k" "at_job_id b = le_job_id k"
      "at_fencing_token b = Some (le_fencing_token k)" unfolding leased_def by blast
    then have "b \<noteq> a" using k(2) by auto
    then show ?thesis using g [OF b(1)] b by (intro bexI [of _ "g b"]) (simp_all, metis image_eqI)
  qed
  have top: "t \<le> le_fencing_token k" if k: "k \<in> set (?L @ [l])" and b: "b \<in> set A"
      "at_job_id (g b) = le_job_id k" "at_fencing_token (g b) = Some t" for k b t
  proof (cases "k = l")
    case True
    show ?thesis
    proof (cases "b = a")
      case False
      then show ?thesis using max_tokens_ge [OF b(1), of "at_job_id a" t] g [OF b(1)] b True l T by simp
    qed (use ga l b True in simp)
  next
    case False
    then have k: "k \<in> set L" "le_job_id k \<noteq> at_job_id a" using that l by auto
    then have "b \<noteq> a" using b ga by auto
    then show ?thesis using A(2) k b g [OF b(1)] unfolding leased_def by simp
  qed
  show ?thesis using d holder top unfolding leased_def by auto
qed

lemma sound_assigned:
  assumes "sound (J, A, L)" "a \<in> set A" "at_state a = JobQueued"
    "le_job_id l = at_job_id a" "le_attempt_id l = at_id a"
    "le_fencing_token l = Suc (max_or_zero (tokens_of (at_job_id a) A))"
  shows "sound (J, update_where (\<lambda>r. at_id r = at_id a \<and> at_state r = JobQueued)
        (\<lambda>r. r\<lparr>at_state := JobAssigned, at_revision := Suc (at_revision r), at_target_id := t,
          at_fencing_token := Some (le_fencing_token l)\<rparr>) A,
      filter (\<lambda>k. le_job_id k \<noteq> le_job_id l \<and> le_attempt_id k \<noteq> le_attempt_id l) L @ [l])"
proof -
  have n: "attempts_numbered J A" "latest_live A" "fenced A" "leased A L" using assms(1) by simp_all
  define g where "g r = (if at_id (r::attempt) = at_id a \<and> at_state r = JobQueued then
    r\<lparr>at_state := JobAssigned, at_revision := Suc (at_revision r), at_target_id := t,
          at_fencing_token := Some (le_fencing_token l)\<rparr> else r)" for r
  have other: "g r = r" if "r \<in> set A" "r \<noteq> a" for r
    using numbered_id [OF n(1) that(1) assms(2)] that(2) by (auto simp: g_def)
  have all: "at_id (g r) = at_id r \<and> at_job_id (g r) = at_job_id r \<and> at_number (g r) = at_number r
      \<and> (terminal (at_state r) \<longrightarrow> terminal (at_state (g r)))" for r
    by (simp add: g_def)
  have ga: "at_state (g a) \<noteq> JobQueued" "at_fencing_token (g a) = Some (le_fencing_token l)"
    using assms(3) by (simp_all add: g_def)
  have "attempts_numbered J (map g A)" "latest_live (map g A)"
    by (rule numbered_map [OF n(1)] latest_live_map [OF n(2)]; use all in simp)+
  moreover have "fenced (map g A)"
    by (rule fenced_assigned [OF n(1-3) assms(2,3,6) other]) (use all ga in simp_all)
  moreover have "leased (map g A) (filter (\<lambda>k. le_job_id k \<noteq> le_job_id l \<and> le_attempt_id k \<noteq> le_attempt_id l) L @ [l])"
    by (rule leased_assigned [OF n(1,4) assms(2,6) other]) (use all ga assms in simp_all)
  moreover have "update_where (\<lambda>r. at_id r = at_id a \<and> at_state r = JobQueued)
        (\<lambda>r. r\<lparr>at_state := JobAssigned, at_revision := Suc (at_revision r), at_target_id := t,
          at_fencing_token := Some (le_fencing_token l)\<rparr>) A = map g A"
    by (simp add: update_where_def g_def)
  ultimately show ?thesis by simp
qed

section \<open>Every step\<close>

lemma set_state_fields [simp]:
  "at_id (set_state st r) = at_id r" "at_job_id (set_state st r) = at_job_id r"
  "at_number (set_state st r) = at_number r" "at_fencing_token (set_state st r) = at_fencing_token r"
  "at_state (set_state st r) = st"
  by (simp_all add: set_state_def)

lemma filter_all: "filter (\<lambda>k. True) L = L"
  by simp

lemma leased_renew:
  assumes "leased A L" "\<And>k. le_job_id (f k) = le_job_id k \<and> le_attempt_id (f k) = le_attempt_id k
      \<and> le_fencing_token (f k) = le_fencing_token k"
  shows "leased A (map f L)"
proof -
  have "map le_job_id (map f L) = map le_job_id L" using assms(2) by simp
  then show ?thesis using assms unfolding leased_def by (simp del: map_map)
qed

lemma unchanged_state_valid: "valid_transition s t \<Longrightarrow> t \<noteq> JobQueued \<and> \<not> terminal s"
  by (auto simp: valid_transition_def)

lemma terminal_not_queued: "terminal s \<Longrightarrow> s \<noteq> JobQueued"
  by (cases s) simp_all

lemma lifecycle_sound: "lifecycle c d \<Longrightarrow> sound c \<Longrightarrow> sound d"
proof (induction rule: lifecycle.induct)
  case (submitted j J i A L)
  then show ?case by (intro sound_submitted)
next
  case (assigned a A J l t L)
  then show ?case by (intro sound_assigned)
next
  case (moved a A st J L)
  note n = moved(3)
  have "at_state r = at_state a" if "r \<in> set A" "at_id r = at_id a" for r
    using numbered_id [of J A r a] n that moved(1) by simp
  then show ?case
    using sound_update [OF n, of "\<lambda>r. at_id r = at_id a \<and> at_revision r = at_revision a" "set_state st" "\<lambda>_. True"]
      unchanged_state_valid [OF moved(2)] by simp
next
  case (correlated p f J A L)
  then show ?case using sound_update [OF correlated(2), of p f "\<lambda>_. True"] by simp
next
  case (finished l L st J A)
  then show ?case by (intro sound_update) (use terminal_not_queued [of st] in auto)
next
  case (expired l L J A)
  then show ?case by (intro sound_update) simp_all
next
  case (followed a A j J i L)
  then show ?case by (intro sound_followed)
next
  case (renewed f J A L)
  then show ?case using leased_renew [of A L f] by simp
qed

lemma reachable_sound: "lifecycle\<^sup>*\<^sup>* c d \<Longrightarrow> sound c \<Longrightarrow> sound d"
  by (induction rule: rtranclp_induct) (blast intro: lifecycle_sound)+

lemma sound_empty: "sound (core empty_scheduler)"
  by (simp add: core_def empty_scheduler_def attempts_numbered_def latest_live_def fenced_def leased_def)

end
