(* ===== verification/Exec_Requests.thy ===== *)
theory Exec_Requests
  imports Exec_Invariant
begin

text \<open>
  Every operation of the scheduler is a sequence of lifecycle steps, whatever it returns: the
  detailed tables refine the abstract machine through \<open>core\<close>.
\<close>

section \<open>Steps of the operations\<close>

lemma core_frames [simp]:
  "core (s\<lparr>db_keys := x1\<rparr>) = core s" "core (s\<lparr>db_events := x2\<rparr>) = core s"
  "core (s\<lparr>db_checkpoints := x3\<rparr>) = core s" "core (s\<lparr>db_artifacts := x4\<rparr>) = core s"
  "core (s\<lparr>db_receipts := x5\<rparr>) = core s" "core (s\<lparr>db_audit := x6\<rparr>) = core s"
  "core (s\<lparr>db_audit := x6, db_audit_next := x7\<rparr>) = core s" "core (s\<lparr>db_targets := x8\<rparr>) = core s"
  by (simp_all add: core_def)

lemma core_updates:
  "core (s\<lparr>db_jobs := J\<rparr>) = (J, db_attempts s, db_leases s)"
  "core (s\<lparr>db_attempts := A\<rparr>) = (db_jobs s, A, db_leases s)"
  "core (s\<lparr>db_leases := L\<rparr>) = (db_jobs s, db_attempts s, L)"
  by (simp_all add: core_def)

lemma frames_transaction: "frames m \<Longrightarrow> frames (transaction m)"
  by (simp add: frames_def transaction_def split: prod.splits sum.splits) (metis snd_conv)

lemma framed_act:
  "frames m \<Longrightarrow> (\<And>x. steps (f x)) \<Longrightarrow> steps (act m f)"
  by (rule steps_act [OF frames_steps])

lemma frames_core: "frames m \<Longrightarrow> core (snd (m s)) = core s"
  by (simp add: frames_def)

lemma steps_submit: "steps (submit E U manifest key now)"
  unfolding submit_def
proof (intro framed_act frames_simple steps_transaction)
  fix digest s x t
  assume run: "act (read_db (\<lambda>s. map_of (db_keys s) key)) (\<lambda>existing. case existing of
         Some (existing_digest, job_id) \<Rightarrow>
           if existing_digest = digest then done_with (SubmitExisting job_id)
           else fail_with IdempotencyConflict
       | None \<Rightarrow>
           act (draw U ''job_'') (\<lambda>job_id.
           act (draw U ''attempt_'') (\<lambda>attempt_id.
           act (insert_job \<lparr>jb_id = job_id, jb_manifest_digest = digest, jb_manifest = manifest,
             jb_created_at = now\<rparr>) (\<lambda>_.
           act (insert_attempt (new_attempt attempt_id job_id 1)) (\<lambda>_.
           act (insert_key key digest job_id) (\<lambda>_.
           act (append_event E U job_id (Some attempt_id) ''job_queued'' now
               (json_struct [(''manifestDigest'', ser_digest digest)])) (\<lambda>_.
             done_with (SubmitCreated job_id)))))))) s = (Inr x, t)"
  show "lifecycle\<^sup>*\<^sup>* (core s) (core t)"
  proof (cases "map_of (db_keys s) key")
    case None
    with run show ?thesis
      by (auto simp: action_simps core_def dest!: append_event_core intro!: r_into_rtranclp lifecycle.submitted
        [where j = "\<lparr>jb_id = _, jb_manifest_digest = _, jb_manifest = _, jb_created_at = _\<rparr>", simplified])
  next
    case (Some p)
    with run show ?thesis by (cases p) (auto simp: action_simps split: if_splits)
  qed
qed

lemma in_map_filterD: "y \<in> set (List.map_filter f xs) \<Longrightarrow> \<exists>x\<in>set xs. f x = Some y"
  by (auto simp: map_filter_def)

lemma job_tokens_of: "job_tokens j s = tokens_of j (db_attempts s)"
  by (simp add: job_tokens_def tokens_of_def)

lemma queued_candidatesD:
  assumes "find P (queued_candidates s) = Some (a, j)"
  shows "a \<in> set (db_attempts s) \<and> at_state a = JobQueued \<and> at_job_id a \<in> jb_id ` set (db_jobs s)"
proof -
  have "(a, j) \<in> set (queued_candidates s)" using find_SomeD [OF assms] by simp
  then have "(a, j) \<in> set (List.map_filter (\<lambda>a. if at_state a = JobQueued
           then map_option (Pair a) (job_by_id (at_job_id a) s) else None) (db_attempts s))"
    unfolding queued_candidates_def by (auto dest: in_set_takeD)
  from in_map_filterD [OF this] obtain b where "b \<in> set (db_attempts s)"
    "(if at_state b = JobQueued then map_option (Pair b) (job_by_id (at_job_id b) s) else None) = Some (a, j)"
    by blast
  then show ?thesis by (auto split: if_splits dest!: job_by_id_SomeD) (metis image_eqI)
qed

lemma steps_acquire: "steps (acquire E U worker target now ttl)"
  unfolding acquire_def
proof (intro steps_transaction, goal_cases)
  case (1 s x t)
  show ?case
  proof (cases "find (\<lambda>(a, j). pr_selected (placement (jb_manifest j) [target]) \<noteq> None) (queued_candidates s)")
    case None
    with 1 show ?thesis by (simp add: action_simps)
  next
    case (Some p)
    obtain a j where p: "p = (a, j)" by (cases p)
    note q = queued_candidatesD [OF Some [unfolded p]]
    let ?l = "\<lparr>le_job_id = at_job_id a, le_attempt_id = at_id a, le_worker_id = worker,
        le_fencing_token = Suc (max_or_zero (tokens_of (at_job_id a) (db_attempts s))),
        le_expires_at = saturating_add now ttl\<rparr>"
    from 1 have "core t = (db_jobs s, update_where (\<lambda>r. at_id r = at_id a \<and> at_state r = JobQueued)
        (\<lambda>r. r\<lparr>at_state := JobAssigned, at_revision := Suc (at_revision r), at_target_id := Some (xt_id target),
          at_fencing_token := Some (le_fencing_token ?l)\<rparr>) (db_attempts s),
        filter (\<lambda>k. le_job_id k \<noteq> le_job_id ?l \<and> le_attempt_id k \<noteq> le_attempt_id ?l) (db_leases s) @ [?l])"
      unfolding p by (auto simp: Some [simplified] p action_simps replace_lease_def core_def job_tokens_of Let_def
        dest!: append_event_core)
    moreover have "lifecycle (core s) \<dots>"
      unfolding core_def by (rule lifecycle.assigned) (use q in simp_all)
    ultimately show ?thesis by auto
  qed
qed

lemma steps_renew: "steps (renew lease now ttl)"
proof -
  have "lifecycle (core s) (core (snd (renew lease now ttl s)))" for s
    by (auto simp: renew_def core_def Let_def intro!: lifecycle.renewed)
  then show ?thesis by (auto simp: steps_def)
qed

lemma set_state_fun: "set_state st = (\<lambda>r. r\<lparr>at_state := st, at_revision := Suc (at_revision r)\<rparr>)"
  by (rule ext) (simp add: set_state_def)

lemma steps_transition: "steps (transition E U attempt_id expected_revision state now)"
  unfolding transition_def
proof (intro steps_act steps_transaction frames_steps frames_act frames_simple, goal_cases)
  case (1 s x t)
  then obtain a where a: "attempt_by_id attempt_id s = Some a" "at_revision a = expected_revision"
      "valid_transition (at_state a) state"
    and t: "core t = (db_jobs s, update_where (\<lambda>r. at_id r = attempt_id \<and> at_revision r = expected_revision)
        (set_state state) (db_attempts s), db_leases s)"
    by (auto simp: action_simps core_def set_state_fun ok_or_def split: option.splits dest!: append_event_core)
  from attempt_by_id_SomeD [OF a(1)] a have "lifecycle (core s) (core t)"
    unfolding t unfolding core_def using lifecycle.moved [of a "db_attempts s" state] by auto
  then show ?case by blast
qed

lemma steps_correlate: "steps (correlate_engine_run E U attempt_id token run now)"
  unfolding correlate_engine_run_def
proof (intro steps_transaction, goal_cases)
  case (1 s x t)
  then have "core t = core s \<or> core t = (db_jobs s, update_where (\<lambda>r. at_id r = attempt_id \<and> at_fencing_token r = Some token)
      (\<lambda>r. r\<lparr>at_engine_run_ref := Some run, at_revision := Suc (at_revision r)\<rparr>) (db_attempts s), db_leases s)"
    by (auto simp: action_simps core_def ok_or_def split: option.splits dest!: append_event_core)
  moreover have "lifecycle (core s) (db_jobs s, update_where (\<lambda>r. at_id r = attempt_id \<and> at_fencing_token r = Some token)
      (\<lambda>r. r\<lparr>at_engine_run_ref := Some run, at_revision := Suc (at_revision r)\<rparr>) (db_attempts s), db_leases s)"
    unfolding core_def by (rule lifecycle.correlated) simp
  ultimately show ?case by auto
qed

lemma frames_checkpoint: "frames (commit_checkpoint E U lease stage digest now)"
  unfolding commit_checkpoint_def
  by (intro frames_act frames_simple frames_transaction frames_write frames_append_event) simp

lemma frames_artifact: "frames (commit_artifact E U lease name digest bytes media_type now)"
  unfolding commit_artifact_def
  by (intro frames_act frames_simple frames_transaction frames_write frames_append_event) simp

lemma assert_fence_Ok: "assert_fence lease now s = (Inr v, t) \<Longrightarrow> t = s \<and> (\<exists>l\<in>set (db_leases s). lease_matches lease now l)"
  by (auto simp: assert_fence_def list_ex_iff split: if_splits)

text \<open>Operations that fail leave the core as it was.\<close>

definition failsafe :: "'a action \<Rightarrow> bool" where
  "failsafe m \<longleftrightarrow> (\<forall>s e t. m s = (Inl e, t) \<longrightarrow> core t = core s)"

lemma failsafe_frames: "frames m \<Longrightarrow> failsafe m"
  unfolding failsafe_def by (metis framesD)

lemma failsafe_act: "frames m \<Longrightarrow> (\<And>x. failsafe (f x)) \<Longrightarrow> failsafe (act m f)"
  unfolding failsafe_def act_Err by (metis framesD)

lemma failsafe_transaction: "failsafe (transaction m)"
  by (auto simp: failsafe_def transaction_def split: prod.splits sum.splits)

lemma failsafe_steps:
  assumes "failsafe m" "\<And>s x t. m s = (Inr x, t) \<Longrightarrow> lifecycle\<^sup>*\<^sup>* (core s) (core t)"
  shows "steps m"
  unfolding steps_def
proof
  fix s
  obtain r t where m: "m s = (r, t)" by (cases "m s")
  then show "lifecycle\<^sup>*\<^sup>* (core s) (core (snd (m s)))"
    using assms by (cases r) (auto simp: failsafe_def)
qed

lemma complete_core:
  assumes "complete E U lease state exit_code now s = (Inr x, t)"
  shows "core t = (db_jobs s, update_where (\<lambda>r. at_id r = le_attempt_id lease
             \<and> at_fencing_token r = Some (le_fencing_token lease) \<and> \<not> terminal (at_state r)) (set_state state) (db_attempts s),
           filter (\<lambda>k. \<not> (le_attempt_id k = le_attempt_id lease \<and> le_fencing_token k = le_fencing_token lease)) (db_leases s))"
    and "terminal state" and "\<exists>l\<in>set (db_leases s). lease_matches lease now l"
proof -
  note run = assms [unfolded complete_def Let_def act_Ok transaction_Ok simple_actions]
  from run show "terminal state" by blast
  from run show "\<exists>l\<in>set (db_leases s). lease_matches lease now l" by (auto dest!: assert_fence_Ok)
  from run show "core t = (db_jobs s, update_where (\<lambda>r. at_id r = le_attempt_id lease
             \<and> at_fencing_token r = Some (le_fencing_token lease) \<and> \<not> terminal (at_state r)) (set_state state) (db_attempts s),
           filter (\<lambda>k. \<not> (le_attempt_id k = le_attempt_id lease \<and> le_fencing_token k = le_fencing_token lease)) (db_leases s))"
    by (auto simp: set_state_fun simple_actions act_Ok ok_or_def core_def
        split: if_splits option.splits dest!: assert_fence_Ok append_event_core)
qed

lemma steps_complete: "steps (complete E U lease state exit_code now)"
proof (rule failsafe_steps)
  show "failsafe (complete E U lease state exit_code now)"
    unfolding complete_def by (intro failsafe_act failsafe_transaction frames_simple)
next
  fix s x t
  assume run: "complete E U lease state exit_code now s = (Inr x, t)"
  note c = complete_core [OF run]
  from c(3) obtain l where l: "l \<in> set (db_leases s)" "le_attempt_id l = le_attempt_id lease"
    "le_fencing_token l = le_fencing_token lease"
    by (auto simp: lease_matches_def)
  have "lifecycle (core s) (core t)"
    unfolding c(1) core_def [of s] l(2,3) [symmetric] by (rule lifecycle.finished [OF l(1) c(2)])
  then show "lifecycle\<^sup>*\<^sup>* (core s) (core t)" by blast
qed

lemma steps_cancel: "steps (cancel E U job_id now)"
  unfolding cancel_def Let_def by (intro framed_act frames_simple) (simp add: steps_transition frames_steps)


section \<open>Follow-up attempts\<close>

lemma row_of_latest:
  assumes "Option.bind (latest_attempt job_id s) (\<lambda>a. map_option (Pair a) (job_by_id (at_job_id a) s)) = Some (a, j)"
  shows "a \<in> set (db_attempts s)" "at_job_id a = job_id" "j \<in> set (db_jobs s)" "jb_id j = at_job_id a"
  using assms latest_attempt_SomeD [of job_id s a] job_by_id_SomeD [of "at_job_id a" s j]
  by (auto simp: bind_eq_Some_conv)

lemma steps_queue_followup: "steps (queue_followup E U job_id stage kind now)"
  unfolding queue_followup_def
proof (intro steps_act steps_transaction frames_steps frames_act frames_simple, goal_cases)
  case (1 s x t)
  then obtain a j where row: "Option.bind (latest_attempt job_id s) (\<lambda>a. map_option (Pair a) (job_by_id (at_job_id a) s)) = Some (a, j)"
    and a: "terminal (at_state a)" "at_number a < attempt_limit j"
    and n: "''attempt_'' @ U (db_drawn s) \<notin> at_id ` set (db_attempts s)"
      "(job_id, at_number a + 1) \<notin> (\<lambda>b. (at_job_id b, at_number b)) ` set (db_attempts s)"
    and t: "core t = (db_jobs s, db_attempts s @ [new_attempt (''attempt_'' @ U (db_drawn s)) job_id (at_number a + 1)], db_leases s)"
    by (auto simp: action_simps ok_or_def core_def split: option.splits dest!: append_event_core)
  note r = row_of_latest [OF row]
  have "lifecycle (core s) (core t)" unfolding t core_def [of s] r(2) [symmetric]
    by (rule lifecycle.followed [OF r(1) a(1) r(3,4) a(2) n(1)]) (use n(2) r(2) in simp)
  then show ?case by blast
qed

section \<open>Recovery of expired leases\<close>

lemma attempt_by_id_update:
  assumes "\<And>r. at_id (f r) = at_id r"
  shows "find (\<lambda>a. at_id a = i) (update_where p f A) = map_option (\<lambda>r. if p r then f r else r) (find (\<lambda>a. at_id a = i) A)"
  unfolding update_where_def by (induction A) (use assms in auto)

definition interrupted :: "string \<Rightarrow> attempt list \<Rightarrow> attempt list" where
  "interrupted i A = update_where (\<lambda>r. at_id r = i \<and> \<not> terminal (at_state r)) (set_state JobInterrupted) A"

lemma recover_lease_next:
  assumes "recover_lease E U attempt_id job_id now s = (Inr x, t)"
    and A: "A = interrupted attempt_id (db_attempts s)" and L: "L = filter (\<lambda>k. le_attempt_id k \<noteq> attempt_id) (db_leases s)"
  shows "\<exists>a j. find (\<lambda>a. at_id a = attempt_id) A = Some a \<and> find (\<lambda>j. jb_id j = at_job_id a) (db_jobs s) = Some j
     \<and> (at_number a < attempt_limit j \<longrightarrow> (\<exists>i. i \<notin> at_id ` set A
          \<and> (job_id, at_number a + 1) \<notin> (\<lambda>b. (at_job_id b, at_number b)) ` set A
          \<and> core t = (db_jobs s, A @ [new_attempt i job_id (at_number a + 1)], L)))
     \<and> (\<not> at_number a < attempt_limit j \<longrightarrow> core t = (db_jobs s, A, L))"
proof -
  from assms(1) [unfolded recover_lease_def] obtain a j v where
    a: "find (\<lambda>a. at_id a = attempt_id) A = Some a" "find (\<lambda>j. jb_id j = at_job_id a) (db_jobs s) = Some j"
    and v: "core v = (db_jobs s, A, L)"
    and rest: "(if at_number a < attempt_limit j
       then act (draw U ''attempt_'') (\<lambda>next_id.
          act (insert_attempt (new_attempt next_id job_id (at_number a + 1))) (\<lambda>_.
            append_event E U job_id (Some next_id) ''attempt_retry_queued'' now
              (json_struct [(''previousAttemptId'', JString attempt_id)])))
       else done_with ()) v = (Inr (), t)"
    by (auto simp: act_Ok transaction_Ok simple_actions ok_or_def core_def A L interrupted_def set_state_fun
        attempt_by_id_def job_by_id_def
        bind_eq_Some_conv simp del: if_split split: option.splits dest!: append_event_core)
  show ?thesis
  proof (rule exI [of _ a], rule exI [of _ j], intro conjI a impI)
    assume less: "at_number a < attempt_limit j"
    with rest v have n: "''attempt_'' @ U (db_drawn v) \<notin> at_id ` set A"
        "(job_id, at_number a + 1) \<notin> (\<lambda>b. (at_job_id b, at_number b)) ` set A"
        "core t = (db_jobs s, A @ [new_attempt (''attempt_'' @ U (db_drawn v)) job_id (at_number a + 1)], L)"
      by (auto simp: action_simps core_def dest!: append_event_core)
    show "\<exists>i. i \<notin> at_id ` set A \<and> (job_id, at_number a + 1) \<notin> (\<lambda>b. (at_job_id b, at_number b)) ` set A
          \<and> core t = (db_jobs s, A @ [new_attempt i job_id (at_number a + 1)], L)"
      by (rule exI [of _ "''attempt_'' @ U (db_drawn v)"]) (intro conjI n)
  next
    assume "\<not> at_number a < attempt_limit j"
    with rest v show "core t = (db_jobs s, A, L)" by (simp add: done_with_def)
  qed
qed

lemma recover_lease_core:
  assumes run: "recover_lease E U attempt_id job_id now s = (Inr x, t)" and sound: "sound (core s)"
    and l: "l \<in> set (db_leases s)" "le_attempt_id l = attempt_id" "le_job_id l = job_id"
  shows "lifecycle\<^sup>*\<^sup>* (core s) (core t)"
    and "db_leases t = filter (\<lambda>k. le_attempt_id k \<noteq> attempt_id) (db_leases s)"
proof -
  define A where "A = interrupted attempt_id (db_attempts s)"
  define L where "L = filter (\<lambda>k. le_attempt_id k \<noteq> attempt_id) (db_leases s)"
  have first: "lifecycle (core s) (db_jobs s, A, L)"
    unfolding core_def A_def interrupted_def L_def l(2) [symmetric] by (rule lifecycle.expired [OF l(1)])
  obtain a j where a: "find (\<lambda>a. at_id a = attempt_id) A = Some a" "find (\<lambda>j. jb_id j = at_job_id a) (db_jobs s) = Some j"
    and queued: "at_number a < attempt_limit j \<Longrightarrow> \<exists>i. i \<notin> at_id ` set A
          \<and> (job_id, at_number a + 1) \<notin> (\<lambda>b. (at_job_id b, at_number b)) ` set A
          \<and> core t = (db_jobs s, A @ [new_attempt i job_id (at_number a + 1)], L)"
    and same: "\<not> at_number a < attempt_limit j \<Longrightarrow> core t = (db_jobs s, A, L)"
    using recover_lease_next [OF run A_def L_def] by (elim exE conjE) (rule that; (assumption | erule mp))
  show "lifecycle\<^sup>*\<^sup>* (core s) (core t)"
  proof (cases "at_number a < attempt_limit j")
    case True
    obtain i where i: "i \<notin> at_id ` set A" "(job_id, at_number a + 1) \<notin> (\<lambda>b. (at_job_id b, at_number b)) ` set A"
      and t: "core t = (db_jobs s, A @ [new_attempt i job_id (at_number a + 1)], L)"
      using queued [OF True] by (elim exE conjE)
    note j = find_SomeD [OF a(2)] and a' = find_SomeD [OF a(1)]
    obtain b where b: "b \<in> set (db_attempts s)"
      and ab: "a = (if at_id b = attempt_id \<and> \<not> terminal (at_state b) then set_state JobInterrupted b else b)"
      using conjunct1 [OF a', unfolded A_def interrupted_def update_where_def set_map] by (rule imageE)
    have b_id: "at_id b = attempt_id" using a' ab by (cases "at_id b = attempt_id") simp_all
    obtain c where c: "c \<in> set (db_attempts s)" "at_id c = attempt_id" "at_job_id c = job_id"
      using sound l unfolding core_def by (auto simp: leased_def)
    have "b = c" using numbered_id [of "db_jobs s" "db_attempts s" b c] sound b b_id c by (simp add: core_def)
    then have job: "at_job_id a = job_id" and fin: "terminal (at_state a)"
      using ab b_id c by (cases "terminal (at_state b)"; simp)+
    have "lifecycle (db_jobs s, A, L) (core t)"
      unfolding t job [symmetric]
      by (rule lifecycle.followed [of a A j]) (use True i a' j job fin in simp_all)
    with first show ?thesis by (meson converse_rtranclp_into_rtranclp r_into_rtranclp)
  next
    case False
    then show ?thesis using same first by auto
  qed
  show "db_leases t = filter (\<lambda>k. le_attempt_id k \<noteq> attempt_id) (db_leases s)"
  proof (cases "at_number a < attempt_limit j")
    case True
    from queued [OF True] show ?thesis by (elim exE conjE) (simp add: core_def L_def)
  qed (use same in \<open>simp add: core_def L_def\<close>)
qed

lemma recover_leases_steps:
  assumes "sound (core s)" "distinct (map fst ps)"
    "\<And>a j. (a, j) \<in> set ps \<Longrightarrow> \<exists>l\<in>set (db_leases s). le_attempt_id l = a \<and> le_job_id l = j"
  shows "lifecycle\<^sup>*\<^sup>* (core s) (core (snd (recover_leases E U ps now recovered s)))"
  using assms
proof (induction ps arbitrary: s recovered)
  case Nil
  then show ?case by (simp add: done_with_def)
next
  case (Cons p ps)
  obtain a j where p: "p = (a, j)" by (cases p)
  obtain r t where run: "recover_lease E U a j now s = (r, t)" by (cases "recover_lease E U a j now s")
  show ?case
  proof (cases r)
    case (Inl e)
    have "core t = core s"
      using run failsafe_transaction unfolding recover_lease_def Inl failsafe_def by blast
    then show ?thesis using run by (simp add: p act_def Inl)
  next
    case (Inr v)
    obtain l where l: "l \<in> set (db_leases s)" "le_attempt_id l = a" "le_job_id l = j"
      using Cons.prems(3) [of a j] p by auto
    note c = recover_lease_core [OF run [unfolded Inr] Cons.prems(1) l]
    have "lifecycle\<^sup>*\<^sup>* (core t) (core (snd (recover_leases E U ps now (recovered @ [j]) t)))"
    proof (rule Cons.IH)
      show "sound (core t)" using reachable_sound [OF c(1) Cons.prems(1)] .
      show "distinct (map fst ps)" using Cons.prems(2) by simp
      show "\<exists>l\<in>set (db_leases t). le_attempt_id l = b \<and> le_job_id l = k" if b: "(b, k) \<in> set ps" for b k
      proof -
        have "b \<noteq> a" using b Cons.prems(2) p by (auto simp: image_iff)
        then show ?thesis using Cons.prems(3) [of b k] b c(2) by auto
      qed
    qed
    with c(1) show ?thesis using run Inr p by (simp add: act_def)
  qed
qed

lemma lease_attempts_distinct:
  assumes "sound (core s)"
  shows "distinct (map le_attempt_id (db_leases s))"
proof -
  have s: "attempts_numbered (db_jobs s) (db_attempts s)" "leased (db_attempts s) (db_leases s)"
    using assms by (simp_all add: core_def)
  have "le_job_id k = le_job_id l" if kl: "k \<in> set (db_leases s)" "l \<in> set (db_leases s)" "le_attempt_id k = le_attempt_id l" for k l
  proof -
    obtain a b where ab: "a \<in> set (db_attempts s)" "at_id a = le_attempt_id k" "at_job_id a = le_job_id k"
      "b \<in> set (db_attempts s)" "at_id b = le_attempt_id l" "at_job_id b = le_job_id l"
      using s(2) kl(1,2) unfolding leased_def by blast
    then have "a = b" using numbered_id [OF s(1), of a b] kl(3) by simp
    then show ?thesis using ab by simp
  qed
  moreover have d: "distinct (map le_job_id (db_leases s))" using s(2) by (simp add: leased_def)
  ultimately show ?thesis unfolding distinct_map inj_on_def by blast
qed

lemma recover_expired_steps:
  assumes "sound (core s)"
  shows "lifecycle\<^sup>*\<^sup>* (core s) (core (snd (recover_expired E U now s)))"
proof -
  let ?ps = "map (\<lambda>l. (le_attempt_id l, le_job_id l)) (filter (\<lambda>l. le_expires_at l < now) (db_leases s))"
  have "snd (recover_expired E U now s) = snd (recover_leases E U ?ps now [] s)"
    by (simp add: recover_expired_def act_def read_db_def)
  moreover have "distinct (map fst ?ps)"
    using distinct_map_filter [OF lease_attempts_distinct [OF assms], of "\<lambda>l. le_expires_at l < now"]
    by (simp add: comp_def)
  moreover have "\<exists>l\<in>set (db_leases s). le_attempt_id l = a \<and> le_job_id l = j" if "(a, j) \<in> set ?ps" for a j
    using that by auto
  ultimately show ?thesis using recover_leases_steps [OF assms, of ?ps E U now "[]"] by simp
qed

end
