(* ===== verification/Exec_Service.thy ===== *)
theory Exec_Service
  imports Exec_Requests Samples
begin

text \<open>
  Whole runs of the scheduler: a request is one call of an operation that may change the tables, with
  the time it is made at. Queries change nothing.
\<close>

section \<open>Requests\<close>

datatype request =
    SubmitRequest execution_manifest string
  | AcquireRequest stable_id execution_target u64
  | RenewRequest lease u64
  | TransitionRequest string nat job_state
  | CorrelateRequest string nat string
  | CheckpointRequest lease string sha256_digest
  | ArtifactRequest lease string sha256_digest u64 string
  | CompleteRequest lease job_state "int option"
  | CancelRequest string
  | RecoverRequest
  | RetryRequest string
  | ResumeRequest string string
  | RegisterRequest stable_id execution_target
  | PruneRequest string nat
  | AuditRequest string string string bool string

definition ignored :: "'a action \<Rightarrow> unit action" where
  "ignored m = act m (\<lambda>_. done_with ())"

fun handle :: "env \<Rightarrow> uuids \<Rightarrow> request \<Rightarrow> u64 \<Rightarrow> unit action" where
  "handle E U (SubmitRequest manifest key) now = ignored (submit E U manifest key now)"
| "handle E U (AcquireRequest worker target ttl) now = ignored (acquire E U worker target now ttl)"
| "handle E U (RenewRequest lease ttl) now = ignored (renew lease now ttl)"
| "handle E U (TransitionRequest i revision state) now = ignored (transition E U i revision state now)"
| "handle E U (CorrelateRequest i token run) now = correlate_engine_run E U i token run now"
| "handle E U (CheckpointRequest lease stage digest) now = ignored (commit_checkpoint E U lease stage digest now)"
| "handle E U (ArtifactRequest lease name digest bytes media_type) now =
     ignored (commit_artifact E U lease name digest bytes media_type now)"
| "handle E U (CompleteRequest lease state exit_code) now = ignored (complete E U lease state exit_code now)"
| "handle E U (CancelRequest job_id) now = ignored (cancel E U job_id now)"
| "handle E U RecoverRequest now = ignored (recover_expired E U now)"
| "handle E U (RetryRequest job_id) now = ignored (retry E U job_id now)"
| "handle E U (ResumeRequest job_id stage) now = ignored (resume E U job_id stage now)"
| "handle E U (RegisterRequest worker target) now = register_target worker target now"
| "handle E U (PruneRequest job_id minimum) now = ignored (prune_events_before job_id minimum)"
| "handle E U (AuditRequest identity action resource allowed why) now =
     audit E now identity action resource allowed why"

fun run_requests :: "env \<Rightarrow> uuids \<Rightarrow> (request \<times> u64) list \<Rightarrow> scheduler \<Rightarrow> scheduler" where
  "run_requests E U [] s = s"
| "run_requests E U ((r, now) # rs) s = run_requests E U rs (snd (handle E U r now s))"

lemma snd_ignored [simp]: "snd (ignored m s) = snd (m s)"
  by (simp add: ignored_def act_def done_with_def split: prod.split sum.split)

lemma stepsD: "steps m \<Longrightarrow> lifecycle\<^sup>*\<^sup>* (core s) (core (snd (m s)))"
  by (simp add: steps_def)

lemma frames_prune: "frames (prune_events_before job_id minimum)"
  by (simp add: frames_def prune_events_before_def Let_def)

lemma handle_lifecycle:
  assumes "sound (core s)"
  shows "lifecycle\<^sup>*\<^sup>* (core s) (core (snd (handle E U r now s)))"
proof (cases r)
  case (CheckpointRequest l stage d)
  then show ?thesis using stepsD [OF frames_steps [OF frames_checkpoint]] by simp
next
  case (ArtifactRequest l n d b m)
  then show ?thesis using stepsD [OF frames_steps [OF frames_artifact]] by simp
next
  case (ResumeRequest j stage)
  have "steps (resume E U j stage now)"
    unfolding resume_def by (intro framed_act frames_simple steps_queue_followup)
  then show ?thesis using stepsD ResumeRequest by simp
next
  case (RegisterRequest w t)
  have "steps (register_target w t now)"
    unfolding register_target_def by (intro framed_act frames_simple frames_steps frames_write) simp
  then show ?thesis using stepsD RegisterRequest by simp
next
  case (AuditRequest i a re al w)
  have "steps (audit E now i a re al w)"
    unfolding audit_def by (intro framed_act frames_simple frames_steps frames_write) simp
  then show ?thesis using stepsD AuditRequest by simp
next
  case RecoverRequest
  then show ?thesis using recover_expired_steps [OF assms] by simp
next
  case (RetryRequest j)
  then show ?thesis using stepsD [OF steps_queue_followup] by (simp add: retry_def)
next
  case (PruneRequest j n)
  then show ?thesis using stepsD [OF frames_steps [OF frames_prune]] by simp
qed (simp_all add: stepsD steps_submit steps_acquire steps_renew steps_transition steps_correlate
  steps_complete steps_cancel)

lemma run_lifecycle:
  "sound (core s) \<Longrightarrow> lifecycle\<^sup>*\<^sup>* (core s) (core (run_requests E U rs s))"
proof (induction rs arbitrary: s)
  case (Cons r rs)
  obtain q now where r: "r = (q, now)" by (cases r)
  have 1: "lifecycle\<^sup>*\<^sup>* (core s) (core (snd (handle E U q now s)))" by (rule handle_lifecycle [OF Cons.prems])
  from Cons.IH [OF reachable_sound [OF 1 Cons.prems]] 1 show ?case by (simp add: r)
qed simp

lemma run_sound: "sound (core s) \<Longrightarrow> sound (core (run_requests E U rs s))"
  by (rule reachable_sound [OF run_lifecycle])

section \<open>Finished attempts\<close>

text \<open>What a step leaves of a finished attempt.\<close>

definition same_attempt :: "attempt \<Rightarrow> attempt \<Rightarrow> bool" where
  "same_attempt a b \<longleftrightarrow> at_id b = at_id a \<and> at_job_id b = at_job_id a \<and> at_number b = at_number a
     \<and> at_state b = at_state a \<and> at_fencing_token b = at_fencing_token a"

fun attempts_of :: "core \<Rightarrow> attempt list" where
  "attempts_of (J, A, L) = A"

lemma update_where_in:
  assumes "a \<in> set A" "\<not> p a \<or> same_attempt a (f a)"
  shows "\<exists>b\<in>set (update_where p f A). same_attempt a b"
proof
  show "(if p a then f a else a) \<in> set (update_where p f A)"
    unfolding update_where_def set_map using assms(1) by (rule imageI)
  show "same_attempt a (if p a then f a else a)" using assms(2) by (auto simp: same_attempt_def)
qed

lemma same_attempt_refl: "same_attempt a a"
  by (simp add: same_attempt_def)

lemma lifecycle_keeps_finished:
  assumes "lifecycle c d" "sound c" "a \<in> set (attempts_of c)" "terminal (at_state a)"
  shows "\<exists>b\<in>set (attempts_of d). same_attempt a b"
  using assms
proof (induction rule: lifecycle.induct)
  case (submitted j J i A L)
  then show ?case using same_attempt_refl by auto
next
  case (assigned b A J l t L)
  have "at_state a \<noteq> JobQueued" using assigned.prems(3) by auto
  then show ?case unfolding attempts_of.simps
    by (intro update_where_in) (use assigned.prems(2) in simp_all)
next
  case (moved b A st J L)
  have "at_id a \<noteq> at_id b"
    using numbered_id [of J A a b] moved valid_transition_from [of "at_state b" st] by auto
  then show ?case unfolding attempts_of.simps
    by (intro update_where_in) (use moved.prems(2) in simp_all)
next
  case (correlated p f J A L)
  then show ?case unfolding attempts_of.simps
    by (intro update_where_in) (auto simp: same_attempt_def)
next
  case (finished l L st J A)
  then show ?case unfolding attempts_of.simps by (intro update_where_in) simp_all
next
  case (expired l L J A)
  then show ?case unfolding attempts_of.simps by (intro update_where_in) simp_all
next
  case (followed b A j J i L)
  then show ?case using same_attempt_refl by auto
next
  case (renewed f J A L)
  then show ?case using same_attempt_refl by auto
qed

lemma reachable_keeps_finished:
  assumes "lifecycle\<^sup>*\<^sup>* c d" "sound c" "a \<in> set (attempts_of c)" "terminal (at_state a)"
  shows "\<exists>b\<in>set (attempts_of d). same_attempt a b"
  using assms
proof (induction rule: rtranclp_induct)
  case base
  then show ?case using same_attempt_refl by blast
next
  case (step d e)
  then obtain b where b: "b \<in> set (attempts_of d)" "same_attempt a b" by blast
  have "\<exists>x\<in>set (attempts_of e). same_attempt b x"
    using lifecycle_keeps_finished [OF step.hyps(2) reachable_sound [OF step.hyps(1) step.prems(1)] b(1)]
      b(2) step.prems(3) by (simp add: same_attempt_def)
  then show ?case using b(2) unfolding same_attempt_def by metis
qed

section \<open>Relations kept by every operation\<close>

definition within :: "(scheduler \<Rightarrow> scheduler \<Rightarrow> bool) \<Rightarrow> 'a action \<Rightarrow> bool" where
  "within R m \<longleftrightarrow> (\<forall>s. R s (snd (m s)))"

locale table_relation =
  fixes R :: "scheduler \<Rightarrow> scheduler \<Rightarrow> bool"
  assumes refl: "R s s"
    and trans: "R s t \<Longrightarrow> R t u \<Longrightarrow> R s u"
    and drawn: "R s (s\<lparr>db_drawn := n\<rparr>)"
begin

lemma within_act: "within R m \<Longrightarrow> (\<And>x. within R (f x)) \<Longrightarrow> within R (act m f)"
  unfolding within_def act_def
  by (auto split: prod.split sum.split) (metis snd_conv trans)+

lemma within_simple:
  "within R (done_with x)" "within R (fail_with e)" "within R (lift r)" "within R (read_db g)"
  "within R (require b e)" "within R (draw U p)" "within R (assert_fence l now)" "within R (snapshot j)"
  by (auto simp: within_def done_with_def fail_with_def lift_def read_db_def require_def draw_def
      assert_fence_def snapshot_def refl drawn split: option.splits)

lemma within_transaction: "within R m \<Longrightarrow> within R (transaction m)"
  by (auto simp: within_def transaction_def drawn split: prod.splits sum.splits) (metis snd_conv)

lemma within_write: "(\<And>s. R s (h s)) \<Longrightarrow> within R (write_db h)"
  by (simp add: within_def write_db_def)

lemma within_if: "within R a \<Longrightarrow> within R b \<Longrightarrow> within R (if c then a else b)"
  by simp

lemma within_case_option: "within R a \<Longrightarrow> (\<And>x. within R (f x)) \<Longrightarrow> within R (case z of None \<Rightarrow> a | Some x \<Rightarrow> f x)"
  by (simp split: option.split)

lemma within_case_prod: "(\<And>x y. within R (f x y)) \<Longrightarrow> within R (case z of (x, y) \<Rightarrow> f x y)"
  by (simp split: prod.split)

lemmas within_intros = within_act within_simple within_transaction within_if within_case_option within_case_prod

end

end
