(* ===== verification/Exec_History.thy ===== *)
theory Exec_History
  imports Exec_Service "HOL-Library.Sublist"
begin

text \<open>
  Evidence is append-only: idempotency keys, checkpoints, artifacts, receipts and the audit log of the
  scheduler only grow, whatever is requested, and what was committed is never changed.
\<close>

section \<open>The relation\<close>

definition logged_on :: "scheduler \<Rightarrow> scheduler \<Rightarrow> bool" where
  "logged_on s t \<longleftrightarrow> prefix (db_keys s) (db_keys t) \<and> prefix (db_checkpoints s) (db_checkpoints t)
     \<and> prefix (db_artifacts s) (db_artifacts t) \<and> prefix (db_receipts s) (db_receipts t)
     \<and> prefix (db_audit s) (db_audit t)"

interpretation tables: table_relation logged_on
  by unfold_locales (auto simp: logged_on_def intro: prefix_order.trans)

lemma within_rows:
  "within logged_on (insert_job row1)" "within logged_on (insert_attempt row2)" "within logged_on (insert_key k d j)"
  "within logged_on (insert_event row3)" "within logged_on (update_attempts p f)" "within logged_on (replace_lease l)"
  by (simp_all add: within_def logged_on_def insert_job_def insert_attempt_def insert_key_def insert_event_def
      update_attempts_def replace_lease_def write_db_def)

lemma within_append_event: "within logged_on (append_event E U j a k now d)"
  unfolding append_event_def by (intro tables.within_intros within_rows)

lemmas kept_intros = tables.within_intros within_rows within_append_event tables.within_write

lemma kept_submit: "within logged_on (submit E U manifest key now)"
  unfolding submit_def by (intro kept_intros)

lemma kept_acquire: "within logged_on (acquire E U worker target now ttl)"
  unfolding acquire_def Let_def by (intro kept_intros)

lemma kept_renew: "within logged_on (renew lease now ttl)"
  by (simp add: within_def logged_on_def renew_def Let_def)

lemma kept_transition: "within logged_on (transition E U i revision state now)"
  unfolding transition_def by (intro kept_intros)

lemma kept_correlate: "within logged_on (correlate_engine_run E U i token run now)"
  unfolding correlate_engine_run_def by (intro kept_intros)

lemma kept_checkpoint: "within logged_on (commit_checkpoint E U lease stage digest now)"
  unfolding commit_checkpoint_def by (intro kept_intros) (simp add: logged_on_def)

lemma kept_artifact: "within logged_on (commit_artifact E U lease name digest bytes media_type now)"
  unfolding commit_artifact_def by (intro kept_intros) (simp add: logged_on_def)

lemma kept_complete: "within logged_on (complete E U lease state exit_code now)"
  unfolding complete_def Let_def by (intro kept_intros) (simp_all add: logged_on_def)

lemma kept_cancel: "within logged_on (cancel E U job_id now)"
  unfolding cancel_def Let_def by (intro kept_intros kept_transition)

lemma kept_recover_lease: "within logged_on (recover_lease E U i j now)"
  unfolding recover_lease_def by (intro kept_intros) (simp add: logged_on_def)

lemma kept_recover_leases: "within logged_on (recover_leases E U ps now recovered)"
  by (induction E U ps now recovered rule: recover_leases.induct)
    (simp_all add: tables.within_simple tables.within_act kept_recover_lease)

lemma kept_recover: "within logged_on (recover_expired E U now)"
  unfolding recover_expired_def by (intro kept_intros kept_recover_leases)

lemma kept_followup: "within logged_on (queue_followup E U job_id stage kind now)"
  unfolding queue_followup_def by (intro kept_intros)

lemma kept_register: "within logged_on (register_target w t now)"
  unfolding register_target_def by (intro kept_intros) (simp add: logged_on_def)

lemma kept_audit: "within logged_on (audit E now i a r al w)"
  unfolding audit_def by (intro kept_intros) (simp add: logged_on_def)

lemma kept_prune: "within logged_on (prune_events_before j n)"
  by (simp add: within_def logged_on_def prune_events_before_def Let_def)

lemma kept_ignored: "within logged_on m \<Longrightarrow> within logged_on (ignored m)"
  by (simp add: within_def)

lemma kept_handle: "within logged_on (handle E U r now)"
  by (cases r) (simp_all add: kept_ignored kept_submit kept_acquire kept_renew kept_transition kept_correlate
      kept_checkpoint kept_artifact kept_complete kept_cancel kept_recover retry_def resume_def kept_followup
      kept_register kept_audit kept_prune tables.within_act tables.within_simple)

lemma kept_run: "logged_on s (run_requests E U rs s)"
proof (induction rs arbitrary: s)
  case Nil
  then show ?case by (simp add: tables.refl)
next
  case (Cons r rs)
  obtain q now where r: "r = (q, now)" by (cases r)
  have "logged_on s (snd (handle E U q now s))" using kept_handle by (simp add: within_def)
  then show ?case using Cons.IH tables.trans r by auto
qed

section \<open>Keys\<close>

lemma map_of_prefix: "prefix xs ys \<Longrightarrow> map_of xs k = Some v \<Longrightarrow> map_of ys k = Some v"
  by (auto simp: prefix_def)

lemma submit_created:
  assumes "submit E U manifest key now s = (Inr (SubmitCreated job_id), t)"
  shows "execution_manifest_validate E manifest = Inr ()"
    and "key \<noteq> [] \<and> length key \<le> 200"
    and "\<exists>d. execution_manifest_digest E manifest = Inr d \<and> map_of (db_keys t) key = Some (d, job_id)"
proof -
  note run = assms [unfolded submit_def act_Ok transaction_Ok simple_actions]
  from run show "execution_manifest_validate E manifest = Inr ()"
    by auto
  from run show "key \<noteq> [] \<and> length key \<le> 200" by auto
  have keys: "db_keys u = db_keys s" if "append_event E U j a k now d s = (Inr v, u)" for j a k d s v u
    using that unfolding append_event_def by (auto simp: action_simps insert_event_def split: if_splits)
  from run show "\<exists>d. execution_manifest_digest E manifest = Inr d \<and> map_of (db_keys t) key = Some (d, job_id)"
    by (auto simp: action_simps map_err_def map_add_Some_iff split: sum.splits option.splits prod.splits if_splits dest!: keys)
qed

end
