(* ===== verification/Exec_Events.thy ===== *)
theory Exec_Events
  imports Exec_History
begin

text \<open>
  The event log of a job: sequence numbers ascend in the order of the table, through appends and
  pruning, so a reader that asks for one page after another sees every event once.
\<close>

section \<open>Ascending logs\<close>

definition job_events :: "string \<Rightarrow> scheduler \<Rightarrow> job_event list" where
  "job_events job_id s = filter (\<lambda>e. ev_job_id e = job_id) (db_events s)"

definition ascending :: "scheduler \<Rightarrow> bool" where
  "ascending s \<longleftrightarrow> (\<forall>j. sorted_wrt (<) (map ev_sequence (job_events j s)) \<and> 0 \<notin> ev_sequence ` set (job_events j s))"

definition stays_ascending :: "scheduler \<Rightarrow> scheduler \<Rightarrow> bool" where
  "stays_ascending s t \<longleftrightarrow> (ascending s \<longrightarrow> ascending t)"

interpretation log: table_relation stays_ascending
  by unfold_locales (auto simp: stays_ascending_def ascending_def job_events_def)

lemma same_events: "db_events t = db_events s \<Longrightarrow> stays_ascending s t"
  by (simp add: stays_ascending_def ascending_def job_events_def)

lemma log_rows:
  "within stays_ascending (insert_job row1)" "within stays_ascending (insert_attempt row2)"
  "within stays_ascending (insert_key k d j)" "within stays_ascending (update_attempts p f)"
  "within stays_ascending (replace_lease l)"
  by (simp_all add: within_def same_events insert_job_def insert_attempt_def insert_key_def
      update_attempts_def replace_lease_def write_db_def)

lemma log_append_event: "within stays_ascending (append_event E U j a k now d)"
proof -
  have step: "stays_ascending s (s\<lparr>db_drawn := n, db_events := db_events s @ [row]\<rparr>)"
    if "ev_job_id row = j" "ev_sequence row = Suc (max_or_zero (map ev_sequence (job_events j s)))" for s n row
  proof -
    have "ev_sequence e < ev_sequence row" if "e \<in> set (job_events j s)" for e
      using max_or_zero_ge [of "ev_sequence e" "map ev_sequence (job_events j s)"] that \<open>ev_sequence row = _\<close>
      by (simp add: less_Suc_eq_le)
    then show ?thesis using that
      by (auto simp: stays_ascending_def ascending_def job_events_def sorted_wrt_append image_iff)
  qed
  have "stays_ascending s (snd (append_event E U j a k now d s))" for s
    by (auto simp: append_event_def act_def lift_def read_db_def draw_def insert_event_def job_events_def
        log.refl log.drawn intro!: step split: prod.splits sum.splits)
  then show ?thesis by (simp add: within_def)
qed

lemmas log_intros = log.within_intros log_rows log_append_event log.within_write

lemma log_prune: "within stays_ascending (prune_events_before j n)"
proof -
  have "sorted_wrt (<) (map ev_sequence (filter (\<lambda>e. p e \<and> q e) A))"
    if "sorted_wrt (<) (map ev_sequence (filter p A))" for p q and A :: "job_event list"
    using that by (simp add: sorted_wrt_map sorted_wrt_filter flip: filter_filter)
  then show ?thesis
    unfolding within_def prune_events_before_def Let_def stays_ascending_def ascending_def job_events_def
    by (auto simp: conj_commute [of _ "_ = _"])
qed

lemma log_transition: "within stays_ascending (transition E U i revision state now)"
  unfolding transition_def by (intro log_intros)

lemma log_recover_leases: "within stays_ascending (recover_leases E U ps now recovered)"
proof (induction E U ps now recovered rule: recover_leases.induct)
  case (2 E U i j rest now recovered)
  have "within stays_ascending (recover_lease E U i j now)"
    unfolding recover_lease_def by (intro log_intros) (simp add: same_events)
  then show ?case using 2 by (simp add: log.within_act)
qed (simp add: log.within_simple)

lemma log_followup: "within stays_ascending (queue_followup E U job_id stage kind now)"
  unfolding queue_followup_def by (intro log_intros)

lemma log_ignored: "within stays_ascending m \<Longrightarrow> within stays_ascending (ignored m)"
  by (simp add: within_def)

lemma log_handle: "within stays_ascending (handle E U r now)"
proof (cases r)
  case (SubmitRequest m k)
  then show ?thesis by (simp add: submit_def) (intro log_ignored log_intros)
next
  case (AcquireRequest w t ttl)
  then show ?thesis unfolding AcquireRequest handle.simps acquire_def Let_def by (intro log_ignored log_intros)
next
  case (RenewRequest l ttl)
  then show ?thesis by (simp add: within_def renew_def Let_def same_events)
next
  case (CorrelateRequest i t run)
  then show ?thesis by (simp add: correlate_engine_run_def) (intro log_intros)
next
  case (CheckpointRequest l st d)
  then show ?thesis by (simp add: commit_checkpoint_def) (intro log_ignored log_intros, simp add: same_events)
next
  case (ArtifactRequest l n d b m)
  then show ?thesis by (simp add: commit_artifact_def) (intro log_ignored log_intros, simp add: same_events)
next
  case (CompleteRequest l st c)
  then show ?thesis
    by (simp add: complete_def Let_def) (intro log_ignored log_intros, simp_all add: same_events)
next
  case (CancelRequest j)
  then show ?thesis by (simp add: cancel_def Let_def) (intro log_ignored log_intros log_transition)
next
  case (ResumeRequest j st)
  then show ?thesis by (simp add: resume_def) (intro log_ignored log_intros log_followup)
next
  case (RegisterRequest w t)
  then show ?thesis by (simp add: register_target_def) (intro log_intros, simp add: same_events)
next
  case (AuditRequest i a re al w)
  then show ?thesis by (simp add: audit_def) (intro log_intros, simp add: same_events)
next
  case RecoverRequest
  then show ?thesis by (simp add: recover_expired_def) (intro log_ignored log_intros log_recover_leases)
qed (simp_all add: log_ignored log_transition retry_def log_followup log_prune)

lemma run_ascending: "ascending s \<Longrightarrow> ascending (run_requests E U rs s)"
proof (induction rs arbitrary: s)
  case (Cons r rs)
  obtain q now where r: "r = (q, now)" by (cases r)
  have "stays_ascending s (snd (handle E U q now s))" using log_handle by (simp add: within_def)
  with Cons.IH Cons.prems show ?case by (simp add: r stays_ascending_def)
qed simp

lemma ascending_empty: "ascending empty_scheduler"
  by (simp add: ascending_def job_events_def empty_scheduler_def)

section \<open>Pages\<close>

lemma events_page:
  assumes "events job_id after limit s = (Inr page, t)" "ascending s"
  shows "t = s" and "page = take (max 1 (min 1000 (unat limit)))
    (filter (\<lambda>e. unat after < ev_sequence e) (job_events job_id s))"
proof -
  let ?rows = "filter (\<lambda>e. unat after < ev_sequence e) (job_events job_id s)"
  have "sorted_wrt (<) (map ev_sequence ?rows)"
    using assms(2) by (simp add: ascending_def sorted_wrt_map sorted_wrt_filter)
  then have "sorted (map ev_sequence ?rows)" by (simp add: strict_sorted_iff)
  then have "sort_key ev_sequence ?rows = ?rows" by (simp add: sorted_sort_id sort_key_id_if_sorted)
  with assms(1) show "t = s" "page = take (max 1 (min 1000 (unat limit))) ?rows"
    by (auto simp: events_def Let_def job_events_def split: if_splits)
qed

text \<open>The events after the last one of a page are those that follow it.\<close>

lemma take_ascending_rest:
  fixes f :: "'a \<Rightarrow> nat"
  assumes "sorted_wrt (<) (map f xs)" "take n xs \<noteq> []"
  shows "filter (\<lambda>x. f (last (take n xs)) < f x) xs = drop n xs"
proof -
  have split: "xs = take n xs @ drop n xs" by simp
  have "sorted_wrt (<) (map f (take n xs @ drop n xs))" using assms(1) by simp
  then have s: "sorted_wrt (<) (map f (take n xs))" "\<And>x y. x \<in> set (take n xs) \<Longrightarrow> y \<in> set (drop n xs) \<Longrightarrow> f x < f y"
    unfolding map_append sorted_wrt_append by auto
  have "f x \<le> f (last (take n xs))" if x: "x \<in> set (take n xs)" for x
  proof -
    obtain ys z where z: "take n xs = ys @ [z]" using assms(2) by (metis rev_exhaust)
    then show ?thesis using s(1) x by (auto simp: sorted_wrt_append)
  qed
  then have "filter (\<lambda>x. f (last (take n xs)) < f x) (take n xs) = []"
    by (simp add: filter_empty_conv linorder_not_less)
  moreover have "filter (\<lambda>x. f (last (take n xs)) < f x) (drop n xs) = drop n xs"
    using s(2) [OF last_in_set [OF assms(2)]] by (simp add: filter_id_conv)
  ultimately show ?thesis by (metis append_Nil filter_append split)
qed

end
