(* ===== verification/Exec_Samples.thy ===== *)
theory Exec_Samples
  imports Exec_Events
begin

text \<open>A concrete job, a target it fits on, and a run of the scheduler on them.\<close>

definition sample_manifest :: execution_manifest where
  "sample_manifest = \<lparr>xm_schema_version = SchemaVersion 1, xm_repository = ''r'',
     xm_repository_revision = GitRevision (replicate 40 (CHR ''a'')), xm_workspace_bundle_digest = None,
     xm_argv = [''make''], xm_workdir = PortableSourcePath ''.'', xm_secret_refs = [], xm_timeout_seconds = 60,
     xm_cancel_grace_seconds = 5,
     xm_resources = \<lparr>rq_cpu_millis = 1, rq_memory_mib = 1, rq_disk_mib = 1\<rparr>,
     xm_required_capabilities = [], xm_loadout_digest = sample_digest (CHR ''2'') (CHR ''0''),
     xm_execution_profile_digest = sample_digest (CHR ''2'') (CHR ''1''),
     xm_retry = \<lparr>rp_max_attempts = 3, rp_retryable_exit_codes = []\<rparr>, xm_checkpoint_enabled = False,
     xm_artifacts = \<lparr>ap_globs = [], ap_retention_seconds = 1, ap_max_bytes = 1\<rparr>,
     xm_network_policy = NetworkDeny, xm_repository_write = False, xm_browser = None\<rparr>"

definition sample_worker :: stable_id where
  "sample_worker = StableId ''worker''"

definition sample_target :: execution_target where
  "sample_target = \<lparr>xt_id = sample_worker, xt_platform = ''linux'', xt_healthy = True, xt_draining = False,
     xt_loadout_digest = sample_digest (CHR ''2'') (CHR ''0''),
     xt_execution_profile_digest = sample_digest (CHR ''2'') (CHR ''1''), xt_capabilities = [],
     xt_ready_secret_refs = [], xt_free = \<lparr>rq_cpu_millis = 4, rq_memory_mib = 4, rq_disk_mib = 4\<rparr>,
     xt_queue_depth = 0, xt_cost_score = 0\<rparr>"

definition sample_uuids :: uuids where
  "sample_uuids n = decimal n"

text \<open>Attempts of a job with two attempts, and the leases they had.\<close>

definition sample_job :: job where
  "sample_job = \<lparr>jb_id = ''j'', jb_manifest_digest = sample_digest (CHR ''2'') (CHR ''2''),
     jb_manifest = sample_manifest, jb_created_at = 1\<rparr>"

definition sample_attempt :: "string \<Rightarrow> u32 \<Rightarrow> job_state \<Rightarrow> nat option \<Rightarrow> attempt" where
  "sample_attempt i n st token = (new_attempt i ''j'' n)\<lparr>at_state := st, at_fencing_token := token\<rparr>"

definition sample_lease :: "string \<Rightarrow> nat \<Rightarrow> lease" where
  "sample_lease i token = \<lparr>le_job_id = ''j'', le_attempt_id = i, le_worker_id = sample_worker,
     le_fencing_token = token, le_expires_at = 12\<rparr>"

text \<open>The first attempt was interrupted; the second one runs.\<close>

definition sample_running :: scheduler where
  "sample_running = empty_scheduler\<lparr>db_jobs := [sample_job],
     db_attempts := [sample_attempt ''a'' 1 JobInterrupted (Some 1), sample_attempt ''b'' 2 JobRunning (Some 2)],
     db_leases := [sample_lease ''b'' 2]\<rparr>"

text \<open>The first attempt runs and its worker holds a lease.\<close>

definition sample_claimed :: scheduler where
  "sample_claimed = empty_scheduler\<lparr>db_jobs := [sample_job],
     db_attempts := [sample_attempt ''a'' 1 JobRunning (Some 1)], db_leases := [sample_lease ''a'' 1]\<rparr>"

lemma sample_attempt_fields [simp]:
  "at_id (sample_attempt i n st token) = i" "at_job_id (sample_attempt i n st token) = ''j''"
  "at_number (sample_attempt i n st token) = n" "at_state (sample_attempt i n st token) = st"
  "at_fencing_token (sample_attempt i n st token) = token"
  by (simp_all add: sample_attempt_def)

lemma sample_limit: "attempt_limit sample_job = 3"
  by code_simp

lemma two_attempts:
  assumes "terminal st" "st' = JobQueued \<longrightarrow> token = None" "token = None \<or> token = Some 2"
    "l = sample_lease ''a'' 1 \<and> token = None \<or> l = sample_lease ''b'' 2 \<and> token = Some 2"
  shows "sound ([sample_job], [sample_attempt ''a'' 1 st (Some 1), sample_attempt ''b'' 2 st' token], [l])"
proof -
  have "attempts_numbered [sample_job] [sample_attempt ''a'' 1 st (Some 1), sample_attempt ''b'' 2 st' token]"
    unfolding attempts_numbered_def by (auto simp: sample_limit) (auto simp: sample_job_def)
  moreover have "latest_live [sample_attempt ''a'' 1 st (Some 1), sample_attempt ''b'' 2 st' token]"
    using assms(1) by (simp add: latest_live_def)
  moreover have "fenced [sample_attempt ''a'' 1 st (Some 1), sample_attempt ''b'' 2 st' token]"
    using assms(1-3) terminal_not_queued [of st] by (auto simp: fenced_def)
  moreover have "leased [sample_attempt ''a'' 1 st (Some 1), sample_attempt ''b'' 2 st' token] [l]"
    using assms(3,4) by (auto simp: leased_def sample_lease_def)
  ultimately show ?thesis by simp
qed

lemma sample_running_sound: "sound (core sample_running)"
  unfolding core_def sample_running_def
  using two_attempts [of JobInterrupted JobRunning "Some 2" "sample_lease ''b'' 2"]
  by (simp add: empty_scheduler_def del: sound.simps)

lemma sample_claimed_sound: "sound (core sample_claimed)"
proof -
  have "attempts_numbered [sample_job] [sample_attempt ''a'' 1 JobRunning (Some 1)]"
    unfolding attempts_numbered_def by (auto simp: sample_limit) (auto simp: sample_job_def)
  then show ?thesis
    by (simp add: core_def sample_claimed_def empty_scheduler_def latest_live_def fenced_def leased_def sample_lease_def)
qed

end
