(* ===== verification/Exec_Recovery.thy ===== *)
theory Exec_Recovery
  imports Exec_Samples
begin

text \<open>
  Recovery after a cancellation: what \<open>cancel\<close> and \<open>retry\<close> leave in the tables, and what the recovery
  of expired leases does when it meets the lease of a finished attempt that has a successor.
\<close>

section \<open>Cancellation and retry\<close>

text \<open>What a cancellation and a retry leave behind.\<close>

lemma cancel_result:
  assumes "cancel E U job_id now s = (Inr a, t)"
  shows "a \<in> set (db_attempts t)" "terminal (at_state a)" "db_leases t = db_leases s"
proof -
  obtain j b where b: "job_by_id job_id s = Some j" "latest_attempt job_id s = Some b"
    using assms by (auto simp: cancel_def act_Ok snapshot_def split: option.splits)
  have "a \<in> set (db_attempts t) \<and> terminal (at_state a) \<and> db_leases t = db_leases s"
  proof (cases "terminal (at_state b)")
    case True
    then show ?thesis
      using assms b latest_attempt_SomeD [OF b(2)] by (simp add: cancel_def act_Ok snapshot_def simple_actions)
  next
    case False
    then have "transition E U (at_id b) (at_revision b) JobCanceled now s = (Inr a, t)"
      using assms b by (simp add: cancel_def act_def snapshot_def)
    then obtain c where c: "attempt_by_id (at_id b) s = Some c" "at_revision c = at_revision b"
      and t: "core t = (db_jobs s, update_where (\<lambda>r. at_id r = at_id b \<and> at_revision r = at_revision b)
        (set_state JobCanceled) (db_attempts s), db_leases s)"
      and a: "attempt_by_id (at_id b) t = Some a"
      by (auto simp: transition_def action_simps core_def set_state_fun ok_or_def split: option.splits
          dest!: append_event_core)
    from c a t attempt_by_id_SomeD [OF c(1)] have "a = set_state JobCanceled c"
      by (simp add: core_def attempt_by_id_def attempt_by_id_update)
    then show ?thesis using t attempt_by_id_SomeD [OF a] by (simp add: core_def)
  qed
  then show "a \<in> set (db_attempts t)" "terminal (at_state a)" "db_leases t = db_leases s" by blast+
qed

lemma retry_result:
  assumes "retry E U job_id now s = (Inr b, t)"
  shows "b \<in> set (db_attempts t)" "at_job_id b = job_id" "at_state b = JobQueued" "db_leases t = db_leases s"
proof -
  from assms obtain i n where t: "core t = (db_jobs s, db_attempts s @ [new_attempt i job_id n], db_leases s)"
    and i: "i \<notin> at_id ` set (db_attempts s)" and b: "attempt_by_id i t = Some b"
    by (auto simp: retry_def queue_followup_def action_simps ok_or_def core_def split: option.splits
        dest!: append_event_core)
  have "b = new_attempt i job_id n"
    using b t i attempt_by_id_SomeD [OF b] by (auto simp: core_def)
  then show "b \<in> set (db_attempts t)" "at_job_id b = job_id" "at_state b = JobQueued" "db_leases t = db_leases s"
    using attempt_by_id_SomeD [OF b] t by (simp_all add: core_def)
qed

section \<open>Superseded leases\<close>

text \<open>A lease whose attempt is finished and has a successor.\<close>

definition superseded :: "lease \<Rightarrow> scheduler \<Rightarrow> bool" where
  "superseded l s \<longleftrightarrow> (\<exists>a\<in>set (db_attempts s). \<exists>b\<in>set (db_attempts s). at_id a = le_attempt_id l
     \<and> terminal (at_state a) \<and> at_job_id a = le_job_id l \<and> at_job_id b = le_job_id l \<and> at_number a < at_number b)"

lemma lifecycle_keeps_rows:
  assumes "lifecycle c d" "b \<in> set (attempts_of c)"
  shows "\<exists>x\<in>set (attempts_of d). at_job_id x = at_job_id b \<and> at_number x = at_number b"
proof -
  have upd: "\<exists>x\<in>set (update_where p f A). at_job_id x = at_job_id b \<and> at_number x = at_number b"
    if "b \<in> set A" "\<And>r. p r \<Longrightarrow> at_job_id (f r) = at_job_id r \<and> at_number (f r) = at_number r" for p f A
    using that by (intro bexI [of _ "if p b then f b else b"]) (auto simp: update_where_def)
  show ?thesis using assms
    by (induction rule: lifecycle.induct) (auto intro!: upd)
qed

lemma reachable_keeps_rows:
  assumes "lifecycle\<^sup>*\<^sup>* c d" "b \<in> set (attempts_of c)"
  shows "\<exists>x\<in>set (attempts_of d). at_job_id x = at_job_id b \<and> at_number x = at_number b"
  using assms by (induction rule: rtranclp_induct) (blast, metis lifecycle_keeps_rows)

lemma superseded_kept:
  assumes "lifecycle\<^sup>*\<^sup>* (core s) (core t)" "sound (core s)" "superseded l s"
  shows "superseded l t"
proof -
  obtain a b where a: "a \<in> set (db_attempts s)" "at_id a = le_attempt_id l" "terminal (at_state a)"
      "at_job_id a = le_job_id l"
    and b: "b \<in> set (db_attempts s)" "at_job_id b = le_job_id l" "at_number a < at_number b"
    using assms(3) unfolding superseded_def by blast
  obtain a' where "a' \<in> set (db_attempts t)" "same_attempt a a'"
    using reachable_keeps_finished [OF assms(1,2), of a] a by (auto simp: core_def)
  moreover obtain b' where "b' \<in> set (db_attempts t)" "at_job_id b' = at_job_id b" "at_number b' = at_number b"
    using reachable_keeps_rows [OF assms(1), of b] b by (auto simp: core_def)
  ultimately show ?thesis unfolding superseded_def same_attempt_def using a b
    by (intro bexI [of _ a'] bexI [of _ b']) simp_all
qed

lemma interrupted_finished:
  assumes "list_all (\<lambda>r. at_id r = i \<longrightarrow> terminal (at_state r)) A"
  shows "interrupted i A = A"
  using assms unfolding interrupted_def update_where_def list_all_iff by (intro map_idI) auto

lemma recover_superseded:
  assumes "sound (core s)" "superseded l s"
    and run: "recover_lease E U (le_attempt_id l) (le_job_id l) now s = (r, t)"
  shows "\<exists>e. r = Inl e" "core t = core s"
proof -
  have s: "attempts_numbered (db_jobs s) (db_attempts s)" using assms(1) by (simp add: core_def)
  obtain a b where a: "a \<in> set (db_attempts s)" "at_id a = le_attempt_id l" "terminal (at_state a)"
      "at_job_id a = le_job_id l"
    and b: "b \<in> set (db_attempts s)" "at_job_id b = le_job_id l" "at_number a < at_number b"
    using assms(2) unfolding superseded_def by blast
  have same: "interrupted (le_attempt_id l) (db_attempts s) = db_attempts s"
  proof (rule interrupted_finished, unfold list_all_iff, intro ballI impI)
    fix r assume "r \<in> set (db_attempts s)" "at_id r = le_attempt_id l"
    with numbered_id [OF s this(1) a(1)] a show "terminal (at_state r)" by simp
  qed
  obtain n where n: "n = at_number a + 1" by blast
  have n_le: "unat n \<le> unat (at_number b)" using inc_le [OF b(3)] unfolding n word_le_nat_alt .
  have n_ge: "1 \<le> unat n" 
  proof -
    have "n \<noteq> 0" using b(3) unfolding n by (metis max_word_wrap word_order.extremum_strict)
    then show ?thesis by (simp add: Suc_le_eq unat_gt_0)
  qed
  have following: "\<exists>c\<in>set (db_attempts s). at_job_id c = le_job_id l \<and> at_number c = at_number a + 1"
    unfolding n [symmetric]
  proof (cases "unat n = unat (at_number b)")
    case True
    then have "at_number b = n" by (simp add: word_unat_eq_iff)
    then show "\<exists>c\<in>set (db_attempts s). at_job_id c = le_job_id l \<and> at_number c = n" using b by blast
  next
    case False
    with n_le have "unat n < unat (at_number b)" by simp
    from numberedD(3) [OF s b(1) n_ge this] obtain c where c: "c \<in> set (db_attempts s)"
      "at_job_id c = at_job_id b" "unat (at_number c) = unat n" by blast
    from c(3) have "at_number c = n" by (simp add: word_unat_eq_iff)
    then show "\<exists>c\<in>set (db_attempts s). at_job_id c = le_job_id l \<and> at_number c = n" using c b(2) by auto
  qed
  have "\<not> (\<exists>v. r = Inr v)"
  proof
    assume "\<exists>v. r = Inr v"
    then obtain v where v: "recover_lease E U (le_attempt_id l) (le_job_id l) now s = (Inr v, t)" using run by blast
    obtain c j where c: "find (\<lambda>a. at_id a = le_attempt_id l) (db_attempts s) = Some c"
      "find (\<lambda>j. jb_id j = at_job_id c) (db_jobs s) = Some j"
      and fresh: "at_number c < attempt_limit j \<longrightarrow>
        (le_job_id l, at_number c + 1) \<notin> (\<lambda>b. (at_job_id b, at_number b)) ` set (db_attempts s)"
      using recover_lease_next [OF v refl refl, unfolded same] by blast
    have "c = a" using find_SomeD [OF c(1)] numbered_id [OF s, of c a] a by simp
    moreover have "at_number b \<le> attempt_limit j"
      using numberedD(2) [OF s b(1)] find_SomeD [OF c(2)] \<open>c = a\<close> a(4) b(2) s
      unfolding attempts_numbered_def distinct_map inj_on_def by (metis (no_types))
    ultimately show False using fresh following b(3) by (auto simp: image_iff)
  qed
  then show "\<exists>e. r = Inl e" by (cases r) auto
  then show "core t = core s"
    using run failsafe_transaction unfolding recover_lease_def failsafe_def by blast
qed

section \<open>Recovery calls\<close>

lemma recover_leases_superseded:
  assumes "sound (core s)" "distinct (map fst ps)"
    "\<And>a j. (a, j) \<in> set ps \<Longrightarrow> \<exists>k\<in>set (db_leases s). le_attempt_id k = a \<and> le_job_id k = j"
    and "l \<in> set (db_leases s)" "superseded l s" "recover_leases E U ps now recovered s = (r, t)"
  shows "l \<in> set (db_leases t) \<and> ((le_attempt_id l, le_job_id l) \<in> set ps \<longrightarrow> (\<exists>e. r = Inl e))"
  using assms
proof (induction ps arbitrary: s recovered)
  case Nil
  then show ?case by (simp add: done_with_def)
next
  case (Cons p ps)
  obtain a j where p: "p = (a, j)" by (cases p)
  obtain q u where run: "recover_lease E U a j now s = (q, u)" by (cases "recover_lease E U a j now s")
  note asm = Cons.prems
  show ?case
  proof (cases q)
    case (Inl e)
    have "core u = core s"
      using run failsafe_transaction unfolding recover_lease_def Inl failsafe_def by blast
    then show ?thesis using asm(4,6) run Inl by (auto simp: p act_def core_def)
  next
    case (Inr v)
    obtain k where k: "k \<in> set (db_leases s)" "le_attempt_id k = a" "le_job_id k = j"
      using asm(3) [of a j] p by auto
    note c = recover_lease_core [OF run [unfolded Inr] asm(1) k]
    have other: "le_attempt_id l \<noteq> a"
    proof
      assume "le_attempt_id l = a"
      then have "l = k"
        using lease_attempts_distinct [OF asm(1)] asm(4) k(1,2) unfolding distinct_map inj_on_def by metis
      then show False using recover_superseded(1) [OF asm(1,5), of E U now q u] run k Inr by simp
    qed
    have rest: "recover_leases E U ps now (recovered @ [j]) u = (r, t)"
      using asm(6) run Inr p by (simp add: act_def)
    have leases: "\<exists>k\<in>set (db_leases u). le_attempt_id k = b \<and> le_job_id k = i" if b: "(b, i) \<in> set ps" for b i
    proof -
      have "b \<noteq> a" using b asm(2) p by (auto simp: image_iff)
      then show ?thesis using asm(3) [of b i] b c(2) by auto
    qed
    have kept: "l \<in> set (db_leases u)" using asm(4) other c(2) by simp
    have "distinct (map fst ps)" using asm(2) by simp
    note ih = Cons.IH [OF reachable_sound [OF c(1) asm(1)] this leases kept superseded_kept [OF c(1) asm(1,5)] rest]
    show ?thesis using ih other p by simp
  qed
qed

lemma recover_expired_superseded:
  assumes "sound (core s)" "l \<in> set (db_leases s)" "superseded l s" "recover_expired E U now s = (r, t)"
  shows "l \<in> set (db_leases t)" "le_expires_at l < now \<Longrightarrow> \<exists>e. r = Inl e"
proof -
  let ?ps = "map (\<lambda>l. (le_attempt_id l, le_job_id l)) (filter (\<lambda>l. le_expires_at l < now) (db_leases s))"
  have run: "recover_leases E U ?ps now [] s = (r, t)"
    using assms(4) by (simp add: recover_expired_def act_def read_db_def)
  have d: "distinct (map fst ?ps)"
    using distinct_map_filter [OF lease_attempts_distinct [OF assms(1)], of "\<lambda>l. le_expires_at l < now"]
    by (simp add: comp_def)
  have e: "\<exists>k\<in>set (db_leases s). le_attempt_id k = a \<and> le_job_id k = j" if "(a, j) \<in> set ?ps" for a j
    using that by auto
  note * = recover_leases_superseded [OF assms(1) d e assms(2,3) run]
  show "l \<in> set (db_leases t)" using * by blast
  show "\<exists>e. r = Inl e" if "le_expires_at l < now" using * that assms(2) by auto
qed

lemma recoveries_superseded:
  assumes "sound (core s)" "l \<in> set (db_leases s)" "superseded l s"
  shows "l \<in> set (db_leases (run_requests E U (map (Pair RecoverRequest) ts) s))"
  using assms
proof (induction ts arbitrary: s)
  case (Cons now ts)
  obtain r t where run: "recover_expired E U now s = (r, t)" by (cases "recover_expired E U now s")
  have step: "lifecycle\<^sup>*\<^sup>* (core s) (core t)" using recover_expired_steps [OF Cons.prems(1), of E U now] run by simp
  from Cons.IH [OF reachable_sound [OF step Cons.prems(1)] recover_expired_superseded(1) [OF Cons.prems run]
      superseded_kept [OF step Cons.prems(1,3)]]
  show ?case using run by simp
qed simp

lemma cancel_retry_superseded:
  assumes "sound (core s)" "l \<in> set (db_leases s)"
    and c: "cancel E U (le_job_id l) c_at s = (Inr a, s1)" "at_id a = le_attempt_id l"
    and r: "retry E U (le_job_id l) r_at s1 = (Inr b, s2)"
  shows "sound (core s2)" "l \<in> set (db_leases s2)" "superseded l s2"
proof -
  have 1: "lifecycle\<^sup>*\<^sup>* (core s) (core s1)"
    using stepsD [OF steps_cancel, of s E U "le_job_id l" c_at] c(1) by simp
  have 2: "lifecycle\<^sup>*\<^sup>* (core s1) (core s2)"
    using stepsD [OF steps_queue_followup, of s1 E U "le_job_id l" None "''manual_retry''" r_at] r
    by (simp add: retry_def)
  have s1: "sound (core s1)" by (rule reachable_sound [OF 1 assms(1)])
  show s2: "sound (core s2)" by (rule reachable_sound [OF 2 s1])
  show l: "l \<in> set (db_leases s2)"
    using assms(2) cancel_result(3) [OF c(1)] retry_result(4) [OF r] by simp
  obtain x where x: "x \<in> set (db_attempts s2)" "same_attempt a x"
    using reachable_keeps_finished [OF 2 s1, of a] cancel_result(1,2) [OF c(1)] by (auto simp: core_def)
  note tables = s2 [unfolded core_def sound.simps]
  obtain y where y: "y \<in> set (db_attempts s2)" "at_id y = le_attempt_id l" "at_job_id y = le_job_id l"
    using tables l unfolding leased_def by blast
  have "x = y" using numbered_id [of "db_jobs s2" "db_attempts s2" x y] tables x y c(2) by (simp add: same_attempt_def)
  have fin: "terminal (at_state x)" using x cancel_result(2) [OF c(1)] by (simp add: same_attempt_def)
  note b = retry_result [OF r]
  have "at_number x \<le> at_number b"
    using tables b(1-3) x(1) y(3) \<open>x = y\<close> unfolding latest_live_def by auto
  moreover have "at_number x \<noteq> at_number b"
    using numbered_same [of "db_jobs s2" "db_attempts s2" x b] tables x(1) b(1-3) y(3) \<open>x = y\<close> fin by auto
  ultimately have "at_number x < at_number b" by simp
  then show "superseded l s2" unfolding superseded_def using x(1) b(1,2) y(2,3) \<open>x = y\<close> fin by blast
qed

end
