(* ===== verification/Exec_Properties.thy ===== *)
theory Exec_Properties
  imports Exec_Recovery
begin

text \<open>The properties of the scheduler.\<close>

section \<open>Helpers\<close>

lemma assert_fence_None:
  assumes "\<not> list_ex (lease_matches lease now) (db_leases s)"
  shows "assert_fence lease now s = (Inl StaleFence, s)"
  using assms by (simp add: assert_fence_def)

lemma filter_none: "\<not> list_ex p xs \<Longrightarrow> filter p xs = [] \<and> map (\<lambda>x. if p x then f x else x) xs = xs"
  by (induction xs) auto

lemma newer_token_no_lease:
  assumes "sound (core s)" "b \<in> set (db_attempts s)" "at_job_id b = le_job_id lease"
    "at_fencing_token b = Some t" "le_fencing_token lease < t"
  shows "\<not> list_ex (lease_matches lease now) (db_leases s)"
proof
  assume "list_ex (lease_matches lease now) (db_leases s)"
  then obtain l where l: "l \<in> set (db_leases s)" "le_job_id l = le_job_id lease"
    "le_fencing_token l = le_fencing_token lease"
    by (auto simp: list_ex_iff lease_matches_def)
  have "leased (db_attempts s) (db_leases s)" using assms(1) by (simp add: core_def)
  then have "t \<le> le_fencing_token l" using l(1,2) assms(2-4) unfolding leased_def by simp
  then show False using l(3) assms(5) by simp
qed

lemma act_first_Err: "m s = (Inl e, t) \<Longrightarrow> act m f s = (Inl e, t)"
  by (simp add: act_def)

section \<open>Refinement and invariant\<close>

text \<open>
  C24: The scheduler refines the attempt lifecycle: whatever sequence of requests it serves, failed ones
  included, its tables of jobs, attempts and leases move from the empty ones by steps of the abstract
  machine only.
\<close>

theorem scheduler_refines_lifecycle:
  "lifecycle\<^sup>*\<^sup>* (core empty_scheduler) (core (run_requests E U rs empty_scheduler))"
  by (rule run_lifecycle [OF sound_empty])

text \<open>
  C25: In every state the scheduler reaches, the attempts of a job are numbered from one without gaps and
  within the manifest's limit, only the latest attempt of a job is unfinished, fencing tokens grow
  with the number of the attempt, queued attempts have none, and a job has at most one lease, held by
  the attempt whose token is the highest of the job.
\<close>

theorem scheduler_attempts_sound: "sound (core (run_requests E U rs empty_scheduler))"
  by (rule run_sound [OF sound_empty])

section \<open>Safety\<close>

text \<open>
  C26: A stale worker is fenced off: once another attempt of the job was given a higher fencing token, the
  holder of the old lease cannot commit a checkpoint or an artifact, complete the attempt or renew the
  lease, whatever the time on its lease says, and trying changes nothing.
\<close>

theorem stale_worker_rejected:
  assumes "sound (core s)" "b \<in> set (db_attempts s)" "at_job_id b = le_job_id lease"
    "at_fencing_token b = Some t" "le_fencing_token lease < t"
  shows "commit_checkpoint E U lease stage digest now s = (Inl StaleFence, s)
    \<and> commit_artifact E U lease name digest bytes media_type now s = (Inl StaleFence, s)
    \<and> complete E U lease st exit_code now s =
        (Inl (if terminal st then StaleFence else InvalidTerminalState), s)
    \<and> renew lease now ttl s = (Inl StaleFence, s)"
proof -
  note none = newer_token_no_lease [OF assms]
  note fence = assert_fence_None [OF none]
  have "complete E U lease st exit_code now s =
        (Inl (if terminal st then StaleFence else InvalidTerminalState), s)"
    by (simp add: complete_def act_def fence require_def done_with_def fail_with_def)
  moreover have "renew lease now ttl s = (Inl StaleFence, s)"
    using filter_none [OF none] by (simp add: renew_def Let_def)
  ultimately show ?thesis
    by (simp add: commit_checkpoint_def commit_artifact_def act_first_Err [of "assert_fence lease now", OF fence])
qed

theorem stale_worker_rejected_witness:
  "commit_checkpoint sample_env sample_uuids (sample_lease ''a'' 1) ''build'' (sample_digest (CHR ''3'') (CHR ''0'')) 5
     sample_running = (Inl StaleFence, sample_running)"
  by (rule conjunct1 [OF stale_worker_rejected [OF sample_running_sound, where t = 2 and
      b = "sample_attempt ''b'' 2 JobRunning (Some 2)"]])
    (simp_all add: sample_running_def sample_lease_def empty_scheduler_def)

text \<open>
  A finished attempt is final: no sequence of requests changes its state, its number, its job or its
  fencing token, or removes it.
\<close>

lemma finished_attempt_final:
  assumes "sound (core s)" "a \<in> set (db_attempts s)" "terminal (at_state a)"
  shows "\<exists>b \<in> set (db_attempts (run_requests E U rs s)). at_id b = at_id a \<and> at_job_id b = at_job_id a
    \<and> at_number b = at_number a \<and> at_state b = at_state a \<and> at_fencing_token b = at_fencing_token a"
proof -
  have "a \<in> set (attempts_of (core s))" using assms(2) by (simp add: core_def)
  from reachable_keeps_finished [OF run_lifecycle [OF assms(1)] assms(1) this assms(3), of E U rs]
  show ?thesis by (simp add: same_attempt_def core_def)
qed

text \<open>
  Evidence is append-only: idempotency keys, checkpoints, artifacts, receipts and audit entries that
  are in the tables stay there unchanged and in order, whatever is requested.
\<close>

lemma evidence_append_only:
  "prefix (db_keys s) (db_keys (run_requests E U rs s))
   \<and> prefix (db_checkpoints s) (db_checkpoints (run_requests E U rs s))
   \<and> prefix (db_artifacts s) (db_artifacts (run_requests E U rs s))
   \<and> prefix (db_receipts s) (db_receipts (run_requests E U rs s))
   \<and> prefix (db_audit s) (db_audit (run_requests E U rs s))"
  using kept_run [of s E U rs] by (simp only: logged_on_def)

section \<open>Functions\<close>

text \<open>
  C27: Submission is idempotent: after a manifest was accepted under a key, and any requests since, the
  same submission returns the same job and changes nothing, and a manifest with another digest under
  the same key is refused as a conflict.
\<close>

theorem submit_idempotent:
  assumes "submit E U manifest key now s = (Inr (SubmitCreated job_id), t)"
  shows "submit E U manifest key now2 (run_requests E U rs t)
      = (Inr (SubmitExisting job_id), run_requests E U rs t)
    \<and> (execution_manifest_validate E other = Inr () \<longrightarrow> execution_manifest_digest E other = Inr d
        \<longrightarrow> execution_manifest_digest E manifest \<noteq> Inr d
        \<longrightarrow> submit E U other key now2 (run_requests E U rs t)
            = (Inl IdempotencyConflict, run_requests E U rs t))"
proof -
  note c = submit_created [OF assms]
  from c(3) obtain e where e: "execution_manifest_digest E manifest = Inr e"
    "map_of (db_keys t) key = Some (e, job_id)" by blast
  have "map_of (db_keys (run_requests E U rs t)) key = Some (e, job_id)"
    by (rule map_of_prefix [OF _ e(2)]) (use kept_run in \<open>simp add: logged_on_def\<close>)
  then show ?thesis
    using c(1,2) e(1)
    by (auto simp: submit_def act_def transaction_def lift_def require_def read_db_def done_with_def fail_with_def)
qed

lemma sample_manifest_valid: "execution_manifest_validate sample_env sample_manifest = Inr ()"
  by code_simp

lemma sample_manifest_digest: "\<exists>d. execution_manifest_digest sample_env sample_manifest = Inr d"
  by (simp add: execution_manifest_digest_def sample_manifest_valid sample_digest_json)

lemma sample_event_safe:
  "assert_no_embedded_secrets sample_env (json_struct [(''manifestDigest'', JString d)]) = Inr ()"
proof -
  have "is_secret_key ''manifestDigest'' = False" by code_simp
  then show ?thesis
    by (simp add: assert_no_embedded_secrets_def json_struct_def bt_collect_def bt_insert.simps secret_entry_def
        assert_safe_string_def sample_env_def)
qed

lemma sample_submit:
  "\<exists>t. submit sample_env sample_uuids sample_manifest ''key'' 1 empty_scheduler = (Inr (SubmitCreated ''job_0''), t)
    \<and> (\<exists>e. db_events t = [e] \<and> ev_job_id e = ''job_0'' \<and> ev_sequence e = 1)"
proof -
  obtain d where d: "execution_manifest_digest sample_env sample_manifest = Inr d"
    using sample_manifest_digest by blast
  have "decimal 0 = ''0''" "decimal 1 = ''1''" by code_simp+
  then show ?thesis
    unfolding submit_def
    by (simp add: act_def lift_def require_def done_with_def transaction_def read_db_def draw_def insert_job_def
        insert_attempt_def insert_key_def append_event_def insert_event_def job_exists_def empty_scheduler_def
        max_or_zero_def sample_manifest_valid d ser_digest_def sample_event_safe sample_uuids_def)
qed

theorem submit_idempotent_witness:
  "\<exists>t. fst (submit sample_env sample_uuids sample_manifest ''key'' 9
     (run_requests sample_env sample_uuids [(RecoverRequest, 2)] t)) = Inr (SubmitExisting ''job_0'')"
proof -
  obtain t where t: "submit sample_env sample_uuids sample_manifest ''key'' 1 empty_scheduler
      = (Inr (SubmitCreated ''job_0''), t)" using sample_submit by blast
  show ?thesis using submit_idempotent [OF t, of 9 "[(RecoverRequest, 2)]"] by (metis fst_conv)
qed

text \<open>
  Reading a job's events page by page misses nothing and repeats nothing: in every reachable state a
  page holds the first events after the cursor in ascending order, at most 1000 and at least one when
  there is one, and the events after the page's last one are exactly the rest.
\<close>

lemma event_pages_exact:
  assumes "s = run_requests E U rs empty_scheduler"
    and "events job_id after limit s = (Inr page, t)" "page \<noteq> []"
  shows "t = s \<and> length page \<le> 1000 \<and> sorted_wrt (<) (map ev_sequence page)
    \<and> filter (\<lambda>e. unat after < ev_sequence e) (job_events job_id s) =
        page @ filter (\<lambda>e. ev_sequence (last page) < ev_sequence e) (job_events job_id s)"
proof -
  let ?rows = "filter (\<lambda>e. unat after < ev_sequence e) (job_events job_id s)"
  let ?n = "max 1 (min 1000 (unat limit))"
  have asc: "ascending s" using run_ascending [OF ascending_empty] assms(1) by simp
  note page = events_page [OF assms(2) asc]
  have sorted: "sorted_wrt (<) (map ev_sequence ?rows)"
    using asc by (simp add: ascending_def sorted_wrt_map sorted_wrt_filter)
  have "filter (\<lambda>e. ev_sequence (last page) < ev_sequence e) ?rows = drop ?n ?rows"
    using take_ascending_rest [OF sorted, of ?n] assms(3) page(2) by simp
  moreover have "unat after < ev_sequence (last page)"
    using last_in_set [OF assms(3)] page(2) in_set_takeD [of "last page" ?n ?rows] by auto
  then have "filter (\<lambda>e. ev_sequence (last page) < ev_sequence e) ?rows
      = filter (\<lambda>e. ev_sequence (last page) < ev_sequence e) (job_events job_id s)"
    by (auto intro: filter_cong)
  moreover have "sorted_wrt (<) (map ev_sequence page)"
    using sorted_wrt_take [OF sorted, of ?n] page(2) by (simp add: take_map)
  ultimately have "?rows = page @ filter (\<lambda>e. ev_sequence (last page) < ev_sequence e) (job_events job_id s)"
    using append_take_drop_id [of ?n ?rows] page(2) by argo
  moreover have "length page \<le> 1000" using page(2) by simp
  moreover note \<open>sorted_wrt (<) (map ev_sequence page)\<close>
  ultimately show ?thesis using page(1) by blast
qed

text \<open>
  C28: Placement picks the best eligible target: when it selects one, that target has no reason against it
  and no eligible target has a higher score, or the same score and a smaller identifier; and it selects
  one exactly when some target is eligible.
\<close>

theorem placement_best:
  "(\<forall>i. pr_selected (placement m ts) = Some i \<longrightarrow>
      (\<exists>t\<in>set ts. xt_id t = i \<and> placement_reasons m t = []
        \<and> (\<forall>u\<in>set ts. placement_reasons m u = [] \<longrightarrow>
              placement_score u < placement_score t
              \<or> placement_score u = placement_score t \<and> xt_id t \<le> xt_id u)))
   \<and> (pr_selected (placement m ts) = None \<longleftrightarrow> (\<forall>t\<in>set ts. placement_reasons m t \<noteq> []))"
proof -
  have "placement_score u < placement_score t \<or> placement_score u = placement_score t \<and> xt_id t \<le> xt_id u"
    if "(- placement_score t, xt_id t) \<le> (- placement_score u, xt_id u)" for t u
    using that by (auto simp: less_eq_prod_def)
  then show ?thesis using placement_selected by blast
qed

theorem placement_best_witness:
  "\<exists>t. t \<in> set [sample_target] \<and> xt_id t = sample_worker \<and> placement_reasons sample_manifest t = []"
proof -
  have "pr_selected (placement sample_manifest [sample_target]) = Some sample_worker" by code_simp
  with placement_best [of sample_manifest "[sample_target]"] show ?thesis by blast
qed

section \<open>Recovery after a cancellation\<close>

text \<open>
  A canceled attempt whose lease expires is followed by a queued one, although nobody asked for a
  retry.
\<close>

lemma canceled_attempt_requeued:
  assumes "recover_lease E U (at_id a) job_id now s = (Inr x, t)"
    and "find (\<lambda>b. at_id b = at_id a) (db_attempts s) = Some a" "at_state a = JobCanceled"
    and "list_all (\<lambda>r. at_id r = at_id a \<longrightarrow> terminal (at_state r)) (db_attempts s)"
    and "find (\<lambda>j. jb_id j = at_job_id a) (db_jobs s) = Some j" "at_number a < attempt_limit j"
  shows "\<exists>i. db_attempts t = db_attempts s @ [new_attempt i job_id (at_number a + 1)]"
  using recover_lease_next [OF assms(1) refl refl, unfolded interrupted_finished [OF assms(4)] assms(2)] assms(5,6)
  by (auto simp: core_def)

lemma sample_cancel_retry:
  "\<exists>a s1 b s2. cancel sample_env sample_uuids ''j'' 3 sample_claimed = (Inr a, s1) \<and> at_id a = ''a''
     \<and> retry sample_env sample_uuids ''j'' 4 s1 = (Inr b, s2)"
proof -
  have "(case cancel sample_env sample_uuids ''j'' 3 sample_claimed of
      (Inr a, s1) \<Rightarrow> at_id a = ''a'' \<and> (case retry sample_env sample_uuids ''j'' 4 s1 of
        (Inr b, s2) \<Rightarrow> True | (Inl e, s2) \<Rightarrow> False)
    | (Inl e, s1) \<Rightarrow> False)"
    by code_simp
  then show ?thesis by (auto split: prod.splits sum.splits)
qed

text \<open>
  C29: A job that is canceled and then retried while the lease of the canceled attempt is in the table
  stops recovery at that lease. Take a state with the invariant of reachable states, a lease in it, a
  cancellation that returns the attempt of the lease and a retry of its job, both successful. In every
  later state that still has the lease, whatever requests were served in between, a call of
  \<open>recover_expired\<close> after the lease expired returns an error and leaves the lease in the table; and
  recovery calls alone never remove it. The statement does not restrict what such a call does with the
  expired leases it meets before this one, each of which has a transaction of its own.
\<close>

theorem recovery_blocked_by_retried_job:
  assumes "sound (core s)" "l \<in> set (db_leases s)"
    and "cancel E U (le_job_id l) canceled_at s = (Inr a, s1)" "at_id a = le_attempt_id l"
    and "retry E U (le_job_id l) retried_at s1 = (Inr b, s2)"
  shows "l \<in> set (db_leases (run_requests E U (map (Pair RecoverRequest) ts) s2))
    \<and> (\<forall>rs now. l \<in> set (db_leases (run_requests E U rs s2)) \<longrightarrow> le_expires_at l < now \<longrightarrow>
        (\<exists>e t. recover_expired E U now (run_requests E U rs s2) = (Inl e, t) \<and> l \<in> set (db_leases t)))"
proof (intro conjI allI impI)
  note s2 = cancel_retry_superseded [OF assms]
  show "l \<in> set (db_leases (run_requests E U (map (Pair RecoverRequest) ts) s2))"
    by (rule recoveries_superseded [OF s2])
  fix rs now
  assume l: "l \<in> set (db_leases (run_requests E U rs s2))" "le_expires_at l < now"
  obtain r t where run: "recover_expired E U now (run_requests E U rs s2) = (r, t)"
    by (cases "recover_expired E U now (run_requests E U rs s2)")
  note * = recover_expired_superseded [OF run_sound [OF s2(1)] l(1)
      superseded_kept [OF run_lifecycle [OF s2(1)] s2(1,3)] run]
  show "\<exists>e t. recover_expired E U now (run_requests E U rs s2) = (Inl e, t) \<and> l \<in> set (db_leases t)"
    using *(1) *(2) [OF l(2)] run by auto
qed

theorem recovery_blocked_by_retried_job_witness:
  "\<exists>a s1 b s2. cancel sample_env sample_uuids ''j'' 3 sample_claimed = (Inr a, s1)
     \<and> retry sample_env sample_uuids ''j'' 4 s1 = (Inr b, s2)
     \<and> (\<exists>e t e' t'. recover_expired sample_env sample_uuids 100 s2 = (Inl e, t)
          \<and> recover_expired sample_env sample_uuids 200 t = (Inl e', t') \<and> sample_lease ''a'' 1 \<in> set (db_leases t'))"
proof -
  obtain a s1 b s2 where r: "cancel sample_env sample_uuids ''j'' 3 sample_claimed = (Inr a, s1)" "at_id a = ''a''"
    "retry sample_env sample_uuids ''j'' 4 s1 = (Inr b, s2)"
    using sample_cancel_retry by blast
  have l: "sample_lease ''a'' 1 \<in> set (db_leases sample_claimed)" "le_job_id (sample_lease ''a'' 1) = ''j''"
    "le_attempt_id (sample_lease ''a'' 1) = ''a''" "le_expires_at (sample_lease ''a'' 1) = 12"
    by (simp_all add: sample_claimed_def empty_scheduler_def sample_lease_def)
  note * = recovery_blocked_by_retried_job [OF sample_claimed_sound l(1), unfolded l(2-4), OF r]
  note kept = conjunct1 [OF *] and fails = conjunct2 [OF *, rule_format]
  obtain e t where t: "recover_expired sample_env sample_uuids 100 s2 = (Inl e, t)"
    using fails [of "[]" 100] kept [of "[]"] by auto
  obtain e' t' where "recover_expired sample_env sample_uuids 200 t = (Inl e', t')"
      "sample_lease ''a'' 1 \<in> set (db_leases t')"
    using fails [of "[(RecoverRequest, 100)]" 200] kept [of "[100]"] t by auto
  with t r show ?thesis by blast
qed

end
