(* ===== verification/Exec_Browser.thy ===== *)
theory Exec_Browser
  imports Contracts_Execution "HOL-Library.Multiset"
begin

text \<open>
  Sharded browser jobs, \<open>crates/commonkit-execution/src/browser.rs\<close>: which shards are still to be
  run, and the aggregate of their results.
\<close>

section \<open>Shards and results\<close>

record browser_shard_result =
  br_shard :: browser_shard
  br_environment_digest :: sha256_digest
  br_artifact_ids :: "string list"
  br_passed :: bool

record browser_aggregate =
  ba_environment_digest :: sha256_digest
  ba_result_digest :: sha256_digest
  ba_shard_count :: u32
  ba_passed :: u32
  ba_failed :: u32
  ba_artifact_ids :: "string list"

datatype browser_error = IncomparableEnvironment | DuplicateShard | BrowserContract contract_error

definition ser_browser_shard :: "browser_shard \<Rightarrow> json" where
  "ser_browser_shard s = json_struct
     [(''shardId'', JString (bs_shard_id s)), (''ordinal'', json_u32 (bs_ordinal s)),
      (''taskId'', JString (bs_task_id s))]"

definition ser_shard_result :: "browser_shard_result \<Rightarrow> json" where
  "ser_shard_result r = json_struct
     [(''shard'', ser_browser_shard (br_shard r)),
      (''environmentDigest'', ser_digest (br_environment_digest r)),
      (''artifactIds'', JArray (map JString (br_artifact_ids r))),
      (''passed'', JBool (br_passed r))]"

definition environment_digest :: "env \<Rightarrow> browser_profile \<Rightarrow> browser_error + sha256_digest" where
  "environment_digest E profile = map_err BrowserContract
     (digest_domain_json E ''commonkit.browser-environment.v1'' (ser_browser_profile profile))"

definition pending_shards :: "browser_shard list \<Rightarrow> checkpoint list \<Rightarrow> browser_shard list" where
  "pending_shards shards checkpoints =
     (let complete = map cp_stage checkpoints in
      filter (\<lambda>shard. bs_shard_id shard \<notin> set complete) shards)"

section \<open>Aggregation\<close>

text \<open>The loop over the results, with the ordinals and artifacts seen so far.\<close>

fun aggregate_loop ::
  "sha256_digest \<Rightarrow> u32 btree_set \<Rightarrow> string btree_set \<Rightarrow> browser_shard_result list
    \<Rightarrow> browser_error + string btree_set" where
  "aggregate_loop environment ordinals artifacts [] = Ok artifacts"
| "aggregate_loop environment ordinals artifacts (result # results) =
     (if br_environment_digest result \<noteq> environment then Err IncomparableEnvironment
      else if bs_ordinal (br_shard result) \<in> set ordinals then Err DuplicateShard
      else aggregate_loop environment (set_insert (bs_ordinal (br_shard result)) ordinals)
        (fold set_insert (br_artifact_ids result) artifacts) results)"

text \<open>The map from ordinals to results; as JSON its keys are their decimal texts.\<close>

definition ser_normalized :: "(u32, browser_shard_result) btree_map \<Rightarrow> json" where
  "ser_normalized m = json_struct (map (\<lambda>(ordinal, result). (decimal (unat ordinal), ser_shard_result result)) m)"

definition aggregate ::
  "env \<Rightarrow> browser_profile \<Rightarrow> browser_shard_result list \<Rightarrow> browser_error + browser_aggregate" where
  "aggregate E profile results =
     and_then (environment_digest E profile) (\<lambda>environment.
     and_then (aggregate_loop environment [] [] results) (\<lambda>artifacts.
       let passed = (of_nat (length (filter br_passed results)) :: u32);
           normalized = bt_collect (map (\<lambda>result. (bs_ordinal (br_shard result), result)) results) in
       and_then (map_err BrowserContract
           (digest_domain_json E ''commonkit.browser-aggregate.v1'' (ser_normalized normalized))) (\<lambda>result_digest.
         Ok \<lparr>ba_environment_digest = environment, ba_result_digest = result_digest,
             ba_shard_count = of_nat (length results), ba_passed = passed,
             ba_failed = of_nat (length results) - passed, ba_artifact_ids = artifacts\<rparr>)))"

section \<open>Facts\<close>

definition ordinals_of :: "browser_shard_result list \<Rightarrow> u32 list" where
  "ordinals_of results = map (\<lambda>r. bs_ordinal (br_shard r)) results"

lemma aggregate_loop_Ok_iff:
  "aggregate_loop environment ordinals artifacts results = Inr c \<longleftrightarrow>
     list_all (\<lambda>r. br_environment_digest r = environment) results
     \<and> distinct (ordinals_of results) \<and> set (ordinals_of results) \<inter> set ordinals = {}
     \<and> fold set_insert (concat (map br_artifact_ids results)) artifacts = c"
proof (induction results arbitrary: ordinals artifacts)
  case (Cons r results)
  show ?case by (simp add: Cons.IH ordinals_of_def) blast
qed (simp add: ordinals_of_def)

lemma set_fold_set_insert: "set (fold set_insert xs s) = set xs \<union> set s"
  by (induction xs arbitrary: s) auto

lemma set_wf_fold: "set_wf s \<Longrightarrow> set_wf (fold set_insert xs s)"
  by (induction xs arbitrary: s) (auto simp: set_wf_insert)

lemma fold_set_insert_cong:
  assumes "set xs = set ys"
  shows "fold set_insert xs [] = fold set_insert ys []"
proof -
  have wf: "set_wf ([] :: 'a list)" by (simp add: set_wf_def)
  show ?thesis
    using set_wf_fold [OF wf, of xs] set_wf_fold [OF wf, of ys] assms
    unfolding set_wf_def by (intro strict_sorted_equal) (auto simp: set_fold_set_insert)
qed

lemma bt_collect_perm:
  assumes "mset xs = mset ys" "distinct (map fst xs)"
  shows "bt_collect xs = bt_collect ys"
proof -
  have "distinct (map fst ys)" using assms by (metis mset_eq_imp_distinct_iff mset_map)
  then have "map_of (rev xs) k = map_of (rev ys) k" for k
    using assms(2) map_of_eqI [of "rev xs" "rev ys"] mset_eq_setD [OF assms(1)]
    by (metis distinct_rev map_of_inject_set rev_map set_rev)
  then show ?thesis by (intro bt_get_eqI) (simp_all add: bt_get_collect)
qed

text \<open>The aggregate does not depend on the order in which the shards reported.\<close>

lemma aggregate_perm:
  assumes "mset results = mset results'" "aggregate E profile results = Inr a"
  shows "aggregate E profile results' = Inr a"
proof -
  have len: "length results' = length results" using assms(1) by (metis size_mset)
  have sets: "set results' = set results" using assms(1) by (metis set_mset_mset)
  from assms(2) obtain environment artifacts where
    env: "environment_digest E profile = Inr environment"
    and loop: "aggregate_loop environment [] [] results = Inr artifacts"
    by (auto simp: aggregate_def and_then_Ok_iff)
  have d: "distinct (ordinals_of results)"
    using loop by (simp add: aggregate_loop_Ok_iff)
  have d': "distinct (ordinals_of results')"
    using d assms(1) unfolding ordinals_of_def by (metis mset_eq_imp_distinct_iff mset_map)
  have "artifacts = fold set_insert (concat (map br_artifact_ids results)) []"
    using loop by (simp add: aggregate_loop_Ok_iff)
  also have "\<dots> = fold set_insert (concat (map br_artifact_ids results')) []"
    by (rule fold_set_insert_cong) (simp add: sets)
  finally have "artifacts = fold set_insert (concat (map br_artifact_ids results')) []" .
  then have loop': "aggregate_loop environment [] [] results' = Inr artifacts"
    using loop d' sets by (simp add: aggregate_loop_Ok_iff list_all_iff ordinals_of_def)
  have passed: "length (filter br_passed results') = length (filter br_passed results)"
    using assms(1) by (metis mset_filter size_mset)
  have "mset (map (\<lambda>r. (bs_ordinal (br_shard r), r)) results) = mset (map (\<lambda>r. (bs_ordinal (br_shard r), r)) results')"
    using assms(1) by simp
  then have "bt_collect (map (\<lambda>r. (bs_ordinal (br_shard r), r)) results)
      = bt_collect (map (\<lambda>r. (bs_ordinal (br_shard r), r)) results')"
    by (rule bt_collect_perm) (use d in \<open>simp add: comp_def ordinals_of_def\<close>)
  then show ?thesis using assms(2) by (simp add: aggregate_def env loop loop' len passed)
qed

text \<open>The shards left for a retry are those without a checkpoint, in the order they were declared.\<close>

lemma pending_shards_after_commit:
  "pending_shards shards (checkpoints @ [c]) = filter (\<lambda>s. bs_shard_id s \<noteq> cp_stage c) (pending_shards shards checkpoints)"
  by (auto simp: pending_shards_def intro: filter_cong)

end
