(* ===== verification/Exec_Objects.thy ===== *)
theory Exec_Objects
  imports Exec_Scheduler
begin

text \<open>
  The content-addressed object store of \<open>crates/commonkit-execution/src/lib.rs\<close>: \<open>put\<close>, \<open>get\<close> and
  \<open>gc\<close> of \<open>LocalObjectStore\<close>. The directory is an association list from file names to their
  bytes, in the order the operating system lists them, with the names that are not plain files apart.
  The cipher, the random nonces and the failures of the system calls are parameters.
\<close>

section \<open>State\<close>

record cipher =
  ci_encrypt :: "string \<Rightarrow> string \<Rightarrow> string \<Rightarrow> string option"
  ci_decrypt :: "string \<Rightarrow> string \<Rightarrow> string \<Rightarrow> string option"

record object_store =
  os_files :: "(string \<times> string) list"
  os_directories :: "string list"
  os_encryption_key :: "string option"

datatype put_fault = NoFault | WriteFails | RenameFails

definition object_name :: "sha256_digest \<Rightarrow> string" where
  "object_name digest =
     (let text = digest_str digest in
      if starts_with text ''sha256:'' then drop (length ''sha256:'') text else text)"

definition put_object ::
  "env \<Rightarrow> cipher \<Rightarrow> string \<Rightarrow> string \<Rightarrow> put_fault \<Rightarrow> string \<Rightarrow> nat \<Rightarrow> object_store
    \<Rightarrow> (execution_error + sha256_digest) \<times> object_store" where
  "put_object E C nonce temporary fault bytes max_bytes store =
     (if max_bytes < length bytes then (Err ArtifactTooLarge, store)
      else case sha256_digest_parse (''sha256:'' @ env_sha256 E bytes) of
        Inl e \<Rightarrow> (Err (ExecutionContract e), store)
      | Inr digest \<Rightarrow>
          let target = object_name digest in
          if target \<in> set (map fst (os_files store)) \<union> set (os_directories store) then (Ok digest, store)
          else case (case os_encryption_key store of
                 None \<Rightarrow> Some bytes
               | Some key \<Rightarrow> map_option (\<lambda>encrypted. nonce @ encrypted) (ci_encrypt C key nonce bytes)) of
            None \<Rightarrow> (Err ObjectEncryption, store)
          | Some stored \<Rightarrow>
              (case fault of
                 WriteFails \<Rightarrow> (Err ObjectIo, store)
               | RenameFails \<Rightarrow> (Err ObjectIo, store\<lparr>os_files := os_files store @ [(temporary, stored)]\<rparr>)
               | NoFault \<Rightarrow> (Ok digest, store\<lparr>os_files := os_files store @ [(target, stored)]\<rparr>)))"

definition get_object :: "cipher \<Rightarrow> sha256_digest \<Rightarrow> object_store \<Rightarrow> execution_error + string" where
  "get_object C digest store =
     (case map_of (os_files store) (object_name digest) of
        None \<Rightarrow> Err ObjectIo
      | Some stored \<Rightarrow>
          (case os_encryption_key store of
             None \<Rightarrow> Ok stored
           | Some key \<Rightarrow>
               if length stored < 12 then Err ObjectEncryption
               else (case ci_decrypt C key (take 12 stored) (drop 12 stored) of
                   None \<Rightarrow> Err ObjectEncryption | Some bytes \<Rightarrow> Ok bytes)))"

definition gc_keeps :: "sha256_digest btree_set \<Rightarrow> string \<Rightarrow> bool" where
  "gc_keeps referenced name \<longleftrightarrow> starts_with name ''.''
     \<or> list_ex (\<lambda>digest. ends_with (digest_str digest) name) referenced"

definition gc_objects :: "sha256_digest btree_set \<Rightarrow> object_store \<Rightarrow> nat \<times> object_store" where
  "gc_objects referenced store =
     (length (filter (\<lambda>(name, _). \<not> gc_keeps referenced name) (os_files store)),
      store\<lparr>os_files := filter (\<lambda>(name, _). gc_keeps referenced name) (os_files store)\<rparr>)"

section \<open>Facts\<close>

text \<open>What the store relies on: decryption inverts encryption under the same key and nonce.\<close>

definition cipher_inverts :: "cipher \<Rightarrow> bool" where
  "cipher_inverts C \<longleftrightarrow> (\<forall>key nonce bytes out. ci_encrypt C key nonce bytes = Some out
     \<longrightarrow> ci_decrypt C key nonce out = Some bytes)"

lemma object_name_suffix: "ends_with (digest_str d) (object_name d)"
proof -
  have "ends_with s (drop n s)" for s n by (cases "n \<le> length s") (simp_all add: ends_with_def)
  from this [of "digest_str d" "length ''sha256:''"] this [of "digest_str d" 0] show ?thesis
    unfolding object_name_def Let_def by (cases "starts_with (digest_str d) ''sha256:''") (simp_all del: list.size)
qed

text \<open>A collection never removes an object that is still referenced.\<close>

lemma gc_keeps_referenced:
  assumes "d \<in> set referenced"
  shows "get_object C d (snd (gc_objects referenced store)) = get_object C d store"
proof -
  have "gc_keeps referenced (object_name d)"
    using assms object_name_suffix [of d] by (auto simp: gc_keeps_def list_ex_iff)
  then have "map_of (filter (\<lambda>(name, _). gc_keeps referenced name) fs) (object_name d) = map_of fs (object_name d)" for fs
    by (induction fs) auto
  from this [of "os_files store"] show ?thesis
    by (cases "map_of (os_files store) (object_name d)") (simp_all add: get_object_def gc_objects_def)
qed

text \<open>An object that was stored is read back.\<close>

lemma put_get:
  assumes "put_object E C nonce temporary NoFault bytes max_bytes store = (Inr d, store')"
    and "cipher_inverts C" "length nonce = 12"
    and "object_name d \<notin> set (map fst (os_files store)) \<union> set (os_directories store)"
  shows "get_object C d store' = Inr bytes"
proof -
  have no: "map_of (os_files store) (object_name d) = None"
    using assms(4) by (simp add: map_of_eq_None_iff)
  show ?thesis
    using assms(1-3) no assms(4)
    by (auto simp: put_object_def get_object_def Let_def cipher_inverts_def map_add_def
        split: if_splits sum.splits option.splits)
qed

end
