(* ===== verification/Core_Policy.thy ===== *)
theory Core_Policy
  imports Contracts_Layers Contracts_Packages
begin

text \<open>
  The policy checks of \<open>crates/commonkit-core/src/lib.rs\<close>: forbidden paths, the floor an
  organization's policy puts under the effective one, and the package sources it allows. The
  regular expressions are passed to the services of the environment as their source text.
\<close>

section \<open>Forbidden paths\<close>

definition forbidden_patterns :: "string list" where
  "forbidden_patterns =
     [''(^|/)auth'' @ [CHR 0x5C] @ ''.json$'',
      ''(^|/)hosts'' @ [CHR 0x5C] @ ''.yml$'',
      ''(?i)(^|/)credentials'' @ [CHR 0x5C] @ ''.enc$'',
      ''(?i)(^|/).*credentials.*'' @ [CHR 0x5C] @ ''.json$'',
      ''(?i)(^|/)client_secret.*'' @ [CHR 0x5C] @ ''.json$'',
      ''(?i)(^|/)token_cache'' @ [CHR 0x5C] @ ''.json$'',
      ''(?i)(^|/)'' @ [CHR 0x5C] @ ''.encryption_key$'',
      ''(^|/)'' @ [CHR 0x5C] @ ''.env(?:'' @ [CHR 0x5C] @ ''.|$)'',
      ''(?i)(^|/)(?:credentials?|tokens?|secrets?)(?:/|$|'' @ [CHR 0x5C] @ ''.(?:json|ya?ml|txt|enc)$)'',
      ''(?:^|/)orchestration'' @ [CHR 0x5C] @ ''.db(?:-(?:wal|shm))?$'',
      ''(?:^|/)(?:state|logs|memories|goals)_'' @ [CHR 0x5C] @ ''d+'' @ [CHR 0x5C] @ ''.sqlite(?:-(?:wal|shm))?$'',
      ''(?:^|/)(?:state|logs|memories|goals)(?:_[0-9]+)?'' @ [CHR 0x5C] @ ''.(?:db|sqlite|sqlite3)(?:-(?:wal|shm))?$'',
      ''(?:^|/)context-mode/sessions/'',
      ''(?:^|/)orca-(?:devices|e2ee-keypair)'' @ [CHR 0x5C] @ ''.json$'',
      ''(?:^|/)(?:Cookies|Local Storage|Singleton[^/]*)$'',
      [CHR 0x5C] @ ''.(?:sock|token)$'',
      ''(?i)'' @ [CHR 0x5C] @ ''.(?:pem|key)$'']"

definition is_forbidden_path :: "env \<Rightarrow> string \<Rightarrow> bool" where
  "is_forbidden_path E candidate \<longleftrightarrow> list_ex (\<lambda>pattern. env_is_match E pattern candidate) forbidden_patterns"

section \<open>Policy floor\<close>

datatype policy_violation =
    PackageSourceNotAllowed stable_id stable_id
  | DenialRemoved string
  | RequiredControlWeakened stable_id
  | AllowlistWidened stable_id
  | MinimumLowered stable_id
  | MaximumRaised stable_id

definition enforce_policy_floor :: "security_policy \<Rightarrow> security_policy \<Rightarrow> policy_violation + unit" where
  "enforce_policy_floor organization effective =
     and_then (for_each (\<lambda>denied_path.
         ensure (denied_path \<in> set (po_denied_paths effective)) (DenialRemoved denied_path))
       (po_denied_paths organization)) (\<lambda>_.
     and_then (for_each (\<lambda>(control, required).
         ensure (\<not> (required \<and> bt_get (po_required_controls effective) control \<noteq> Some True))
           (RequiredControlWeakened control))
       (po_required_controls organization)) (\<lambda>_.
     and_then (for_each (\<lambda>(name, allowed).
         case bt_get (po_allowlists effective) name of
           None \<Rightarrow> Err (AllowlistWidened name)
         | Some effective_allowed \<Rightarrow> ensure (is_subset effective_allowed allowed) (AllowlistWidened name))
       (po_allowlists organization)) (\<lambda>_.
     and_then (for_each (\<lambda>(name, minimum).
         ensure (\<not> (case bt_get (po_minimums effective) name of None \<Rightarrow> True | Some v \<Rightarrow> v < minimum))
           (MinimumLowered name))
       (po_minimums organization)) (\<lambda>_.
       for_each (\<lambda>(name, maximum).
         ensure (\<not> (case bt_get (po_maximums effective) name of None \<Rightarrow> True | Some v \<Rightarrow> maximum < v))
           (MaximumRaised name))
       (po_maximums organization)))))"

definition enforce_package_source_policy ::
  "security_policy \<Rightarrow> package_declaration \<Rightarrow> policy_violation + unit" where
  "enforce_package_source_policy policy package =
     ensure (case bt_get (po_allowlists policy) (StableId ''package_sources'') of
         None \<Rightarrow> False | Some sources \<Rightarrow> sid_str (pk_source package) \<in> set sources)
       (PackageSourceNotAllowed (pk_id package) (pk_source package))"

section \<open>Facts\<close>

text \<open>The floor as an order: what a policy may not weaken.\<close>

definition at_least_as_strict :: "security_policy \<Rightarrow> security_policy \<Rightarrow> bool" where
  "at_least_as_strict organization effective \<longleftrightarrow>
     set (po_denied_paths organization) \<subseteq> set (po_denied_paths effective)
     \<and> (\<forall>c. bt_get (po_required_controls organization) c = Some True
          \<longrightarrow> bt_get (po_required_controls effective) c = Some True)
     \<and> (\<forall>n a. bt_get (po_allowlists organization) n = Some a
          \<longrightarrow> (\<exists>b. bt_get (po_allowlists effective) n = Some b \<and> set b \<subseteq> set a))
     \<and> (\<forall>n m. bt_get (po_minimums organization) n = Some m
          \<longrightarrow> (\<exists>v. bt_get (po_minimums effective) n = Some v \<and> m \<le> v))
     \<and> (\<forall>n m. bt_get (po_maximums organization) n = Some m
          \<longrightarrow> (\<exists>v. bt_get (po_maximums effective) n = Some v \<and> v \<le> m))"

definition policy_wf :: "security_policy \<Rightarrow> bool" where
  "policy_wf p \<longleftrightarrow> bt_wf (po_required_controls p) \<and> bt_wf (po_allowlists p)
     \<and> bt_wf (po_minimums p) \<and> bt_wf (po_maximums p)"

lemma bt_ball:
  assumes "bt_wf m"
  shows "(\<forall>x\<in>set m. P (fst x) (snd x)) \<longleftrightarrow> (\<forall>k v. bt_get m k = Some v \<longrightarrow> P k v)"
proof -
  have "bt_get m k = Some v \<longleftrightarrow> (k, v) \<in> set m" for k v
    using bt_get_mem [OF assms] bt_get_SomeD [of m] by blast
  then show ?thesis by (simp add: Ball_def)
qed

lemma enforce_policy_floor_Ok:
  assumes "policy_wf organization"
  shows "enforce_policy_floor organization effective = Inr u \<longleftrightarrow> at_least_as_strict organization effective"
proof -
  have wf: "bt_wf (po_required_controls organization)" "bt_wf (po_allowlists organization)"
    "bt_wf (po_minimums organization)" "bt_wf (po_maximums organization)"
    using assms by (simp_all add: policy_wf_def)
  have c: "(\<forall>(c, r)\<in>set (po_required_controls organization). r \<longrightarrow> bt_get (po_required_controls effective) c = Some True)
      \<longleftrightarrow> (\<forall>c. bt_get (po_required_controls organization) c = Some True \<longrightarrow> bt_get (po_required_controls effective) c = Some True)"
    using bt_ball [OF wf(1), of "\<lambda>c r. r \<longrightarrow> bt_get (po_required_controls effective) c = Some True"]
    by (simp add: case_prod_unfold) metis
  have a: "(case bt_get (po_allowlists effective) n of None \<Rightarrow> Err (AllowlistWidened n)
         | Some e \<Rightarrow> ensure (is_subset e a) (AllowlistWidened n)) = Inr ()
      \<longleftrightarrow> (\<exists>b. bt_get (po_allowlists effective) n = Some b \<and> set b \<subseteq> set a)" for n a
    by (auto split: option.splits)
  have mi: "\<not> (case bt_get (po_minimums effective) n of None \<Rightarrow> True | Some v \<Rightarrow> v < m)
      \<longleftrightarrow> (\<exists>v. bt_get (po_minimums effective) n = Some v \<and> m \<le> v)" for n m
    by (auto split: option.splits)
  have ma: "\<not> (case bt_get (po_maximums effective) n of None \<Rightarrow> True | Some v \<Rightarrow> m < v)
      \<longleftrightarrow> (\<exists>v. bt_get (po_maximums effective) n = Some v \<and> v \<le> m)" for n m
    by (auto split: option.splits)
  have u: "u = ()" by simp
  show ?thesis
    unfolding u enforce_policy_floor_def at_least_as_strict_def and_then_Ok_iff for_each_Ok_iff case_prod_unfold
      ensure_Ok_iff a mi ma
    using c bt_ball [OF wf(2), of "\<lambda>n a. \<exists>b. bt_get (po_allowlists effective) n = Some b \<and> set b \<subseteq> set a"]
      bt_ball [OF wf(3), of "\<lambda>n m. \<exists>v. bt_get (po_minimums effective) n = Some v \<and> m \<le> v"]
      bt_ball [OF wf(4), of "\<lambda>n m. \<exists>v. bt_get (po_maximums effective) n = Some v \<and> v \<le> m"]
    by (auto simp: case_prod_unfold)
qed

lemma at_least_as_strict_refl: "at_least_as_strict p p"
  by (simp add: at_least_as_strict_def)

lemma at_least_as_strict_trans:
  assumes "at_least_as_strict p q" "at_least_as_strict q r"
  shows "at_least_as_strict p r"
proof -
  have "\<exists>b. bt_get (po_allowlists r) n = Some b \<and> set b \<subseteq> set a" if "bt_get (po_allowlists p) n = Some a" for n a
    using assms that unfolding at_least_as_strict_def by (meson order_trans)
  moreover have "\<exists>v. bt_get (po_minimums r) n = Some v \<and> m \<le> v" if "bt_get (po_minimums p) n = Some m" for n m
    using assms that unfolding at_least_as_strict_def by (meson order_trans)
  moreover have "\<exists>v. bt_get (po_maximums r) n = Some v \<and> v \<le> m" if "bt_get (po_maximums p) n = Some m" for n m
    using assms that unfolding at_least_as_strict_def by (meson order_trans)
  ultimately show ?thesis using assms unfolding at_least_as_strict_def by blast
qed

end
