(* ===== verification/Core_Context.thy ===== *)
theory Core_Context
  imports Contracts_Execution
begin

text \<open>
  The resolution of context for a runtime session, \<open>crates/commonkit-core/src/context_resolver.rs\<close>:
  which of the candidates a session may use, which of them fit its token budget, and what a receipt
  of the selection discloses to whom.
\<close>

section \<open>Data\<close>

datatype context_scope = OrganizationScope | ProjectScope | PersonalScope

record candidate_context =
  cc_id :: stable_id
  cc_section_id :: stable_id
  cc_scope :: context_scope
  cc_purpose :: stable_id
  cc_minimum_trust :: u8
  cc_priority :: int
  cc_token_cost :: u32
  cc_content_hash :: sha256_digest
  cc_conflict :: bool
  cc_procedure_gate :: "stable_id option"

record runtime_session =
  se_id :: stable_id
  se_user_id :: stable_id
  se_organization_id :: stable_id
  se_project_id :: stable_id
  se_purpose :: stable_id
  se_trust_class :: u8
  se_issued_at :: u64
  se_expires_at :: u64
  se_revocation_generation :: u64

record context_grant_rule =
  gr_id :: stable_id
  gr_context_id :: stable_id
  gr_organization_id :: stable_id
  gr_project_id :: stable_id
  gr_purpose :: stable_id
  gr_minimum_trust :: u8
  gr_issued_at :: u64
  gr_expires_at :: u64
  gr_revocation_generation :: u64

record context_resolution =
  cr_selected :: "stable_id list"
  cr_retrievable :: "stable_id list"
  cr_descriptor_only :: "stable_id list"
  cr_blocked_operations :: "stable_id list"
  cr_receipt_digest :: sha256_digest

datatype receipt_audience = UserAudience | OrganizationAudience

record receipt_selection =
  rs_context_id :: stable_id
  rs_scope :: context_scope
  rs_content_hash :: sha256_digest

record receipt_projection =
  rp_public_context_ids :: "stable_id list"
  rp_private_fragment_ref :: "sha256_digest option"

datatype context_resolver_error = ExpiredSession | StaleSession | ContextDigest

section \<open>Serialization\<close>

definition ser_scope :: "context_scope \<Rightarrow> json" where
  "ser_scope s = JString (case s of OrganizationScope \<Rightarrow> ''organization'' | ProjectScope \<Rightarrow> ''project''
     | PersonalScope \<Rightarrow> ''personal'')"

definition ser_candidate :: "candidate_context \<Rightarrow> json" where
  "ser_candidate c = json_struct
     [(''id'', ser_stable_id (cc_id c)), (''sectionId'', ser_stable_id (cc_section_id c)),
      (''scope'', ser_scope (cc_scope c)), (''purpose'', ser_stable_id (cc_purpose c)),
      (''minimumTrust'', json_u64 (ucast (cc_minimum_trust c))), (''priority'', json_i32 (cc_priority c)),
      (''tokenCost'', json_u32 (cc_token_cost c)), (''contentHash'', ser_digest (cc_content_hash c)),
      (''conflict'', JBool (cc_conflict c)),
      (''procedureGate'', json_option ser_stable_id (cc_procedure_gate c))]"

definition ser_receipt_selection :: "receipt_selection \<Rightarrow> json" where
  "ser_receipt_selection r = json_struct
     [(''contextId'', ser_stable_id (rs_context_id r)), (''scope'', ser_scope (rs_scope r)),
      (''contentHash'', ser_digest (rs_content_hash r))]"

definition ser_ids :: "stable_id list \<Rightarrow> json" where
  "ser_ids ids = JArray (map ser_stable_id ids)"

definition receipt_semantic ::
  "runtime_session \<Rightarrow> u64 \<Rightarrow> u64 \<Rightarrow> u32 \<Rightarrow> sha256_digest \<Rightarrow> stable_id list \<Rightarrow> stable_id list
    \<Rightarrow> stable_id list \<Rightarrow> stable_id list \<Rightarrow> json" where
  "receipt_semantic session now generation budget candidates selected retrievable descriptor_only blocked =
     json_struct
     [(''sessionId'', ser_stable_id (se_id session)), (''evaluationTimeUnixMs'', json_u64 now),
      (''revocationGeneration'', json_u64 generation), (''tokenBudget'', json_u32 budget),
      (''rankerVersion'', JString ''priority-id-v1''), (''tokenizerVersion'', JString ''declared-cost-v1''),
      (''candidateDigest'', ser_digest candidates), (''selected'', ser_ids selected),
      (''retrievable'', ser_ids retrievable), (''descriptorOnly'', ser_ids descriptor_only),
      (''blockedOperations'', ser_ids blocked)]"

section \<open>Receipts\<close>

definition project_receipt ::
  "env \<Rightarrow> receipt_selection list \<Rightarrow> receipt_audience \<Rightarrow> context_resolver_error + receipt_projection" where
  "project_receipt E selections audience =
     (let public_context_ids = sort (map rs_context_id (filter (\<lambda>s. rs_scope s \<noteq> PersonalScope) selections));
          private = filter (\<lambda>s. rs_scope s = PersonalScope) selections in
      and_then (case audience of
          OrganizationAudience \<Rightarrow> Ok None
        | UserAudience \<Rightarrow>
            if private = [] then Ok None
            else map_err (\<lambda>_. ContextDigest) (and_then
              (digest_domain_json E ''commonkit.context-receipt.private-fragment.v1''
                (JArray (map ser_receipt_selection private))) (\<lambda>d. Ok (Some d)))) (\<lambda>fragment.
        Ok \<lparr>rp_public_context_ids = public_context_ids, rp_private_fragment_ref = fragment\<rparr>))"

section \<open>Resolution\<close>

definition authorize_session :: "runtime_session \<Rightarrow> u64 \<Rightarrow> u64 \<Rightarrow> context_resolver_error + unit" where
  "authorize_session session now generation =
     (if now < se_issued_at session \<or> se_expires_at session \<le> now then Err ExpiredSession
      else if se_revocation_generation session \<noteq> generation then Err StaleSession
      else Ok ())"

definition grant_covers :: "runtime_session \<Rightarrow> u64 \<Rightarrow> u64 \<Rightarrow> candidate_context \<Rightarrow> context_grant_rule \<Rightarrow> bool" where
  "grant_covers session now generation candidate grant \<longleftrightarrow>
     gr_context_id grant = cc_id candidate
     \<and> gr_organization_id grant = se_organization_id session
     \<and> gr_project_id grant = se_project_id session
     \<and> gr_purpose grant = se_purpose session
     \<and> gr_minimum_trust grant \<le> se_trust_class session
     \<and> gr_issued_at grant \<le> now \<and> now < gr_expires_at grant
     \<and> gr_revocation_generation grant = generation"

definition applicable :: "runtime_session \<Rightarrow> candidate_context \<Rightarrow> bool" where
  "applicable session candidate \<longleftrightarrow>
     \<not> (cc_purpose candidate \<noteq> se_purpose session \<or> se_trust_class session < cc_minimum_trust candidate)"

definition authorized ::
  "runtime_session \<Rightarrow> u64 \<Rightarrow> u64 \<Rightarrow> context_grant_rule list \<Rightarrow> candidate_context \<Rightarrow> bool" where
  "authorized session now generation grants candidate \<longleftrightarrow>
     cc_scope candidate \<noteq> PersonalScope \<or> list_ex (grant_covers session now generation candidate) grants"

text \<open>Higher priority first, then by identifier.\<close>

definition rank :: "candidate_context \<Rightarrow> int \<times> stable_id" where
  "rank c = (- cc_priority c, cc_id c)"

text \<open>The loop over the eligible candidates with the budget that remains.\<close>

fun allocate ::
  "u32 \<Rightarrow> candidate_context list \<Rightarrow> stable_id list \<times> stable_id list \<times> stable_id list" where
  "allocate remaining [] = ([], [], [])"
| "allocate remaining (candidate # rest) =
     (if cc_token_cost candidate \<le> remaining
      then (case allocate (remaining - cc_token_cost candidate) rest of (selected, retrievable, blocked) \<Rightarrow>
        (cc_id candidate # selected, retrievable, blocked))
      else (case allocate remaining rest of (selected, retrievable, blocked) \<Rightarrow>
        (selected, cc_id candidate # retrievable,
         case cc_procedure_gate candidate of None \<Rightarrow> blocked | Some operation \<Rightarrow> operation # blocked)))"

definition eligible ::
  "runtime_session \<Rightarrow> u64 \<Rightarrow> u64 \<Rightarrow> candidate_context list \<Rightarrow> context_grant_rule list \<Rightarrow> candidate_context list" where
  "eligible session now generation candidates grants =
     sort_key rank (filter (\<lambda>c. applicable session c \<and> authorized session now generation grants c) candidates)"

definition descriptor_only ::
  "runtime_session \<Rightarrow> u64 \<Rightarrow> u64 \<Rightarrow> candidate_context list \<Rightarrow> context_grant_rule list \<Rightarrow> stable_id list" where
  "descriptor_only session now generation candidates grants =
     sort (map cc_id (filter (\<lambda>c. applicable session c \<and> \<not> authorized session now generation grants c) candidates))"

definition resolve_context ::
  "env \<Rightarrow> runtime_session \<Rightarrow> u64 \<Rightarrow> u64 \<Rightarrow> u32 \<Rightarrow> candidate_context list \<Rightarrow> context_grant_rule list
    \<Rightarrow> context_resolver_error + context_resolution" where
  "resolve_context E session now generation budget candidates grants =
     and_then (authorize_session session now generation) (\<lambda>_.
       (case allocate budget (eligible session now generation candidates grants) of
          (selected, retrievable, blocked) \<Rightarrow>
            let descriptors = descriptor_only session now generation candidates grants in
            and_then (map_err (\<lambda>_. ContextDigest)
                (digest_domain_json E ''commonkit.context-resolver.candidates.v1''
                  (JArray (map ser_candidate candidates)))) (\<lambda>candidate_digest.
            and_then (map_err (\<lambda>_. ContextDigest)
                (digest_domain_json E ''commonkit.context-receipt.v1''
                  (receipt_semantic session now generation budget candidate_digest selected retrievable
                    descriptors blocked))) (\<lambda>receipt_digest.
              Ok \<lparr>cr_selected = selected, cr_retrievable = retrievable, cr_descriptor_only = descriptors,
                  cr_blocked_operations = blocked, cr_receipt_digest = receipt_digest\<rparr>))))"

section \<open>Facts\<close>

text \<open>The reference: a candidate is taken when it fits into what the ones taken before it leave.\<close>

fun taken :: "nat \<Rightarrow> candidate_context list \<Rightarrow> candidate_context list" where
  "taken budget [] = []"
| "taken budget (c # cs) =
     (if unat (cc_token_cost c) \<le> budget then c # taken (budget - unat (cc_token_cost c)) cs else taken budget cs)"

fun left_over :: "nat \<Rightarrow> candidate_context list \<Rightarrow> candidate_context list" where
  "left_over budget [] = []"
| "left_over budget (c # cs) =
     (if unat (cc_token_cost c) \<le> budget then left_over (budget - unat (cc_token_cost c)) cs
      else c # left_over budget cs)"

lemma allocate_taken:
  "allocate r cs = (map cc_id (taken (unat r) cs), map cc_id (left_over (unat r) cs),
     List.map_filter cc_procedure_gate (left_over (unat r) cs))"
proof (induction cs arbitrary: r)
  case (Cons c cs)
  have "unat (r - cc_token_cost c) = unat r - unat (cc_token_cost c)" if "cc_token_cost c \<le> r"
    using that by (simp add: unat_sub)
  then show ?case
    using Cons.IH by (simp add: word_le_nat_alt split: option.split)
qed simp

lemma taken_budget: "sum_list (map (\<lambda>c. unat (cc_token_cost c)) (taken budget cs)) \<le> budget"
  by (induction budget cs rule: taken.induct) auto

lemma taken_left_over: "mset (taken budget cs) + mset (left_over budget cs) = mset cs"
  by (induction budget cs rule: taken.induct) auto

definition cost :: "candidate_context list \<Rightarrow> nat" where
  "cost cs = sum_list (map (\<lambda>c. unat (cc_token_cost c)) cs)"

lemma taken_append: "taken budget (xs @ ys) = taken budget xs @ taken (budget - cost (taken budget xs)) ys"
  and left_over_append: "left_over budget (xs @ ys) = left_over budget xs @ left_over (budget - cost (taken budget xs)) ys"
  by (induction budget xs rule: taken.induct) (auto simp: cost_def)

lemma resolve_context_Ok:
  assumes "resolve_context E session now generation budget candidates grants = Inr r"
  shows "authorize_session session now generation = Inr ()"
    and "cr_selected r = map cc_id (taken (unat budget) (eligible session now generation candidates grants))"
    and "cr_retrievable r = map cc_id (left_over (unat budget) (eligible session now generation candidates grants))"
    and "cr_descriptor_only r = descriptor_only session now generation candidates grants"
    and "cr_blocked_operations r = List.map_filter cc_procedure_gate
      (left_over (unat budget) (eligible session now generation candidates grants))"
  using assms by (auto simp: resolve_context_def allocate_taken and_then_Ok_iff Let_def)

lemma eligible_iff:
  "c \<in> set (eligible session now generation candidates grants) \<longleftrightarrow>
     c \<in> set candidates \<and> applicable session c \<and> authorized session now generation grants c"
  by (auto simp: eligible_def)

lemma taken_subset: "set (taken budget cs) \<subseteq> set cs"
  using taken_left_over [of budget cs] by (metis mset_subset_eq_add_left set_mset_mono set_mset_mset)

end
