(* ===== verification/Contracts_Portable.thy ===== *)
theory Contracts_Portable
  imports Contracts_Ids
begin

text \<open>
  The portable-context contracts, \<open>crates/commonkit-contracts/src/portable_context/mod.rs\<close>:
  signed record envelopes and their histories, repository access evidence, GitHub onboarding
  attempts, schema versions, and profile schemas with their extensions. Signature verification and
  the decoders that \<open>serde\<close> derives are parameters.
\<close>

section \<open>Records\<close>

datatype portable_record_kind =
    ContextGrantKind | ContextGrantRevocationKind | DeletionTombstoneKind | DeviceAuthorizationKind
  | DeviceCertificateKind | DeviceRevocationKind | ProfileRevisionKind

datatype owner_kind = OrganizationOwner | ProjectOwner | UserOwner

record record_owner =
  ow_kind :: owner_kind
  ow_id :: stable_id

record record_scope =
  sc_organization_id :: stable_id
  sc_project_id :: "stable_id option"

datatype principal_kind = UserPrincipal | AgentRuntimePrincipal | ServicePrincipal

record portable_principal =
  pp_kind :: principal_kind
  pp_provider :: stable_id
  pp_subject_id :: string
  pp_display_name :: string

datatype repository_role = OrganizationKitRole | ProjectContextRole | PersonalContextRole
datatype access_level = AccessRead | AccessWrite | AccessMaintain | AccessAdmin
datatype evidence_state = EvidenceActive | EvidenceRevoked

datatype portable_context_error =
    ZeroGeneration
  | MissingSignature
  | NoncanonicalParents
  | ExpiredRepositoryEvidence
  | RevokedRepositoryEvidence
  | InvalidEvidenceWindow
  | MissingProviderNodeId string
  | MissingRegistrationId
  | ProhibitedProfileField string
  | UnknownContractKind string
  | DowngradeRefused u32
  | UnauthorizedSigner stable_id
  | InvalidSignature
  | UnknownParent
  | NonmonotonicGeneration
  | RequiredExtensionField string
  | InvalidProfileExtension

section \<open>Repository access\<close>

record repository_access_evidence =
  rae_schema_version :: schema_version
  rae_id :: stable_id
  rae_principal :: portable_principal
  rae_repository_role :: repository_role
  rae_repository_node_id :: string
  rae_repository_owner_node_id :: string
  rae_repository_name :: string
  rae_private :: bool
  rae_access :: access_level
  rae_checked_at :: u64
  rae_expires_at :: u64
  rae_state :: evidence_state

definition evidence_validate_at :: "repository_access_evidence \<Rightarrow> u64 \<Rightarrow> portable_context_error + unit" where
  "evidence_validate_at e now =
     (if rae_state e = EvidenceRevoked then Err RevokedRepositoryEvidence
      else if rae_expires_at e \<le> now then Err ExpiredRepositoryEvidence
      else if rae_expires_at e \<le> rae_checked_at e then Err InvalidEvidenceWindow
      else Ok ())"

section \<open>GitHub onboarding\<close>

datatype onboarding_state =
    ObPlanned | ObRemoteCreated | ObOrphaned | ObRegistering | ObRegistered | ObVerifying | ObCompleted | ObFailed

record onboarding_attempt =
  ob_schema_version :: schema_version
  ob_id :: stable_id
  ob_repository_role :: repository_role
  ob_account_node_id :: string
  ob_repository_node_id :: "string option"
  ob_plan_digest :: sha256_digest
  ob_confirmation_digest :: sha256_digest
  ob_idempotency_key :: stable_id
  ob_registration_id :: "stable_id option"
  ob_state :: onboarding_state
  ob_failure_code :: "stable_id option"
  ob_updated_at :: u64

definition can_transition_to :: "onboarding_state \<Rightarrow> onboarding_state \<Rightarrow> bool" where
  "can_transition_to state next \<longleftrightarrow> (state, next) \<in>
     {(ObPlanned, ObRemoteCreated), (ObPlanned, ObRegistering), (ObPlanned, ObFailed),
      (ObRemoteCreated, ObOrphaned), (ObRemoteCreated, ObRegistering), (ObRemoteCreated, ObFailed),
      (ObOrphaned, ObRegistering), (ObOrphaned, ObFailed),
      (ObRegistering, ObRegistered), (ObRegistering, ObOrphaned), (ObRegistering, ObFailed),
      (ObRegistered, ObVerifying), (ObRegistered, ObFailed),
      (ObVerifying, ObCompleted), (ObVerifying, ObFailed)}"

definition onboarding_validate :: "onboarding_attempt \<Rightarrow> portable_context_error + unit" where
  "onboarding_validate a =
     (if trim (ob_account_node_id a) = [] then Err (MissingProviderNodeId ''account'')
      else if ob_state a \<in> {ObRemoteCreated, ObOrphaned, ObRegistering, ObRegistered, ObVerifying, ObCompleted}
           \<and> (case ob_repository_node_id a of None \<Rightarrow> True | Some s \<Rightarrow> s = [])
      then Err (MissingProviderNodeId ''repository'')
      else if ob_state a = ObCompleted \<and> ob_registration_id a = None then Err MissingRegistrationId
      else Ok ())"

section \<open>Signed records\<close>

record portable_record_envelope =
  en_schema_version :: schema_version
  en_kind :: portable_record_kind
  en_id :: stable_id
  en_owner :: record_owner
  en_scope :: record_scope
  en_generation :: u64
  en_parent_hashes :: "sha256_digest list"
  en_payload_hash :: sha256_digest
  en_signer_id :: stable_id
  en_created_at :: u64
  en_signature :: string

fun record_kind_name :: "portable_record_kind \<Rightarrow> string" where
  "record_kind_name ContextGrantKind = ''context_grant''"
| "record_kind_name ContextGrantRevocationKind = ''context_grant_revocation''"
| "record_kind_name DeletionTombstoneKind = ''deletion_tombstone''"
| "record_kind_name DeviceAuthorizationKind = ''device_authorization''"
| "record_kind_name DeviceCertificateKind = ''device_certificate''"
| "record_kind_name DeviceRevocationKind = ''device_revocation''"
| "record_kind_name ProfileRevisionKind = ''profile_revision''"

fun signing_domain :: "portable_record_kind \<Rightarrow> string" where
  "signing_domain ContextGrantKind = ''commonkit.portable-context.context-grant.v1''"
| "signing_domain ContextGrantRevocationKind = ''commonkit.portable-context.context-grant-revocation.v1''"
| "signing_domain DeletionTombstoneKind = ''commonkit.portable-context.deletion-tombstone.v1''"
| "signing_domain DeviceAuthorizationKind = ''commonkit.portable-context.device-authorization.v1''"
| "signing_domain DeviceCertificateKind = ''commonkit.portable-context.device-certificate.v1''"
| "signing_domain DeviceRevocationKind = ''commonkit.portable-context.device-revocation.v1''"
| "signing_domain ProfileRevisionKind = ''commonkit.portable-context.profile-revision.v1''"

definition ser_record_owner :: "record_owner \<Rightarrow> json" where
  "ser_record_owner w = json_struct
     [(''kind'', JString (case ow_kind w of OrganizationOwner \<Rightarrow> ''organization'' | ProjectOwner \<Rightarrow> ''project''
         | UserOwner \<Rightarrow> ''user'')),
      (''id'', ser_stable_id (ow_id w))]"

text \<open>\<open>skip_serializing_if = "Option::is_none"\<close>\<close>

definition ser_record_scope :: "record_scope \<Rightarrow> json" where
  "ser_record_scope s = json_struct
     ((''organizationId'', ser_stable_id (sc_organization_id s))
      # opt_field ''projectId'' ser_stable_id (sc_project_id s))"

definition ser_signing_payload :: "portable_record_envelope \<Rightarrow> json" where
  "ser_signing_payload r = json_struct
     [(''schemaVersion'', json_u32 (schema_number (en_schema_version r))),
      (''kind'', JString (record_kind_name (en_kind r))), (''id'', ser_stable_id (en_id r)),
      (''owner'', ser_record_owner (en_owner r)), (''scope'', ser_record_scope (en_scope r)),
      (''generation'', json_u64 (en_generation r)),
      (''parentHashes'', JArray (map ser_digest (en_parent_hashes r))),
      (''payloadHash'', ser_digest (en_payload_hash r)), (''signerId'', ser_stable_id (en_signer_id r)),
      (''createdAtUnixMs'', json_u64 (en_created_at r))]"

definition signing_digest :: "env \<Rightarrow> portable_record_envelope \<Rightarrow> contract_error + sha256_digest" where
  "signing_digest E r = digest_domain_json E (signing_domain (en_kind r)) (ser_signing_payload r)"

text \<open>Some adjacent pair of the list is not strictly increasing.\<close>

fun unordered_pair :: "'a::linorder list \<Rightarrow> bool" where
  "unordered_pair (a # b # s) = (b \<le> a \<or> unordered_pair (b # s))"
| "unordered_pair _ = False"

definition envelope_validate :: "portable_record_envelope \<Rightarrow> portable_context_error + unit" where
  "envelope_validate r =
     (if en_generation r = 0 then Err ZeroGeneration
      else if trim (en_signature r) = [] then Err MissingSignature
      else if unordered_pair (en_parent_hashes r) then Err NoncanonicalParents
      else Ok ())"

section \<open>Histories\<close>

definition check_parents ::
  "(sha256_digest, u64) btree_map \<Rightarrow> portable_record_envelope \<Rightarrow> portable_context_error + unit" where
  "check_parents generations r = for_each (\<lambda>parent.
     and_then (ok_or UnknownParent (bt_get generations parent)) (\<lambda>parent_generation.
       if en_generation r \<le> parent_generation then Err NonmonotonicGeneration else Ok ()))
     (en_parent_hashes r)"

fun history_loop ::
  "env \<Rightarrow> stable_id btree_set \<Rightarrow> (stable_id \<Rightarrow> sha256_digest \<Rightarrow> string \<Rightarrow> bool)
    \<Rightarrow> (sha256_digest, u64) btree_map \<Rightarrow> portable_record_envelope list \<Rightarrow> portable_context_error + unit" where
  "history_loop E signers verify generations [] = Ok ()"
| "history_loop E signers verify generations (r # records) =
     and_then (envelope_validate r) (\<lambda>_.
     and_then (ensure (en_signer_id r \<in> set signers) (UnauthorizedSigner (en_signer_id r))) (\<lambda>_.
     and_then (check_parents generations r) (\<lambda>_.
     and_then (map_err (\<lambda>_. UnknownParent) (signing_digest E r)) (\<lambda>digest.
     and_then (ensure (verify (en_signer_id r) digest (en_signature r)) InvalidSignature) (\<lambda>_.
       history_loop E signers verify (bt_insert digest (en_generation r) generations) records)))))"

definition validate_signed_history ::
  "env \<Rightarrow> portable_record_envelope list \<Rightarrow> stable_id btree_set
    \<Rightarrow> (stable_id \<Rightarrow> sha256_digest \<Rightarrow> string \<Rightarrow> bool) \<Rightarrow> portable_context_error + unit" where
  "validate_signed_history E records signers verify = history_loop E signers verify [] records"

section \<open>Schema versions\<close>

definition CONTRACT_NAMES :: "string list" where
  "CONTRACT_NAMES =
     [''agent-trust-class'', ''context-descriptor'', ''context-grant'',
      ''context-grant-revocation'', ''context-receipt'', ''context-receipt-event'',
      ''context-section'', ''deletion-tombstone'', ''device-authorization'',
      ''device-certificate'', ''device-revocation'', ''documentation-artifact'',
      ''documentation-conflict'', ''documentation-revision-candidate'',
      ''encrypted-profile-document'', ''github-onboarding-attempt'', ''github-orphan-receipt'',
      ''organization-membership'', ''organization-onboarding-record'',
      ''organization-registration'', ''principal'', ''profile-conflict'', ''profile-draft'',
      ''profile-extension'', ''profile-revision'', ''profile-revision-proposal'',
      ''profile-schema'', ''profile-signing-authority'', ''project-context-map'',
      ''project-registration'', ''receipt-view'', ''recovery-recipient'',
      ''repository-access-evidence'', ''role-binding'', ''runtime-attestation'',
      ''runtime-session-principal'', ''task-context-brief'', ''task-context-request'']"

datatype compatibility_action = UpgradeFrom u32 | ReadCurrent | QuarantineNewer u32

definition dispatch_schema_version :: "string \<Rightarrow> u32 \<Rightarrow> portable_context_error + compatibility_action" where
  "dispatch_schema_version name version =
     (if name \<notin> set CONTRACT_NAMES then Err (UnknownContractKind name)
      else Ok (if version < 1 then UpgradeFrom version else if version = 1 then ReadCurrent
        else QuarantineNewer version))"

definition ensure_writable_schema_version :: "u32 \<Rightarrow> portable_context_error + unit" where
  "ensure_writable_schema_version version = (if version < 1 then Err (DowngradeRefused version) else Ok ())"

text \<open>The shape the source-record contracts of the macro share.\<close>

record portable_contract =
  pc_schema_version :: schema_version
  pc_id :: stable_id
  pc_owner :: record_owner
  pc_scope :: record_scope
  pc_content_hash :: sha256_digest
  pc_created_at :: u64
  pc_provenance :: "stable_id list"

record schema_registry_entry =
  sr_name :: string
  sr_schema_id :: string

definition portable_context_schema_registry :: "schema_registry_entry list" where
  "portable_context_schema_registry = map (\<lambda>name. \<lparr>sr_name = name, sr_schema_id =
     ''https://schemas.commonkit.dev/v1/portable-context/'' @ name @ ''.schema.json''\<rparr>) CONTRACT_NAMES"

section \<open>Profiles\<close>

datatype profile_field_type = StringField | StringListField

record profile_field_definition =
  fd_field_type :: profile_field_type
  fd_description :: string
  fd_optional :: bool

record profile_schema =
  ps_schema_version :: schema_version
  ps_id :: stable_id
  ps_version :: u32
  ps_fields :: "(string, profile_field_definition) btree_map"

record profile_extension =
  pe_schema_version :: schema_version
  pe_namespace :: stable_id
  pe_version :: u32
  pe_fields :: "(string, profile_field_definition) btree_map"

definition PROHIBITED_PREFIXES :: "string list" where
  "PROHIBITED_PREFIXES = [''demographic.'', ''family.'', ''financial.'', ''health.'', ''lifestyle.'']"

definition extension_validate :: "profile_extension \<Rightarrow> portable_context_error + unit" where
  "extension_validate e =
     (case find (\<lambda>name. list_ex (starts_with name) PROHIBITED_PREFIXES) (map fst (pe_fields e)) of
        Some name \<Rightarrow> Err (ProhibitedProfileField name)
      | None \<Rightarrow>
          (case find (\<lambda>(name, field). \<not> fd_optional field) (pe_fields e) of
             Some (name, _) \<Rightarrow> Err (RequiredExtensionField name)
           | None \<Rightarrow> Ok ()))"

datatype loaded_profile_extension = KnownExtension profile_extension | QuarantinedExtension stable_id u32 json

fun is_publishable :: "loaded_profile_extension \<Rightarrow> bool" where
  "is_publishable (KnownExtension _) = True"
| "is_publishable (QuarantinedExtension _ _ _) = False"

definition load_profile_extension ::
  "(json \<Rightarrow> (stable_id \<times> u32) option) \<Rightarrow> (json \<Rightarrow> profile_extension option) \<Rightarrow> json
    \<Rightarrow> (stable_id, u32) btree_map \<Rightarrow> portable_context_error + loaded_profile_extension" where
  "load_profile_extension identify decode raw supported =
     and_then (ok_or InvalidProfileExtension (identify raw)) (\<lambda>(namespace, version).
       if bt_get supported namespace \<noteq> Some version then Ok (QuarantinedExtension namespace version raw)
       else and_then (ok_or InvalidProfileExtension (decode raw)) (\<lambda>extension.
         and_then (extension_validate extension) (\<lambda>_. Ok (KnownExtension extension))))"

definition CORE_PROFILE_FIELD_ORDER :: "string list" where
  "CORE_PROFILE_FIELD_ORDER =
     [''identity.display_name'', ''identity.pronouns'', ''identity.role'',
      ''identity.responsibilities'', ''identity.expertise'', ''communication.tone'',
      ''communication.detail_level'', ''communication.preferred_channels'',
      ''communication.async_expectations'', ''collaboration.working_style'',
      ''collaboration.handoff_preferences'', ''collaboration.meeting_preferences'',
      ''collaboration.escalation_preferences'', ''feedback.preferred_style'',
      ''feedback.correction_preferences'', ''feedback.praise_preferences'',
      ''decisions.decision_style'', ''decisions.evidence_expectations'',
      ''decisions.risk_tolerance'', ''decisions.approval_thresholds'',
      ''planning.planning_horizon'', ''planning.task_breakdown'',
      ''planning.status_update_preferences'', ''planning.definition_of_done'',
      ''technical.languages'', ''technical.frameworks'', ''technical.package_managers'',
      ''technical.tool_preferences'', ''technical.code_review_preferences'',
      ''accessibility.requested_accommodations'', ''accessibility.presentation_preferences'',
      ''boundaries.do_not_do'', ''boundaries.ask_before'', ''boundaries.availability_notes'',
      ''agents.response_style'', ''agents.autonomy_preferences'',
      ''agents.clarification_preferences'', ''agents.memory_preferences'']"

definition STRING_FIELDS :: "string list" where
  "STRING_FIELDS =
     [''identity.display_name'', ''identity.pronouns'', ''identity.role'', ''communication.tone'',
      ''communication.detail_level'', ''communication.async_expectations'',
      ''collaboration.working_style'', ''collaboration.handoff_preferences'',
      ''collaboration.meeting_preferences'', ''collaboration.escalation_preferences'',
      ''feedback.preferred_style'', ''feedback.correction_preferences'',
      ''feedback.praise_preferences'', ''decisions.decision_style'',
      ''decisions.evidence_expectations'', ''decisions.risk_tolerance'',
      ''decisions.approval_thresholds'', ''planning.planning_horizon'',
      ''planning.task_breakdown'', ''planning.status_update_preferences'',
      ''planning.definition_of_done'', ''technical.code_review_preferences'',
      ''agents.response_style'', ''agents.autonomy_preferences'',
      ''agents.clarification_preferences'', ''agents.memory_preferences'',
      ''boundaries.availability_notes'']"

definition LIST_FIELDS :: "string list" where
  "LIST_FIELDS =
     [''identity.responsibilities'', ''identity.expertise'', ''communication.preferred_channels'',
      ''technical.languages'', ''technical.frameworks'', ''technical.package_managers'',
      ''technical.tool_preferences'', ''accessibility.requested_accommodations'',
      ''accessibility.presentation_preferences'', ''boundaries.do_not_do'',
      ''boundaries.ask_before'']"

definition field_description :: "string \<Rightarrow> string" where
  "field_description name = map (\<lambda>c. if c = CHR ''.'' \<or> c = CHR ''_'' then CHR '' '' else c) name"

definition core_profile_schema :: profile_schema where
  "core_profile_schema = \<lparr>ps_schema_version = SchemaVersion 1, ps_id = StableId ''commonkit-work-profile'',
     ps_version = 1,
     ps_fields = bt_collect (map (\<lambda>(name, field_type). (name, \<lparr>fd_field_type = field_type,
         fd_description = field_description name, fd_optional = True\<rparr>))
       (map (\<lambda>name. (name, StringField)) STRING_FIELDS @ map (\<lambda>name. (name, StringListField)) LIST_FIELDS))\<rparr>"

section \<open>Facts\<close>

lemma unordered_pair_iff: "\<not> unordered_pair xs \<longleftrightarrow> sorted_wrt (<) xs"
proof (induction xs rule: unordered_pair.induct)
  case (1 a b s)
  then show ?case by (auto simp: not_le intro: less_trans)
qed auto

text \<open>
  What a verified history is: records carry authorized signatures of their own content, and every
  parent is an earlier record of a lower generation.
\<close>

definition record_verified ::
  "env \<Rightarrow> stable_id btree_set \<Rightarrow> (stable_id \<Rightarrow> sha256_digest \<Rightarrow> string \<Rightarrow> bool)
    \<Rightarrow> portable_record_envelope \<Rightarrow> bool" where
  "record_verified E signers verify r \<longleftrightarrow> en_generation r \<noteq> 0 \<and> trim (en_signature r) \<noteq> []
     \<and> sorted_wrt (<) (en_parent_hashes r) \<and> en_signer_id r \<in> set signers
     \<and> (\<exists>d. signing_digest E r = Inr d \<and> verify (en_signer_id r) d (en_signature r))"

definition parents_earlier :: "env \<Rightarrow> portable_record_envelope list \<Rightarrow> portable_record_envelope \<Rightarrow> bool" where
  "parents_earlier E earlier r \<longleftrightarrow> (\<forall>p\<in>set (en_parent_hashes r).
     \<exists>q\<in>set earlier. signing_digest E q = Inr p \<and> en_generation q < en_generation r)"

lemma history_loop_sound:
  assumes "history_loop E signers verify generations records = Inr u"
    and "\<And>d g. bt_get generations d = Some g \<Longrightarrow> \<exists>q\<in>set earlier. signing_digest E q = Inr d \<and> en_generation q = g"
    and "records = xs @ r # ys"
  shows "record_verified E signers verify r \<and> parents_earlier E (earlier @ xs) r"
  using assms
proof (induction records arbitrary: generations earlier xs)
  case (Cons a records)
  from Cons.prems(1) obtain d where a: "envelope_validate a = Inr ()" "en_signer_id a \<in> set signers"
    "check_parents generations a = Inr ()" "signing_digest E a = Inr d" "verify (en_signer_id a) d (en_signature a)"
    and rest: "history_loop E signers verify (bt_insert d (en_generation a) generations) records = Inr u"
    by (auto simp: and_then_Ok_iff)
  show ?case
  proof (cases xs)
    case Nil
    then have r: "r = a" using Cons.prems(3) by simp
    have "record_verified E signers verify a"
      using a by (auto simp: record_verified_def envelope_validate_def unordered_pair_iff split: if_splits)
    moreover have "parents_earlier E earlier a"
      unfolding parents_earlier_def
    proof
      fix p assume "p \<in> set (en_parent_hashes a)"
      then obtain g where g: "bt_get generations p = Some g" "g < en_generation a"
        using a(3) by (auto simp: check_parents_def and_then_Ok_iff split: if_splits)
      then show "\<exists>q\<in>set earlier. signing_digest E q = Inr p \<and> en_generation q < en_generation a"
        using Cons.prems(2) [OF g(1)] by auto
    qed
    ultimately show ?thesis using r Nil by simp
  next
    case (Cons b zs)
    then have z: "b = a" "records = zs @ r # ys" using Cons.prems(3) by simp_all
    have "record_verified E signers verify r \<and> parents_earlier E ((earlier @ [a]) @ zs) r"
    proof (rule Cons.IH [OF rest _ z(2)])
      fix e g assume "bt_get (bt_insert d (en_generation a) generations) e = Some g"
      then show "\<exists>q\<in>set (earlier @ [a]). signing_digest E q = Inr e \<and> en_generation q = g"
        using a(4) Cons.prems(2) [of e g] by (auto simp: bt_get_insert split: if_splits)
    qed
    then show ?thesis using Cons z by simp
  qed
qed simp

lemma signed_history_verified:
  assumes "validate_signed_history E records signers verify = Inr u" "records = xs @ r # ys"
  shows "record_verified E signers verify r \<and> parents_earlier E xs r"
  using history_loop_sound [OF assms(1) [unfolded validate_signed_history_def], where earlier = "[]"] assms(2)
  by (simp add: bt_get_def)

lemma history_loop_append:
  "history_loop E signers verify generations (xs @ ys) = Inr u \<Longrightarrow> history_loop E signers verify generations xs = Inr u"
  by (induction xs arbitrary: generations) (auto simp: and_then_Ok_iff)

text \<open>An onboarding attempt that is finished does not move, and every path to completion registers and verifies.\<close>

lemma onboarding_finished: "\<not> can_transition_to ObCompleted s" "\<not> can_transition_to ObFailed s"
  by (simp_all add: can_transition_to_def)

lemma core_profile_fields: "set (map fst (ps_fields core_profile_schema)) = set CORE_PROFILE_FIELD_ORDER"
  by code_simp

lemma core_profile_no_duplicates: "distinct (STRING_FIELDS @ LIST_FIELDS)"
  by code_simp

end
