(* ===== verification/Authority_Properties.thy ===== *)
theory Authority_Properties
  imports Core_Policy Core_Context Contracts_Portable Samples
begin

text \<open>
  Properties of the parts that decide what is allowed: the policy floor, the context resolver and
  signed histories of portable records.
\<close>

section \<open>Policy floor\<close>

text \<open>
  C33: The policy floor accepts exactly the effective policies that are at least as strict as the
  organization's in every denied path, control, allowlist, minimum and maximum; a policy accepted over
  an accepted one is accepted over the first.
\<close>

theorem policy_floor_exact:
  assumes "policy_wf a" "policy_wf b"
  shows "(enforce_policy_floor a b = Inr () \<longleftrightarrow> at_least_as_strict a b)
    \<and> (enforce_policy_floor a b = Inr () \<longrightarrow> enforce_policy_floor b c = Inr () \<longrightarrow> enforce_policy_floor a c = Inr ())"
  using at_least_as_strict_trans by (auto simp: enforce_policy_floor_Ok [OF assms(1)] enforce_policy_floor_Ok [OF assms(2)])

definition floor_policy :: "string list \<Rightarrow> u64 \<Rightarrow> security_policy" where
  "floor_policy denied n = \<lparr>po_denied_paths = denied, po_required_controls = [(StableId ''audit'', True)],
     po_allowlists = [], po_minimums = [], po_maximums = []\<rparr>"

lemma floor_policy_wf: "policy_wf (floor_policy denied n)"
  by (simp add: policy_wf_def floor_policy_def bt_wf_def)

theorem policy_floor_exact_witness:
  "enforce_policy_floor (floor_policy [''/etc''] 0) (floor_policy [''/etc'', ''/root''] 0) = Inr ()
   \<and> enforce_policy_floor (floor_policy [''/etc''] 0) (floor_policy [] 0) \<noteq> Inr ()"
  using policy_floor_exact [OF floor_policy_wf floor_policy_wf]
  by (simp add: at_least_as_strict_def floor_policy_def)

section \<open>Context resolver\<close>

lemma left_over_exceeds:
  assumes "sorted (map rank cs)" "c \<in> set (left_over b cs)"
  shows "b < cost (filter (\<lambda>d. rank d \<le> rank c) (taken b cs)) + unat (cc_token_cost c)"
  using assms
proof (induction b cs rule: left_over.induct)
  case (2 b x cs)
  show ?case
  proof (cases "unat (cc_token_cost x) \<le> b")
    case True
    then have c: "c \<in> set (left_over (b - unat (cc_token_cost x)) cs)" using 2(4) by simp
    then have "c \<in> set cs"
      using taken_left_over [of "b - unat (cc_token_cost x)" cs] by (metis in_multiset_in_set union_iff)
    then have "rank x \<le> rank c" using 2(3) by simp
    then show ?thesis using 2(1) [OF True _ c] 2(3) True by (simp add: cost_def)
  next
    case False
    show ?thesis
    proof (cases "c = x")
      case True
      then show ?thesis using False by simp
    next
      case ne: False
      then show ?thesis using 2(2) [OF False] 2(3,4) False by (simp add: cost_def)
    qed
  qed
qed simp

lemma taken_sorted: "sorted (map rank cs) \<Longrightarrow> sorted (map rank (taken b cs))"
proof (induction b cs rule: taken.induct)
  case (2 b x cs)
  then show ?case using taken_subset [of "b - unat (cc_token_cost x)" cs] by auto
qed simp

definition usable :: "runtime_session \<Rightarrow> u64 \<Rightarrow> u64 \<Rightarrow> context_grant_rule list \<Rightarrow> candidate_context \<Rightarrow> bool" where
  "usable session now generation grants c \<longleftrightarrow> cc_purpose c = se_purpose session
     \<and> cc_minimum_trust c \<le> se_trust_class session
     \<and> (cc_scope c = PersonalScope \<longrightarrow> list_ex (grant_covers session now generation c) grants)"

lemma usable_iff: "usable session now generation grants c \<longleftrightarrow> applicable session c \<and> authorized session now generation grants c"
  by (auto simp: usable_def applicable_def authorized_def)

text \<open>
  C34: A resolution selects by rank and within the token budget, from exactly the candidates of the
  session's purpose and trust that are not personal or that a grant covers that is current in time and
  revocation generation: each of these is selected or retrievable, and one is only retrievable when it
  does not fit beside the selected ones of the same or a higher rank; the operations that a candidate
  which did not fit would have gated are blocked.
\<close>

theorem resolve_context_greedy:
  assumes "resolve_context E session now generation budget candidates grants = Inr r"
  shows "\<exists>chosen postponed. cr_selected r = map cc_id chosen \<and> cr_retrievable r = map cc_id postponed
    \<and> mset chosen + mset postponed = mset (filter (usable session now generation grants) candidates)
    \<and> sorted (map rank chosen) \<and> cost chosen \<le> unat budget
    \<and> list_all (\<lambda>c. unat budget < cost (filter (\<lambda>d. rank d \<le> rank c) chosen) + unat (cc_token_cost c)) postponed
    \<and> cr_blocked_operations r = List.map_filter cc_procedure_gate postponed"
proof -
  let ?e = "eligible session now generation candidates grants"
  let ?t = "taken (unat budget) ?e" and ?l = "left_over (unat budget) ?e"
  have s: "sorted (map rank ?e)" by (simp add: eligible_def)
  have m: "mset ?e = mset (filter (usable session now generation grants) candidates)"
    by (simp add: eligible_def usable_iff)
  show ?thesis
  proof (rule exI [of _ ?t], rule exI [of _ ?l], intro conjI)
    show "cr_selected r = map cc_id ?t" "cr_retrievable r = map cc_id ?l"
      "cr_blocked_operations r = List.map_filter cc_procedure_gate ?l"
      using resolve_context_Ok [OF assms] by blast+
    show "mset ?t + mset ?l = mset (filter (usable session now generation grants) candidates)"
      using taken_left_over [of "unat budget" ?e] m by simp
    show "sorted (map rank ?t)" by (rule taken_sorted [OF s])
    show "cost ?t \<le> unat budget" unfolding cost_def by (rule taken_budget)
    show "list_all (\<lambda>c. unat budget < cost (filter (\<lambda>d. rank d \<le> rank c) ?t) + unat (cc_token_cost c)) ?l"
      using left_over_exceeds [OF s] by (simp add: list_all_iff)
  qed
qed

definition sample_candidate :: "string \<Rightarrow> context_scope \<Rightarrow> int \<Rightarrow> u32 \<Rightarrow> candidate_context" where
  "sample_candidate i scope priority tokens = \<lparr>cc_id = StableId i, cc_section_id = StableId ''s'', cc_scope = scope,
     cc_purpose = StableId ''review'', cc_minimum_trust = 1, cc_priority = priority, cc_token_cost = tokens,
     cc_content_hash = sample_digest (CHR ''1'') (CHR ''0''), cc_conflict = False,
     cc_procedure_gate = Some (StableId i)\<rparr>"

definition sample_session :: runtime_session where
  "sample_session = \<lparr>se_id = StableId ''x'', se_user_id = StableId ''u'', se_organization_id = StableId ''o'',
     se_project_id = StableId ''p'', se_purpose = StableId ''review'', se_trust_class = 2, se_issued_at = 0,
     se_expires_at = 10, se_revocation_generation = 1\<rparr>"

definition sample_candidates :: "candidate_context list" where
  "sample_candidates = [sample_candidate ''a'' OrganizationScope 1 5, sample_candidate ''b'' ProjectScope 2 8,
     sample_candidate ''c'' PersonalScope 9 1]"

lemma sample_resolution:
  "\<exists>r. resolve_context sample_env sample_session 5 1 10 sample_candidates [] = Inr r
     \<and> cr_selected r = [StableId ''b''] \<and> cr_retrievable r = [StableId ''a'']"
proof -
  let ?s = sample_session
  have a: "authorize_session ?s 5 1 = Inr ()" by (simp add: authorize_session_def sample_session_def)
  have e: "eligible ?s 5 1 sample_candidates []
     = [sample_candidate ''b'' ProjectScope 2 8, sample_candidate ''a'' OrganizationScope 1 5]"
    by (simp add: eligible_def sample_candidates_def applicable_def authorized_def sample_candidate_def
        sample_session_def rank_def)
  show ?thesis
    by (simp add: resolve_context_def a e sample_digest_json Let_def) (simp add: sample_candidate_def)
qed

theorem resolve_context_greedy_witness:
  "\<exists>r. resolve_context sample_env sample_session 5 1 10 sample_candidates [] = Inr r
     \<and> (\<exists>chosen postponed :: candidate_context list. map cc_id chosen = [StableId ''b''] \<and> map cc_id postponed = [StableId ''a'']
       \<and> cost chosen \<le> 10)"
proof -
  obtain r where r: "resolve_context sample_env sample_session 5 1 10 sample_candidates [] = Inr r"
    "cr_selected r = [StableId ''b'']" "cr_retrievable r = [StableId ''a'']"
    using sample_resolution by blast
  have ten: "unat (10 :: u32) = 10" by simp
  from resolve_context_greedy [OF r(1), unfolded ten] obtain chosen postponed :: "candidate_context list" where
    "cr_selected r = map cc_id chosen" "cr_retrievable r = map cc_id postponed" "cost chosen \<le> 10"
    by blast
  with r show ?thesis by metis
qed

section \<open>Signed histories\<close>

text \<open>
  C35: Of an accepted history every record is well formed, signed by a signer of the current set over its
  canonical digest, and each of its parents is the digest of a record before it of a lower generation.
\<close>

theorem signed_history_authentic:
  assumes "validate_signed_history E records signers verify = Inr ()" "i < length records"
  shows "record_verified E signers verify (records ! i) \<and> parents_earlier E (take i records) (records ! i)"
  by (rule signed_history_verified [OF assms(1) id_take_nth_drop [OF assms(2)]])

definition sample_record :: portable_record_envelope where
  "sample_record = \<lparr>en_schema_version = SchemaVersion 1, en_kind = ContextGrantKind, en_id = StableId ''r'',
     en_owner = \<lparr>ow_kind = UserOwner, ow_id = StableId ''u''\<rparr>,
     en_scope = \<lparr>sc_organization_id = StableId ''o'', sc_project_id = None\<rparr>, en_generation = 1,
     en_parent_hashes = [], en_payload_hash = sample_digest (CHR ''1'') (CHR ''0''),
     en_signer_id = StableId ''s'', en_created_at = 0, en_signature = ''x''\<rparr>"

theorem signed_history_authentic_witness:
  "record_verified sample_env [StableId ''s''] (\<lambda>_ _ s. s = ''x'') sample_record"
proof -
  have t: "trim ''x'' = ''x''" by code_simp
  have "validate_signed_history sample_env [sample_record] [StableId ''s''] (\<lambda>_ _ s. s = ''x'') = Inr ()"
    using t by (simp add: validate_signed_history_def envelope_validate_def sample_record_def check_parents_def
        signing_digest_def sample_digest_json ensure_def)
  from signed_history_authentic [OF this, of 0] show ?thesis by simp
qed

end
