(* ===== verification/Relay_Config.thy ===== *)
theory Relay_Config
  imports Contracts_Secrets
begin

text \<open>
  The configuration of the MCP relay, \<open>crates/commonkit-relay/src/lib.rs\<close>: normalization of the
  raw configuration, convergence of resolved provider declarations, and the lines of an environment
  file. Parsing of URLs is a parameter.
\<close>

section \<open>Data\<close>

datatype relay_server_id = RelayServerId (rsid_str: string)

instantiation relay_server_id :: linorder
begin

definition less_eq_relay_server_id :: "relay_server_id \<Rightarrow> relay_server_id \<Rightarrow> bool" where
  "less_eq_relay_server_id a b \<longleftrightarrow> rsid_str a \<le> rsid_str b"

definition less_relay_server_id :: "relay_server_id \<Rightarrow> relay_server_id \<Rightarrow> bool" where
  "less_relay_server_id a b \<longleftrightarrow> rsid_str a < rsid_str b"

instance
  by standard (auto simp: less_eq_relay_server_id_def less_relay_server_id_def relay_server_id.expand)

end

datatype relay_mode = GenericCached | PosthogCli
datatype managed_by = ManagedByCommonKit | Unmanaged

record relay_listen_config =
  rl_host :: string
  rl_port :: u16
  rl_path :: string

record relay_cache_config =
  rc_tools_ttl_ms :: u64
  rc_auto_refresh_ms :: u64

record relay_remote_config =
  rr_transport_type :: string
  rr_url :: string
  rr_headers :: "(string, string) btree_map"

record relay_menu_action =
  ma_id :: relay_server_id
  ma_label :: string
  ma_confirm :: bool
  ma_tool :: "string option"
  ma_args :: "json option"
  ma_url :: "string option"
  ma_method :: "string option"
  ma_view :: "json option"
  ma_input :: "json option"

record relay_menu_config =
  mc_status_url :: "string option"
  mc_ttl_ms :: u64
  mc_actions :: "relay_menu_action list"

record relay_server_config =
  sv_id :: relay_server_id
  sv_name :: string
  sv_description :: string
  sv_category :: string
  sv_enabled :: bool
  sv_mode :: relay_mode
  sv_remote :: relay_remote_config
  sv_env_file :: "string option"
  sv_cache :: relay_cache_config
  sv_menu :: "relay_menu_config option"
  sv_managed_by :: managed_by

record relay_config =
  cf_listen :: relay_listen_config
  cf_servers :: "relay_server_config list"

datatype relay_config_error =
    NotObject | NonLoopbackListen | InvalidPort | InvalidMcpPath | ServerNotObject | InvalidServerId
  | DuplicateServerId | MissingRemote | InvalidTransport | MissingRemoteUrl | InvalidRemoteUrl
  | LiteralHeaderSecret | UnsupportedEnvFilePlatform | InvalidMenu | InvalidMenuAction | NonLocalMenuUrl

text \<open>What the code reads of a parsed URL.\<close>

record parsed_url =
  url_scheme :: string
  url_username :: string
  url_password :: "string option"
  url_host :: "string option"

type_synonym url_parser = "string \<Rightarrow> parsed_url option"

definition DEFAULT_PORT :: u64 where "DEFAULT_PORT = 3764"
definition DEFAULT_MCP_PATH :: string where "DEFAULT_MCP_PATH = ''/mcp''"
definition DEFAULT_TOOLS_TTL_MS :: u64 where "DEFAULT_TOOLS_TTL_MS = 15 * 60 * 1000"

section \<open>Checks\<close>

definition relay_server_id_parse :: "string \<Rightarrow> relay_config_error + relay_server_id" where
  "relay_server_id_parse v =
     (if v \<noteq> [] \<and> length v \<le> 63 \<and> list_all (\<lambda>b. is_ascii_alphanumeric b \<or> b = CHR ''_'' \<or> b = CHR ''-'') v
      then Ok (RelayServerId v) else Err InvalidServerId)"

definition validate_remote_url :: "url_parser \<Rightarrow> string \<Rightarrow> relay_config_error + unit" where
  "validate_remote_url parse raw =
     and_then (ok_or InvalidRemoteUrl (parse raw)) (\<lambda>url.
       if url_scheme url \<notin> {''http'', ''https''} \<or> url_username url \<noteq> [] \<or> url_password url \<noteq> None
       then Err InvalidRemoteUrl else Ok ())"

definition validate_local_url :: "url_parser \<Rightarrow> string \<Rightarrow> bool \<Rightarrow> relay_config_error + unit" where
  "validate_local_url parse raw display =
     and_then (ok_or NonLocalMenuUrl (parse raw)) (\<lambda>url.
       if display \<and> url_scheme url = ''file'' then Ok ()
       else if url_scheme url \<noteq> ''http'' \<or> url_host url \<notin> {Some ''127.0.0.1'', Some ''::1''}
       then Err NonLocalMenuUrl else Ok ())"

definition is_secret_reference :: "string \<Rightarrow> bool" where
  "is_secret_reference v \<longleftrightarrow> list_ex (starts_with v) [''env:'', ''secret:'']"

fun as_u64 :: "json \<Rightarrow> u64 option" where
  "as_u64 (JNumber (PosInt n)) = Some n"
| "as_u64 _ = None"

definition positive_ms :: "json option \<Rightarrow> u64 \<Rightarrow> u64" where
  "positive_ms v fallback =
     (case Option.bind v as_u64 of None \<Rightarrow> fallback | Some n \<Rightarrow> if 0 < n then n else fallback)"

definition string_or :: "json option \<Rightarrow> string \<Rightarrow> string" where
  "string_or v fallback =
     (case Option.bind v as_str of None \<Rightarrow> fallback | Some s \<Rightarrow> if s = [] then fallback else s)"

definition map_ok :: "('a \<Rightarrow> 'b) \<Rightarrow> 'e + 'a \<Rightarrow> 'e + 'b" where
  "map_ok f r = and_then r (\<lambda>x. Ok (f x))"

text \<open>\<open>iter.map(f).collect::<Result<_, _>>()\<close>\<close>

fun collect_results :: "('a \<Rightarrow> 'e + 'b) \<Rightarrow> 'a list \<Rightarrow> 'e + 'b list" where
  "collect_results f [] = Ok []"
| "collect_results f (x # xs) = and_then (f x) (\<lambda>y. and_then (collect_results f xs) (\<lambda>ys. Ok (y # ys)))"

section \<open>Normalization\<close>

definition normalize_listen :: "json option \<Rightarrow> relay_config_error + relay_listen_config" where
  "normalize_listen v =
     (let fields = Option.bind v as_object;
          get = (\<lambda>k. Option.bind fields (\<lambda>m. bt_get m k));
          host = (case Option.bind (get ''host'') as_str of None \<Rightarrow> ''127.0.0.1'' | Some s \<Rightarrow> s);
          port = (case Option.bind (get ''port'') as_u64 of None \<Rightarrow> DEFAULT_PORT | Some n \<Rightarrow> n);
          path = (case Option.bind (case get ''path'' of None \<Rightarrow> get ''mcpPath'' | Some p \<Rightarrow> Some p) as_str of
            None \<Rightarrow> DEFAULT_MCP_PATH | Some s \<Rightarrow> s)
      in if host \<notin> {''127.0.0.1'', ''::1''} then Err NonLoopbackListen
         else if 65536 \<le> uint port then Err InvalidPort
         else if \<not> starts_with path ''/'' \<or> CHR ''?'' \<in> set path \<or> CHR 0x23 \<in> set path
         then Err InvalidMcpPath
         else Ok \<lparr>rl_host = host, rl_port = ucast port, rl_path = path\<rparr>)"

definition normalize_menu_action :: "url_parser \<Rightarrow> json \<Rightarrow> relay_config_error + relay_menu_action" where
  "normalize_menu_action parse v =
     and_then (ok_or InvalidMenuAction (as_object v)) (\<lambda>m.
     and_then (ok_or InvalidMenuAction (Option.bind (bt_get m ''id'') as_str)) (\<lambda>raw_id.
     and_then (relay_server_id_parse raw_id) (\<lambda>i.
     and_then (ok_or InvalidMenuAction (case Option.bind (bt_get m ''label'') as_str of
         None \<Rightarrow> None | Some s \<Rightarrow> if s = [] then None else Some s)) (\<lambda>label.
     let tool = Option.bind (bt_get m ''tool'') as_str;
         url = Option.bind (bt_get m ''url'') as_str;
         method = Option.bind (bt_get m ''method'') as_str;
         view = bt_get m ''view'' in
     and_then (case url of None \<Rightarrow> Ok () | Some u \<Rightarrow> validate_local_url parse u (method = None)) (\<lambda>_.
       if (case method of None \<Rightarrow> False | Some x \<Rightarrow> x \<notin> {''GET'', ''POST'', ''PUT'', ''PATCH'', ''DELETE''})
       then Err InvalidMenuAction
       else if (method \<noteq> None \<and> url = None) \<or> (tool \<noteq> None \<and> url \<noteq> None) then Err InvalidMenuAction
       else if tool = None \<and> url = None \<and> view = None then Err InvalidMenuAction
       else Ok \<lparr>ma_id = i, ma_label = label,
         ma_confirm = (Option.bind (bt_get m ''confirm'') as_bool = Some True), ma_tool = tool,
         ma_args = bt_get m ''args'', ma_url = url, ma_method = method, ma_view = view,
         ma_input = bt_get m ''input''\<rparr>)))))"

definition normalize_menu :: "url_parser \<Rightarrow> json \<Rightarrow> relay_config_error + relay_menu_config" where
  "normalize_menu parse v =
     and_then (ok_or InvalidMenu (as_object v)) (\<lambda>m.
     let status_url = Option.bind (bt_get m ''statusUrl'') as_str in
     and_then (case status_url of None \<Rightarrow> Ok () | Some u \<Rightarrow> validate_local_url parse u False) (\<lambda>_.
     and_then (case Option.bind (bt_get m ''actions'') as_array of
         None \<Rightarrow> Ok [] | Some actions \<Rightarrow> collect_results (normalize_menu_action parse) actions) (\<lambda>actions.
       Ok \<lparr>mc_status_url = status_url, mc_ttl_ms = positive_ms (bt_get m ''ttlMs'') 15000,
         mc_actions = actions\<rparr>)))"

definition normalize_header :: "string \<times> json \<Rightarrow> relay_config_error + (string \<times> string)" where
  "normalize_header entry =
     and_then (ok_or LiteralHeaderSecret (as_str (snd entry))) (\<lambda>v.
       if is_secret_reference v then Ok (fst entry, v) else Err LiteralHeaderSecret)"

definition normalize_server :: "url_parser \<Rightarrow> json \<Rightarrow> relay_config_error + relay_server_config" where
  "normalize_server parse v =
     and_then (ok_or ServerNotObject (as_object v)) (\<lambda>m.
     and_then (ok_or InvalidServerId (Option.bind (bt_get m ''id'') as_str)) (\<lambda>raw_id.
     and_then (relay_server_id_parse raw_id) (\<lambda>i.
     and_then (ok_or MissingRemote (Option.bind (bt_get m ''remote'') as_object)) (\<lambda>remote.
     and_then (ensure (Option.bind (bt_get remote ''type'') as_str = Some ''streamable_http'') InvalidTransport) (\<lambda>_.
     and_then (ok_or MissingRemoteUrl (Option.bind (bt_get remote ''url'') as_str)) (\<lambda>remote_url.
     and_then (validate_remote_url parse remote_url) (\<lambda>_.
     and_then (case Option.bind (bt_get remote ''headers'') as_object of
         None \<Rightarrow> Ok [] | Some headers \<Rightarrow> map_ok bt_collect (collect_results normalize_header headers)) (\<lambda>headers.
     let cache = Option.bind (bt_get m ''cache'') as_object;
         cached = (\<lambda>k. Option.bind cache (\<lambda>c. bt_get c k));
         tools_ttl_ms = positive_ms (cached ''toolsTtlMs'') DEFAULT_TOOLS_TTL_MS;
         auto_refresh_ms =
           (if cached ''autoRefreshMs'' = Some (JBool False) then 0
            else if Option.bind (cached ''autoRefreshMs'') as_u64 = Some 0 then 0
            else positive_ms (cached ''autoRefreshMs'') tools_ttl_ms);
         mode = (if Option.bind (bt_get m ''mode'') as_str = Some ''posthog-cli'' then PosthogCli else GenericCached) in
     and_then (case bt_get m ''menu'' of None \<Rightarrow> Ok None | Some w \<Rightarrow> map_ok Some (normalize_menu parse w)) (\<lambda>menu.
       Ok \<lparr>sv_id = i, sv_name = string_or (bt_get m ''name'') (rsid_str i),
         sv_description = string_or (bt_get m ''description'') [],
         sv_category = string_or (bt_get m ''category'') [],
         sv_enabled = (Option.bind (bt_get m ''enabled'') as_bool \<noteq> Some False), sv_mode = mode,
         sv_remote = \<lparr>rr_transport_type = ''streamable_http'', rr_url = remote_url, rr_headers = headers\<rparr>,
         sv_env_file = Option.bind (bt_get m ''envFile'') as_str,
         sv_cache = \<lparr>rc_tools_ttl_ms = tools_ttl_ms, rc_auto_refresh_ms = auto_refresh_ms\<rparr>,
         sv_menu = menu,
         sv_managed_by = (if Option.bind (bt_get m ''managedBy'') as_str = Some ''unmanaged''
           then Unmanaged else ManagedByCommonKit)\<rparr>)))))))))"

definition relay_normalize :: "url_parser \<Rightarrow> json \<Rightarrow> relay_config_error + relay_config" where
  "relay_normalize parse raw =
     and_then (ok_or NotObject (as_object raw)) (\<lambda>m.
     and_then (normalize_listen (case bt_get m ''listen'' of None \<Rightarrow> bt_get m ''admin'' | Some v \<Rightarrow> Some v)) (\<lambda>listen.
     and_then (case Option.bind (bt_get m ''servers'') as_array of
         None \<Rightarrow> Ok [] | Some servers \<Rightarrow> collect_results (normalize_server parse) servers) (\<lambda>servers.
       if \<not> distinct (map sv_id servers) then Err DuplicateServerId
       else Ok \<lparr>cf_listen = listen, cf_servers = servers\<rparr>)))"

section \<open>Convergence of provider declarations\<close>

record mcp_declaration_provenance =
  dp_provider_id :: string
  dp_source :: string

datatype portable_mcp_resolution =
    StreamableHttp string "(string, string) btree_map"
  | RegistryReference string

record portable_mcp_declaration =
  md_id :: string
  md_name :: string
  md_enabled :: bool
  md_resolution :: portable_mcp_resolution
  md_provenance :: mcp_declaration_provenance

record resolved_mcp_declarations =
  rd_contract_version :: string
  rd_declarations :: "portable_mcp_declaration list"

record relay_client_config =
  cl_name :: string
  cl_transport_type :: string
  cl_url :: string

record converged_relay_state =
  cv_relay :: relay_config
  cv_client :: relay_client_config
  cv_provenance :: "(relay_server_id, mcp_declaration_provenance) btree_map"

datatype relay_convergence_error =
    UnsupportedContractVersion
  | MissingProvenance
  | ResolvedMcpInterfaceUnsupported
  | ConvergenceConfig relay_config_error

definition converged_server :: "relay_server_id \<Rightarrow> portable_mcp_declaration \<Rightarrow> string
    \<Rightarrow> (string, string) btree_map \<Rightarrow> relay_server_config" where
  "converged_server i declaration url headers = \<lparr>sv_id = i, sv_name = md_name declaration,
     sv_description = [], sv_category = [], sv_enabled = md_enabled declaration, sv_mode = GenericCached,
     sv_remote = \<lparr>rr_transport_type = ''streamable_http'', rr_url = url, rr_headers = headers\<rparr>,
     sv_env_file = None,
     sv_cache = \<lparr>rc_tools_ttl_ms = DEFAULT_TOOLS_TTL_MS, rc_auto_refresh_ms = DEFAULT_TOOLS_TTL_MS\<rparr>,
     sv_menu = None, sv_managed_by = ManagedByCommonKit\<rparr>"

fun converge_declarations ::
  "url_parser \<Rightarrow> (relay_server_id, mcp_declaration_provenance) btree_map \<Rightarrow> relay_server_config list
    \<Rightarrow> portable_mcp_declaration list
    \<Rightarrow> relay_convergence_error + (relay_server_config list \<times> (relay_server_id, mcp_declaration_provenance) btree_map)" where
  "converge_declarations parse provenance servers [] = Ok (servers, provenance)"
| "converge_declarations parse provenance servers (declaration # rest) =
     (if trim (dp_provider_id (md_provenance declaration)) = [] \<or> trim (dp_source (md_provenance declaration)) = []
      then Err MissingProvenance
      else and_then (map_err ConvergenceConfig (relay_server_id_parse (md_id declaration))) (\<lambda>i.
        case md_resolution declaration of
          RegistryReference _ \<Rightarrow> Err ResolvedMcpInterfaceUnsupported
        | StreamableHttp url headers \<Rightarrow>
            and_then (map_err ConvergenceConfig (validate_remote_url parse url)) (\<lambda>_.
              if list_ex (\<lambda>(_, v). \<not> is_secret_reference v) headers
              then Err (ConvergenceConfig LiteralHeaderSecret)
              else if bt_get provenance i \<noteq> None then Err (ConvergenceConfig DuplicateServerId)
              else converge_declarations parse (bt_insert i (md_provenance declaration) provenance)
                (servers @ [converged_server i declaration url headers]) rest)))"

definition converge_provider_mcp ::
  "url_parser \<Rightarrow> resolved_mcp_declarations \<Rightarrow> relay_convergence_error + converged_relay_state" where
  "converge_provider_mcp parse resolved =
     (if rd_contract_version resolved \<noteq> ''commonkit.resolved-mcp.v1'' then Err UnsupportedContractVersion
      else and_then (converge_declarations parse [] [] (rd_declarations resolved)) (\<lambda>(servers, provenance).
        Ok \<lparr>cv_relay = \<lparr>cf_listen = \<lparr>rl_host = ''127.0.0.1'', rl_port = ucast DEFAULT_PORT,
                rl_path = DEFAULT_MCP_PATH\<rparr>, cf_servers = sort_key sv_id servers\<rparr>,
            cv_client = \<lparr>cl_name = ''commonkit-relay'', cl_transport_type = ''streamable_http'',
                cl_url = ''http://127.0.0.1:'' @ decimal (unat DEFAULT_PORT) @ DEFAULT_MCP_PATH\<rparr>,
            cv_provenance = provenance\<rparr>))"

section \<open>Environment files\<close>

text \<open>\<open>str::lines\<close>: lines end in a line feed, which a carriage return may precede.\<close>

definition str_lines :: "string \<Rightarrow> string list" where
  "str_lines content =
     (let parts = split_char (CHR 0x0A) content in
      map (\<lambda>l. if l \<noteq> [] \<and> last l = CHR 0x0D then butlast l else l) (butlast parts)
      @ (if last parts = [] then [] else [last parts]))"

definition unquote :: "string \<Rightarrow> string" where
  "unquote v =
     (if 2 \<le> length v \<and> ((hd v = CHR 0x22 \<and> last v = CHR 0x22) \<or> (hd v = CHR 0x27 \<and> last v = CHR 0x27))
      then butlast (tl v) else v)"

definition env_line :: "string \<Rightarrow> (string \<times> string) option" where
  "env_line raw_line =
     (let line = trim raw_line in
      if line = [] \<or> hd line = CHR 0x23 then None
      else (case split_once (CHR ''='') line of
          None \<Rightarrow> None
        | Some (key, v) \<Rightarrow> if trim key = [] then None else Some (trim key, unquote (trim v))))"

definition parse_env_file :: "string \<Rightarrow> (string, string) btree_map" where
  "parse_env_file content = bt_collect (List.map_filter env_line (str_lines content))"

end
