(* ===== verification/Relay_Adapter.thy ===== *)
theory Relay_Adapter
  imports Relay_Config Reconcile_Engine
begin

text \<open>
  The relay as an adapter of the reconciler, \<open>crates/commonkit-relay/src/transaction.rs\<close>: planning
  an operation, and the adapter methods over the live configuration file, the private state
  directory and the running relay. Each access to the file system and each call of the runtime
  takes the next entry of a list of faults; an empty list is a system without failures. Decoding of
  the stored records is a parameter.
\<close>

section \<open>Data\<close>

record relay_mutation_inputs =
  mi_provider_inputs_digest :: sha256_digest
  mi_policy_digest :: sha256_digest
  mi_target_digest :: sha256_digest
  mi_declaration_digest :: sha256_digest
  mi_ownership_map_digest :: sha256_digest
  mi_artifact_set_digest :: sha256_digest
  mi_approved_confirmation_id :: stable_id
  mi_approval_idempotency_key :: string

record relay_payload =
  rp_desired :: relay_config
  rp_inputs :: relay_mutation_inputs

record operation_record =
  or_operation_id :: sha256_digest
  or_payload :: relay_payload

record backup_record =
  bk_operation_id :: sha256_digest
  bk_before_digest :: "sha256_digest option"
  bk_bytes :: "string option"

datatype relay_plan_error = UnsafeState | RelayIo | RelayJson | RelayContract contract_error

datatype file_entry = Absent | Regular string | NotRegular
datatype io_fault = IoOk | IoFails | IoPartial nat
datatype runtime_call = Reloaded relay_config | Restarted

record relay_world =
  rw_live :: file_entry
  rw_state :: "string \<Rightarrow> file_entry"
  rw_io :: "io_fault list"
  rw_runtime :: "runtime_call list"

record relay_adapter =
  ra_id :: stable_id
  ra_live :: string
  ra_lifecycle :: bool

record relay_codec =
  rk_operation :: "string \<Rightarrow> operation_record option"
  rk_backup :: "string \<Rightarrow> backup_record option"

section \<open>Serialization\<close>

definition ser_string_map :: "(string, string) btree_map \<Rightarrow> json" where
  "ser_string_map m = JObject (map (\<lambda>(k, v). (k, JString v)) m)"

definition ser_menu_action :: "relay_menu_action \<Rightarrow> json" where
  "ser_menu_action a = json_struct
     [(''id'', JString (rsid_str (ma_id a))), (''label'', JString (ma_label a)), (''confirm'', JBool (ma_confirm a)),
      (''tool'', json_option JString (ma_tool a)), (''args'', json_option id (ma_args a)),
      (''url'', json_option JString (ma_url a)), (''method'', json_option JString (ma_method a)),
      (''view'', json_option id (ma_view a)), (''input'', json_option id (ma_input a))]"

definition ser_menu :: "relay_menu_config \<Rightarrow> json" where
  "ser_menu m = json_struct
     [(''statusUrl'', json_option JString (mc_status_url m)), (''ttlMs'', json_u64 (mc_ttl_ms m)),
      (''actions'', JArray (map ser_menu_action (mc_actions m)))]"

definition ser_relay_server :: "relay_server_config \<Rightarrow> json" where
  "ser_relay_server s = json_struct
     [(''id'', JString (rsid_str (sv_id s))), (''name'', JString (sv_name s)),
      (''description'', JString (sv_description s)), (''category'', JString (sv_category s)),
      (''enabled'', JBool (sv_enabled s)),
      (''mode'', JString (case sv_mode s of GenericCached \<Rightarrow> ''generic-cached'' | PosthogCli \<Rightarrow> ''posthog-cli'')),
      (''remote'', json_struct [(''type'', JString (rr_transport_type (sv_remote s))),
         (''url'', JString (rr_url (sv_remote s))), (''headers'', ser_string_map (rr_headers (sv_remote s)))]),
      (''envFile'', json_option JString (sv_env_file s)),
      (''cache'', json_struct [(''toolsTtlMs'', json_u64 (rc_tools_ttl_ms (sv_cache s))),
         (''autoRefreshMs'', json_u64 (rc_auto_refresh_ms (sv_cache s)))]),
      (''menu'', json_option ser_menu (sv_menu s)),
      (''managedBy'', JString (case sv_managed_by s of ManagedByCommonKit \<Rightarrow> ''common_kit'' | Unmanaged \<Rightarrow> ''unmanaged''))]"

definition ser_relay_config :: "relay_config \<Rightarrow> json" where
  "ser_relay_config c = json_struct
     [(''listen'', json_struct [(''host'', JString (rl_host (cf_listen c))),
         (''port'', json_u64 (ucast (rl_port (cf_listen c)))), (''path'', JString (rl_path (cf_listen c)))]),
      (''servers'', JArray (map ser_relay_server (cf_servers c)))]"

definition ser_mutation_inputs :: "relay_mutation_inputs \<Rightarrow> json" where
  "ser_mutation_inputs i = json_struct
     [(''providerInputsDigest'', ser_digest (mi_provider_inputs_digest i)),
      (''policyDigest'', ser_digest (mi_policy_digest i)), (''targetDigest'', ser_digest (mi_target_digest i)),
      (''declarationDigest'', ser_digest (mi_declaration_digest i)),
      (''ownershipMapDigest'', ser_digest (mi_ownership_map_digest i)),
      (''artifactSetDigest'', ser_digest (mi_artifact_set_digest i)),
      (''approvedConfirmationId'', ser_stable_id (mi_approved_confirmation_id i)),
      (''approvalIdempotencyKey'', JString (mi_approval_idempotency_key i))]"

definition ser_relay_payload :: "relay_payload \<Rightarrow> json" where
  "ser_relay_payload p = json_struct
     [(''desired'', ser_relay_config (rp_desired p)), (''inputs'', ser_mutation_inputs (rp_inputs p))]"

definition ser_operation_record :: "operation_record \<Rightarrow> json" where
  "ser_operation_record r = json_struct
     [(''operationId'', ser_digest (or_operation_id r)), (''payload'', ser_relay_payload (or_payload r))]"

definition ser_bytes :: "string \<Rightarrow> json" where
  "ser_bytes bytes = JArray (map (\<lambda>c. json_u64 (of_nat (byte c))) bytes)"

definition ser_backup_record :: "backup_record \<Rightarrow> json" where
  "ser_backup_record r = json_struct
     [(''operationId'', ser_digest (bk_operation_id r)), (''beforeDigest'', json_option ser_digest (bk_before_digest r)),
      (''bytes'', json_option ser_bytes (bk_bytes r))]"

section \<open>Files\<close>

type_synonym 'a relay_action = "relay_world \<Rightarrow> (relay_plan_error + 'a) \<times> relay_world"

definition relay_act :: "'a relay_action \<Rightarrow> ('a \<Rightarrow> 'b relay_action) \<Rightarrow> 'b relay_action" where
  "relay_act m f w = (case m w of (Inl e, v) \<Rightarrow> (Inl e, v) | (Inr x, v) \<Rightarrow> f x v)"

definition relay_result :: "relay_plan_error + 'a \<Rightarrow> 'a relay_action" where
  "relay_result r w = (r, w)"

definition next_fault :: "relay_world \<Rightarrow> io_fault \<times> relay_world" where
  "next_fault w = (case rw_io w of [] \<Rightarrow> (IoOk, w) | f # fs \<Rightarrow> (f, w\<lparr>rw_io := fs\<rparr>))"

definition read_entry :: "io_fault \<Rightarrow> file_entry \<Rightarrow> relay_plan_error + string option" where
  "read_entry f e = (if f \<noteq> IoOk then Err RelayIo
     else case e of Absent \<Rightarrow> Ok None | Regular bytes \<Rightarrow> Ok (Some bytes) | NotRegular \<Rightarrow> Err RelayIo)"

definition read_live :: "string option relay_action" where
  "read_live w = (case next_fault w of (f, v) \<Rightarrow> (read_entry f (rw_live v), v))"

definition read_state :: "string \<Rightarrow> string option relay_action" where
  "read_state name w = (case next_fault w of (f, v) \<Rightarrow> (read_entry f (rw_state v name), v))"

text \<open>A write that fails half-way leaves the file it created with what was written.\<close>

definition write_immutable :: "env \<Rightarrow> string \<Rightarrow> json \<Rightarrow> unit relay_action" where
  "write_immutable E name v w =
     (case env_jcs E v of
        None \<Rightarrow> (Err RelayJson, w)
      | Some bytes \<Rightarrow>
          (case next_fault w of (f, u) \<Rightarrow>
            if rw_state u name = Absent then
              (case f of
                 IoOk \<Rightarrow> (Ok (), u\<lparr>rw_state := (rw_state u)(name := Regular bytes)\<rparr>)
               | IoFails \<Rightarrow> (Err RelayIo, u)
               | IoPartial n \<Rightarrow> (Err RelayIo, u\<lparr>rw_state := (rw_state u)(name := Regular (take n bytes))\<rparr>))
            else relay_act (read_state name) (\<lambda>existing.
              relay_result (if existing = Some bytes then Ok () else Err UnsafeState)) u))"

definition replace_live :: "string \<Rightarrow> unit relay_action" where
  "replace_live bytes w =
     (case next_fault w of (f, v) \<Rightarrow>
        if f \<noteq> IoOk then (Err RelayIo, v) else (Ok (), v\<lparr>rw_live := Regular bytes\<rparr>))"

text \<open>\<open>fs::remove_file\<close>, where a missing file is no failure.\<close>

definition remove_live :: "unit relay_action" where
  "remove_live w =
     (case next_fault w of (f, v) \<Rightarrow>
        if f \<noteq> IoOk then (Err RelayIo, v) else (Ok (), v\<lparr>rw_live := Absent\<rparr>))"

definition runtime_step :: "relay_adapter \<Rightarrow> runtime_call \<Rightarrow> unit relay_action" where
  "runtime_step A call w =
     (if \<not> ra_lifecycle A then (Ok (), w)
      else case next_fault w of (f, v) \<Rightarrow>
        if f \<noteq> IoOk then (Err RelayIo, v) else (Ok (), v\<lparr>rw_runtime := rw_runtime v @ [call]\<rparr>))"

definition digest_of_bytes :: "env \<Rightarrow> string \<Rightarrow> contract_error + sha256_digest" where
  "digest_of_bytes E bytes = sha256_digest_parse (''sha256:'' @ env_sha256 E bytes)"

definition digest_option :: "env \<Rightarrow> string option \<Rightarrow> contract_error + sha256_digest option" where
  "digest_option E bytes = (case bytes of None \<Rightarrow> Ok None
     | Some b \<Rightarrow> and_then (digest_of_bytes E b) (\<lambda>d. Ok (Some d)))"

definition hex_of :: "sha256_digest \<Rightarrow> string" where
  "hex_of d = (case strip_prefix ''sha256:'' (digest_str d) of None \<Rightarrow> digest_str d | Some h \<Rightarrow> h)"

definition operation_path :: "sha256_digest \<Rightarrow> string" where
  "operation_path d = hex_of d @ ''.operation.json''"

definition backup_path :: "sha256_digest \<Rightarrow> string" where
  "backup_path d = hex_of d @ ''.backup.json''"

definition read_record :: "(string \<Rightarrow> 'r option) \<Rightarrow> string \<Rightarrow> 'r relay_action" where
  "read_record decode name = relay_act (read_state name) (\<lambda>bytes.
     relay_result (and_then (ok_or UnsafeState bytes) (\<lambda>b. ok_or RelayJson (decode b))))"

section \<open>Planning\<close>

definition relay_draft ::
  "relay_adapter \<Rightarrow> sha256_digest option \<Rightarrow> sha256_digest \<Rightarrow> sha256_digest \<Rightarrow> operation_draft" where
  "relay_draft A before after payload_digest = \<lparr>od_adapter_id = ra_id A,
     od_kind = (if before \<noteq> None then OpUpdate else OpCreate),
     od_resource = \<lparr>rr_resource_type = StableId ''mcp-relay'', rr_resource_id = StableId ''local'',
       rr_managed_path = Some (ra_live A)\<rparr>,
     od_risk = Medium, od_requires_confirmation = True, od_recovery_capability = ExactRollback,
     od_depends_on = [], od_before_digest = before, od_after_digest = Some after,
     od_payload_digest = payload_digest, od_provenance = None,
     od_summary = ''reconcile persistent MCP relay configuration''\<rparr>"

definition plan_relay_operation ::
  "env \<Rightarrow> relay_adapter \<Rightarrow> relay_config \<Rightarrow> relay_mutation_inputs \<Rightarrow> operation option relay_action" where
  "plan_relay_operation E A desired inputs =
     relay_act (relay_result (ok_or RelayJson (env_jcs E (ser_relay_config desired)))) (\<lambda>desired_bytes.
     relay_act (relay_result (map_err RelayContract (digest_of_bytes E desired_bytes))) (\<lambda>after.
     relay_act read_live (\<lambda>before_bytes.
     relay_act (relay_result (map_err RelayContract (digest_option E before_bytes))) (\<lambda>before.
       if before = Some after then relay_result (Ok None)
       else
         let payload = \<lparr>rp_desired = desired, rp_inputs = inputs\<rparr> in
         relay_act (relay_result (map_err RelayContract
             (digest_domain_json E ''commonkit.relay-payload.v1'' (ser_relay_payload payload)))) (\<lambda>payload_digest.
         relay_act (relay_result (map_err RelayContract
             (finalize_operation E (relay_draft A before after payload_digest)))) (\<lambda>operation.
         relay_act (write_immutable E (operation_path (op_id operation))
             (ser_operation_record \<lparr>or_operation_id = op_id operation, or_payload = payload\<rparr>)) (\<lambda>_.
           relay_result (Ok (Some operation)))))))))"

section \<open>Adapter methods\<close>

definition failure :: "string \<Rightarrow> string \<Rightarrow> adapter_failure" where
  "failure code message = \<lparr>af_code = code, af_message = message\<rparr>"

type_synonym 'a adapter_action = "relay_world \<Rightarrow> (adapter_failure + 'a) \<times> relay_world"

definition attempted :: "'a relay_action \<Rightarrow> adapter_failure \<Rightarrow> 'a adapter_action" where
  "attempted m e w = (case m w of (Inl _, v) \<Rightarrow> (Inl e, v) | (Inr x, v) \<Rightarrow> (Inr x, v))"

definition ad_act :: "'a adapter_action \<Rightarrow> ('a \<Rightarrow> 'b adapter_action) \<Rightarrow> 'b adapter_action" where
  "ad_act m f w = (case m w of (Inl e, v) \<Rightarrow> (Inl e, v) | (Inr x, v) \<Rightarrow> f x v)"

definition ad_result :: "adapter_failure + 'a \<Rightarrow> 'a adapter_action" where
  "ad_result r w = (r, w)"

definition payload_of :: "env \<Rightarrow> relay_codec \<Rightarrow> operation \<Rightarrow> relay_payload adapter_action" where
  "payload_of E K operation =
     ad_act (attempted (read_record (rk_operation K) (operation_path (op_id operation)))
         (failure ''relay_operation_missing'' ''relay operation record is missing or invalid'')) (\<lambda>r.
     ad_act (ad_result (map_err (\<lambda>_. failure ''relay_operation_invalid'' ''relay operation payload is invalid'')
         (digest_domain_json E ''commonkit.relay-payload.v1'' (ser_relay_payload (or_payload r))))) (\<lambda>digest.
       ad_result (if or_operation_id r \<noteq> op_id operation \<or> digest \<noteq> op_payload_digest operation
         then Err (failure ''relay_operation_mismatch'' ''relay operation record does not match the approved plan'')
         else Ok (or_payload r))))"

definition validate_confirmation :: "env \<Rightarrow> relay_codec \<Rightarrow> operation \<Rightarrow> stable_id \<Rightarrow> unit adapter_action" where
  "validate_confirmation E K operation confirmation_id = ad_act (payload_of E K operation) (\<lambda>payload.
     ad_result (ensure (mi_approved_confirmation_id (rp_inputs payload) = confirmation_id)
       (failure ''relay_confirmation_mismatch'' ''confirmation does not authorize the reviewed relay operation'')))"

definition validate_approval :: "env \<Rightarrow> relay_codec \<Rightarrow> operation \<Rightarrow> stable_id \<Rightarrow> string \<Rightarrow> unit adapter_action" where
  "validate_approval E K operation confirmation_id idempotency_key = ad_act (payload_of E K operation) (\<lambda>payload.
     ad_result (and_then
       (ensure (mi_approved_confirmation_id (rp_inputs payload) = confirmation_id)
         (failure ''relay_confirmation_mismatch'' ''confirmation does not authorize the reviewed relay operation''))
       (\<lambda>_. ensure (mi_approval_idempotency_key (rp_inputs payload) = idempotency_key)
         (failure ''relay_idempotency_mismatch'' ''idempotency key does not authorize the reviewed relay operation''))))"

definition validate_mutation_inputs ::
  "env \<Rightarrow> relay_codec \<Rightarrow> operation \<Rightarrow> relay_mutation_inputs \<Rightarrow> unit adapter_action" where
  "validate_mutation_inputs E K operation expected = ad_act (payload_of E K operation) (\<lambda>payload.
     ad_result (ensure (rp_inputs payload = expected)
       (failure ''relay_authority_changed'' ''relay authority changed after review'')))"

definition apply_bound :: "env \<Rightarrow> relay_codec \<Rightarrow> relay_adapter \<Rightarrow> operation \<Rightarrow> unit adapter_action" where
  "apply_bound E K A operation =
     ad_act (payload_of E K operation) (\<lambda>payload.
     ad_act (ad_result (ok_or (failure ''relay_apply_failed'' ''could not serialize relay configuration'')
         (env_jcs E (ser_relay_config (rp_desired payload))))) (\<lambda>bytes.
     ad_act (attempted (replace_live bytes)
         (failure ''relay_apply_failed'' ''could not replace relay configuration'')) (\<lambda>_.
       attempted (runtime_step A (Reloaded (rp_desired payload)))
         (failure ''relay_reload_failed'' ''could not reload relay runtime''))))"

definition relay_observe_recovery :: "env \<Rightarrow> relay_codec \<Rightarrow> operation \<Rightarrow> recovery_observation adapter_action" where
  "relay_observe_recovery E K operation =
     ad_act (payload_of E K operation) (\<lambda>_.
     ad_act (attempted read_live (failure ''relay_recovery_observe_failed'' ''relay inspection failed'')) (\<lambda>bytes.
     ad_act (ad_result (map_err (\<lambda>_. failure ''relay_recovery_observe_failed'' ''relay digest failed'')
         (digest_option E bytes))) (\<lambda>current.
       ad_result (Ok (if current = op_after_digest operation then ObsAfter
         else if current = op_before_digest operation then ObsBefore else ObsOther)))))"

definition relay_prepare :: "env \<Rightarrow> relay_codec \<Rightarrow> operation \<Rightarrow> unit adapter_action" where
  "relay_prepare E K operation =
     ad_act (payload_of E K operation) (\<lambda>_.
     ad_act (attempted read_live (failure ''relay_inspect_failed'' ''could not inspect relay configuration'')) (\<lambda>bytes.
     ad_act (ad_result (map_err (\<lambda>_. failure ''relay_inspect_failed'' ''could not digest relay configuration'')
         (digest_option E bytes))) (\<lambda>digest.
     ad_act (ad_result (ensure (digest = op_before_digest operation)
         (failure ''relay_preimage_changed'' ''relay configuration changed after planning''))) (\<lambda>_.
       attempted (write_immutable E (backup_path (op_id operation))
           (ser_backup_record \<lparr>bk_operation_id = op_id operation, bk_before_digest = digest, bk_bytes = bytes\<rparr>))
         (failure ''relay_backup_failed'' ''could not persist relay backup'')))))"

definition relay_verify :: "env \<Rightarrow> operation \<Rightarrow> unit adapter_action" where
  "relay_verify E operation =
     ad_act (attempted read_live (failure ''relay_verify_failed'' ''could not inspect relay configuration'')) (\<lambda>bytes.
     ad_act (ad_result (ok_or (failure ''relay_verify_failed'' ''relay configuration is missing'') bytes)) (\<lambda>b.
     ad_act (ad_result (map_err (\<lambda>_. failure ''relay_verify_failed'' ''could not digest relay configuration'')
         (digest_of_bytes E b))) (\<lambda>actual.
       ad_result (ensure (Some actual = op_after_digest operation)
         (failure ''relay_verify_mismatch'' ''relay configuration digest differs'')))))"

text \<open>The digest of the backed up bytes, where a digest that cannot be computed counts as none.\<close>

definition backup_digest :: "env \<Rightarrow> string option \<Rightarrow> sha256_digest option" where
  "backup_digest E bytes = (case digest_option E bytes of Inl _ \<Rightarrow> None | Inr d \<Rightarrow> d)"

definition relay_rollback :: "env \<Rightarrow> relay_codec \<Rightarrow> relay_adapter \<Rightarrow> operation \<Rightarrow> unit adapter_action" where
  "relay_rollback E K A operation =
     ad_act (payload_of E K operation) (\<lambda>_.
     ad_act (attempted (read_record (rk_backup K) (backup_path (op_id operation)))
         (failure ''relay_backup_missing'' ''relay backup is missing or invalid'')) (\<lambda>backup.
     ad_act (ad_result (ensure (bk_operation_id backup = op_id operation
           \<and> bk_before_digest backup = op_before_digest operation
           \<and> backup_digest E (bk_bytes backup) = bk_before_digest backup)
         (failure ''relay_backup_mismatch'' ''relay backup does not match the approved operation''))) (\<lambda>_.
     ad_act (attempted (case bk_bytes backup of Some bytes \<Rightarrow> replace_live bytes | None \<Rightarrow> remove_live)
         (failure ''relay_rollback_failed'' ''could not restore relay configuration'')) (\<lambda>_.
       attempted (runtime_step A Restarted)
         (failure ''relay_rollback_failed'' ''could not restore relay runtime'')))))"

definition relay_adapter_of :: "env \<Rightarrow> relay_codec \<Rightarrow> relay_adapter \<Rightarrow> relay_world adapter" where
  "relay_adapter_of E K A = \<lparr>ad_id = ra_id A,
     ad_supports_operation = \<lambda>operation _. op_recovery_capability operation = ExactRollback,
     ad_supports_offline_recovery = \<lambda>operation w. (case fst (payload_of E K operation w) of Inl _ \<Rightarrow> False | Inr _ \<Rightarrow> True),
     ad_preflight = \<lambda>_ w. (Ok (), w),
     ad_package_authorization_binding = \<lambda>_ _. Ok None,
     ad_validate_evidence = \<lambda>_ _ _. Ok (),
     ad_package_final_digest = \<lambda>_ w. (Ok None, w),
     ad_observe_recovery = relay_observe_recovery E K,
     ad_prepare_recovery = \<lambda>operation. ad_act (payload_of E K operation) (\<lambda>_. ad_result (Ok ())),
     ad_converge_recovery = apply_bound E K A,
     ad_prepare = relay_prepare E K,
     ad_apply = apply_bound E K A,
     ad_verify = relay_verify E,
     ad_rollback = relay_rollback E K A\<rparr>"

text \<open>\<open>LegacyRelayReader::read\<close>\<close>

datatype legacy_relay_error = LegacyMissing | LegacyIo | LegacyJson | LegacyConfig relay_config_error

definition legacy_read ::
  "url_parser \<Rightarrow> (string \<Rightarrow> json option) \<Rightarrow> io_fault \<Rightarrow> file_entry \<Rightarrow> legacy_relay_error + relay_config" where
  "legacy_read parse decode f e =
     and_then (map_err (\<lambda>_. LegacyIo) (read_entry f e)) (\<lambda>bytes.
     and_then (ok_or LegacyMissing bytes) (\<lambda>b.
     and_then (ok_or LegacyJson (decode b)) (\<lambda>v.
       map_err LegacyConfig (relay_normalize parse v))))"

end
