(* ===== verification/Relay_Rollback.thy ===== *)
theory Relay_Rollback
  imports Relay_Adapter
begin

text \<open>
  What the reconciler relies on when an adapter declares exact rollback, as an interface, and the
  relay adapter as an implementation of it.
\<close>

section \<open>The interface\<close>

datatype adapter_event = EventApply | EventVerify | EventRollback | EventObserve | EventConverge

fun after_event :: "'w adapter \<Rightarrow> operation \<Rightarrow> adapter_event \<Rightarrow> 'w \<Rightarrow> 'w" where
  "after_event a op EventApply w = snd (ad_apply a op w)"
| "after_event a op EventVerify w = snd (ad_verify a op w)"
| "after_event a op EventRollback w = snd (ad_rollback a op w)"
| "after_event a op EventObserve w = snd (ad_observe_recovery a op w)"
| "after_event a op EventConverge w = snd (ad_converge_recovery a op w)"

text \<open>
  \<open>content\<close> is what the adapter manages; \<open>prepared op c w\<close> says that \<open>w\<close> holds what a rollback of
  \<open>op\<close> to the content \<open>c\<close> needs, and \<open>readable op c\<close> that what preparation stores of \<open>c\<close> reads back.
\<close>

locale exact_rollback_adapter =
  fixes a :: "'w adapter"
    and content :: "'w \<Rightarrow> 'c"
    and readable :: "operation \<Rightarrow> 'c \<Rightarrow> bool"
    and prepared :: "operation \<Rightarrow> 'c \<Rightarrow> 'w \<Rightarrow> bool"
  assumes prepare_prepares: "readable op (content w) \<Longrightarrow> ad_prepare a op w = (Inr (), v) \<Longrightarrow> prepared op (content w) v"
    and prepare_keeps: "ad_prepare a op w = (Inr (), v) \<Longrightarrow> content v = content w"
    and events_keep: "prepared op c w \<Longrightarrow> prepared op c (after_event a op e w)"
    and rollback_restores: "prepared op c w \<Longrightarrow> ad_rollback a op w = (Inr (), v) \<Longrightarrow> content v = c"
begin

lemma prepared_after_events: "prepared op c w \<Longrightarrow> prepared op c (fold (after_event a op) es w)"
  by (induction es arbitrary: w) (auto intro: events_keep)

text \<open>Whatever happens between them, a rollback that succeeds gives back what preparation saw.\<close>

lemma rollback_exact:
  assumes "readable op (content w)" "ad_prepare a op w = (Inr (), v)"
    "ad_rollback a op (fold (after_event a op) es v) = (Inr (), u)"
  shows "content u = content w"
  using prepare_prepares [OF assms(1,2)] assms(3) by (blast intro: rollback_restores prepared_after_events)

end

section \<open>Runs of relay actions\<close>

named_theorems relay_simps \<open>successful runs of relay actions\<close>

lemma relay_act_Ok [relay_simps]:
  "relay_act m f w = (Inr y, v) \<longleftrightarrow> (\<exists>x u. m w = (Inr x, u) \<and> f x u = (Inr y, v))"
  "ad_act am af w = (Inr y, v) \<longleftrightarrow> (\<exists>x u. am w = (Inr x, u) \<and> af x u = (Inr y, v))"
  "attempted m e w = (Inr z, v) \<longleftrightarrow> m w = (Inr z, v)"
  "relay_result r w = (q, v) \<longleftrightarrow> r = q \<and> v = w"
  "ad_result s w = (p, v) \<longleftrightarrow> s = p \<and> v = w"
  by (auto simp: relay_act_def ad_act_def attempted_def relay_result_def ad_result_def split: prod.splits sum.splits)

lemma next_fault_same [simp]:
  "next_fault w = (f, v) \<Longrightarrow> rw_live v = rw_live w \<and> rw_state v = rw_state w \<and> rw_runtime v = rw_runtime w"
  by (auto simp: next_fault_def split: list.splits)

definition keeps_state :: "(relay_world \<Rightarrow> 'r \<times> relay_world) \<Rightarrow> bool" where
  "keeps_state m \<longleftrightarrow> (\<forall>w. rw_state (snd (m w)) = rw_state w)"

lemma keeps_stateD: "keeps_state m \<Longrightarrow> m w = (r, v) \<Longrightarrow> rw_state v = rw_state w"
  by (metis keeps_state_def snd_conv)

lemma keeps_act [intro]:
  "keeps_state m \<Longrightarrow> (\<And>x. keeps_state (f x)) \<Longrightarrow> keeps_state (relay_act m f)"
  "keeps_state am \<Longrightarrow> (\<And>x. keeps_state (af x)) \<Longrightarrow> keeps_state (ad_act am af)"
  "keeps_state m \<Longrightarrow> keeps_state (attempted m e)"
  unfolding keeps_state_def relay_act_def ad_act_def attempted_def
  by (auto split: prod.split sum.split) (metis snd_conv)+

lemma keeps_simple [intro]:
  "keeps_state (relay_result r)" "keeps_state (ad_result s)" "keeps_state read_live" "keeps_state (read_state n)"
  "keeps_state (replace_live b)" "keeps_state remove_live" "keeps_state (runtime_step A call)"
  by (auto simp: keeps_state_def relay_result_def ad_result_def read_live_def read_state_def replace_live_def
      remove_live_def runtime_step_def split: prod.split)

lemma keeps_record [intro]: "keeps_state (read_record d n)"
  unfolding read_record_def by (intro keeps_act keeps_simple)

lemma keeps_payload [intro]: "keeps_state (payload_of E K op)"
  unfolding payload_of_def by (intro keeps_act keeps_simple keeps_record)

lemma keeps_case [intro]: "keeps_state m \<Longrightarrow> (\<And>x. keeps_state (f x)) \<Longrightarrow> keeps_state (case z of None \<Rightarrow> m | Some x \<Rightarrow> f x)"
  by (simp split: option.split)

lemma keeps_methods:
  "keeps_state (apply_bound E K A op)" "keeps_state (relay_verify E op)" "keeps_state (relay_rollback E K A op)"
  "keeps_state (relay_observe_recovery E K op)"
  unfolding apply_bound_def relay_verify_def relay_rollback_def relay_observe_recovery_def
  by (intro keeps_act keeps_simple keeps_record keeps_payload keeps_case)+

lemma relay_methods [simp]:
  "ad_prepare (relay_adapter_of E K A) = relay_prepare E K" "ad_apply (relay_adapter_of E K A) = apply_bound E K A"
  "ad_verify (relay_adapter_of E K A) = relay_verify E" "ad_rollback (relay_adapter_of E K A) = relay_rollback E K A"
  "ad_observe_recovery (relay_adapter_of E K A) = relay_observe_recovery E K"
  "ad_converge_recovery (relay_adapter_of E K A) = apply_bound E K A"
  by (simp_all add: relay_adapter_of_def)

lemma events_keep_state: "rw_state (after_event (relay_adapter_of E K A) op e w) = rw_state w"
  using keeps_methods by (cases e) (simp_all add: keeps_state_def)

section \<open>Backups\<close>

fun entry_of :: "string option \<Rightarrow> file_entry" where
  "entry_of None = Absent"
| "entry_of (Some b) = Regular b"

lemma read_live_Ok: "read_live w = (Inr x, v) \<Longrightarrow> rw_live w = entry_of x \<and> rw_live v = rw_live w \<and> rw_state v = rw_state w"
  by (auto simp: read_live_def read_entry_def split: prod.splits if_splits file_entry.splits dest!: next_fault_same)

lemma read_state_Ok: "read_state n w = (Inr x, v) \<Longrightarrow> rw_state w n = entry_of x \<and> rw_live v = rw_live w \<and> rw_state v = rw_state w"
  by (auto simp: read_state_def read_entry_def split: prod.splits if_splits file_entry.splits dest!: next_fault_same)

lemma write_immutable_Ok:
  assumes "write_immutable E n j w = (Inr (), v)"
  shows "\<exists>b. env_jcs E j = Some b \<and> rw_state v n = Regular b" "rw_live v = rw_live w"
proof -
  from assms obtain b f u where b: "env_jcs E j = Some b" and u: "next_fault w = (f, u)"
    by (auto simp: write_immutable_def split: option.splits prod.splits)
  note same = next_fault_same [OF u]
  show "\<exists>b. env_jcs E j = Some b \<and> rw_state v n = Regular b" "rw_live v = rw_live w"
    using assms b u same
    by (auto simp: write_immutable_def relay_simps split: if_splits io_fault.splits dest!: read_state_Ok)
qed

lemma payload_of_live: "payload_of E K op w = (r, v) \<Longrightarrow> rw_live v = rw_live w"
  by (auto simp: payload_of_def ad_act_def attempted_def read_record_def relay_act_def read_state_def relay_result_def
      ad_result_def split: prod.splits sum.splits dest!: next_fault_same)

text \<open>That the decoder reads the record a preparation stores of a file.\<close>

definition backup_of :: "operation \<Rightarrow> string option \<Rightarrow> backup_record" where
  "backup_of op bytes = \<lparr>bk_operation_id = op_id op, bk_before_digest = op_before_digest op, bk_bytes = bytes\<rparr>"

definition backup_readable :: "env \<Rightarrow> relay_codec \<Rightarrow> operation \<Rightarrow> file_entry \<Rightarrow> bool" where
  "backup_readable E K op c = (case c of NotRegular \<Rightarrow> True
     | Absent \<Rightarrow> reads_back (env_jcs E) (rk_backup K) ser_backup_record (backup_of op None)
     | Regular b \<Rightarrow> reads_back (env_jcs E) (rk_backup K) ser_backup_record (backup_of op (Some b)))"

lemma backup_readable_entry:
  "backup_readable E K op (entry_of x) \<longleftrightarrow> reads_back (env_jcs E) (rk_backup K) ser_backup_record (backup_of op x)"
  by (cases x) (simp_all add: backup_readable_def)

definition backed_up :: "relay_codec \<Rightarrow> operation \<Rightarrow> file_entry \<Rightarrow> relay_world \<Rightarrow> bool" where
  "backed_up K op c w \<longleftrightarrow> (\<exists>b x. rw_state w (backup_path (op_id op)) = Regular b \<and> c = entry_of x
     \<and> rk_backup K b = Some (backup_of op x))"

lemma relay_prepare_Ok:
  assumes "relay_prepare E K op w = (Inr (), v)"
  shows "rw_live v = rw_live w" "backup_readable E K op (rw_live w) \<Longrightarrow> backed_up K op (rw_live w) v"
proof -
  from assms obtain p w1 x w2 where
    p: "payload_of E K op w = (Inr p, w1)" and x: "read_live w1 = (Inr x, w2)"
    and b: "write_immutable E (backup_path (op_id op)) (ser_backup_record (backup_of op x)) w2 = (Inr (), v)"
    unfolding relay_prepare_def backup_of_def by (auto simp: relay_simps)
  have live: "rw_live w1 = rw_live w" by (rule payload_of_live [OF p])
  note r = read_live_Ok [OF x] and i = write_immutable_Ok [OF b]
  show "rw_live v = rw_live w" using live r i by simp
  assume "backup_readable E K op (rw_live w)"
  with live r have "reads_back (env_jcs E) (rk_backup K) ser_backup_record (backup_of op x)"
    by (simp add: backup_readable_entry [symmetric])
  with i(1) show "backed_up K op (rw_live w) v"
    using live r unfolding backed_up_def reads_back_def by (auto intro!: exI [of _ x])
qed

lemma replace_live_Ok: "replace_live b w = (Inr (), v) \<Longrightarrow> rw_live v = Regular b"
  by (auto simp: replace_live_def split: prod.splits if_splits)

lemma remove_live_Ok: "remove_live w = (Inr (), v) \<Longrightarrow> rw_live v = Absent"
  by (auto simp: remove_live_def split: prod.splits if_splits)

lemma runtime_step_live: "runtime_step A c w = (r, v) \<Longrightarrow> rw_live v = rw_live w"
  by (auto simp: runtime_step_def split: prod.splits if_splits dest!: next_fault_same)

lemma relay_rollback_Ok:
  assumes "relay_rollback E K A op w = (Inr (), v)" "backed_up K op c w"
  shows "rw_live v = c"
proof -
  from assms(1) obtain p w1 bk w2 w3 where
    p: "payload_of E K op w = (Inr p, w1)"
    and bk: "read_record (rk_backup K) (backup_path (op_id op)) w1 = (Inr bk, w2)"
    and r: "(case bk_bytes bk of Some bytes \<Rightarrow> replace_live bytes | None \<Rightarrow> remove_live) w2 = (Inr (), w3)"
    and t: "runtime_step A Restarted w3 = (Inr (), v)"
    unfolding relay_rollback_def by (auto simp: relay_simps)
  have "rw_state w1 = rw_state w" using keeps_stateD [OF keeps_payload p] .
  with assms(2) obtain b x where b: "rw_state w1 (backup_path (op_id op)) = Regular b" "c = entry_of x"
    "rk_backup K b = Some (backup_of op x)"
    unfolding backed_up_def by auto
  from bk b have "bk_bytes bk = x"
    by (auto simp: read_record_def relay_simps and_then_Ok_iff backup_of_def dest!: read_state_Ok split: option.splits
        elim!: entry_of.elims)
  with r have "rw_live w3 = c"
    by (cases x) (auto simp: b dest: replace_live_Ok remove_live_Ok)
  then show ?thesis using runtime_step_live [OF t] by simp
qed

text \<open>The relay adapter implements the interface, whatever the decoders.\<close>

interpretation relay: exact_rollback_adapter "relay_adapter_of E K A" rw_live "backup_readable E K" "backed_up K"
  for E K A
proof
  show "backed_up K op (rw_live w) v"
    if "backup_readable E K op (rw_live w)" "ad_prepare (relay_adapter_of E K A) op w = (Inr (), v)" for op w v
    using relay_prepare_Ok(2) that by simp
  show "rw_live v = rw_live w" if "ad_prepare (relay_adapter_of E K A) op w = (Inr (), v)" for op w v
    using relay_prepare_Ok(1) that by simp
  show "backed_up K op c (after_event (relay_adapter_of E K A) op e w)" if "backed_up K op c w" for op c e w
    using that by (simp add: backed_up_def events_keep_state)
  show "rw_live v = c" if "backed_up K op c w" "ad_rollback (relay_adapter_of E K A) op w = (Inr (), v)" for op c w v
    using relay_rollback_Ok that by simp
qed

end
