(* ===== verification/Relay_Catalog.thy ===== *)
theory Relay_Catalog
  imports Relay_Config
begin

text \<open>
  The running catalog of the relay and its reconciliation with a desired list of servers,
  \<open>crates/commonkit-relay/src/lib.rs\<close>. Discovery of the tools of an upstream is a parameter.
\<close>

section \<open>Data\<close>

record relay_tool =
  tl_name :: string
  tl_description :: string
  tl_input_schema :: json

record relay_runtime_server =
  rv_config :: relay_server_config
  rv_tools :: "relay_tool list"

record reconcile_summary =
  sm_added :: "relay_server_id list"
  sm_updated :: "relay_server_id list"
  sm_removed :: "relay_server_id list"

datatype relay_lifecycle_error =
    DuplicateServer
  | OwnershipConflict relay_server_id
  | UpstreamValidation string
  | ToolNameCollision string

type_synonym relay_catalog = "(relay_server_id, relay_runtime_server) btree_map"
type_synonym upstream_validator = "relay_server_config \<Rightarrow> relay_lifecycle_error + relay_tool list"

section \<open>Operations\<close>

fun catalog_loop ::
  "relay_catalog \<Rightarrow> relay_runtime_server list \<Rightarrow> relay_lifecycle_error + relay_catalog" where
  "catalog_loop catalog [] = Ok catalog"
| "catalog_loop catalog (server # servers) =
     (if bt_get catalog (sv_id (rv_config server)) \<noteq> None then Err DuplicateServer
      else catalog_loop (bt_insert (sv_id (rv_config server)) server catalog) servers)"

definition from_servers :: "relay_runtime_server list \<Rightarrow> relay_lifecycle_error + relay_catalog" where
  "from_servers servers = catalog_loop [] servers"

text \<open>Code points other than the allowed ASCII characters become one underscore each.\<close>

definition localized_name :: "string \<Rightarrow> string" where
  "localized_name name = map (\<lambda>c. if is_ascii_alphanumeric c \<or> c = CHR ''_'' \<or> c = CHR ''-'' then c else CHR ''_'')
     (filter (\<lambda>c. \<not> (128 \<le> byte c \<and> byte c < 192)) name)"

definition localize_tool :: "string \<Rightarrow> relay_tool \<Rightarrow> relay_tool" where
  "localize_tool server_id tool = \<lparr>tl_name = server_id @ ''__'' @ localized_name (tl_name tool),
     tl_description = ''['' @ server_id @ ''] '' @
       (if tl_description tool = [] then tl_name tool else tl_description tool),
     tl_input_schema = tl_input_schema tool\<rparr>"

fun tools_loop :: "string set \<Rightarrow> relay_tool list \<Rightarrow> relay_lifecycle_error + relay_tool list" where
  "tools_loop names [] = Ok []"
| "tools_loop names (tool # tools) =
     (if tl_name tool \<in> names then Err (ToolNameCollision (tl_name tool))
      else and_then (tools_loop (insert (tl_name tool) names) tools) (\<lambda>rest. Ok (tool # rest)))"

definition localized :: "relay_catalog \<Rightarrow> relay_tool list" where
  "localized catalog = concat (map (\<lambda>(_, server).
     map (localize_tool (rsid_str (sv_id (rv_config server)))) (rv_tools server))
     (filter (\<lambda>(_, server). sv_enabled (rv_config server)) catalog))"

definition localized_tools :: "relay_catalog \<Rightarrow> relay_lifecycle_error + relay_tool list" where
  "localized_tools catalog = tools_loop {} (localized catalog)"

fun prepare_servers ::
  "upstream_validator \<Rightarrow> relay_catalog \<Rightarrow> relay_server_id set \<Rightarrow> relay_server_config list
    \<Rightarrow> relay_lifecycle_error + relay_runtime_server list" where
  "prepare_servers discover catalog ids [] = Ok []"
| "prepare_servers discover catalog ids (server # desired) =
     (if sv_id server \<in> ids then Err DuplicateServer
      else if (case bt_get catalog (sv_id server) of None \<Rightarrow> False
            | Some existing \<Rightarrow> sv_managed_by (rv_config existing) = Unmanaged)
          \<and> sv_managed_by server = ManagedByCommonKit
      then Err (OwnershipConflict (sv_id server))
      else and_then (if sv_enabled server then discover server else Ok []) (\<lambda>tools.
        and_then (prepare_servers discover catalog (insert (sv_id server) ids) desired) (\<lambda>rest.
          Ok (\<lparr>rv_config = server, rv_tools = tools\<rparr> # rest))))"

fun install_servers ::
  "relay_catalog \<Rightarrow> relay_runtime_server list \<Rightarrow> relay_catalog \<times> relay_server_id list \<times> relay_server_id list" where
  "install_servers candidate [] = (candidate, [], [])"
| "install_servers candidate (server # prepared) =
     (let i = sv_id (rv_config server) in
      case install_servers (bt_insert i server candidate) prepared of (result, added, updated) \<Rightarrow>
        if bt_contains candidate i then (result, added, i # updated) else (result, i # added, updated))"

definition prunable :: "relay_server_id set \<Rightarrow> relay_server_id \<times> relay_runtime_server \<Rightarrow> bool" where
  "prunable ids entry \<longleftrightarrow> sv_managed_by (rv_config (snd entry)) = ManagedByCommonKit \<and> fst entry \<notin> ids"

definition catalog_reconcile ::
  "upstream_validator \<Rightarrow> relay_server_config list \<Rightarrow> bool \<Rightarrow> relay_catalog
    \<Rightarrow> (relay_lifecycle_error + reconcile_summary) \<times> relay_catalog" where
  "catalog_reconcile discover desired prune_commonkit catalog =
     (case prepare_servers discover catalog {} desired of
        Inl e \<Rightarrow> (Inl e, catalog)
      | Inr prepared \<Rightarrow>
          (case install_servers catalog prepared of (installed, added, updated) \<Rightarrow>
            let ids = set (map sv_id desired);
                removed = (if prune_commonkit then map fst (filter (prunable ids) installed) else []);
                candidate = (if prune_commonkit then filter (\<lambda>entry. \<not> prunable ids entry) installed else installed)
            in case localized_tools candidate of
                 Inl e \<Rightarrow> (Inl e, catalog)
               | Inr _ \<Rightarrow> (Inr \<lparr>sm_added = added, sm_updated = updated, sm_removed = removed\<rparr>, candidate)))"

section \<open>Facts\<close>

lemma tools_loop_Ok:
  "tools_loop names tools = Inr r \<longleftrightarrow> r = tools \<and> distinct (map tl_name tools) \<and> tl_name ` set tools \<inter> names = {}"
  by (induction tools arbitrary: names r) (auto simp: and_then_Ok_iff)

text \<open>What preparing one server and the rest means, and what it gives for the whole list.\<close>

definition may_replace :: "relay_catalog \<Rightarrow> relay_server_config \<Rightarrow> bool" where
  "may_replace catalog s \<longleftrightarrow> (\<forall>e. bt_get catalog (sv_id s) = Some e \<longrightarrow> sv_managed_by (rv_config e) = Unmanaged
     \<longrightarrow> sv_managed_by s = Unmanaged)"

definition discovered :: "upstream_validator \<Rightarrow> relay_runtime_server \<Rightarrow> bool" where
  "discovered discover p \<longleftrightarrow> (if sv_enabled (rv_config p) then discover (rv_config p) = Inr (rv_tools p) else rv_tools p = [])"

lemma prepare_servers_Cons:
  assumes "prepare_servers discover catalog ids (s # desired) = Inr prepared"
  obtains p rest where "prepared = p # rest" "rv_config p = s" "sv_id s \<notin> ids" "may_replace catalog s"
    "discovered discover p" "prepare_servers discover catalog (insert (sv_id s) ids) desired = Inr rest"
proof -
  from assms obtain tools rest where
    r: "sv_id s \<notin> ids" "prepared = \<lparr>rv_config = s, rv_tools = tools\<rparr> # rest"
      "(if sv_enabled s then discover s else Inr []) = Inr tools"
      "prepare_servers discover catalog (insert (sv_id s) ids) desired = Inr rest"
    and o: "\<not> ((case bt_get catalog (sv_id s) of None \<Rightarrow> False
            | Some existing \<Rightarrow> sv_managed_by (rv_config existing) = Unmanaged)
          \<and> sv_managed_by s = ManagedByCommonKit)"
    by (simp add: and_then_Ok_iff del: split_paired_All split: if_split_asm) blast+
  have "may_replace catalog s"
    using o by (cases "sv_managed_by s") (auto simp: may_replace_def split: option.splits)
  moreover have "discovered discover \<lparr>rv_config = s, rv_tools = tools\<rparr>"
    using r(3) by (simp add: discovered_def split: if_splits)
  ultimately show ?thesis using that r by simp
qed

lemma prepare_servers_Ok:
  assumes "prepare_servers discover catalog ids desired = Inr prepared"
  shows "map rv_config prepared = desired \<and> distinct (map sv_id desired) \<and> set (map sv_id desired) \<inter> ids = {}
    \<and> list_all (discovered discover) prepared \<and> list_all (may_replace catalog) desired"
  using assms
proof (induction desired arbitrary: ids prepared)
  case (Cons s desired)
  from Cons.prems obtain p rest where p: "prepared = p # rest" "rv_config p = s" "sv_id s \<notin> ids"
    "may_replace catalog s" "discovered discover p"
    "prepare_servers discover catalog (insert (sv_id s) ids) desired = Inr rest"
    by (rule prepare_servers_Cons)
  from Cons.IH [OF p(6)] p(1-5) show ?case by simp
qed simp

lemma install_servers_get:
  assumes "install_servers candidate prepared = (result, added, updated)" "distinct (map (\<lambda>p. sv_id (rv_config p)) prepared)"
  shows "bt_get result i = (case find (\<lambda>p. sv_id (rv_config p) = i) prepared of Some p \<Rightarrow> Some p | None \<Rightarrow> bt_get candidate i)"
  using assms
proof (induction prepared arbitrary: candidate result added updated)
  case (Cons p prepared)
  obtain r a u where r: "install_servers (bt_insert (sv_id (rv_config p)) p candidate) prepared = (r, a, u)"
    by (cases "install_servers (bt_insert (sv_id (rv_config p)) p candidate) prepared") auto
  have res: "result = r" using Cons.prems(1) r by (auto simp: Let_def split: if_splits)
  have none: "find (\<lambda>q. sv_id (rv_config q) = i) prepared = None" if "sv_id (rv_config p) = i"
    using Cons.prems(2) that by (auto simp: find_None_iff image_iff)
  show ?case using Cons.IH [OF r] Cons.prems(2) none unfolding res
    by (auto simp: bt_get_insert split: option.splits)
qed simp

lemma install_servers_wf:
  "install_servers candidate prepared = (result, added, updated) \<Longrightarrow> bt_wf candidate \<Longrightarrow> bt_wf result"
proof (induction prepared arbitrary: candidate result added updated)
  case (Cons p prepared)
  obtain r a u where r: "install_servers (bt_insert (sv_id (rv_config p)) p candidate) prepared = (r, a, u)"
    by (cases "install_servers (bt_insert (sv_id (rv_config p)) p candidate) prepared") auto
  have "result = r" using Cons.prems(1) r by (auto simp: Let_def split: if_splits)
  then show ?case using Cons.IH [OF r] bt_wf_insert [OF Cons.prems(2)] by simp
qed simp

lemma bt_get_filter:
  assumes "bt_wf m"
  shows "bt_get (filter q m) k = (case bt_get m k of None \<Rightarrow> None | Some v \<Rightarrow> if q (k, v) then Some v else None)"
proof -
  have "distinct (map fst m)" by (rule bt_wf_distinct [OF assms])
  then show ?thesis unfolding bt_get_def
    by (induction m) (auto split: option.splits simp: map_of_eq_None_iff dest: map_of_SomeD)
qed

lemma map_config_find:
  "map rv_config prepared = desired \<Longrightarrow>
     find (\<lambda>p. sv_id (rv_config p) = i) prepared = None \<longleftrightarrow> i \<notin> set (map sv_id desired)"
  by (auto simp: find_None_iff image_iff)

text \<open>What a successful reconciliation leaves in the catalog.\<close>

lemma catalog_reconcile_get:
  assumes "catalog_reconcile discover desired prune catalog = (Inr summary, result)" "bt_wf catalog"
  shows "distinct (map sv_id desired)"
    and "distinct (map tl_name (localized result))"
    and "i \<in> set (map sv_id desired) \<Longrightarrow> \<exists>e s. bt_get result i = Some e \<and> s \<in> set desired \<and> sv_id s = i \<and> rv_config e = s
       \<and> (sv_enabled s \<longrightarrow> discover s = Inr (rv_tools e)) \<and> (\<not> sv_enabled s \<longrightarrow> rv_tools e = [])"
    and "i \<notin> set (map sv_id desired) \<Longrightarrow> bt_get result i = (case bt_get catalog i of None \<Rightarrow> None
       | Some e \<Rightarrow> if prune \<and> sv_managed_by (rv_config e) = ManagedByCommonKit then None else Some e)"
    and "bt_get catalog i = Some e \<Longrightarrow> sv_managed_by (rv_config e) = Unmanaged
       \<Longrightarrow> \<exists>f. bt_get result i = Some f \<and> sv_managed_by (rv_config f) = Unmanaged"
proof -
  let ?ids = "set (map sv_id desired)"
  from assms(1) obtain prepared installed added updated tools where
    p: "prepare_servers discover catalog {} desired = Inr prepared"
    and inst: "install_servers catalog prepared = (installed, added, updated)"
    and result: "result = (if prune then filter (\<lambda>entry. \<not> prunable ?ids entry) installed else installed)"
    and tools: "localized_tools result = Inr tools"
    by (auto simp: catalog_reconcile_def Let_def split: sum.splits prod.splits if_splits)
  note ok = prepare_servers_Ok [OF p]
  have cfg: "map rv_config prepared = desired" using ok by blast
  show d: "distinct (map sv_id desired)" using ok by blast
  show "distinct (map tl_name (localized result))" using tools by (simp add: localized_tools_def tools_loop_Ok)
  have dp: "distinct (map (\<lambda>p. sv_id (rv_config p)) prepared)" using d unfolding cfg [symmetric] by (simp add: comp_def)
  have wf: "bt_wf installed" by (rule install_servers_wf [OF inst assms(2)])
  have get: "bt_get result i = (case bt_get installed i of None \<Rightarrow> None
      | Some e \<Rightarrow> if prune \<and> prunable ?ids (i, e) then None else Some e)" for i
    unfolding result using bt_get_filter [OF wf] by (auto split: option.splits)
  show desired: "\<exists>e s. bt_get result i = Some e \<and> s \<in> set desired \<and> sv_id s = i \<and> rv_config e = s
       \<and> (sv_enabled s \<longrightarrow> discover s = Inr (rv_tools e)) \<and> (\<not> sv_enabled s \<longrightarrow> rv_tools e = [])"
    if i: "i \<in> ?ids" for i
  proof -
    obtain q where q: "find (\<lambda>p. sv_id (rv_config p) = i) prepared = Some q"
      using map_config_find [OF cfg, of i] i by blast
    have q': "q \<in> set prepared" "sv_id (rv_config q) = i" using q by (auto simp: find_Some_iff)
    have "bt_get installed i = Some q" using install_servers_get [OF inst dp, of i] q by simp
    then have "bt_get result i = Some q" using get [of i] i by (simp add: prunable_def)
    moreover have "rv_config q \<in> set desired" using q'(1) unfolding cfg [symmetric] by simp
    moreover have "discovered discover q" using ok q'(1) by (simp add: list_all_iff)
    ultimately show ?thesis using q'(2) by (auto simp: discovered_def)
  qed
  show other: "bt_get result i = (case bt_get catalog i of None \<Rightarrow> None
       | Some e \<Rightarrow> if prune \<and> sv_managed_by (rv_config e) = ManagedByCommonKit then None else Some e)"
    if i: "i \<notin> ?ids" for i
  proof -
    have "find (\<lambda>p. sv_id (rv_config p) = i) prepared = None" using map_config_find [OF cfg, of i] i by blast
    then have "bt_get installed i = bt_get catalog i" using install_servers_get [OF inst dp, of i] by simp
    then show ?thesis using get [of i] i by (auto simp: prunable_def split: option.splits)
  qed
  show "\<exists>f. bt_get result i = Some f \<and> sv_managed_by (rv_config f) = Unmanaged"
    if e: "bt_get catalog i = Some e" "sv_managed_by (rv_config e) = Unmanaged"
  proof (cases "i \<in> ?ids")
    case True
    from desired [OF True] obtain f s where "bt_get result i = Some f" "s \<in> set desired" "sv_id s = i" "rv_config f = s"
      by blast
    then show ?thesis using ok e by (auto simp: list_all_iff may_replace_def)
  next
    case False
    then show ?thesis using other [OF False] e by simp
  qed
qed

lemma catalog_reconcile_Err:
  "catalog_reconcile discover desired prune catalog = (Inl e, result) \<Longrightarrow> result = catalog"
  by (auto simp: catalog_reconcile_def Let_def split: sum.splits prod.splits if_splits)

section \<open>Normalized configurations\<close>

lemma collect_results_Ok:
  "collect_results f xs = Inr ys \<Longrightarrow> y \<in> set ys \<Longrightarrow> \<exists>x\<in>set xs. f x = Inr y"
  by (induction xs arbitrary: ys) (auto simp: and_then_Ok_iff)

lemma normalize_header_Ok: "normalize_header e = Inr y \<Longrightarrow> is_secret_reference (snd y)"
  by (auto simp: normalize_header_def and_then_Ok_iff split: if_splits)

lemma bt_collect_values: "(k, v) \<in> set (bt_collect kvs) \<Longrightarrow> (k, v) \<in> set kvs"
proof -
  assume "(k, v) \<in> set (bt_collect kvs)"
  then have "map_of (rev kvs) k = Some v"
    using bt_get_mem [OF bt_wf_collect] by (metis bt_get_collect)
  then show ?thesis by (metis map_of_SomeD set_rev)
qed

lemma normalized_headers:
  assumes "collect_results normalize_header hs = Inr ys" "(k, h) \<in> set (bt_collect ys)"
  shows "is_secret_reference h"
proof -
  obtain x where "normalize_header x = Inr (k, h)"
    using collect_results_Ok [OF assms(1) bt_collect_values [OF assms(2)]] by blast
  then show ?thesis using normalize_header_Ok by fastforce
qed

lemma normalize_server_safe:
  assumes "normalize_server parse v = Inr s"
  shows "(\<forall>(k, h)\<in>set (rr_headers (sv_remote s)). is_secret_reference h)
    \<and> validate_remote_url parse (rr_url (sv_remote s)) = Inr ()"
proof -
  from assms obtain headers where
    h: "(case headers of None \<Rightarrow> Inr [] | Some hs \<Rightarrow> map_ok bt_collect (collect_results normalize_header hs)) = Inr (rr_headers (sv_remote s))"
    and url: "validate_remote_url parse (rr_url (sv_remote s)) = Inr ()"
    unfolding normalize_server_def and_then_Ok_iff Let_def by auto
  have "is_secret_reference h" if "(k, h) \<in> set (rr_headers (sv_remote s))" for k h
    using h that normalized_headers
    by (cases headers) (auto simp: map_ok_def and_then_Ok_iff)
  with url show ?thesis by blast
qed

lemma relay_normalize_safe:
  assumes "relay_normalize parse raw = Inr c"
  shows "rl_host (cf_listen c) \<in> {''127.0.0.1'', ''::1''}"
    and "distinct (map sv_id (cf_servers c))"
    and "s \<in> set (cf_servers c) \<Longrightarrow> (\<forall>(k, h)\<in>set (rr_headers (sv_remote s)). is_secret_reference h)
      \<and> validate_remote_url parse (rr_url (sv_remote s)) = Inr ()"
proof -
  from assms obtain listen servers raws where
    c: "c = \<lparr>cf_listen = listen, cf_servers = servers\<rparr>" "distinct (map sv_id servers)"
    and l: "\<exists>v. normalize_listen v = Inr listen"
    and s: "(case raws of None \<Rightarrow> Inr [] | Some rs \<Rightarrow> collect_results (normalize_server parse) rs) = Inr servers"
    unfolding relay_normalize_def and_then_Ok_iff by (auto split: if_splits)
  from l show "rl_host (cf_listen c) \<in> {''127.0.0.1'', ''::1''}"
    unfolding c by (auto simp: normalize_listen_def Let_def split: if_splits)
  show "distinct (map sv_id (cf_servers c))" using c by simp
  show "(\<forall>(k, h)\<in>set (rr_headers (sv_remote s)). is_secret_reference h)
      \<and> validate_remote_url parse (rr_url (sv_remote s)) = Inr ()" if "s \<in> set (cf_servers c)"
  proof -
    from s that obtain r where "normalize_server parse r = Inr s"
      unfolding c by (auto split: option.splits dest!: collect_results_Ok)
    then show ?thesis by (rule normalize_server_safe)
  qed
qed

end
