(* ===== verification/Relay_Properties.thy ===== *)
theory Relay_Properties
  imports Relay_Rollback Relay_Catalog Samples
begin

text \<open>
  Properties of the relay: its adapter restores exactly, its catalog respects who manages a server,
  and a normalized configuration holds no secrets.
\<close>

section \<open>Exact rollback\<close>

text \<open>A system without failures: no faults are left to take.\<close>

lemma no_fault: "rw_io w = [] \<Longrightarrow> next_fault w = (IoOk, w)"
  by (simp add: next_fault_def)

lemma read_state_calm: "rw_io w = [] \<Longrightarrow> rw_state w n = Regular b \<Longrightarrow> read_state n w = (Inr (Some b), w)"
  by (simp add: read_state_def read_entry_def no_fault)

lemma read_record_calm:
  "rw_io w = [] \<Longrightarrow> rw_state w n = Regular b \<Longrightarrow> d b = Some r \<Longrightarrow> read_record d n w = (Inr r, w)"
  by (simp add: read_record_def relay_act_def read_state_calm relay_result_def)

text \<open>That the operation record on disk is the one of the approved operation.\<close>

definition operation_recorded :: "env \<Rightarrow> relay_codec \<Rightarrow> operation \<Rightarrow> relay_world \<Rightarrow> bool" where
  "operation_recorded E K op w \<longleftrightarrow> (\<exists>b r. rw_state w (operation_path (op_id op)) = Regular b \<and> rk_operation K b = Some r
     \<and> or_operation_id r = op_id op
     \<and> digest_domain_json E ''commonkit.relay-payload.v1'' (ser_relay_payload (or_payload r)) = Inr (op_payload_digest op))"

lemma payload_of_recorded: "payload_of E K op w = (Inr p, v) \<Longrightarrow> operation_recorded E K op w"
  by (auto simp: payload_of_def relay_simps read_record_def and_then_Ok_iff operation_recorded_def
      dest!: read_state_Ok split: option.splits if_splits elim!: entry_of.elims)

lemma payload_of_calm: "operation_recorded E K op w \<Longrightarrow> rw_io w = [] \<Longrightarrow> \<exists>p. payload_of E K op w = (Inr p, w)"
  by (auto simp: operation_recorded_def payload_of_def ad_act_def attempted_def read_record_calm ad_result_def)

lemma paths_differ: "operation_path d \<noteq> backup_path e"
proof
  assume "operation_path d = backup_path e"
  then have "rev (operation_path d) ! 5 = rev (backup_path e) ! 5" by simp
  then show False by (simp add: operation_path_def backup_path_def nth_append)
qed

lemma write_immutable_other: "write_immutable E n j w = (r, v) \<Longrightarrow> m \<noteq> n \<Longrightarrow> rw_state v m = rw_state w m"
  by (auto simp: write_immutable_def relay_act_def relay_result_def read_state_def dest!: next_fault_same
      split: option.splits prod.splits if_splits io_fault.splits sum.splits)

text \<open>What preparation leaves for a rollback that is to succeed.\<close>

definition restorable :: "env \<Rightarrow> relay_codec \<Rightarrow> operation \<Rightarrow> relay_world \<Rightarrow> bool" where
  "restorable E K op w \<longleftrightarrow> operation_recorded E K op w
     \<and> (\<exists>b x. rw_state w (backup_path (op_id op)) = Regular b \<and> rk_backup K b = Some (backup_of op x)
          \<and> digest_option E x = Inr (op_before_digest op))"

lemma prepare_restorable:
  assumes "relay_prepare E K op w = (Inr (), v)" "backup_readable E K op (rw_live w)"
  shows "restorable E K op v"
proof -
  from assms(1) obtain p w1 x w2 where
    p: "payload_of E K op w = (Inr p, w1)" and x: "read_live w1 = (Inr x, w2)"
    and d: "digest_option E x = Inr (op_before_digest op)"
    and b: "write_immutable E (backup_path (op_id op)) (ser_backup_record (backup_of op x)) w2 = (Inr (), v)"
    unfolding relay_prepare_def backup_of_def by (auto simp: relay_simps)
  have same: "rw_state w2 = rw_state w" using keeps_stateD [OF keeps_payload p] read_live_Ok [OF x] by simp
  have "rw_state v (operation_path (op_id op)) = rw_state w (operation_path (op_id op))"
    using write_immutable_other [OF b paths_differ] same by simp
  then have "operation_recorded E K op v" using payload_of_recorded [OF p] by (simp add: operation_recorded_def)
  moreover obtain bytes where bytes: "env_jcs E (ser_backup_record (backup_of op x)) = Some bytes"
    "rw_state v (backup_path (op_id op)) = Regular bytes"
    using write_immutable_Ok(1) [OF b] by blast
  moreover have "rk_backup K bytes = Some (backup_of op x)"
    using assms(2) read_live_Ok [OF x] payload_of_live [OF p] backup_readable_entry [of E K op x] bytes(1)
    by (simp add: reads_back_def)
  ultimately show ?thesis using d unfolding restorable_def by blast
qed

lemma events_keep_restorable:
  "restorable E K op w \<Longrightarrow> restorable E K op (fold (after_event (relay_adapter_of E K A) op) es w)"
  by (induction es arbitrary: w) (simp_all add: restorable_def operation_recorded_def events_keep_state)

lemma replace_live_calm: "rw_io w = [] \<Longrightarrow> replace_live b w = (Inr (), w\<lparr>rw_live := Regular b\<rparr>)"
  by (simp add: replace_live_def no_fault)

lemma remove_live_calm: "rw_io w = [] \<Longrightarrow> remove_live w = (Inr (), w\<lparr>rw_live := Absent\<rparr>)"
  by (simp add: remove_live_def no_fault)

lemma runtime_step_calm: "rw_io w = [] \<Longrightarrow> fst (runtime_step A c w) = Inr ()"
  by (simp add: runtime_step_def no_fault)

lemma fst_attempted: "fst (attempted m e w) = Inr y \<longleftrightarrow> fst (m w) = Inr y"
  by (auto simp: attempted_def split: prod.splits sum.splits)

lemma rollback_calm:
  assumes "restorable E K op w" "rw_io w = []"
  shows "fst (relay_rollback E K A op w) = Inr ()"
proof -
  from assms(1) obtain b x where r: "operation_recorded E K op w"
    "rw_state w (backup_path (op_id op)) = Regular b" "rk_backup K b = Some (backup_of op x)"
    "digest_option E x = Inr (op_before_digest op)"
    unfolding restorable_def by blast
  obtain p where p: "payload_of E K op w = (Inr p, w)" using payload_of_calm [OF r(1) assms(2)] by blast
  have bk: "read_record (rk_backup K) (backup_path (op_id op)) w = (Inr (backup_of op x), w)"
    by (rule read_record_calm) (rule assms(2), rule r(2), rule r(3))
  obtain u where u: "(case x of None \<Rightarrow> remove_live | Some bytes \<Rightarrow> replace_live bytes) w = (Inr (), u)" "rw_io u = []"
    by (cases x) (simp_all add: replace_live_calm remove_live_calm assms(2))
  have c: "bk_operation_id (backup_of op x) = op_id op" "bk_before_digest (backup_of op x) = op_before_digest op"
    "bk_bytes (backup_of op x) = x" "backup_digest E x = op_before_digest op"
    by (simp_all add: backup_of_def backup_digest_def r(4))
  show ?thesis
    using u by (simp add: relay_rollback_def ad_act_def p attempted_def bk ad_result_def ensure_def c)
      (simp add: fst_attempted [unfolded attempted_def] runtime_step_calm)
qed

text \<open>
  C31: The relay adapter restores exactly: once an operation is prepared, whatever applications,
  verifications, convergences, observations and rollbacks follow, each of them failing or not, a
  rollback that succeeds leaves the live configuration file as preparation found it, byte for byte or
  absent; and a rollback does succeed when no file access and no runtime call fails any more.
\<close>

theorem relay_rollback_exact:
  assumes "backup_readable E K op (rw_live w)"
    and "ad_prepare (relay_adapter_of E K A) op w = (Inr (), v)"
    and "s = fold (after_event (relay_adapter_of E K A) op) es v"
  shows "(rw_io s = [] \<longrightarrow> fst (ad_rollback (relay_adapter_of E K A) op s) = Inr ())
    \<and> (fst (ad_rollback (relay_adapter_of E K A) op s) = Inr ()
         \<longrightarrow> rw_live (snd (ad_rollback (relay_adapter_of E K A) op s)) = rw_live w)"
proof -
  have "restorable E K op s"
    unfolding assms(3) using assms(1,2) by (intro events_keep_restorable prepare_restorable) simp_all
  then have "rw_io s = [] \<longrightarrow> fst (ad_rollback (relay_adapter_of E K A) op s) = Inr ()"
    using rollback_calm by simp
  then show ?thesis
    using relay.rollback_exact [OF assms(1,2)] assms(3) by (metis prod.collapse)
qed

definition sample_relay_payload :: relay_payload where
  "sample_relay_payload = \<lparr>rp_desired = \<lparr>cf_listen = \<lparr>rl_host = ''127.0.0.1'', rl_port = 3764, rl_path = ''/mcp''\<rparr>,
       cf_servers = []\<rparr>,
     rp_inputs = \<lparr>mi_provider_inputs_digest = sample_digest (CHR ''1'') (CHR ''0''),
       mi_policy_digest = sample_digest (CHR ''1'') (CHR ''0''), mi_target_digest = sample_digest (CHR ''1'') (CHR ''0''),
       mi_declaration_digest = sample_digest (CHR ''1'') (CHR ''0''),
       mi_ownership_map_digest = sample_digest (CHR ''1'') (CHR ''0''),
       mi_artifact_set_digest = sample_digest (CHR ''1'') (CHR ''0''),
       mi_approved_confirmation_id = StableId ''c'', mi_approval_idempotency_key = ''k''\<rparr>\<rparr>"

definition sample_payload_digest :: sha256_digest where
  "sample_payload_digest = (case digest_domain_json sample_env ''commonkit.relay-payload.v1''
     (ser_relay_payload sample_relay_payload) of Inl _ \<Rightarrow> Sha256Digest [] | Inr d \<Rightarrow> d)"

definition sample_relay_operation :: operation where
  "sample_relay_operation = \<lparr>op_id = sample_digest (CHR ''2'') (CHR ''0''), op_adapter_id = StableId ''relay'',
     op_kind = OpCreate,
     op_resource = \<lparr>rr_resource_type = StableId ''mcp-relay'', rr_resource_id = StableId ''local'',
       rr_managed_path = Some ''/relay.json''\<rparr>,
     op_risk = Medium, op_requires_confirmation = True, op_recovery_capability = ExactRollback,
     op_depends_on = [], op_before_digest = None, op_after_digest = None,
     op_payload_digest = sample_payload_digest, op_provenance = None, op_summary = []\<rparr>"

definition sample_relay_codec :: relay_codec where
  "sample_relay_codec = \<lparr>rk_operation = \<lambda>_. Some \<lparr>or_operation_id = op_id sample_relay_operation,
       or_payload = sample_relay_payload\<rparr>,
     rk_backup = \<lambda>_. Some (backup_of sample_relay_operation None)\<rparr>"

definition sample_relay :: relay_adapter where
  "sample_relay = \<lparr>ra_id = StableId ''relay'', ra_live = ''/relay.json'', ra_lifecycle = True\<rparr>"

definition sample_relay_world :: relay_world where
  "sample_relay_world = \<lparr>rw_live = Absent,
     rw_state = (\<lambda>_. Absent)(operation_path (op_id sample_relay_operation) := Regular ''x''),
     rw_io = [], rw_runtime = []\<rparr>"

lemma sample_relay_prepared:
  "\<exists>v. relay_prepare sample_env sample_relay_codec sample_relay_operation sample_relay_world = (Inr (), v) \<and> rw_io v = []"
proof -
  let ?w = sample_relay_world and ?op = sample_relay_operation
  have io: "rw_io ?w = []" by (simp add: sample_relay_world_def)
  have "operation_recorded sample_env sample_relay_codec ?op ?w"
    by (simp add: operation_recorded_def sample_relay_world_def sample_relay_codec_def)
      (simp add: sample_relay_operation_def sample_payload_digest_def sample_digest_json)
  then obtain p where p: "payload_of sample_env sample_relay_codec ?op ?w = (Inr p, ?w)"
    using payload_of_calm io by blast
  have live: "read_live ?w = (Inr None, ?w)"
    by (simp add: read_live_def no_fault io read_entry_def) (simp add: sample_relay_world_def)
  have before: "op_before_digest ?op = None" by (simp add: sample_relay_operation_def)
  have absent: "rw_state ?w (backup_path (op_id ?op)) = Absent"
    by (simp add: sample_relay_world_def paths_differ [symmetric])
  have "env_jcs sample_env j \<noteq> None" for j by (simp add: sample_env_def)
  then obtain b where b: "env_jcs sample_env (ser_backup_record
      \<lparr>bk_operation_id = op_id ?op, bk_before_digest = None, bk_bytes = None\<rparr>) = Some b" by blast
  show ?thesis
    by (simp add: relay_prepare_def ad_act_def p attempted_def live ad_result_def digest_option_def before ensure_def
        write_immutable_def b no_fault io absent)
qed

theorem relay_rollback_exact_witness:
  "\<exists>v u. relay_prepare sample_env sample_relay_codec sample_relay_operation sample_relay_world = (Inr (), v)
     \<and> relay_rollback sample_env sample_relay_codec sample_relay sample_relay_operation v = (Inr (), u)
     \<and> rw_live u = Absent"
proof -
  obtain v where v: "relay_prepare sample_env sample_relay_codec sample_relay_operation sample_relay_world = (Inr (), v)"
    "rw_io v = []" using sample_relay_prepared by blast
  have "backup_readable sample_env sample_relay_codec sample_relay_operation (rw_live sample_relay_world)"
    by (simp add: backup_readable_def sample_relay_world_def reads_back_def sample_relay_codec_def split: option.split)
  from relay_rollback_exact [OF this, where es = "[]" and A = sample_relay and v = v] v
  have "fst (relay_rollback sample_env sample_relay_codec sample_relay sample_relay_operation v) = Inr ()"
    "rw_live (snd (relay_rollback sample_env sample_relay_codec sample_relay sample_relay_operation v)) = Absent"
    by (simp_all add: sample_relay_world_def)
  with v show ?thesis by (metis prod.collapse)
qed

section \<open>Catalog\<close>

text \<open>
  C32: A reconciliation of the catalog installs exactly the desired servers with the tools discovered for
  the enabled ones, removes at most servers that CommonKit manages and that are not desired, and only
  when asked to prune, never turns a server another party manages into one of CommonKit's, and leaves no
  two tools of one name; a failed one changes nothing.
\<close>

theorem catalog_reconcile_ownership:
  assumes "bt_wf catalog" "catalog_reconcile discover desired prune catalog = (r, result)"
  shows "case r of Inl _ \<Rightarrow> result = catalog
    | Inr summary \<Rightarrow> distinct (map tl_name (localized result))
        \<and> (\<forall>s\<in>set desired. \<exists>e. bt_get result (sv_id s) = Some e \<and> rv_config e = s \<and> discovered discover e)
        \<and> (\<forall>i. i \<notin> set (map sv_id desired) \<longrightarrow> bt_get result i = (case bt_get catalog i of None \<Rightarrow> None
             | Some e \<Rightarrow> if prune \<and> sv_managed_by (rv_config e) = ManagedByCommonKit then None else Some e))
        \<and> (\<forall>i e. bt_get catalog i = Some e \<longrightarrow> sv_managed_by (rv_config e) = Unmanaged
             \<longrightarrow> (\<exists>f. bt_get result i = Some f \<and> sv_managed_by (rv_config f) = Unmanaged))"
proof (cases r)
  case (Inl e)
  then show ?thesis using catalog_reconcile_Err assms(2) by simp
next
  case (Inr summary)
  note ok = catalog_reconcile_get [OF assms(2) [unfolded Inr] assms(1)]
  have "\<exists>e. bt_get result (sv_id s) = Some e \<and> rv_config e = s \<and> discovered discover e" if s: "s \<in> set desired" for s
  proof -
    obtain e t where e: "bt_get result (sv_id s) = Some e" "t \<in> set desired" "sv_id t = sv_id s" "rv_config e = t"
      "sv_enabled t \<longrightarrow> discover t = Inr (rv_tools e)" "\<not> sv_enabled t \<longrightarrow> rv_tools e = []"
      using ok(3) [of "sv_id s"] s by auto
    have "t = s" using ok(1) e(2,3) s by (meson distinct_map inj_onD)
    then show ?thesis using e by (auto simp: discovered_def)
  qed
  then show ?thesis unfolding Inr using ok(2,4,5) by simp
qed

definition catalog_server :: "string \<Rightarrow> managed_by \<Rightarrow> relay_server_config" where
  "catalog_server i by = \<lparr>sv_id = RelayServerId i, sv_name = i, sv_description = [], sv_category = [],
     sv_enabled = True, sv_mode = GenericCached,
     sv_remote = \<lparr>rr_transport_type = ''streamable_http'', rr_url = ''http://localhost'', rr_headers = []\<rparr>,
     sv_env_file = None, sv_cache = \<lparr>rc_tools_ttl_ms = 1, rc_auto_refresh_ms = 1\<rparr>, sv_menu = None,
     sv_managed_by = by\<rparr>"

definition sample_catalog :: relay_catalog where
  "sample_catalog = [(RelayServerId ''a'', \<lparr>rv_config = catalog_server ''a'' Unmanaged, rv_tools = []\<rparr>),
     (RelayServerId ''b'', \<lparr>rv_config = catalog_server ''b'' ManagedByCommonKit, rv_tools = []\<rparr>)]"

theorem catalog_reconcile_ownership_witness:
  "\<exists>summary result. catalog_reconcile (\<lambda>_. Inr []) [catalog_server ''c'' ManagedByCommonKit] True sample_catalog
       = (Inr summary, result)
     \<and> (\<exists>f. bt_get result (RelayServerId ''a'') = Some f) \<and> bt_get result (RelayServerId ''b'') = None"
proof -
  have wf: "bt_wf sample_catalog" by code_simp
  have n: "case catalog_reconcile (\<lambda>_. Inr []) [catalog_server ''c'' ManagedByCommonKit] True sample_catalog of
      (Inl e, _) \<Rightarrow> False | (Inr summary, _) \<Rightarrow> True" by code_simp
  obtain summary result where c: "catalog_reconcile (\<lambda>_. Inr []) [catalog_server ''c'' ManagedByCommonKit] True sample_catalog
       = (Inr summary, result)"
    using n by (auto split: prod.splits sum.splits)
  have "\<exists>e. bt_get sample_catalog (RelayServerId ''a'') = Some e \<and> sv_managed_by (rv_config e) = Unmanaged"
    "\<exists>e. bt_get sample_catalog (RelayServerId ''b'') = Some e \<and> sv_managed_by (rv_config e) = ManagedByCommonKit"
    by (simp_all add: sample_catalog_def bt_get_def catalog_server_def)
  then show ?thesis
    using c catalog_reconcile_ownership [OF wf c] by (auto simp: catalog_server_def)
qed

section \<open>Configurations\<close>

text \<open>
  A configuration that normalization accepts listens only on the loopback, names every server once, and
  its servers reach http or https URLs without credentials with header values that refer to the
  environment or to a secret store and never spell one out.
\<close>

lemma normalized_relay_safe:
  assumes "relay_normalize parse raw = Inr c"
  shows "rl_host (cf_listen c) \<in> {''127.0.0.1'', ''::1''} \<and> distinct (map sv_id (cf_servers c))
    \<and> (\<forall>s\<in>set (cf_servers c). validate_remote_url parse (rr_url (sv_remote s)) = Inr ()
         \<and> (\<forall>(k, h)\<in>set (rr_headers (sv_remote s)). is_secret_reference h))"
  using relay_normalize_safe [OF assms] by blast

definition sample_url :: parsed_url where
  "sample_url = \<lparr>url_scheme = ''https'', url_username = [], url_password = None, url_host = Some ''h''\<rparr>"

definition sample_raw :: json where
  "sample_raw = JObject [(''servers'', JArray [JObject [(''id'', JString ''a''), (''remote'', JObject
     [(''headers'', JObject [(''x'', JString ''env:X'')]), (''type'', JString ''streamable_http''),
      (''url'', JString ''https://h'')])]])]"

end
