(* ===== verification/Core_Walk.thy ===== *)
theory Core_Walk
  imports Core_Plan
begin

text \<open>
  The loop of \<open>build_plan\<close> (\<open>crates/commonkit-core/src/lib.rs\<close>) that looks for a forward-only
  operation behind an exactly reversible one, iteration by iteration: the number of its iterations
  is bounded, also when the dependencies form a cycle, which \<open>build_plan\<close> finds only afterwards.
\<close>

text \<open>The state of the loop is its stack and the set of identifiers visited; \<open>Inl\<close> leaves the loop.\<close>

definition walk_step ::
  "(string, operation) btree_map \<Rightarrow> sha256_digest \<Rightarrow> sha256_digest list \<times> string set
    \<Rightarrow> (plan_build_error + unit) + (sha256_digest list \<times> string set)" where
  "walk_step by_id root = (\<lambda>(pending, visited).
     if pending = [] then Inl (Ok ())
     else
       (let dependency = last pending; rest = butlast pending in
        if digest_str dependency \<in> visited then Inr (rest, visited)
        else
          (case bt_get by_id (digest_str dependency) of
             None \<Rightarrow> Inl (Err PlanPanic)
           | Some operation \<Rightarrow>
               if op_recovery_capability operation = ConvergeForwardOnly
               then Inl (Err (ExactDependsOnForwardOnly root))
               else Inr (rest @ op_depends_on operation, insert (digest_str dependency) visited))))"

fun walk_loop ::
  "nat \<Rightarrow> (string, operation) btree_map \<Rightarrow> sha256_digest \<Rightarrow> sha256_digest list \<times> string set
    \<Rightarrow> (plan_build_error + unit) option" where
  "walk_loop 0 by_id root s = None"
| "walk_loop (Suc n) by_id root s =
     (case walk_step by_id root s of Inl r \<Rightarrow> Some r | Inr t \<Rightarrow> walk_loop n by_id root t)"

text \<open>The dependencies of the operations that have not been visited.\<close>

definition open_edges :: "(string, operation) btree_map \<Rightarrow> string set \<Rightarrow> nat" where
  "open_edges by_id visited =
     sum_list (map (\<lambda>(k, operation). if k \<in> visited then 0 else length (op_depends_on operation)) by_id)"

lemma open_edges_visit:
  assumes "bt_get by_id k = Some operation" "k \<notin> visited"
  shows "length (op_depends_on operation) + open_edges by_id (insert k visited) \<le> open_edges by_id visited"
  using assms
proof (induction by_id)
  case (Cons e by_id)
  obtain l x where e: "e = (l, x)" by (cases e)
  have mono: "open_edges m (insert k visited) \<le> open_edges m visited" for m
    unfolding open_edges_def by (induction m) auto
  show ?case
  proof (cases "l = k")
    case True
    then have "x = operation" using Cons.prems(1) by (simp add: e bt_get_def)
    then show ?thesis using True Cons.prems(2) mono [of by_id] by (simp add: e open_edges_def)
  next
    case False
    then have "bt_get by_id k = Some operation" using Cons.prems(1) by (simp add: e bt_get_def)
    from Cons.IH [OF this Cons.prems(2)] show ?thesis using False by (simp add: e open_edges_def)
  qed
qed (simp add: bt_get_def)

lemma walk_loop_enough:
  assumes "length pending + open_edges by_id visited < fuel"
  shows "walk_loop fuel by_id root (pending, visited) = Some (exact_walk by_id root pending visited)"
  using assms
proof (induction by_id root pending visited arbitrary: fuel rule: exact_walk.induct)
  case (1 by_id root pending visited)
  from 1(3) obtain n where n: "fuel = Suc n" by (cases fuel) auto
  let ?d = "last pending"
  let ?k = "digest_str ?d"
  show ?case
  proof (cases "pending = []")
    case True
    then show ?thesis by (simp add: n walk_step_def exact_walk.simps [of by_id root "[]" visited])
  next
    case pending: False
    then have len: "Suc (length (butlast pending)) \<le> length pending" by (cases pending) auto
    show ?thesis
    proof (cases "?k \<in> visited")
      case True
      have "walk_loop n by_id root (butlast pending, visited) = Some (exact_walk by_id root (butlast pending) visited)"
        by (rule 1(1) [OF pending refl refl True]) (use 1(3) n len in linarith)
      then show ?thesis using pending True by (simp add: n walk_step_def exact_walk.simps [of by_id root pending visited] Let_def)
    next
      case unseen: False
      show ?thesis
      proof (cases "bt_get by_id ?k")
        case None
        then show ?thesis using pending unseen by (simp add: n walk_step_def exact_walk.simps [of by_id root pending visited] Let_def)
      next
        case (Some operation)
        show ?thesis
        proof (cases "op_recovery_capability operation = ConvergeForwardOnly")
          case True
          then show ?thesis using pending unseen Some
            by (simp add: n walk_step_def exact_walk.simps [of by_id root pending visited] Let_def)
        next
          case False
          have "walk_loop n by_id root (butlast pending @ op_depends_on operation, insert ?k visited)
             = Some (exact_walk by_id root (butlast pending @ op_depends_on operation) (insert ?k visited))"
            by (rule 1(2) [OF pending refl refl unseen Some False])
              (use 1(3) n len open_edges_visit [OF Some unseen] in \<open>simp only: length_append\<close>)
          then show ?thesis using pending unseen Some False
            by (simp add: n walk_step_def exact_walk.simps [of by_id root pending visited] Let_def)
        qed
      qed
    qed
  qed
qed

lemma open_edges_all: "open_edges by_id {} = sum_list (map (\<lambda>(k, operation). length (op_depends_on operation)) by_id)"
  by (simp add: open_edges_def)

text \<open>
  C30: The search for a forward-only dependency ends on every set of operations, cyclic ones included: it
  takes at most one iteration for each dependency of the operation it starts from and for each
  dependency of the other operations, and one to leave the loop, and has then the result that
  \<open>build_plan\<close> uses.
\<close>

theorem plan_walk_terminates:
  "walk_loop (Suc (length pending + sum_list (map (\<lambda>(k, operation). length (op_depends_on operation)) by_id)))
     by_id root (pending, {}) = Some (exact_walk by_id root pending {})"
  by (rule walk_loop_enough) (simp add: open_edges_all)

end
