(* ===== verification/Core_Target.thy ===== *)
theory Core_Target
  imports Contracts_Ids
begin

text \<open>
  The inventory of a target, \<open>crates/commonkit-core/src/target.rs\<close>: its transport, platform and
  roots. A slice at a position that is not inside the string or not at the start of a code point
  panics, so the operations that check paths return \<open>None\<close> for a panic.
\<close>

section \<open>Data\<close>

datatype operating_system = Linux | Macos | Windows
datatype case_sensitivity = CaseSensitive | CaseInsensitive

record platform_facts =
  pf_operating_system :: operating_system
  pf_architecture :: string
  pf_case_sensitivity :: case_sensitivity

datatype target_transport =
    LocalTransport string
  | SshTransport string u16 string string

datatype root_access = ReadOnly | ReadWrite

record target_root =
  rt_id :: stable_id
  rt_path :: string
  rt_access :: root_access

record target_inventory =
  ti_id :: stable_id
  ti_transport :: target_transport
  ti_platform :: platform_facts
  ti_roots :: "target_root list"

datatype target_inventory_error =
    InventoryContract contract_error
  | InvalidField string
  | NoRoots
  | DuplicateRoot stable_id
  | UnsafeRoot string

text \<open>The outcome of code that may panic: \<open>None\<close> is the panic.\<close>

type_synonym 'a outcome = "(target_inventory_error + 'a) option"

section \<open>Paths\<close>

definition is_continuation_byte :: "char \<Rightarrow> bool" where
  "is_continuation_byte c \<longleftrightarrow> 128 \<le> byte c \<and> byte c < 192"

definition slice_from :: "nat \<Rightarrow> string \<Rightarrow> string option" where
  "slice_from n s =
     (if length s < n then None
      else if n < length s \<and> is_continuation_byte (s ! n) then None else Some (drop n s))"

definition windows_absolute :: "string \<Rightarrow> bool" where
  "windows_absolute path \<longleftrightarrow> 2 < length path \<and> path ! 1 = CHR '':'' \<and> path ! 2 = CHR ''/''
     \<and> is_ascii_alphabetic (path ! 0)"

definition validate_absolute_path :: "string \<Rightarrow> unit outcome" where
  "validate_absolute_path path =
     (let unix_absolute = starts_with path ''/'' in
      case slice_from (if windows_absolute path then 3 else 1) path of
        None \<Rightarrow> None
      | Some segments \<Rightarrow> Some (
          if (\<not> unix_absolute \<and> \<not> windows_absolute path) \<or> path = ''/''
             \<or> CHR 0x5C \<in> set path \<or> CHR 0x00 \<in> set path
             \<or> list_ex (\<lambda>segment. segment = [] \<or> segment = ''.'' \<or> segment = ''..'')
                 (split_char (CHR ''/'') segments)
          then Err (UnsafeRoot path) else Ok ()))"

definition validate_nonempty :: "string \<Rightarrow> string \<Rightarrow> target_inventory_error + unit" where
  "validate_nonempty field v =
     (if v = [] \<or> contains_control v then Err (InvalidField field) else Ok ())"

definition target_root_parse :: "string \<Rightarrow> string \<Rightarrow> root_access \<Rightarrow> target_root outcome" where
  "target_root_parse i path access =
     (case validate_absolute_path path of
        None \<Rightarrow> None
      | Some (Inl e) \<Rightarrow> Some (Inl e)
      | Some (Inr _) \<Rightarrow> Some (and_then (map_err InventoryContract (stable_id_parse i)) (\<lambda>parsed.
          Ok \<lparr>rt_id = parsed, rt_path = path, rt_access = access\<rparr>)))"

section \<open>Inventories\<close>

fun validate_transport :: "target_transport \<Rightarrow> target_inventory_error + unit" where
  "validate_transport (LocalTransport machine_id) = validate_nonempty ''machineId'' machine_id"
| "validate_transport (SshTransport host port user host_key_fingerprint) =
     and_then (validate_nonempty ''host'' host) (\<lambda>_.
     and_then (validate_nonempty ''user'' user) (\<lambda>_.
     and_then (validate_nonempty ''hostKeyFingerprint'' host_key_fingerprint) (\<lambda>_.
       if port = 0 then Err (InvalidField ''port'') else Ok ())))"

fun validate_roots :: "target_root list \<Rightarrow> unit outcome" where
  "validate_roots [] = Some (Ok ())"
| "validate_roots (root # roots) =
     (case validate_absolute_path (rt_path root) of
        None \<Rightarrow> None | Some (Inl e) \<Rightarrow> Some (Inl e) | Some (Inr _) \<Rightarrow> validate_roots roots)"

definition access_rank :: "root_access \<Rightarrow> nat" where
  "access_rank a = (case a of ReadOnly \<Rightarrow> 0 | ReadWrite \<Rightarrow> 1)"

text \<open>The derived order of \<open>TargetRoot\<close>: by identifier, path and access.\<close>

definition root_key :: "target_root \<Rightarrow> stable_id \<times> string \<times> nat" where
  "root_key r = (rt_id r, rt_path r, access_rank (rt_access r))"

text \<open>The first root whose identifier an earlier one has.\<close>

fun duplicate_root :: "stable_id set \<Rightarrow> target_root list \<Rightarrow> target_root option" where
  "duplicate_root ids [] = None"
| "duplicate_root ids (r # rs) =
     (if rt_id r \<in> ids then Some r else duplicate_root (insert (rt_id r) ids) rs)"

definition inventory_new ::
  "stable_id \<Rightarrow> target_transport \<Rightarrow> platform_facts \<Rightarrow> target_root list \<Rightarrow> target_inventory outcome" where
  "inventory_new i transport platform roots =
     (case and_then (validate_nonempty ''architecture'' (pf_architecture platform)) (\<lambda>_.
        and_then (validate_transport transport) (\<lambda>_.
          ensure (roots \<noteq> []) NoRoots)) of
        Inl e \<Rightarrow> Some (Inl e)
      | Inr _ \<Rightarrow>
          (case validate_roots roots of
             None \<Rightarrow> None
           | Some (Inl e) \<Rightarrow> Some (Inl e)
           | Some (Inr _) \<Rightarrow>
               let sorted_roots = sort_key root_key roots in
               Some (case duplicate_root {} sorted_roots of
                   Some duplicate \<Rightarrow> Err (DuplicateRoot (rt_id duplicate))
                 | None \<Rightarrow> Ok \<lparr>ti_id = i, ti_transport = transport, ti_platform = platform,
                     ti_roots = sorted_roots\<rparr>)))"

definition inventory_root :: "target_inventory \<Rightarrow> stable_id \<Rightarrow> target_root option" where
  "inventory_root inventory i = find (\<lambda>r. rt_id r = i) (ti_roots inventory)"

section \<open>Serialization\<close>

definition ser_operating_system :: "operating_system \<Rightarrow> json" where
  "ser_operating_system os = JString (case os of Linux \<Rightarrow> ''linux'' | Macos \<Rightarrow> ''macos'' | Windows \<Rightarrow> ''windows'')"

definition ser_platform :: "platform_facts \<Rightarrow> json" where
  "ser_platform p = json_struct
     [(''operatingSystem'', ser_operating_system (pf_operating_system p)),
      (''architecture'', JString (pf_architecture p)),
      (''caseSensitivity'', JString (case pf_case_sensitivity p of CaseSensitive \<Rightarrow> ''sensitive'' | CaseInsensitive \<Rightarrow> ''insensitive''))]"

text \<open>The fields of the variants keep their names: only the variants are renamed.\<close>

fun ser_transport :: "target_transport \<Rightarrow> json" where
  "ser_transport (LocalTransport machine_id) = json_struct
     [(''kind'', JString ''local''), (''machine_id'', JString machine_id)]"
| "ser_transport (SshTransport host port user fingerprint) = json_struct
     [(''kind'', JString ''ssh''), (''host'', JString host), (''port'', json_u64 (ucast port)),
      (''user'', JString user), (''host_key_fingerprint'', JString fingerprint)]"

definition ser_root :: "target_root \<Rightarrow> json" where
  "ser_root r = json_struct
     [(''id'', ser_stable_id (rt_id r)), (''path'', JString (rt_path r)),
      (''access'', JString (case rt_access r of ReadOnly \<Rightarrow> ''read_only'' | ReadWrite \<Rightarrow> ''read_write''))]"

definition ser_inventory :: "target_inventory \<Rightarrow> json" where
  "ser_inventory t = json_struct
     [(''id'', ser_stable_id (ti_id t)), (''transport'', ser_transport (ti_transport t)),
      (''platform'', ser_platform (ti_platform t)), (''roots'', JArray (map ser_root (ti_roots t)))]"

definition identity_digest :: "env \<Rightarrow> target_inventory \<Rightarrow> contract_error + sha256_digest" where
  "identity_digest E t = digest_domain_json E ''commonkit.target-identity.v1'' (ser_inventory t)"

section \<open>Facts\<close>

lemma validate_absolute_path_panics:
  "validate_absolute_path path = None \<longleftrightarrow>
     path = [] \<or> (1 < length path \<and> \<not> windows_absolute path \<and> is_continuation_byte (path ! 1))
     \<or> (3 < length path \<and> windows_absolute path \<and> is_continuation_byte (path ! 3))"
  by (cases "windows_absolute path")
    (auto simp: validate_absolute_path_def slice_from_def Let_def windows_absolute_def split: option.splits)

lemma validate_roots_Ok:
  "validate_roots roots = Some (Inr u) \<longleftrightarrow> list_all (\<lambda>r. validate_absolute_path (rt_path r) = Some (Inr ())) roots"
  by (induction roots) (auto split: option.splits sum.splits)

lemma duplicate_root_None:
  "duplicate_root ids rs = None \<longleftrightarrow> distinct (map rt_id rs) \<and> rt_id ` set rs \<inter> ids = {}"
  by (induction rs arbitrary: ids) auto

lemma inventory_new_Ok:
  assumes "inventory_new i transport platform roots = Some (Inr t)"
  shows "t = \<lparr>ti_id = i, ti_transport = transport, ti_platform = platform, ti_roots = sort_key root_key roots\<rparr>"
    and "distinct (map rt_id (ti_roots t))" "roots \<noteq> []"
    and "list_all (\<lambda>r. validate_absolute_path (rt_path r) = Some (Inr ())) roots"
  using assms by (auto simp: inventory_new_def Let_def duplicate_root_None validate_roots_Ok and_then_Ok_iff
      split: sum.splits option.splits)

end
