(* ===== verification/Core_Principal.thy ===== *)
theory Core_Principal
  imports Contracts_Ids
begin

text \<open>
  Who works on this machine, \<open>crates/commonkit-core/src/principal.rs\<close>: the login the GitHub
  command line client reports. Running the client is a parameter.
\<close>

definition PRINCIPAL_OUTPUT_LIMIT :: nat where "PRINCIPAL_OUTPUT_LIMIT = 64"

record command_output =
  co_success :: bool
  co_stdout :: string

text \<open>Whether a list of bytes is UTF-8: \<open>std::str::from_utf8\<close>.\<close>

definition between :: "nat \<Rightarrow> nat \<Rightarrow> nat \<Rightarrow> bool" where
  "between lo hi n \<longleftrightarrow> lo \<le> n \<and> n \<le> hi"

fun utf8_bytes :: "nat list \<Rightarrow> bool" where
  "utf8_bytes [] = True"
| "utf8_bytes (a # s) =
     (if a < 128 then utf8_bytes s
      else if between 194 223 a then (case s of b # t \<Rightarrow> between 128 191 b \<and> utf8_bytes t | [] \<Rightarrow> False)
      else if between 224 239 a then (case s of b # c # t \<Rightarrow>
            between (if a = 224 then 160 else 128) (if a = 237 then 159 else 191) b
            \<and> between 128 191 c \<and> utf8_bytes t | _ \<Rightarrow> False)
      else if between 240 244 a then (case s of b # c # d # t \<Rightarrow>
            between (if a = 240 then 144 else 128) (if a = 244 then 143 else 191) b
            \<and> between 128 191 c \<and> between 128 191 d \<and> utf8_bytes t | _ \<Rightarrow> False)
      else False)"

definition from_utf8 :: "string \<Rightarrow> string option" where
  "from_utf8 bytes = (if utf8_bytes (map byte bytes) then Some bytes else None)"

definition principal_arguments :: "string list" where
  "principal_arguments = [''api'', ''--hostname'', ''github.com'', ''user'', ''--jq'', ''.login'']"

text \<open>The runner returns \<open>None\<close> when the client could not be run.\<close>

definition resolve_principal_with :: "(string list \<Rightarrow> command_output option) \<Rightarrow> principal option" where
  "resolve_principal_with run =
     (case run principal_arguments of
        None \<Rightarrow> None
      | Some output \<Rightarrow>
          if \<not> co_success output \<or> PRINCIPAL_OUTPUT_LIMIT < length (co_stdout output) then None
          else (case from_utf8 (co_stdout output) of
              None \<Rightarrow> None
            | Some text \<Rightarrow>
                (case principal_parse (trim text) of Inl _ \<Rightarrow> None | Inr p \<Rightarrow> Some p)))"

text \<open>Where the client is looked for, on Linux: the directories of \<open>PATH\<close> before the fixed places.\<close>

definition join_path :: "string \<Rightarrow> string \<Rightarrow> string" where
  "join_path directory name =
     (if directory = [] then name
      else if last directory = CHR ''/'' then directory @ name else directory @ ''/'' @ name)"

definition github_cli_candidates :: "string option \<Rightarrow> string list" where
  "github_cli_candidates path =
     (case path of None \<Rightarrow> [] | Some p \<Rightarrow> map (\<lambda>directory. join_path directory ''gh'') (split_char (CHR '':'') p))
     @ [''/usr/bin/gh'', ''/usr/local/bin/gh'', ''/snap/bin/gh'', ''/home/linuxbrew/.linuxbrew/bin/gh'']"

definition github_cli_executable :: "(string \<Rightarrow> bool) \<Rightarrow> string option \<Rightarrow> string option" where
  "github_cli_executable is_file path = find is_file (github_cli_candidates path)"

lemma resolve_principal_valid:
  assumes "resolve_principal_with run = Some p"
  shows "valid_principal (principal_str p)"
    and "\<exists>out. run principal_arguments = Some out \<and> co_success out \<and> length (co_stdout out) \<le> 64"
proof -
  from assms obtain out where "run principal_arguments = Some out" "co_success out" "length (co_stdout out) \<le> 64"
    "principal_parse (trim (co_stdout out)) = Inr p"
    by (auto simp: resolve_principal_with_def PRINCIPAL_OUTPUT_LIMIT_def from_utf8_def
        split: option.splits if_splits sum.splits)
  then show "valid_principal (principal_str p)"
    and "\<exists>out. run principal_arguments = Some out \<and> co_success out \<and> length (co_stdout out) \<le> 64"
    by (auto simp: principal_parse_Ok)
qed

end
