(* ===== verification/Reconcile_PlanStore.thy ===== *)
theory Reconcile_PlanStore
  imports Reconcile_Engine
begin

text \<open>
  The plan store of \<open>crates/commonkit-reconcile/src/lib.rs\<close>: one immutable file per approved plan,
  named after the plan's identity. A directory is the list of its entries in the order the operating
  system lists them. Each call of \<open>persist\<close> takes the step at which the operating system fails, if
  any, and the entry another process links under the same name just before this one, if any.
  Decoding of a plan is a parameter. The identity of the directory that was opened is a flag: a
  directory that was replaced meanwhile is refused.
\<close>

section \<open>Data\<close>

datatype plan_store_error =
    InvalidRoot | UnsafeEntry | InvalidPlan | PlanConflict | PlanIo | PlanJson | PlanStoreContract contract_error

record plan_entry =
  pe_bytes :: string
  pe_modified :: nat
  pe_regular :: bool

text \<open>A name that is not UTF-8 is \<open>None\<close>.\<close>

record plan_store =
  pst_entries :: "(string option \<times> plan_entry) list"
  pst_root_same :: bool
  pst_process :: nat
  pst_nonce :: nat
  pst_clock :: nat

record plan_scan =
  sc_latest :: "plan option"
  sc_has_target :: bool
  sc_has_invalid :: bool

datatype plan_fault =
    PfOpen | PfWrite nat | PfCrash nat | PfSync | PfLink | PfRemove | PfSyncDirectory | PfRootReplaced

type_synonym plan_decoder = "string \<Rightarrow> plan option"

section \<open>Serialization\<close>

definition ser_operation :: "operation \<Rightarrow> json" where
  "ser_operation p = json_struct
     ([(''id'', ser_digest (op_id p)), (''adapterId'', ser_stable_id (op_adapter_id p)),
       (''kind'', JString (operation_kind_name (op_kind p))), (''resource'', ser_resource_ref (op_resource p)),
       (''risk'', JString (risk_name (op_risk p))), (''requiresConfirmation'', JBool (op_requires_confirmation p))]
      @ (if op_recovery_capability p = ExactRollback then []
         else [(''recoveryCapability'', JString (recovery_name (op_recovery_capability p)))])
      @ [(''dependsOn'', JArray (map ser_digest (op_depends_on p)))]
      @ opt_field ''beforeDigest'' ser_digest (op_before_digest p)
      @ opt_field ''afterDigest'' ser_digest (op_after_digest p)
      @ [(''payloadDigest'', ser_digest (op_payload_digest p))]
      @ opt_field ''provenance'' ser_provenance (op_provenance p)
      @ [(''summary'', JString (op_summary p))])"

definition ser_plan :: "plan \<Rightarrow> json" where
  "ser_plan p = json_struct
     [(''schemaVersion'', json_u32 (schema_number (pl_schema_version p))),
      (''contractVersion'', JString (pl_contract_version p)), (''id'', ser_digest (pl_id p)),
      (''targetId'', ser_stable_id (pl_target_id p)), (''desiredDigest'', ser_digest (pl_desired_digest p)),
      (''observedDigest'', ser_digest (pl_observed_digest p)), (''policyDigest'', ser_digest (pl_policy_digest p)),
      (''bindings'', ser_plan_bindings (pl_bindings p)),
      (''operations'', JArray (map ser_operation (pl_operations p)))]"

section \<open>Names\<close>

definition plan_path :: "sha256_digest \<Rightarrow> string" where
  "plan_path d = digest_hex d @ ''.json''"

definition plan_temporary :: "nat \<Rightarrow> sha256_digest \<Rightarrow> nat \<Rightarrow> string" where
  "plan_temporary pid d nonce = ''.plan-'' @ decimal pid @ ''-'' @ digest_hex d @ ''-'' @ decimal nonce @ ''.tmp''"

definition is_allowed_plan_store_entry :: "string \<Rightarrow> bool" where
  "is_allowed_plan_store_entry name \<longleftrightarrow> name = ''.plan-store.metadata''
     \<or> (case Option.bind (strip_prefix ''.plan-'' name) (strip_suffix ''.tmp'') of
          None \<Rightarrow> False
        | Some v \<Rightarrow>
            (case split_char (CHR ''-'') v of
               [pid, digest, nonce] \<Rightarrow> pid \<noteq> [] \<and> list_all is_ascii_digit pid
                 \<and> length digest = 64 \<and> list_all lower_hex digest
                 \<and> nonce \<noteq> [] \<and> list_all is_ascii_digit nonce
             | _ \<Rightarrow> False))"

section \<open>Files\<close>

definition entry_at :: "plan_store \<Rightarrow> string \<Rightarrow> plan_entry option" where
  "entry_at s name = map_of (pst_entries s) (Some name)"

definition add_entry :: "string \<Rightarrow> plan_entry \<Rightarrow> plan_store \<Rightarrow> plan_store" where
  "add_entry name e s = s\<lparr>pst_entries := pst_entries s @ [(Some name, e)]\<rparr>"

definition drop_entry :: "string \<Rightarrow> plan_store \<Rightarrow> plan_store" where
  "drop_entry name s = s\<lparr>pst_entries := filter (\<lambda>(k, _). k \<noteq> Some name) (pst_entries s)\<rparr>"

definition new_entry :: "string \<Rightarrow> plan_store \<Rightarrow> plan_entry" where
  "new_entry bytes s = \<lparr>pe_bytes = bytes, pe_modified = pst_clock s, pe_regular = True\<rparr>"

definition read_plan_file :: "plan_entry \<Rightarrow> plan_store_error + string \<times> nat" where
  "read_plan_file e = (if pe_regular e then Ok (pe_bytes e, pe_modified e) else Err UnsafeEntry)"

definition ensure_root :: "plan_store \<Rightarrow> plan_store_error + unit" where
  "ensure_root s = ensure (pst_root_same s) InvalidRoot"

text \<open>The file at the destination must hold exactly these bytes.\<close>

definition same_plan_bytes :: "string \<Rightarrow> plan_entry \<Rightarrow> plan_store_error + unit" where
  "same_plan_bytes bytes e = and_then (read_plan_file e) (\<lambda>(found, _). ensure (found = bytes) PlanConflict)"

text \<open>What follows the link: the temporary name goes, the directory is synchronized and checked.\<close>

definition finish_plan ::
  "plan_fault option \<Rightarrow> string \<Rightarrow> plan_store \<Rightarrow> (plan_store_error + unit) \<times> plan_store" where
  "finish_plan fault temporary s =
     (if fault = Some PfRemove then (Err PlanIo, s)
      else if fault = Some PfSyncDirectory then (Err PlanIo, drop_entry temporary s)
      else
        (let t = (if fault = Some PfRootReplaced then s\<lparr>pst_root_same := False\<rparr> else s)
         in (ensure_root t, drop_entry temporary t)))"

definition link_plan ::
  "plan_fault option \<Rightarrow> plan_entry option \<Rightarrow> string \<Rightarrow> string \<Rightarrow> string \<Rightarrow> plan_store
    \<Rightarrow> (plan_store_error + unit) \<times> plan_store" where
  "link_plan fault rival temporary destination bytes s =
     (if fault = Some PfLink then (Err PlanIo, drop_entry temporary s)
      else case rival of
        None \<Rightarrow> finish_plan fault temporary (add_entry destination (new_entry bytes s) s)
      | Some e \<Rightarrow>
          (case same_plan_bytes bytes e of
             Inl x \<Rightarrow> (Err x, drop_entry temporary (add_entry destination e s))
           | Inr _ \<Rightarrow> finish_plan fault temporary (add_entry destination e s)))"

definition write_plan ::
  "plan_fault option \<Rightarrow> plan_entry option \<Rightarrow> string \<Rightarrow> string \<Rightarrow> string \<Rightarrow> plan_store
    \<Rightarrow> (plan_store_error + unit) \<times> plan_store" where
  "write_plan fault rival temporary destination bytes s =
     (if fault = Some PfOpen \<or> entry_at s temporary \<noteq> None then (Err PlanIo, drop_entry temporary s)
      else case fault of
          Some (PfCrash n) \<Rightarrow> (Err PlanIo, add_entry temporary (new_entry (take n bytes) s) s)
        | Some (PfWrite n) \<Rightarrow> (Err PlanIo, drop_entry temporary (add_entry temporary (new_entry (take n bytes) s) s))
        | Some PfSync \<Rightarrow> (Err PlanIo, drop_entry temporary (add_entry temporary (new_entry bytes s) s))
        | _ \<Rightarrow> link_plan fault rival temporary destination bytes (add_entry temporary (new_entry bytes s) s))"

section \<open>Operations\<close>

definition persist_plan ::
  "env \<Rightarrow> plan_fault option \<Rightarrow> plan_entry option \<Rightarrow> plan \<Rightarrow> plan_store
    \<Rightarrow> (plan_store_error + unit) \<times> plan_store" where
  "persist_plan E fault rival plan s =
     (case and_then (ensure_root s) (\<lambda>_.
           and_then (map_err (\<lambda>_. InvalidPlan) (validate_plan E plan)) (\<lambda>_.
             map_err PlanStoreContract (canonical_json E (ser_plan plan)))) of
        Inl e \<Rightarrow> (Inl e, s)
      | Inr bytes \<Rightarrow>
          (let destination = plan_path (pl_id plan) in
           case entry_at s destination of
             Some e \<Rightarrow> (same_plan_bytes bytes e, s)
           | None \<Rightarrow> write_plan fault rival (plan_temporary (pst_process s) (pl_id plan) (pst_nonce s))
               destination bytes (s\<lparr>pst_nonce := Suc (pst_nonce s)\<rparr>)))"

definition load_plan ::
  "env \<Rightarrow> plan_decoder \<Rightarrow> sha256_digest \<Rightarrow> plan_store \<Rightarrow> plan_store_error + plan" where
  "load_plan E decode i s =
     and_then (ensure_root s) (\<lambda>_.
     and_then (ok_or PlanIo (entry_at s (plan_path i))) (\<lambda>e.
     and_then (read_plan_file e) (\<lambda>(bytes, _).
     and_then (ok_or PlanJson (decode bytes)) (\<lambda>plan.
       if pl_id plan \<noteq> i \<or> validate_plan E plan \<noteq> Inr () then Err InvalidPlan else Ok plan))))"

type_synonym plan_binding_triple = "sha256_digest \<times> sha256_digest \<times> sha256_digest"

definition bindings_match :: "plan_binding_triple option \<Rightarrow> plan \<Rightarrow> bool" where
  "bindings_match bindings plan \<longleftrightarrow> (case bindings of None \<Rightarrow> True
     | Some (target, loadout, policy) \<Rightarrow> pb_target_identity_digest (pl_bindings plan) = target
         \<and> pb_composed_loadout_digest (pl_bindings plan) = loadout \<and> pl_policy_digest plan = policy)"

text \<open>What one entry of the directory means to a scan.\<close>

datatype scanned_entry = ScanIgnored | ScanInvalid | ScanPlan nat plan

definition scan_plan_entry ::
  "env \<Rightarrow> plan_decoder \<Rightarrow> string option \<times> plan_entry \<Rightarrow> plan_store_error + scanned_entry" where
  "scan_plan_entry E decode entry =
     (case fst entry of
        None \<Rightarrow> Ok ScanInvalid
      | Some name \<Rightarrow>
          if is_allowed_plan_store_entry name then Ok ScanIgnored
          else if extension name \<noteq> Some ''json'' then Ok ScanInvalid
          else and_then (read_plan_file (snd entry)) (\<lambda>(bytes, modified).
            Ok (case decode bytes of
                None \<Rightarrow> ScanInvalid
              | Some plan \<Rightarrow>
                  if validate_plan E plan \<noteq> Inr () then ScanInvalid
                  else if name \<noteq> plan_path (pl_id plan) then ScanInvalid
                  else ScanPlan modified plan)))"

fun scan_loop ::
  "env \<Rightarrow> plan_decoder \<Rightarrow> stable_id option \<Rightarrow> plan_binding_triple option
    \<Rightarrow> (nat \<times> plan) option \<times> bool \<times> bool \<Rightarrow> (string option \<times> plan_entry) list
    \<Rightarrow> plan_store_error + (nat \<times> plan) option \<times> bool \<times> bool" where
  "scan_loop E decode target bindings found [] = Ok found"
| "scan_loop E decode target bindings (latest, has_target, has_invalid) (entry # entries) =
     and_then (scan_plan_entry E decode entry) (\<lambda>r.
       case r of
         ScanIgnored \<Rightarrow> scan_loop E decode target bindings (latest, has_target, has_invalid) entries
       | ScanInvalid \<Rightarrow> scan_loop E decode target bindings (latest, has_target, True) entries
       | ScanPlan modified plan \<Rightarrow>
           if target \<noteq> None \<and> target \<noteq> Some (pl_target_id plan)
           then scan_loop E decode target bindings (latest, has_target, has_invalid) entries
           else if \<not> bindings_match bindings plan
           then scan_loop E decode target bindings (latest, True, has_invalid) entries
           else if (case latest of None \<Rightarrow> True
                 | Some (current, p) \<Rightarrow> current < modified \<or> modified = current \<and> pl_id p < pl_id plan)
           then scan_loop E decode target bindings (Some (modified, plan), True, has_invalid) entries
           else scan_loop E decode target bindings (latest, True, has_invalid) entries)"

definition load_latest_matching ::
  "env \<Rightarrow> plan_decoder \<Rightarrow> stable_id option \<Rightarrow> plan_binding_triple option \<Rightarrow> plan_store
    \<Rightarrow> plan_store_error + plan_scan" where
  "load_latest_matching E decode target bindings s =
     and_then (ensure_root s) (\<lambda>_.
     and_then (scan_loop E decode target bindings (None, False, False) (pst_entries s))
       (\<lambda>(latest, has_target, has_invalid).
     and_then (ensure_root s) (\<lambda>_.
       Ok \<lparr>sc_latest = map_option snd latest, sc_has_target = has_target, sc_has_invalid = has_invalid\<rparr>)))"

definition checked_scan :: "plan_scan \<Rightarrow> plan_store_error + plan option" where
  "checked_scan scan = (if sc_has_invalid scan then Err InvalidPlan else Ok (sc_latest scan))"

definition load_latest :: "env \<Rightarrow> plan_decoder \<Rightarrow> plan_store \<Rightarrow> plan_store_error + plan option" where
  "load_latest E decode s = and_then (load_latest_matching E decode None None s) checked_scan"

definition load_latest_for_target ::
  "env \<Rightarrow> plan_decoder \<Rightarrow> stable_id \<Rightarrow> plan_store \<Rightarrow> plan_store_error + plan option" where
  "load_latest_for_target E decode target s =
     and_then (load_latest_matching E decode (Some target) None s) checked_scan"

definition scan_latest_for_target_with_bindings ::
  "env \<Rightarrow> plan_decoder \<Rightarrow> stable_id \<Rightarrow> plan_binding_triple \<Rightarrow> plan_store \<Rightarrow> plan_store_error + plan_scan" where
  "scan_latest_for_target_with_bindings E decode target bindings s =
     load_latest_matching E decode (Some target) (Some bindings) s"

definition load_latest_for_target_with_bindings ::
  "env \<Rightarrow> plan_decoder \<Rightarrow> stable_id \<Rightarrow> plan_binding_triple \<Rightarrow> plan_store \<Rightarrow> plan_store_error + plan option" where
  "load_latest_for_target_with_bindings E decode target bindings s =
     and_then (scan_latest_for_target_with_bindings E decode target bindings s) checked_scan"

section \<open>Facts\<close>

text \<open>A sound store: names are unique, and what is not a temporary file is a plan under its own name.\<close>

definition entry_sound :: "env \<Rightarrow> plan_decoder \<Rightarrow> string option \<times> plan_entry \<Rightarrow> bool" where
  "entry_sound E decode entry \<longleftrightarrow>
     (case scan_plan_entry E decode entry of Inr ScanIgnored \<Rightarrow> True | Inr (ScanPlan _ _) \<Rightarrow> True | _ \<Rightarrow> False)"

definition plan_store_sound :: "env \<Rightarrow> plan_decoder \<Rightarrow> plan_store \<Rightarrow> bool" where
  "plan_store_sound E decode s \<longleftrightarrow> distinct (map fst (pst_entries s)) \<and> list_all (entry_sound E decode) (pst_entries s)"

end
