(* ===== verification/PlanStore_Facts.thy ===== *)
theory PlanStore_Facts
  imports Reconcile_PlanStore Store_History Core_Identity
begin

text \<open>
  The plan store is content addressed and keeps its plans: every write step may fail, another
  process may write the same plan, and still every entry of the directory is a valid plan under its own
  name or a temporary file.
\<close>

section \<open>Names\<close>

lemma validated_plan_id:
  assumes "validate_plan E plan = Inr ()"
  shows "valid_sha256_digest (digest_str (pl_id plan))"
proof -
  have "build_plan E (draft_of_plan plan) = Inr plan"
    using assms by (auto simp: validate_plan_def result_simps split: if_splits)
  then obtain ordered i where "plan = built_plan (draft_of_plan plan) ordered i" "valid_sha256_digest (digest_str i)"
    unfolding build_plan_Ok using digest_domain_json_valid by blast
  moreover have "pl_id (built_plan D o' i) = i" for D o' i by (simp add: built_plan_def)
  ultimately show ?thesis by metis
qed

lemma not_hex: "\<not> lower_hex (CHR ''s'')" "\<not> lower_hex (CHR ''-'')"
  by code_simp+

lemma digest_hex_valid:
  assumes "digest_str d = ''sha256:'' @ h" "list_all lower_hex h"
  shows "digest_hex d = h"
proof -
  have "\<not> starts_with h ''sha256:''"
    using assms(2) not_hex by (cases h) (auto simp: starts_with_def)
  then show ?thesis
    unfolding digest_hex_def assms(1)
    by (subst trim_start_matches.simps) (simp add: starts_with_def, subst trim_start_matches.simps, simp add: starts_with_def)
qed

lemma digit_dash: "is_ascii_digit c \<Longrightarrow> c \<noteq> CHR ''-''"
  by (auto simp: is_ascii_digit_def byte_def)

lemma split_char_single: "c \<notin> set a \<Longrightarrow> split_char c a = [a]"
  by (induction a) auto

lemma split_char_app: "c \<notin> set a \<Longrightarrow> split_char c (a @ c # s) = a # split_char c s"
  by (induction a) auto

lemma temporary_allowed:
  assumes "digest_str d = ''sha256:'' @ h" "length h = 64" "list_all lower_hex h"
  shows "is_allowed_plan_store_entry (plan_temporary pid d nonce)"
proof -
  have n: "CHR ''-'' \<notin> set (decimal k)" "list_all is_ascii_digit (decimal k)" "decimal k \<noteq> []" for k
    using decimal_digits [of k] digit_dash by (auto simp: list_all_iff)
  have h: "CHR ''-'' \<notin> set h" using assms(3) not_hex by (auto simp: list_all_iff)
  let ?v = "decimal pid @ ''-'' @ h @ ''-'' @ decimal nonce"
  have split: "split_char (CHR ''-'') ?v = [decimal pid, h, decimal nonce]"
    using n h by (simp add: split_char_app split_char_single)
  have name: "plan_temporary pid d nonce = ''.plan-'' @ ?v @ ''.tmp''"
    using digest_hex_valid [OF assms(1,3)] by (simp add: plan_temporary_def)
  have "strip_suffix ''.tmp'' (?v @ ''.tmp'') = Some ?v" by (simp add: strip_suffix_def ends_with_def)
  then have "Option.bind (strip_prefix ''.plan-'' (plan_temporary pid d nonce)) (strip_suffix ''.tmp'') = Some ?v"
    unfolding name by (simp add: strip_prefix_def starts_with_def)
  then show ?thesis unfolding is_allowed_plan_store_entry_def using split n assms(2,3) by simp
qed

lemma plan_path_name: "digest_hex d \<noteq> [] \<Longrightarrow> extension (plan_path d) = Some ''json''"
  using extension_suffix [of "''json''" "digest_hex d"] by (simp add: plan_path_def)

lemma plan_path_temporary: "plan_path d \<noteq> plan_temporary pid e nonce"
proof
  assume "plan_path d = plan_temporary pid e nonce"
  then have "rev (plan_path d) ! 0 = rev (plan_temporary pid e nonce) ! 0" by simp
  then show False by (simp add: plan_path_def plan_temporary_def)
qed

lemma plan_path_not_allowed: "\<not> is_allowed_plan_store_entry (plan_path d)"
proof
  assume a: "is_allowed_plan_store_entry (plan_path d)"
  have "plan_path d \<noteq> ''.plan-store.metadata''"
  proof
    assume "plan_path d = ''.plan-store.metadata''"
    then have "rev (plan_path d) ! 0 = rev ''.plan-store.metadata'' ! 0" by simp
    then show False by (simp add: plan_path_def)
  qed
  with a obtain r v where r: "strip_prefix ''.plan-'' (plan_path d) = Some r" "strip_suffix ''.tmp'' r = Some v"
    by (auto simp: is_allowed_plan_store_entry_def split: option.splits bind_splits)
  from r(1) have p: "plan_path d = ''.plan-'' @ r" by (simp add: strip_prefix_Some_iff)
  from r(2) obtain w where w: "r = w @ ''.tmp''" by (auto simp: strip_suffix_def ends_with_def split: if_splits) (metis append_take_drop_id)
  have "rev (plan_path d) ! 0 = rev (''.plan-'' @ w @ ''.tmp'') ! 0" unfolding p w by simp
  then show False by (simp add: plan_path_def)
qed

section \<open>Entries\<close>

lemma entry_at_add: "entry_at (add_entry n e s) m = (case entry_at s m of Some x \<Rightarrow> Some x | None \<Rightarrow> if m = n then Some e else None)"
  by (simp add: entry_at_def add_entry_def map_add_def split: option.split)

lemma map_of_filter_key: "map_of (filter (\<lambda>(k, _). k \<noteq> a) m) b = (if b = a then None else map_of m b)"
  by (induction m) auto

lemma entry_at_drop: "entry_at (drop_entry n s) m = (if m = n then None else entry_at s m)"
  by (simp add: entry_at_def drop_entry_def map_of_filter_key)

lemma store_flags [simp]:
  "pst_root_same (add_entry n e s) = pst_root_same s" "pst_root_same (drop_entry n s) = pst_root_same s"
  "pst_clock (add_entry n e s) = pst_clock s"
  "entry_at (s\<lparr>pst_nonce := k\<rparr>) m = entry_at s m" "entry_at (s\<lparr>pst_root_same := b\<rparr>) m = entry_at s m"
  "plan_store_sound E D (s\<lparr>pst_nonce := k\<rparr>) = plan_store_sound E D s"
  "plan_store_sound E D (s\<lparr>pst_root_same := b\<rparr>) = plan_store_sound E D s"
  by (simp_all add: add_entry_def drop_entry_def entry_at_def plan_store_sound_def)

lemma sound_add:
  "plan_store_sound E D s \<Longrightarrow> entry_at s n = None \<Longrightarrow> entry_sound E D (Some n, e) \<Longrightarrow> plan_store_sound E D (add_entry n e s)"
  by (auto simp: plan_store_sound_def add_entry_def entry_at_def map_of_eq_None_iff)

lemma sound_drop: "plan_store_sound E D s \<Longrightarrow> plan_store_sound E D (drop_entry n s)"
  by (auto simp: plan_store_sound_def drop_entry_def list_all_iff distinct_map_filter)

lemma temporary_sound: "is_allowed_plan_store_entry n \<Longrightarrow> entry_sound E D (Some n, e)"
  by (simp add: entry_sound_def scan_plan_entry_def)

lemma plan_entry_sound:
  assumes "validate_plan E plan = Inr ()" "D b = Some plan" "pe_regular e" "pe_bytes e = b"
  shows "entry_sound E D (Some (plan_path (pl_id plan)), e)"
proof -
  obtain h where h: "digest_str (pl_id plan) = ''sha256:'' @ h" "length h = 64" "list_all lower_hex h"
    using validated_plan_id [OF assms(1)] by (auto simp: valid_sha256_digest_def list_all_iff)
  then have "digest_hex (pl_id plan) \<noteq> []" using digest_hex_valid by fastforce
  then show ?thesis
    using assms plan_path_name plan_path_not_allowed by (simp add: entry_sound_def scan_plan_entry_def read_plan_file_def)
qed

section \<open>Writing\<close>

text \<open>
  How a store may change while a plan is written: its entries stay, entries under the temporary name
  excepted, the directory stays the one it was or is refused, and it stays sound.
\<close>

definition plans_kept :: "env \<Rightarrow> plan_decoder \<Rightarrow> string \<Rightarrow> plan_store \<Rightarrow> plan_store \<Rightarrow> bool" where
  "plans_kept E D temporary s t \<longleftrightarrow> (\<forall>n x. n \<noteq> temporary \<longrightarrow> entry_at s n = Some x \<longrightarrow> entry_at t n = Some x)
     \<and> (pst_root_same t \<longrightarrow> pst_root_same s) \<and> (plan_store_sound E D s \<longrightarrow> plan_store_sound E D t)"

lemma plans_kept_refl [simp]: "plans_kept E D n s s"
  by (simp add: plans_kept_def)

lemma plans_kept_trans: "plans_kept E D n s t \<Longrightarrow> plans_kept E D n t u \<Longrightarrow> plans_kept E D n s u"
  by (simp add: plans_kept_def)

lemma plans_kept_drop: "plans_kept E D n s (drop_entry n s)"
  by (simp add: plans_kept_def entry_at_drop sound_drop)

lemma plans_kept_add: "entry_at s m = None \<Longrightarrow> entry_sound E D (Some m, e) \<Longrightarrow> plans_kept E D n s (add_entry m e s)"
  by (auto simp: plans_kept_def entry_at_add sound_add)

lemma plans_kept_root: "plans_kept E D n s (s\<lparr>pst_root_same := False\<rparr>)"
  by (simp add: plans_kept_def)

definition stored :: "string \<Rightarrow> string \<Rightarrow> plan_store \<Rightarrow> bool" where
  "stored n bytes s \<longleftrightarrow> pst_root_same s \<and> (\<exists>e. entry_at s n = Some e \<and> pe_regular e \<and> pe_bytes e = bytes)"

lemma finish_plan_kept:
  "finish_plan fault n s = (r, t) \<Longrightarrow> plans_kept E D n s t \<and> (r = Inr () \<longrightarrow> t = drop_entry n s \<and> pst_root_same t)"
  using plans_kept_trans [OF plans_kept_root plans_kept_drop]
  by (auto simp: finish_plan_def Let_def plans_kept_drop ensure_root_def ensure_Ok_iff split: if_splits)

lemma link_plan_kept:
  assumes "link_plan fault rival n m bytes s = (r, t)" "entry_at s m = None" "m \<noteq> n"
    and "entry_sound E D (Some m, new_entry bytes s)"
    and "\<And>e. rival = Some e \<Longrightarrow> entry_sound E D (Some m, e)"
  shows "plans_kept E D n s t \<and> (r = Inr () \<longrightarrow> stored m bytes t)"
proof -
  have k: "plans_kept E D n s (add_entry m e s)" if "entry_sound E D (Some m, e)" for e
    by (rule plans_kept_add [OF assms(2) that])
  show ?thesis
  proof (cases "fault = Some PfLink")
    case True
    then show ?thesis using assms(1) plans_kept_drop by (auto simp: link_plan_def)
  next
    case link: False
    show ?thesis
    proof (cases rival)
      case None
      then have "finish_plan fault n (add_entry m (new_entry bytes s) s) = (r, t)"
        using assms(1) link by (simp add: link_plan_def)
      from finish_plan_kept [OF this, where E = E and D = D] show ?thesis
        using plans_kept_trans [OF k [OF assms(4)]] assms(2,3)
        by (auto simp: stored_def entry_at_drop entry_at_add new_entry_def)
    next
      case (Some e)
      show ?thesis
      proof (cases "same_plan_bytes bytes e")
        case (Inl x)
        then show ?thesis using assms(1) link Some plans_kept_trans [OF k [OF assms(5) [OF Some]] plans_kept_drop]
          by (auto simp: link_plan_def)
      next
        case (Inr u)
        then have e: "pe_regular e" "pe_bytes e = bytes"
          by (auto simp: same_plan_bytes_def read_plan_file_def and_then_Ok_iff ensure_Ok_iff split: if_splits)
        have "finish_plan fault n (add_entry m e s) = (r, t)"
          using assms(1) link Some Inr by (simp add: link_plan_def)
        from finish_plan_kept [OF this, where E = E and D = D] show ?thesis
          using plans_kept_trans [OF k [OF assms(5) [OF Some]]] assms(2,3) e
          by (auto simp: stored_def entry_at_drop entry_at_add)
      qed
    qed
  qed
qed

lemma write_plan_kept:
  assumes "write_plan fault rival n m bytes s = (r, t)" "entry_at s m = None" "m \<noteq> n"
    "is_allowed_plan_store_entry n"
    and "\<And>c. entry_sound E D (Some m, \<lparr>pe_bytes = bytes, pe_modified = c, pe_regular = True\<rparr>)"
    and "\<And>e. rival = Some e \<Longrightarrow> entry_sound E D (Some m, e)"
  shows "plans_kept E D n s t \<and> (r = Inr () \<longrightarrow> stored m bytes t)"
proof (cases "fault = Some PfOpen \<or> entry_at s n \<noteq> None")
  case True
  then show ?thesis using assms(1) plans_kept_drop by (auto simp: write_plan_def)
next
  case False
  then have a: "plans_kept E D n s (add_entry n e s)" for e
    by (intro plans_kept_add temporary_sound assms(4)) simp
  have m: "entry_at (add_entry n e s) m = None" for e using assms(2,3) by (simp add: entry_at_add)
  note d = plans_kept_trans [OF a plans_kept_drop]
  have l: "plans_kept E D n s t \<and> (r = Inr () \<longrightarrow> stored m bytes t)"
    if "link_plan fault rival n m bytes (add_entry n (new_entry bytes s) s) = (r, t)"
    using link_plan_kept [OF that m assms(3) _ assms(6)]
      plans_kept_trans [OF a [of "new_entry bytes s"]] assms(5) by (auto simp: new_entry_def)
  show ?thesis
    using assms(1) False a d l unfolding write_plan_def by (auto split: option.splits plan_fault.splits)
qed

lemma load_plan_stored:
  assumes "stored (plan_path (pl_id plan)) bytes s" "D bytes = Some plan" "validate_plan E plan = Inr ()"
  shows "load_plan E D (pl_id plan) s = Inr plan"
  using assms by (auto simp: stored_def load_plan_def ensure_root_def ensure_def read_plan_file_def)

lemma load_plan_kept:
  assumes "plans_kept E D n s t" "load_plan E D i s = Inr p" "plan_path i \<noteq> n"
  shows "load_plan E D i t \<in> {Inr p, Inl InvalidRoot}"
proof -
  from assms(2) obtain e where e: "entry_at s (plan_path i) = Some e"
    by (auto simp: load_plan_def and_then_Ok_iff)
  then have t: "entry_at t (plan_path i) = Some e" using assms(1,3) by (simp add: plans_kept_def)
  show ?thesis
  proof (cases "pst_root_same t")
    case True
    then have "pst_root_same s" using assms(1) by (simp add: plans_kept_def)
    then have "load_plan E D i t = load_plan E D i s"
      using True by (simp add: load_plan_def ensure_root_def ensure_def e t)
    then show ?thesis using assms(2) by simp
  next
    case False
    then show ?thesis by (simp add: load_plan_def ensure_root_def ensure_def)
  qed
qed

lemma persist_plan_kept:
  assumes "persist_plan E fault rival plan s = (r, t)"
    and "\<And>bytes. canonical_json E (ser_plan plan) = Inr bytes \<Longrightarrow> D bytes = Some plan"
    and "\<And>e. rival = Some e \<Longrightarrow> entry_sound E D (Some (plan_path (pl_id plan)), e)"
  shows "plans_kept E D (plan_temporary (pst_process s) (pl_id plan) (pst_nonce s)) s t
    \<and> (r = Inr () \<longrightarrow> load_plan E D (pl_id plan) t = Inr plan)"
proof (cases "r = Inr () \<or> t \<noteq> s")
  case False
  then show ?thesis by simp
next
  case True
  then obtain bytes where ok: "ensure_root s = Inr ()" "validate_plan E plan = Inr ()"
      "canonical_json E (ser_plan plan) = Inr bytes"
    and rest: "(let destination = plan_path (pl_id plan) in
           case entry_at s destination of
             Some e \<Rightarrow> (same_plan_bytes bytes e, s)
           | None \<Rightarrow> write_plan fault rival (plan_temporary (pst_process s) (pl_id plan) (pst_nonce s))
               destination bytes (s\<lparr>pst_nonce := Suc (pst_nonce s)\<rparr>)) = (r, t)"
    using assms(1) unfolding persist_plan_def by (auto simp: and_then_Ok_iff split: sum.splits)
  note D = assms(2) [OF ok(3)]
  show ?thesis
  proof (cases "entry_at s (plan_path (pl_id plan))")
    case (Some e)
    then have t: "t = s" "same_plan_bytes bytes e = r" using rest by simp_all
    have "load_plan E D (pl_id plan) t = Inr plan" if "r = Inr ()"
    proof (rule load_plan_stored)
      show "D bytes = Some plan" "validate_plan E plan = Inr ()" by (rule D, rule ok(2))
      show "stored (plan_path (pl_id plan)) bytes t"
        using t that ok(1) Some by (auto simp: stored_def same_plan_bytes_def read_plan_file_def and_then_Ok_iff
            ensure_root_def ensure_Ok_iff split: if_splits)
    qed
    then show ?thesis using t by simp
  next
    case None
    let ?n = "plan_temporary (pst_process s) (pl_id plan) (pst_nonce s)"
    obtain h where h: "digest_str (pl_id plan) = ''sha256:'' @ h" "length h = 64" "list_all lower_hex h"
      using validated_plan_id [OF ok(2)] by (auto simp: valid_sha256_digest_def list_all_iff)
    have "plans_kept E D ?n (s\<lparr>pst_nonce := Suc (pst_nonce s)\<rparr>) t
        \<and> (r = Inr () \<longrightarrow> stored (plan_path (pl_id plan)) bytes t)"
    proof (rule write_plan_kept)
      show "write_plan fault rival ?n (plan_path (pl_id plan)) bytes (s\<lparr>pst_nonce := Suc (pst_nonce s)\<rparr>) = (r, t)"
        using rest None by simp
      show "is_allowed_plan_store_entry ?n" by (rule temporary_allowed [OF h])
      show "entry_sound E D (Some (plan_path (pl_id plan)), \<lparr>pe_bytes = bytes, pe_modified = c, pe_regular = True\<rparr>)" for c
        by (rule plan_entry_sound [where b = bytes]) (rule ok(2), rule D, simp_all)
    qed (simp_all add: None plan_path_temporary assms(3))
    then show ?thesis using load_plan_stored [where plan = plan and bytes = bytes and D = D and E = E] D ok(2)
      by (auto simp: plans_kept_def)
  qed
qed

section \<open>Scanning\<close>

definition plan_candidates ::
  "env \<Rightarrow> plan_decoder \<Rightarrow> stable_id option \<Rightarrow> plan_binding_triple option
    \<Rightarrow> (string option \<times> plan_entry) list \<Rightarrow> (nat \<times> plan) list" where
  "plan_candidates E decode target bindings entries = List.map_filter (\<lambda>entry.
     case scan_plan_entry E decode entry of
       Inr (ScanPlan modified plan) \<Rightarrow>
         if (target = None \<or> target = Some (pl_target_id plan)) \<and> bindings_match bindings plan
         then Some (modified, plan) else None
     | _ \<Rightarrow> None) entries"

definition newer :: "(nat \<times> plan) option \<Rightarrow> nat \<times> plan \<Rightarrow> (nat \<times> plan) option" where
  "newer found c = (case found of None \<Rightarrow> Some c
     | Some d \<Rightarrow> if fst d < fst c \<or> fst c = fst d \<and> pl_id (snd d) < pl_id (snd c) then Some c else found)"

definition older_plan :: "nat \<times> plan \<Rightarrow> nat \<times> plan \<Rightarrow> bool" where
  "older_plan d c \<longleftrightarrow> fst d < fst c \<or> fst d = fst c \<and> pl_id (snd d) \<le> pl_id (snd c)"

lemma older_plan_order: "older_plan c c" "older_plan c d \<Longrightarrow> older_plan d e \<Longrightarrow> older_plan c e"
  by (auto simp: older_plan_def)

lemma newer_Some: "\<exists>d. newer found c = Some d \<and> (d = c \<or> found = Some d) \<and> older_plan c d \<and> (\<forall>f. found = Some f \<longrightarrow> older_plan f d)"
  by (cases c) (auto simp: newer_def older_plan_def split: option.split)

lemma foldl_newer_None: "foldl newer found cs = None \<longleftrightarrow> found = None \<and> cs = []"
proof (induction cs arbitrary: found)
  case (Cons x cs)
  then show ?case using newer_Some [of found x] by auto
qed simp

lemma foldl_newer_Some:
  "foldl newer found cs = Some c \<Longrightarrow> (c \<in> set cs \<or> found = Some c) \<and> list_all (\<lambda>d. older_plan d c) cs
     \<and> (\<forall>f. found = Some f \<longrightarrow> older_plan f c)"
proof (induction cs arbitrary: found)
  case (Cons x cs)
  obtain d where d: "newer found x = Some d" "d = x \<or> found = Some d" "older_plan x d"
    "\<forall>f. found = Some f \<longrightarrow> older_plan f d"
    using newer_Some [of found x] by blast
  from Cons.prems have "foldl newer (newer found x) cs = Some c" by simp
  from Cons.IH [OF this] d show ?case using older_plan_order(2) [of _ d c] by auto
qed (simp add: older_plan_order)

definition plan_candidate ::
  "stable_id option \<Rightarrow> plan_binding_triple option \<Rightarrow> plan \<Rightarrow> bool" where
  "plan_candidate target bindings plan \<longleftrightarrow>
     (target = None \<or> target = Some (pl_target_id plan)) \<and> bindings_match bindings plan"

lemma plan_candidates_simps:
  "plan_candidates E decode target bindings [] = []"
  "plan_candidates E decode target bindings (entry # entries) =
     (case scan_plan_entry E decode entry of
        Inr (ScanPlan m p) \<Rightarrow> (if plan_candidate target bindings p then [(m, p)] else [])
      | _ \<Rightarrow> []) @ plan_candidates E decode target bindings entries"
  by (auto simp: plan_candidates_def map_filter_simps plan_candidate_def split: sum.split scanned_entry.split)

lemma scan_loop_Cons:
  "scan_loop E decode target bindings (latest, has_target, has_invalid) (entry # entries) =
     and_then (scan_plan_entry E decode entry) (\<lambda>x. case x of
       ScanPlan m p \<Rightarrow> scan_loop E decode target bindings
         (if plan_candidate target bindings p then newer latest (m, p) else latest,
          has_target \<or> target = None \<or> target = Some (pl_target_id p), has_invalid) entries
     | _ \<Rightarrow> scan_loop E decode target bindings (latest, has_target, has_invalid \<or> x = ScanInvalid) entries)"
  by (auto simp: plan_candidate_def newer_def and_then_def split: sum.split scanned_entry.split option.split)

lemma scan_loop_Ok:
  assumes "scan_loop E decode target bindings (latest, has_target, has_invalid) entries = Inr (l, h, v)"
  shows "l = foldl newer latest (plan_candidates E decode target bindings entries)
    \<and> (v \<longleftrightarrow> has_invalid \<or> (\<exists>entry\<in>set entries. scan_plan_entry E decode entry = Inr ScanInvalid))"
  using assms
proof (induction entries arbitrary: latest has_target has_invalid)
  case (Cons entry entries)
  from Cons.prems obtain x where x: "scan_plan_entry E decode entry = Inr x" by (auto simp: and_then_Ok_iff)
  note rest = Cons.prems [unfolded scan_loop_Cons x and_then_simps]
  show ?case
    by (cases x) (use rest in \<open>auto simp: plan_candidates_simps x dest!: Cons.IH\<close>)
qed (simp add: plan_candidates_simps)

end
