(* ===== verification/PlanStore_Properties.thy ===== *)
theory PlanStore_Properties
  imports PlanStore_Facts Engine_Properties
begin

text \<open>Properties of the plan store.\<close>

text \<open>
  C12: Whatever step of a write fails or crashes, and whichever valid file another process links under the
  same name meanwhile, persisting a plan keeps the store sound, keeps every plan that could be loaded, and
  when it succeeds the plan is loaded back by its identity.
\<close>

theorem plan_store_keeps_plans:
  assumes "persist_plan E fault rival plan s = (r, t)" "plan_store_sound E decode s"
    and "reads_back (env_jcs E) decode ser_plan plan"
    and "case rival of None \<Rightarrow> True | Some e \<Rightarrow> entry_sound E decode (Some (plan_path (pl_id plan)), e)"
  shows "plan_store_sound E decode t
    \<and> (\<forall>i p. load_plan E decode i s = Inr p \<longrightarrow> load_plan E decode i t \<in> {Inr p, Inl InvalidRoot})
    \<and> (r = Inr () \<longrightarrow> load_plan E decode (pl_id plan) t = Inr plan)"
proof -
  have "decode bytes = Some plan" if "canonical_json E (ser_plan plan) = Inr bytes" for bytes
    using assms(3) that by (auto simp: reads_back_def canonical_json_def ok_or_def split: option.splits)
  note D = this
  have "entry_sound E decode (Some (plan_path (pl_id plan)), e)" if "rival = Some e" for e
    using assms(4) that by simp
  note k = persist_plan_kept [where D = decode, OF assms(1) D this]
  have "load_plan E decode i t \<in> {Inr p, Inl InvalidRoot}" if "load_plan E decode i s = Inr p" for i p
    by (rule load_plan_kept [OF conjunct1 [OF k] that plan_path_temporary])
  moreover have "plan_store_sound E decode t" using k assms(2) by (simp add: plans_kept_def)
  ultimately show ?thesis using k by blast
qed

definition sample_plan_store :: plan_store where
  "sample_plan_store = \<lparr>pst_entries = [], pst_root_same = True, pst_process = 7, pst_nonce = 0, pst_clock = 5\<rparr>"

definition sample_plan_codec :: plan_decoder where
  "sample_plan_codec b = Some sample_plan"

lemma sample_plan_persisted:
  "\<exists>t. persist_plan sample_env None None sample_plan sample_plan_store = (Inr (), t)"
proof -
  obtain b where b: "canonical_json sample_env (ser_plan sample_plan) = Inr b"
    by (simp add: canonical_json_def sample_env_def)
  show ?thesis
    by (simp add: persist_plan_def sample_plan_valid b sample_plan_store_def ensure_root_def ensure_def entry_at_def
        write_plan_def link_plan_def finish_plan_def add_entry_def drop_entry_def Let_def)
qed

theorem plan_store_keeps_plans_witness:
  "\<exists>t. persist_plan sample_env None None sample_plan sample_plan_store = (Inr (), t)
     \<and> load_plan sample_env sample_plan_codec (pl_id sample_plan) t = Inr sample_plan"
proof -
  obtain t where t: "persist_plan sample_env None None sample_plan sample_plan_store = (Inr (), t)"
    using sample_plan_persisted by blast
  have "plan_store_sound sample_env sample_plan_codec sample_plan_store"
    by (simp add: plan_store_sound_def sample_plan_store_def)
  from plan_store_keeps_plans [OF t this] t show ?thesis
    by (auto simp: reads_back_def sample_plan_codec_def split: option.splits)
qed

section \<open>Scanning\<close>

text \<open>
  A scan of the store reports an invalid entry exactly when there is one, and finds the newest of the
  valid plans of the target and bindings, by modification time and then by identity, or none when there
  is none.
\<close>

lemma plan_scan_newest:
  assumes "load_latest_matching E decode target bindings s = Inr r"
  shows "(sc_has_invalid r \<longleftrightarrow> (\<exists>entry\<in>set (pst_entries s). scan_plan_entry E decode entry = Inr ScanInvalid))
    \<and> (case sc_latest r of None \<Rightarrow> plan_candidates E decode target bindings (pst_entries s) = []
       | Some p \<Rightarrow> \<exists>m. (m, p) \<in> set (plan_candidates E decode target bindings (pst_entries s))
           \<and> (\<forall>(n, q)\<in>set (plan_candidates E decode target bindings (pst_entries s)).
                n < m \<or> n = m \<and> pl_id q \<le> pl_id p))"
proof -
  from assms obtain l h v where
    l: "scan_loop E decode target bindings (None, False, False) (pst_entries s) = Inr (l, h, v)"
    and r: "sc_latest r = map_option snd l" "sc_has_invalid r = v"
    by (auto simp: load_latest_matching_def and_then_Ok_iff)
  note ok = scan_loop_Ok [OF l]
  show ?thesis
  proof (cases l)
    case None
    with ok have "plan_candidates E decode target bindings (pst_entries s) = []" using foldl_newer_None by metis
    then show ?thesis using ok r None by simp
  next
    case (Some c)
    obtain m p where c: "c = (m, p)" by (cases c)
    from ok Some c have "foldl newer None (plan_candidates E decode target bindings (pst_entries s)) = Some (m, p)" by simp
    from foldl_newer_Some [OF this]
    have "(m, p) \<in> set (plan_candidates E decode target bindings (pst_entries s))"
      "\<forall>(n, q)\<in>set (plan_candidates E decode target bindings (pst_entries s)). n < m \<or> n = m \<and> pl_id q \<le> pl_id p"
      by (auto simp: list_all_iff older_plan_def)
    moreover have "sc_latest r = Some p" using r Some c by simp
    ultimately show ?thesis using ok r(2) by auto
  qed
qed

end
