(* ===== verification/Reconcile_Deployment.thy ===== *)
theory Reconcile_Deployment
  imports Reconcile_PlanStore
begin

text \<open>
  The deployment of a promoted skill to a canary, \<open>crates/commonkit-reconcile/src/skill_deployment.rs\<close>:
  preparation of a plan from a compiled package, its execution by the reconciler, recovery and rollback,
  each recorded in receipts whose bytes are anchored under a key. The promotion authority, the compiler,
  the observer of the target and the decoding of stored receipts are parameters. Each access to the
  receipt and anchor files takes the next entry of a list of faults; an empty list is a system without
  failures.
\<close>

unbundle bit_operations_syntax

section \<open>Data\<close>

record deployment_request =
  dr_candidate_id :: stable_id
  dr_promotion_receipt_id :: sha256_digest
  dr_apm_package :: stable_id
  dr_canary_loadout :: stable_id
  dr_observed_digest :: sha256_digest

record skill_promotion =
  sp_candidate_id :: stable_id
  sp_candidate_digest :: sha256_digest
  sp_promotion_receipt_id :: sha256_digest
  sp_promoted_source_digest :: sha256_digest
  sp_policy_digest :: sha256_digest

record apm_compilation =
  ac_source_digest :: sha256_digest
  ac_provider_inputs_digest :: sha256_digest
  ac_composed_loadout_digest :: sha256_digest
  ac_target_identity_digest :: sha256_digest
  ac_ownership_map_digest :: sha256_digest
  ac_artifact_set_digest :: sha256_digest
  ac_desired_digest :: sha256_digest
  ac_observed_digest :: sha256_digest
  ac_operations :: "operation list"

record deployment_lineage =
  ln_candidate_id :: stable_id
  ln_candidate_digest :: sha256_digest
  ln_promotion_receipt_id :: sha256_digest
  ln_promoted_source_digest :: sha256_digest
  ln_apm_package :: stable_id
  ln_apm_provider_inputs_digest :: sha256_digest
  ln_canary_loadout :: stable_id

record prepared_deployment =
  pd_plan :: plan
  pd_lineage :: deployment_lineage

record deployment_intent =
  it_run_id :: stable_id
  it_plan :: plan
  it_lineage :: deployment_lineage

datatype deployment_state = DsVerified | DsRolledBack | DsRollbackFailed

record recovery_receipt =
  rv_id :: sha256_digest
  rv_run_id :: stable_id
  rv_plan_id :: sha256_digest
  rv_outcome :: reconcile_outcome
  rv_restored_digest :: "sha256_digest option"

record deployment_draft =
  dd_run_id :: stable_id
  dd_candidate_id :: stable_id
  dd_candidate_digest :: sha256_digest
  dd_promotion_receipt_id :: sha256_digest
  dd_apm_provider_inputs_digest :: sha256_digest
  dd_canary_loadout :: stable_id
  dd_reconcile_receipt_id :: sha256_digest
  dd_reconcile_outcome :: reconcile_outcome
  dd_state :: deployment_state
  dd_plan :: plan

text \<open>A receipt has the fields of its draft and its identity.\<close>

record deployment_receipt =
  dx_id :: sha256_digest
  dx_draft :: deployment_draft

datatype deployment_recovery = Finalized deployment_receipt | Recovered recovery_receipt

record rollback_draft =
  rd_deployment_receipt_id :: sha256_digest
  rd_candidate_id :: stable_id
  rd_promotion_receipt_id :: sha256_digest
  rd_canary_loadout :: stable_id
  rd_restored_digest :: sha256_digest
  rd_state :: deployment_state
  rd_operation_ids :: "sha256_digest list"

record rollback_receipt =
  rx_id :: sha256_digest
  rx_draft :: rollback_draft

record rollback_failure_receipt =
  fr_id :: sha256_digest
  fr_deployment_receipt_id :: sha256_digest
  fr_run_id :: stable_id
  fr_state :: deployment_state
  fr_operation_ids :: "sha256_digest list"
  fr_error_code :: string

datatype deployment_error =
    ApmCompile adapter_failure
  | ApmSourceDigestMismatch
  | ObservedStateMismatch
  | EmptyCompilation
  | CanaryNotVerified reconcile_outcome
  | DeploymentNotVerified
  | DeploymentReceiptMismatch
  | DeploymentAnchorMismatch
  | UnsafeTrustKey
  | MissingTrustKeyForExistingAnchors
  | InvalidTrustRotation
  | PromotionAuthorityMismatch
  | ObserveFailed adapter_failure
  | RollbackVerificationFailed
  | CanaryRollbackFailed
  | UnexpectedRollbackOutcome reconcile_outcome
  | DeployPlan plan_build_error
  | DeployReconcile reconcile_error
  | DeployReceipt receipt_error
  | DeployContract contract_error
  | DeployIo
  | DeployJson

fun deployment_error_code :: "deployment_error \<Rightarrow> string" where
  "deployment_error_code (ApmCompile _) = ''apm_compile_failed''"
| "deployment_error_code ApmSourceDigestMismatch = ''apm_source_digest_mismatch''"
| "deployment_error_code ObservedStateMismatch = ''skill_deployment_observed_state_mismatch''"
| "deployment_error_code EmptyCompilation = ''apm_empty_compilation''"
| "deployment_error_code (CanaryNotVerified _) = ''skill_canary_not_verified''"
| "deployment_error_code DeploymentNotVerified = ''skill_deployment_not_verified''"
| "deployment_error_code DeploymentReceiptMismatch = ''skill_deployment_receipt_mismatch''"
| "deployment_error_code DeploymentAnchorMismatch = ''skill_deployment_anchor_mismatch''"
| "deployment_error_code UnsafeTrustKey = ''skill_deployment_trust_key_invalid''"
| "deployment_error_code MissingTrustKeyForExistingAnchors = ''skill_deployment_trust_key_missing''"
| "deployment_error_code InvalidTrustRotation = ''skill_deployment_trust_rotation_invalid''"
| "deployment_error_code PromotionAuthorityMismatch = ''skill_promotion_authority_mismatch''"
| "deployment_error_code (ObserveFailed _) = ''skill_deployment_observation_failed''"
| "deployment_error_code RollbackVerificationFailed = ''skill_deployment_rollback_verification_failed''"
| "deployment_error_code CanaryRollbackFailed = ''skill_deployment_rollback_failed''"
| "deployment_error_code (UnexpectedRollbackOutcome _) = ''skill_deployment_rollback_invalid''"
| "deployment_error_code (DeployPlan _) = ''skill_deployment_plan_invalid''"
| "deployment_error_code (DeployReconcile _) = ''skill_deployment_reconcile_failed''"
| "deployment_error_code (DeployReceipt _) = ''skill_deployment_receipt_invalid''"
| "deployment_error_code (DeployContract _) = ''skill_deployment_contract_invalid''"
| "deployment_error_code DeployIo = ''skill_deployment_io_failed''"
| "deployment_error_code DeployJson = ''skill_deployment_json_invalid''"

section \<open>Serialization\<close>

fun outcome_name :: "reconcile_outcome \<Rightarrow> string" where
  "outcome_name OutSucceeded = ''succeeded''"
| "outcome_name OutCanceled = ''canceled''"
| "outcome_name OutRolledBack = ''rolled_back''"
| "outcome_name OutRollbackFailed = ''rollback_failed''"
| "outcome_name OutForwardRecoveryRequired = ''forward_recovery_required''"
| "outcome_name OutForwardRecovered = ''forward_recovered''"
| "outcome_name OutForwardRecoveryFailed = ''forward_recovery_failed''"

fun deployment_state_name :: "deployment_state \<Rightarrow> string" where
  "deployment_state_name DsVerified = ''verified''"
| "deployment_state_name DsRolledBack = ''rolled_back''"
| "deployment_state_name DsRollbackFailed = ''rollback_failed''"

definition ser_outcome :: "reconcile_outcome \<Rightarrow> json" where "ser_outcome x = JString (outcome_name x)"
definition ser_deployment_state :: "deployment_state \<Rightarrow> json" where
  "ser_deployment_state x = JString (deployment_state_name x)"

definition ser_lineage :: "deployment_lineage \<Rightarrow> json" where
  "ser_lineage l = json_struct
     [(''candidateId'', ser_stable_id (ln_candidate_id l)), (''candidateDigest'', ser_digest (ln_candidate_digest l)),
      (''promotionReceiptId'', ser_digest (ln_promotion_receipt_id l)),
      (''promotedSourceDigest'', ser_digest (ln_promoted_source_digest l)),
      (''apmPackage'', ser_stable_id (ln_apm_package l)),
      (''apmProviderInputsDigest'', ser_digest (ln_apm_provider_inputs_digest l)),
      (''canaryLoadout'', ser_stable_id (ln_canary_loadout l))]"

definition ser_intent :: "deployment_intent \<Rightarrow> json" where
  "ser_intent i = json_struct
     [(''runId'', ser_stable_id (it_run_id i)), (''plan'', ser_plan (it_plan i)),
      (''lineage'', ser_lineage (it_lineage i))]"

definition draft_fields :: "deployment_draft \<Rightarrow> (string \<times> json) list" where
  "draft_fields d =
     [(''runId'', ser_stable_id (dd_run_id d)), (''candidateId'', ser_stable_id (dd_candidate_id d)),
      (''candidateDigest'', ser_digest (dd_candidate_digest d)),
      (''promotionReceiptId'', ser_digest (dd_promotion_receipt_id d)),
      (''apmProviderInputsDigest'', ser_digest (dd_apm_provider_inputs_digest d)),
      (''canaryLoadout'', ser_stable_id (dd_canary_loadout d)),
      (''reconcileReceiptId'', ser_digest (dd_reconcile_receipt_id d)),
      (''reconcileOutcome'', ser_outcome (dd_reconcile_outcome d)),
      (''state'', ser_deployment_state (dd_state d)), (''plan'', ser_plan (dd_plan d))]"

definition ser_draft :: "deployment_draft \<Rightarrow> json" where
  "ser_draft d = json_struct (draft_fields d)"

definition ser_deployment_receipt :: "deployment_receipt \<Rightarrow> json" where
  "ser_deployment_receipt r = json_struct ((''id'', ser_digest (dx_id r)) # draft_fields (dx_draft r))"

definition rollback_fields :: "rollback_draft \<Rightarrow> (string \<times> json) list" where
  "rollback_fields d =
     [(''deploymentReceiptId'', ser_digest (rd_deployment_receipt_id d)),
      (''candidateId'', ser_stable_id (rd_candidate_id d)),
      (''promotionReceiptId'', ser_digest (rd_promotion_receipt_id d)),
      (''canaryLoadout'', ser_stable_id (rd_canary_loadout d)),
      (''restoredDigest'', ser_digest (rd_restored_digest d)),
      (''state'', ser_deployment_state (rd_state d)),
      (''operationIds'', JArray (map ser_digest (rd_operation_ids d)))]"

definition ser_rollback_draft :: "rollback_draft \<Rightarrow> json" where
  "ser_rollback_draft d = json_struct (rollback_fields d)"

definition ser_rollback_receipt :: "rollback_receipt \<Rightarrow> json" where
  "ser_rollback_receipt r = json_struct ((''id'', ser_digest (rx_id r)) # rollback_fields (rx_draft r))"

definition ser_failure_draft :: "sha256_digest \<Rightarrow> stable_id \<Rightarrow> deployment_state \<Rightarrow> sha256_digest list \<Rightarrow> string \<Rightarrow> json" where
  "ser_failure_draft deployment_id run_id state operation_ids error_code =
     JArray [ser_digest deployment_id, ser_stable_id run_id, ser_deployment_state state,
       JArray (map ser_digest operation_ids), JString error_code]"

definition ser_failure_receipt :: "rollback_failure_receipt \<Rightarrow> json" where
  "ser_failure_receipt r = json_struct
     [(''id'', ser_digest (fr_id r)), (''deploymentReceiptId'', ser_digest (fr_deployment_receipt_id r)),
      (''runId'', ser_stable_id (fr_run_id r)), (''state'', ser_deployment_state (fr_state r)),
      (''operationIds'', JArray (map ser_digest (fr_operation_ids r))), (''errorCode'', JString (fr_error_code r))]"

definition ser_recovery_draft :: "stable_id \<Rightarrow> sha256_digest \<Rightarrow> reconcile_outcome \<Rightarrow> sha256_digest option \<Rightarrow> json" where
  "ser_recovery_draft run_id plan_id outcome restored =
     JArray [ser_stable_id run_id, ser_digest plan_id, ser_outcome outcome, json_option ser_digest restored]"

definition ser_recovery_receipt :: "recovery_receipt \<Rightarrow> json" where
  "ser_recovery_receipt r = json_struct
     [(''id'', ser_digest (rv_id r)), (''runId'', ser_stable_id (rv_run_id r)), (''planId'', ser_digest (rv_plan_id r)),
      (''outcome'', ser_outcome (rv_outcome r)), (''restoredDigest'', json_option ser_digest (rv_restored_digest r))]"

section \<open>State\<close>

text \<open>
  The receipts of a run lie beside its journal, one file per name; the anchors lie in the directory of
  the trust store.
\<close>

datatype file_fault = FfNone | FfOpen | FfWrite nat | FfSync | FfRead

record 'w deployment =
  dp_engine :: "'w engine"
  dp_receipts :: "string \<times> string \<Rightarrow> string option"
  dp_anchors :: "string \<Rightarrow> string option"
  dp_key :: string
  dp_faults :: "file_fault list"

type_synonym ('w, 'a) deploy_step = "'w deployment \<Rightarrow> (deployment_error + 'a) \<times> 'w deployment"

definition dep_ret :: "deployment_error + 'a \<Rightarrow> ('w, 'a) deploy_step" where
  "dep_ret r d = (r, d)"

definition dep_bind :: "('w, 'a) deploy_step \<Rightarrow> ('a \<Rightarrow> ('w, 'b) deploy_step) \<Rightarrow> ('w, 'b) deploy_step" where
  "dep_bind m f d = (case m d of (Inl e, c) \<Rightarrow> (Inl e, c) | (Inr x, c) \<Rightarrow> f x c)"

definition dep_next :: "'w deployment \<Rightarrow> file_fault \<times> 'w deployment" where
  "dep_next d = (case dp_faults d of [] \<Rightarrow> (FfNone, d) | f # fs \<Rightarrow> (f, d\<lparr>dp_faults := fs\<rparr>))"

record deployment_codec =
  dk_intent :: "string \<Rightarrow> deployment_intent option"
  dk_receipt :: "string \<Rightarrow> deployment_receipt option"
  dk_rollback :: "string \<Rightarrow> rollback_receipt option"
  dk_failure :: "string \<Rightarrow> rollback_failure_receipt option"

section \<open>Receipt files\<close>

definition INTENT_FILE :: string where "INTENT_FILE = ''skill-deployment-intent.receipt''"
definition DEPLOYMENT_FILE :: string where "DEPLOYMENT_FILE = ''skill-deployment.receipt''"
definition ROLLBACK_FILE :: string where "ROLLBACK_FILE = ''skill-deployment-rollback.receipt''"
definition ROLLBACK_FAILURE_FILE :: string where
  "ROLLBACK_FAILURE_FILE = ''skill-deployment-rollback-failure.receipt''"
definition RECOVERY_FILE :: string where "RECOVERY_FILE = ''skill-deployment-recovery.receipt''"

text \<open>The content a write leaves under a fault and its result; an existing file is compared only.\<close>

definition persist_receipt ::
  "file_fault \<Rightarrow> string \<Rightarrow> string option \<Rightarrow> (deployment_error + unit) \<times> string option" where
  "persist_receipt fault bytes present =
     (case present of
        Some found \<Rightarrow>
          (if fault = FfRead then Err DeployIo
           else ensure (found = bytes) DeploymentReceiptMismatch, present)
      | None \<Rightarrow>
          (case fault of
             FfOpen \<Rightarrow> (Err DeployIo, None)
           | FfWrite n \<Rightarrow> (Err DeployIo, Some (take n bytes))
           | FfSync \<Rightarrow> (Err DeployIo, Some bytes)
           | _ \<Rightarrow> (Ok (), Some bytes)))"

definition put_receipt :: "stable_id \<Rightarrow> string \<Rightarrow> string \<Rightarrow> ('w, unit) deploy_step" where
  "put_receipt run_id name bytes d =
     (case dep_next d of (f, c) \<Rightarrow>
        case persist_receipt f bytes (dp_receipts c (sid_str run_id, name)) of
          (r, content) \<Rightarrow> (r, c\<lparr>dp_receipts := (dp_receipts c)((sid_str run_id, name) := content)\<rparr>))"

definition read_receipt :: "stable_id \<Rightarrow> string \<Rightarrow> ('w, string) deploy_step" where
  "read_receipt run_id name d =
     (case dep_next d of (f, c) \<Rightarrow>
        (if f = FfRead then Err DeployIo else ok_or DeployIo (dp_receipts c (sid_str run_id, name)), c))"

section \<open>Anchors\<close>

definition hex_value :: "char \<Rightarrow> nat" where
  "hex_value c = (if is_ascii_digit c then byte c - 48 else byte c - 87)"

fun hex_bytes :: "string \<Rightarrow> string" where
  "hex_bytes (a # b # s) = char_of (16 * hex_value a + hex_value b) # hex_bytes s"
| "hex_bytes _ = []"

text \<open>\<open>hmac_sha256\<close>: the key of 32 bytes, padded to a block of 64.\<close>

definition hmac_pad :: "nat \<Rightarrow> string \<Rightarrow> string" where
  "hmac_pad pad key = map (\<lambda>c. char_of (byte c XOR pad)) key @ replicate (64 - length key) (char_of pad)"

definition hmac_sha256 :: "env \<Rightarrow> string \<Rightarrow> string \<Rightarrow> string" where
  "hmac_sha256 E key message =
     env_sha256 E (hmac_pad 0x5c key @ hex_bytes (env_sha256 E (hmac_pad 0x36 key @ message)))"

definition anchor_path :: "stable_id \<Rightarrow> string \<Rightarrow> string" where
  "anchor_path run_id label = sid_str run_id @ ''.'' @ label @ ''.anchor''"

definition trust_anchor :: "env \<Rightarrow> stable_id \<Rightarrow> string \<Rightarrow> string \<Rightarrow> ('w, unit) deploy_step" where
  "trust_anchor E run_id label bytes d =
     (case dep_next d of (f, c) \<Rightarrow>
        case persist_receipt f (hmac_sha256 E (dp_key c) bytes) (dp_anchors c (anchor_path run_id label)) of
          (r, content) \<Rightarrow> (r, c\<lparr>dp_anchors := (dp_anchors c)(anchor_path run_id label := content)\<rparr>))"

definition trust_verify :: "env \<Rightarrow> stable_id \<Rightarrow> string \<Rightarrow> string \<Rightarrow> ('w, unit) deploy_step" where
  "trust_verify E run_id label bytes d =
     (case dep_next d of (f, c) \<Rightarrow>
        (if f = FfRead then Err DeployIo
         else and_then (ok_or DeployIo (dp_anchors c (anchor_path run_id label))) (\<lambda>anchored.
           ensure (anchored = hmac_sha256 E (dp_key c) bytes) DeploymentAnchorMismatch), c))"

section \<open>The trust key\<close>

datatype key_file = KeyAbsent | KeyOrdinary nat string | KeyOther

text \<open>
  \<open>DeploymentTrustStore::open_or_create\<close> on what it finds: the key file with its permission bits and
  whether the anchor directory holds entries. The key drawn for a new store is an argument.
\<close>

definition open_or_create_key :: "key_file \<Rightarrow> bool \<Rightarrow> string \<Rightarrow> deployment_error + string" where
  "open_or_create_key file has_anchors fresh =
     (case file of
        KeyOther \<Rightarrow> Err UnsafeTrustKey
      | KeyOrdinary mode bytes \<Rightarrow>
          if mode AND 63 \<noteq> 0 \<or> length bytes \<noteq> 32 then Err UnsafeTrustKey else Ok bytes
      | KeyAbsent \<Rightarrow> if has_anchors then Err MissingTrustKeyForExistingAnchors else Ok fresh)"

definition rotation_allowed :: "key_file \<Rightarrow> bool \<Rightarrow> bool \<Rightarrow> bool \<Rightarrow> deployment_error + unit" where
  "rotation_allowed file root_is_directory has_anchors archive_exists =
     ensure (\<not> (file \<noteq> KeyAbsent \<or> \<not> root_is_directory \<or> \<not> has_anchors \<or> archive_exists)) InvalidTrustRotation"

section \<open>Preparation\<close>

definition prepare_deployment ::
  "env \<Rightarrow> (stable_id \<Rightarrow> sha256_digest \<Rightarrow> adapter_failure + apm_compilation)
    \<Rightarrow> (sha256_digest \<Rightarrow> deployment_error + skill_promotion) \<Rightarrow> deployment_request
    \<Rightarrow> deployment_error + prepared_deployment" where
  "prepare_deployment E compile authenticate request =
     and_then (authenticate (dr_promotion_receipt_id request)) (\<lambda>authenticated.
     and_then (ensure (\<not> (sp_promotion_receipt_id authenticated \<noteq> dr_promotion_receipt_id request
         \<or> sp_candidate_id authenticated \<noteq> dr_candidate_id request)) PromotionAuthorityMismatch) (\<lambda>_.
     and_then (map_err ApmCompile (compile (dr_apm_package request) (sp_policy_digest authenticated))) (\<lambda>compilation.
     and_then (ensure (ac_source_digest compilation = sp_promoted_source_digest authenticated)
         ApmSourceDigestMismatch) (\<lambda>_.
     and_then (ensure (ac_observed_digest compilation = dr_observed_digest request) ObservedStateMismatch) (\<lambda>_.
     and_then (ensure (ac_operations compilation \<noteq> []) EmptyCompilation) (\<lambda>_.
     and_then (map_err DeployPlan (build_plan E
         \<lparr>pd_target_id = dr_canary_loadout request, pd_desired_digest = ac_desired_digest compilation,
          pd_observed_digest = ac_observed_digest compilation, pd_policy_digest = sp_policy_digest authenticated,
          pd_bindings = \<lparr>pb_target_identity_digest = ac_target_identity_digest compilation,
            pb_composed_loadout_digest = ac_composed_loadout_digest compilation,
            pb_provider_inputs_digest = ac_provider_inputs_digest compilation,
            pb_ownership_map_digest = ac_ownership_map_digest compilation,
            pb_artifact_set_digest = ac_artifact_set_digest compilation,
            pb_package_resolution_authority_digest = None\<rparr>,
          pd_operations = ac_operations compilation\<rparr>)) (\<lambda>plan.
       Ok \<lparr>pd_plan = plan, pd_lineage =
         \<lparr>ln_candidate_id = dr_candidate_id request, ln_candidate_digest = sp_candidate_digest authenticated,
          ln_promotion_receipt_id = dr_promotion_receipt_id request,
          ln_promoted_source_digest = sp_promoted_source_digest authenticated,
          ln_apm_package = dr_apm_package request,
          ln_apm_provider_inputs_digest = ac_provider_inputs_digest compilation,
          ln_canary_loadout = dr_canary_loadout request\<rparr>\<rparr>)))))))"

section \<open>Execution\<close>

definition dep_lift :: "contract_error + 'a \<Rightarrow> ('w, 'a) deploy_step" where
  "dep_lift r = dep_ret (map_err DeployContract r)"

definition dep_engine :: "('w, 'a) engine_step \<Rightarrow> ('w, 'a) deploy_step" where
  "dep_engine m d = (case m (dp_engine d) of (r, e) \<Rightarrow> (map_err DeployReconcile r, d\<lparr>dp_engine := e\<rparr>))"

text \<open>\<open>fs::create_dir_all\<close> of the directory of the run.\<close>

definition create_run_directory :: "stable_id \<Rightarrow> ('w, unit) deploy_step" where
  "create_run_directory run_id d =
     (case dep_next d of (f, c) \<Rightarrow>
        if f \<noteq> FfNone then (Err DeployIo, c)
        else (Ok (), c\<lparr>dp_engine := (dp_engine c)\<lparr>en_store :=
          map_option (\<lambda>store. create_directory store (sid_str run_id)) (en_store (dp_engine c))\<rparr>\<rparr>))"

definition load_journal :: "env \<Rightarrow> stable_id \<Rightarrow> ('w, receipt_journal) deploy_step" where
  "load_journal E run_id d =
     (map_err DeployReceipt (case en_store (dp_engine d) of
        None \<Rightarrow> Err ReceiptIo | Some store \<Rightarrow> load_unlocked E store run_id), d)"

definition into_receipt :: "env \<Rightarrow> deployment_draft \<Rightarrow> contract_error + deployment_receipt" where
  "into_receipt E draft =
     and_then (digest_domain_json E ''commonkit.skill-deployment-receipt.v1'' (ser_draft draft)) (\<lambda>i.
       Ok \<lparr>dx_id = i, dx_draft = draft\<rparr>)"

definition verified_draft :: "stable_id \<Rightarrow> deployment_lineage \<Rightarrow> receipt_journal \<Rightarrow> plan \<Rightarrow> deployment_draft" where
  "verified_draft run_id lineage journal plan =
     \<lparr>dd_run_id = run_id, dd_candidate_id = ln_candidate_id lineage, dd_candidate_digest = ln_candidate_digest lineage,
      dd_promotion_receipt_id = ln_promotion_receipt_id lineage,
      dd_apm_provider_inputs_digest = ln_apm_provider_inputs_digest lineage,
      dd_canary_loadout = ln_canary_loadout lineage, dd_reconcile_receipt_id = rc_receipt_id journal,
      dd_reconcile_outcome = OutSucceeded, dd_state = DsVerified, dd_plan = plan\<rparr>"

text \<open>Both \<open>apply\<close> and \<open>recover\<close> end a verified deployment in this way.\<close>

definition finalize_deployment ::
  "env \<Rightarrow> stable_id \<Rightarrow> deployment_draft \<Rightarrow> ('w, deployment_receipt) deploy_step" where
  "finalize_deployment E run_id draft =
     dep_bind (dep_lift (into_receipt E draft)) (\<lambda>receipt.
     dep_bind (dep_lift (canonical_json E (ser_deployment_receipt receipt))) (\<lambda>bytes.
     dep_bind (put_receipt run_id DEPLOYMENT_FILE bytes) (\<lambda>_.
     dep_bind (trust_anchor E run_id ''receipt'' bytes) (\<lambda>_.
       dep_ret (Ok receipt)))))"

definition apply_deployment ::
  "env \<Rightarrow> prepared_deployment \<Rightarrow> stable_id \<Rightarrow> 'w adapter list \<Rightarrow> ('w, deployment_receipt) deploy_step" where
  "apply_deployment E prepared run_id adapters =
     dep_bind (dep_lift (canonical_json E (ser_intent
         \<lparr>it_run_id = run_id, it_plan = pd_plan prepared, it_lineage = pd_lineage prepared\<rparr>))) (\<lambda>intent.
     dep_bind (create_run_directory run_id) (\<lambda>_.
     dep_bind (put_receipt run_id INTENT_FILE intent) (\<lambda>_.
     dep_bind (trust_anchor E run_id ''intent'' intent) (\<lambda>_.
     dep_bind (dep_engine (execute E (pd_plan prepared) run_id adapters)) (\<lambda>outcome.
       if outcome \<noteq> OutSucceeded then dep_ret (Err (CanaryNotVerified outcome))
       else dep_bind (load_journal E run_id) (\<lambda>journal.
         finalize_deployment E run_id
           (verified_draft run_id (pd_lineage prepared) journal (pd_plan prepared))))))))"

section \<open>Loading\<close>

definition validate_deployment_receipt ::
  "env \<Rightarrow> deployment_receipt \<Rightarrow> sha256_digest \<Rightarrow> deployment_error + unit" where
  "validate_deployment_receipt E receipt expected =
     (if dx_id receipt \<noteq> expected then Err DeploymentReceiptMismatch
      else and_then (map_err DeployContract
          (digest_domain_json E ''commonkit.skill-deployment-receipt.v1'' (ser_draft (dx_draft receipt)))) (\<lambda>i.
        ensure (i = dx_id receipt) DeploymentReceiptMismatch))"

definition load_deployment ::
  "env \<Rightarrow> deployment_codec \<Rightarrow> stable_id \<Rightarrow> sha256_digest \<Rightarrow> ('w, deployment_receipt) deploy_step" where
  "load_deployment E K run_id expected =
     dep_bind (read_receipt run_id INTENT_FILE) (\<lambda>intent.
     dep_bind (trust_verify E run_id ''intent'' intent) (\<lambda>_.
     dep_bind (read_receipt run_id DEPLOYMENT_FILE) (\<lambda>bytes.
     dep_bind (trust_verify E run_id ''receipt'' bytes) (\<lambda>_.
     dep_bind (dep_ret (ok_or DeployJson (dk_receipt K bytes))) (\<lambda>receipt.
     dep_bind (dep_ret (validate_deployment_receipt E receipt expected)) (\<lambda>_.
     dep_bind (load_journal E run_id) (\<lambda>journal.
       dep_ret (if rc_plan_id journal \<noteq> pl_id (dd_plan (dx_draft receipt))
           \<or> rc_receipt_id journal \<noteq> dd_reconcile_receipt_id (dx_draft receipt)
         then Err DeploymentReceiptMismatch else Ok receipt))))))))"


section \<open>Recovery\<close>

type_synonym 'w canary_observer = "stable_id \<Rightarrow> operation list \<Rightarrow> 'w \<Rightarrow> adapter_failure + sha256_digest"

definition observe_canary ::
  "'w canary_observer \<Rightarrow> stable_id \<Rightarrow> operation list \<Rightarrow> ('w, adapter_failure + sha256_digest) deploy_step" where
  "observe_canary observer target operations d = (Ok (observer target operations (en_world (dp_engine d))), d)"

definition persist_recovery_receipt ::
  "env \<Rightarrow> stable_id \<Rightarrow> plan \<Rightarrow> reconcile_outcome \<Rightarrow> sha256_digest option \<Rightarrow> ('w, recovery_receipt) deploy_step" where
  "persist_recovery_receipt E run_id plan outcome restored =
     dep_bind (dep_lift (digest_domain_json E ''commonkit.skill-deployment-recovery.v1''
         (ser_recovery_draft run_id (pl_id plan) outcome restored))) (\<lambda>i.
     let receipt = \<lparr>rv_id = i, rv_run_id = run_id, rv_plan_id = pl_id plan, rv_outcome = outcome,
           rv_restored_digest = restored\<rparr> in
     dep_bind (dep_lift (canonical_json E (ser_recovery_receipt receipt))) (\<lambda>bytes.
     dep_bind (put_receipt run_id RECOVERY_FILE bytes) (\<lambda>_.
     dep_bind (trust_anchor E run_id ''recovery'' bytes) (\<lambda>_.
       dep_ret (Ok receipt)))))"

definition recovered_outcome ::
  "env \<Rightarrow> stable_id \<Rightarrow> plan \<Rightarrow> 'w adapter list \<Rightarrow> receipt_state \<Rightarrow> ('w, reconcile_outcome) deploy_step" where
  "recovered_outcome E run_id plan adapters state =
     (case state of
        StRolledBack \<Rightarrow> dep_ret (Ok OutRolledBack)
      | StRollbackFailed \<Rightarrow> dep_ret (Ok OutRollbackFailed)
      | StCanceled \<Rightarrow> dep_ret (Ok OutCanceled)
      | _ \<Rightarrow> dep_engine (recover_run E run_id plan adapters))"

definition restored_digest ::
  "env \<Rightarrow> 'w canary_observer \<Rightarrow> stable_id \<Rightarrow> plan \<Rightarrow> reconcile_outcome \<Rightarrow> ('w, sha256_digest option) deploy_step" where
  "restored_digest E observer run_id plan outcome =
     (case outcome of
        OutRolledBack \<Rightarrow>
          dep_bind (observe_canary observer (pl_target_id plan) (pl_operations plan)) (\<lambda>observed.
            case observed of
              Inl e \<Rightarrow> dep_bind (persist_recovery_receipt E run_id plan OutRollbackFailed None) (\<lambda>_.
                dep_ret (Err (ObserveFailed e)))
            | Inr digest \<Rightarrow>
                if digest \<noteq> pl_observed_digest plan
                then dep_bind (persist_recovery_receipt E run_id plan OutRollbackFailed None) (\<lambda>_.
                  dep_ret (Err RollbackVerificationFailed))
                else dep_ret (Ok (Some digest)))
      | OutCanceled \<Rightarrow> dep_ret (Ok None)
      | OutRollbackFailed \<Rightarrow> dep_ret (Ok None)
      | other \<Rightarrow> dep_ret (Err (UnexpectedRollbackOutcome other)))"

definition recover_deployment ::
  "env \<Rightarrow> deployment_codec \<Rightarrow> stable_id \<Rightarrow> 'w adapter list \<Rightarrow> 'w canary_observer
    \<Rightarrow> ('w, deployment_recovery) deploy_step" where
  "recover_deployment E K run_id adapters observer =
     dep_bind (read_receipt run_id INTENT_FILE) (\<lambda>bytes.
     dep_bind (trust_verify E run_id ''intent'' bytes) (\<lambda>_.
     dep_bind (dep_ret (ok_or DeployJson (dk_intent K bytes))) (\<lambda>intent.
       if it_run_id intent \<noteq> run_id then dep_ret (Err DeploymentReceiptMismatch)
       else dep_bind (load_journal E run_id) (\<lambda>journal.
         if rc_state journal = StSucceeded
         then dep_bind (finalize_deployment E run_id
             (verified_draft run_id (it_lineage intent) journal (it_plan intent))) (\<lambda>receipt.
           dep_ret (Ok (Finalized receipt)))
         else dep_bind (recovered_outcome E run_id (it_plan intent) adapters (rc_state journal)) (\<lambda>outcome.
           dep_bind (restored_digest E observer run_id (it_plan intent) outcome) (\<lambda>restored.
           dep_bind (persist_recovery_receipt E run_id (it_plan intent) outcome restored) (\<lambda>receipt.
             dep_ret (Ok (Recovered receipt)))))))))"

section \<open>Rollback\<close>

definition reversed_ids :: "plan \<Rightarrow> sha256_digest list" where
  "reversed_ids plan = map op_id (rev (pl_operations plan))"

definition persist_rollback_failure ::
  "env \<Rightarrow> stable_id \<Rightarrow> deployment_receipt \<Rightarrow> string \<Rightarrow> ('w, unit) deploy_step" where
  "persist_rollback_failure E run_id deployment error_code =
     (let operation_ids = reversed_ids (dd_plan (dx_draft deployment)) in
      dep_bind (dep_lift (digest_domain_json E ''commonkit.skill-deployment-rollback-failure.v1''
          (ser_failure_draft (dx_id deployment) run_id DsRollbackFailed operation_ids error_code))) (\<lambda>i.
      dep_bind (dep_lift (canonical_json E (ser_failure_receipt
          \<lparr>fr_id = i, fr_deployment_receipt_id = dx_id deployment, fr_run_id = run_id, fr_state = DsRollbackFailed,
           fr_operation_ids = operation_ids, fr_error_code = error_code\<rparr>))) (\<lambda>bytes.
      dep_bind (put_receipt run_id ROLLBACK_FAILURE_FILE bytes) (\<lambda>_.
        trust_anchor E run_id ''rollback-failure'' bytes))))"

definition failed_rollback ::
  "env \<Rightarrow> stable_id \<Rightarrow> deployment_receipt \<Rightarrow> string \<Rightarrow> deployment_error \<Rightarrow> ('w, 'a) deploy_step" where
  "failed_rollback E run_id deployment error_code e =
     dep_bind (persist_rollback_failure E run_id deployment error_code) (\<lambda>_. dep_ret (Err e))"

definition certify_rollback ::
  "env \<Rightarrow> stable_id \<Rightarrow> deployment_receipt \<Rightarrow> ('w, rollback_receipt) deploy_step" where
  "certify_rollback E run_id deployment =
     (let draft = \<lparr>rd_deployment_receipt_id = dx_id deployment,
            rd_candidate_id = dd_candidate_id (dx_draft deployment),
            rd_promotion_receipt_id = dd_promotion_receipt_id (dx_draft deployment),
            rd_canary_loadout = dd_canary_loadout (dx_draft deployment),
            rd_restored_digest = pl_observed_digest (dd_plan (dx_draft deployment)), rd_state = DsRolledBack,
            rd_operation_ids = reversed_ids (dd_plan (dx_draft deployment))\<rparr> in
      dep_bind (dep_lift (digest_domain_json E ''commonkit.skill-deployment-rollback.v1'' (ser_rollback_draft draft))) (\<lambda>i.
      dep_bind (dep_lift (canonical_json E (ser_rollback_receipt \<lparr>rx_id = i, rx_draft = draft\<rparr>))) (\<lambda>bytes.
      dep_bind (put_receipt run_id ROLLBACK_FILE bytes) (\<lambda>_.
      dep_bind (trust_anchor E run_id ''rollback'' bytes) (\<lambda>_.
        dep_ret (Ok \<lparr>rx_id = i, rx_draft = draft\<rparr>))))))"

definition rollback_deployment ::
  "env \<Rightarrow> deployment_codec \<Rightarrow> stable_id \<Rightarrow> sha256_digest \<Rightarrow> 'w adapter list \<Rightarrow> 'w canary_observer
    \<Rightarrow> ('w, rollback_receipt) deploy_step" where
  "rollback_deployment E K run_id deployment_id adapters observer =
     dep_bind (load_deployment E K run_id deployment_id) (\<lambda>deployment.
       let plan = dd_plan (dx_draft deployment) in
       if dd_state (dx_draft deployment) \<noteq> DsVerified \<or> dd_reconcile_outcome (dx_draft deployment) \<noteq> OutSucceeded
       then dep_ret (Err DeploymentNotVerified)
       else dep_bind (dep_engine (rollback_succeeded_run E run_id plan adapters)) (\<lambda>outcome.
         case outcome of
           OutRolledBack \<Rightarrow>
             dep_bind (observe_canary observer (dd_canary_loadout (dx_draft deployment)) (pl_operations plan)) (\<lambda>observed.
               case observed of
                 Inl e \<Rightarrow> failed_rollback E run_id deployment ''skill_deployment_observation_failed'' (ObserveFailed e)
               | Inr digest \<Rightarrow>
                   if digest \<noteq> pl_observed_digest plan
                   then failed_rollback E run_id deployment ''skill_deployment_rollback_verification_failed''
                     RollbackVerificationFailed
                   else certify_rollback E run_id deployment)
         | OutRollbackFailed \<Rightarrow>
             failed_rollback E run_id deployment ''skill_deployment_rollback_failed'' CanaryRollbackFailed
         | other \<Rightarrow> dep_ret (Err (UnexpectedRollbackOutcome other))))"

definition load_rollback ::
  "env \<Rightarrow> deployment_codec \<Rightarrow> stable_id \<Rightarrow> sha256_digest \<Rightarrow> ('w, rollback_receipt) deploy_step" where
  "load_rollback E K run_id expected =
     dep_bind (read_receipt run_id ROLLBACK_FILE) (\<lambda>bytes.
     dep_bind (trust_verify E run_id ''rollback'' bytes) (\<lambda>_.
     dep_bind (dep_ret (ok_or DeployJson (dk_rollback K bytes))) (\<lambda>receipt.
       if rx_id receipt \<noteq> expected then dep_ret (Err DeploymentReceiptMismatch)
       else dep_bind (dep_lift (digest_domain_json E ''commonkit.skill-deployment-rollback.v1''
           (ser_rollback_draft (rx_draft receipt)))) (\<lambda>i.
         dep_ret (if i \<noteq> rx_id receipt then Err DeploymentReceiptMismatch else Ok receipt)))))"

definition load_rollback_failure ::
  "env \<Rightarrow> deployment_codec \<Rightarrow> stable_id \<Rightarrow> sha256_digest \<Rightarrow> ('w, rollback_failure_receipt) deploy_step" where
  "load_rollback_failure E K run_id expected =
     dep_bind (read_receipt run_id ROLLBACK_FAILURE_FILE) (\<lambda>bytes.
     dep_bind (trust_verify E run_id ''rollback-failure'' bytes) (\<lambda>_.
     dep_bind (dep_ret (ok_or DeployJson (dk_failure K bytes))) (\<lambda>receipt.
       if fr_id receipt \<noteq> expected \<or> fr_run_id receipt \<noteq> run_id then dep_ret (Err DeploymentReceiptMismatch)
       else dep_bind (dep_lift (digest_domain_json E ''commonkit.skill-deployment-rollback-failure.v1''
           (ser_failure_draft (fr_deployment_receipt_id receipt) (fr_run_id receipt) (fr_state receipt)
              (fr_operation_ids receipt) (fr_error_code receipt)))) (\<lambda>i.
         dep_ret (if i \<noteq> fr_id receipt then Err DeploymentReceiptMismatch else Ok receipt)))))"


end
