(* ===== verification/Engine_Undo.thy ===== *)
theory Engine_Undo
  imports Recovery_Properties
begin

text \<open>
  Undoing a succeeded run when nothing fails: the adapters accept the rollback of every operation and
  the operating system reports no failure. A run without forward operations is then undone completely.
\<close>

definition rollback_willing :: "'w adapter list \<Rightarrow> operation \<Rightarrow> bool" where
  "rollback_willing adapters x \<longleftrightarrow> (\<exists>a. adapter_for adapters (op_adapter_id x) = Inr a \<and> (\<forall>w. fst (ad_rollback a x w) = Inr ()))"

lemma undo_step [simp]:
  "follows (Some PhVerified) PhRolledBack" "\<not> failure_phase PhRolledBack" "operation_phase_supported sv PhRolledBack"
  by (simp_all add: follows_def failure_phase_def operation_phase_supported_def)

lemma live_rollback_loop:
  assumes "\<forall>x\<in>set ops. rollback_willing adapters x \<and> ph (op_id x) = Some PhVerified" "distinct (map op_id ops)"
    and "n + length ops \<le> 2 ^ 64"
  shows "triple (live E sv n st ph cs) (rollback_loop E adapters ops False)
    (\<lambda>r s. r = False \<and> live E sv (n + length ops) st (all_at ops PhRolledBack ph)
       (cs @ map (Pair CallRollback) ops) s) never"
  using assms
proof (induction ops arbitrary: n ph cs)
  case Nil
  then show ?case by (simp add: triple_ret)
next
  case (Cons x ops)
  have fresh: "op_id x \<notin> op_id ` set ops" using Cons.prems(2) by simp
  have others: "\<forall>y\<in>set ops. rollback_willing adapters y \<and> (ph(op_id x \<mapsto> q)) (op_id y) = ph (op_id y)" for q
    using Cons.prems(1) fresh by (auto simp: image_iff)
  have k: "triple (live E sv (Suc n) st (ph(op_id x \<mapsto> PhRolledBack)) (cs @ [(CallRollback, x)]))
     (rollback_loop E adapters ops False)
     (\<lambda>r s. r = False \<and> live E sv (n + length (x # ops)) st (all_at (x # ops) PhRolledBack ph)
        (cs @ map (Pair CallRollback) (x # ops)) s) never"
    using Cons.IH [of "ph(op_id x \<mapsto> PhRolledBack)" "Suc n" "cs @ [(CallRollback, x)]"] Cons.prems others
    by (simp add: all_at_Cons [OF fresh] del: fun_upd_apply)
  obtain a where a: "adapter_for adapters (op_adapter_id x) = Inr a" "\<forall>w. fst (ad_rollback a x w) = Inr ()"
    using Cons.prems(1) by (auto simp: rollback_willing_def)
  show ?case
    unfolding rollback_loop.simps
    by (rule live_answer [where act = ad_rollback, OF a]) (use Cons.prems k in \<open>auto intro!: live_record [where ph = ph]\<close>)
qed

lemma all_at_same: "set xs = set ys \<Longrightarrow> all_at xs q ph = all_at ys q ph"
  by (simp add: all_at_def)

lemma all_at_twice: "all_at xs q (all_at xs p ph) = all_at xs q ph"
  by (auto simp: all_at_def fun_eq_iff)

lemma live_rollback:
  assumes "\<forall>x\<in>set ops. rollback_willing adapters x \<and> ph (op_id x) = Some PhVerified" "distinct (map op_id ops)"
    and "n + length ops + 2 \<le> 2 ^ 64"
  shows "triple (live E sv n StSucceeded ph cs)
    (and_do (step_transition E StRollingBack) (and_do (persist E) (rollback_from_rolling_back E adapters ops)))
    (\<lambda>r s. r = OutRolledBack \<and> live E sv (n + length ops + 2) StRolledBack (all_at ops PhRolledBack ph)
       (cs @ map (Pair CallRollback) (rev ops)) s) never"
proof -
  have loop: "triple (live E sv (Suc n) StRollingBack ph cs) (rollback_loop E adapters (rev ops) False)
    (\<lambda>r s. r = False \<and> live E sv (Suc n + length ops) StRollingBack (all_at ops PhRolledBack ph)
       (cs @ map (Pair CallRollback) (rev ops)) s) never"
    using live_rollback_loop [of "rev ops" adapters ph "Suc n" E sv StRollingBack cs] assms
      all_at_same [of "rev ops" ops PhRolledBack ph] by (simp add: rev_map [symmetric])
  have finish: "triple (live E sv (Suc n + length ops) StRollingBack ph' cs')
      (and_do (step_transition E StRolledBack) (and_do (persist E) (ret OutRolledBack)))
      (\<lambda>r s. r = OutRolledBack \<and> live E sv (n + length ops + 2) StRolledBack ph' cs' s) never" for ph' cs'
    using assms(3) by (intro live_transition) (auto simp: receipt_state_supported_def intro: triple_ret)
  have "triple (live E sv (Suc n) StRollingBack ph cs) (rollback_from_rolling_back E adapters ops)
    (\<lambda>r s. r = OutRolledBack \<and> live E sv (n + length ops + 2) StRolledBack (all_at ops PhRolledBack ph)
       (cs @ map (Pair CallRollback) (rev ops)) s) never"
    unfolding rollback_from_rolling_back_def
    by (rule live_then [OF loop]) (use finish in simp)
  then show ?thesis
    by (rule live_transition) (use assms(3) in \<open>auto simp: receipt_state_supported_def\<close>)
qed


section \<open>The whole operation\<close>

lemma own_receipt_binds:
  assumes "journal_header j = (pl_schema_version plan, pl_contract_version plan, pl_id plan, pl_target_id plan,
      pl_desired_digest plan, pl_observed_digest plan, pl_policy_digest plan, pl_bindings plan)"
    and "rc_package_authorization j = None" "\<not> list_ex is_package_operation (pl_operations plan)"
  shows "validate_receipt_plan_binding E plan j = Inr ()"
  using assms by (simp add: validate_receipt_plan_binding_def journal_header_def Let_def)

lemma execute_header:
  assumes "execute E plan run_id adapters s = (Inr outcome, t)"
  shows "journal_header (en_journal t) = (pl_schema_version plan, pl_contract_version plan, pl_id plan, pl_target_id plan,
      pl_desired_digest plan, pl_observed_digest plan, pl_policy_digest plan, pl_bindings plan)"
proof -
  obtain w j where j: "journal_for_plan E run_id plan = Inr j"
    and x: "execute_preflighted E plan adapters (s\<lparr>en_world := w, en_journal := j\<rparr>) = (Inr outcome, t)"
    using execute_split [OF assms] by blast
  show ?thesis
    using growsD(3) [OF grows_execute_preflighted x] new_journal_shape(6) [OF j [unfolded journal_for_plan_def]]
    by simp
qed

lemma undone_live:
  fixes s u :: "'w engine"
  assumes e: "digests_ok E" "validate_plan E plan = Inr ()" "\<not> list_ex is_package_operation (pl_operations plan)"
    "\<forall>x\<in>set (pl_operations plan). willing adapters x" "length (pl_operations plan) \<le> 2 ^ 60"
    and s: "en_store s = Some store" "unused_run store run_id" "en_faults s = []"
    and x: "execute E plan run_id adapters s = (Inr OutSucceeded, t)"
    and ops: "\<not> forward_capable (pl_operations plan)" "\<forall>x\<in>set (pl_operations plan). rollback_willing adapters x"
    and u: "en_store u = en_store t" "en_faults u = []"
  shows "\<exists>v k. rollback_succeeded_run E run_id plan adapters u = (Inr OutRolledBack, v)
    \<and> live E (pl_schema_version plan) k StRolledBack (all_at (pl_operations plan) PhRolledBack (\<lambda>_. None))
        (call_trace u @ map (Pair CallRollback) (rev (pl_operations plan))) v"
proof -
  let ?ops = "pl_operations plan" and ?j = "en_journal t"
  obtain k where l: "live E (pl_schema_version plan) k StSucceeded (all_at ?ops PhVerified (\<lambda>_. None))
      (call_trace s @ success_trace plan) t" "rc_run_id ?j = run_id"
    using execute_live [OF e s] x by auto
  obtain store' rs where k: "en_store t = Some store'" "store_holds E store' run_id rs" "rs \<noteq> []" "last rs = ?j"
    using l by (auto simp: live_def kept_def in_step_def)
  have load: "load_unlocked E store' run_id = Inr ?j" using load_store_holds [OF k(2,3)] k(4) by simp
  have bind: "validate_receipt_plan_binding E plan ?j = Inr ()"
    using own_receipt_binds [OF execute_header [OF x] _ e(3)] l(1) by (simp add: live_def)
  obtain w where w: "preflight_adapters plan adapters u = (Inr (), u\<lparr>en_world := w\<rparr>)"
    using preflight_willing [OF e(4)] by (auto simp: preflight_adapters_def)
  have b: "entries t \<le> Suc (entry_bound plan)" by (rule execute_entries [OF x])
  let ?v = "u\<lparr>en_world := w, en_journal := ?j\<rparr>"
  have p: "live E (pl_schema_version plan) (entries t) StSucceeded (all_at ?ops PhVerified (\<lambda>_. None)) (call_trace u) ?v"
    using l(1) u by (auto simp: live_def kept_def entries_def call_trace_def)
  have n: "entries t + length ?ops + 2 \<le> 2 ^ 64" using b e(5) by (simp add: entry_bound_def)
  have a: "\<forall>x\<in>set ?ops. rollback_willing adapters x \<and> all_at ?ops PhVerified (\<lambda>_. None) (op_id x) = Some PhVerified"
    using ops(2) by (simp add: all_at_def)
  from live_rollback [OF a validated_plan(1) [OF e(2)] n, unfolded triple_def, rule_format, OF p]
  obtain v where v: "and_do (step_transition E StRollingBack) (and_do (persist E)
       (rollback_from_rolling_back E adapters ?ops)) ?v = (Inr OutRolledBack, v)"
    "live E (pl_schema_version plan) (entries t + length ?ops + 2) StRolledBack
       (all_at ?ops PhRolledBack (all_at ?ops PhVerified (\<lambda>_. None))) (call_trace u @ map (Pair CallRollback) (rev ?ops)) v"
    by (auto simp: never_def split: prod.splits sum.splits)
  have "rc_state ?j = StSucceeded" using l(1) by (simp add: live_def)
  then have "rollback_succeeded_run E run_id plan adapters u = (Inr OutRolledBack, v)"
    using v(1) e(2) ops(1) load u(1) k(1) bind w l(2)
    by (simp add: rollback_succeeded_run_def rollback_succeeded_run_with_journal_locked_def load_validated_run_def
        load_run_def ensure_current_run_def lift_result_def and_do_def bind_step_def ret_def set_journal_def)
  then show ?thesis using v(2) by (auto simp: all_at_twice)
qed


section \<open>The property\<close>

lemma sample_undoable: "rollback_willing [sample_adapter] sample_exact"
  by (simp add: rollback_willing_def adapter_for_def sample_adapter_def sample_exact_def sample_op_def)

lemma sample_exact_capability: "op_recovery_capability sample_exact = ExactRollback"
  by (simp add: sample_exact_def sample_op_def)

lemma exact_plan_fits:
  "\<not> list_ex is_package_operation (pl_operations exact_plan)" "\<forall>x\<in>set (pl_operations exact_plan). willing [sample_adapter] x"
  "length (pl_operations exact_plan) \<le> 2 ^ 60" "\<not> forward_capable (pl_operations exact_plan)"
  "\<forall>x\<in>set (pl_operations exact_plan). rollback_willing [sample_adapter] x"
  by (simp_all add: forward_capable_def sample_exact_capability sample_no_package [simplified]
      sample_willing [simplified] sample_undoable)

text \<open>
  C8: A succeeded run without forward-only operations can be undone, in the same process or after a
  restart: with adapters that accept every call and no failure of the operating system, undoing it
  returns \<open>RolledBack\<close>, calls \<open>rollback\<close> once for every operation, in reverse order, and leaves a durable
  receipt of the run in the state \<open>RolledBack\<close> with every operation rolled back.
\<close>

theorem succeeded_run_undone:
  fixes s u :: "'w engine"
  assumes "digests_ok E" "validate_plan E plan = Inr ()" "\<not> list_ex is_package_operation (pl_operations plan)"
    and "\<forall>x\<in>set (pl_operations plan). willing adapters x" "length (pl_operations plan) \<le> 2 ^ 60"
    and "en_store s = Some store" "unused_run store run_id" "en_faults s = []"
    and "execute E plan run_id adapters s = (Inr OutSucceeded, t)"
    and "\<not> forward_capable (pl_operations plan)" "\<forall>x\<in>set (pl_operations plan). rollback_willing adapters x"
    and "en_store u = en_store t" "en_faults u = []"
  shows "\<exists>v store'. rollback_succeeded_run E run_id plan adapters u = (Inr OutRolledBack, v)
    \<and> map (\<lambda>c. (lc_kind c, lc_operation c)) (en_calls v) = map (\<lambda>c. (lc_kind c, lc_operation c)) (en_calls u)
        @ map (Pair CallRollback) (rev (pl_operations plan))
    \<and> en_store v = Some store' \<and> load_unlocked E store' (rc_run_id (en_journal v)) = Inr (en_journal v)
    \<and> rc_state (en_journal v) = StRolledBack
    \<and> (\<forall>x\<in>set (pl_operations plan). phase_of (en_journal v) (op_id x) = Some PhRolledBack)"
proof -
  obtain v k where v: "rollback_succeeded_run E run_id plan adapters u = (Inr OutRolledBack, v)"
    "live E (pl_schema_version plan) k StRolledBack (all_at (pl_operations plan) PhRolledBack (\<lambda>_. None))
        (call_trace u @ map (Pair CallRollback) (rev (pl_operations plan))) v"
    using undone_live [OF assms] by blast
  obtain store' rs where k: "en_store v = Some store'" "store_holds E store' (rc_run_id (en_journal v)) rs" "rs \<noteq> []"
    "last rs = en_journal v" using v(2) by (auto simp: live_def kept_def in_step_def)
  have "load_unlocked E store' (rc_run_id (en_journal v)) = Inr (en_journal v)"
    using load_store_holds [OF k(2,3)] k(4) by simp
  with v k(1) show ?thesis by (auto simp: live_def call_trace_def all_at_def)
qed

theorem succeeded_run_undone_witness:
  "\<exists>t v. execute sample_env exact_plan sample_run [sample_adapter] sample_engine = (Inr OutSucceeded, t)
    \<and> rollback_succeeded_run sample_env sample_run exact_plan [sample_adapter] (sample_engine\<lparr>en_store := en_store t\<rparr>)
        = (Inr OutRolledBack, v)
    \<and> map (\<lambda>c. (lc_kind c, lc_operation c)) (en_calls v) = [(CallRollback, sample_exact)]"
proof -
  obtain t where t: "execute sample_env exact_plan sample_run [sample_adapter] sample_engine = (Inr OutSucceeded, t)"
    using execute_live [OF sample_digests_ok exact_plan_valid exact_plan_fits(1-3), of sample_engine "\<lambda>_. None" sample_run]
    by auto
  show ?thesis
    using t succeeded_run_undone [OF sample_digests_ok exact_plan_valid exact_plan_fits(1-3) _ _ _ t exact_plan_fits(4,5),
        of "\<lambda>_. None" "sample_engine\<lparr>en_store := en_store t\<rparr>"] by auto
qed

end
