(* ===== verification/Deployment_Properties.thy ===== *)
theory Deployment_Properties
  imports Reconcile_Deployment Engine_Undo
begin

text \<open>
  The properties of a skill deployment: what a deployment stores it loads, a deployment interrupted
  before its receipt was complete is finalized, and a rollback is certified only when it happened.
\<close>

section \<open>Steps without failures\<close>

lemma dep_lift_Ok: "r = Inr x \<Longrightarrow> dep_lift r d = (Inr x, d)"
  by (simp add: dep_lift_def dep_ret_def)

lemma canonical_json_Ok: "env_jcs E v = Some b \<Longrightarrow> canonical_json E v = Inr b"
  by (simp add: canonical_json_def)

lemma put_receipt_ok:
  assumes "dp_faults d = []" "dp_receipts d (sid_str run_id, name) \<in> {None, Some bytes}"
  shows "put_receipt run_id name bytes d
    = (Inr (), d\<lparr>dp_receipts := (dp_receipts d)((sid_str run_id, name) \<mapsto> bytes)\<rparr>)"
  using assms by (auto simp: put_receipt_def dep_next_def persist_receipt_def)

lemma trust_anchor_ok:
  assumes "dp_faults d = []" "dp_anchors d (anchor_path run_id label) \<in> {None, Some (hmac_sha256 E (dp_key d) bytes)}"
  shows "trust_anchor E run_id label bytes d
    = (Inr (), d\<lparr>dp_anchors := (dp_anchors d)(anchor_path run_id label \<mapsto> hmac_sha256 E (dp_key d) bytes)\<rparr>)"
  using assms by (auto simp: trust_anchor_def dep_next_def persist_receipt_def)

lemma read_receipt_ok:
  "dp_faults d = [] \<Longrightarrow> dp_receipts d (sid_str run_id, name) = Some b \<Longrightarrow> read_receipt run_id name d = (Inr b, d)"
  by (simp add: read_receipt_def dep_next_def)

lemma trust_verify_ok:
  "dp_faults d = [] \<Longrightarrow> dp_anchors d (anchor_path run_id label) = Some (hmac_sha256 E (dp_key d) bytes) \<Longrightarrow>
   trust_verify E run_id label bytes d = (Inr (), d)"
  by (simp add: trust_verify_def dep_next_def)

lemma into_receipt_total: "digests_ok E \<Longrightarrow> \<exists>r. into_receipt E draft = Inr r \<and> dx_draft r = draft"
  using digest_domain_json_not_Err
  by (cases "digest_domain_json E ''commonkit.skill-deployment-receipt.v1'' (ser_draft draft)")
    (auto simp: into_receipt_def)

lemma into_receipt_valid: "into_receipt E draft = Inr r \<Longrightarrow> validate_deployment_receipt E r (dx_id r) = Inr ()"
  by (auto simp: into_receipt_def validate_deployment_receipt_def and_then_def split: sum.splits)

lemma file_names [simp]:
  "INTENT_FILE \<noteq> DEPLOYMENT_FILE" "DEPLOYMENT_FILE \<noteq> INTENT_FILE"
  "ROLLBACK_FILE \<noteq> INTENT_FILE" "ROLLBACK_FILE \<noteq> DEPLOYMENT_FILE"
  by (simp_all add: INTENT_FILE_def DEPLOYMENT_FILE_def ROLLBACK_FILE_def)

lemma anchor_names [simp]:
  "anchor_path run_id ''intent'' \<noteq> anchor_path run_id ''receipt''"
  "anchor_path run_id ''receipt'' \<noteq> anchor_path run_id ''intent''"
  "anchor_path run_id ''rollback'' \<noteq> anchor_path run_id ''intent''"
  "anchor_path run_id ''rollback'' \<noteq> anchor_path run_id ''receipt''"
  by (simp_all add: anchor_path_def)

lemma finalize_deployment_ok:
  assumes "dp_faults d = []" "into_receipt E draft = Inr receipt"
    and "env_jcs E (ser_deployment_receipt receipt) = Some bytes"
    and "dp_receipts d (sid_str run_id, DEPLOYMENT_FILE) \<in> {None, Some bytes}"
    and "dp_anchors d (anchor_path run_id ''receipt'') \<in> {None, Some (hmac_sha256 E (dp_key d) bytes)}"
  shows "finalize_deployment E run_id draft d = (Inr receipt, d\<lparr>
      dp_receipts := (dp_receipts d)((sid_str run_id, DEPLOYMENT_FILE) \<mapsto> bytes),
      dp_anchors := (dp_anchors d)(anchor_path run_id ''receipt'' \<mapsto> hmac_sha256 E (dp_key d) bytes)\<rparr>)"
  using assms
  by (simp add: finalize_deployment_def dep_bind_def dep_lift_Ok canonical_json_Ok put_receipt_ok trust_anchor_ok dep_ret_def)

lemma finalize_deployment_torn:
  assumes "dp_faults d = []" "into_receipt E draft = Inr receipt"
    and "env_jcs E (ser_deployment_receipt receipt) = Some bytes"
    and "dp_receipts d (sid_str run_id, DEPLOYMENT_FILE) = Some torn" "torn \<noteq> bytes"
  shows "finalize_deployment E run_id draft d = (Inl DeploymentReceiptMismatch, d)"
proof -
  have "put_receipt run_id DEPLOYMENT_FILE bytes d = (Inl DeploymentReceiptMismatch, d)"
    using assms(1,4,5) by (auto simp: put_receipt_def dep_next_def persist_receipt_def fun_upd_idem)
  then show ?thesis
    by (simp add: finalize_deployment_def dep_bind_def dep_lift_Ok canonical_json_Ok assms(2,3))
qed

section \<open>A deployment that succeeds\<close>

lemma created_unused: "unused_run store run_id \<Longrightarrow> unused_run (create_directory store (sid_str run_id)) run_id"
  by (auto simp: unused_run_def create_directory_def split: option.splits)

text \<open>What a successful deployment leaves: its two files, each anchored, and the journal of its run.\<close>

definition deployed :: "env \<Rightarrow> prepared_deployment \<Rightarrow> stable_id \<Rightarrow> deployment_receipt \<Rightarrow> string \<Rightarrow> string \<Rightarrow> 'w deployment \<Rightarrow> bool" where
  "deployed E prepared run_id receipt intent bytes d \<longleftrightarrow>
     dp_faults d = []
     \<and> env_jcs E (ser_intent \<lparr>it_run_id = run_id, it_plan = pd_plan prepared, it_lineage = pd_lineage prepared\<rparr>) = Some intent
     \<and> env_jcs E (ser_deployment_receipt receipt) = Some bytes
     \<and> into_receipt E (verified_draft run_id (pd_lineage prepared) (en_journal (dp_engine d)) (pd_plan prepared)) = Inr receipt
     \<and> dp_receipts d (sid_str run_id, INTENT_FILE) = Some intent
     \<and> dp_anchors d (anchor_path run_id ''intent'') = Some (hmac_sha256 E (dp_key d) intent)
     \<and> dp_receipts d (sid_str run_id, DEPLOYMENT_FILE) = Some bytes
     \<and> dp_anchors d (anchor_path run_id ''receipt'') = Some (hmac_sha256 E (dp_key d) bytes)
     \<and> dp_receipts d (sid_str run_id, ROLLBACK_FILE) = None \<and> dp_anchors d (anchor_path run_id ''rollback'') = None
     \<and> rc_state (en_journal (dp_engine d)) = StSucceeded
     \<and> rc_plan_id (en_journal (dp_engine d)) = pl_id (pd_plan prepared)
     \<and> (\<exists>store. en_store (dp_engine d) = Some store
          \<and> load_unlocked E store run_id = Inr (en_journal (dp_engine d)))"


lemma execute_plan_id:
  "execute E plan run_id adapters s = (Inr outcome, t) \<Longrightarrow> rc_plan_id (en_journal t) = pl_id plan"
  using execute_header [of E plan run_id adapters s outcome t] by (simp add: journal_header_def)

lemma apply_deployment_ok:
  fixes d :: "'w deployment"
  assumes e: "digests_ok E" "validate_plan E (pd_plan prepared) = Inr ()"
    "\<not> list_ex is_package_operation (pl_operations (pd_plan prepared))"
    "\<forall>x\<in>set (pl_operations (pd_plan prepared)). willing adapters x" "length (pl_operations (pd_plan prepared)) \<le> 2 ^ 60"
    and s: "en_store (dp_engine d) = Some store" "unused_run store run_id" "en_faults (dp_engine d) = []"
    and d: "dp_faults d = []" "\<forall>name. dp_receipts d (sid_str run_id, name) = None"
    "\<forall>label. dp_anchors d (anchor_path run_id label) = None"
  shows "\<exists>receipt intent bytes d'. apply_deployment E prepared run_id adapters d = (Inr receipt, d')
    \<and> deployed E prepared run_id receipt intent bytes d'
    \<and> (\<exists>s store'. en_store s = Some store' \<and> unused_run store' run_id \<and> en_faults s = []
         \<and> execute E (pd_plan prepared) run_id adapters s = (Inr OutSucceeded, dp_engine d'))"
proof -
  let ?intent = "ser_intent \<lparr>it_run_id = run_id, it_plan = pd_plan prepared, it_lineage = pd_lineage prepared\<rparr>"
  have total: "\<exists>b. env_jcs E v = Some b" for v using e(1) by (auto simp: digests_ok_def jcs_total_def)
  obtain intent where i: "env_jcs E ?intent = Some intent" using total by blast
  let ?s = "(dp_engine d)\<lparr>en_store := Some (create_directory store (sid_str run_id))\<rparr>"
  obtain t k where t: "execute E (pd_plan prepared) run_id adapters ?s = (Inr OutSucceeded, t)"
    "live E (pl_schema_version (pd_plan prepared)) k StSucceeded
       (all_at (pl_operations (pd_plan prepared)) PhVerified (\<lambda>_. None)) (call_trace ?s @ success_trace (pd_plan prepared)) t"
    "rc_run_id (en_journal t) = run_id"
    using execute_live [OF e, of ?s "create_directory store (sid_str run_id)" run_id] created_unused [OF s(2)] s by auto
  obtain store' rs where l: "en_store t = Some store'" "store_holds E store' run_id rs" "rs \<noteq> []" "last rs = en_journal t"
    using t(2,3) by (auto simp: live_def kept_def in_step_def)
  have load: "load_unlocked E store' run_id = Inr (en_journal t)" using load_store_holds [OF l(2,3)] l(4) by simp
  let ?draft = "verified_draft run_id (pd_lineage prepared) (en_journal t) (pd_plan prepared)"
  obtain receipt where r: "into_receipt E ?draft = Inr receipt" using into_receipt_total [OF e(1)] by blast
  obtain bytes where b: "env_jcs E (ser_deployment_receipt receipt) = Some bytes" using total by blast
  let ?c = "d\<lparr>dp_receipts := (dp_receipts d)((sid_str run_id, INTENT_FILE) \<mapsto> intent),
      dp_anchors := (dp_anchors d)(anchor_path run_id ''intent'' \<mapsto> hmac_sha256 E (dp_key d) intent),
      dp_engine := t\<rparr>"
  have "apply_deployment E prepared run_id adapters d = finalize_deployment E run_id ?draft ?c"
    using s d i t(1) l(1) load
    by (simp add: apply_deployment_def dep_bind_def dep_lift_Ok canonical_json_Ok create_run_directory_def dep_next_def
        put_receipt_ok trust_anchor_ok dep_engine_def load_journal_def)
  moreover have "finalize_deployment E run_id ?draft ?c = (Inr receipt, ?c\<lparr>
      dp_receipts := (dp_receipts ?c)((sid_str run_id, DEPLOYMENT_FILE) \<mapsto> bytes),
      dp_anchors := (dp_anchors ?c)(anchor_path run_id ''receipt'' \<mapsto> hmac_sha256 E (dp_key ?c) bytes)\<rparr>)"
    by (rule finalize_deployment_ok) (use d r b in \<open>simp_all\<close>)
  ultimately have a: "apply_deployment E prepared run_id adapters d = (Inr receipt, ?c\<lparr>
      dp_receipts := (dp_receipts ?c)((sid_str run_id, DEPLOYMENT_FILE) \<mapsto> bytes),
      dp_anchors := (dp_anchors ?c)(anchor_path run_id ''receipt'' \<mapsto> hmac_sha256 E (dp_key ?c) bytes)\<rparr>)"
    (is "_ = (_, ?d')") by (rule trans)
  have "deployed E prepared run_id receipt intent bytes ?d'"
    using d i b r t(2) l(1) load execute_plan_id [OF t(1)] by (auto simp: deployed_def live_def)
  moreover have "execute E (pd_plan prepared) run_id adapters ?s = (Inr OutSucceeded, dp_engine ?d')" using t(1) by simp
  ultimately show ?thesis
    using a created_unused [OF s(2)] s(3)
    by (intro exI [of _ receipt] exI [of _ intent] exI [of _ bytes] exI [of _ ?d'] conjI exI [of _ ?s]
        exI [of _ "create_directory store (sid_str run_id)"]) simp_all
qed

section \<open>Properties\<close>

text \<open>
  C10: A deployment that meets no failure succeeds and can be loaded again: the receipt names the run, the lineage
  and the plan it was prepared with and the journal of the run, and loading it by its identity, from the
  bytes and anchors that were written, returns it unchanged.
\<close>

theorem deployment_loads_back:
  fixes d :: "'w deployment"
  assumes "digests_ok E" "validate_plan E (pd_plan prepared) = Inr ()"
    "\<not> list_ex is_package_operation (pl_operations (pd_plan prepared))"
    "\<forall>x\<in>set (pl_operations (pd_plan prepared)). willing adapters x" "length (pl_operations (pd_plan prepared)) \<le> 2 ^ 60"
    and "en_store (dp_engine d) = Some store" "unused_run store run_id" "en_faults (dp_engine d) = []"
    and "dp_faults d = []" "\<forall>name. dp_receipts d (sid_str run_id, name) = None"
    "\<forall>label. dp_anchors d (anchor_path run_id label) = None"
  shows "\<exists>receipt d'. apply_deployment E prepared run_id adapters d = (Inr receipt, d')
    \<and> dx_draft receipt = verified_draft run_id (pd_lineage prepared) (en_journal (dp_engine d')) (pd_plan prepared)
    \<and> (\<forall>K. reads_back (env_jcs E) (dk_receipt K) ser_deployment_receipt receipt
         \<longrightarrow> load_deployment E K run_id (dx_id receipt) d' = (Inr receipt, d'))"
proof -
  obtain receipt intent bytes d' where a: "apply_deployment E prepared run_id adapters d = (Inr receipt, d')"
    and p: "deployed E prepared run_id receipt intent bytes d'"
    using apply_deployment_ok [OF assms] by blast
  then have draft: "dx_draft receipt = verified_draft run_id (pd_lineage prepared) (en_journal (dp_engine d')) (pd_plan prepared)"
    by (auto simp: deployed_def into_receipt_def and_then_def split: sum.splits)
  have v: "validate_deployment_receipt E receipt (dx_id receipt) = Inr ()"
    using p into_receipt_valid by (auto simp: deployed_def)
  have "load_deployment E K run_id (dx_id receipt) d' = (Inr receipt, d')"
    if "reads_back (env_jcs E) (dk_receipt K) ser_deployment_receipt receipt" for K
    using p that v draft
    by (auto simp: load_deployment_def deployed_def dep_bind_def read_receipt_ok trust_verify_ok reads_back_def dep_ret_def
        load_journal_def verified_draft_def)
  with a draft show ?thesis by blast
qed

text \<open>
  C11: A deployment interrupted after its run had succeeded is finished by recovery: whether the receipt
  file, its anchor, or both are missing, recovery returns the receipt the deployment would have returned
  and leaves the same files. A torn receipt file, which a write cut short leaves behind, blocks it:
  recovery then fails with a mismatch and changes nothing.
\<close>

theorem interrupted_deployment_finalized:
  fixes d :: "'w deployment"
  assumes "digests_ok E" "validate_plan E (pd_plan prepared) = Inr ()"
    "\<not> list_ex is_package_operation (pl_operations (pd_plan prepared))"
    "\<forall>x\<in>set (pl_operations (pd_plan prepared)). willing adapters x" "length (pl_operations (pd_plan prepared)) \<le> 2 ^ 60"
    and "en_store (dp_engine d) = Some store" "unused_run store run_id" "en_faults (dp_engine d) = []"
    and "dp_faults d = []" "\<forall>name. dp_receipts d (sid_str run_id, name) = None"
    "\<forall>label. dp_anchors d (anchor_path run_id label) = None"
  shows "\<exists>receipt d' bytes. apply_deployment E prepared run_id adapters d = (Inr receipt, d')
    \<and> dp_receipts d' (sid_str run_id, DEPLOYMENT_FILE) = Some bytes
    \<and> (\<forall>K observer. reads_back (env_jcs E) (dk_intent K) ser_intent
           \<lparr>it_run_id = run_id, it_plan = pd_plan prepared, it_lineage = pd_lineage prepared\<rparr> \<longrightarrow>
         (\<forall>content\<in>{None, Some bytes}. \<forall>anchor\<in>{None, dp_anchors d' (anchor_path run_id ''receipt'')}.
            recover_deployment E K run_id adapters observer
              (d'\<lparr>dp_receipts := (dp_receipts d')((sid_str run_id, DEPLOYMENT_FILE) := content),
                  dp_anchors := (dp_anchors d')(anchor_path run_id ''receipt'' := anchor)\<rparr>)
              = (Inr (Finalized receipt), d'))
         \<and> (\<forall>n<length bytes.
            let torn = d'\<lparr>dp_receipts := (dp_receipts d')((sid_str run_id, DEPLOYMENT_FILE) \<mapsto> take n bytes)\<rparr> in
            recover_deployment E K run_id adapters observer torn = (Inl DeploymentReceiptMismatch, torn)))"
proof -
  let ?i = "\<lparr>it_run_id = run_id, it_plan = pd_plan prepared, it_lineage = pd_lineage prepared\<rparr>"
  obtain receipt intent bytes d' where a: "apply_deployment E prepared run_id adapters d = (Inr receipt, d')"
    and p: "deployed E prepared run_id receipt intent bytes d'"
    using apply_deployment_ok [OF assms] by blast
  let ?c = "\<lambda>content anchor. d'\<lparr>dp_receipts := (dp_receipts d')((sid_str run_id, DEPLOYMENT_FILE) := content),
      dp_anchors := (dp_anchors d')(anchor_path run_id ''receipt'' := anchor)\<rparr>"
  let ?draft = "verified_draft run_id (pd_lineage prepared) (en_journal (dp_engine d')) (pd_plan prepared)"
  have step: "recover_deployment E K run_id adapters observer (?c content anchor)
      = dep_bind (finalize_deployment E run_id ?draft) (\<lambda>receipt. dep_ret (Ok (Finalized receipt))) (?c content anchor)"
    if "reads_back (env_jcs E) (dk_intent K) ser_intent ?i" for K observer content anchor
    using p that
    by (auto simp: recover_deployment_def deployed_def dep_bind_def read_receipt_ok trust_verify_ok reads_back_def dep_ret_def
        load_journal_def)
  have fin: "dep_bind (finalize_deployment E run_id ?draft) (\<lambda>receipt. dep_ret (Ok (Finalized receipt))) (?c content anchor)
      = (Inr (Finalized receipt), d')"
    if "content \<in> {None, Some bytes}" "anchor \<in> {None, dp_anchors d' (anchor_path run_id ''receipt'')}" for content anchor
    using p that
    by (subst dep_bind_def, subst finalize_deployment_ok [where receipt = receipt and bytes = bytes])
      (auto simp: deployed_def dep_ret_def fun_upd_idem)
  have torn: "dep_bind (finalize_deployment E run_id ?draft) (\<lambda>receipt. dep_ret (Ok (Finalized receipt)))
        (?c (Some (take n bytes)) anchor) = (Inl DeploymentReceiptMismatch, ?c (Some (take n bytes)) anchor)"
    if "n < length bytes" for n anchor
    using p that
    by (subst dep_bind_def, subst finalize_deployment_torn [where receipt = receipt and bytes = bytes and torn = "take n bytes"])
      (auto simp: deployed_def take_all_iff)
  have blocked: "recover_deployment E K run_id adapters observer
        (d'\<lparr>dp_receipts := (dp_receipts d')((sid_str run_id, DEPLOYMENT_FILE) \<mapsto> take n bytes)\<rparr>)
      = (Inl DeploymentReceiptMismatch,
         d'\<lparr>dp_receipts := (dp_receipts d')((sid_str run_id, DEPLOYMENT_FILE) \<mapsto> take n bytes)\<rparr>)"
    if "reads_back (env_jcs E) (dk_intent K) ser_intent ?i" "n < length bytes" for K observer n
    using step [OF that(1), where observer = observer and content = "Some (take n bytes)"
        and anchor = "dp_anchors d' (anchor_path run_id ''receipt'')"]
      torn [OF that(2), of "dp_anchors d' (anchor_path run_id ''receipt'')"] by simp
  have "dp_receipts d' (sid_str run_id, DEPLOYMENT_FILE) = Some bytes" using p by (simp add: deployed_def)
  with a step fin blocked show ?thesis
    by (intro exI [of _ receipt] exI [of _ d'] exI [of _ bytes]) (simp add: Let_def)
qed


section \<open>A sample deployment\<close>

definition sample_lineage :: deployment_lineage where
  "sample_lineage = \<lparr>ln_candidate_id = StableId ''review-skill'', ln_candidate_digest = sample_digest (CHR ''4'') (CHR ''0''),
     ln_promotion_receipt_id = sample_digest (CHR ''4'') (CHR ''1''),
     ln_promoted_source_digest = sample_digest (CHR ''4'') (CHR ''2''), ln_apm_package = StableId ''review-package'',
     ln_apm_provider_inputs_digest = sample_digest (CHR ''4'') (CHR ''3''), ln_canary_loadout = StableId ''laptop''\<rparr>"

definition sample_prepared :: prepared_deployment where
  "sample_prepared = \<lparr>pd_plan = exact_plan, pd_lineage = sample_lineage\<rparr>"

definition sample_deployment :: "unit deployment" where
  "sample_deployment = \<lparr>dp_engine = sample_engine, dp_receipts = \<lambda>_. None, dp_anchors = \<lambda>_. None,
     dp_key = replicate 32 (CHR ''k''), dp_faults = []\<rparr>"

lemma sample_deployment_sel [simp]:
  "dp_engine sample_deployment = sample_engine" "dp_faults sample_deployment = []"
  "dp_receipts sample_deployment f = None" "dp_anchors sample_deployment a = None"
  "pd_plan sample_prepared = exact_plan"
  by (simp_all add: sample_deployment_def sample_prepared_def)

lemmas sample_deployment_fits = sample_digests_ok exact_plan_valid exact_plan_fits(1-3)

theorem deployment_loads_back_witness:
  "\<exists>receipt d' K. apply_deployment sample_env sample_prepared sample_run [sample_adapter] sample_deployment = (Inr receipt, d')
    \<and> load_deployment sample_env K sample_run (dx_id receipt) d' = (Inr receipt, d')"
proof -
  obtain receipt d' where a: "apply_deployment sample_env sample_prepared sample_run [sample_adapter] sample_deployment
      = (Inr receipt, d')"
    and K: "\<And>K. reads_back (env_jcs sample_env) (dk_receipt K) ser_deployment_receipt receipt
         \<Longrightarrow> load_deployment sample_env K sample_run (dx_id receipt) d' = (Inr receipt, d')"
    using deployment_loads_back [of sample_env sample_prepared "[sample_adapter]" sample_deployment "\<lambda>_. None" sample_run]
      sample_deployment_fits by auto
  let ?K = "\<lparr>dk_intent = \<lambda>_. None, dk_receipt = \<lambda>_. Some receipt, dk_rollback = \<lambda>_. None, dk_failure = \<lambda>_. None\<rparr>"
  have "reads_back (env_jcs sample_env) (dk_receipt ?K) ser_deployment_receipt receipt"
    by (simp add: reads_back_def split: option.splits)
  with a K show ?thesis by blast
qed

theorem interrupted_deployment_finalized_witness:
  "\<exists>receipt d' K. apply_deployment sample_env sample_prepared sample_run [sample_adapter] sample_deployment = (Inr receipt, d')
    \<and> recover_deployment sample_env K sample_run [sample_adapter] (\<lambda>_ _ _. undefined)
        (d'\<lparr>dp_receipts := (dp_receipts d')((sid_str sample_run, DEPLOYMENT_FILE) := None),
            dp_anchors := (dp_anchors d')(anchor_path sample_run ''receipt'' := None)\<rparr>)
      = (Inr (Finalized receipt), d')"
proof -
  let ?i = "\<lparr>it_run_id = sample_run, it_plan = pd_plan sample_prepared, it_lineage = pd_lineage sample_prepared\<rparr>"
  let ?K = "\<lparr>dk_intent = \<lambda>_. Some ?i, dk_receipt = \<lambda>_. None, dk_rollback = \<lambda>_. None, dk_failure = \<lambda>_. None\<rparr>"
  have "reads_back (env_jcs sample_env) (dk_intent ?K) ser_intent ?i"
    by (simp add: reads_back_def split: option.splits)
  then show ?thesis
    using interrupted_deployment_finalized [of sample_env sample_prepared "[sample_adapter]" sample_deployment
        "\<lambda>_. None" sample_run] sample_deployment_fits by fastforce
qed


section \<open>Certified rollbacks\<close>

lemma dep_bind_split:
  assumes "dep_bind m f d = (Inr y, t)"
  obtains x c where "m d = (Inr x, c)" "f x c = (Inr y, t)"
  using assms by (auto simp: dep_bind_def split: prod.splits sum.splits)

lemma dep_next_frame: "dep_next d = (f, c) \<Longrightarrow> \<exists>fs. c = d\<lparr>dp_faults := fs\<rparr>"
  by (cases d) (auto simp: dep_next_def split: list.splits)

lemma read_receipt_Inr:
  "read_receipt run_id name d = (Inr b, c) \<Longrightarrow>
   dp_receipts d (sid_str run_id, name) = Some b \<and> (\<exists>fs. c = d\<lparr>dp_faults := fs\<rparr>)"
  by (auto simp: read_receipt_def ok_or_def split: prod.splits option.splits if_splits dest!: dep_next_frame)

lemma trust_verify_Inr:
  "trust_verify E run_id label bytes d = (Inr u, c) \<Longrightarrow>
   dp_anchors d (anchor_path run_id label) = Some (hmac_sha256 E (dp_key d) bytes) \<and> (\<exists>fs. c = d\<lparr>dp_faults := fs\<rparr>)"
  by (auto simp: trust_verify_def ok_or_def ensure_def and_then_def split: prod.splits option.splits if_splits
      dest!: dep_next_frame)

lemma persist_receipt_Inr: "persist_receipt f bytes present = (Inr u, content) \<Longrightarrow> content = Some bytes"
  by (auto simp: persist_receipt_def ensure_def split: option.splits if_splits file_fault.splits)

lemma put_receipt_Inr:
  assumes "put_receipt run_id name bytes d = (Inr u, c)"
  shows "\<exists>fs. c = d\<lparr>dp_faults := fs, dp_receipts := (dp_receipts d)((sid_str run_id, name) \<mapsto> bytes)\<rparr>"
  using assms by (auto simp: put_receipt_def split: prod.splits dest!: dep_next_frame persist_receipt_Inr)

lemma trust_anchor_Inr:
  assumes "trust_anchor E run_id label bytes d = (Inr u, c)"
  shows "\<exists>fs. c = d\<lparr>dp_faults := fs, dp_anchors := (dp_anchors d)(anchor_path run_id label \<mapsto> hmac_sha256 E (dp_key d) bytes)\<rparr>"
  using assms by (auto simp: trust_anchor_def split: prod.splits dest!: dep_next_frame persist_receipt_Inr)

lemma dep_lift_Inr: "dep_lift r d = (Inr x, c) \<Longrightarrow> r = Inr x \<and> c = d"
  by (cases r) (auto simp: dep_lift_def dep_ret_def)

lemma load_deployment_Inr:
  assumes "load_deployment E K run_id i d = (Inr deployment, c)"
  shows "\<exists>bytes fs. dp_receipts d (sid_str run_id, DEPLOYMENT_FILE) = Some bytes
    \<and> dp_anchors d (anchor_path run_id ''receipt'') = Some (hmac_sha256 E (dp_key d) bytes)
    \<and> dk_receipt K bytes = Some deployment \<and> dx_id deployment = i \<and> c = d\<lparr>dp_faults := fs\<rparr>"
  using assms unfolding load_deployment_def
  apply (elim dep_bind_split)
  apply (drule read_receipt_Inr trust_verify_Inr)+
  apply (auto simp: dep_ret_def ok_or_def validate_deployment_receipt_def load_journal_def
      split: option.splits if_splits)
  done

lemma certify_rollback_Inr:
  assumes "certify_rollback E run_id deployment d = (Inr x, c)"
  shows "\<exists>bytes. rx_draft x = \<lparr>rd_deployment_receipt_id = dx_id deployment,
            rd_candidate_id = dd_candidate_id (dx_draft deployment),
            rd_promotion_receipt_id = dd_promotion_receipt_id (dx_draft deployment),
            rd_canary_loadout = dd_canary_loadout (dx_draft deployment),
            rd_restored_digest = pl_observed_digest (dd_plan (dx_draft deployment)), rd_state = DsRolledBack,
            rd_operation_ids = reversed_ids (dd_plan (dx_draft deployment))\<rparr>
    \<and> env_jcs E (ser_rollback_receipt x) = Some bytes \<and> dp_receipts c (sid_str run_id, ROLLBACK_FILE) = Some bytes
    \<and> dp_anchors c (anchor_path run_id ''rollback'') = Some (hmac_sha256 E (dp_key c) bytes)
    \<and> dp_engine c = dp_engine d"
  using assms unfolding certify_rollback_def Let_def
  apply (elim dep_bind_split)
  apply (drule dep_lift_Inr put_receipt_Inr trust_anchor_Inr)+
  apply (auto simp: dep_ret_def canonical_json_def ok_or_def split: option.splits)
  done

lemma failed_rollback_Inl: "failed_rollback E run_id deployment code e d \<noteq> (Inr x, c)"
  by (auto simp: failed_rollback_def dep_bind_def dep_ret_def split: prod.splits sum.splits)

lemma rollback_deployment_Inr:
  assumes "rollback_deployment E K run_id i adapters observer d = (Inr x, d')"
  shows "\<exists>deployment c u. load_deployment E K run_id i d = (Inr deployment, c)
    \<and> dd_state (dx_draft deployment) = DsVerified
    \<and> rollback_succeeded_run E run_id (dd_plan (dx_draft deployment)) adapters (dp_engine c) = (Inr OutRolledBack, u)
    \<and> observer (dd_canary_loadout (dx_draft deployment)) (pl_operations (dd_plan (dx_draft deployment))) (en_world u)
        = Inr (pl_observed_digest (dd_plan (dx_draft deployment)))
    \<and> certify_rollback E run_id deployment (c\<lparr>dp_engine := u\<rparr>) = (Inr x, d')"
proof -
  obtain deployment c where l: "load_deployment E K run_id i d = (Inr deployment, c)"
    and r: "(let plan = dd_plan (dx_draft deployment) in
       if dd_state (dx_draft deployment) \<noteq> DsVerified \<or> dd_reconcile_outcome (dx_draft deployment) \<noteq> OutSucceeded
       then dep_ret (Err DeploymentNotVerified)
       else dep_bind (dep_engine (rollback_succeeded_run E run_id plan adapters)) (\<lambda>outcome.
         case outcome of
           OutRolledBack \<Rightarrow>
             dep_bind (observe_canary observer (dd_canary_loadout (dx_draft deployment)) (pl_operations plan)) (\<lambda>observed.
               case observed of
                 Inl e \<Rightarrow> failed_rollback E run_id deployment ''skill_deployment_observation_failed'' (ObserveFailed e)
               | Inr digest \<Rightarrow>
                   if digest \<noteq> pl_observed_digest plan
                   then failed_rollback E run_id deployment ''skill_deployment_rollback_verification_failed''
                     RollbackVerificationFailed
                   else certify_rollback E run_id deployment)
         | OutRollbackFailed \<Rightarrow>
             failed_rollback E run_id deployment ''skill_deployment_rollback_failed'' CanaryRollbackFailed
         | other \<Rightarrow> dep_ret (Err (UnexpectedRollbackOutcome other)))) c = (Inr x, d')"
    using assms unfolding rollback_deployment_def by (rule dep_bind_split)
  obtain q u where q: "rollback_succeeded_run E run_id (dd_plan (dx_draft deployment)) adapters (dp_engine c) = (q, u)"
    by fastforce
  from r q have v: "dd_state (dx_draft deployment) = DsVerified"
    by (auto simp: Let_def dep_ret_def split: if_splits)
  with r q l show ?thesis
    by (cases q)
      (auto simp: Let_def dep_ret_def dep_bind_def dep_engine_def observe_canary_def failed_rollback_Inl
        split: if_splits reconcile_outcome.splits sum.splits)
qed


lemma rolled_back_run:
  assumes "rollback_succeeded_run E run_id plan adapters s = (Inr OutRolledBack, t)"
  shows "\<not> forward_capable (pl_operations plan)
    \<and> call_trace t = call_trace s @ map (Pair CallRollback) (rev (pl_operations plan))
    \<and> (\<forall>x\<in>set (pl_operations plan). phase_of (en_journal t) (op_id x) = Some PhRolledBack)"
proof -
  obtain w j where v: "validate_plan E plan = Inr ()" "\<not> forward_capable (pl_operations plan)"
    and m: "and_do (step_transition E StRollingBack) (and_do (persist E)
           (rollback_from_rolling_back E adapters (pl_operations plan))) (s\<lparr>en_world := w, en_journal := j\<rparr>)
         = (Inr OutRolledBack, t)"
    using rollback_succeeded_split [OF assms] by auto
  have "call_trace (s\<lparr>en_world := w, en_journal := j\<rparr>) = call_trace s" by (simp add: call_trace_def)
  then show ?thesis
    using rolling_back_traced(2) [OF validated_plan(1) [OF v(1)] m refl] v(2) by (auto split: if_splits)
qed

text \<open>
  C9: A rollback of a deployment is certified only when it happened: the stored receipt of the
  deployment is anchored under the key, carries the identity asked for and was verified; every
  operation of its plan was rolled back, in reverse order and none of them failing; the observer then saw
  the state the plan had started from; and the certificate, stored and anchored, says exactly that.
\<close>

theorem rollback_is_certified:
  assumes "rollback_deployment E K run_id i adapters observer d = (Inr x, d')"
  shows "\<exists>bytes deployment stored.
      dp_receipts d (sid_str run_id, DEPLOYMENT_FILE) = Some bytes
    \<and> dp_anchors d (anchor_path run_id ''receipt'') = Some (hmac_sha256 E (dp_key d) bytes)
    \<and> dk_receipt K bytes = Some deployment \<and> dx_id deployment = i \<and> dd_state (dx_draft deployment) = DsVerified
    \<and> (let plan = dd_plan (dx_draft deployment) in
        \<not> forward_capable (pl_operations plan)
        \<and> map (\<lambda>c. (lc_kind c, lc_operation c)) (en_calls (dp_engine d'))
            = map (\<lambda>c. (lc_kind c, lc_operation c)) (en_calls (dp_engine d))
              @ map (Pair CallRollback) (rev (pl_operations plan))
        \<and> (\<forall>y\<in>set (pl_operations plan). phase_of (en_journal (dp_engine d')) (op_id y) = Some PhRolledBack)
        \<and> observer (dd_canary_loadout (dx_draft deployment)) (pl_operations plan) (en_world (dp_engine d'))
            = Inr (pl_observed_digest plan)
        \<and> rd_deployment_receipt_id (rx_draft x) = i \<and> rd_restored_digest (rx_draft x) = pl_observed_digest plan
        \<and> rd_state (rx_draft x) = DsRolledBack
        \<and> rd_operation_ids (rx_draft x) = map op_id (rev (pl_operations plan)))
    \<and> env_jcs E (ser_rollback_receipt x) = Some stored
    \<and> dp_receipts d' (sid_str run_id, ROLLBACK_FILE) = Some stored
    \<and> dp_anchors d' (anchor_path run_id ''rollback'') = Some (hmac_sha256 E (dp_key d') stored)"
proof -
  obtain deployment c u where p: "load_deployment E K run_id i d = (Inr deployment, c)"
    "dd_state (dx_draft deployment) = DsVerified"
    "rollback_succeeded_run E run_id (dd_plan (dx_draft deployment)) adapters (dp_engine c) = (Inr OutRolledBack, u)"
    "observer (dd_canary_loadout (dx_draft deployment)) (pl_operations (dd_plan (dx_draft deployment))) (en_world u)
        = Inr (pl_observed_digest (dd_plan (dx_draft deployment)))"
    "certify_rollback E run_id deployment (c\<lparr>dp_engine := u\<rparr>) = (Inr x, d')"
    using rollback_deployment_Inr [OF assms] by blast
  show ?thesis
    using load_deployment_Inr [OF p(1)] certify_rollback_Inr [OF p(5)] rolled_back_run [OF p(3)] p(2,4)
    by (auto simp: Let_def reversed_ids_def call_trace_def)
qed

text \<open>The sample deployment, undone on a target that reads as it did before.\<close>

lemma certify_rollback_ok:
  fixes d :: "'w deployment"
  assumes e: "digests_ok E" and d: "dp_faults d = []"
    and f: "dp_receipts d (sid_str run_id, ROLLBACK_FILE) = None" "dp_anchors d (anchor_path run_id ''rollback'') = None"
  shows "\<exists>x d'. certify_rollback E run_id deployment d = (Inr x, d')"
proof -
  have id: "\<exists>i. digest_domain_json E ''commonkit.skill-deployment-rollback.v1'' v = Inr i" for v
    using digest_domain_json_not_Err [OF e] by (cases "digest_domain_json E ''commonkit.skill-deployment-rollback.v1'' v") auto
  have jcs: "\<exists>b. env_jcs E v = Some b" for v using e by (auto simp: digests_ok_def jcs_total_def)
  have written: "\<exists>d'. dep_bind (put_receipt run_id ROLLBACK_FILE bytes) (\<lambda>_. dep_bind (trust_anchor E run_id ''rollback'' bytes)
      (\<lambda>_. dep_ret (Ok x))) d = (Inr x, d')" for bytes and x :: rollback_receipt
    using d f by (simp add: dep_bind_def put_receipt_ok trust_anchor_ok dep_ret_def)
  define draft where "draft = \<lparr>rd_deployment_receipt_id = dx_id deployment,
            rd_candidate_id = dd_candidate_id (dx_draft deployment),
            rd_promotion_receipt_id = dd_promotion_receipt_id (dx_draft deployment),
            rd_canary_loadout = dd_canary_loadout (dx_draft deployment),
            rd_restored_digest = pl_observed_digest (dd_plan (dx_draft deployment)), rd_state = DsRolledBack,
            rd_operation_ids = reversed_ids (dd_plan (dx_draft deployment))\<rparr>"
  obtain i where i: "digest_domain_json E ''commonkit.skill-deployment-rollback.v1'' (ser_rollback_draft draft) = Inr i"
    using id by blast
  obtain b where b: "env_jcs E (ser_rollback_receipt \<lparr>rx_id = i, rx_draft = draft\<rparr>) = Some b" using jcs by blast
  have "certify_rollback E run_id deployment d = dep_bind (put_receipt run_id ROLLBACK_FILE b)
      (\<lambda>_. dep_bind (trust_anchor E run_id ''rollback'' b) (\<lambda>_. dep_ret (Ok \<lparr>rx_id = i, rx_draft = draft\<rparr>))) d"
    unfolding certify_rollback_def Let_def draft_def [symmetric]
    by (simp add: dep_bind_def [of "dep_lift _"] dep_lift_Ok [OF i] dep_lift_Ok [OF canonical_json_Ok [OF b]])
  then show ?thesis using written by metis
qed


theorem rollback_is_certified_witness:
  "\<exists>receipt d' K observer x d''.
     apply_deployment sample_env sample_prepared sample_run [sample_adapter] sample_deployment = (Inr receipt, d')
     \<and> rollback_deployment sample_env K sample_run (dx_id receipt) [sample_adapter] observer d' = (Inr x, d'')
     \<and> rd_operation_ids (rx_draft x) = [op_id sample_exact] \<and> rd_state (rx_draft x) = DsRolledBack"
proof -
  obtain receipt intent bytes d' s store where a: "apply_deployment sample_env sample_prepared sample_run [sample_adapter]
      sample_deployment = (Inr receipt, d')"
    and p: "deployed sample_env sample_prepared sample_run receipt intent bytes d'"
    and s: "en_store s = Some store" "unused_run store sample_run" "en_faults s = []"
      "execute sample_env exact_plan sample_run [sample_adapter] s = (Inr OutSucceeded, dp_engine d')"
    using apply_deployment_ok [of sample_env sample_prepared "[sample_adapter]" sample_deployment "\<lambda>_. None" sample_run]
    by (auto simp: sample_digests_ok exact_plan_valid exact_plan_fits [simplified])
  have r: "dx_draft receipt = verified_draft sample_run sample_lineage (en_journal (dp_engine d')) exact_plan"
    using p by (auto simp: deployed_def into_receipt_def and_then_def sample_prepared_def split: sum.splits)
  let ?K = "\<lparr>dk_intent = \<lambda>_. None, dk_receipt = \<lambda>_. Some receipt, dk_rollback = \<lambda>_. None, dk_failure = \<lambda>_. None\<rparr>"
  let ?observer = "\<lambda>_ _ _. Inr (pl_observed_digest exact_plan)"
  have l: "load_deployment sample_env ?K sample_run (dx_id receipt) d' = (Inr receipt, d')"
    using p r into_receipt_valid [of sample_env _ receipt]
    by (auto simp: load_deployment_def deployed_def dep_bind_def read_receipt_ok trust_verify_ok dep_ret_def
        load_journal_def verified_draft_def)
  have f: "en_faults (dp_engine d') = []"
    using execute_live [OF sample_deployment_fits s(1-3)] s(4) by (auto simp: live_def kept_def)
  obtain u where u: "rollback_succeeded_run sample_env sample_run exact_plan [sample_adapter] (dp_engine d')
      = (Inr OutRolledBack, u)"
    using undone_live [OF sample_deployment_fits s exact_plan_fits(4,5) refl f] by blast
  obtain x d'' where x: "certify_rollback sample_env sample_run receipt (d'\<lparr>dp_engine := u\<rparr>) = (Inr x, d'')"
    using certify_rollback_ok [OF sample_digests_ok, of "d'\<lparr>dp_engine := u\<rparr>" sample_run receipt] p
    by (auto simp: deployed_def)
  have b: "rollback_deployment sample_env ?K sample_run (dx_id receipt) [sample_adapter] ?observer d' = (Inr x, d'')"
    using l u x r
    by (simp add: rollback_deployment_def dep_bind_def Let_def verified_draft_def dep_engine_def observe_canary_def)
  obtain deployment where "dk_receipt ?K (the (dp_receipts d' (sid_str sample_run, DEPLOYMENT_FILE))) = Some deployment"
    "rd_operation_ids (rx_draft x) = map op_id (rev (pl_operations (dd_plan (dx_draft deployment))))"
    "rd_state (rx_draft x) = DsRolledBack"
    using rollback_is_certified [OF b] by (auto simp: Let_def)
  then have "rd_operation_ids (rx_draft x) = [op_id sample_exact]" "rd_state (rx_draft x) = DsRolledBack"
    using r by (auto simp: verified_draft_def)
  with a b show ?thesis by blast
qed

end
