(* ===== verification/Adapter_Resources.thy ===== *)
theory Adapter_Resources
  imports Core_Plan Core_Policy
begin

text \<open>
  The resources a provider asks for, \<open>crates/commonkit-adapters/src/resources.rs\<close>: managed paths,
  modes and symbolic links, the closed vocabulary of intents, their addresses and digests, and the
  ownership rules a set of resources must satisfy. \<open>str::to_lowercase\<close>, which follows the Unicode
  tables of the standard library, is the argument \<open>lower\<close>.
\<close>

section \<open>Paths, modes and links\<close>

datatype managed_path = ManagedPath (mp_str: string)
datatype file_mode = FileMode (mode_value: u32)
datatype symlink_target = SymlinkTarget (st_str: string)

datatype resource_error =
    UnsafeManagedPath string
  | UnsafeSymlinkTargetText string
  | InvalidFileMode u32
  | InvalidPackageResource
  | MissingPackageArtifactResource

definition managed_segment :: "string \<Rightarrow> bool" where
  "managed_segment s \<longleftrightarrow> \<not> (s = [] \<or> s = ''.'' \<or> s = ''..'')"

definition managed_path_parse :: "string \<Rightarrow> resource_error + managed_path" where
  "managed_path_parse value =
     (if value = [] \<or> starts_with value ''/'' \<or> ends_with value ''/'' \<or> CHR 0x5C \<in> set value
         \<or> CHR '':'' \<in> set value \<or> list_ex (\<lambda>s. \<not> managed_segment s) (split_char (CHR ''/'') value)
      then Err (UnsafeManagedPath value) else Ok (ManagedPath value))"

definition within_text :: "string \<Rightarrow> string \<Rightarrow> bool" where
  "within_text path root \<longleftrightarrow> path = root \<or> (case strip_prefix root path of None \<Rightarrow> False | Some s \<Rightarrow> starts_with s ''/'')"

definition is_within :: "managed_path \<Rightarrow> managed_path \<Rightarrow> bool" where
  "is_within path root \<longleftrightarrow> within_text (mp_str path) (mp_str root)"

definition file_mode_parse :: "u32 \<Rightarrow> resource_error + file_mode" where
  "file_mode_parse value = (if value \<le> 4095 then Ok (FileMode value) else Err (InvalidFileMode value))"

definition unportable_target :: "string \<Rightarrow> bool" where
  "unportable_target target \<longleftrightarrow> target = [] \<or> starts_with target ''/'' \<or> ends_with target ''/''
     \<or> CHR 0x5C \<in> set target \<or> CHR '':'' \<in> set target"

text \<open>The walk of the target from the directory of the link; \<open>None\<close> is a refusal.\<close>

fun symlink_walk :: "string list \<Rightarrow> string list \<Rightarrow> string list option" where
  "symlink_walk resolved [] = Some resolved"
| "symlink_walk resolved (segment # rest) =
     (if segment = [] \<or> segment = ''.'' then None
      else if segment = ''..'' then (if resolved = [] then None else symlink_walk (butlast resolved) rest)
      else symlink_walk (resolved @ [segment]) rest)"

definition link_directory :: "managed_path \<Rightarrow> string list" where
  "link_directory link = butlast (split_char (CHR ''/'') (mp_str link))"

definition symlink_target_parse :: "managed_path \<Rightarrow> string \<Rightarrow> resource_error + symlink_target" where
  "symlink_target_parse link target =
     (if unportable_target target then Err (UnsafeSymlinkTargetText target)
      else case symlink_walk (link_directory link) (split_char (CHR ''/'') target) of
          None \<Rightarrow> Err (UnsafeSymlinkTargetText target)
        | Some resolved \<Rightarrow>
            if resolved = [] then Err (UnsafeSymlinkTargetText target) else Ok (SymlinkTarget target))"

fun resolve_segments :: "string list \<Rightarrow> string list \<Rightarrow> string list" where
  "resolve_segments resolved [] = resolved"
| "resolve_segments resolved (segment # rest) =
     (if segment = ''..'' then resolve_segments (butlast resolved) rest
      else resolve_segments (resolved @ [segment]) rest)"

definition resolved_for :: "symlink_target \<Rightarrow> managed_path \<Rightarrow> resource_error + managed_path" where
  "resolved_for target link =
     and_then (symlink_target_parse link (st_str target)) (\<lambda>_.
       managed_path_parse (join_char (CHR ''/'')
         (resolve_segments (link_directory link) (split_char (CHR ''/'') (st_str target)))))"

text \<open>Deserialization, which does not know the link.\<close>

definition de_symlink_target :: "string \<Rightarrow> resource_error + symlink_target" where
  "de_symlink_target value =
     (if unportable_target value then Err (UnsafeSymlinkTargetText value) else Ok (SymlinkTarget value))"

section \<open>Intents\<close>

datatype artifact_sensitivity = Portable | LocalSensitive

record content_reference =
  ct_digest :: sha256_digest
  ct_bytes :: u64
  ct_sensitivity :: artifact_sensitivity

datatype symlink_target_kind = TargetFile | TargetDirectory

datatype filesystem_intent =
    FileIntent managed_path content_reference "file_mode option" "sha256_digest option"
  | DirectoryIntent managed_path "file_mode option" bool
  | SymlinkIntent managed_path symlink_target symlink_target_kind "sha256_digest option"
  | RemoveIntent managed_path "sha256_digest option"

fun intent_path :: "filesystem_intent \<Rightarrow> managed_path" where
  "intent_path (FileIntent p _ _ _) = p"
| "intent_path (DirectoryIntent p _ _) = p"
| "intent_path (SymlinkIntent p _ _ _) = p"
| "intent_path (RemoveIntent p _) = p"

datatype resource_kind = KindFile | KindDirectory | KindSymlink | KindRemove

fun intent_kind :: "filesystem_intent \<Rightarrow> resource_kind" where
  "intent_kind (FileIntent _ _ _ _) = KindFile"
| "intent_kind (DirectoryIntent _ _ _) = KindDirectory"
| "intent_kind (SymlinkIntent _ _ _ _) = KindSymlink"
| "intent_kind (RemoveIntent _ _) = KindRemove"

fun is_exact_directory :: "filesystem_intent \<Rightarrow> bool" where
  "is_exact_directory (DirectoryIntent _ _ exact) = exact"
| "is_exact_directory _ = False"

datatype resource_type = ResourceFilesystem | ResourcePackage

datatype resource_address = FilesystemAddress managed_path | PackageAddress package_manager stable_id

text \<open>The derived order of addresses: the variants in their order, then the fields.\<close>

fun manager_rank :: "package_manager \<Rightarrow> nat" where
  "manager_rank Homebrew = 0" | "manager_rank Apt = 1" | "manager_rank Fnm = 2" | "manager_rank Nvm = 3"
| "manager_rank Rustup = 4"

fun address_key :: "resource_address \<Rightarrow> nat \<times> nat \<times> string" where
  "address_key (FilesystemAddress p) = (0, 0, mp_str p)"
| "address_key (PackageAddress m i) = (1, manager_rank m, sid_str i)"

datatype package_desired_intent = DesiredPackage package_declaration

definition package_desired_new :: "package_declaration \<Rightarrow> resource_error + package_desired_intent" where
  "package_desired_new declaration =
     and_then (map_err (\<lambda>_. InvalidPackageResource) (package_declaration_validate declaration)) (\<lambda>_.
       Ok (DesiredPackage declaration))"

record resolved_package_intent =
  ri_declaration :: package_declaration
  ri_resolution :: content_reference
  ri_artifacts :: "content_reference list"

datatype provider_resource_intent =
  ProviderFilesystem filesystem_intent | ProviderPackage package_desired_intent

datatype resource_intent =
    FilesystemIntent filesystem_intent
  | PackageIntent package_desired_intent
  | ResolvedIntent resolved_package_intent

fun of_provider_intent :: "provider_resource_intent \<Rightarrow> resource_intent" where
  "of_provider_intent (ProviderFilesystem i) = FilesystemIntent i"
| "of_provider_intent (ProviderPackage i) = PackageIntent i"

fun intent_type :: "resource_intent \<Rightarrow> resource_type" where
  "intent_type (FilesystemIntent _) = ResourceFilesystem"
| "intent_type (PackageIntent _) = ResourcePackage"
| "intent_type (ResolvedIntent _) = ResourcePackage"

fun intent_address :: "resource_intent \<Rightarrow> resource_address" where
  "intent_address (FilesystemIntent i) = FilesystemAddress (intent_path i)"
| "intent_address (PackageIntent (DesiredPackage d)) = PackageAddress (pk_manager d) (pk_id d)"
| "intent_address (ResolvedIntent i) = PackageAddress (pk_manager (ri_declaration i)) (pk_id (ri_declaration i))"

fun intent_artifacts :: "resource_intent \<Rightarrow> content_reference list" where
  "intent_artifacts (FilesystemIntent (FileIntent _ content _ _)) = [content]"
| "intent_artifacts (FilesystemIntent _) = []"
| "intent_artifacts (PackageIntent _) = []"
| "intent_artifacts (ResolvedIntent i) = ri_resolution i # ri_artifacts i"

fun intent_recovery :: "resource_intent \<Rightarrow> recovery_capability" where
  "intent_recovery (FilesystemIntent _) = ExactRollback"
| "intent_recovery _ = ConvergeForwardOnly"

fun filesystem_of :: "resource_intent \<Rightarrow> filesystem_intent option" where
  "filesystem_of (FilesystemIntent i) = Some i"
| "filesystem_of _ = None"

record normalized_resource =
  nr_intent :: resource_intent
  nr_provenance :: operation_provenance

section \<open>Serialization\<close>

fun sensitivity_name :: "artifact_sensitivity \<Rightarrow> string" where
  "sensitivity_name Portable = ''portable''"
| "sensitivity_name LocalSensitive = ''local_sensitive''"

fun target_kind_name :: "symlink_target_kind \<Rightarrow> string" where
  "target_kind_name TargetFile = ''file''"
| "target_kind_name TargetDirectory = ''directory''"

definition ser_managed_path :: "managed_path \<Rightarrow> json" where "ser_managed_path p = JString (mp_str p)"
definition ser_file_mode :: "file_mode \<Rightarrow> json" where "ser_file_mode m = json_u32 (mode_value m)"

definition ser_content_reference :: "content_reference \<Rightarrow> json" where
  "ser_content_reference c = json_struct
     [(''digest'', ser_digest (ct_digest c)), (''bytes'', json_u64 (ct_bytes c)),
      (''sensitivity'', JString (sensitivity_name (ct_sensitivity c)))]"

fun ser_filesystem_intent :: "filesystem_intent \<Rightarrow> json" where
  "ser_filesystem_intent (FileIntent p content mode before) = json_struct
     [(''type'', JString ''file''), (''path'', ser_managed_path p), (''content'', ser_content_reference content),
      (''mode'', json_option ser_file_mode mode), (''expected_before'', json_option ser_digest before)]"
| "ser_filesystem_intent (DirectoryIntent p mode exact) = json_struct
     [(''type'', JString ''directory''), (''path'', ser_managed_path p), (''mode'', json_option ser_file_mode mode),
      (''exact'', JBool exact)]"
| "ser_filesystem_intent (SymlinkIntent p target kind before) = json_struct
     ([(''type'', JString ''symlink''), (''path'', ser_managed_path p), (''target'', JString (st_str target))]
      @ (if kind = TargetFile then [] else [(''target_kind'', JString (target_kind_name kind))])
      @ [(''expected_before'', json_option ser_digest before)])"
| "ser_filesystem_intent (RemoveIntent p before) = json_struct
     [(''type'', JString ''remove''), (''path'', ser_managed_path p), (''expected_before'', json_option ser_digest before)]"

definition ser_text_set :: "string btree_set \<Rightarrow> json" where "ser_text_set s = JArray (map JString s)"

fun ser_selector :: "package_selector \<Rightarrow> json" where
  "ser_selector (HomebrewFormula name) = json_struct [(''type'', JString ''homebrew_formula''), (''name'', JString name)]"
| "ser_selector (AptBinary name architecture) = json_struct
     ([(''type'', JString ''apt_binary''), (''name'', JString name)] @ opt_field ''architecture'' JString architecture)"
| "ser_selector NodeRuntime = json_struct [(''type'', JString ''node_runtime'')]"
| "ser_selector (RustToolchain ProfileMinimal components targets) = json_struct
     ([(''type'', JString ''rust_toolchain''), (''profile'', JString ''minimal'')]
      @ (if components = [] then [] else [(''components'', ser_text_set components)])
      @ (if targets = [] then [] else [(''targets'', ser_text_set targets)]))"

definition ser_declaration :: "package_declaration \<Rightarrow> json" where
  "ser_declaration d = json_struct
     ([(''id'', ser_stable_id (pk_id d)), (''version'', JString (pk_version d)),
       (''manager'', JString (manager_name (pk_manager d))), (''source'', ser_stable_id (pk_source d))]
      @ opt_field ''selector'' ser_selector (pk_selector d))"

fun ser_desired :: "package_desired_intent \<Rightarrow> json" where
  "ser_desired (DesiredPackage d) = json_struct [(''type'', JString ''package''), (''declaration'', ser_declaration d)]"

definition ser_resolved_intent :: "resolved_package_intent \<Rightarrow> json" where
  "ser_resolved_intent i = json_struct
     [(''declaration'', ser_declaration (ri_declaration i)), (''resolution'', ser_content_reference (ri_resolution i)),
      (''artifacts'', JArray (map ser_content_reference (ri_artifacts i)))]"

fun ser_resource_intent :: "resource_intent \<Rightarrow> json" where
  "ser_resource_intent (FilesystemIntent i) = ser_filesystem_intent i"
| "ser_resource_intent (PackageIntent i) = ser_desired i"
| "ser_resource_intent (ResolvedIntent i) = ser_resolved_intent i"

definition ser_resource :: "normalized_resource \<Rightarrow> json" where
  "ser_resource r = json_struct
     [(''intent'', ser_resource_intent (nr_intent r)), (''provenance'', ser_provenance (nr_provenance r))]"

fun resource_desired_digest :: "env \<Rightarrow> resource_intent \<Rightarrow> contract_error + sha256_digest" where
  "resource_desired_digest E (FilesystemIntent i) =
     digest_domain_json E ''commonkit.filesystem-resource-desired.v1'' (ser_filesystem_intent i)"
| "resource_desired_digest E (PackageIntent i) =
     digest_domain_json E ''commonkit.package-desired-intent.v1'' (ser_desired i)"
| "resource_desired_digest E (ResolvedIntent i) =
     digest_domain_json E ''commonkit.resolved-package-intent.v1'' (ser_resolved_intent i)"

definition filesystem_only :: "normalized_resource list \<Rightarrow> bool" where
  "filesystem_only resources \<longleftrightarrow> list_all (\<lambda>r. intent_type (nr_intent r) = ResourceFilesystem) resources"

definition resource_sort_key :: "normalized_resource \<Rightarrow> nat \<times> nat \<times> string" where
  "resource_sort_key r = address_key (intent_address (nr_intent r))"

definition materialized_resources_digest :: "env \<Rightarrow> normalized_resource list \<Rightarrow> contract_error + sha256_digest" where
  "materialized_resources_digest E resources =
     (let ordered = sort_key (\<lambda>r. (resource_sort_key r, sid_str (pv_provider_id (nr_provenance r)))) resources in
      digest_domain_json E
        (if filesystem_only ordered then ''commonkit.materialized-filesystem.v1''
         else ''commonkit.materialized-resources.v2'')
        (JArray (map ser_resource ordered)))"

section \<open>Ownership\<close>

datatype ownership_error =
    NoDeclaredRoots
  | InvalidOwnedPackage
  | MissingOwnedArtifact resource_address
  | DuplicatePackage resource_address
  | UnsafeLink managed_path
  | OutsideDeclaredRoot managed_path
  | ProtectedPath managed_path
  | DuplicatePath managed_path
  | TypeConflict managed_path
  | RemovalConflict managed_path
  | CaseCollision managed_path managed_path
  | ExactDirectoryConflict managed_path managed_path

record ownership_rules =
  ow_case_sensitive :: bool
  ow_declared_roots :: "managed_path list"
  ow_protected_roots :: "managed_path list"

definition ownership_rules_new :: "bool \<Rightarrow> managed_path list \<Rightarrow> managed_path list \<Rightarrow> ownership_error + ownership_rules" where
  "ownership_rules_new case_sensitive declared protected_roots =
     and_then (ensure (declared \<noteq> []) NoDeclaredRoots) (\<lambda>_.
       Ok \<lparr>ow_case_sensitive = case_sensitive, ow_declared_roots = declared, ow_protected_roots = protected_roots\<rparr>)"

definition sorted_roots :: "managed_path list \<Rightarrow> json" where
  "sorted_roots roots = JArray (map JString (remdups_adj (sort (map mp_str roots))))"

definition authority_digest :: "env \<Rightarrow> ownership_rules \<Rightarrow> contract_error + sha256_digest" where
  "authority_digest E rules = digest_domain_json E ''commonkit.ownership-authority.v1''
     (JArray [JBool (ow_case_sensitive rules), sorted_roots (ow_declared_roots rules),
       sorted_roots (ow_protected_roots rules)])"

definition contains_path :: "(string \<Rightarrow> string) \<Rightarrow> ownership_rules \<Rightarrow> managed_path \<Rightarrow> managed_path \<Rightarrow> bool" where
  "contains_path lower rules path root \<longleftrightarrow>
     (if ow_case_sensitive rules then is_within path root
      else within_text (lower (mp_str path)) (lower (mp_str root)))"

definition declaration_of :: "resource_intent \<Rightarrow> package_declaration option" where
  "declaration_of intent = (case intent of PackageIntent (DesiredPackage d) \<Rightarrow> Some d
     | ResolvedIntent i \<Rightarrow> Some (ri_declaration i) | FilesystemIntent _ \<Rightarrow> None)"

text \<open>A plain directory, which may lie above a protected root.\<close>

fun plain_directory :: "filesystem_intent \<Rightarrow> bool" where
  "plain_directory (DirectoryIntent _ mode exact) \<longleftrightarrow> \<not> exact \<and> mode = None"
| "plain_directory _ \<longleftrightarrow> False"

text \<open>The checks of one filesystem claim that do not look at the claims before it.\<close>

definition validate_claim ::
  "(string \<Rightarrow> string) \<Rightarrow> ownership_rules \<Rightarrow> filesystem_intent \<Rightarrow> ownership_error + unit" where
  "validate_claim lower rules intent =
     (let path = intent_path intent in
      and_then (case intent of
          SymlinkIntent _ target _ _ \<Rightarrow>
            and_then (map_err (\<lambda>_. UnsafeLink path) (resolved_for target path)) (\<lambda>resolved.
              ensure (\<not> list_ex (\<lambda>root. contains_path lower rules resolved root) (ow_protected_roots rules))
                (ProtectedPath path))
        | _ \<Rightarrow> Ok ()) (\<lambda>_.
      and_then (ensure (list_ex (\<lambda>root. contains_path lower rules path root) (ow_declared_roots rules))
          (OutsideDeclaredRoot path)) (\<lambda>_.
        ensure (\<not> list_ex (\<lambda>root. contains_path lower rules path root
              \<or> contains_path lower rules root path \<and> \<not> plain_directory intent) (ow_protected_roots rules))
          (ProtectedPath path))))"

definition duplicate_error :: "filesystem_intent \<Rightarrow> filesystem_intent \<Rightarrow> ownership_error" where
  "duplicate_error existing incoming =
     (let path = intent_path incoming in
      if intent_kind existing = KindRemove \<or> intent_kind incoming = KindRemove then RemovalConflict path
      else if intent_kind existing \<noteq> intent_kind incoming then TypeConflict path
      else DuplicatePath path)"

record claim_tables =
  cl_addresses :: "resource_address list"
  cl_paths :: "(string, stable_id \<times> filesystem_intent) btree_map"
  cl_folded :: "(string, managed_path) btree_map"

definition claim_filesystem ::
  "(string \<Rightarrow> string) \<Rightarrow> ownership_rules \<Rightarrow> stable_id \<Rightarrow> filesystem_intent \<Rightarrow> claim_tables
    \<Rightarrow> ownership_error + claim_tables" where
  "claim_filesystem lower rules provider intent t =
     (let path = intent_path intent; key = lower (mp_str path) in
      and_then (validate_claim lower rules intent) (\<lambda>_.
        case bt_get (cl_paths t) (mp_str path) of
          Some (_, existing) \<Rightarrow> Err (duplicate_error existing intent)
        | None \<Rightarrow>
            (let t = t\<lparr>cl_paths := bt_insert (mp_str path) (provider, intent) (cl_paths t)\<rparr> in
             if ow_case_sensitive rules then Ok t
             else (case bt_get (cl_folded t) key of
                 Some first \<Rightarrow> if first \<noteq> path then Err (CaseCollision first path)
                     else Ok (t\<lparr>cl_folded := bt_insert key path (cl_folded t)\<rparr>)
               | None \<Rightarrow> Ok (t\<lparr>cl_folded := bt_insert key path (cl_folded t)\<rparr>)))))"

definition claim_resource ::
  "(string \<Rightarrow> string) \<Rightarrow> ownership_rules \<Rightarrow> normalized_resource \<Rightarrow> claim_tables
    \<Rightarrow> ownership_error + claim_tables" where
  "claim_resource lower rules resource t =
     (let address = intent_address (nr_intent resource);
          known = address \<in> set (cl_addresses t);
          t = t\<lparr>cl_addresses := address # cl_addresses t\<rparr> in
      if known \<and> intent_type (nr_intent resource) = ResourcePackage then Err (DuplicatePackage address)
      else case filesystem_of (nr_intent resource) of
          Some intent \<Rightarrow> claim_filesystem lower rules (pv_provider_id (nr_provenance resource)) intent t
        | None \<Rightarrow>
            (case declaration_of (nr_intent resource) of
               None \<Rightarrow> Ok t
             | Some declaration \<Rightarrow>
                 and_then (map_err (\<lambda>_. InvalidOwnedPackage) (package_declaration_validate declaration)) (\<lambda>_. Ok t)))"

fun claim_loop ::
  "(string \<Rightarrow> string) \<Rightarrow> ownership_rules \<Rightarrow> normalized_resource list \<Rightarrow> claim_tables
    \<Rightarrow> ownership_error + claim_tables" where
  "claim_loop lower rules [] t = Ok t"
| "claim_loop lower rules (resource # resources) t =
     and_then (claim_resource lower rules resource t) (claim_loop lower rules resources)"

definition exact_conflict ::
  "(string \<Rightarrow> string) \<Rightarrow> ownership_rules \<Rightarrow> stable_id \<times> filesystem_intent \<Rightarrow> stable_id \<times> filesystem_intent \<Rightarrow> bool" where
  "exact_conflict lower rules exact descendant \<longleftrightarrow>
     intent_path (snd exact) \<noteq> intent_path (snd descendant)
     \<and> contains_path lower rules (intent_path (snd descendant)) (intent_path (snd exact))
     \<and> fst exact \<noteq> fst descendant"

definition check_exact ::
  "(string \<Rightarrow> string) \<Rightarrow> ownership_rules \<Rightarrow> (stable_id \<times> filesystem_intent) list \<Rightarrow> ownership_error + unit" where
  "check_exact lower rules claims =
     for_each (\<lambda>exact. for_each (\<lambda>descendant.
         ensure (\<not> exact_conflict lower rules exact descendant)
           (ExactDirectoryConflict (intent_path (snd exact)) (intent_path (snd descendant)))) claims)
       (filter (\<lambda>c. is_exact_directory (snd c)) claims)"

definition empty_claims :: claim_tables where
  "empty_claims = \<lparr>cl_addresses = [], cl_paths = [], cl_folded = []\<rparr>"

definition validate_ownership ::
  "(string \<Rightarrow> string) \<Rightarrow> normalized_resource list \<Rightarrow> ownership_rules \<Rightarrow> ownership_error + unit" where
  "validate_ownership lower resources rules =
     and_then (claim_loop lower rules resources empty_claims) (\<lambda>t.
       check_exact lower rules (map snd (cl_paths t)))"

end
