(* ===== verification/Adapter_Ownership.thy ===== *)
theory Adapter_Ownership
  imports Adapter_Resources
begin

text \<open>
  What the ownership check of \<open>resources.rs\<close> accepts, stated over the set of claims instead of the
  tables of the loop, and the links it can resolve.
\<close>

section \<open>Claims\<close>

text \<open>The filesystem claims of a list of resources, with the provider of each.\<close>

definition claims_of :: "normalized_resource list \<Rightarrow> (stable_id \<times> filesystem_intent) list" where
  "claims_of resources = concat (map (\<lambda>r. case filesystem_of (nr_intent r) of
     None \<Rightarrow> [] | Some i \<Rightarrow> [(pv_provider_id (nr_provenance r), i)]) resources)"

definition claim_path :: "stable_id \<times> filesystem_intent \<Rightarrow> managed_path" where
  "claim_path c = intent_path (snd c)"

definition packages_of :: "normalized_resource list \<Rightarrow> resource_address list" where
  "packages_of resources = concat (map (\<lambda>r. if intent_type (nr_intent r) = ResourcePackage
     then [intent_address (nr_intent r)] else []) resources)"

lemma claims_of_simps [simp]:
  "claims_of [] = []" "claims_of (xs @ ys) = claims_of xs @ claims_of ys"
  by (simp_all add: claims_of_def)

lemma packages_of_simps [simp]:
  "packages_of [] = []" "packages_of (xs @ ys) = packages_of xs @ packages_of ys"
  by (simp_all add: packages_of_def)

lemma claims_of_one [simp]:
  "filesystem_of (nr_intent r) = Some i \<Longrightarrow> claims_of [r] = [(pv_provider_id (nr_provenance r), i)]"
  "filesystem_of (nr_intent r) = None \<Longrightarrow> claims_of [r] = []"
  by (simp_all add: claims_of_def)

lemma filesystem_of_Some [simp]: "filesystem_of x = Some i \<longleftrightarrow> x = FilesystemIntent i"
  by (cases x) auto

lemma intent_type_iff: "intent_type x = ResourcePackage \<longleftrightarrow> filesystem_of x = None"
  by (cases x) auto

lemma mp_str_inj [simp]: "mp_str a = mp_str b \<longleftrightarrow> a = b"
  by (auto intro: managed_path.expand)

text \<open>What the tables hold after some resources.\<close>

definition tables_hold :: "(string \<Rightarrow> string) \<Rightarrow> ownership_rules \<Rightarrow> normalized_resource list \<Rightarrow> claim_tables \<Rightarrow> bool" where
  "tables_hold lower rules seen t \<longleftrightarrow>
     set (cl_addresses t) = (\<lambda>r. intent_address (nr_intent r)) ` set seen
     \<and> set (cl_paths t) = (\<lambda>c. (mp_str (claim_path c), c)) ` set (claims_of seen)
     \<and> (\<not> ow_case_sensitive rules \<longrightarrow>
          (\<forall>k. bt_get (cl_folded t) k = None \<longleftrightarrow> k \<notin> (\<lambda>c. lower (mp_str (claim_path c))) ` set (claims_of seen))
          \<and> (\<forall>k p. bt_get (cl_folded t) k = Some p \<longrightarrow> p \<in> claim_path ` set (claims_of seen)))"

text \<open>When a further resource is admitted.\<close>

definition resource_fits :: "(string \<Rightarrow> string) \<Rightarrow> ownership_rules \<Rightarrow> normalized_resource list \<Rightarrow> normalized_resource \<Rightarrow> bool" where
  "resource_fits lower rules seen r \<longleftrightarrow>
     (case filesystem_of (nr_intent r) of
        Some i \<Rightarrow> validate_claim lower rules i = Inr () \<and> intent_path i \<notin> claim_path ` set (claims_of seen)
          \<and> (\<not> ow_case_sensitive rules \<longrightarrow>
               lower (mp_str (intent_path i)) \<notin> (\<lambda>c. lower (mp_str (claim_path c))) ` set (claims_of seen))
      | None \<Rightarrow> intent_address (nr_intent r) \<notin> set (packages_of seen)
          \<and> (\<forall>d. declaration_of (nr_intent r) = Some d \<longrightarrow> package_declaration_validate d = Inr ()))"

lemma packages_of_iff:
  "filesystem_of (nr_intent r) = None \<Longrightarrow> intent_address (nr_intent r) \<in> (\<lambda>r. intent_address (nr_intent r)) ` set seen
     \<longleftrightarrow> intent_address (nr_intent r) \<in> set (packages_of seen)"
proof -
  assume a: "filesystem_of (nr_intent r) = None"
  have "intent_type (nr_intent x) = ResourcePackage" if "intent_address (nr_intent x) = intent_address (nr_intent r)" for x
    using a that by (cases "nr_intent x" rule: intent_address.cases; cases "nr_intent r" rule: intent_address.cases) auto
  then show ?thesis by (force simp: packages_of_def)
qed


lemma set_bt_insert_fresh: "bt_get m k = None \<Longrightarrow> set (bt_insert k v m) = insert (k, v) (set m)"
  by (induction k v m rule: bt_insert.induct) (auto simp: bt_get_def split: if_splits)

lemma tables_path_known:
  assumes "tables_hold lower rules seen t"
  shows "bt_get (cl_paths t) (mp_str p) = None \<longleftrightarrow> p \<notin> claim_path ` set (claims_of seen)"
  using assms bt_get_in_keys [of "cl_paths t" "mp_str p"] by (auto simp: tables_hold_def image_iff)

lemma claim_resource_step:
  assumes t: "tables_hold lower rules seen t"
  shows "(\<exists>t'. claim_resource lower rules r t = Inr t') \<longleftrightarrow> resource_fits lower rules seen r"
    and "claim_resource lower rules r t = Inr t' \<Longrightarrow> tables_hold lower rules (seen @ [r]) t'"
proof -
  let ?t = "t\<lparr>cl_addresses := intent_address (nr_intent r) # cl_addresses t\<rparr>"
  have addresses: "set (cl_addresses t) = (\<lambda>r. intent_address (nr_intent r)) ` set seen"
    using t by (simp add: tables_hold_def)
  have "((\<exists>t'. claim_resource lower rules r t = Inr t') \<longleftrightarrow> resource_fits lower rules seen r)
    \<and> (\<forall>t'. claim_resource lower rules r t = Inr t' \<longrightarrow> tables_hold lower rules (seen @ [r]) t')"
  proof (cases "filesystem_of (nr_intent r)")
    case None
    have k: "intent_address (nr_intent r) \<in> set (cl_addresses t) \<longleftrightarrow> intent_address (nr_intent r) \<in> set (packages_of seen)"
      using packages_of_iff [OF None] addresses by simp
    have "tables_hold lower rules (seen @ [r]) ?t"
      using t None by (auto simp: tables_hold_def)
    then show ?thesis
      using None k
      by (cases "declaration_of (nr_intent r)")
        (auto simp: claim_resource_def resource_fits_def Let_def intent_type_iff and_then_Ok_iff)
  next
    case (Some i)
    let ?p = "intent_path i" and ?k = "lower (mp_str (intent_path i))" and ?c = "(pv_provider_id (nr_provenance r), i)"
    have type: "intent_type (nr_intent r) \<noteq> ResourcePackage" using Some by (simp add: intent_type_iff)
    have known: "bt_get (cl_paths t) (mp_str ?p) = None \<longleftrightarrow> ?p \<notin> claim_path ` set (claims_of seen)"
      by (rule tables_path_known [OF t])
    have folded: "bt_get (cl_folded t) ?k = None \<longleftrightarrow> ?k \<notin> (\<lambda>c. lower (mp_str (claim_path c))) ` set (claims_of seen)"
      "\<And>p. bt_get (cl_folded t) ?k = Some p \<Longrightarrow> p \<in> claim_path ` set (claims_of seen)"
      if "\<not> ow_case_sensitive rules" using t that by (auto simp: tables_hold_def)
    have c: "claim_resource lower rules r t = claim_filesystem lower rules (pv_provider_id (nr_provenance r)) i ?t"
      using Some type by (simp add: claim_resource_def Let_def)
    let ?u = "?t\<lparr>cl_paths := bt_insert (mp_str ?p) ?c (cl_paths t)\<rparr>"
    let ?v = "if ow_case_sensitive rules then ?u else ?u\<lparr>cl_folded := bt_insert ?k ?p (cl_folded t)\<rparr>"
    have r: "claim_filesystem lower rules (pv_provider_id (nr_provenance r)) i ?t
       = (if resource_fits lower rules seen r then Inr ?v
          else claim_filesystem lower rules (pv_provider_id (nr_provenance r)) i ?t)"
      using Some known folded
      by (auto simp: claim_filesystem_def resource_fits_def Let_def split: option.splits)
    have bad: "claim_filesystem lower rules (pv_provider_id (nr_provenance r)) i ?t \<noteq> Inr t'"
      if n: "\<not> resource_fits lower rules seen r" for t'
    proof
      assume a: "claim_filesystem lower rules (pv_provider_id (nr_provenance r)) i ?t = Inr t'"
      then have v: "validate_claim lower rules i = Inr ()"
        and fresh: "?p \<notin> claim_path ` set (claims_of seen)"
        using known by (auto simp: claim_filesystem_def Let_def and_then_Ok_iff split: option.splits)
      with n Some have cs: "\<not> ow_case_sensitive rules"
        and "?k \<in> (\<lambda>c. lower (mp_str (claim_path c))) ` set (claims_of seen)"
        by (auto simp: resource_fits_def)
      then obtain q where q: "bt_get (cl_folded t) ?k = Some q" using folded(1) by (cases "bt_get (cl_folded t) ?k") auto
      then have "q \<noteq> ?p" using folded(2) [OF cs q] fresh by blast
      with a v q cs show False
        using known fresh by (simp add: claim_filesystem_def Let_def)
    qed
    have "tables_hold lower rules (seen @ [r]) ?v" if "resource_fits lower rules seen r"
    proof -
      have "bt_get (cl_paths t) (mp_str ?p) = None" using that known Some by (simp add: resource_fits_def)
      then show ?thesis
        using t Some unfolding tables_hold_def
        by (auto simp: set_bt_insert_fresh bt_get_insert claim_path_def split: if_splits)
    qed
    then show ?thesis using c r bad by (metis sum.inject(2))
  qed
  then show "(\<exists>t'. claim_resource lower rules r t = Inr t') \<longleftrightarrow> resource_fits lower rules seen r"
    and "claim_resource lower rules r t = Inr t' \<Longrightarrow> tables_hold lower rules (seen @ [r]) t'" by blast+
qed


section \<open>The whole check\<close>

fun fits_all :: "(string \<Rightarrow> string) \<Rightarrow> ownership_rules \<Rightarrow> normalized_resource list \<Rightarrow> normalized_resource list \<Rightarrow> bool" where
  "fits_all lower rules seen [] \<longleftrightarrow> True"
| "fits_all lower rules seen (r # rs) \<longleftrightarrow> resource_fits lower rules seen r \<and> fits_all lower rules (seen @ [r]) rs"

lemma claim_loop_step:
  "tables_hold lower rules seen t \<Longrightarrow>
     ((\<exists>t'. claim_loop lower rules rs t = Inr t') \<longleftrightarrow> fits_all lower rules seen rs)
     \<and> (\<forall>t'. claim_loop lower rules rs t = Inr t' \<longrightarrow> tables_hold lower rules (seen @ rs) t')"
proof (induction rs arbitrary: seen t)
  case (Cons r rs)
  note s = claim_resource_step [OF Cons.prems, of r]
  show ?case
  proof (cases "claim_resource lower rules r t")
    case (Inl e)
    then show ?thesis using s(1) by auto
  next
    case (Inr u)
    then show ?thesis using s Cons.IH [OF s(2) [OF Inr]] by auto
  qed
qed simp

lemma fits_all_snoc:
  "fits_all lower rules seen (rs @ [r]) \<longleftrightarrow> fits_all lower rules seen rs \<and> resource_fits lower rules (seen @ rs) r"
  by (induction rs arbitrary: seen) auto

definition admissible :: "(string \<Rightarrow> string) \<Rightarrow> ownership_rules \<Rightarrow> normalized_resource list \<Rightarrow> bool" where
  "admissible lower rules resources \<longleftrightarrow>
     (\<forall>c\<in>set (claims_of resources). validate_claim lower rules (snd c) = Inr ())
     \<and> distinct (map claim_path (claims_of resources))
     \<and> (\<not> ow_case_sensitive rules \<longrightarrow> distinct (map (\<lambda>c. lower (mp_str (claim_path c))) (claims_of resources)))
     \<and> distinct (packages_of resources)
     \<and> (\<forall>r\<in>set resources. \<forall>d. declaration_of (nr_intent r) = Some d \<longrightarrow> package_declaration_validate d = Inr ())"

lemma fits_all_iff: "fits_all lower rules [] resources \<longleftrightarrow> admissible lower rules resources"
proof (induction resources rule: rev_induct)
  case Nil
  then show ?case by (simp add: admissible_def)
next
  case (snoc r rs)
  have p: "packages_of [r] = (if filesystem_of (nr_intent r) = None then [intent_address (nr_intent r)] else [])"
    by (simp add: packages_of_def intent_type_iff)
  have d: "declaration_of (nr_intent r) = None" if "filesystem_of (nr_intent r) = Some i" for i
    using that by (simp add: declaration_of_def)
  show ?case
    using snoc d
    by (cases "filesystem_of (nr_intent r)")
      (auto simp: fits_all_snoc admissible_def resource_fits_def p claim_path_def image_iff)
qed

lemma tables_hold_empty: "tables_hold lower rules [] empty_claims"
  by (simp add: tables_hold_def empty_claims_def bt_get_def)

lemma tables_hold_claims: "tables_hold lower rules seen t \<Longrightarrow> set (map snd (cl_paths t)) = set (claims_of seen)"
  by (auto simp: tables_hold_def image_iff)

lemma validate_ownership_Ok:
  "validate_ownership lower resources rules = Inr () \<longleftrightarrow> admissible lower rules resources
     \<and> (\<forall>exact\<in>set (claims_of resources). \<forall>c\<in>set (claims_of resources).
          is_exact_directory (snd exact) \<longrightarrow> \<not> exact_conflict lower rules exact c)"
proof -
  note s = claim_loop_step [OF tables_hold_empty, of lower rules resources, unfolded fits_all_iff]
  show ?thesis
  proof (cases "claim_loop lower rules resources empty_claims")
    case (Inl e)
    then show ?thesis using s by (simp add: validate_ownership_def)
  next
    case (Inr t)
    then have "tables_hold lower rules resources t" using s by simp
    note c = tables_hold_claims [OF this]
    have "admissible lower rules resources" using s Inr by blast
    then show ?thesis
      using c Inr unfolding validate_ownership_def check_exact_def by auto
  qed
qed

lemma validate_claim_Ok:
  "validate_claim lower rules i = Inr () \<longleftrightarrow>
     (\<exists>root\<in>set (ow_declared_roots rules). contains_path lower rules (intent_path i) root)
     \<and> (\<forall>root\<in>set (ow_protected_roots rules). \<not> contains_path lower rules (intent_path i) root
          \<and> (contains_path lower rules root (intent_path i) \<longrightarrow> plain_directory i))
     \<and> (\<forall>p target kind before. i = SymlinkIntent p target kind before \<longrightarrow>
          (\<exists>q. resolved_for target p = Inr q
             \<and> (\<forall>root\<in>set (ow_protected_roots rules). \<not> contains_path lower rules q root)))"
  by (cases i) (auto simp: validate_claim_def Let_def and_then_Ok_iff list_ex_iff)

section \<open>Links\<close>

lemma split_char_free: "c \<notin> set f \<Longrightarrow> split_char c f = [f]"
  by (induction f) auto

lemma split_char_prefix: "c \<notin> set f \<Longrightarrow> split_char c (f @ c # s) = f # split_char c s"
  by (induction f) auto

lemma split_join_char: "fs \<noteq> [] \<Longrightarrow> \<forall>f\<in>set fs. c \<notin> set f \<Longrightarrow> split_char c (join_char c fs) = fs"
  by (induction c fs rule: join_char.induct) (auto simp: split_char_free split_char_prefix)

definition good_segment :: "string \<Rightarrow> bool" where
  "good_segment s \<longleftrightarrow> managed_segment s \<and> CHR ''/'' \<notin> set s \<and> CHR 0x5C \<notin> set s \<and> CHR '':'' \<notin> set s"

lemma join_char_set: "set (join_char c fs) \<subseteq> insert c (\<Union> (set ` set fs))"
  by (induction c fs rule: join_char.induct) auto

lemma join_char_mem: "f \<in> set fs \<Longrightarrow> set f \<subseteq> set (join_char c fs)"
  by (induction c fs rule: join_char.induct) auto

lemma split_char_set: "f \<in> set (split_char c s) \<Longrightarrow> set f \<subseteq> set s"
  using join_char_mem [of f "split_char c s" c] by simp

lemma split_char_snoc: "split_char c (r @ [c]) = split_char c r @ [[]]"
proof (induction r)
  case (Cons x r)
  then show ?case by (cases "split_char c r") auto
qed simp

lemma join_not_edges:
  assumes "fs \<noteq> []" "\<forall>f\<in>set fs. f \<noteq> [] \<and> CHR ''/'' \<notin> set f"
  shows "join_char (CHR ''/'') fs \<noteq> []" "\<not> starts_with (join_char (CHR ''/'') fs) ''/''"
    "\<not> ends_with (join_char (CHR ''/'') fs) ''/''"
proof -
  let ?s = "join_char (CHR ''/'') fs"
  have sp: "split_char (CHR ''/'') ?s = fs" using split_join_char assms by blast
  show n: "?s \<noteq> []" using sp assms by (cases ?s) auto
  show "\<not> starts_with ?s ''/''"
  proof
    assume "starts_with ?s ''/''"
    then obtain r where "?s = CHR ''/'' # r" by (auto simp: starts_with_iff)
    then show False using sp assms by auto
  qed
  show "\<not> ends_with ?s ''/''"
  proof
    assume "ends_with ?s ''/''"
    then have "?s = take (length ?s - 1) ?s @ [CHR ''/'']"
      by (metis append_take_drop_id ends_with_def length_Cons list.size(3) One_nat_def)
    then obtain r where r: "?s = r @ [CHR ''/'']" by blast
    have "[] \<in> set fs" using sp unfolding r split_char_snoc by auto
    then show False using assms(2) by auto
  qed
qed

lemma managed_path_parse_join:
  assumes "fs \<noteq> []" "\<forall>f\<in>set fs. good_segment f"
  shows "managed_path_parse (join_char (CHR ''/'') fs) = Inr (ManagedPath (join_char (CHR ''/'') fs))"
proof -
  have f: "\<forall>f\<in>set fs. f \<noteq> [] \<and> CHR ''/'' \<notin> set f" using assms(2) by (auto simp: good_segment_def managed_segment_def)
  have "CHR 0x5C \<notin> set (join_char (CHR ''/'') fs)" "CHR '':'' \<notin> set (join_char (CHR ''/'') fs)"
    using join_char_set [of "CHR ''/''" fs] assms(2) by (auto simp: good_segment_def)
  then show ?thesis
    using join_not_edges [OF assms(1) f] split_join_char [OF assms(1), of "CHR ''/''"] f assms(2)
    by (auto simp: managed_path_parse_def list_ex_iff good_segment_def)
qed

lemma symlink_walk_resolves:
  "symlink_walk stack segments = Some r \<Longrightarrow> resolve_segments stack segments = r"
  by (induction stack segments rule: symlink_walk.induct) (auto split: if_splits)

definition plain_text :: "string \<Rightarrow> bool" where
  "plain_text s \<longleftrightarrow> CHR ''/'' \<notin> set s \<and> CHR 0x5C \<notin> set s \<and> CHR '':'' \<notin> set s"

lemma good_segment_iff: "good_segment s \<longleftrightarrow> managed_segment s \<and> plain_text s"
  by (auto simp: good_segment_def plain_text_def)

lemma symlink_walk_good:
  "symlink_walk stack segments = Some r \<Longrightarrow> \<forall>f\<in>set stack. good_segment f \<Longrightarrow> \<forall>s\<in>set segments. plain_text s \<Longrightarrow>
   \<forall>f\<in>set r. good_segment f"
proof (induction stack segments rule: symlink_walk.induct)
  case (2 stack segment rest)
  have rest: "\<forall>s\<in>set rest. plain_text s" "plain_text segment" using "2.prems"(3) by auto
  have seg: "\<not> (segment = [] \<or> segment = ''.'')" using "2.prems"(1) by (auto split: if_splits)
  show ?case
  proof (cases "segment = ''..''")
    case True
    then have w: "stack \<noteq> []" "symlink_walk (butlast stack) rest = Some r" using "2.prems"(1) by (auto split: if_splits)
    have "\<forall>f\<in>set (butlast stack). good_segment f" using "2.prems"(2) by (auto dest: in_set_butlastD)
    then show ?thesis using "2.IH"(1) [OF seg True w _ rest(1)] by blast
  next
    case False
    have w: "symlink_walk (stack @ [segment]) rest = Some r" using "2.prems"(1) seg False by simp
    have "managed_segment segment" using seg False unfolding managed_segment_def by blast
    then have "\<forall>f\<in>set (stack @ [segment]). good_segment f" using "2.prems"(2) rest(2) by (simp add: good_segment_iff)
    then show ?thesis using "2.IH"(2) [OF seg False w _ rest(1)] by blast
  qed
qed simp

lemma link_directory_good:
  assumes "managed_path_parse text = Inr link"
  shows "\<forall>f\<in>set (link_directory link). good_segment f"
proof
  fix f assume "f \<in> set (link_directory link)"
  then have f: "f \<in> set (split_char (CHR ''/'') text)"
    using assms by (auto simp: link_directory_def managed_path_parse_def split: if_splits dest: in_set_butlastD)
  then show "good_segment f"
    using assms split_char_set [OF f] split_char_fields [OF f]
    by (auto simp: good_segment_def managed_path_parse_def list_ex_iff split: if_splits)
qed

lemma parsed_link_resolves:
  assumes "managed_path_parse text = Inr link" "symlink_target_parse link target = Inr x"
  shows "\<exists>q. resolved_for x link = Inr q"
proof -
  have t: "\<not> unportable_target target" "x = SymlinkTarget target"
    and "\<exists>r. symlink_walk (link_directory link) (split_char (CHR ''/'') target) = Some r \<and> r \<noteq> []"
    using assms(2) by (auto simp: symlink_target_parse_def split: if_splits option.splits)
  then obtain r where r: "symlink_walk (link_directory link) (split_char (CHR ''/'') target) = Some r" "r \<noteq> []" by blast
  have "plain_text s" if "s \<in> set (split_char (CHR ''/'') target)" for s
    using split_char_fields [OF that] split_char_set [OF that] t(1) by (auto simp: unportable_target_def plain_text_def)
  then have g: "\<forall>f\<in>set r. good_segment f" and e: "resolve_segments (link_directory link) (split_char (CHR ''/'') target) = r"
    using symlink_walk_good [OF r(1)] symlink_walk_resolves [OF r(1)] link_directory_good [OF assms(1)] by blast+
  show ?thesis
    using assms(2) t managed_path_parse_join [OF r(2) g] e by (simp add: resolved_for_def)
qed

end
