(* ===== verification/Adapter_State.thy ===== *)
theory Adapter_State
  imports Adapter_Ownership
begin

text \<open>
  The output contract of a provider, \<open>crates/commonkit-adapters/src/provider.rs\<close>: its exact version,
  the digests of its inputs, and the materialized state it hands to the controller, before and after
  the controller has resolved the packages in it. The isolated workspace a provider runs in is file
  system state and is left out.
\<close>

section \<open>Data\<close>

datatype provider_contract_error =
    NonExactVersion string
  | IncompleteInputs
  | InputDigestMismatch
  | InvalidResourceProvenance
  | MaterializationDigestMismatch
  | ControllerOwnedPackageResolution
  | UnresolvedPackageIntent
  | InvalidStagingRoot
  | StagingOverlapsLiveRoot
  | ProviderIo
  | ProviderPlatform
  | ProviderContract contract_error

datatype exact_provider_version = ExactProviderVersion (epv_str: string)

definition exact_provider_version_parse :: "string \<Rightarrow> provider_contract_error + exact_provider_version" where
  "exact_provider_version_parse value =
     (if value = [] \<or> trim value \<noteq> value \<or> contains_white value \<or> list_ex (\<lambda>c. c \<in> set ''*^~<>='') value
      then Err (NonExactVersion value) else Ok (ExactProviderVersion value))"

record provider_inputs =
  in_provider_id :: stable_id
  in_provider_version :: exact_provider_version
  in_contract_version :: string
  in_input_digests :: "(string, sha256_digest) btree_map"
  in_declared_features :: "string list"
  in_input_set_digest :: sha256_digest

datatype declared_side_effect = ServiceRestart string | RelayReconfigure string | UnsupportedResource string

fun side_effect_key :: "declared_side_effect \<Rightarrow> nat \<times> string" where
  "side_effect_key (ServiceRestart s) = (0, s)"
| "side_effect_key (RelayReconfigure s) = (1, s)"
| "side_effect_key (UnsupportedResource s) = (2, s)"

record unsupported_capability =
  us_source :: string
  us_capability :: string
  us_remediation :: string

definition unsupported_key :: "unsupported_capability \<Rightarrow> string \<times> string \<times> string" where
  "unsupported_key u = (us_source u, us_capability u, us_remediation u)"

record mcp_streamable_http =
  mh_id :: string
  mh_name :: string
  mh_enabled :: bool
  mh_url :: string
  mh_headers :: "(string, string) btree_map"

datatype provider_capability = McpStreamableHttp mcp_streamable_http

record provider_capability_resource =
  pc_capability :: provider_capability
  pc_provenance :: operation_provenance

text \<open>\<open>MaterializedState\<close> and \<open>ResolvedMaterializedState\<close> have the same fields.\<close>

record materialized_state =
  ms_inputs :: provider_inputs
  ms_resources :: "normalized_resource list"
  ms_declared_side_effects :: "declared_side_effect list"
  ms_unsupported :: "unsupported_capability list"
  ms_capabilities :: "provider_capability_resource list"
  ms_digest :: sha256_digest

text \<open>The form on the wire, whose resources cannot carry a resolved package.\<close>

record provider_resource =
  pr_intent :: provider_resource_intent
  pr_provenance :: operation_provenance

record provider_materialized_state =
  pm_inputs :: provider_inputs
  pm_resources :: "provider_resource list"
  pm_declared_side_effects :: "declared_side_effect list"
  pm_unsupported :: "unsupported_capability list"
  pm_capabilities :: "provider_capability_resource list"
  pm_digest :: sha256_digest

definition materialized_of_wire :: "provider_materialized_state \<Rightarrow> materialized_state" where
  "materialized_of_wire w =
     \<lparr>ms_inputs = pm_inputs w,
      ms_resources = map (\<lambda>r. \<lparr>nr_intent = of_provider_intent (pr_intent r), nr_provenance = pr_provenance r\<rparr>) (pm_resources w),
      ms_declared_side_effects = pm_declared_side_effects w, ms_unsupported = pm_unsupported w,
      ms_capabilities = pm_capabilities w, ms_digest = pm_digest w\<rparr>"

section \<open>Serialization\<close>

definition ser_digest_map :: "(string, sha256_digest) btree_map \<Rightarrow> json" where
  "ser_digest_map m = JObject (map (\<lambda>(k, d). (k, ser_digest d)) m)"

fun ser_side_effect :: "declared_side_effect \<Rightarrow> json" where
  "ser_side_effect (ServiceRestart s) = json_struct [(''type'', JString ''service_restart''), (''service'', JString s)]"
| "ser_side_effect (RelayReconfigure s) = json_struct [(''type'', JString ''relay_reconfigure''), (''relay'', JString s)]"
| "ser_side_effect (UnsupportedResource s) = json_struct
     [(''type'', JString ''unsupported_resource''), (''resource_type'', JString s)]"

definition ser_unsupported :: "unsupported_capability \<Rightarrow> json" where
  "ser_unsupported u = json_struct
     [(''source'', JString (us_source u)), (''capability'', JString (us_capability u)),
      (''remediation'', JString (us_remediation u))]"

fun ser_capability :: "provider_capability \<Rightarrow> json" where
  "ser_capability (McpStreamableHttp h) = json_struct
     [(''type'', JString ''mcp_streamable_http''), (''id'', JString (mh_id h)), (''name'', JString (mh_name h)),
      (''enabled'', JBool (mh_enabled h)), (''url'', JString (mh_url h)),
      (''headers'', JObject (map (\<lambda>(k, v). (k, JString v)) (mh_headers h)))]"

definition ser_capability_resource :: "provider_capability_resource \<Rightarrow> json" where
  "ser_capability_resource c = json_struct
     [(''capability'', ser_capability (pc_capability c)), (''provenance'', ser_provenance (pc_provenance c))]"

definition ser_inputs_semantic :: "stable_id \<Rightarrow> exact_provider_version \<Rightarrow> string
    \<Rightarrow> (string, sha256_digest) btree_map \<Rightarrow> string list \<Rightarrow> json" where
  "ser_inputs_semantic provider version contract digests features = json_struct
     [(''providerId'', ser_stable_id provider), (''providerVersion'', JString (epv_str version)),
      (''contractVersion'', JString contract), (''inputDigests'', ser_digest_map digests),
      (''declaredFeatures'', JArray (map JString features))]"

definition ser_materialized_semantic :: "sha256_digest \<Rightarrow> normalized_resource list \<Rightarrow> declared_side_effect list
    \<Rightarrow> unsupported_capability list \<Rightarrow> provider_capability_resource list \<Rightarrow> json" where
  "ser_materialized_semantic inputs resources effects unsupported capabilities = json_struct
     ([(''inputsDigest'', ser_digest inputs), (''resources'', JArray (map ser_resource resources)),
       (''declaredSideEffects'', JArray (map ser_side_effect effects)),
       (''unsupported'', JArray (map ser_unsupported unsupported))]
      @ (if capabilities = [] then []
         else [(''capabilities'', JArray (map ser_capability_resource capabilities))]))"

section \<open>Inputs\<close>

definition provider_inputs_new ::
  "env \<Rightarrow> stable_id \<Rightarrow> exact_provider_version \<Rightarrow> string \<Rightarrow> (string, sha256_digest) btree_map \<Rightarrow> string list
    \<Rightarrow> provider_contract_error + provider_inputs" where
  "provider_inputs_new E provider version contract digests features =
     (if contract = [] \<or> digests = [] then Err IncompleteInputs
      else let features = remdups_adj (sort features) in
        and_then (map_err ProviderContract (digest_domain_json E ''commonkit.provider-inputs.v1''
            (ser_inputs_semantic provider version contract digests features))) (\<lambda>digest.
          Ok \<lparr>in_provider_id = provider, in_provider_version = version, in_contract_version = contract,
              in_input_digests = digests, in_declared_features = features, in_input_set_digest = digest\<rparr>))"

definition provider_inputs_verify :: "env \<Rightarrow> provider_inputs \<Rightarrow> provider_contract_error + unit" where
  "provider_inputs_verify E i =
     and_then (provider_inputs_new E (in_provider_id i) (in_provider_version i) (in_contract_version i)
         (in_input_digests i) (in_declared_features i)) (\<lambda>rebuilt.
       ensure (rebuilt = i) InputDigestMismatch)"

section \<open>Materialized states\<close>

definition provenance_matches :: "provider_inputs \<Rightarrow> operation_provenance \<Rightarrow> bool" where
  "provenance_matches inputs p \<longleftrightarrow> pv_provider_id p = in_provider_id inputs
     \<and> pv_provider_version p = epv_str (in_provider_version inputs)
     \<and> pv_input_digest p = in_input_set_digest inputs"

definition order_resources :: "normalized_resource list \<Rightarrow> normalized_resource list" where
  "order_resources = sort_key (\<lambda>r. (resource_sort_key r, pv_source (nr_provenance r)))"

definition order_side_effects :: "declared_side_effect list \<Rightarrow> declared_side_effect list" where
  "order_side_effects effects = remdups_adj (sort_key side_effect_key effects)"

definition order_unsupported :: "unsupported_capability list \<Rightarrow> unsupported_capability list" where
  "order_unsupported us = remdups_adj (sort_key unsupported_key us)"

fun capability_id :: "provider_capability \<Rightarrow> string" where
  "capability_id (McpStreamableHttp h) = mh_id h"

definition order_capabilities :: "provider_capability_resource list \<Rightarrow> provider_capability_resource list" where
  "order_capabilities cs =
     remdups_adj (sort_key (\<lambda>c. (pv_source (pc_provenance c), capability_id (pc_capability c))) cs)"

fun is_resolved :: "resource_intent \<Rightarrow> bool" where
  "is_resolved (ResolvedIntent _) = True" | "is_resolved _ = False"

fun is_desired :: "resource_intent \<Rightarrow> bool" where
  "is_desired (PackageIntent _) = True" | "is_desired _ = False"

definition finalize_with_capabilities ::
  "env \<Rightarrow> provider_inputs \<Rightarrow> normalized_resource list \<Rightarrow> declared_side_effect list \<Rightarrow> unsupported_capability list
    \<Rightarrow> provider_capability_resource list \<Rightarrow> provider_contract_error + materialized_state" where
  "finalize_with_capabilities E inputs resources effects unsupported capabilities =
     and_then (provider_inputs_verify E inputs) (\<lambda>_.
     and_then (for_each (\<lambda>r.
         if is_resolved (nr_intent r) then Err ControllerOwnedPackageResolution
         else ensure (provenance_matches inputs (nr_provenance r)) InvalidResourceProvenance) resources) (\<lambda>_.
     let resources = order_resources resources; effects = order_side_effects effects;
         unsupported = order_unsupported unsupported in
     and_then (for_each (\<lambda>c. ensure (provenance_matches inputs (pc_provenance c)) InvalidResourceProvenance)
         capabilities) (\<lambda>_.
     let capabilities = order_capabilities capabilities in
     and_then (map_err ProviderContract (digest_domain_json E
         (if filesystem_only resources then ''commonkit.materialized-state.v1'' else ''commonkit.materialized-state.v2'')
         (ser_materialized_semantic (in_input_set_digest inputs) resources effects unsupported capabilities))) (\<lambda>digest.
       Ok \<lparr>ms_inputs = inputs, ms_resources = resources, ms_declared_side_effects = effects,
           ms_unsupported = unsupported, ms_capabilities = capabilities, ms_digest = digest\<rparr>))))"

definition finalize_materialized ::
  "env \<Rightarrow> provider_inputs \<Rightarrow> normalized_resource list \<Rightarrow> declared_side_effect list \<Rightarrow> unsupported_capability list
    \<Rightarrow> provider_contract_error + materialized_state" where
  "finalize_materialized E inputs resources effects unsupported =
     finalize_with_capabilities E inputs resources effects unsupported []"

definition finalize_resolved ::
  "env \<Rightarrow> provider_inputs \<Rightarrow> normalized_resource list \<Rightarrow> declared_side_effect list \<Rightarrow> unsupported_capability list
    \<Rightarrow> provider_capability_resource list \<Rightarrow> provider_contract_error + materialized_state" where
  "finalize_resolved E inputs resources effects unsupported capabilities =
     and_then (provider_inputs_verify E inputs) (\<lambda>_.
     and_then (for_each (\<lambda>r.
         if is_desired (nr_intent r) then Err UnresolvedPackageIntent
         else ensure (provenance_matches inputs (nr_provenance r)) InvalidResourceProvenance) resources) (\<lambda>_.
     let resources = order_resources resources; effects = order_side_effects effects;
         unsupported = order_unsupported unsupported; capabilities = order_capabilities capabilities in
     and_then (map_err ProviderContract (digest_domain_json E ''commonkit.resolved-materialized-state.v1''
         (ser_materialized_semantic (in_input_set_digest inputs) resources effects unsupported capabilities))) (\<lambda>digest.
       Ok \<lparr>ms_inputs = inputs, ms_resources = resources, ms_declared_side_effects = effects,
           ms_unsupported = unsupported, ms_capabilities = capabilities, ms_digest = digest\<rparr>)))"

definition materialized_verify :: "env \<Rightarrow> materialized_state \<Rightarrow> provider_contract_error + unit" where
  "materialized_verify E s =
     and_then (finalize_with_capabilities E (ms_inputs s) (ms_resources s) (ms_declared_side_effects s)
         (ms_unsupported s) (ms_capabilities s)) (\<lambda>rebuilt.
       ensure (rebuilt = s) MaterializationDigestMismatch)"

definition resolved_verify :: "env \<Rightarrow> materialized_state \<Rightarrow> provider_contract_error + unit" where
  "resolved_verify E s =
     and_then (finalize_resolved E (ms_inputs s) (ms_resources s) (ms_declared_side_effects s)
         (ms_unsupported s) (ms_capabilities s)) (\<lambda>rebuilt.
       ensure (rebuilt = s) MaterializationDigestMismatch)"

section \<open>Context\<close>

record provider_context =
  cx_target_id :: stable_id
  cx_platform :: string
  cx_architecture :: string
  cx_policy_digest :: sha256_digest
  cx_declared_roots :: "managed_path list"
  cx_observed_fact_digests :: "(string, sha256_digest) btree_map"

definition platform_facts_digest :: "env \<Rightarrow> provider_context \<Rightarrow> provider_contract_error + sha256_digest" where
  "platform_facts_digest E c =
     (if trim (cx_platform c) = [] \<or> trim (cx_architecture c) = [] then Err IncompleteInputs
      else map_err ProviderContract (digest_domain_json E ''commonkit.provider-target-platform.v1''
        (json_struct [(''platform'', JString (cx_platform c)), (''architecture'', JString (cx_architecture c))])))"

section \<open>Facts\<close>

text \<open>Ordering and deduplicating twice changes nothing, and neither does the order of the input.\<close>

lemma sort_key_sorted_id: "sorted (map f xs) \<Longrightarrow> sort_key f xs = xs"
  by (induction xs) (auto simp: insort_is_Cons)

lemma sorted_remdups_adj_key: "sorted (map f xs) \<Longrightarrow> sorted (map f (remdups_adj xs))"
  by (induction xs rule: remdups_adj.induct) auto

lemma remdups_adj_again [simp]: "remdups_adj (remdups_adj xs) = remdups_adj xs"
  using distinct_adj_remdups_adj [of xs] by (simp add: distinct_adj_altdef)

lemma guarded_ensure_Ok [simp]: "(if b then Err e else ensure c d) = Inr u \<longleftrightarrow> \<not> b \<and> c"
  by (simp add: ensure_def)

lemma dedup_sort_idem: "remdups_adj (sort_key f (remdups_adj (sort_key f xs))) = remdups_adj (sort_key f xs)"
proof -
  have "sort_key f (remdups_adj (sort_key f xs)) = remdups_adj (sort_key f xs)"
    by (rule sort_key_sorted_id, rule sorted_remdups_adj_key) (simp add: sorted_sort_key)
  then show ?thesis by simp
qed

lemma order_idem [simp]:
  "order_resources (order_resources rs) = order_resources rs"
  "order_side_effects (order_side_effects es) = order_side_effects es"
  "order_unsupported (order_unsupported us) = order_unsupported us"
  "order_capabilities (order_capabilities cs) = order_capabilities cs"
  unfolding order_side_effects_def order_unsupported_def order_capabilities_def
  by (simp_all add: order_resources_def sort_key_sorted_id sorted_sort_key dedup_sort_idem)

lemma order_set [simp]:
  "set (order_resources rs) = set rs" "set (order_capabilities cs) = set cs"
  "set (order_side_effects es) = set es" "set (order_unsupported us) = set us"
  by (simp_all add: order_resources_def order_capabilities_def order_side_effects_def order_unsupported_def)

lemma finalize_verifies:
  "finalize_with_capabilities E inputs rs es us cs = Inr s \<Longrightarrow> materialized_verify E s = Inr ()"
  by (auto simp: finalize_with_capabilities_def materialized_verify_def Let_def and_then_Ok_iff)

lemma finalize_resolved_verifies:
  "finalize_resolved E inputs rs es us cs = Inr s \<Longrightarrow> resolved_verify E s = Inr ()"
  by (auto simp: finalize_resolved_def resolved_verify_def Let_def and_then_Ok_iff)

lemma materialized_verify_facts:
  assumes "materialized_verify E s = Inr ()"
  shows "provider_inputs_verify E (ms_inputs s) = Inr ()" "order_resources (ms_resources s) = ms_resources s"
    "\<forall>r\<in>set (ms_resources s). \<not> is_resolved (nr_intent r) \<and> provenance_matches (ms_inputs s) (nr_provenance r)"
  using assms by - (cases s; auto simp: materialized_verify_def finalize_with_capabilities_def Let_def and_then_Ok_iff split: if_splits)+

lemma resolved_verify_facts:
  assumes "resolved_verify E s = Inr ()"
  shows "provider_inputs_verify E (ms_inputs s) = Inr ()" "order_resources (ms_resources s) = ms_resources s"
    "\<forall>r\<in>set (ms_resources s). \<not> is_desired (nr_intent r) \<and> provenance_matches (ms_inputs s) (nr_provenance r)"
  using assms by - (cases s; auto simp: resolved_verify_def finalize_resolved_def Let_def and_then_Ok_iff split: if_splits)+

end
