(* ===== verification/Adapter_Artifacts.thy ===== *)
theory Adapter_Artifacts
  imports Adapter_State
begin

text \<open>
  The content-addressed artifact store of \<open>crates/commonkit-adapters/src/artifacts.rs\<close>. The directory
  of the store is a map from digests to the entries \<open>{hex}.blob\<close>; the operating system decides, per
  digest, whether the creation of a blob fails or stops after some bytes (the argument \<open>F\<close>). Opening
  the directory itself and its permissions are file system state and are left out.
\<close>

section \<open>The directory and its faults\<close>

datatype blob = Regular string | NotRegular | Unreadable

type_synonym artifact_store = "sha256_digest \<Rightarrow> blob option"

datatype write_fault = NoFault | CreateFails | WriteStops string

datatype artifact_error =
    InvalidStoreRoot
  | ArtifactTooLarge
  | UnsafeArtifactType
  | ArtifactDigestMismatch
  | ArtifactIo
  | ArtifactContract contract_error

definition digest_bytes :: "env \<Rightarrow> string \<Rightarrow> artifact_error + sha256_digest" where
  "digest_bytes E bytes = map_err ArtifactContract (sha256_digest_parse (''sha256:'' @ env_sha256 E bytes))"

text \<open>\<open>u64::try_from(bytes.len())\<close>\<close>

definition length_u64 :: "string \<Rightarrow> u64 option" where
  "length_u64 bytes = (if length bytes < 2 ^ 64 then Some (word_of_nat (length bytes)) else None)"

section \<open>Reading\<close>

definition load_unbounded :: "artifact_store \<Rightarrow> sha256_digest \<Rightarrow> artifact_error + string" where
  "load_unbounded store digest = (case store digest of
     None \<Rightarrow> Err ArtifactIo
   | Some (Regular bytes) \<Rightarrow> Ok bytes
   | Some NotRegular \<Rightarrow> Err UnsafeArtifactType
   | Some Unreadable \<Rightarrow> Err ArtifactIo)"

definition artifact_load :: "env \<Rightarrow> artifact_store \<Rightarrow> content_reference \<Rightarrow> artifact_error + string" where
  "artifact_load E store reference =
     and_then (load_unbounded store (ct_digest reference)) (\<lambda>bytes.
       if length_u64 bytes \<noteq> Some (ct_bytes reference) then Err ArtifactDigestMismatch
       else and_then (digest_bytes E bytes) (\<lambda>actual.
         if actual \<noteq> ct_digest reference then Err ArtifactDigestMismatch else Ok bytes))"

definition load_by_digest :: "env \<Rightarrow> artifact_store \<Rightarrow> sha256_digest \<Rightarrow> artifact_error + string" where
  "load_by_digest E store digest =
     and_then (load_unbounded store digest) (\<lambda>bytes.
     and_then (digest_bytes E bytes) (\<lambda>actual.
       if actual \<noteq> digest then Err ArtifactDigestMismatch else Ok bytes))"

definition verify_digest :: "env \<Rightarrow> artifact_store \<Rightarrow> sha256_digest \<Rightarrow> artifact_error + unit" where
  "verify_digest E store digest =
     and_then (load_unbounded store digest) (\<lambda>bytes.
     and_then (digest_bytes E bytes) (\<lambda>actual.
       ensure (actual = digest) ArtifactDigestMismatch))"

definition verify_reference :: "env \<Rightarrow> artifact_store \<Rightarrow> content_reference \<Rightarrow> artifact_error + unit" where
  "verify_reference E store reference =
     and_then (load_unbounded store (ct_digest reference)) (\<lambda>bytes.
     and_then (ensure (length_u64 bytes = Some (ct_bytes reference)) ArtifactDigestMismatch) (\<lambda>_.
     and_then (digest_bytes E bytes) (\<lambda>actual.
       ensure (actual = ct_digest reference) ArtifactDigestMismatch)))"

definition read_chunk :: "artifact_store \<Rightarrow> content_reference \<Rightarrow> u64 \<Rightarrow> u32 \<Rightarrow> artifact_error + string" where
  "read_chunk store reference offset maximum_bytes =
     (if ct_bytes reference > 512 * 1024 * 1024 \<or> maximum_bytes = 0 then Err ArtifactTooLarge
      else and_then (load_unbounded store (ct_digest reference)) (\<lambda>bytes.
        if length_u64 bytes \<noteq> Some (ct_bytes reference) \<or> unat offset > length bytes
        then Err ArtifactDigestMismatch
        else Ok (take (min (length bytes - unat offset) (unat maximum_bytes)) (drop (unat offset) bytes))))"

section \<open>Writing\<close>

definition artifact_put ::
  "env \<Rightarrow> (sha256_digest \<Rightarrow> write_fault) \<Rightarrow> string \<Rightarrow> artifact_sensitivity \<Rightarrow> artifact_store
    \<Rightarrow> (artifact_error + content_reference) \<times> artifact_store" where
  "artifact_put E F bytes sensitivity store =
     (case digest_bytes E bytes of
        Inl e \<Rightarrow> (Err e, store)
      | Inr digest \<Rightarrow>
          (case length_u64 bytes of
             None \<Rightarrow> (Err ArtifactTooLarge, store)
           | Some bytes_len \<Rightarrow>
               (let reference = \<lparr>ct_digest = digest, ct_bytes = bytes_len, ct_sensitivity = sensitivity\<rparr> in
                case store digest of
                  Some _ \<Rightarrow> (and_then (artifact_load E store reference) (\<lambda>_. Ok reference), store)
                | None \<Rightarrow>
                    (case F digest of
                       NoFault \<Rightarrow> (Ok reference, store(digest \<mapsto> Regular bytes))
                     | CreateFails \<Rightarrow> (Err ArtifactIo, store)
                     | WriteStops written \<Rightarrow> (Err ArtifactIo, store(digest \<mapsto> Regular written))))))"

text \<open>
  \<open>put_reader\<close> writes a temporary file of its own name and renames it over the blob, so a write that
  stops leaves the blob as it was. \<open>source\<close> is the entry \<open>put_file\<close> opened.
\<close>

definition put_reader ::
  "env \<Rightarrow> (sha256_digest \<Rightarrow> write_fault) \<Rightarrow> string \<Rightarrow> content_reference \<Rightarrow> artifact_store
    \<Rightarrow> (artifact_error + content_reference) \<times> artifact_store" where
  "put_reader E F bytes reference store =
     (case F (ct_digest reference) of
        NoFault \<Rightarrow>
          (case digest_bytes E bytes of
             Inl e \<Rightarrow> (Err e, store)
           | Inr actual \<Rightarrow>
               if actual \<noteq> ct_digest reference then (Err ArtifactDigestMismatch, store)
               else (Ok reference, store(ct_digest reference \<mapsto> Regular bytes)))
      | _ \<Rightarrow> (Err ArtifactIo, store))"

definition put_file ::
  "env \<Rightarrow> (sha256_digest \<Rightarrow> write_fault) \<Rightarrow> blob \<Rightarrow> content_reference \<Rightarrow> artifact_store
    \<Rightarrow> (artifact_error + content_reference) \<times> artifact_store" where
  "put_file E F source reference store =
     (case source of
        Regular bytes \<Rightarrow>
          if length_u64 bytes \<noteq> Some (ct_bytes reference) \<or> ct_bytes reference > 512 * 1024 * 1024
          then (Err ArtifactDigestMismatch, store)
          else put_reader E F bytes reference store
      | NotRegular \<Rightarrow> (Err ArtifactDigestMismatch, store)
      | Unreadable \<Rightarrow> (Err ArtifactIo, store))"

section \<open>Facts\<close>

lemma length_u64_Some: "length_u64 bytes = Some n \<longleftrightarrow> length bytes = unat n"
proof
  assume "length_u64 bytes = Some n"
  then have "length bytes < 2 ^ 64" "n = word_of_nat (length bytes)" by (auto simp: length_u64_def split: if_splits)
  then show "length bytes = unat n" by (simp add: unsigned_of_nat take_bit_nat_eq_self)
next
  assume "length bytes = unat n"
  moreover have "unat n < 2 ^ 64" using unsigned_less [of n, where 'a = nat] by simp
  ultimately show "length_u64 bytes = Some n" by (simp add: length_u64_def)
qed

text \<open>The blob of a digest holds bytes that hash to it.\<close>

definition authentic :: "env \<Rightarrow> artifact_store \<Rightarrow> content_reference \<Rightarrow> string \<Rightarrow> bool" where
  "authentic E store reference bytes \<longleftrightarrow> store (ct_digest reference) = Some (Regular bytes)
     \<and> length_u64 bytes = Some (ct_bytes reference) \<and> digest_bytes E bytes = Inr (ct_digest reference)"

lemma load_unbounded_Ok [simp]: "load_unbounded store d = Inr bytes \<longleftrightarrow> store d = Some (Regular bytes)"
  by (auto simp: load_unbounded_def split: option.splits blob.splits)

lemma artifact_load_Ok: "artifact_load E store reference = Inr bytes \<longleftrightarrow> authentic E store reference bytes"
  by (auto simp: artifact_load_def authentic_def result_simps)

lemma load_by_digest_Ok:
  "load_by_digest E store d = Inr bytes \<longleftrightarrow> store d = Some (Regular bytes) \<and> digest_bytes E bytes = Inr d"
  by (auto simp: load_by_digest_def result_simps)

lemma verify_reference_Ok: "verify_reference E store r = Inr () \<longleftrightarrow> (\<exists>bytes. artifact_load E store r = Inr bytes)"
  by (auto simp: verify_reference_def artifact_load_def result_simps)

lemma artifact_put_Ok:
  assumes "artifact_put E F bytes s store = (Inr r, store')"
  shows "digest_bytes E bytes = Inr (ct_digest r)" "length_u64 bytes = Some (ct_bytes r)" "ct_sensitivity r = s"
    "\<exists>kept. authentic E store' r kept" "store \<subseteq>\<^sub>m store'"
    "store (ct_digest r) = None \<Longrightarrow> authentic E store' r bytes"
  using assms by (auto simp: artifact_put_def authentic_def artifact_load_Ok Let_def result_simps map_le_def
      split: sum.splits option.splits write_fault.splits)

lemma artifact_put_extends: "store \<subseteq>\<^sub>m snd (artifact_put E F bytes s store)"
  by (auto simp: artifact_put_def Let_def map_le_def split: sum.splits option.splits write_fault.splits)

lemma authentic_mono: "authentic E store r bytes \<Longrightarrow> store \<subseteq>\<^sub>m store' \<Longrightarrow> authentic E store' r bytes"
  by (auto simp: authentic_def map_le_def) (metis domI)

text \<open>A blob whose creation stopped part-way makes every later attempt to store the same bytes fail.\<close>

lemma stopped_put_refuses:
  assumes "digest_bytes E bytes = Inr d" "length_u64 bytes = Some n" "store d = None" "F d = WriteStops written"
    and "length written < length bytes"
  shows "fst (artifact_put E G bytes s' (snd (artifact_put E F bytes s store))) = Inl ArtifactDigestMismatch"
proof -
  have "length_u64 written \<noteq> Some n"
    using assms(2,5) by (simp add: length_u64_Some)
  then show ?thesis using assms by (simp add: artifact_put_def artifact_load_def load_unbounded_def Let_def)
qed

end
