(* ===== verification/Package_Resolution.thy ===== *)
theory Package_Resolution
  imports Adapter_Artifacts
begin

text \<open>
  The package resolution contract of \<open>crates/commonkit-adapters/src/package_resolution.rs\<close>: targets,
  managers, sources and their registry, the resolution a controller persists, and the checks a
  persisted resolution must pass. \<open>reqwest::Url::parse\<close> is the argument \<open>url_parse\<close>.
\<close>

section \<open>Data\<close>

record package_target =
  tg_os :: string
  tg_os_version :: string
  tg_distro_id :: "string option"
  tg_distro_version :: "string option"
  tg_codename :: "string option"
  tg_arch :: string
  tg_libc :: "string option"
  tg_manager_prefix :: "string option"

record manager_binding =
  mb_manager :: package_manager
  mb_version :: string
  mb_executable_digest :: sha256_digest
  mb_config_digest :: sha256_digest

record artifact_evidence =
  ae_authority :: stable_id
  ae_metadata_digest :: sha256_digest
  ae_signature_digest :: sha256_digest

record source_binding =
  sb_source_id :: stable_id
  sb_registry_definition_digest :: sha256_digest
  sb_canonical_repository :: string
  sb_repository_revision :: "string option"
  sb_signed_metadata :: "artifact_evidence list"

record package_probe =
  pp_before :: "string btree_set"
  pp_repository_revision :: "string option"
  pp_signed_metadata :: "artifact_evidence list"

record resolved_package =
  rp_declaration :: package_declaration
  rp_source :: source_binding

record package_artifact =
  pa_role :: stable_id
  pa_content :: content_reference
  pa_upstream_checksum :: sha256_digest
  pa_size :: u64
  pa_materialization_key :: stable_id
  pa_source_metadata_digest :: sha256_digest

record node_recipe =
  no_node_version :: string
  no_archive_file_name :: string
  no_cache_relative_path :: string
  no_nvm_version :: string
  no_nvm_script_digest :: sha256_digest
  no_shell_executable_digest :: sha256_digest
  no_offline :: bool
  no_no_source_fallback :: bool
  no_per_version_lock :: bool
  no_install_latest_npm :: bool
  no_migrate_packages :: bool

datatype install_recipe =
    HomebrewBottle "stable_id btree_set"
  | AptArchives "stable_id btree_set"
  | NodeArchive "stable_id btree_set" "node_recipe option"
  | RustToolchainRecipe "stable_id btree_set"

record package_resolution =
  rs_schema_version :: schema_version
  rs_declaration :: package_declaration
  rs_target :: package_target
  rs_manager :: manager_binding
  rs_source :: source_binding
  rs_before :: "string btree_set"
  rs_closure :: "resolved_package list"
  rs_artifacts :: "package_artifact list"
  rs_recipe :: install_recipe

text \<open>The form of early artifacts, whose closure may leave the source out.\<close>

record compatible_resolution =
  cr_schema_version :: schema_version
  cr_declaration :: package_declaration
  cr_target :: package_target
  cr_manager :: manager_binding
  cr_source :: source_binding
  cr_before :: "string btree_set"
  cr_closure :: "(package_declaration \<times> source_binding option) list"
  cr_artifacts :: "package_artifact list"
  cr_recipe :: install_recipe

definition inherit_missing_parent_sources :: "compatible_resolution \<Rightarrow> package_resolution" where
  "inherit_missing_parent_sources c =
     \<lparr>rs_schema_version = cr_schema_version c, rs_declaration = cr_declaration c, rs_target = cr_target c,
      rs_manager = cr_manager c, rs_source = cr_source c, rs_before = cr_before c,
      rs_closure = map (\<lambda>(d, s). \<lparr>rp_declaration = d,
          rp_source = (case s of None \<Rightarrow> cr_source c | Some s \<Rightarrow> s)\<rparr>) (cr_closure c),
      rs_artifacts = cr_artifacts c, rs_recipe = cr_recipe c\<rparr>"

record package_fetch_request =
  fr_role :: stable_id
  fr_immutable_locator :: string
  fr_upstream_checksum :: sha256_digest
  fr_size :: u64
  fr_materialization_key :: stable_id
  fr_source_metadata_digest :: sha256_digest

record resolution_draft =
  dr_closure :: "resolved_package list"
  dr_artifacts :: "package_fetch_request list"
  dr_recipe :: install_recipe

datatype package_resolution_error =
    PackageSourceNotAllowedBy stable_id
  | ResolverUnavailable package_manager
  | FetchUnavailable
  | InvalidTarget
  | InvalidManagerBinding
  | ManagerMismatch
  | UnknownSource stable_id
  | SourceManagerMismatch
  | MutableSourceMetadata
  | MutableArtifactLocator
  | UnapprovedArtifactLocation
  | UnvalidatedRedirect
  | RedirectLoop
  | TooManyRedirects
  | MissingRootPackage
  | DuplicateClosurePackage
  | MalformedObservation
  | ArtifactSetMismatch
  | DuplicateArtifact
  | CorruptArtifact
  | DuplicateSource
  | ResolutionBindingMismatch
  | TargetBindingMismatch
  | ManagerBindingMismatch
  | SourceBindingMismatch
  | DuplicateSourceMetadata
  | InvalidAptRequest
  | AptAuthorityMismatch
  | UnauthenticatedAptMetadata
  | UnsafeAptTransaction
  | IncompleteAptClosure
  | AptBackend string
  | InvalidNodeRequest
  | NodeAuthorityMismatch
  | UnauthenticatedNodeMetadata
  | IncompleteNodeRelease
  | UnsupportedNodeTarget
  | NodeBackend string
  | ResolutionArtifact artifact_error
  | ResolutionContract contract_error
  | ResolutionJson
  | ResolutionProvider provider_contract_error

section \<open>Validation\<close>

fun adjacent_equal :: "'a list \<Rightarrow> bool" where
  "adjacent_equal (a # b # rest) \<longleftrightarrow> a = b \<or> adjacent_equal (b # rest)"
| "adjacent_equal _ \<longleftrightarrow> False"

definition contains_word :: "string list \<Rightarrow> string \<Rightarrow> bool" where
  "contains_word words text =
     list_ex (\<lambda>part. to_ascii_lowercase part \<in> set words) (split_where (\<lambda>c. \<not> is_ascii_alphanumeric c) text)"

definition contains_floating_word :: "string \<Rightarrow> bool" where
  "contains_floating_word = contains_word [''latest'', ''stable'', ''default'', ''node'']"

definition contains_floating_artifact_word :: "string \<Rightarrow> bool" where
  "contains_floating_artifact_word = contains_word [''latest'', ''stable'', ''default'', ''current'', ''lts'']"

definition validate_target :: "package_target \<Rightarrow> package_resolution_error + unit" where
  "validate_target t =
     (if list_ex (\<lambda>v. trim v = []) [tg_os t, tg_os_version t, tg_arch t] then Err InvalidTarget else Ok ())"

definition validate_manager :: "manager_binding \<Rightarrow> package_resolution_error + unit" where
  "validate_manager m =
     (if trim (mb_version m) = [] \<or> contains_white (mb_version m)
         \<or> list_ex (\<lambda>c. c \<in> set ''*^~<>=,'') (mb_version m) \<or> contains_floating_word (mb_version m)
      then Err InvalidManagerBinding else Ok ())"

definition immutable_revision :: "string option \<Rightarrow> bool" where
  "immutable_revision revision \<longleftrightarrow> (case revision of None \<Rightarrow> False
     | Some r \<Rightarrow> (length r = 40 \<or> length r = 64) \<and> list_all lower_hex r)"

definition validate_source :: "source_binding \<Rightarrow> package_resolution_error + unit" where
  "validate_source s =
     (if \<not> starts_with (sb_canonical_repository s) ''https://''
         \<or> \<not> immutable_revision (sb_repository_revision s) \<and> sb_signed_metadata s = []
      then Err MutableSourceMetadata else Ok ())"

record url =
  url_scheme :: string
  url_host :: "string option"
  url_port :: "u16 option"
  url_path :: string

definition trim_end_char :: "char \<Rightarrow> string \<Rightarrow> string" where
  "trim_end_char c s = rev (dropWhile (\<lambda>x. x = c) (rev s))"

definition locator_is_within_root :: "(string \<Rightarrow> url option) \<Rightarrow> string \<Rightarrow> string \<Rightarrow> bool" where
  "locator_is_within_root url_parse locator root =
     (case (url_parse locator, url_parse root) of
        (Some locator, Some root) \<Rightarrow>
          \<not> (url_scheme locator \<noteq> ''https'' \<or> url_scheme root \<noteq> ''https'' \<or> url_host locator \<noteq> url_host root
             \<or> url_port locator \<noteq> url_port root)
          \<and> (let root_path = trim_end_char (CHR ''/'') (url_path root) in
             url_path locator = root_path
             \<or> (case strip_prefix root_path (url_path locator) of None \<Rightarrow> False
                | Some suffix \<Rightarrow> starts_with suffix ''/''))
      | _ \<Rightarrow> False)"

definition validate_fetch_locator ::
  "(string \<Rightarrow> url option) \<Rightarrow> string btree_set \<Rightarrow> string \<Rightarrow> package_resolution_error + unit" where
  "validate_fetch_locator url_parse roots locator =
     (if \<not> starts_with locator ''https://'' \<or> contains_floating_artifact_word locator
      then Err MutableArtifactLocator
      else if \<not> list_ex (locator_is_within_root url_parse locator) roots then Err UnapprovedArtifactLocation
      else Ok ())"

fun recipe_roles :: "install_recipe \<Rightarrow> stable_id btree_set" where
  "recipe_roles (HomebrewBottle roles) = roles"
| "recipe_roles (AptArchives roles) = roles"
| "recipe_roles (NodeArchive roles _) = roles"
| "recipe_roles (RustToolchainRecipe roles) = roles"

definition validate_recipe_roles :: "install_recipe \<Rightarrow> stable_id list \<Rightarrow> package_resolution_error + unit" where
  "validate_recipe_roles recipe roles =
     (if fold set_insert roles [] \<noteq> recipe_roles recipe then Err ArtifactSetMismatch else Ok ())"

definition resolved_root_matches :: "package_declaration \<Rightarrow> package_declaration \<Rightarrow> bool" where
  "resolved_root_matches resolved requested =
     (if resolved = requested then True
      else if pk_id resolved \<noteq> pk_id requested \<or> pk_version resolved \<noteq> pk_version requested
         \<or> pk_manager resolved \<noteq> Apt \<or> pk_manager requested \<noteq> Apt \<or> pk_source resolved \<noteq> pk_source requested
      then False
      else (case (pk_selector resolved, pk_selector requested) of
          (Some (AptBinary name (Some arch)), Some (AptBinary requested_name (Some requested_arch))) \<Rightarrow>
            name = requested_name \<and> (arch = requested_arch \<or> arch = ''all'')
        | _ \<Rightarrow> False))"

section \<open>The observation before the change\<close>

text \<open>\<open>parse_canonical_apt_identity\<close>; \<open>observation_text\<close> is \<open>valid_canonical_observation_value\<close>.\<close>

definition parse_canonical_apt_identity :: "string \<Rightarrow> (string \<times> string \<times> string) option" where
  "parse_canonical_apt_identity identity =
     (if count_list identity (CHR ''='') \<noteq> 1 then None
      else (case split_once (CHR ''='') identity of None \<Rightarrow> None
        | Some (name_architecture, version) \<Rightarrow>
            (case split_once (CHR '':'') name_architecture of None \<Rightarrow> None
             | Some (name, architecture) \<Rightarrow>
                 if name = [] \<or> architecture = [] \<or> version = [] \<or> CHR '':'' \<in> set name
                    \<or> CHR '':'' \<in> set architecture \<or> \<not> observation_text name
                    \<or> \<not> observation_text architecture \<or> \<not> observation_text version
                 then None else Some (name, architecture, version))))"

definition valid_canonical_node_version :: "string \<Rightarrow> bool" where
  "valid_canonical_node_version version =
     (case split_char (CHR ''.'') version of
        [major, minor, patch] \<Rightarrow>
          list_all (\<lambda>part. part \<noteq> [] \<and> list_all is_ascii_digit part \<and> (part = ''0'' \<or> \<not> starts_with part ''0''))
            [major, minor, patch]
      | _ \<Rightarrow> False)"

fun apt_observation_loop ::
  "string \<Rightarrow> bool \<Rightarrow> (string \<times> string) list \<Rightarrow> string list \<Rightarrow> package_resolution_error + unit" where
  "apt_observation_loop arch marked seen [] = Ok ()"
| "apt_observation_loop arch marked seen (identity # rest) =
     (case strip_prefix apt_live_safety identity of
        Some digest \<Rightarrow>
          if marked \<or> (case sha256_digest_parse digest of Inl _ \<Rightarrow> True | Inr _ \<Rightarrow> False) then Err MalformedObservation
          else apt_observation_loop arch True seen rest
      | None \<Rightarrow>
          (case parse_canonical_apt_identity identity of
             None \<Rightarrow> Err MalformedObservation
           | Some (name, architecture, version) \<Rightarrow>
               if architecture \<noteq> ''all'' \<and> architecture \<noteq> arch then Err MalformedObservation
               else if (name, architecture) \<in> set seen then Err MalformedObservation
               else apt_observation_loop arch marked ((name, architecture) # seen) rest))"

definition validate_before_observation :: "package_resolution \<Rightarrow> package_resolution_error + unit" where
  "validate_before_observation r =
     (let installed = rs_before r in
      if mb_manager (rs_manager r) = Apt then apt_observation_loop (tg_arch (rs_target r)) False [] installed
      else if mb_manager (rs_manager r) = Nvm then
        (if list_ex (\<lambda>v. \<not> valid_canonical_node_version v) installed then Err MalformedObservation else Ok ())
      else ensure (list_all observation_text installed) MalformedObservation)"

section \<open>A persisted resolution\<close>

fun option_json :: "string option \<Rightarrow> json" where
  "option_json None = JNull" | "option_json (Some s) = JString s"

definition ser_artifact_evidence :: "artifact_evidence \<Rightarrow> json" where
  "ser_artifact_evidence e = json_struct
     [(''authority'', ser_stable_id (ae_authority e)), (''metadataDigest'', ser_digest (ae_metadata_digest e)),
      (''signatureDigest'', ser_digest (ae_signature_digest e))]"

definition metadata_digest :: "env \<Rightarrow> source_binding \<Rightarrow> package_resolution_error + sha256_digest" where
  "metadata_digest E s = map_err ResolutionContract (digest_domain_json E ''commonkit.package-source-metadata.v1''
     (JArray [option_json (sb_repository_revision s), JArray (map ser_artifact_evidence (sb_signed_metadata s))]))"

definition closure_key :: "package_declaration \<Rightarrow> nat \<times> string \<times> string" where
  "closure_key d = (manager_rank (pk_manager d), sid_str (pk_id d), pk_version d)"

fun check_closure ::
  "package_resolution \<Rightarrow> (nat \<times> string \<times> string) option \<Rightarrow> resolved_package list \<Rightarrow> package_resolution_error + unit" where
  "check_closure r previous [] = Ok ()"
| "check_closure r previous (package # rest) =
     (let d = rp_declaration package; key = closure_key d in
      and_then (map_err ResolutionContract (package_validate_for_resolution d)) (\<lambda>_.
        if rp_source package \<noteq> rs_source r \<or> pk_source d \<noteq> sb_source_id (rp_source package)
        then Err SourceBindingMismatch
        else if pk_manager d \<noteq> mb_manager (rs_manager r) then Err ManagerBindingMismatch
        else if (case previous of None \<Rightarrow> False | Some p \<Rightarrow> p \<ge> key) then Err DuplicateClosurePackage
        else check_closure r (Some key) rest))"

fun check_artifact_keys :: "sha256_digest \<Rightarrow> stable_id set \<Rightarrow> package_artifact list \<Rightarrow> package_resolution_error + unit" where
  "check_artifact_keys metadata known [] = Ok ()"
| "check_artifact_keys metadata known (a # rest) =
     (if pa_source_metadata_digest a \<noteq> metadata \<or> pa_materialization_key a \<in> known then Err CorruptArtifact
      else check_artifact_keys metadata (insert (pa_materialization_key a) known) rest)"

definition node_platform :: "package_target \<Rightarrow> package_resolution_error + string" where
  "node_platform t =
     (let x64 = tg_arch t \<in> {''amd64'', ''x86_64''}; arm = tg_arch t \<in> {''arm64'', ''aarch64''};
          darwin = tg_os t \<in> {''darwin'', ''macos''} in
      if tg_os t = ''linux'' \<and> x64 \<and> tg_libc t = Some ''glibc'' then Ok ''linux-x64''
      else if tg_os t = ''linux'' \<and> arm \<and> tg_libc t = Some ''glibc'' then Ok ''linux-arm64''
      else if darwin \<and> x64 then Ok ''darwin-x64''
      else if darwin \<and> arm then Ok ''darwin-arm64''
      else Err UnsupportedNodeTarget)"

text \<open>The recipe the manager of the resolution admits: any, but for nvm only the exact offline one.\<close>

definition check_install_recipe :: "package_resolution \<Rightarrow> package_resolution_error + unit" where
  "check_install_recipe r =
     (if mb_manager (rs_manager r) \<noteq> Nvm then Ok ()
      else
        (let version = (case strip_prefix ''v'' (pk_version (rs_declaration r)) of
             None \<Rightarrow> pk_version (rs_declaration r) | Some v \<Rightarrow> v) in
         and_then (node_platform (rs_target r)) (\<lambda>platform.
           let archive = ''node-v'' @ version @ ''-'' @ platform @ ''.tar.xz'';
               cache = ''.cache/bin/node-v'' @ version @ ''-'' @ platform @ ''/'' @ archive in
           case rs_recipe r of
             NodeArchive _ (Some install) \<Rightarrow>
               ensure (no_node_version install = version \<and> no_archive_file_name install = archive
                   \<and> no_cache_relative_path install = cache \<and> no_nvm_version install = mb_version (rs_manager r)
                   \<and> no_nvm_script_digest install = mb_executable_digest (rs_manager r)
                   \<and> no_offline install \<and> no_no_source_fallback install \<and> no_per_version_lock install
                   \<and> \<not> no_install_latest_npm install \<and> \<not> no_migrate_packages install) InvalidNodeRequest
           | _ \<Rightarrow> Err InvalidNodeRequest)))"

definition schema_matches_manager :: "package_resolution \<Rightarrow> bool" where
  "schema_matches_manager r \<longleftrightarrow> \<not> (pk_manager (rs_declaration r) = Nvm \<and> rs_schema_version r \<noteq> SchemaVersion 2
     \<or> pk_manager (rs_declaration r) \<noteq> Nvm \<and> rs_schema_version r \<noteq> SchemaVersion 1)"

definition validate_persisted_resolution :: "env \<Rightarrow> package_resolution \<Rightarrow> package_resolution_error + unit" where
  "validate_persisted_resolution E r =
     and_then (map_err ResolutionContract (package_validate_for_resolution (rs_declaration r))) (\<lambda>_.
     and_then (ensure (schema_matches_manager r) ResolutionBindingMismatch) (\<lambda>_.
     and_then (validate_target (rs_target r)) (\<lambda>_.
     and_then (validate_manager (rs_manager r)) (\<lambda>_.
     and_then (validate_source (rs_source r)) (\<lambda>_.
     and_then (validate_before_observation r) (\<lambda>_.
     and_then (ensure (pk_source (rs_declaration r) = sb_source_id (rs_source r)) SourceBindingMismatch) (\<lambda>_.
     and_then (ensure (pk_manager (rs_declaration r) = mb_manager (rs_manager r)) ManagerBindingMismatch) (\<lambda>_.
     and_then (metadata_digest E (rs_source r)) (\<lambda>metadata.
     and_then (check_closure r None (rs_closure r)) (\<lambda>_.
     and_then (ensure (list_ex (\<lambda>p. resolved_root_matches (rp_declaration p) (rs_declaration r)) (rs_closure r))
         MissingRootPackage) (\<lambda>_.
     and_then (check_artifact_keys metadata {} (rs_artifacts r)) (\<lambda>_.
     and_then (validate_recipe_roles (rs_recipe r) (map pa_role (rs_artifacts r))) (\<lambda>_.
       check_install_recipe r)))))))))))))"

end
