(* ===== verification/Package_Registry.thy ===== *)
theory Package_Registry
  imports Package_Resolution
begin

text \<open>
  The registry of controlled package sources and the authority under which a persisted resolution is
  accepted (\<open>PackageSourceRegistry\<close> and \<open>PackageResolutionAuthority\<close> of
  \<open>crates/commonkit-adapters/src/package_resolution.rs\<close>). The decoders serde derives for the two
  forms of a resolution are the fields of a record.
\<close>

section \<open>Sources\<close>

record apt_source_authority =
  aa_suite :: string
  aa_components :: "string btree_set"
  aa_signing_authority :: stable_id
  aa_signing_key_digest :: sha256_digest

record node_source_authority =
  na_release_key_fingerprints :: "string btree_set"
  na_nvm_script_releases :: "(string, sha256_digest) btree_map"

record source_definition =
  sd_source_id :: stable_id
  sd_manager :: package_manager
  sd_canonical_repository :: string
  sd_approved_artifact_roots :: "string btree_set"
  sd_apt :: "apt_source_authority option"
  sd_node :: "node_source_authority option"
  sd_digest :: sha256_digest

record controlled_package_source =
  cs_source_id :: stable_id
  cs_manager :: package_manager
  cs_canonical_repository :: string
  cs_approved_artifact_roots :: "string btree_set"
  cs_apt :: "apt_source_authority option"

record source_registry =
  rg_sources :: "(stable_id, source_definition) btree_map"
  rg_digest :: sha256_digest

definition NODE_RELEASE_KEY_FINGERPRINTS :: "string list" where
  "NODE_RELEASE_KEY_FINGERPRINTS =
     [''5be8a3f6c8a5c01d106c0ad820b1a390b168d356'', ''dd792f5973c6de52c432cbdac77abfa00ddbf2b7'',
      ''cc68f5a3106ff448322e48ed27f5e38d5b0a215f'', ''8fcca13fef1d0c2e91008e09770f7a9a5ae15600'',
      ''890c08db8579162fee0df9db8beab4dfcf555ef4'', ''c82fa3ae1cbedc6be46b9360c43cec45c17ab93c'',
      ''108f52b48db57bb0cc439b2997b01419bd92f80a'', ''a363a499291cbbc940dd62e41f10027af002f8b0'',
      ''71dcfd284a79c3b38668286bc97ec7a07ede3fc1'', ''86c8d74642e67846f8e120284daa80d1e737bc9f'']"

definition NVM_SCRIPT_RELEASES :: "(string \<times> string) list" where
  "NVM_SCRIPT_RELEASES =
     [(''0.40.6'', ''sha256:baad94563757afa5147950e3dfa272f06b6307e1a7d92c553f8438959b5165fe'')]"

definition ser_apt_authority :: "apt_source_authority \<Rightarrow> json" where
  "ser_apt_authority a = json_struct
     [(''suite'', JString (aa_suite a)), (''components'', ser_text_set (aa_components a)),
      (''signingAuthority'', ser_stable_id (aa_signing_authority a)),
      (''signingKeyDigest'', ser_digest (aa_signing_key_digest a))]"

definition ser_node_authority :: "node_source_authority \<Rightarrow> json" where
  "ser_node_authority a = json_struct
     [(''releaseKeyFingerprints'', ser_text_set (na_release_key_fingerprints a)),
      (''nvmScriptReleases'', ser_digest_map (na_nvm_script_releases a))]"

definition source_definition_fields :: "source_definition \<Rightarrow> (string \<times> json) list" where
  "source_definition_fields s =
     [(''sourceId'', ser_stable_id (sd_source_id s)), (''manager'', JString (manager_name (sd_manager s))),
      (''canonicalRepository'', JString (sd_canonical_repository s)),
      (''approvedArtifactRoots'', ser_text_set (sd_approved_artifact_roots s))]
     @ opt_field ''aptSourceAuthority'' ser_apt_authority (sd_apt s)
     @ opt_field ''nodeSourceAuthority'' ser_node_authority (sd_node s)"

definition ser_attested_definition :: "source_definition \<Rightarrow> json" where
  "ser_attested_definition s =
     json_struct (source_definition_fields s @ [(''definitionDigest'', ser_digest (sd_digest s))])"

definition source_definition_digest :: "env \<Rightarrow> source_definition \<Rightarrow> package_resolution_error + sha256_digest" where
  "source_definition_digest E s = map_err ResolutionContract (digest_domain_json E
     (if sd_node s \<noteq> None then ''commonkit.package-source-registry-definition.v4''
      else if sd_apt s \<noteq> None then ''commonkit.package-source-registry-definition.v2''
      else ''commonkit.package-source-registry-definition.v1'')
     (json_struct (source_definition_fields s)))"

definition source_registry_digest ::
  "env \<Rightarrow> string \<Rightarrow> source_definition list \<Rightarrow> package_resolution_error + sha256_digest" where
  "source_registry_digest E node_domain sources = map_err ResolutionContract (digest_domain_json E
     (if list_ex (\<lambda>s. sd_node s \<noteq> None) sources then node_domain
      else if list_ex (\<lambda>s. sd_apt s \<noteq> None) sources then ''commonkit.package-source-registry.v2''
      else ''commonkit.package-source-registry.v1'')
     (JArray (map (\<lambda>s. json_struct (source_definition_fields s)) sources)))"

definition attested_registry_digest ::
  "env \<Rightarrow> source_definition list \<Rightarrow> package_resolution_error + sha256_digest" where
  "attested_registry_digest E sources = map_err ResolutionContract (digest_domain_json E
     ''commonkit.package-source-registry.attested.v1'' (JArray (map ser_attested_definition sources)))"

section \<open>The registry\<close>

definition controlled_definition ::
  "env \<Rightarrow> controlled_package_source \<Rightarrow> package_resolution_error + source_definition" where
  "controlled_definition E source =
     (let roots = set_insert (cs_canonical_repository source) (cs_approved_artifact_roots source);
          s = \<lparr>sd_source_id = cs_source_id source, sd_manager = cs_manager source,
               sd_canonical_repository = cs_canonical_repository source, sd_approved_artifact_roots = roots,
               sd_apt = cs_apt source, sd_node = None, sd_digest = Sha256Digest []\<rparr> in
      if \<not> starts_with (cs_canonical_repository source) ''https://''
         \<or> list_ex (\<lambda>root. \<not> starts_with root ''https://'') roots
      then Err MutableSourceMetadata
      else if (case cs_apt source of None \<Rightarrow> False
         | Some a \<Rightarrow> cs_manager source \<noteq> Apt \<or> aa_suite a = [] \<or> aa_components a = [])
      then Err MutableSourceMetadata
      else and_then (source_definition_digest E s) (\<lambda>digest. Ok (s\<lparr>sd_digest := digest\<rparr>)))"

fun register_sources ::
  "env \<Rightarrow> controlled_package_source list \<Rightarrow> (stable_id, source_definition) btree_map
    \<Rightarrow> package_resolution_error + (stable_id, source_definition) btree_map" where
  "register_sources E [] registry = Ok registry"
| "register_sources E (source # rest) registry =
     and_then (controlled_definition E source) (\<lambda>s.
       if bt_contains registry (cs_source_id source) then Err DuplicateSource
       else register_sources E rest (bt_insert (cs_source_id source) s registry))"

definition from_controlled_sources ::
  "env \<Rightarrow> controlled_package_source list \<Rightarrow> package_resolution_error + source_registry" where
  "from_controlled_sources E sources =
     and_then (register_sources E sources []) (\<lambda>registry.
     and_then (source_registry_digest E ''commonkit.package-source-registry.v3'' (map snd registry)) (\<lambda>digest.
       Ok \<lparr>rg_sources = registry, rg_digest = digest\<rparr>))"

definition controlled_source :: "string \<Rightarrow> package_manager \<Rightarrow> string \<Rightarrow> package_resolution_error + controlled_package_source" where
  "controlled_source source manager repository =
     and_then (map_err ResolutionContract (stable_id_parse source)) (\<lambda>i.
       Ok \<lparr>cs_source_id = i, cs_manager = manager, cs_canonical_repository = repository,
           cs_approved_artifact_roots = [], cs_apt = None\<rparr>)"

definition builtin_sources :: "(string \<times> package_manager \<times> string) list" where
  "builtin_sources =
     [(''homebrew-core'', Homebrew, ''https://github.com/Homebrew/homebrew-core''),
      (''homebrew_core'', Homebrew, ''https://github.com/Homebrew/homebrew-core''),
      (''ubuntu-main'', Apt, ''https://archive.ubuntu.com/ubuntu''),
      (''debian-main'', Apt, ''https://deb.debian.org/debian''),
      (''nodejs-fnm'', Fnm, ''https://nodejs.org/dist''),
      (''nodejs-nvm'', Nvm, ''https://nodejs.org/dist''),
      (''rustup-official'', Rustup, ''https://static.rust-lang.org'')]"

fun controlled_sources :: "(string \<times> package_manager \<times> string) list \<Rightarrow> package_resolution_error + controlled_package_source list" where
  "controlled_sources [] = Ok []"
| "controlled_sources ((source, manager, repository) # rest) =
     and_then (controlled_source source manager repository) (\<lambda>s.
     and_then (controlled_sources rest) (\<lambda>ss. Ok (s # ss)))"

definition builtin_registry :: "env \<Rightarrow> package_resolution_error + source_registry" where
  "builtin_registry E = and_then (controlled_sources builtin_sources) (from_controlled_sources E)"

definition registry_source :: "source_registry \<Rightarrow> stable_id \<Rightarrow> package_resolution_error + source_definition" where
  "registry_source registry i = ok_or (UnknownSource i) (bt_get (rg_sources registry) i)"

definition registry_definition_digest :: "source_registry \<Rightarrow> stable_id \<Rightarrow> package_resolution_error + sha256_digest" where
  "registry_definition_digest registry i = and_then (registry_source registry i) (\<lambda>s. Ok (sd_digest s))"

definition for_remote_resolution ::
  "env \<Rightarrow> source_binding \<Rightarrow> package_manager \<Rightarrow> package_resolution_error + source_registry" where
  "for_remote_resolution E source manager =
     and_then (builtin_registry E) (\<lambda>registry.
     and_then (registry_source registry (sb_source_id source)) (\<lambda>s.
       if sd_manager s \<noteq> manager \<or> sd_canonical_repository s \<noteq> sb_canonical_repository source
       then Err SourceBindingMismatch
       else let sources = bt_insert (sb_source_id source) (s\<lparr>sd_digest := sb_registry_definition_digest source\<rparr>)
                  (rg_sources registry) in
         and_then (attested_registry_digest E (map snd sources)) (\<lambda>digest.
           Ok \<lparr>rg_sources = sources, rg_digest = digest\<rparr>)))"

text \<open>The common end of the two updates: the definition and the registry are digested again.\<close>

definition replace_source ::
  "env \<Rightarrow> source_registry \<Rightarrow> stable_id \<Rightarrow> source_definition \<Rightarrow> package_resolution_error + source_registry" where
  "replace_source E registry i s =
     and_then (source_definition_digest E s) (\<lambda>digest.
       let sources = bt_insert i (s\<lparr>sd_digest := digest\<rparr>) (rg_sources registry) in
       and_then (source_registry_digest E ''commonkit.package-source-registry.v4'' (map snd sources)) (\<lambda>digest.
         Ok \<lparr>rg_sources = sources, rg_digest = digest\<rparr>))"

definition with_apt_source_authority ::
  "env \<Rightarrow> source_registry \<Rightarrow> stable_id \<Rightarrow> apt_source_authority \<Rightarrow> package_resolution_error + source_registry" where
  "with_apt_source_authority E registry i a =
     (if aa_suite a = [] \<or> aa_components a = [] then Err MutableSourceMetadata
      else and_then (registry_source registry i) (\<lambda>s.
        if sd_manager s \<noteq> Apt then Err SourceManagerMismatch
        else replace_source E registry i (s\<lparr>sd_apt := Some a\<rparr>)))"

definition valid_node_release_fingerprints :: "string btree_set \<Rightarrow> bool" where
  "valid_node_release_fingerprints fingerprints \<longleftrightarrow> fingerprints \<noteq> []
     \<and> list_all (\<lambda>f. length f = 40 \<and> list_all lower_hex f \<and> f \<in> set NODE_RELEASE_KEY_FINGERPRINTS) fingerprints"

definition valid_nvm_script_releases :: "(string, sha256_digest) btree_map \<Rightarrow> bool" where
  "valid_nvm_script_releases releases \<longleftrightarrow> releases \<noteq> []
     \<and> list_all (\<lambda>(version, digest). (version, digest_str digest) \<in> set NVM_SCRIPT_RELEASES) releases"

definition with_node_source_authority ::
  "env \<Rightarrow> source_registry \<Rightarrow> stable_id \<Rightarrow> node_source_authority \<Rightarrow> package_resolution_error + source_registry" where
  "with_node_source_authority E registry i a =
     (if \<not> valid_node_release_fingerprints (na_release_key_fingerprints a)
         \<or> \<not> valid_nvm_script_releases (na_nvm_script_releases a) then Err MutableSourceMetadata
      else and_then (registry_source registry i) (\<lambda>s.
        if sd_manager s \<noteq> Nvm then Err SourceManagerMismatch
        else replace_source E registry i (s\<lparr>sd_node := Some a\<rparr>)))"

definition nvm_script_releases :: "package_resolution_error + (string, sha256_digest) btree_map" where
  "nvm_script_releases = fold (\<lambda>(version, digest) known. and_then known (\<lambda>m.
       and_then (map_err ResolutionContract (sha256_digest_parse digest)) (\<lambda>d. Ok (bt_insert version d m))))
     NVM_SCRIPT_RELEASES (Ok [])"

definition with_commonkit_node_release_authority ::
  "env \<Rightarrow> source_registry \<Rightarrow> stable_id \<Rightarrow> package_resolution_error + source_registry" where
  "with_commonkit_node_release_authority E registry i =
     and_then nvm_script_releases (\<lambda>releases.
       with_node_source_authority E registry i
         \<lparr>na_release_key_fingerprints = fold set_insert NODE_RELEASE_KEY_FINGERPRINTS [],
          na_nvm_script_releases = releases\<rparr>)"

section \<open>The authority\<close>

record resolution_codec =
  rc_decode :: "string \<Rightarrow> package_resolution option"
  rc_decode_compatible :: "string \<Rightarrow> compatible_resolution option"
  rc_encode :: "package_resolution \<Rightarrow> string option"

record resolution_authority =
  ra_target :: package_target
  ra_manager :: manager_binding
  ra_registry :: source_registry
  ra_package_sources :: "string btree_set"
  ra_digest :: sha256_digest

definition ser_target :: "package_target \<Rightarrow> json" where
  "ser_target t = json_struct
     ([(''os'', JString (tg_os t)), (''osVersion'', JString (tg_os_version t))]
      @ opt_field ''distroId'' JString (tg_distro_id t) @ opt_field ''distroVersion'' JString (tg_distro_version t)
      @ opt_field ''codename'' JString (tg_codename t) @ [(''arch'', JString (tg_arch t))]
      @ opt_field ''libc'' JString (tg_libc t) @ opt_field ''managerPrefix'' JString (tg_manager_prefix t))"

definition ser_manager_binding :: "manager_binding \<Rightarrow> json" where
  "ser_manager_binding m = json_struct
     [(''manager'', JString (manager_name (mb_manager m))), (''version'', JString (mb_version m)),
      (''executableDigest'', ser_digest (mb_executable_digest m)), (''configDigest'', ser_digest (mb_config_digest m))]"

definition effective_package_sources :: "security_policy \<Rightarrow> string btree_set" where
  "effective_package_sources policy =
     (case bt_get (po_allowlists policy) (StableId ''package_sources'') of None \<Rightarrow> [] | Some sources \<Rightarrow> sources)"

definition resolution_authority_new ::
  "env \<Rightarrow> package_target \<Rightarrow> manager_binding \<Rightarrow> source_registry \<Rightarrow> security_policy
    \<Rightarrow> package_resolution_error + resolution_authority" where
  "resolution_authority_new E target manager registry policy =
     and_then (validate_target target) (\<lambda>_.
     and_then (validate_manager manager) (\<lambda>_.
     let sources = effective_package_sources policy in
     and_then (map_err ResolutionContract (digest_domain_json E ''commonkit.package-resolution-authority.v1''
         (JArray [ser_target target, ser_manager_binding manager, ser_digest (rg_digest registry),
            ser_text_set sources]))) (\<lambda>digest.
       Ok \<lparr>ra_target = target, ra_manager = manager, ra_registry = registry, ra_package_sources = sources,
           ra_digest = digest\<rparr>)))"

definition enforce_current_package_sources ::
  "string btree_set \<Rightarrow> package_declaration \<Rightarrow> package_resolution_error + unit" where
  "enforce_current_package_sources allowed d =
     (if sid_str (pk_source d) \<in> set allowed then Ok () else Err (PackageSourceNotAllowedBy (pk_source d)))"

text \<open>The checks of a source binding against the registry that both validations share.\<close>

definition check_source_definition ::
  "source_registry \<Rightarrow> package_resolution \<Rightarrow> package_resolution_error + unit" where
  "check_source_definition registry r =
     and_then (registry_source registry (sb_source_id (rs_source r))) (\<lambda>s.
       ensure (\<not> (sd_manager s \<noteq> mb_manager (rs_manager r)
           \<or> sd_digest s \<noteq> sb_registry_definition_digest (rs_source r)
           \<or> sd_canonical_repository s \<noteq> sb_canonical_repository (rs_source r))) SourceBindingMismatch)"

definition check_package_sources :: "string btree_set \<Rightarrow> package_resolution \<Rightarrow> package_resolution_error + unit" where
  "check_package_sources allowed r =
     and_then (enforce_current_package_sources allowed (rs_declaration r)) (\<lambda>_.
       for_each (\<lambda>p. enforce_current_package_sources allowed (rp_declaration p)) (rs_closure r))"

definition validate_resolution :: "env \<Rightarrow> resolution_authority \<Rightarrow> package_resolution \<Rightarrow> package_resolution_error + unit" where
  "validate_resolution E a r =
     and_then (validate_persisted_resolution E r) (\<lambda>_.
     and_then (ensure (rs_target r = ra_target a) TargetBindingMismatch) (\<lambda>_.
     and_then (ensure (rs_manager r = ra_manager a) ManagerBindingMismatch) (\<lambda>_.
     and_then (check_source_definition (ra_registry a) r) (\<lambda>_.
       check_package_sources (ra_package_sources a) r))))"

definition decode_resolution :: "resolution_codec \<Rightarrow> string \<Rightarrow> package_resolution_error + package_resolution" where
  "decode_resolution C bytes = (case rc_decode C bytes of
     Some r \<Rightarrow> Ok r
   | None \<Rightarrow> ok_or ResolutionJson (map_option inherit_missing_parent_sources (rc_decode_compatible C bytes)))"

fun load_resolution_artifacts ::
  "env \<Rightarrow> artifact_store \<Rightarrow> (stable_id \<times> stable_id) list \<Rightarrow> package_artifact list \<Rightarrow> package_resolution_error + unit" where
  "load_resolution_artifacts E store known [] = Ok ()"
| "load_resolution_artifacts E store known (a # rest) =
     (if ct_digest (pa_content a) \<noteq> pa_upstream_checksum a \<or> ct_bytes (pa_content a) \<noteq> pa_size a
         \<or> (pa_role a, pa_materialization_key a) \<in> set known then Err CorruptArtifact
      else and_then (map_err ResolutionArtifact (artifact_load E store (pa_content a))) (\<lambda>_.
        load_resolution_artifacts E store ((pa_role a, pa_materialization_key a) # known) rest))"

definition load_persisted ::
  "env \<Rightarrow> resolution_codec \<Rightarrow> artifact_store \<Rightarrow> resolved_package_intent \<Rightarrow> package_resolution_error + package_resolution" where
  "load_persisted E C store intent =
     and_then (map_err ResolutionArtifact (artifact_load E store (ri_resolution intent))) (\<lambda>bytes.
     and_then (decode_resolution C bytes) (\<lambda>r.
     and_then (ensure (rs_schema_version r \<in> {SchemaVersion 1, SchemaVersion 2} \<and> rs_declaration r = ri_declaration intent)
         ResolutionBindingMismatch) (\<lambda>_.
     and_then (validate_persisted_resolution E r) (\<lambda>_.
     and_then (ensure (map pa_content (rs_artifacts r) = ri_artifacts intent) ArtifactSetMismatch) (\<lambda>_.
     and_then (load_resolution_artifacts E store [] (rs_artifacts r)) (\<lambda>_. Ok r))))))"

definition load_and_validate ::
  "env \<Rightarrow> resolution_codec \<Rightarrow> artifact_store \<Rightarrow> resolved_package_intent \<Rightarrow> package_target \<Rightarrow> manager_binding
    \<Rightarrow> source_registry \<Rightarrow> package_resolution_error + package_resolution" where
  "load_and_validate E C store intent target manager registry =
     and_then (load_persisted E C store intent) (\<lambda>r.
     and_then (ensure (rs_target r = target) TargetBindingMismatch) (\<lambda>_.
     and_then (ensure (rs_manager r = manager) ManagerBindingMismatch) (\<lambda>_.
     and_then (check_source_definition registry r) (\<lambda>_.
     and_then (validate_source (rs_source r)) (\<lambda>_. Ok r)))))"

definition authority_validate ::
  "env \<Rightarrow> resolution_codec \<Rightarrow> artifact_store \<Rightarrow> resolution_authority \<Rightarrow> resolved_package_intent
    \<Rightarrow> package_resolution_error + package_resolution" where
  "authority_validate E C store a intent =
     and_then (load_and_validate E C store intent (ra_target a) (ra_manager a) (ra_registry a)) (\<lambda>r.
     and_then (check_package_sources (ra_package_sources a) r) (\<lambda>_. Ok r))"

definition intent_of_resolution :: "sha256_digest \<Rightarrow> u64 \<Rightarrow> package_resolution \<Rightarrow> resolved_package_intent" where
  "intent_of_resolution digest bytes_len r =
     \<lparr>ri_declaration = rs_declaration r,
      ri_resolution = \<lparr>ct_digest = digest, ct_bytes = bytes_len, ct_sensitivity = Portable\<rparr>,
      ri_artifacts = map pa_content (rs_artifacts r)\<rparr>"

definition load_by_resolution_digest ::
  "env \<Rightarrow> resolution_codec \<Rightarrow> artifact_store \<Rightarrow> resolution_authority \<Rightarrow> sha256_digest
    \<Rightarrow> package_resolution_error + resolved_package_intent \<times> package_resolution" where
  "load_by_resolution_digest E C store a digest =
     and_then (map_err ResolutionArtifact (load_by_digest E store digest)) (\<lambda>bytes.
     and_then (decode_resolution C bytes) (\<lambda>r.
     and_then (ok_or CorruptArtifact (length_u64 bytes)) (\<lambda>n.
     let intent = intent_of_resolution digest n r in
     and_then (authority_validate E C store a intent) (\<lambda>validated. Ok (intent, validated)))))"

definition load_remote_by_resolution_digest ::
  "env \<Rightarrow> resolution_codec \<Rightarrow> artifact_store \<Rightarrow> sha256_digest \<Rightarrow> security_policy
    \<Rightarrow> package_resolution_error + resolution_authority \<times> resolved_package_intent \<times> package_resolution" where
  "load_remote_by_resolution_digest E C store digest policy =
     and_then (map_err ResolutionArtifact (load_by_digest E store digest)) (\<lambda>bytes.
     and_then (decode_resolution C bytes) (\<lambda>r.
     and_then (for_remote_resolution E (rs_source r) (mb_manager (rs_manager r))) (\<lambda>registry.
     and_then (resolution_authority_new E (rs_target r) (rs_manager r) registry policy) (\<lambda>a.
     and_then (ok_or CorruptArtifact (length_u64 bytes)) (\<lambda>n.
     let intent = intent_of_resolution digest n r in
     and_then (authority_validate E C store a intent) (\<lambda>validated. Ok (a, intent, validated)))))))"

end
