(* ===== verification/Package_Coordinator.thy ===== *)
theory Package_Coordinator
  imports Package_Registry
begin

text \<open>
  The coordinator that turns a desired package into a persisted resolution
  (\<open>PackageResolutionCoordinator\<close> of \<open>crates/commonkit-adapters/src/package_resolution.rs\<close>). A backend
  receives the network only as a capability: what it does with it is a tree of requests, each node
  continuing with the answer, and the coordinator's scoped wrapper interprets the tree. Backends and
  the inner fetcher are arguments over states of their own.
\<close>

section \<open>The fetch capability\<close>

record discovery_request =
  df_role :: stable_id
  df_immutable_locator :: string
  df_maximum_bytes :: u64

datatype fetch_hop = Complete string | Redirect string

type_synonym 'a outcome = "package_resolution_error + 'a"

datatype 'a fetch_program =
    Done 'a
  | Preflight "string list" "unit outcome \<Rightarrow> 'a fetch_program"
  | FetchHop package_fetch_request string "fetch_hop outcome \<Rightarrow> 'a fetch_program"
  | DiscoveryHop discovery_request string "fetch_hop outcome \<Rightarrow> 'a fetch_program"

record 'w fetcher =
  ft_preflight :: "string list \<Rightarrow> 'w \<Rightarrow> unit outcome \<times> 'w"
  ft_hop :: "package_fetch_request \<Rightarrow> string \<Rightarrow> 'w \<Rightarrow> fetch_hop outcome \<times> 'w"
  ft_discovery :: "discovery_request \<Rightarrow> string \<Rightarrow> 'w \<Rightarrow> fetch_hop outcome \<times> 'w"

type_synonym recorded = "(package_fetch_request \<times> string) list"

text \<open>\<open>for _ in 0..=10\<close>: the fuel is 11.\<close>

fun follow_redirects ::
  "(string \<Rightarrow> 'w \<Rightarrow> fetch_hop outcome \<times> 'w) \<Rightarrow> (string \<Rightarrow> unit outcome) \<Rightarrow> nat \<Rightarrow> string \<Rightarrow> string list \<Rightarrow> 'w
    \<Rightarrow> string outcome \<times> 'w" where
  "follow_redirects hop approve 0 current visited w = (Err TooManyRedirects, w)"
| "follow_redirects hop approve (Suc n) current visited w =
     (if current \<in> set visited then (Err RedirectLoop, w)
      else case hop current w of
          (Inl e, w) \<Rightarrow> (Err e, w)
        | (Inr (Complete bytes), w) \<Rightarrow> (Ok bytes, w)
        | (Inr (Redirect location), w) \<Rightarrow>
            (case approve location of
               Inl e \<Rightarrow> (Err e, w)
             | Inr _ \<Rightarrow> follow_redirects hop approve n location (current # visited) w))"

definition scoped_preflight ::
  "(string \<Rightarrow> url option) \<Rightarrow> string btree_set \<Rightarrow> 'w fetcher \<Rightarrow> string list \<Rightarrow> 'w \<times> recorded
    \<Rightarrow> unit outcome \<times> 'w \<times> recorded" where
  "scoped_preflight U roots T locators s =
     (case for_each (validate_fetch_locator U roots) locators of
        Inl e \<Rightarrow> (Err e, s)
      | Inr _ \<Rightarrow> (case ft_preflight T locators (fst s) of (r, w) \<Rightarrow> (r, w, snd s)))"

definition scoped_hop ::
  "(string \<Rightarrow> url option) \<Rightarrow> string btree_set \<Rightarrow> 'w fetcher \<Rightarrow> package_fetch_request \<Rightarrow> string \<Rightarrow> 'w \<times> recorded
    \<Rightarrow> fetch_hop outcome \<times> 'w \<times> recorded" where
  "scoped_hop U roots T request locator s =
     (if locator \<noteq> fr_immutable_locator request then (Err ResolutionBindingMismatch, s)
      else case validate_fetch_locator U roots (fr_immutable_locator request) of
          Inl e \<Rightarrow> (Err e, s)
        | Inr _ \<Rightarrow>
            (case follow_redirects (ft_hop T request) (validate_fetch_locator U roots) 11 locator [] (fst s) of
               (Inl e, w) \<Rightarrow> (Err e, w, snd s)
             | (Inr bytes, w) \<Rightarrow> (Ok (Complete bytes), w, snd s @ [(request, bytes)])))"

definition scoped_discovery ::
  "(string \<Rightarrow> url option) \<Rightarrow> string btree_set \<Rightarrow> 'w fetcher \<Rightarrow> discovery_request \<Rightarrow> string \<Rightarrow> 'w \<times> recorded
    \<Rightarrow> fetch_hop outcome \<times> 'w \<times> recorded" where
  "scoped_discovery U roots T request locator s =
     (if locator \<noteq> df_immutable_locator request then (Err ResolutionBindingMismatch, s)
      else case validate_fetch_locator U roots locator of
          Inl e \<Rightarrow> (Err e, s)
        | Inr _ \<Rightarrow>
            (case follow_redirects (ft_discovery T request) (validate_fetch_locator U roots) 11 locator [] (fst s) of
               (Inl e, w) \<Rightarrow> (Err e, w, snd s)
             | (Inr bytes, w) \<Rightarrow>
                 (if (case length_u64 bytes of None \<Rightarrow> True | Some n \<Rightarrow> n > df_maximum_bytes request)
                  then (Err CorruptArtifact, w, snd s) else (Ok (Complete bytes), w, snd s))))"

primrec run_scoped ::
  "(string \<Rightarrow> url option) \<Rightarrow> string btree_set \<Rightarrow> 'w fetcher \<Rightarrow> 'a fetch_program \<Rightarrow> 'w \<times> recorded
    \<Rightarrow> 'a \<times> 'w \<times> recorded" where
  "run_scoped U roots T (Done x) s = (x, s)"
| "run_scoped U roots T (Preflight locators k) s =
     (case scoped_preflight U roots T locators s of (r, s) \<Rightarrow> run_scoped U roots T (k r) s)"
| "run_scoped U roots T (FetchHop request locator k) s =
     (case scoped_hop U roots T request locator s of (r, s) \<Rightarrow> run_scoped U roots T (k r) s)"
| "run_scoped U roots T (DiscoveryHop request locator k) s =
     (case scoped_discovery U roots T request locator s of (r, s) \<Rightarrow> run_scoped U roots T (k r) s)"

section \<open>Backends\<close>

record resolution_request =
  rq_desired :: package_desired_intent
  rq_target :: package_target
  rq_manager :: manager_binding
  rq_source_id :: stable_id
  rq_canonical_repository :: string
  rq_registry_definition_digest :: sha256_digest
  rq_apt :: "apt_source_authority option"
  rq_node :: "node_source_authority option"

record fetched_resolution =
  fx_probe :: package_probe
  fx_draft :: resolution_draft
  fx_fetched :: recorded

record 'b backend =
  bk_manager :: package_manager
  bk_preflight :: "resolution_request \<Rightarrow> 'b \<Rightarrow> unit outcome \<times> 'b"
  bk_probe :: "resolution_request \<Rightarrow> 'b \<Rightarrow> package_probe outcome \<times> 'b"
  bk_resolve :: "resolution_request \<Rightarrow> source_binding \<Rightarrow> 'b \<Rightarrow> resolution_draft outcome \<times> 'b"
  bk_resolve_and_fetch :: "resolution_request \<Rightarrow> 'b \<Rightarrow> (fetched_resolution option outcome \<times> 'b) fetch_program"
  bk_fetch_artifacts :: "resolution_request \<Rightarrow> source_binding \<Rightarrow> package_fetch_request list \<Rightarrow> 'b
    \<Rightarrow> (unit outcome \<times> 'b) fetch_program"

text \<open>The provided bodies of \<open>PackageResolutionBackend\<close>.\<close>

definition default_resolve_and_fetch :: "resolution_request \<Rightarrow> 'b \<Rightarrow> (fetched_resolution option outcome \<times> 'b) fetch_program" where
  "default_resolve_and_fetch request b = Done (Ok None, b)"

fun fetch_each :: "package_fetch_request list \<Rightarrow> 'b \<Rightarrow> (unit outcome \<times> 'b) fetch_program" where
  "fetch_each [] b = Done (Ok (), b)"
| "fetch_each (a # rest) b = FetchHop a (fr_immutable_locator a) (\<lambda>r. case r of
       Inl e \<Rightarrow> Done (Err e, b)
     | Inr (Complete _) \<Rightarrow> fetch_each rest b
     | Inr (Redirect _) \<Rightarrow> Done (Err UnvalidatedRedirect, b))"

definition default_fetch_artifacts ::
  "resolution_request \<Rightarrow> source_binding \<Rightarrow> package_fetch_request list \<Rightarrow> 'b \<Rightarrow> (unit outcome \<times> 'b) fetch_program" where
  "default_fetch_artifacts request source artifacts b = fetch_each artifacts b"

section \<open>Effects\<close>

record ('b, 'w) coordinator_state =
  co_backend :: 'b
  co_world :: 'w
  co_store :: artifact_store

type_synonym ('b, 'w, 'a) step = "('b, 'w) coordinator_state \<Rightarrow> 'a outcome \<times> ('b, 'w) coordinator_state"

definition pure_step :: "'a outcome \<Rightarrow> ('b, 'w, 'a) step" where
  "pure_step r s = (r, s)"

definition then_step :: "('b, 'w, 'a) step \<Rightarrow> ('a \<Rightarrow> ('b, 'w, 'c) step) \<Rightarrow> ('b, 'w, 'c) step" where
  "then_step m f s = (case m s of (Inl e, s) \<Rightarrow> (Err e, s) | (Inr x, s) \<Rightarrow> f x s)"

definition backend_step :: "('b \<Rightarrow> 'a outcome \<times> 'b) \<Rightarrow> ('b, 'w, 'a) step" where
  "backend_step m s = (case m (co_backend s) of (r, b) \<Rightarrow> (r, s\<lparr>co_backend := b\<rparr>))"

definition scoped_step ::
  "(string \<Rightarrow> url option) \<Rightarrow> string btree_set \<Rightarrow> 'w fetcher \<Rightarrow> ('b \<Rightarrow> ('a outcome \<times> 'b) fetch_program)
    \<Rightarrow> ('b, 'w, 'a \<times> recorded) step" where
  "scoped_step U roots T program s =
     (case run_scoped U roots T (program (co_backend s)) (co_world s, []) of
        ((r, b), w, fetched) \<Rightarrow> (and_then r (\<lambda>x. Ok (x, fetched)), s\<lparr>co_backend := b, co_world := w\<rparr>))"

definition store_step ::
  "env \<Rightarrow> (sha256_digest \<Rightarrow> write_fault) \<Rightarrow> string \<Rightarrow> ('b, 'w, content_reference) step" where
  "store_step E F bytes s =
     (case artifact_put E F bytes Portable (co_store s) of
        (r, store) \<Rightarrow> (map_err ResolutionArtifact r, s\<lparr>co_store := store\<rparr>))"

section \<open>Drafts and artifacts\<close>

definition request_key :: "package_fetch_request \<Rightarrow> string \<times> string \<times> string \<times> u64 \<times> string \<times> string" where
  "request_key q = (sid_str (fr_role q), fr_immutable_locator q, digest_str (fr_upstream_checksum q), fr_size q,
     sid_str (fr_materialization_key q), digest_str (fr_source_metadata_digest q))"

definition evidence_key :: "artifact_evidence \<Rightarrow> string \<times> string \<times> string" where
  "evidence_key e = (sid_str (ae_authority e), digest_str (ae_metadata_digest e), digest_str (ae_signature_digest e))"

definition canonicalize_draft :: "resolution_draft \<Rightarrow> package_resolution_error + resolution_draft" where
  "canonicalize_draft d =
     and_then (for_each (\<lambda>p. map_err ResolutionContract (package_validate_for_resolution (rp_declaration p)))
         (dr_closure d)) (\<lambda>_.
       let closure = sort_key (\<lambda>p. closure_key (rp_declaration p)) (dr_closure d) in
       if adjacent_equal closure then Err DuplicateClosurePackage
       else Ok (d\<lparr>dr_closure := closure, dr_artifacts := sort_key request_key (dr_artifacts d)\<rparr>))"

fun check_fetched ::
  "env \<Rightarrow> sha256_digest \<Rightarrow> stable_id list \<Rightarrow> recorded \<Rightarrow> package_resolution_error + unit" where
  "check_fetched E metadata known [] = Ok ()"
| "check_fetched E metadata known ((q, bytes) # rest) =
     (if fr_materialization_key q \<in> set known then Err DuplicateArtifact
      else if fr_source_metadata_digest q \<noteq> metadata \<or> length_u64 bytes \<noteq> Some (fr_size q) then Err CorruptArtifact
      else and_then (map_err ResolutionContract (sha256_digest_parse (''sha256:'' @ env_sha256 E bytes))) (\<lambda>digest.
        if digest \<noteq> fr_upstream_checksum q then Err CorruptArtifact
        else check_fetched E metadata (fr_materialization_key q # known) rest))"

definition persisted_artifact :: "package_fetch_request \<Rightarrow> content_reference \<Rightarrow> package_artifact" where
  "persisted_artifact q content =
     \<lparr>pa_role = fr_role q, pa_content = content, pa_upstream_checksum = fr_upstream_checksum q, pa_size = fr_size q,
      pa_materialization_key = fr_materialization_key q, pa_source_metadata_digest = fr_source_metadata_digest q\<rparr>"

fun persist_fetched ::
  "env \<Rightarrow> (sha256_digest \<Rightarrow> write_fault) \<Rightarrow> recorded \<Rightarrow> ('b, 'w, package_artifact list) step" where
  "persist_fetched E F [] = pure_step (Ok [])"
| "persist_fetched E F ((q, bytes) # rest) =
     then_step (store_step E F bytes) (\<lambda>content.
       if ct_digest content \<noteq> fr_upstream_checksum q \<or> ct_bytes content \<noteq> fr_size q
       then pure_step (Err CorruptArtifact)
       else then_step (persist_fetched E F rest) (\<lambda>artifacts. pure_step (Ok (persisted_artifact q content # artifacts))))"

definition validate_and_persist_artifacts ::
  "env \<Rightarrow> (sha256_digest \<Rightarrow> write_fault) \<Rightarrow> package_fetch_request list \<Rightarrow> recorded \<Rightarrow> sha256_digest
    \<Rightarrow> ('b, 'w, package_artifact list) step" where
  "validate_and_persist_artifacts E F expected fetched metadata =
     (let fetched = sort_key (\<lambda>x. request_key (fst x)) fetched in
      if adjacent_equal expected \<or> adjacent_equal (map fst fetched) then pure_step (Err DuplicateArtifact)
      else if length expected \<noteq> length fetched \<or> list_ex (\<lambda>(l, r). l \<noteq> fst r) (zip expected fetched)
      then pure_step (Err ArtifactSetMismatch)
      else then_step (pure_step (check_fetched E metadata [] fetched)) (\<lambda>_. persist_fetched E F fetched))"

section \<open>The coordinator\<close>

record coordinator =
  cd_policy :: security_policy
  cd_registry :: source_registry
  cd_manager :: manager_binding

record prepared_resolution =
  pq_desired :: package_desired_intent
  pq_definition :: source_definition
  pq_source :: source_binding
  pq_before :: "string btree_set"
  pq_draft :: resolution_draft
  pq_fetched :: "recorded option"

definition source_binding_of :: "source_definition \<Rightarrow> package_probe \<Rightarrow> source_binding" where
  "source_binding_of d probe =
     \<lparr>sb_source_id = sd_source_id d, sb_registry_definition_digest = sd_digest d,
      sb_canonical_repository = sd_canonical_repository d, sb_repository_revision = pp_repository_revision probe,
      sb_signed_metadata = pp_signed_metadata probe\<rparr>"

definition enforce_source :: "coordinator \<Rightarrow> package_declaration \<Rightarrow> package_resolution_error + unit" where
  "enforce_source c d =
     map_err (\<lambda>_. PackageSourceNotAllowedBy (pk_source d)) (enforce_package_source_policy (cd_policy c) d)"

definition preflight_desired ::
  "coordinator \<Rightarrow> 'b backend \<Rightarrow> package_desired_intent \<Rightarrow> package_target \<Rightarrow> package_resolution_error + source_definition" where
  "preflight_desired c B desired target =
     (case desired of DesiredPackage d \<Rightarrow>
        and_then (map_err ResolutionContract (package_validate_for_resolution d)) (\<lambda>_.
        and_then (enforce_source c d) (\<lambda>_.
        and_then (validate_target target) (\<lambda>_.
        and_then (validate_manager (cd_manager c)) (\<lambda>_.
        if mb_manager (cd_manager c) \<noteq> pk_manager d \<or> bk_manager B \<noteq> pk_manager d then Err ManagerMismatch
        else and_then (registry_source (cd_registry c) (pk_source d)) (\<lambda>s.
          if sd_manager s \<noteq> pk_manager d \<or> sd_source_id s \<noteq> pk_source d then Err SourceManagerMismatch
          else Ok s))))))"

definition validate_closure ::
  "coordinator \<Rightarrow> resolved_package list \<Rightarrow> package_declaration \<Rightarrow> source_binding \<Rightarrow> package_resolution_error + unit" where
  "validate_closure c closure root source =
     (if \<not> list_ex (\<lambda>p. resolved_root_matches (rp_declaration p) root \<and> rp_source p = source) closure
      then Err MissingRootPackage
      else for_each (\<lambda>p. let d = rp_declaration p; s = rp_source p in
        and_then (map_err ResolutionContract (package_validate_for_resolution d)) (\<lambda>_.
        and_then (enforce_source c d) (\<lambda>_.
        and_then (registry_source (cd_registry c) (pk_source d)) (\<lambda>definition_of.
          if pk_manager d \<noteq> mb_manager (cd_manager c) \<or> sd_manager definition_of \<noteq> pk_manager d
             \<or> sb_source_id s \<noteq> sd_source_id definition_of
             \<or> sb_registry_definition_digest s \<noteq> sd_digest definition_of
             \<or> sb_canonical_repository s \<noteq> sd_canonical_repository definition_of \<or> s \<noteq> source
          then Err SourceBindingMismatch else validate_source s)))) closure)"

definition request_of ::
  "coordinator \<Rightarrow> package_desired_intent \<Rightarrow> package_target \<Rightarrow> source_definition \<Rightarrow> resolution_request" where
  "request_of c desired target s =
     \<lparr>rq_desired = desired, rq_target = target, rq_manager = cd_manager c, rq_source_id = sd_source_id s,
      rq_canonical_repository = sd_canonical_repository s, rq_registry_definition_digest = sd_digest s,
      rq_apt = sd_apt s, rq_node = sd_node s\<rparr>"

text \<open>The probe and the draft, from the staged fetch when the backend has one.\<close>

definition obtain_draft ::
  "(string \<Rightarrow> url option) \<Rightarrow> 'w fetcher \<Rightarrow> 'b backend \<Rightarrow> source_definition \<Rightarrow> resolution_request
    \<Rightarrow> ('b, 'w, package_probe \<times> resolution_draft \<times> recorded option) step" where
  "obtain_draft U T B s request =
     then_step (scoped_step U (sd_approved_artifact_roots s) T (bk_resolve_and_fetch B request)) (\<lambda>(staged, _).
       case staged of
         Some x \<Rightarrow> pure_step (Ok (fx_probe x, fx_draft x, Some (fx_fetched x)))
       | None \<Rightarrow>
           then_step (backend_step (bk_probe B request)) (\<lambda>probe.
           let source = source_binding_of s probe in
           then_step (pure_step (validate_source source)) (\<lambda>_.
           then_step (backend_step (bk_resolve B request source)) (\<lambda>draft.
             pure_step (Ok (probe, draft, None))))))"

definition check_draft ::
  "coordinator \<Rightarrow> package_desired_intent \<Rightarrow> source_definition \<Rightarrow> package_probe \<Rightarrow> resolution_draft \<Rightarrow> recorded option
    \<Rightarrow> package_resolution_error + prepared_resolution" where
  "check_draft c desired s probe draft fetched =
     (let metadata = sort_key evidence_key (pp_signed_metadata probe); probe = probe\<lparr>pp_signed_metadata := metadata\<rparr>;
          source = source_binding_of s probe in
      if adjacent_equal metadata then Err DuplicateSourceMetadata
      else and_then (validate_source source) (\<lambda>_.
        and_then (canonicalize_draft draft) (\<lambda>draft.
        and_then (validate_closure c (dr_closure draft) (case desired of DesiredPackage d \<Rightarrow> d) source) (\<lambda>_.
        and_then (validate_recipe_roles (dr_recipe draft) (map fr_role (dr_artifacts draft))) (\<lambda>_.
          Ok \<lparr>pq_desired = desired, pq_definition = s, pq_source = source, pq_before = pp_before probe,
              pq_draft = draft, pq_fetched = fetched\<rparr>)))))"

definition prepare_resolution ::
  "(string \<Rightarrow> url option) \<Rightarrow> 'w fetcher \<Rightarrow> 'b backend \<Rightarrow> coordinator \<Rightarrow> package_desired_intent \<Rightarrow> package_target
    \<Rightarrow> ('b, 'w, prepared_resolution) step" where
  "prepare_resolution U T B c desired target =
     then_step (pure_step (preflight_desired c B desired target)) (\<lambda>s.
     let request = request_of c desired target s in
     then_step (backend_step (bk_preflight B request)) (\<lambda>_.
     then_step (obtain_draft U T B s request) (\<lambda>(probe, draft, fetched).
       pure_step (check_draft c desired s probe draft fetched))))"

definition resolution_of ::
  "coordinator \<Rightarrow> prepared_resolution \<Rightarrow> package_target \<Rightarrow> package_artifact list \<Rightarrow> package_resolution" where
  "resolution_of c p target artifacts =
     \<lparr>rs_schema_version = SchemaVersion (if mb_manager (cd_manager c) = Nvm then 2 else 1),
      rs_declaration = (case pq_desired p of DesiredPackage d \<Rightarrow> d), rs_target = target, rs_manager = cd_manager c,
      rs_source = pq_source p, rs_before = pq_before p, rs_closure = dr_closure (pq_draft p),
      rs_artifacts = artifacts, rs_recipe = dr_recipe (pq_draft p)\<rparr>"

definition persist_prepared ::
  "env \<Rightarrow> (sha256_digest \<Rightarrow> write_fault) \<Rightarrow> resolution_codec \<Rightarrow> (string \<Rightarrow> url option) \<Rightarrow> 'w fetcher \<Rightarrow> 'b backend
    \<Rightarrow> coordinator \<Rightarrow> prepared_resolution \<Rightarrow> package_target \<Rightarrow> ('b, 'w, resolved_package_intent) step" where
  "persist_prepared E F C U T B c p target =
     (let s = pq_definition p; roots = sd_approved_artifact_roots s; draft = pq_draft p;
          request = request_of c (pq_desired p) target s in
      then_step (pure_step (metadata_digest E (pq_source p))) (\<lambda>metadata.
      then_step (pure_step (for_each (\<lambda>q. validate_fetch_locator U roots (fr_immutable_locator q))
          (dr_artifacts draft))) (\<lambda>_.
      then_step (case pq_fetched p of
          Some fetched \<Rightarrow> pure_step (Ok fetched)
        | None \<Rightarrow> then_step (scoped_step U roots T (bk_fetch_artifacts B request (pq_source p) (dr_artifacts draft)))
            (\<lambda>(_, fetched). pure_step (Ok fetched))) (\<lambda>fetched.
      then_step (validate_and_persist_artifacts E F (dr_artifacts draft) fetched metadata) (\<lambda>artifacts.
      let r = resolution_of c p target artifacts in
      then_step (pure_step (ok_or ResolutionJson (rc_encode C r))) (\<lambda>bytes.
      then_step (store_step E F bytes) (\<lambda>reference.
        pure_step (Ok \<lparr>ri_declaration = rs_declaration r, ri_resolution = reference,
            ri_artifacts = map pa_content artifacts\<rparr>))))))))"

definition coordinator_resolve ::
  "env \<Rightarrow> (sha256_digest \<Rightarrow> write_fault) \<Rightarrow> resolution_codec \<Rightarrow> (string \<Rightarrow> url option) \<Rightarrow> 'w fetcher \<Rightarrow> 'b backend
    \<Rightarrow> coordinator \<Rightarrow> package_desired_intent \<Rightarrow> package_target \<Rightarrow> ('b, 'w, resolved_package_intent) step" where
  "coordinator_resolve E F C U T B c desired target =
     then_step (prepare_resolution U T B c desired target) (\<lambda>p. persist_prepared E F C U T B c p target)"

section \<open>A whole state\<close>

fun desired_packages :: "normalized_resource list \<Rightarrow> package_desired_intent list" where
  "desired_packages [] = []"
| "desired_packages (r # rest) =
     (case nr_intent r of PackageIntent d \<Rightarrow> d # desired_packages rest | _ \<Rightarrow> desired_packages rest)"

fun preflight_all ::
  "'b backend \<Rightarrow> coordinator \<Rightarrow> package_target \<Rightarrow> package_desired_intent list \<Rightarrow> ('b, 'w, unit) step" where
  "preflight_all B c target [] = pure_step (Ok ())"
| "preflight_all B c target (d # rest) =
     then_step (pure_step (preflight_desired c B d target)) (\<lambda>s.
     then_step (backend_step (bk_preflight B (request_of c d target s))) (\<lambda>_. preflight_all B c target rest))"

fun prepare_all ::
  "(string \<Rightarrow> url option) \<Rightarrow> 'w fetcher \<Rightarrow> 'b backend \<Rightarrow> coordinator \<Rightarrow> package_target \<Rightarrow> package_desired_intent list
    \<Rightarrow> ('b, 'w, prepared_resolution list) step" where
  "prepare_all U T B c target [] = pure_step (Ok [])"
| "prepare_all U T B c target (d # rest) =
     then_step (prepare_resolution U T B c d target) (\<lambda>p.
     then_step (prepare_all U T B c target rest) (\<lambda>ps. pure_step (Ok (p # ps))))"

fun persist_all ::
  "env \<Rightarrow> (sha256_digest \<Rightarrow> write_fault) \<Rightarrow> resolution_codec \<Rightarrow> (string \<Rightarrow> url option) \<Rightarrow> 'w fetcher \<Rightarrow> 'b backend
    \<Rightarrow> coordinator \<Rightarrow> package_target \<Rightarrow> normalized_resource list \<Rightarrow> prepared_resolution list
    \<Rightarrow> ('b, 'w, normalized_resource list) step" where
  "persist_all E F C U T B c target [] ps = pure_step (Ok [])"
| "persist_all E F C U T B c target (r # rest) ps =
     (case nr_intent r of
        FilesystemIntent i \<Rightarrow>
          then_step (persist_all E F C U T B c target rest ps) (\<lambda>rs. pure_step (Ok (r # rs)))
      | PackageIntent desired \<Rightarrow>
          (case ps of
             [] \<Rightarrow> pure_step (Err ResolutionBindingMismatch)
           | p # ps \<Rightarrow>
               if pq_desired p \<noteq> desired then pure_step (Err ResolutionBindingMismatch)
               else then_step (persist_prepared E F C U T B c p target) (\<lambda>intent.
                 then_step (persist_all E F C U T B c target rest ps) (\<lambda>rs.
                   pure_step (Ok (\<lparr>nr_intent = ResolvedIntent intent, nr_provenance = nr_provenance r\<rparr> # rs)))))
      | ResolvedIntent _ \<Rightarrow> pure_step (Err ResolutionBindingMismatch))"

definition resolve_state ::
  "env \<Rightarrow> (sha256_digest \<Rightarrow> write_fault) \<Rightarrow> resolution_codec \<Rightarrow> (string \<Rightarrow> url option) \<Rightarrow> 'w fetcher \<Rightarrow> 'b backend
    \<Rightarrow> coordinator \<Rightarrow> materialized_state \<Rightarrow> package_target \<Rightarrow> ('b, 'w, materialized_state) step" where
  "resolve_state E F C U T B c state target =
     then_step (pure_step (map_err ResolutionProvider (materialized_verify E state))) (\<lambda>_.
     let desired = desired_packages (ms_resources state) in
     then_step (preflight_all B c target desired) (\<lambda>_.
     then_step (prepare_all U T B c target desired) (\<lambda>prepared.
     then_step (persist_all E F C U T B c target (ms_resources state) prepared) (\<lambda>resources.
       pure_step (map_err ResolutionProvider (finalize_resolved E (ms_inputs state) resources
         (ms_declared_side_effects state) (ms_unsupported state) (ms_capabilities state)))))))"

end
