(* ===== verification/Package_Facts.thy ===== *)
theory Package_Facts
  imports Package_Coordinator
begin

text \<open>
  A small program logic for the steps of the coordinator, and what it shows: which locators reach the
  inner fetcher, which bytes stand behind a persisted resolution, and when the loader accepts it.
\<close>

section \<open>Steps\<close>

lemma then_step_Ok [result_simps]:
  "then_step m f s = (Inr y, s') \<longleftrightarrow> (\<exists>x s1. m s = (Inr x, s1) \<and> f x s1 = (Inr y, s'))"
  by (auto simp: then_step_def split: prod.splits sum.splits)

lemma pure_step_Ok [simp]: "pure_step r s = (Inr y, s') \<longleftrightarrow> r = Inr y \<and> s' = s"
  by (auto simp: pure_step_def)

text \<open>The steps that keep a property of the fetcher's world, whether they succeed or fail.\<close>

definition keeps :: "('w \<Rightarrow> bool) \<Rightarrow> ('b, 'w, 'a) step \<Rightarrow> bool" where
  "keeps W m \<longleftrightarrow> (\<forall>s. W (co_world s) \<longrightarrow> W (co_world (snd (m s))))"

named_theorems keeps_rules \<open>the steps that keep a property of the world\<close>

lemma keeps_pure [keeps_rules]: "keeps W (pure_step r)"
  by (simp add: keeps_def pure_step_def)

lemma keeps_then: "keeps W m \<Longrightarrow> (\<And>x s s'. m s = (Inr x, s') \<Longrightarrow> keeps W (f x)) \<Longrightarrow> keeps W (then_step m f)"
  by (fastforce simp: keeps_def then_step_def split: prod.splits sum.splits)

lemma keeps_backend [keeps_rules]: "keeps W (backend_step m)"
  by (simp add: keeps_def backend_step_def split: prod.splits)

lemma keeps_store [keeps_rules]: "keeps W (store_step E F bytes)"
  by (simp add: keeps_def store_step_def split: prod.splits)

section \<open>Approved locators\<close>

text \<open>A locator is approved when it lies within the roots of a registered source.\<close>

definition approved :: "(string \<Rightarrow> url option) \<Rightarrow> source_registry \<Rightarrow> string \<Rightarrow> bool" where
  "approved U registry l \<longleftrightarrow> list_ex (\<lambda>s. validate_fetch_locator U (sd_approved_artifact_roots s) l = Ok ())
     (map snd (rg_sources registry))"

definition registered :: "source_registry \<Rightarrow> source_definition \<Rightarrow> bool" where
  "registered registry s \<longleftrightarrow> s \<in> set (map snd (rg_sources registry))"

lemma approvedI: "registered registry s \<Longrightarrow> validate_fetch_locator U (sd_approved_artifact_roots s) l = Inr () \<Longrightarrow> approved U registry l"
  by (auto simp: approved_def registered_def list_ex_iff)

text \<open>A property of the fetcher's world that it keeps at approved locators.\<close>

definition fetcher_keeps :: "(string \<Rightarrow> bool) \<Rightarrow> 'w fetcher \<Rightarrow> ('w \<Rightarrow> bool) \<Rightarrow> bool" where
  "fetcher_keeps A T W \<longleftrightarrow>
     (\<forall>q l w. A l \<longrightarrow> W w \<longrightarrow> W (snd (ft_hop T q l w))) \<and> (\<forall>q l w. A l \<longrightarrow> W w \<longrightarrow> W (snd (ft_discovery T q l w)))
     \<and> (\<forall>ls w. (\<forall>l\<in>set ls. A l) \<longrightarrow> W w \<longrightarrow> W (snd (ft_preflight T ls w)))"

lemma follow_redirects_keeps:
  assumes "\<And>l w. A l \<Longrightarrow> W w \<Longrightarrow> W (snd (hop l w))" "\<And>l. approve l = Inr () \<Longrightarrow> A l" "A current" "W w"
  shows "W (snd (follow_redirects hop approve n current visited w))"
  using assms(3,4)
proof (induction n arbitrary: current visited w)
  case (Suc n)
  show ?case
    using assms(1) [OF Suc.prems] Suc.IH assms(2) Suc.prems(2)
    by (auto split: prod.splits sum.splits fetch_hop.splits)
qed simp

lemma run_scoped_keeps:
  assumes "fetcher_keeps A T W" "\<And>l. validate_fetch_locator U roots l = Inr () \<Longrightarrow> A l" "W (fst s)"
  shows "W (fst (snd (run_scoped U roots T p s)))"
  using assms(3)
proof (induction p arbitrary: s)
  case (Preflight ls k)
  have "W (fst (snd (scoped_preflight U roots T ls s)))"
    using assms(1,2) Preflight.prems by (auto simp: scoped_preflight_def fetcher_keeps_def split: sum.splits prod.splits)
      (metis snd_conv)
  then show ?case using Preflight.IH by (auto split: prod.splits)
next
  case (FetchHop q l k)
  have "W (snd (follow_redirects (ft_hop T q) (validate_fetch_locator U roots) 11 l [] (fst s)))"
    if "validate_fetch_locator U roots l = Inr ()"
    using follow_redirects_keeps [of A W "ft_hop T q" "validate_fetch_locator U roots" l "fst s"] assms(1,2) that
      FetchHop.prems by (auto simp: fetcher_keeps_def)
  then have "W (fst (snd (scoped_hop U roots T q l s)))"
    using FetchHop.prems by (auto simp: scoped_hop_def split: sum.splits prod.splits) 
  then show ?case using FetchHop.IH by (auto split: prod.splits)
next
  case (DiscoveryHop q l k)
  have "W (snd (follow_redirects (ft_discovery T q) (validate_fetch_locator U roots) 11 l [] (fst s)))"
    if "validate_fetch_locator U roots l = Inr ()"
    using follow_redirects_keeps [of A W "ft_discovery T q" "validate_fetch_locator U roots" l "fst s"] assms(1,2) that
      DiscoveryHop.prems by (auto simp: fetcher_keeps_def)
  then have "W (fst (snd (scoped_discovery U roots T q l s)))"
    using DiscoveryHop.prems by (auto simp: scoped_discovery_def split: sum.splits prod.splits)
  then show ?case using DiscoveryHop.IH by (auto split: prod.splits)
qed simp

lemma keeps_scoped:
  assumes "fetcher_keeps (approved U registry) T W" "registered registry s"
  shows "keeps W (scoped_step U (sd_approved_artifact_roots s) T program)"
proof -
  have "W (co_world (snd (scoped_step U (sd_approved_artifact_roots s) T program st)))" if "W (co_world st)" for st
    using run_scoped_keeps [of "approved U registry" T W U "sd_approved_artifact_roots s" "(co_world st, [])"
        "program (co_backend st)"] assms that
    by (auto simp: approvedI scoped_step_def split: prod.splits)
  then show ?thesis by (simp add: keeps_def)
qed

lemma preflight_registered:
  "preflight_desired c B desired target = Inr s \<Longrightarrow> registered (cd_registry c) s"
  by (auto simp: preflight_desired_def registered_def registry_source_def result_simps bt_get_def
      split: package_desired_intent.splits if_splits dest!: map_of_SomeD) force

lemma check_draft_definition: "check_draft c desired s probe draft fetched = Inr p \<Longrightarrow> pq_definition p = s"
  by (auto simp: check_draft_def Let_def result_simps split: if_splits)

lemma prepared_registered:
  "prepare_resolution U T B c desired target s = (Inr p, s') \<Longrightarrow> registered (cd_registry c) (pq_definition p)"
  by (auto simp: prepare_resolution_def Let_def result_simps dest!: check_draft_definition preflight_registered)

lemma keeps_obtain:
  assumes "fetcher_keeps (approved U registry) T W" "registered registry s"
  shows "keeps W (obtain_draft U T B s request)"
  unfolding obtain_draft_def Let_def
  by (auto intro!: keeps_then keeps_scoped [OF assms] keeps_rules split: option.splits)

lemma keeps_prepare:
  assumes "fetcher_keeps (approved U (cd_registry c)) T W"
  shows "keeps W (prepare_resolution U T B c desired target)"
  unfolding prepare_resolution_def Let_def
  by (auto intro!: keeps_then keeps_obtain [OF assms] keeps_rules dest: preflight_registered)

lemma keeps_persist_fetched: "keeps W (persist_fetched E F fetched)"
  by (induction fetched) (auto intro!: keeps_then keeps_rules)

lemma keeps_persist:
  assumes "fetcher_keeps (approved U (cd_registry c)) T W" "registered (cd_registry c) (pq_definition p)"
  shows "keeps W (persist_prepared E F C U T B c p target)"
  unfolding persist_prepared_def Let_def validate_and_persist_artifacts_def
  by (auto intro!: keeps_then keeps_scoped [OF assms] keeps_persist_fetched keeps_rules split: option.splits)

lemma keeps_preflight_all: "keeps W (preflight_all B c target ds)"
  by (induction ds) (auto intro!: keeps_then keeps_rules)

lemma keeps_prepare_all:
  "fetcher_keeps (approved U (cd_registry c)) T W \<Longrightarrow> keeps W (prepare_all U T B c target ds)"
  by (induction ds) (auto intro!: keeps_then keeps_prepare keeps_rules)

lemma prepare_all_registered:
  "prepare_all U T B c target ds s = (Inr ps, s') \<Longrightarrow> \<forall>p\<in>set ps. registered (cd_registry c) (pq_definition p)"
  by (induction ds arbitrary: s ps) (fastforce simp: result_simps dest: prepared_registered)+

lemma keeps_persist_all:
  assumes "fetcher_keeps (approved U (cd_registry c)) T W"
  shows "\<forall>p\<in>set ps. registered (cd_registry c) (pq_definition p) \<Longrightarrow> keeps W (persist_all E F C U T B c target rs ps)"
proof (induction rs arbitrary: ps)
  case (Cons r rs)
  then show ?case
    by (auto intro!: keeps_then keeps_persist [OF assms] keeps_rules split: resource_intent.splits list.splits)
qed (simp add: keeps_rules)

lemma keeps_resolve_state:
  assumes "fetcher_keeps (approved U (cd_registry c)) T W"
  shows "keeps W (resolve_state E F C U T B c state target)"
  unfolding resolve_state_def Let_def
  by (auto intro!: keeps_then keeps_preflight_all keeps_prepare_all [OF assms] keeps_persist_all [OF assms] keeps_rules
      dest!: prepare_all_registered)

section \<open>What a success leaves in the store\<close>

lemma store_step_Ok:
  assumes "store_step E F bytes s = (Inr r, s')"
  shows "digest_bytes E bytes = Inr (ct_digest r)" "length_u64 bytes = Some (ct_bytes r)" "ct_sensitivity r = Portable"
    "\<exists>kept. authentic E (co_store s') r kept" "co_store s \<subseteq>\<^sub>m co_store s'"
proof -
  obtain store where p: "artifact_put E F bytes Portable (co_store s) = (Inr r, store)" and s': "s' = s\<lparr>co_store := store\<rparr>"
    using assms by (auto simp: store_step_def split: prod.splits)
  show "digest_bytes E bytes = Inr (ct_digest r)" "length_u64 bytes = Some (ct_bytes r)" "ct_sensitivity r = Portable"
    "\<exists>kept. authentic E (co_store s') r kept" "co_store s \<subseteq>\<^sub>m co_store s'"
    using artifact_put_Ok [OF p] s' by simp_all
qed

text \<open>A persisted artifact: its content has the requested checksum and size, and can be loaded.\<close>

definition stored_artifact :: "env \<Rightarrow> artifact_store \<Rightarrow> package_fetch_request \<Rightarrow> package_artifact \<Rightarrow> bool" where
  "stored_artifact E store q a \<longleftrightarrow> a = persisted_artifact q (pa_content a) \<and> ct_digest (pa_content a) = fr_upstream_checksum q
     \<and> ct_bytes (pa_content a) = fr_size q \<and> (\<exists>bytes. artifact_load E store (pa_content a) = Inr bytes)"

lemma stored_artifact_mono: "stored_artifact E store q a \<Longrightarrow> store \<subseteq>\<^sub>m store' \<Longrightarrow> stored_artifact E store' q a"
  by (auto simp: stored_artifact_def artifact_load_Ok intro: authentic_mono)

lemma persist_fetched_Ok:
  "persist_fetched E F fetched s = (Inr as, s') \<Longrightarrow>
   list_all2 (stored_artifact E (co_store s')) (map fst fetched) as \<and> co_store s \<subseteq>\<^sub>m co_store s'"
proof (induction fetched arbitrary: s as)
  case (Cons x rest)
  obtain q bytes where x: "x = (q, bytes)" by force
  obtain content s1 bs where p: "store_step E F bytes s = (Inr content, s1)"
    "ct_digest content = fr_upstream_checksum q" "ct_bytes content = fr_size q"
    "persist_fetched E F rest s1 = (Inr bs, s')" "as = persisted_artifact q content # bs"
    using Cons.prems by (auto simp: x result_simps split: if_splits)
  note rest = Cons.IH [OF p(4)]
  obtain kept where "authentic E (co_store s1) content kept" using store_step_Ok(4) [OF p(1)] by blast
  then have "authentic E (co_store s') content kept" using rest authentic_mono by blast
  then have "stored_artifact E (co_store s') q (persisted_artifact q content)"
    using p(2,3) by (auto simp: stored_artifact_def persisted_artifact_def artifact_load_Ok)
  with rest store_step_Ok(5) [OF p(1)] show ?case by (auto simp: x p(5) intro: map_le_trans)
qed (simp add: pure_step_def)

lemma check_fetched_Ok:
  "check_fetched E metadata known fetched = Inr () \<Longrightarrow>
   (\<forall>(q, bytes)\<in>set fetched. fr_source_metadata_digest q = metadata \<and> fr_materialization_key q \<notin> set known)
   \<and> distinct (map (fr_materialization_key \<circ> fst) fetched)"
  by (induction E metadata known fetched rule: check_fetched.induct) (auto simp: result_simps split: if_splits)

lemma validate_and_persist_Ok:
  assumes "validate_and_persist_artifacts E F expected fetched metadata s = (Inr as, s')"
  shows "list_all2 (stored_artifact E (co_store s')) expected as" "co_store s \<subseteq>\<^sub>m co_store s'"
    "\<forall>q\<in>set expected. fr_source_metadata_digest q = metadata" "distinct (map fr_materialization_key expected)"
proof -
  let ?f = "sort_key (\<lambda>x. request_key (fst x)) fetched"
  have f: "length expected = length ?f" "\<not> list_ex (\<lambda>(l, r). l \<noteq> fst r) (zip expected ?f)"
    and c: "check_fetched E metadata [] ?f = Inr ()" and p: "persist_fetched E F ?f s = (Inr as, s')"
    using assms by (auto simp: validate_and_persist_artifacts_def Let_def result_simps split: if_splits)
  have e: "expected = map fst ?f"
    using f by (simp add: list_eq_iff_nth_eq list_ex_length)
  show "list_all2 (stored_artifact E (co_store s')) expected as" "co_store s \<subseteq>\<^sub>m co_store s'"
    using persist_fetched_Ok [OF p] e by simp_all
  have d: "distinct (map (fr_materialization_key \<circ> fst) ?f)" and m: "\<forall>(q, bytes)\<in>set ?f. fr_source_metadata_digest q = metadata"
    using check_fetched_Ok [OF c] by auto
  show "distinct (map fr_materialization_key expected)" using d by (subst e) simp
  show "\<forall>q\<in>set expected. fr_source_metadata_digest q = metadata" using m by (subst e) auto
qed

lemma check_artifact_keys_Ok:
  "check_artifact_keys metadata known as = Inr () \<longleftrightarrow>
     (\<forall>a\<in>set as. pa_source_metadata_digest a = metadata \<and> pa_materialization_key a \<notin> known)
     \<and> distinct (map pa_materialization_key as)"
proof (induction as arbitrary: known)
  case (Cons a as)
  have "pa_materialization_key a \<notin> pa_materialization_key ` set as \<longleftrightarrow>
      (\<forall>b\<in>set as. pa_materialization_key b \<noteq> pa_materialization_key a)"
    by (metis (no_types, lifting) image_iff)
  then show ?case by (auto simp: Cons.IH )
qed simp

lemma load_resolution_artifacts_Ok:
  "load_resolution_artifacts E store known as = Inr () \<longleftrightarrow>
     (\<forall>a\<in>set as. ct_digest (pa_content a) = pa_upstream_checksum a \<and> ct_bytes (pa_content a) = pa_size a
        \<and> (pa_role a, pa_materialization_key a) \<notin> set known
        \<and> (\<exists>bytes. artifact_load E store (pa_content a) = Inr bytes))
     \<and> distinct (map (\<lambda>a. (pa_role a, pa_materialization_key a)) as)"
proof (induction as arbitrary: known)
  case (Cons a as)
  let ?k = "\<lambda>a. (pa_role a, pa_materialization_key a)"
  have "?k a \<notin> ?k ` set as \<longleftrightarrow> (\<forall>b\<in>set as. ?k b \<noteq> ?k a)" by (metis (no_types, lifting) image_iff)
  then show ?case by (auto simp: result_simps Cons.IH )
qed simp

lemma check_closure_Ok:
  "check_closure r previous ps = Inr () \<longleftrightarrow>
     (\<forall>p\<in>set ps. package_validate_for_resolution (rp_declaration p) = Inr () \<and> rp_source p = rs_source r
        \<and> pk_source (rp_declaration p) = sb_source_id (rs_source r) \<and> pk_manager (rp_declaration p) = mb_manager (rs_manager r))
     \<and> sorted_wrt (<) ((case previous of None \<Rightarrow> [] | Some k \<Rightarrow> [k]) @ map (\<lambda>p. closure_key (rp_declaration p)) ps)"
proof (induction ps arbitrary: previous)
  case (Cons p ps)
  show ?case
    by (auto simp: Let_def result_simps Cons.IH not_le split: option.splits dest: less_trans)
qed (simp split: option.splits)

end
