(* ===== verification/Package_Samples.thy ===== *)
theory Package_Samples
  imports Package_Facts Samples
begin

text \<open>
  A concrete package, coordinator, backend and fetcher, on which the statements about package
  resolution are evaluated.
\<close>

section \<open>A concrete resolution\<close>

text \<open>
  An apt package whose closure names the same package twice, for the architecture of the target and
  for all architectures: the coordinator persists it, the loader refuses it.
\<close>

definition jq_declaration :: "string \<Rightarrow> package_declaration" where
  "jq_declaration arch = \<lparr>pk_id = StableId ''jq'', pk_version = ''1.7.1-3'', pk_manager = Apt,
     pk_source = StableId ''ubuntu-main'', pk_selector = Some (AptBinary ''jq'' (Some arch))\<rparr>"

definition jq_target :: package_target where
  "jq_target = \<lparr>tg_os = ''linux'', tg_os_version = ''24.04'', tg_distro_id = None, tg_distro_version = None,
     tg_codename = None, tg_arch = ''amd64'', tg_libc = None, tg_manager_prefix = None\<rparr>"

definition jq_manager :: manager_binding where
  "jq_manager = \<lparr>mb_manager = Apt, mb_version = ''2.7.14'', mb_executable_digest = sample_digest (CHR ''2'') (CHR ''0''),
     mb_config_digest = sample_digest (CHR ''2'') (CHR ''1'')\<rparr>"

definition jq_source :: source_definition where
  "jq_source = \<lparr>sd_source_id = StableId ''ubuntu-main'', sd_manager = Apt,
     sd_canonical_repository = ''https://archive.ubuntu.com/ubuntu'',
     sd_approved_artifact_roots = [''https://archive.ubuntu.com/ubuntu''], sd_apt = None, sd_node = None,
     sd_digest = sample_digest (CHR ''2'') (CHR ''2'')\<rparr>"

definition jq_coordinator :: coordinator where
  "jq_coordinator = \<lparr>cd_policy = \<lparr>po_denied_paths = [], po_required_controls = [],
       po_allowlists = [(StableId ''package_sources'', [''ubuntu-main''])], po_minimums = [], po_maximums = []\<rparr>,
     cd_registry = \<lparr>rg_sources = [(StableId ''ubuntu-main'', jq_source)], rg_digest = sample_digest (CHR ''2'') (CHR ''3'')\<rparr>,
     cd_manager = jq_manager\<rparr>"

definition jq_evidence :: artifact_evidence where
  "jq_evidence = \<lparr>ae_authority = StableId ''ubuntu'', ae_metadata_digest = sample_digest (CHR ''2'') (CHR ''4''),
     ae_signature_digest = sample_digest (CHR ''2'') (CHR ''5'')\<rparr>"

definition jq_probe :: package_probe where
  "jq_probe = \<lparr>pp_before = [], pp_repository_revision = None, pp_signed_metadata = [jq_evidence]\<rparr>"

definition jq_binding :: source_binding where
  "jq_binding = source_binding_of jq_source jq_probe"

text \<open>The closure of the draft is what the backend is made to answer.\<close>

definition jq_draft :: "string list \<Rightarrow> resolution_draft" where
  "jq_draft archs = \<lparr>dr_closure = map (\<lambda>a. \<lparr>rp_declaration = jq_declaration a, rp_source = jq_binding\<rparr>) archs,
     dr_artifacts = [], dr_recipe = AptArchives []\<rparr>"

definition jq_backend :: "string list \<Rightarrow> unit backend" where
  "jq_backend archs = \<lparr>bk_manager = Apt, bk_preflight = (\<lambda>_ b. (Ok (), b)), bk_probe = (\<lambda>_ b. (Ok jq_probe, b)),
     bk_resolve = (\<lambda>_ _ b. (Ok (jq_draft archs), b)), bk_resolve_and_fetch = default_resolve_and_fetch,
     bk_fetch_artifacts = default_fetch_artifacts\<rparr>"

definition jq_locator :: string where
  "jq_locator = ''https://archive.ubuntu.com/ubuntu/pool/jq.deb''"

text \<open>A locator that the repository redirects to the package.\<close>

definition jq_mirror :: string where
  "jq_mirror = ''https://archive.ubuntu.com/ubuntu/dists/Release''"

text \<open>A fetcher whose world is the list of the locators it was asked for, the last one first.\<close>

definition logging_fetcher :: "string list fetcher" where
  "logging_fetcher = (let answer = (\<lambda>l. if l = jq_mirror then Redirect jq_locator else Complete ''metadata'') in
     \<lparr>ft_preflight = (\<lambda>ls log. (Ok (), ls @ log)), ft_hop = (\<lambda>q l log. (Ok (answer l), l # log)),
      ft_discovery = (\<lambda>q l log. (Ok (answer l), l # log))\<rparr>)"

definition jq_url :: "string \<Rightarrow> url option" where
  "jq_url text = map_option (\<lambda>path. \<lparr>url_scheme = ''https'', url_host = Some ''archive.ubuntu.com'', url_port = Some 443,
     url_path = path\<rparr>) (strip_prefix ''https://archive.ubuntu.com'' text)"

definition jq_resolution :: "string list \<Rightarrow> package_resolution" where
  "jq_resolution archs = \<lparr>rs_schema_version = SchemaVersion 1, rs_declaration = jq_declaration ''amd64'',
     rs_target = jq_target, rs_manager = jq_manager, rs_source = jq_binding, rs_before = [],
     rs_closure = dr_closure (jq_draft archs), rs_artifacts = [], rs_recipe = AptArchives []\<rparr>"

definition jq_text :: string where
  "jq_text = ''{resolution of jq}''"

definition jq_codec :: "string list \<Rightarrow> resolution_codec" where
  "jq_codec archs = \<lparr>rc_decode = (\<lambda>bytes. if bytes = jq_text then Some (jq_resolution archs) else None),
     rc_decode_compatible = (\<lambda>_. None), rc_encode = (\<lambda>r. if r = jq_resolution archs then Some jq_text else None)\<rparr>"

definition jq_start :: "(unit, string list) coordinator_state" where
  "jq_start = \<lparr>co_backend = (), co_world = [], co_store = Map.empty\<rparr>"

definition jq_digest :: sha256_digest where
  "jq_digest = sample_digest (sample_digit (jq_text ! 10)) (sample_digit (last jq_text))"

definition jq_intent :: resolved_package_intent where
  "jq_intent = \<lparr>ri_declaration = jq_declaration ''amd64'',
     ri_resolution = \<lparr>ct_digest = jq_digest, ct_bytes = 18, ct_sensitivity = Portable\<rparr>, ri_artifacts = []\<rparr>"

section \<open>Evaluation\<close>

lemma jq_preflight:
  "preflight_desired jq_coordinator (jq_backend archs) (DesiredPackage (jq_declaration ''amd64'')) jq_target = Inr jq_source"
  by code_simp

lemma jq_check_draft:
  "check_draft jq_coordinator (DesiredPackage (jq_declaration ''amd64'')) jq_source jq_probe (jq_draft [''amd64'', ''all'']) None
     = Inr \<lparr>pq_desired = DesiredPackage (jq_declaration ''amd64''), pq_definition = jq_source, pq_source = jq_binding,
            pq_before = [], pq_draft = jq_draft [''amd64'', ''all''], pq_fetched = None\<rparr>"
  by code_simp

lemma jq_digest_bytes: "digest_bytes sample_env jq_text = Inr jq_digest"
proof -
  have "sha256_hex sample_env" using sample_digests_ok by (simp add: digests_ok_def)
  then show ?thesis
    using sha256_digest_parse_hex [of sample_env jq_text]
    by (simp add: digest_bytes_def sample_env_def sample_hash_def sample_digest_def jq_digest_def)
qed

lemma jq_length: "length_u64 jq_text = Some 18"
  by (simp add: length_u64_def jq_text_def)

lemma jq_metadata: "\<exists>m. metadata_digest sample_env jq_binding = Inr m"
  by (simp add: metadata_digest_def sample_digest_json)

text \<open>The closure in the order the coordinator leaves it in.\<close>

abbreviation jq_archs :: "string list" where
  "jq_archs \<equiv> [''amd64'', ''all'']"

definition jq_prepared :: prepared_resolution where
  "jq_prepared = \<lparr>pq_desired = DesiredPackage (jq_declaration ''amd64''), pq_definition = jq_source, pq_source = jq_binding,
     pq_before = [], pq_draft = jq_draft jq_archs, pq_fetched = None\<rparr>"

definition jq_end :: "(unit, string list) coordinator_state" where
  "jq_end = jq_start\<lparr>co_store := [jq_digest \<mapsto> Regular jq_text]\<rparr>"

lemma jq_validate_source: "validate_source jq_binding = Inr ()"
  by code_simp

lemma jq_prepare:
  "prepare_resolution jq_url logging_fetcher (jq_backend jq_archs) jq_coordinator (DesiredPackage (jq_declaration ''amd64''))
     jq_target jq_start = (Inr jq_prepared, jq_start)"
proof -
  have B: "bk_preflight (jq_backend jq_archs) = (\<lambda>_ b. (Ok (), b))" "bk_probe (jq_backend jq_archs) = (\<lambda>_ b. (Ok jq_probe, b))"
    "bk_resolve (jq_backend jq_archs) = (\<lambda>_ _ b. (Ok (jq_draft jq_archs), b))"
    "bk_resolve_and_fetch (jq_backend jq_archs) = default_resolve_and_fetch"
    by (simp_all add: jq_backend_def)
  show ?thesis
    by (simp add: prepare_resolution_def then_step_def pure_step_def jq_preflight backend_step_def B obtain_draft_def
        scoped_step_def default_resolve_and_fetch_def Let_def jq_binding_def [symmetric] jq_validate_source jq_check_draft
        jq_prepared_def)
qed

lemma jq_resolution_of: "resolution_of jq_coordinator jq_prepared jq_target [] = jq_resolution jq_archs"
  by (simp add: resolution_of_def jq_coordinator_def jq_prepared_def jq_resolution_def jq_manager_def jq_draft_def)

lemma jq_persist:
  assumes "bk_fetch_artifacts B = default_fetch_artifacts" "co_store s = Map.empty"
  shows "persist_prepared sample_env (\<lambda>_. NoFault) (jq_codec jq_archs) jq_url T B jq_coordinator jq_prepared jq_target s
    = (Inr jq_intent, s\<lparr>co_store := [jq_digest \<mapsto> Regular jq_text]\<rparr>)"
proof -
  obtain m where m: "metadata_digest sample_env (pq_source jq_prepared) = Inr m" using jq_metadata by (auto simp: jq_prepared_def)
  have P: "dr_artifacts (pq_draft jq_prepared) = []" "pq_fetched jq_prepared = None" by (simp_all add: jq_prepared_def jq_draft_def)
  have put: "artifact_put sample_env (\<lambda>_. NoFault) jq_text Portable Map.empty
      = (Inr (ri_resolution jq_intent), [jq_digest \<mapsto> Regular jq_text])"
    by (simp add: artifact_put_def jq_digest_bytes jq_length jq_intent_def)
  have C: "rc_encode (jq_codec jq_archs) (jq_resolution jq_archs) = Some jq_text" by (simp add: jq_codec_def)
  have D: "rs_declaration (jq_resolution jq_archs) = ri_declaration jq_intent" by (simp add: jq_resolution_def jq_intent_def)
  have R: "\<lparr>ri_declaration = ri_declaration jq_intent, ri_resolution = ri_resolution jq_intent, ri_artifacts = []\<rparr> = jq_intent"
    by (simp add: jq_intent_def)
  show ?thesis
    by (simp add: then_step_def pure_step_def persist_prepared_def Let_def m assms P scoped_step_def
        default_fetch_artifacts_def validate_and_persist_artifacts_def jq_resolution_of C store_step_def put D R)
qed

lemma jq_resolved:
  "coordinator_resolve sample_env (\<lambda>_. NoFault) (jq_codec jq_archs) jq_url logging_fetcher (jq_backend jq_archs) jq_coordinator
     (DesiredPackage (jq_declaration ''amd64'')) jq_target jq_start = (Inr jq_intent, jq_end)"
proof -
  have "bk_fetch_artifacts (jq_backend jq_archs) = default_fetch_artifacts" by (simp add: jq_backend_def)
  moreover have "co_store jq_start = Map.empty" by (simp add: jq_start_def)
  ultimately show ?thesis
    by (simp add: coordinator_resolve_def then_step_def jq_prepare jq_persist jq_end_def)
qed

lemma jq_loaded: "co_store jq_end (ct_digest (ri_resolution jq_intent)) = Some (Regular jq_text)"
  by (simp add: jq_end_def jq_intent_def)

text \<open>With the one package of the target, the resolution is loadable, and the authority accepts it.\<close>

definition jq_authority :: resolution_authority where
  "jq_authority = \<lparr>ra_target = jq_target, ra_manager = jq_manager, ra_registry = cd_registry jq_coordinator,
     ra_package_sources = [''ubuntu-main''], ra_digest = sample_digest (CHR ''2'') (CHR ''6'')\<rparr>"

lemma jq_persisted_valid: "validate_persisted_resolution sample_env (jq_resolution [''amd64'']) = Inr ()"
proof -
  obtain m where m: "metadata_digest sample_env (rs_source (jq_resolution [''amd64''])) = Inr m"
    using jq_metadata by (auto simp: jq_resolution_def)
  have c: "package_validate_for_resolution (rs_declaration (jq_resolution [''amd64''])) = Inr ()"
    "schema_matches_manager (jq_resolution [''amd64''])" "validate_target (rs_target (jq_resolution [''amd64''])) = Inr ()"
    "validate_manager (rs_manager (jq_resolution [''amd64''])) = Inr ()" "validate_source (rs_source (jq_resolution [''amd64''])) = Inr ()"
    "validate_before_observation (jq_resolution [''amd64'']) = Inr ()"
    "pk_source (rs_declaration (jq_resolution [''amd64''])) = sb_source_id (rs_source (jq_resolution [''amd64'']))"
    "pk_manager (rs_declaration (jq_resolution [''amd64''])) = mb_manager (rs_manager (jq_resolution [''amd64'']))"
    "check_closure (jq_resolution [''amd64'']) None (rs_closure (jq_resolution [''amd64''])) = Inr ()"
    "list_ex (\<lambda>p. resolved_root_matches (rp_declaration p) (rs_declaration (jq_resolution [''amd64'']))) (rs_closure (jq_resolution [''amd64'']))"
    "rs_artifacts (jq_resolution [''amd64'']) = []" "rs_recipe (jq_resolution [''amd64'']) = AptArchives []"
    "check_install_recipe (jq_resolution [''amd64'']) = Inr ()"
    by code_simp+
  show ?thesis
    by (simp add: validate_persisted_resolution_def m c validate_recipe_roles_def)
qed

lemma jq_accepted:
  "authority_validate sample_env (jq_codec [''amd64'']) [jq_digest \<mapsto> Regular jq_text] jq_authority jq_intent
     = Inr (jq_resolution [''amd64''])"
proof -
  have l: "artifact_load sample_env [jq_digest \<mapsto> Regular jq_text] (ri_resolution jq_intent) = Inr jq_text"
    using jq_digest_bytes jq_length by (simp add: artifact_load_Ok authentic_def jq_intent_def)
  have d: "decode_resolution (jq_codec [''amd64'']) jq_text = Inr (jq_resolution [''amd64''])"
    by (simp add: decode_resolution_def jq_codec_def)
  have c: "rs_schema_version (jq_resolution [''amd64'']) = SchemaVersion 1" "rs_declaration (jq_resolution [''amd64'']) = ri_declaration jq_intent"
    "rs_artifacts (jq_resolution [''amd64'']) = []" "ri_artifacts jq_intent = []"
    "rs_target (jq_resolution [''amd64'']) = ra_target jq_authority" "rs_manager (jq_resolution [''amd64'']) = ra_manager jq_authority"
    by (simp_all add: jq_resolution_def jq_intent_def jq_authority_def)
  have a: "check_source_definition (ra_registry jq_authority) (jq_resolution [''amd64'']) = Inr ()"
    "validate_source (rs_source (jq_resolution [''amd64''])) = Inr ()"
    "check_package_sources (ra_package_sources jq_authority) (jq_resolution [''amd64'']) = Inr ()"
    by code_simp+
  show ?thesis
    by (simp add: authority_validate_def load_and_validate_def load_persisted_def l d c a jq_persisted_valid)
qed

section \<open>A whole state\<close>

text \<open>
  A state that asks for the package, resolved by a backend that discovers the release of the
  repository over the network before it answers: the fetcher is asked for the release and for the
  locator it is redirected to.
\<close>

definition jq_inputs :: provider_inputs where
  "jq_inputs = \<lparr>in_provider_id = StableId ''chezmoi'', in_provider_version = ExactProviderVersion ''2.52.0'',
     in_contract_version = ''1'', in_input_digests = [(''source'', sample_digest (CHR ''3'') (CHR ''1''))],
     in_declared_features = [], in_input_set_digest = sample_digest (CHR ''0'') (CHR ''6'')\<rparr>"

definition jq_state :: materialized_state where
  "jq_state = \<lparr>ms_inputs = jq_inputs,
     ms_resources = [\<lparr>nr_intent = PackageIntent (DesiredPackage (jq_declaration ''amd64'')),
       nr_provenance = \<lparr>pv_provider_id = StableId ''chezmoi'', pv_provider_version = ''2.52.0'',
         pv_input_digest = sample_digest (CHR ''0'') (CHR ''6''), pv_source = ''packages.toml''\<rparr>\<rparr>],
     ms_declared_side_effects = [], ms_unsupported = [], ms_capabilities = [],
     ms_digest = sample_digest (CHR ''d'') (CHR ''6'')\<rparr>"

definition jq_discovery :: discovery_request where
  "jq_discovery = \<lparr>df_role = StableId ''release'', df_immutable_locator = jq_mirror, df_maximum_bytes = 64\<rparr>"

definition jq_fetching_backend :: "unit backend" where
  "jq_fetching_backend = (jq_backend jq_archs)\<lparr>bk_resolve_and_fetch := (\<lambda>_ b. DiscoveryHop jq_discovery jq_mirror
     (\<lambda>r. Done (and_then r (\<lambda>_. Ok None), b)))\<rparr>"

abbreviation jq_fetched :: "(unit, string list) coordinator_state" where
  "jq_fetched \<equiv> jq_start\<lparr>co_world := [jq_locator, jq_mirror]\<rparr>"

lemma jq_inputs_verify: "provider_inputs_verify sample_env jq_inputs = Inr ()"
proof -
  have "digest_domain_json sample_env ''commonkit.provider-inputs.v1'' (ser_inputs_semantic (StableId ''chezmoi'')
      (ExactProviderVersion ''2.52.0'') ''1'' [(''source'', sample_digest (CHR ''3'') (CHR ''1''))] [])
    = Inr (sample_digest (CHR ''0'') (CHR ''6''))"
    by code_simp
  then show ?thesis by (simp add: provider_inputs_verify_def provider_inputs_new_def jq_inputs_def Let_def)
qed

lemma jq_state_verify: "materialized_verify sample_env jq_state = Inr ()"
proof -
  let ?r = "hd (ms_resources jq_state)"
  have "digest_domain_json sample_env ''commonkit.materialized-state.v2''
      (ser_materialized_semantic (sample_digest (CHR ''0'') (CHR ''6'')) (ms_resources jq_state) [] [] [])
    = Inr (sample_digest (CHR ''d'') (CHR ''6''))"
    unfolding sample_digest_json by code_simp
  then show ?thesis
    by (simp add: materialized_verify_def finalize_with_capabilities_def jq_state_def jq_inputs_verify Let_def
        provenance_matches_def order_resources_def order_side_effects_def order_unsupported_def order_capabilities_def
        filesystem_only_def)
       (simp add: jq_inputs_def)
qed

lemma jq_discovered:
  "scoped_discovery jq_url (sd_approved_artifact_roots jq_source) logging_fetcher jq_discovery jq_mirror ([], [])
     = (Inr (Complete ''metadata''), [jq_locator, jq_mirror], [])"
proof -
  have v1: "validate_fetch_locator jq_url (sd_approved_artifact_roots jq_source) jq_mirror = Inr ()"
    by code_simp
  have v2: "validate_fetch_locator jq_url (sd_approved_artifact_roots jq_source) jq_locator = Inr ()"
    by code_simp
  have v3: "jq_locator \<noteq> jq_mirror"
    by (simp add: jq_locator_def jq_mirror_def)
  have v4: "length_u64 ''metadata'' = Some 8"
    by (simp add: length_u64_def)
  have "follow_redirects (ft_discovery logging_fetcher jq_discovery) (validate_fetch_locator jq_url
      (sd_approved_artifact_roots jq_source)) (Suc (Suc 9)) jq_mirror [] [] = (Inr ''metadata'', [jq_locator, jq_mirror])"
    by (simp only: follow_redirects.simps) (simp add: v2 v3 logging_fetcher_def)
  then have "follow_redirects (ft_discovery logging_fetcher jq_discovery) (validate_fetch_locator jq_url
      (sd_approved_artifact_roots jq_source)) 11 jq_mirror [] [] = (Inr ''metadata'', [jq_locator, jq_mirror])" by simp
  then show ?thesis by (simp add: scoped_discovery_def v1 v4) (simp add: jq_discovery_def)
qed

lemma jq_fetching_prepare:
  "prepare_resolution jq_url logging_fetcher jq_fetching_backend jq_coordinator (DesiredPackage (jq_declaration ''amd64''))
     jq_target jq_start = (Inr jq_prepared, jq_fetched)"
proof -
  have B: "bk_preflight jq_fetching_backend = (\<lambda>_ b. (Ok (), b))" "bk_probe jq_fetching_backend = (\<lambda>_ b. (Ok jq_probe, b))"
    "bk_resolve jq_fetching_backend = (\<lambda>_ _ b. (Ok (jq_draft jq_archs), b))"
    "bk_resolve_and_fetch jq_fetching_backend = (\<lambda>_ b. DiscoveryHop jq_discovery jq_mirror (\<lambda>r. Done (and_then r (\<lambda>_. Ok None), b)))"
    by (simp_all add: jq_fetching_backend_def jq_backend_def)
  have p: "preflight_desired jq_coordinator jq_fetching_backend (DesiredPackage (jq_declaration ''amd64'')) jq_target = Inr jq_source"
    by code_simp
  have w: "co_world jq_start = []" by (simp add: jq_start_def)
  show ?thesis
    by (simp add: prepare_resolution_def then_step_def pure_step_def p backend_step_def B obtain_draft_def scoped_step_def
        w jq_discovered Let_def jq_binding_def [symmetric] jq_validate_source jq_check_draft jq_prepared_def)
qed

lemma jq_resolved_finalize:
  "\<exists>r. finalize_resolved sample_env jq_inputs [\<lparr>nr_intent = ResolvedIntent jq_intent,
     nr_provenance = nr_provenance (hd (ms_resources jq_state))\<rparr>] [] [] [] = Inr r
     \<and> ms_resources r = [\<lparr>nr_intent = ResolvedIntent jq_intent, nr_provenance = nr_provenance (hd (ms_resources jq_state))\<rparr>]"
  by (simp add: finalize_resolved_def jq_inputs_verify Let_def sample_digest_json order_resources_def
      order_side_effects_def order_unsupported_def order_capabilities_def)
    (simp add: provenance_matches_def jq_state_def jq_inputs_def)

lemma jq_state_resolved:
  "\<exists>r. resolve_state sample_env (\<lambda>_. NoFault) (jq_codec jq_archs) jq_url logging_fetcher jq_fetching_backend jq_coordinator
     jq_state jq_target jq_start = (Inr r, jq_fetched\<lparr>co_store := [jq_digest \<mapsto> Regular jq_text]\<rparr>)
   \<and> map nr_intent (ms_resources r) = [ResolvedIntent jq_intent]"
proof -
  have rs: "ms_resources jq_state = [\<lparr>nr_intent = PackageIntent (DesiredPackage (jq_declaration ''amd64'')),
      nr_provenance = nr_provenance (hd (ms_resources jq_state))\<rparr>]" by (simp add: jq_state_def)
  have p: "preflight_desired jq_coordinator jq_fetching_backend (DesiredPackage (jq_declaration ''amd64'')) jq_target = Inr jq_source"
    by code_simp
  have B: "bk_preflight jq_fetching_backend = (\<lambda>_ b. (Ok (), b))" "bk_fetch_artifacts jq_fetching_backend = default_fetch_artifacts"
    by (simp_all add: jq_fetching_backend_def jq_backend_def)
  have q: "pq_desired jq_prepared = DesiredPackage (jq_declaration ''amd64'')" by (simp add: jq_prepared_def)
  have st: "co_store jq_fetched = Map.empty" by (simp add: jq_start_def)
  have fs: "ms_inputs jq_state = jq_inputs" "ms_declared_side_effects jq_state = []" "ms_unsupported jq_state = []"
    "ms_capabilities jq_state = []" by (simp_all add: jq_state_def)
  obtain r where r: "finalize_resolved sample_env jq_inputs [\<lparr>nr_intent = ResolvedIntent jq_intent,
     nr_provenance = nr_provenance (hd (ms_resources jq_state))\<rparr>] [] [] [] = Inr r"
     "map nr_intent (ms_resources r) = [ResolvedIntent jq_intent]" using jq_resolved_finalize by auto
  have all: "preflight_all jq_fetching_backend jq_coordinator jq_target [DesiredPackage (jq_declaration ''amd64'')] jq_start
      = (Inr (), jq_start)"
    "prepare_all jq_url logging_fetcher jq_fetching_backend jq_coordinator jq_target [DesiredPackage (jq_declaration ''amd64'')]
      jq_start = (Inr [jq_prepared], jq_fetched)"
    "persist_all sample_env (\<lambda>_. NoFault) (jq_codec jq_archs) jq_url logging_fetcher jq_fetching_backend jq_coordinator jq_target
      (ms_resources jq_state) [jq_prepared] jq_fetched
      = (Inr [\<lparr>nr_intent = ResolvedIntent jq_intent, nr_provenance = nr_provenance (hd (ms_resources jq_state))\<rparr>],
         jq_fetched\<lparr>co_store := [jq_digest \<mapsto> Regular jq_text]\<rparr>)"
    by (simp add: then_step_def pure_step_def p backend_step_def B)
      (simp add: then_step_def pure_step_def jq_fetching_prepare,
       subst rs, simp add: then_step_def pure_step_def q jq_persist [OF B(2) st])
  have d: "desired_packages (ms_resources jq_state) = [DesiredPackage (jq_declaration ''amd64'')]"
    by (subst rs) simp
  show ?thesis using r
    by (simp add: resolve_state_def then_step_def pure_step_def jq_state_verify d all fs Let_def
        del: preflight_all.simps prepare_all.simps persist_all.simps)
qed

lemma logging_fetcher_keeps: "fetcher_keeps A logging_fetcher (list_all A)"
  by (auto simp: fetcher_keeps_def logging_fetcher_def list_all_iff)

end
