(* ===== verification/Package_Properties.thy ===== *)
theory Package_Properties
  imports Package_Samples
begin

text \<open>
  What the resolution of packages guarantees: where it fetches from, what it leaves in the artifact
  store, and which resolutions the loader and the authority accept.
\<close>

section \<open>What a resolution records\<close>

lemma prepare_facts:
  assumes "prepare_resolution U T B c desired target s = (Inr p, s')"
  obtains d sdef probe draft fetched where "desired = DesiredPackage d" "preflight_desired c B desired target = Inr sdef"
    "check_draft c desired sdef probe draft fetched = Inr p"
  using assms by (cases desired) (auto simp: prepare_resolution_def Let_def result_simps)

lemma preflight_facts:
  assumes "preflight_desired c B (DesiredPackage d) target = Inr s"
  shows "package_validate_for_resolution d = Inr ()" "validate_target target = Inr ()"
    "validate_manager (cd_manager c) = Inr ()" "mb_manager (cd_manager c) = pk_manager d" "sd_source_id s = pk_source d"
  using assms by (auto simp: preflight_desired_def result_simps split: if_splits)

lemma canonicalize_facts:
  assumes "canonicalize_draft draft = Inr d'"
  shows "\<forall>p\<in>set (dr_closure d'). package_validate_for_resolution (rp_declaration p) = Inr ()"
  using assms by (auto simp: canonicalize_draft_def Let_def result_simps split: if_splits)

definition registry_keyed :: "source_registry \<Rightarrow> bool" where
  "registry_keyed registry \<longleftrightarrow> list_all (\<lambda>(k, s). sd_source_id s = k) (rg_sources registry)"

lemma registry_keyed_source: "registry_keyed registry \<Longrightarrow> registry_source registry i = Inr s \<Longrightarrow> sd_source_id s = i"
  by (auto simp: registry_keyed_def registry_source_def bt_get_def list_all_iff dest!: map_of_SomeD)

lemma check_draft_facts:
  assumes "check_draft c (DesiredPackage d) sdef probe draft fetched = Inr p" "registry_keyed (cd_registry c)"
  shows "pq_desired p = DesiredPackage d" "sb_source_id (pq_source p) = sd_source_id sdef" "validate_source (pq_source p) = Inr ()"
    "list_ex (\<lambda>q. resolved_root_matches (rp_declaration q) d) (dr_closure (pq_draft p))"
    "\<forall>q\<in>set (dr_closure (pq_draft p)). package_validate_for_resolution (rp_declaration q) = Inr ()
       \<and> rp_source q = pq_source p \<and> pk_source (rp_declaration q) = sb_source_id (pq_source p)
       \<and> pk_manager (rp_declaration q) = mb_manager (cd_manager c)"
    "validate_recipe_roles (dr_recipe (pq_draft p)) (map fr_role (dr_artifacts (pq_draft p))) = Inr ()"
proof -
  let ?probe = "probe\<lparr>pp_signed_metadata := sort_key evidence_key (pp_signed_metadata probe)\<rparr>"
  let ?source = "source_binding_of sdef ?probe"
  obtain draft' where k: "canonicalize_draft draft = Inr draft'" "validate_source ?source = Inr ()"
    "validate_closure c (dr_closure draft') d ?source = Inr ()"
    "validate_recipe_roles (dr_recipe draft') (map fr_role (dr_artifacts draft')) = Inr ()"
    and p: "p = \<lparr>pq_desired = DesiredPackage d, pq_definition = sdef, pq_source = ?source, pq_before = pp_before ?probe,
              pq_draft = draft', pq_fetched = fetched\<rparr>"
    using assms(1) by (auto simp: check_draft_def Let_def result_simps split: if_splits)
  show "pq_desired p = DesiredPackage d" "sb_source_id (pq_source p) = sd_source_id sdef" "validate_source (pq_source p) = Inr ()"
    "validate_recipe_roles (dr_recipe (pq_draft p)) (map fr_role (dr_artifacts (pq_draft p))) = Inr ()"
    using k p by (simp_all add: source_binding_of_def)
  show "list_ex (\<lambda>q. resolved_root_matches (rp_declaration q) d) (dr_closure (pq_draft p))"
    using k(3) p by (auto simp: validate_closure_def list_ex_iff split: if_splits)
  have "package_validate_for_resolution (rp_declaration q) = Inr () \<and> rp_source q = ?source
       \<and> pk_source (rp_declaration q) = sb_source_id ?source \<and> pk_manager (rp_declaration q) = mb_manager (cd_manager c)"
    if q: "q \<in> set (dr_closure draft')" for q
  proof -
    obtain s where "registry_source (cd_registry c) (pk_source (rp_declaration q)) = Inr s" "sb_source_id (rp_source q) = sd_source_id s"
      "rp_source q = ?source" "pk_manager (rp_declaration q) = mb_manager (cd_manager c)"
      using k(3) q by (auto simp: validate_closure_def Let_def result_simps split: if_splits)
    then show ?thesis using registry_keyed_source [OF assms(2)] canonicalize_facts [OF k(1)] q by auto
  qed
  then show "\<forall>q\<in>set (dr_closure (pq_draft p)). package_validate_for_resolution (rp_declaration q) = Inr ()
       \<and> rp_source q = pq_source p \<and> pk_source (rp_declaration q) = sb_source_id (pq_source p)
       \<and> pk_manager (rp_declaration q) = mb_manager (cd_manager c)"
    using p by simp
qed

lemma persist_facts:
  assumes "persist_prepared E F C U T B c p target s = (Inr intent, s')"
  obtains artifacts bytes metadata where "metadata_digest E (pq_source p) = Inr metadata"
    "list_all2 (stored_artifact E (co_store s')) (dr_artifacts (pq_draft p)) artifacts"
    "\<forall>q\<in>set (dr_artifacts (pq_draft p)). fr_source_metadata_digest q = metadata"
    "distinct (map fr_materialization_key (dr_artifacts (pq_draft p)))"
    "rc_encode C (resolution_of c p target artifacts) = Some bytes"
    "digest_bytes E bytes = Inr (ct_digest (ri_resolution intent))" "length_u64 bytes = Some (ct_bytes (ri_resolution intent))"
    "ri_declaration intent = rs_declaration (resolution_of c p target artifacts)" "ri_artifacts intent = map pa_content artifacts"
proof -
  obtain metadata fetched s1 artifacts s2 bytes reference where
    m: "metadata_digest E (pq_source p) = Inr metadata"
    and v: "validate_and_persist_artifacts E F (dr_artifacts (pq_draft p)) fetched metadata s1 = (Inr artifacts, s2)"
    and e: "rc_encode C (resolution_of c p target artifacts) = Some bytes"
    and r: "store_step E F bytes s2 = (Inr reference, s')"
    and i: "intent = \<lparr>ri_declaration = rs_declaration (resolution_of c p target artifacts), ri_resolution = reference,
            ri_artifacts = map pa_content artifacts\<rparr>"
    using assms by (auto simp: persist_prepared_def Let_def result_simps)
  have "list_all2 (stored_artifact E (co_store s')) (dr_artifacts (pq_draft p)) artifacts"
    using validate_and_persist_Ok(1) [OF v] stored_artifact_mono [OF _ store_step_Ok(5) [OF r]]
    by (blast intro: list_all2_mono)
  then show thesis
    using that [OF m] validate_and_persist_Ok(3,4) [OF v] e store_step_Ok(1,2) [OF r] i by simp
qed

section \<open>Loading back\<close>

text \<open>What the loader asks of a resolution beyond what the coordinator checks before persisting it.\<close>

definition loadable :: "package_resolution \<Rightarrow> bool" where
  "loadable r \<longleftrightarrow> sorted_wrt (<) (map (\<lambda>p. closure_key (rp_declaration p)) (rs_closure r))
     \<and> validate_before_observation r = Ok () \<and> check_install_recipe r = Ok ()"

lemma resolution_of_simps [simp]:
  "rs_target (resolution_of c p target as) = target" "rs_manager (resolution_of c p target as) = cd_manager c"
  "rs_source (resolution_of c p target as) = pq_source p" "rs_closure (resolution_of c p target as) = dr_closure (pq_draft p)"
  "rs_artifacts (resolution_of c p target as) = as" "rs_recipe (resolution_of c p target as) = dr_recipe (pq_draft p)"
  "rs_schema_version (resolution_of c p target as) = SchemaVersion (if mb_manager (cd_manager c) = Nvm then 2 else 1)"
  by (simp_all add: resolution_of_def)

lemma stored_artifact_fields:
  assumes "stored_artifact E store q a"
  shows "pa_role a = fr_role q \<and> pa_materialization_key a = fr_materialization_key q
    \<and> pa_source_metadata_digest a = fr_source_metadata_digest q \<and> pa_upstream_checksum a = fr_upstream_checksum q
    \<and> pa_size a = fr_size q \<and> ct_digest (pa_content a) = pa_upstream_checksum a \<and> ct_bytes (pa_content a) = pa_size a
    \<and> (\<exists>bytes. artifact_load E store (pa_content a) = Inr bytes)"
proof -
  obtain content where a: "a = persisted_artifact q content" using assms by (auto simp: stored_artifact_def)
  show ?thesis using assms unfolding a by (auto simp: stored_artifact_def persisted_artifact_def)
qed

lemma stored_fields:
  assumes "list_all2 (stored_artifact E store) qs as"
  shows "map pa_role as = map fr_role qs" "map pa_materialization_key as = map fr_materialization_key qs"
    "map pa_source_metadata_digest as = map fr_source_metadata_digest qs"
    "\<forall>a\<in>set as. ct_digest (pa_content a) = pa_upstream_checksum a \<and> ct_bytes (pa_content a) = pa_size a
       \<and> (\<exists>bytes. artifact_load E store (pa_content a) = Inr bytes)"
  using assms by (induction rule: list_all2_induct)
    (auto dest!: stored_artifact_fields)

lemma persisted_resolution_valid:
  assumes "prepare_resolution U T B c desired target s = (Inr p, s1)" "registry_keyed (cd_registry c)"
    and "persist_prepared E F C U T B c p target s1 = (Inr intent, s')"
    and "metadata_digest E (pq_source p) = Inr metadata" "list_all2 (stored_artifact E (co_store s')) (dr_artifacts (pq_draft p)) artifacts"
    and "\<forall>q\<in>set (dr_artifacts (pq_draft p)). fr_source_metadata_digest q = metadata"
    and "distinct (map fr_materialization_key (dr_artifacts (pq_draft p)))"
  shows "validate_persisted_resolution E (resolution_of c p target artifacts) = Inr ()
     \<longleftrightarrow> loadable (resolution_of c p target artifacts)"
proof -
  let ?r = "resolution_of c p target artifacts"
  obtain d sdef probe draft fetched where d: "desired = DesiredPackage d" "preflight_desired c B desired target = Inr sdef"
    "check_draft c desired sdef probe draft fetched = Inr p"
    using prepare_facts [OF assms(1)] .
  note pre = preflight_facts [OF d(2) [unfolded d(1)]]
  note drf = check_draft_facts [OF d(3) [unfolded d(1)] assms(2)]
  have rd: "rs_declaration ?r = d" using drf(1) by (simp add: resolution_of_def)
  have keys: "check_artifact_keys metadata {} artifacts = Inr ()"
    using stored_fields(2,3) [OF assms(5)] assms(6,7)
    by (simp add: check_artifact_keys_Ok) (metis (no_types, lifting) in_set_conv_nth length_map nth_map)
  have closure: "check_closure ?r None (rs_closure ?r) = Inr ()
      \<longleftrightarrow> sorted_wrt (<) (map (\<lambda>p. closure_key (rp_declaration p)) (rs_closure ?r))"
    using drf(5) by (simp add: check_closure_Ok)
  have roles: "validate_recipe_roles (rs_recipe ?r) (map pa_role (rs_artifacts ?r)) = Inr ()"
    using drf(6) stored_fields(1) [OF assms(5)] by simp
  have schema: "schema_matches_manager ?r" using pre(4) rd by (simp add: schema_matches_manager_def)
  show ?thesis
    using rd pre drf(2,3,4) assms(4) keys closure roles schema
    by (auto simp: validate_persisted_resolution_def loadable_def result_simps)
qed

section \<open>Properties\<close>

text \<open>
  C38: Whatever the backends do with the fetch capability, every locator that reaches the network while a
  whole state is resolved lies within the approved roots of a registered source: any property the
  fetcher keeps at such locators still holds afterwards, on success and on failure.
\<close>

theorem resolution_fetches_approved:
  assumes "fetcher_keeps (approved U (cd_registry c)) T W" "W (co_world s)"
  shows "W (co_world (snd (resolve_state E F C U T B c state target s)))"
  by (rule keeps_resolve_state [OF assms(1), unfolded keeps_def, rule_format, OF assms(2)])

theorem resolution_fetches_approved_witness:
  "\<exists>r s. resolve_state sample_env (\<lambda>_. NoFault) (jq_codec jq_archs) jq_url logging_fetcher jq_fetching_backend jq_coordinator
       jq_state jq_target jq_start = (Inr r, s)
     \<and> co_world s = [jq_locator, jq_mirror] \<and> (\<forall>l\<in>{jq_locator, jq_mirror}. approved jq_url (cd_registry jq_coordinator) l)"
proof -
  obtain r where r: "resolve_state sample_env (\<lambda>_. NoFault) (jq_codec jq_archs) jq_url logging_fetcher jq_fetching_backend
      jq_coordinator jq_state jq_target jq_start = (Inr r, jq_fetched\<lparr>co_store := [jq_digest \<mapsto> Regular jq_text]\<rparr>)"
    using jq_state_resolved by blast
  have "list_all (approved jq_url (cd_registry jq_coordinator)) (co_world (snd (resolve_state sample_env (\<lambda>_. NoFault)
      (jq_codec jq_archs) jq_url logging_fetcher jq_fetching_backend jq_coordinator jq_state jq_target jq_start)))"
    by (rule resolution_fetches_approved [OF logging_fetcher_keeps]) (simp add: jq_start_def)
  then show ?thesis using r by simp
qed

text \<open>
  C39: A resolution the coordinator persists names artifacts that are in the store with the checksums and
  sizes that were asked for, and the loader reads it back exactly when its closure has strictly
  ascending keys, its observation is canonical and its recipe is the one its manager admits.
\<close>

theorem resolution_loads_back:
  assumes "coordinator_resolve E F C U T B c desired target s = (Inr intent, s')" "registry_keyed (cd_registry c)"
  shows "\<exists>r bytes. rc_encode C r = Some bytes \<and> desired = DesiredPackage (rs_declaration r)
     \<and> (\<forall>a\<in>set (rs_artifacts r). ct_digest (pa_content a) = pa_upstream_checksum a \<and> ct_bytes (pa_content a) = pa_size a
          \<and> (\<exists>content. artifact_load E (co_store s') (pa_content a) = Inr content))
     \<and> (co_store s' (ct_digest (ri_resolution intent)) = Some (Regular bytes) \<longrightarrow> rc_decode C bytes = Some r
          \<longrightarrow> (load_persisted E C (co_store s') intent = Inr r \<longleftrightarrow> loadable r))"
proof -
  obtain p s1 where p: "prepare_resolution U T B c desired target s = (Inr p, s1)"
    "persist_prepared E F C U T B c p target s1 = (Inr intent, s')"
    using assms(1) by (auto simp: coordinator_resolve_def result_simps)
  obtain artifacts bytes metadata where a: "metadata_digest E (pq_source p) = Inr metadata"
    "list_all2 (stored_artifact E (co_store s')) (dr_artifacts (pq_draft p)) artifacts"
    "\<forall>q\<in>set (dr_artifacts (pq_draft p)). fr_source_metadata_digest q = metadata"
    "distinct (map fr_materialization_key (dr_artifacts (pq_draft p)))"
    and e: "rc_encode C (resolution_of c p target artifacts) = Some bytes"
    and b: "digest_bytes E bytes = Inr (ct_digest (ri_resolution intent))" "length_u64 bytes = Some (ct_bytes (ri_resolution intent))"
    and i: "ri_declaration intent = rs_declaration (resolution_of c p target artifacts)" "ri_artifacts intent = map pa_content artifacts"
    using persist_facts [OF p(2)] .
  let ?r = "resolution_of c p target artifacts"
  obtain d sdef probe draft fetched where d: "desired = DesiredPackage d" "preflight_desired c B desired target = Inr sdef"
    "check_draft c desired sdef probe draft fetched = Inr p"
    using prepare_facts [OF p(1)] .
  have rd: "rs_declaration ?r = d"
    using check_draft_facts(1) [OF d(3) [unfolded d(1)] assms(2)] by (simp add: resolution_of_def)
  have loads: "load_resolution_artifacts E (co_store s') [] artifacts = Inr ()"
  proof -
    have "distinct (map pa_materialization_key artifacts)" using stored_fields(2) [OF a(2)] a(4) by simp
    then have "distinct (map (\<lambda>a. (pa_role a, pa_materialization_key a)) artifacts)"
      by (simp add: distinct_map inj_on_def)
    then show ?thesis using stored_fields(4) [OF a(2)] by (simp add: load_resolution_artifacts_Ok)
  qed
  have "load_persisted E C (co_store s') intent = Inr ?r \<longleftrightarrow> loadable ?r"
    if "co_store s' (ct_digest (ri_resolution intent)) = Some (Regular bytes)" "rc_decode C bytes = Some ?r"
  proof -
    have "artifact_load E (co_store s') (ri_resolution intent) = Inr bytes" using that b by (simp add: artifact_load_Ok authentic_def)
    moreover have "decode_resolution C bytes = Inr ?r" using that by (simp add: decode_resolution_def)
    ultimately have "load_persisted E C (co_store s') intent = Inr ?r \<longleftrightarrow> validate_persisted_resolution E ?r = Inr ()"
      using i loads by (auto simp: load_persisted_def result_simps)
    then show ?thesis using persisted_resolution_valid [OF p(1) assms(2) p(2) a] by simp
  qed
  then show ?thesis using e rd d(1) stored_fields(4) [OF a(2)] by (intro exI [of _ ?r] exI [of _ bytes]) auto
qed

theorem resolution_loads_back_witness:
  "\<exists>intent s'. coordinator_resolve sample_env (\<lambda>_. NoFault) (jq_codec jq_archs) jq_url logging_fetcher (jq_backend jq_archs)
       jq_coordinator (DesiredPackage (jq_declaration ''amd64'')) jq_target jq_start = (Inr intent, s')
     \<and> load_persisted sample_env (jq_codec jq_archs) (co_store s') intent \<noteq> Inr (jq_resolution jq_archs)"
proof -
  have keyed: "registry_keyed (cd_registry jq_coordinator)" by code_simp
  obtain r bytes where r: "rc_encode (jq_codec jq_archs) r = Some bytes"
    and b: "co_store jq_end (ct_digest (ri_resolution jq_intent)) = Some (Regular bytes) \<Longrightarrow> rc_decode (jq_codec jq_archs) bytes = Some r
      \<Longrightarrow> (load_persisted sample_env (jq_codec jq_archs) (co_store jq_end) jq_intent = Inr r \<longleftrightarrow> loadable r)"
    using resolution_loads_back [OF jq_resolved keyed] by blast
  have e: "r = jq_resolution jq_archs" "bytes = jq_text" using r by (auto simp: jq_codec_def split: if_splits)
  have "\<not> sorted_wrt (<) (map (\<lambda>p. closure_key (rp_declaration p)) (rs_closure (jq_resolution jq_archs)))" by code_simp
  then have "\<not> loadable r" using e by (simp add: loadable_def)
  then show ?thesis using b jq_loaded e jq_resolved by (auto simp: jq_codec_def)
qed

text \<open>
  C40: A resolution the authority accepts is bound to its target and manager and to a definition of its
  registry, contains the package that was asked for, and has only packages of that one source, which
  the policy allows, each once; and every artifact it names is in the store.
\<close>

theorem accepted_resolution_authorized:
  assumes "authority_validate E C store a intent = Inr r"
  shows "rs_target r = ra_target a \<and> rs_manager r = ra_manager a
     \<and> (\<exists>s. bt_get (rg_sources (ra_registry a)) (sb_source_id (rs_source r)) = Some s
          \<and> sd_digest s = sb_registry_definition_digest (rs_source r))
     \<and> (\<exists>p\<in>set (rs_closure r). resolved_root_matches (rp_declaration p) (ri_declaration intent))
     \<and> (\<forall>p\<in>set (rs_closure r). rp_source p = rs_source r \<and> pk_source (rp_declaration p) = sb_source_id (rs_source r)
          \<and> sid_str (pk_source (rp_declaration p)) \<in> set (ra_package_sources a))
     \<and> distinct (map (\<lambda>p. closure_key (rp_declaration p)) (rs_closure r))
     \<and> (\<forall>x\<in>set (ri_artifacts intent). \<exists>bytes. artifact_load E store x = Inr bytes)"
proof -
  have l: "load_persisted E C store intent = Inr r" "rs_target r = ra_target a" "rs_manager r = ra_manager a"
    "check_source_definition (ra_registry a) r = Inr ()" "check_package_sources (ra_package_sources a) r = Inr ()"
    using assms by (auto simp: authority_validate_def load_and_validate_def result_simps)
  have v: "validate_persisted_resolution E r = Inr ()" "rs_declaration r = ri_declaration intent"
    "map pa_content (rs_artifacts r) = ri_artifacts intent" "load_resolution_artifacts E store [] (rs_artifacts r) = Inr ()"
    using l(1) by (auto simp: load_persisted_def result_simps)
  have c: "check_closure r None (rs_closure r) = Inr ()"
    "list_ex (\<lambda>p. resolved_root_matches (rp_declaration p) (rs_declaration r)) (rs_closure r)"
    using v(1) by (auto simp: validate_persisted_resolution_def result_simps)
  have "\<forall>x\<in>set (ri_artifacts intent). \<exists>bytes. artifact_load E store x = Inr bytes"
    using v(4) unfolding v(3) [symmetric] by (simp add: load_resolution_artifacts_Ok)
  then show ?thesis
    using l(2-5) v(2) c
    by (auto simp: check_closure_Ok check_source_definition_def check_package_sources_def registry_source_def result_simps
        enforce_current_package_sources_def list_ex_iff strict_sorted_iff
        split: if_splits)
qed

theorem accepted_resolution_authorized_witness:
  "\<exists>p\<in>set (rs_closure (jq_resolution [''amd64''])). resolved_root_matches (rp_declaration p) (jq_declaration ''amd64'')
     \<and> sid_str (pk_source (rp_declaration p)) \<in> set (ra_package_sources jq_authority)"
  using accepted_resolution_authorized [OF jq_accepted] by (auto simp: jq_intent_def)

end
