(* ===== verification/Adapter_Planning.thy ===== *)
theory Adapter_Planning
  imports Package_Registry
begin

text \<open>
  From materialized states to a plan: \<open>crates/commonkit-adapters/src/planning.rs\<close>, with the binding of a
  filesystem operation that \<open>files.rs\<close> and \<open>ssh_files.rs\<close> compute. The planners themselves, which look at
  the target, are functions over a world of their own.
\<close>

section \<open>Bindings of filesystem operations\<close>

record ssh_capabilities =
  sh_unix_modes :: bool
  sh_stores_symlink_target_kind :: bool
  sh_root_capable :: bool

datatype filesystem_route = LocalRoute | SshRoute ssh_capabilities

datatype binding_error =
    BindingUnsupportedMode
  | BindingUnsupportedPlatform
  | BindingResource resource_error
  | BindingContract contract_error

definition for_operating_system :: "string \<Rightarrow> bool \<Rightarrow> binding_error + ssh_capabilities" where
  "for_operating_system operating_system root_capable =
     (let name = to_ascii_lowercase (trim operating_system) in
      if name \<in> {''linux'', ''macos'', ''freebsd'', ''openbsd'', ''netbsd'', ''dragonfly''}
      then Ok \<lparr>sh_unix_modes = True, sh_stores_symlink_target_kind = False, sh_root_capable = root_capable\<rparr>
      else if name = ''windows''
      then Ok \<lparr>sh_unix_modes = False, sh_stores_symlink_target_kind = True, sh_root_capable = False\<rparr>
      else Err BindingUnsupportedPlatform)"

definition ser_ssh_capabilities :: "ssh_capabilities \<Rightarrow> json" where
  "ser_ssh_capabilities c = json_struct
     ([(''unixModes'', JBool (sh_unix_modes c)),
       (''storesSymlinkTargetKind'', JBool (sh_stores_symlink_target_kind c))]
      @ (if sh_root_capable c then [(''rootCapable'', JBool True)] else []))"

text \<open>\<open>validate_semantic_intent\<close> on Unix\<close>

definition validate_semantic_intent :: "filesystem_intent \<Rightarrow> binding_error + unit" where
  "validate_semantic_intent intent =
     and_then (map_err BindingResource (managed_path_parse (mp_str (intent_path intent)))) (\<lambda>path.
       case intent of
         SymlinkIntent _ target _ _ \<Rightarrow>
           and_then (map_err BindingResource (symlink_target_parse path (st_str target))) (\<lambda>_. Ok ())
       | _ \<Rightarrow> Ok ())"

text \<open>\<open>semantic_digest\<close> of the state an intent asks for, on Unix; \<open>None\<close> is an absent entry.\<close>

fun desired_state_digest :: "env \<Rightarrow> filesystem_intent \<Rightarrow> contract_error + sha256_digest option" where
  "desired_state_digest E (FileIntent _ content mode _) =
     and_then (digest_domain_json E ''commonkit.filesystem-resource-state.v1''
       (JArray [JString ''file'', ser_digest (ct_digest content), json_option ser_file_mode mode])) (\<lambda>d. Ok (Some d))"
| "desired_state_digest E (DirectoryIntent _ mode _) =
     and_then (digest_domain_json E ''commonkit.filesystem-resource-state.v1''
       (JArray [JString ''directory'', json_option ser_file_mode mode])) (\<lambda>d. Ok (Some d))"
| "desired_state_digest E (SymlinkIntent _ target _ _) =
     and_then (digest_domain_json E ''commonkit.filesystem-resource-state.v1''
       (JArray [JString ''symlink'', JString (st_str target)])) (\<lambda>d. Ok (Some d))"
| "desired_state_digest E (RemoveIntent _ _) = Ok None"

type_synonym operation_binding = "string \<times> sha256_digest option \<times> sha256_digest"

fun local_type_name :: "resource_kind \<Rightarrow> string" where
  "local_type_name KindDirectory = ''directory''" | "local_type_name KindSymlink = ''symlink''"
| "local_type_name KindRemove = ''removal''" | "local_type_name KindFile = ''filesystem-file''"

definition local_operation_binding :: "env \<Rightarrow> filesystem_intent \<Rightarrow> binding_error + operation_binding" where
  "local_operation_binding E intent =
     and_then (validate_semantic_intent intent) (\<lambda>_.
     and_then (map_err BindingContract (desired_state_digest E intent)) (\<lambda>after.
     and_then (map_err BindingContract (digest_domain_json E ''commonkit.filesystem-resource-payload.v1''
         (ser_filesystem_intent intent))) (\<lambda>payload.
       Ok (local_type_name (intent_kind intent), after, payload))))"

fun has_mode :: "filesystem_intent \<Rightarrow> bool" where
  "has_mode (FileIntent _ _ mode _) = (mode \<noteq> None)"
| "has_mode (DirectoryIntent _ mode _) = (mode \<noteq> None)"
| "has_mode _ = False"

definition ensure_supported :: "filesystem_intent \<Rightarrow> ssh_capabilities \<Rightarrow> binding_error + unit" where
  "ensure_supported intent c =
     (if \<not> sh_unix_modes c \<and> has_mode intent then Err BindingUnsupportedMode
      else case intent of
          SymlinkIntent path target _ _ \<Rightarrow>
            and_then (map_err BindingResource (symlink_target_parse path (st_str target))) (\<lambda>_. Ok ())
        | _ \<Rightarrow> Ok ())"

text \<open>\<open>preimage_digest\<close> of \<open>desired_preimage\<close> over SSH\<close>

fun remote_state_digest :: "env \<Rightarrow> ssh_capabilities \<Rightarrow> filesystem_intent \<Rightarrow> contract_error + sha256_digest option" where
  "remote_state_digest E c (FileIntent _ content _ _) =
     and_then (digest_domain_json E ''commonkit.ssh-file-preimage.v1''
       (json_struct [(''type'', JString ''file''), (''digest'', ser_digest (ct_digest content))])) (\<lambda>d. Ok (Some d))"
| "remote_state_digest E c (DirectoryIntent _ mode _) =
     and_then (digest_domain_json E ''commonkit.ssh-file-preimage.v1''
       (json_struct [(''type'', JString ''directory''), (''mode'', json_option ser_file_mode mode)])) (\<lambda>d. Ok (Some d))"
| "remote_state_digest E c (SymlinkIntent _ target kind _) =
     and_then (if \<not> sh_stores_symlink_target_kind c \<or> kind = TargetFile
       then digest_domain_json E ''commonkit.ssh-file-preimage.v1''
         (json_struct [(''type'', JString ''symlink''), (''target'', JString (st_str target))])
       else digest_domain_json E ''commonkit.ssh-file-preimage.v2''
         (json_struct [(''type'', JString ''symlink''), (''target'', JString (st_str target)),
            (''target_kind'', JString (target_kind_name kind))])) (\<lambda>d. Ok (Some d))"
| "remote_state_digest E c (RemoveIntent _ _) = Ok None"

fun remote_type_name :: "resource_kind \<Rightarrow> string" where
  "remote_type_name KindDirectory = ''remote-directory''" | "remote_type_name KindSymlink = ''remote-symlink''"
| "remote_type_name KindRemove = ''remote-removal''" | "remote_type_name KindFile = ''remote-file''"

definition remote_operation_binding ::
  "env \<Rightarrow> filesystem_intent \<Rightarrow> ssh_capabilities \<Rightarrow> binding_error + operation_binding" where
  "remote_operation_binding E intent c =
     and_then (ensure_supported intent c) (\<lambda>_.
     and_then (map_err BindingContract (remote_state_digest E c intent)) (\<lambda>after.
     and_then (map_err BindingContract (digest_domain_json E
         (if sh_root_capable c then ''commonkit.ssh-filesystem-payload.v3'' else ''commonkit.ssh-filesystem-payload.v2'')
         (JArray [ser_ssh_capabilities c, ser_filesystem_intent intent]))) (\<lambda>payload.
       Ok (remote_type_name (intent_kind intent), after, payload))))"

section \<open>The router\<close>

text \<open>\<open>RoutePanic\<close> is the panic of the two \<open>expect\<close>s on the captured route.\<close>

datatype provider_plan_error =
    DuplicateProvider stable_id
  | MissingResourcePlanner resource_type
  | PackageResolutionRequired
  | MissingPackageResolutionAuthority
  | DuplicateResourcePlanner resource_type
  | InvalidResourcePlanner resource_type stable_id
  | UnexpectedAdapterRoute resource_type stable_id stable_id
  | UnexpectedResourceBinding resource_type stable_id
  | UnsupportedCapability string string string
  | UnmappedSideEffect declared_side_effect
  | PlanProvider provider_contract_error
  | PlanOwnership ownership_error
  | PlanArtifact artifact_error
  | PlanAdapter binding_error
  | PlanPlanner string
  | PlanPackageResolution package_resolution_error
  | PlanBuild plan_build_error
  | PlanContractError contract_error
  | RoutePanic

type_synonym 'w registration = "'w \<Rightarrow> (provider_plan_error + operation option) \<times> 'w"

record 'w filesystem_planner =
  fp_adapter_id :: stable_id
  fp_route :: filesystem_route
  fp_register :: "stable_id \<Rightarrow> normalized_resource \<Rightarrow> artifact_store \<Rightarrow> 'w registration"

record 'w package_planner =
  kp_adapter_id :: stable_id
  kp_register :: "stable_id \<Rightarrow> resolved_package_intent \<Rightarrow> operation_provenance \<Rightarrow> artifact_store \<Rightarrow> 'w registration"

datatype 'w planner_route = FilesystemPlanner "'w filesystem_planner" | PackagePlanner "'w package_planner"

record 'w resource_router =
  ro_filesystem :: "'w filesystem_planner option"
  ro_filesystem_route :: "filesystem_route option"
  ro_package :: "'w package_planner option"

definition valid_filesystem_route :: "string \<Rightarrow> filesystem_route \<Rightarrow> bool" where
  "valid_filesystem_route adapter route = (case route of
     LocalRoute \<Rightarrow> adapter = ''files'' | SshRoute _ \<Rightarrow> adapter = ''ssh-files'')"

definition add_route :: "'w resource_router \<Rightarrow> 'w planner_route \<Rightarrow> provider_plan_error + 'w resource_router" where
  "add_route router route = (case route of
     FilesystemPlanner p \<Rightarrow>
       if \<not> valid_filesystem_route (sid_str (fp_adapter_id p)) (fp_route p)
       then Err (InvalidResourcePlanner ResourceFilesystem (fp_adapter_id p))
       else if ro_filesystem router \<noteq> None then Err (DuplicateResourcePlanner ResourceFilesystem)
       else Ok (router\<lparr>ro_filesystem := Some p, ro_filesystem_route := Some (fp_route p)\<rparr>)
   | PackagePlanner p \<Rightarrow>
       if sid_str (kp_adapter_id p) \<noteq> ''packages'' then Err (InvalidResourcePlanner ResourcePackage (kp_adapter_id p))
       else if ro_package router \<noteq> None then Err (DuplicateResourcePlanner ResourcePackage)
       else Ok (router\<lparr>ro_package := Some p\<rparr>))"

fun add_routes :: "'w resource_router \<Rightarrow> 'w planner_route list \<Rightarrow> provider_plan_error + 'w resource_router" where
  "add_routes router [] = Ok router"
| "add_routes router (route # rest) = and_then (add_route router route) (\<lambda>router. add_routes router rest)"

definition router_new :: "'w planner_route list \<Rightarrow> provider_plan_error + 'w resource_router" where
  "router_new routes = add_routes \<lparr>ro_filesystem = None, ro_filesystem_route = None, ro_package = None\<rparr> routes"

definition router_preflight :: "'w resource_router \<Rightarrow> normalized_resource list \<Rightarrow> provider_plan_error + unit" where
  "router_preflight router resources = for_each (\<lambda>r.
     ensure (case intent_type (nr_intent r) of ResourceFilesystem \<Rightarrow> ro_filesystem router \<noteq> None
         | ResourcePackage \<Rightarrow> ro_package router \<noteq> None)
       (MissingResourcePlanner (intent_type (nr_intent r)))) resources"

definition check_package_authority ::
  "env \<Rightarrow> resolution_codec \<Rightarrow> artifact_store \<Rightarrow> resolution_authority option \<Rightarrow> resolved_package_intent
    \<Rightarrow> provider_plan_error + unit" where
  "check_package_authority E C store authority intent = (case authority of
     None \<Rightarrow> Err MissingPackageResolutionAuthority
   | Some a \<Rightarrow> and_then (map_err PlanPackageResolution (authority_validate E C store a intent)) (\<lambda>_. Ok ()))"

text \<open>What the operation of a resource must carry: type, path, and the two digests.\<close>

definition expected_binding ::
  "env \<Rightarrow> resolution_codec \<Rightarrow> artifact_store \<Rightarrow> resolution_authority option \<Rightarrow> filesystem_route option
    \<Rightarrow> normalized_resource \<Rightarrow> provider_plan_error + string \<times> string option \<times> sha256_digest option \<times> sha256_digest" where
  "expected_binding E C store authority route r = (case nr_intent r of
     FilesystemIntent intent \<Rightarrow>
       and_then (case route of
           Some LocalRoute \<Rightarrow> map_err PlanAdapter (local_operation_binding E intent)
         | Some (SshRoute c) \<Rightarrow> map_err PlanAdapter (remote_operation_binding E intent c)
         | None \<Rightarrow> Err RoutePanic) (\<lambda>(name, after, payload).
         Ok (name, Some (mp_str (intent_path intent)), after, payload))
   | PackageIntent _ \<Rightarrow> Err PackageResolutionRequired
   | ResolvedIntent intent \<Rightarrow>
       and_then (check_package_authority E C store authority intent) (\<lambda>_.
       and_then (map_err PlanContractError (resource_desired_digest E (nr_intent r))) (\<lambda>digest.
         Ok (''package'', None, Some digest, ct_digest (ri_resolution intent)))))"

definition binding_holds ::
  "stable_id \<Rightarrow> normalized_resource \<Rightarrow> string \<times> string option \<times> sha256_digest option \<times> sha256_digest \<Rightarrow> operation \<Rightarrow> bool" where
  "binding_holds i r = (\<lambda>(name, path, after, payload) x.
     rr_resource_id (op_resource x) = i \<and> sid_str (rr_resource_type (op_resource x)) = name
     \<and> rr_managed_path (op_resource x) = path \<and> op_provenance x = Some (nr_provenance r)
     \<and> op_after_digest x = after \<and> op_payload_digest x = payload
     \<and> op_recovery_capability x = intent_recovery (nr_intent r))"

definition validate_operation_binding ::
  "env \<Rightarrow> resolution_codec \<Rightarrow> artifact_store \<Rightarrow> resolution_authority option \<Rightarrow> stable_id \<Rightarrow> normalized_resource
    \<Rightarrow> filesystem_route option \<Rightarrow> operation \<Rightarrow> provider_plan_error + unit" where
  "validate_operation_binding E C store authority i r route x =
     and_then (expected_binding E C store authority route r) (\<lambda>b.
       if \<not> binding_holds i r b x then Err (UnexpectedResourceBinding (intent_type (nr_intent r)) i) else Ok ())"

definition call_planner ::
  "env \<Rightarrow> resolution_codec \<Rightarrow> artifact_store \<Rightarrow> resolution_authority option \<Rightarrow> 'w resource_router \<Rightarrow> stable_id
    \<Rightarrow> normalized_resource \<Rightarrow> 'w \<Rightarrow> (provider_plan_error + stable_id \<times> filesystem_route option \<times> operation option) \<times> 'w" where
  "call_planner E C store authority router i r w = (case nr_intent r of
     FilesystemIntent _ \<Rightarrow>
       (case ro_filesystem router of
          None \<Rightarrow> (Err (MissingResourcePlanner ResourceFilesystem), w)
        | Some p \<Rightarrow>
            (case ro_filesystem_route router of
               None \<Rightarrow> (Err RoutePanic, w)
             | Some route \<Rightarrow>
                 (case fp_register p i r store w of (x, w) \<Rightarrow>
                    (and_then x (\<lambda>operation. Ok (fp_adapter_id p, Some route, operation)), w))))
   | PackageIntent _ \<Rightarrow> (Err PackageResolutionRequired, w)
   | ResolvedIntent intent \<Rightarrow>
       (case check_package_authority E C store authority intent of
          Inl e \<Rightarrow> (Err e, w)
        | Inr _ \<Rightarrow>
            (case ro_package router of
               None \<Rightarrow> (Err (MissingResourcePlanner ResourcePackage), w)
             | Some p \<Rightarrow>
                 (case kp_register p i intent (nr_provenance r) store w of (x, w) \<Rightarrow>
                    (and_then x (\<lambda>operation. Ok (kp_adapter_id p, None, operation)), w)))))"

definition router_register ::
  "env \<Rightarrow> resolution_codec \<Rightarrow> artifact_store \<Rightarrow> resolution_authority option \<Rightarrow> 'w resource_router \<Rightarrow> stable_id
    \<Rightarrow> normalized_resource \<Rightarrow> 'w registration" where
  "router_register E C store authority router i r w =
     (case call_planner E C store authority router i r w of (x, w) \<Rightarrow>
        (and_then x (\<lambda>(declared, route, operation). case operation of
            None \<Rightarrow> Ok None
          | Some x \<Rightarrow>
              if op_adapter_id x \<noteq> declared
              then Err (UnexpectedAdapterRoute (intent_type (nr_intent r)) declared (op_adapter_id x))
              else and_then (validate_operation_binding E C store authority i r route x) (\<lambda>_. Ok (Some x))), w))"

section \<open>The plan\<close>

definition ser_address :: "resource_address \<Rightarrow> json" where
  "ser_address a = (case a of
     FilesystemAddress p \<Rightarrow> json_struct [(''resourceType'', JString ''filesystem''), (''path'', ser_managed_path p)]
   | PackageAddress m i \<Rightarrow> json_struct [(''resourceType'', JString ''package''), (''manager'', JString (manager_name m)),
       (''id'', ser_stable_id i)])"

definition resource_id :: "env \<Rightarrow> normalized_resource \<Rightarrow> provider_plan_error + stable_id" where
  "resource_id E r =
     and_then (map_err PlanContractError (case filesystem_of (nr_intent r) of
         Some intent \<Rightarrow> digest_domain_json E ''commonkit.provider-resource-id.v1''
           (JArray [ser_stable_id (pv_provider_id (nr_provenance r)), ser_managed_path (intent_path intent),
              JString (pv_source (nr_provenance r))])
       | None \<Rightarrow> digest_domain_json E ''commonkit.provider-resource-id.v2''
           (JArray [ser_stable_id (pv_provider_id (nr_provenance r)), ser_address (intent_address (nr_intent r)),
              JString (pv_source (nr_provenance r))]))) (\<lambda>digest.
       map_err PlanContractError (stable_id_parse (''resource-'' @ take 54 (drop 7 (digest_str digest)))))"

record plan_request =
  py_target_id :: stable_id
  py_target_identity_digest :: sha256_digest
  py_composed_loadout_digest :: sha256_digest
  py_observed_digest :: sha256_digest
  py_policy_digest :: sha256_digest
  py_ownership_rules :: ownership_rules
  py_mapped_side_effects :: "declared_side_effect list"

text \<open>One state of the set, after the providers \<open>known\<close>.\<close>

definition check_state ::
  "(materialized_state \<Rightarrow> provider_contract_error + unit) \<Rightarrow> plan_request \<Rightarrow> string list \<Rightarrow> materialized_state
    \<Rightarrow> provider_plan_error + unit" where
  "check_state verify request known s =
     and_then (map_err PlanProvider (verify s)) (\<lambda>_.
       if sid_str (in_provider_id (ms_inputs s)) \<in> set known then Err (DuplicateProvider (in_provider_id (ms_inputs s)))
       else (case ms_unsupported s of
         u # _ \<Rightarrow> Err (UnsupportedCapability (us_source u) (us_capability u) (us_remediation u))
       | [] \<Rightarrow>
           (case find (\<lambda>e. e \<notin> set (py_mapped_side_effects request)) (ms_declared_side_effects s) of
              Some e \<Rightarrow> Err (UnmappedSideEffect e)
            | None \<Rightarrow> Ok ())))"

fun check_states ::
  "(materialized_state \<Rightarrow> provider_contract_error + unit) \<Rightarrow> plan_request \<Rightarrow> string list \<Rightarrow> materialized_state list
    \<Rightarrow> provider_plan_error + unit" where
  "check_states verify request known [] = Ok ()"
| "check_states verify request known (s # rest) =
     and_then (check_state verify request known s) (\<lambda>_.
       check_states verify request (sid_str (in_provider_id (ms_inputs s)) # known) rest)"

definition order_for_plan :: "normalized_resource list \<Rightarrow> normalized_resource list" where
  "order_for_plan = sort_key (\<lambda>r. (resource_sort_key r, sid_str (pv_provider_id (nr_provenance r)), pv_source (nr_provenance r)))"

definition check_intents ::
  "env \<Rightarrow> resolution_codec \<Rightarrow> artifact_store \<Rightarrow> resolution_authority option \<Rightarrow> normalized_resource list
    \<Rightarrow> provider_plan_error + unit" where
  "check_intents E C store authority ordered = for_each (\<lambda>r. case nr_intent r of
     PackageIntent _ \<Rightarrow> Err PackageResolutionRequired
   | ResolvedIntent intent \<Rightarrow> check_package_authority E C store authority intent
   | FilesystemIntent _ \<Rightarrow> Ok ()) ordered"

definition artifact_set :: "normalized_resource list \<Rightarrow> content_reference list" where
  "artifact_set ordered =
     remdups_adj (sort_key (\<lambda>a. digest_str (ct_digest a)) (concat (map (\<lambda>r. intent_artifacts (nr_intent r)) ordered)))"

text \<open>The digests of the set of states, and of the map from paths to owners.\<close>

definition state_set_digests ::
  "env \<Rightarrow> bool \<Rightarrow> materialized_state list \<Rightarrow> contract_error + sha256_digest \<times> sha256_digest" where
  "state_set_digests E plain states =
     (let digests = \<lambda>f. JArray (map JString (sort (map (\<lambda>s. digest_str (f s)) states))) in
      and_then (digest_domain_json E
          (if plain then ''commonkit.provider-desired-set.v1'' else ''commonkit.provider-desired-set.v2'')
          (digests ms_digest)) (\<lambda>desired.
      and_then (digest_domain_json E ''commonkit.provider-input-set.v1''
          (digests (\<lambda>s. in_input_set_digest (ms_inputs s)))) (\<lambda>inputs.
        Ok (desired, inputs))))"

definition ownership_map_digest ::
  "env \<Rightarrow> bool \<Rightarrow> ownership_rules \<Rightarrow> normalized_resource list \<Rightarrow> contract_error + sha256_digest" where
  "ownership_map_digest E plain rules ordered =
     and_then (digest_domain_json E (if plain then ''commonkit.ownership-map.v1'' else ''commonkit.ownership-map.v2'')
         (JArray (map ser_resource ordered))) (\<lambda>resource_map.
     and_then (authority_digest E rules) (\<lambda>authority.
       digest_domain_json E (if plain then ''commonkit.ownership-map.v2'' else ''commonkit.ownership-map.v3'')
         (JArray [ser_digest resource_map, ser_digest authority])))"

fun register_all ::
  "env \<Rightarrow> resolution_codec \<Rightarrow> artifact_store \<Rightarrow> resolution_authority option \<Rightarrow> 'w resource_router
    \<Rightarrow> normalized_resource list \<Rightarrow> 'w \<Rightarrow> (provider_plan_error + operation list) \<times> 'w" where
  "register_all E C store authority router [] w = (Ok [], w)"
| "register_all E C store authority router (r # rest) w =
     (case resource_id E r of
        Inl e \<Rightarrow> (Err e, w)
      | Inr i \<Rightarrow>
          (case router_register E C store authority router i r w of
             (Inl e, w) \<Rightarrow> (Err e, w)
           | (Inr operation, w) \<Rightarrow>
               (case register_all E C store authority router rest w of
                  (x, w) \<Rightarrow> (and_then x (\<lambda>operations. Ok (case operation of None \<Rightarrow> operations | Some x \<Rightarrow> x # operations)), w))))"

text \<open>Everything before the planners are called: the four digests the plan is bound to.\<close>

definition prepare_plan ::
  "env \<Rightarrow> (string \<Rightarrow> string) \<Rightarrow> resolution_codec \<Rightarrow> artifact_store \<Rightarrow> (materialized_state \<Rightarrow> provider_contract_error + unit)
    \<Rightarrow> plan_request \<Rightarrow> materialized_state list \<Rightarrow> resolution_authority option \<Rightarrow> 'w resource_router
    \<Rightarrow> provider_plan_error + sha256_digest \<times> sha256_digest \<times> sha256_digest \<times> sha256_digest" where
  "prepare_plan E lower C store verify request states authority router =
     (let resources = concat (map ms_resources states); ordered = order_for_plan resources;
          plain = filesystem_only resources; rules = py_ownership_rules request in
      and_then (check_states verify request [] states) (\<lambda>_.
      and_then (map_err PlanOwnership (validate_ownership lower resources rules)) (\<lambda>_.
      and_then (map_err PlanContractError (state_set_digests E plain states)) (\<lambda>(desired, inputs).
      and_then (check_intents E C store authority ordered) (\<lambda>_.
      and_then (map_err PlanContractError (ownership_map_digest E plain rules ordered)) (\<lambda>ownership.
      and_then (router_preflight router ordered) (\<lambda>_.
      and_then (for_each (\<lambda>a. and_then (map_err PlanArtifact (artifact_load E store a)) (\<lambda>_. Ok ()))
          (artifact_set ordered)) (\<lambda>_.
      and_then (map_err PlanContractError (digest_domain_json E
          (if plain then ''commonkit.provider-artifact-set.v1'' else ''commonkit.provider-artifact-set.v2'')
          (JArray (map ser_content_reference (artifact_set ordered))))) (\<lambda>artifacts.
        Ok (desired, inputs, ownership, artifacts))))))))))"

definition build_provider_plan ::
  "env \<Rightarrow> (string \<Rightarrow> string) \<Rightarrow> resolution_codec \<Rightarrow> artifact_store \<Rightarrow> (materialized_state \<Rightarrow> provider_contract_error + unit)
    \<Rightarrow> plan_request \<Rightarrow> materialized_state list \<Rightarrow> resolution_authority option \<Rightarrow> 'w resource_router
    \<Rightarrow> 'w \<Rightarrow> (provider_plan_error + plan) \<times> 'w" where
  "build_provider_plan E lower C store verify request states authority router w =
     (case prepare_plan E lower C store verify request states authority router of
        Inl e \<Rightarrow> (Err e, w)
      | Inr (desired, inputs, ownership, artifacts) \<Rightarrow>
          (case register_all E C store authority router (order_for_plan (concat (map ms_resources states))) w of
             (x, w) \<Rightarrow> (and_then x (\<lambda>operations. map_err PlanBuild (build_plan E
                \<lparr>pd_target_id = py_target_id request, pd_desired_digest = desired,
                 pd_observed_digest = py_observed_digest request, pd_policy_digest = py_policy_digest request,
                 pd_bindings = \<lparr>pb_target_identity_digest = py_target_identity_digest request,
                   pb_composed_loadout_digest = py_composed_loadout_digest request,
                   pb_provider_inputs_digest = inputs, pb_ownership_map_digest = ownership,
                   pb_artifact_set_digest = artifacts,
                   pb_package_resolution_authority_digest = map_option ra_digest authority\<rparr>,
                 pd_operations = operations\<rparr>)), w)))"

text \<open>The bindings alone: planners that propose no operation.\<close>

definition idle_routes :: "'w planner_route list" where
  "idle_routes =
     [FilesystemPlanner \<lparr>fp_adapter_id = StableId ''files'', fp_route = LocalRoute, fp_register = (\<lambda>_ _ _ w. (Ok None, w))\<rparr>,
      PackagePlanner \<lparr>kp_adapter_id = StableId ''packages'', kp_register = (\<lambda>_ _ _ _ w. (Ok None, w))\<rparr>]"

definition provider_plan_bindings ::
  "env \<Rightarrow> (string \<Rightarrow> string) \<Rightarrow> resolution_codec \<Rightarrow> artifact_store \<Rightarrow> (materialized_state \<Rightarrow> provider_contract_error + unit)
    \<Rightarrow> plan_request \<Rightarrow> materialized_state list \<Rightarrow> resolution_authority option \<Rightarrow> provider_plan_error + plan_bindings" where
  "provider_plan_bindings E lower C store verify request states authority =
     and_then (router_new idle_routes) (\<lambda>router.
       and_then (fst (build_provider_plan E lower C store verify request states authority router ())) (\<lambda>plan.
         Ok (pl_bindings plan)))"

end
