(* ===== verification/Adapter_Properties.thy ===== *)
theory Adapter_Properties
  imports Adapter_Planning Samples Core_Identity
begin

text \<open>
  What the check of ownership accepts, and what a plan built from provider states is bound to.
\<close>

section \<open>Ownership\<close>

text \<open>
  C37: A set of resources is accepted exactly when every filesystem claim lies under a declared root, keeps
  off the protected roots and, for a link, resolves to a place off them; no path and, where case does not
  matter, no folded path is claimed twice; no package is declared twice; every package declaration is
  valid; and no provider claims a path inside the exact directory of another.
\<close>

theorem ownership_accepts_exactly:
  "validate_ownership lower resources rules = Inr () \<longleftrightarrow>
     (\<forall>c\<in>set (claims_of resources).
        (\<exists>root\<in>set (ow_declared_roots rules). contains_path lower rules (claim_path c) root)
        \<and> (\<forall>root\<in>set (ow_protected_roots rules). \<not> contains_path lower rules (claim_path c) root
             \<and> (contains_path lower rules root (claim_path c) \<longrightarrow> plain_directory (snd c)))
        \<and> (\<forall>p target kind before. snd c = SymlinkIntent p target kind before \<longrightarrow>
             (\<exists>q. resolved_for target p = Inr q
                \<and> (\<forall>root\<in>set (ow_protected_roots rules). \<not> contains_path lower rules q root))))
     \<and> distinct (map claim_path (claims_of resources))
     \<and> (\<not> ow_case_sensitive rules \<longrightarrow> distinct (map (\<lambda>c. lower (mp_str (claim_path c))) (claims_of resources)))
     \<and> distinct (packages_of resources)
     \<and> (\<forall>r\<in>set resources. \<forall>d. declaration_of (nr_intent r) = Some d \<longrightarrow> package_declaration_validate d = Inr ())
     \<and> (\<forall>exact\<in>set (claims_of resources). \<forall>c\<in>set (claims_of resources).
          is_exact_directory (snd exact) \<longrightarrow> \<not> exact_conflict lower rules exact c)"
  unfolding validate_ownership_Ok admissible_def validate_claim_Ok claim_path_def by blast

definition claim_by :: "string \<Rightarrow> filesystem_intent \<Rightarrow> normalized_resource" where
  "claim_by provider intent = \<lparr>nr_intent = FilesystemIntent intent, nr_provenance = \<lparr>pv_provider_id = StableId provider,
     pv_provider_version = ''1.0.0'', pv_input_digest = sample_digest (CHR ''3'') (CHR ''0''), pv_source = ''kit''\<rparr>\<rparr>"

definition sample_rules :: ownership_rules where
  "sample_rules = \<lparr>ow_case_sensitive = True, ow_declared_roots = [ManagedPath ''home''], ow_protected_roots = []\<rparr>"

definition exact_claim :: normalized_resource where
  "exact_claim = claim_by ''apm'' (DirectoryIntent (ManagedPath ''home/skills'') None True)"

definition inner_claim :: normalized_resource where
  "inner_claim = claim_by ''chezmoi'' (RemoveIntent (ManagedPath ''home/skills/old'') None)"

theorem ownership_accepts_exactly_witness:
  "validate_ownership id [exact_claim] sample_rules = Inr ()
     \<and> validate_ownership id [exact_claim, inner_claim] sample_rules \<noteq> Inr ()"
proof -
  have c: "claims_of [exact_claim] = [(StableId ''apm'', DirectoryIntent (ManagedPath ''home/skills'') None True)]"
    "claims_of [exact_claim, inner_claim] = [(StableId ''apm'', DirectoryIntent (ManagedPath ''home/skills'') None True),
       (StableId ''chezmoi'', RemoveIntent (ManagedPath ''home/skills/old'') None)]"
    "packages_of [exact_claim] = []" "declaration_of (nr_intent exact_claim) = None"
    by (simp_all add: claims_of_def packages_of_def exact_claim_def inner_claim_def claim_by_def declaration_of_def)
  have w: "contains_path id sample_rules (ManagedPath ''home/skills'') (ManagedPath ''home'')" by code_simp
  have n: "\<not> exact_conflict id sample_rules (StableId ''apm'', DirectoryIntent (ManagedPath ''home/skills'') None True)
      (StableId ''apm'', DirectoryIntent (ManagedPath ''home/skills'') None True)" by code_simp
  have x: "exact_conflict id sample_rules (StableId ''apm'', DirectoryIntent (ManagedPath ''home/skills'') None True)
      (StableId ''chezmoi'', RemoveIntent (ManagedPath ''home/skills/old'') None)" by code_simp
  have r: "ow_declared_roots sample_rules = [ManagedPath ''home'']" "ow_protected_roots sample_rules = []"
    "ow_case_sensitive sample_rules" by (simp_all add: sample_rules_def)
  show ?thesis
    unfolding ownership_accepts_exactly [of id "[exact_claim]"] ownership_accepts_exactly [of id "[exact_claim, inner_claim]"]
    using w n x r by (simp add: c claim_path_def)
qed

section \<open>Plans\<close>

lemma find_Err_Ok [simp]:
  "(case find P xs of None \<Rightarrow> Inr () | Some x \<Rightarrow> Inl (f x)) = Inr () \<longleftrightarrow> (\<forall>x\<in>set xs. \<not> P x)"
proof (cases "find P xs")
  case None
  then have "\<forall>x\<in>set xs. \<not> P x" by (simp add: find_None_iff)
  with None show ?thesis by simp
next
  case (Some x)
  then have "x \<in> set xs \<and> P x" by (auto simp: find_Some_iff)
  with Some show ?thesis by auto
qed

lemma check_state_Ok:
  "check_state verify request known s = Inr () \<longleftrightarrow> verify s = Inr ()
     \<and> sid_str (in_provider_id (ms_inputs s)) \<notin> set known \<and> ms_unsupported s = []
     \<and> set (ms_declared_side_effects s) \<subseteq> set (py_mapped_side_effects request)"
  by (cases "ms_unsupported s") (auto simp: check_state_def result_simps split: if_splits)

lemma check_states_Ok:
  "check_states verify request known states = Inr () \<longleftrightarrow>
     (\<forall>s\<in>set states. verify s = Inr () \<and> sid_str (in_provider_id (ms_inputs s)) \<notin> set known \<and> ms_unsupported s = []
        \<and> set (ms_declared_side_effects s) \<subseteq> set (py_mapped_side_effects request))
     \<and> distinct (map (\<lambda>s. sid_str (in_provider_id (ms_inputs s))) states)"
proof (induction states arbitrary: known)
  case (Cons s states)
  have "sid_str (in_provider_id (ms_inputs s)) \<notin> (\<lambda>s. sid_str (in_provider_id (ms_inputs s))) ` set states
      \<longleftrightarrow> (\<forall>t\<in>set states. sid_str (in_provider_id (ms_inputs t)) \<noteq> sid_str (in_provider_id (ms_inputs s)))"
    by (metis (no_types, lifting) image_iff)
  then show ?case by (auto simp: result_simps check_state_Ok Cons.IH)
qed simp

text \<open>The operation of a resource: it carries what its planner's route prescribes.\<close>

definition operation_of ::
  "env \<Rightarrow> resolution_codec \<Rightarrow> artifact_store \<Rightarrow> resolution_authority option \<Rightarrow> operation \<Rightarrow> normalized_resource \<Rightarrow> bool" where
  "operation_of E C store authority x r \<longleftrightarrow> (\<exists>i route b. resource_id E r = Inr i
     \<and> expected_binding E C store authority route r = Inr b \<and> binding_holds i r b x)"

lemma router_register_Ok:
  assumes "router_register E C store authority router i r w = (Inr (Some x), w')" "resource_id E r = Inr i"
  shows "operation_of E C store authority x r"
proof -
  obtain declared route where "validate_operation_binding E C store authority i r route x = Inr ()"
    using assms(1) by (auto simp: router_register_def result_simps split: prod.splits option.splits if_splits)
  then obtain b where "expected_binding E C store authority route r = Inr b" "binding_holds i r b x"
    unfolding validate_operation_binding_def and_then_Ok_iff by (metis Inl_Inr_False)
  then show ?thesis using assms(2) unfolding operation_of_def by blast
qed

lemma register_all_Ok:
  "register_all E C store authority router ordered w = (Inr operations, w') \<Longrightarrow>
   \<forall>x\<in>set operations. \<exists>r\<in>set ordered. operation_of E C store authority x r"
proof (induction ordered arbitrary: w operations)
  case (Cons r rest)
  obtain i y w1 rest_operations where r: "resource_id E r = Inr i" "router_register E C store authority router i r w = (Inr y, w1)"
    "register_all E C store authority router rest w1 = (Inr rest_operations, w')"
    "operations = (case y of None \<Rightarrow> rest_operations | Some x \<Rightarrow> x # rest_operations)"
    using Cons.prems by (auto simp: result_simps split: sum.splits prod.splits)
  then show ?case
    using Cons.IH [OF r(3)] router_register_Ok [of E C store authority router i r w _ w1] by (auto split: option.splits)
qed simp

lemma artifact_set_set: "set (artifact_set ordered) = (\<Union>r\<in>set ordered. set (intent_artifacts (nr_intent r)))"
  by (simp add: artifact_set_def)

lemma build_plan_operations:
  assumes "build_plan E draft = Inr plan"
  shows "mset (pl_operations plan) = mset (pd_operations draft)"
proof -
  obtain ordered i where "order_operations {} (pd_operations draft) = Inr ordered" "plan = built_plan draft ordered i"
    using assms unfolding build_plan_Ok by blast
  then show ?thesis by (simp add: order_operations_mset built_plan_def)
qed

text \<open>
  C36: A plan is built from provider states only when every state verifies, comes from a provider of its own,
  has nothing unsupported and no side effect without a mapping, the ownership of all resources is accepted
  and every artifact they name is in the store; and each of its operations is the operation of one of those
  resources, with its identity, provenance, path, digests and way of recovery.
\<close>

theorem provider_plan_bound:
  assumes "build_provider_plan E lower C store verify request states authority router w = (Inr plan, w')"
  shows "(\<forall>s\<in>set states. verify s = Inr () \<and> ms_unsupported s = []
        \<and> set (ms_declared_side_effects s) \<subseteq> set (py_mapped_side_effects request))
     \<and> distinct (map (\<lambda>s. sid_str (in_provider_id (ms_inputs s))) states)
     \<and> validate_ownership lower (concat (map ms_resources states)) (py_ownership_rules request) = Inr ()
     \<and> (\<forall>r\<in>set (concat (map ms_resources states)). \<forall>a\<in>set (intent_artifacts (nr_intent r)).
          \<exists>bytes. artifact_load E store a = Inr bytes)
     \<and> (\<forall>x\<in>set (pl_operations plan). \<exists>r\<in>set (concat (map ms_resources states)). operation_of E C store authority x r)"
proof -
  let ?ordered = "order_for_plan (concat (map ms_resources states))"
  have o: "set ?ordered = set (concat (map ms_resources states))" by (simp add: order_for_plan_def)
  obtain d operations draft where p: "prepare_plan E lower C store verify request states authority router = Inr d"
    and r: "register_all E C store authority router ?ordered w = (Inr operations, w')"
    and b: "build_plan E draft = Inr plan" "pd_operations draft = operations"
    using assms by (auto simp: build_provider_plan_def result_simps split: sum.splits prod.splits)
  have c: "check_states verify request [] states = Inr ()"
    "validate_ownership lower (concat (map ms_resources states)) (py_ownership_rules request) = Inr ()"
    "\<forall>a\<in>set (artifact_set ?ordered). \<exists>bytes. artifact_load E store a = Inr bytes"
    using p by (auto simp: prepare_plan_def Let_def result_simps)
  have "set (pl_operations plan) = set operations"
    using mset_eq_setD [OF build_plan_operations [OF b(1)]] b(2) by simp
  then show ?thesis
    using c register_all_Ok [OF r] o by (auto simp: check_states_Ok artifact_set_set)
qed

text \<open>A provider that removes one path, and a planner that proposes the operation for it.\<close>

definition removal :: filesystem_intent where
  "removal = RemoveIntent (ManagedPath ''home/old'') None"

definition removal_inputs :: provider_inputs where
  "removal_inputs = \<lparr>in_provider_id = StableId ''chezmoi'', in_provider_version = ExactProviderVersion ''2.52.0'',
     in_contract_version = ''1'', in_input_digests = [(''source'', sample_digest (CHR ''3'') (CHR ''1''))],
     in_declared_features = [], in_input_set_digest = sample_digest (CHR ''0'') (CHR ''6'')\<rparr>"

definition removal_resource :: normalized_resource where
  "removal_resource = \<lparr>nr_intent = FilesystemIntent removal, nr_provenance = \<lparr>pv_provider_id = StableId ''chezmoi'',
     pv_provider_version = ''2.52.0'', pv_input_digest = sample_digest (CHR ''0'') (CHR ''6''), pv_source = ''dot_old''\<rparr>\<rparr>"

definition removal_planner :: "unit filesystem_planner" where
  "removal_planner = \<lparr>fp_adapter_id = StableId ''files'', fp_route = LocalRoute, fp_register = (\<lambda>i r store w.
     (and_then (map_err PlanAdapter (local_operation_binding sample_env removal)) (\<lambda>(name, after, payload).
       and_then (map_err PlanContractError (finalize_operation sample_env
         \<lparr>od_adapter_id = StableId ''files'', od_kind = OpDelete,
          od_resource = \<lparr>rr_resource_type = StableId name, rr_resource_id = i, rr_managed_path = Some ''home/old''\<rparr>,
          od_risk = Low, od_requires_confirmation = False, od_recovery_capability = ExactRollback, od_depends_on = [],
          od_before_digest = None, od_after_digest = after, od_payload_digest = payload,
          od_provenance = Some (nr_provenance r), od_summary = ''remove''\<rparr>)) (\<lambda>x. Ok (Some x))), w))\<rparr>"

definition removal_request :: plan_request where
  "removal_request = \<lparr>py_target_id = StableId ''laptop'', py_target_identity_digest = sample_digest (CHR ''3'') (CHR ''2''),
     py_composed_loadout_digest = sample_digest (CHR ''3'') (CHR ''3''), py_observed_digest = sample_digest (CHR ''3'') (CHR ''4''),
     py_policy_digest = sample_digest (CHR ''3'') (CHR ''5''), py_ownership_rules = sample_rules, py_mapped_side_effects = []\<rparr>"

definition removal_router :: "unit resource_router" where
  "removal_router = \<lparr>ro_filesystem = Some removal_planner, ro_filesystem_route = Some LocalRoute, ro_package = None\<rparr>"

lemma removal_router_new: "router_new [FilesystemPlanner removal_planner] = Inr removal_router"
  by (simp add: router_new_def add_route_def valid_filesystem_route_def removal_planner_def removal_router_def)

lemma sample_digest_total: "\<exists>d. digest_domain_json sample_env t v = Inr d"
  by (simp add: sample_digest_json)

lemma removal_inputs_verify: "provider_inputs_verify sample_env removal_inputs = Inr ()"
proof -
  have "digest_domain_json sample_env ''commonkit.provider-inputs.v1'' (ser_inputs_semantic (StableId ''chezmoi'')
      (ExactProviderVersion ''2.52.0'') ''1'' [(''source'', sample_digest (CHR ''3'') (CHR ''1''))] [])
    = Inr (sample_digest (CHR ''0'') (CHR ''6''))"
    by code_simp
  then show ?thesis by (simp add: provider_inputs_verify_def provider_inputs_new_def removal_inputs_def Let_def)
qed

lemma removal_state:
  "\<exists>s. finalize_materialized sample_env removal_inputs [removal_resource] [] [] = Inr s \<and> ms_inputs s = removal_inputs
     \<and> ms_resources s = [removal_resource] \<and> ms_declared_side_effects s = [] \<and> ms_unsupported s = []"
proof -
  have "provenance_matches removal_inputs (nr_provenance removal_resource)" "\<not> is_resolved (nr_intent removal_resource)"
    by (simp_all add: provenance_matches_def removal_inputs_def removal_resource_def)
  then show ?thesis
    by (simp add: finalize_materialized_def finalize_with_capabilities_def removal_inputs_verify Let_def sample_digest_json
        order_resources_def order_side_effects_def order_unsupported_def order_capabilities_def)
qed

lemma removal_registered:
  "\<exists>x. router_register sample_env C store None removal_router i removal_resource () = (Inr (Some x), ())
     \<and> op_depends_on x = [] \<and> operation_digest sample_env (normalized_draft (draft_of_operation x)) = Inr (op_id x)"
proof -
  obtain payload where payload: "digest_domain_json sample_env ''commonkit.filesystem-resource-payload.v1''
      (ser_filesystem_intent removal) = Inr payload" using sample_digest_total by blast
  have v: "validate_semantic_intent removal = Inr ()" by code_simp
  have b: "local_operation_binding sample_env removal = Inr (''removal'', None, payload)"
    by (simp add: local_operation_binding_def v payload) (simp add: removal_def)
  let ?d = "\<lparr>od_adapter_id = StableId ''files'', od_kind = OpDelete,
      od_resource = \<lparr>rr_resource_type = StableId ''removal'', rr_resource_id = i, rr_managed_path = Some ''home/old''\<rparr>,
      od_risk = Low, od_requires_confirmation = False, od_recovery_capability = ExactRollback, od_depends_on = [],
      od_before_digest = None, od_after_digest = None, od_payload_digest = payload,
      od_provenance = Some (nr_provenance removal_resource), od_summary = ''remove''\<rparr>"
  obtain h where "operation_digest sample_env (normalized_draft ?d) = Inr h"
    using sample_digest_total by (auto simp: operation_digest_def normalized_draft_def)
  then obtain x where x: "finalize_operation sample_env ?d = Inr x"
    by (cases "finalize_operation sample_env ?d") (auto simp: finalize_operation_digest(1))
  have f: "draft_of_operation x = normalized_draft ?d" "operation_digest sample_env (normalized_draft ?d) = Inr (op_id x)"
    using x by (simp_all add: finalize_operation_Ok)
  then have e: "op_adapter_id x = StableId ''files''" "op_depends_on x = []" "op_provenance x = Some (nr_provenance removal_resource)"
    "op_resource x = \<lparr>rr_resource_type = StableId ''removal'', rr_resource_id = i, rr_managed_path = Some ''home/old''\<rparr>"
    "op_after_digest x = None" "op_payload_digest x = payload" "op_recovery_capability x = ExactRollback"
    by (auto simp: draft_of_operation_def normalized_draft_def sorted_dependencies_def)
  have n: "nr_intent removal_resource = FilesystemIntent removal" "mp_str (intent_path removal) = ''home/old''"
    by (simp_all add: removal_resource_def removal_def)
  have "call_planner sample_env C store None removal_router i removal_resource ()
      = (Inr (StableId ''files'', Some LocalRoute, Some x), ())"
    by (simp add: call_planner_def n removal_router_def removal_planner_def b x)
  moreover have "validate_operation_binding sample_env C store None i removal_resource (Some LocalRoute) x = Inr ()"
    by (simp add: validate_operation_binding_def expected_binding_def n b binding_holds_def e)
  ultimately show ?thesis using e(1,2) f by (simp add: router_register_def)
qed

lemma removal_resource_id: "\<exists>i. resource_id sample_env removal_resource = Inr i"
proof -
  have "filesystem_of (nr_intent removal_resource) = Some removal" by (simp add: removal_resource_def)
  moreover have "stable_id_parse (''resource-'' @ take 54 (drop 7 (digest_str (sample_digest (CHR ''0'') (CHR ''5'')))))
      = Inr (StableId (''resource-'' @ replicate 54 (CHR ''0'')))" by code_simp
  moreover have "digest_domain_json sample_env ''commonkit.provider-resource-id.v1'' (JArray js)
      = Inr (sample_digest (CHR ''0'') (CHR ''5''))" for js
  proof -
    have "sample_digit ((''commonkit.provider-resource-id.v1'' @ [CHR 0x00] @ ''e'') ! 10) = CHR ''0''" "sample_digit (CHR ''e'') = CHR ''5''"
      by code_simp+
    then show ?thesis by (simp add: sample_digest_json sample_text_def)
  qed
  ultimately show ?thesis by (simp add: resource_id_def)
qed

definition no_codec :: resolution_codec where
  "no_codec = \<lparr>rc_decode = (\<lambda>_. None), rc_decode_compatible = (\<lambda>_. None), rc_encode = (\<lambda>_. None)\<rparr>"

theorem provider_plan_bound_witness:
  "\<exists>s plan x. fst (build_provider_plan sample_env id no_codec Map.empty (materialized_verify sample_env) removal_request [s] None
       removal_router ()) = Inr plan
     \<and> pl_operations plan = [x] \<and> operation_of sample_env no_codec Map.empty None x removal_resource"
proof -
  obtain s where s: "finalize_materialized sample_env removal_inputs [removal_resource] [] [] = Inr s" "ms_inputs s = removal_inputs"
    "ms_resources s = [removal_resource]" "ms_declared_side_effects s = []" "ms_unsupported s = []"
    using removal_state by blast
  have v: "materialized_verify sample_env s = Inr ()"
    using s(1) unfolding finalize_materialized_def by (rule finalize_verifies)
  obtain i where i: "resource_id sample_env removal_resource = Inr i" using removal_resource_id by blast
  obtain x where x: "router_register sample_env no_codec Map.empty None removal_router i removal_resource () = (Inr (Some x), ())"
    "op_depends_on x = []" "operation_digest sample_env (normalized_draft (draft_of_operation x)) = Inr (op_id x)"
    using removal_registered by blast
  have o: "validate_ownership id [removal_resource] sample_rules = Inr ()" by code_simp
  have fs: "nr_intent removal_resource = FilesystemIntent removal" "intent_artifacts (FilesystemIntent removal) = []"
    by (simp_all add: removal_resource_def removal_def)
  have ord: "order_for_plan [removal_resource] = [removal_resource]" by (simp add: order_for_plan_def)
  have "\<exists>d. prepare_plan sample_env id no_codec Map.empty (materialized_verify sample_env) removal_request [s] None removal_router = Inr d"
    using sample_digest_total
    by (simp add: prepare_plan_def Let_def s(2-5) v check_state_def removal_request_def ord o check_intents_def fs router_preflight_def
        removal_router_def artifact_set_def state_set_digests_def ownership_map_digest_def authority_digest_def sample_digest_json)
  then obtain desired inputs ownership artifacts where p: "prepare_plan sample_env id no_codec Map.empty (materialized_verify sample_env)
      removal_request [s] None removal_router = Inr (desired, inputs, ownership, artifacts)" by force
  have reg: "register_all sample_env no_codec Map.empty None removal_router (order_for_plan (concat (map ms_resources [s]))) ()
      = (Inr [x], ())"
    by (simp add: s(3) ord i x(1))
  have built: "\<exists>plan. build_plan sample_env draft = Inr plan" if "pd_operations draft = [x]" for draft
  proof -
    have "depends_on [x] a b \<Longrightarrow> a = x \<Longrightarrow> False" for a b
      by (induction rule: depends_on.induct) (auto simp: x(2))
    then have "\<not> depends_on [x] x y" for y by blast
    then show ?thesis
      unfolding build_plan_total [OF sample_digests_ok] using x(2,3) that
      by (auto simp: identities_hold_def intro!: exI [of _ "[x]"])
  qed
  let ?draft = "\<lparr>pd_target_id = py_target_id removal_request, pd_desired_digest = desired,
      pd_observed_digest = py_observed_digest removal_request, pd_policy_digest = py_policy_digest removal_request,
      pd_bindings = \<lparr>pb_target_identity_digest = py_target_identity_digest removal_request,
        pb_composed_loadout_digest = py_composed_loadout_digest removal_request,
        pb_provider_inputs_digest = inputs, pb_ownership_map_digest = ownership,
        pb_artifact_set_digest = artifacts, pb_package_resolution_authority_digest = None\<rparr>, pd_operations = [x]\<rparr>"
  obtain plan where b: "build_plan sample_env ?draft = Inr plan" using built [of ?draft] by auto
  have full: "build_provider_plan sample_env id no_codec Map.empty (materialized_verify sample_env) removal_request
      [s] None removal_router () = (Inr plan, ())"
    by (simp only: build_provider_plan_def p reg sum.case prod.case option.map and_then_simps b map_err_simps)
  have "pl_operations plan = [x]" using build_plan_operations [OF b] by simp
  moreover have "\<forall>y\<in>set (pl_operations plan). operation_of sample_env no_codec Map.empty None y removal_resource"
    using provider_plan_bound [OF full] s(3) by simp
  ultimately show ?thesis using full by (intro exI [of _ s] exI [of _ plan] exI [of _ x]) simp
qed

end
