(* ===== verification/Spec2Isabelle.thy ===== *)
theory Spec2Isabelle
  imports Recovery_Properties Journal_Properties Config_Properties Exec_Properties Exec_Browser Exec_Objects
  Authority_Properties Relay_Properties Core_Walk Core_Target Core_Principal
  PlanStore_Properties Deployment_Properties Package_Properties Adapter_Properties
begin

text \<open>
  \<^bold>\<open>CommonKit: a verification library.\<close>

  CommonKit turns layered configuration into a plan of operations on a machine, carries the plan out
  through adapters with a durable journal, and can undo it. It also schedules jobs on execution targets,
  runs an MCP relay, resolves packages, and decides which context a session may see. This library models
  the deciding code of these parts and proves what each of them promises. Paths below are relative to
  \<open>crates/\<close> of the repository.

  \<^bold>\<open>How the parts interact.\<close> Layers are merged and composed into a specification (configuration). Providers
  answer with materialized states; the packages in them are resolved under a source registry; ownership
  is checked and a plan is built (adapters, core). The plan is stored, and the reconciler executes it:
  every step is written to a receipt journal before the adapter is called, so a crash can be recovered.
  Skill deployments are runs of the reconciler with receipts of their own. The relay is one of its
  adapters. The scheduler, the context resolver and the portable contracts are used beside this chain.

  \<^bold>\<open>Common ground.\<close>
  \<^item> \<open>Rust_Prelude\<close>: results with \<open>?\<close> as \<open>and_then\<close>, words for machine integers, text as its UTF-8 bytes,
    the methods of \<open>str\<close> and \<open>char\<close> the sources call, \<open>BTreeMap\<close> and \<open>BTreeSet\<close> as sorted lists behind the
    locale \<open>ordered_map\<close>.
  \<^item> \<open>Json\<close>: \<open>serde_json::Value\<close>, and the record \<open>env\<close> of the services of other crates.
  \<^item> \<open>Samples\<close>, \<open>Exec_Samples\<close>, \<open>Package_Samples\<close>: concrete inputs on which statements are evaluated.

  \<^bold>\<open>Contracts\<close> (\<open>commonkit-contracts/src/lib.rs\<close>, \<open>portable_context/mod.rs\<close>). \<open>Contracts_Ids\<close> has the
  validated identifiers and the digests, with the locale \<open>validated_string\<close> interpreted for each of the
  five; \<open>Contracts_Plan\<close> and \<open>Contracts_Serial\<close> plans, receipts and their serialized forms;
  \<open>Contracts_Packages\<close> declarations and observations; \<open>Contracts_Secrets\<close> the scan for secrets;
  \<open>Contracts_Layers\<close>, \<open>Contracts_Skills\<close>, \<open>Contracts_Execution\<close> and \<open>Contracts_Portable\<close> the rest.

  \<^bold>\<open>Configuration\<close> (\<open>commonkit-config/src/lib.rs\<close>). \<open>Config_Merge\<close> is the merge of specifications,
  \<open>Config_Compose\<close> layer sets, composition with its trace, and styleguides. \<open>Merge_Facts\<close>, \<open>Merge_Laws\<close>,
  \<open>Compose_Facts\<close> and \<open>Compose_Laws\<close> reduce the loops to lookups; \<open>Config_Properties\<close> states that
  composition is the fold of the merge, that its trace is exact and that no denied path is lost.

  \<^bold>\<open>Core\<close> (\<open>commonkit-core\<close>). \<open>Core_Plan\<close> is \<open>build_plan\<close>, with its identities in \<open>Core_Identity\<close> and the
  loop of its search for forward-only dependencies in \<open>Core_Walk\<close>; \<open>Core_Policy\<close> the policy floor,
  \<open>Core_Target\<close> the target inventory, \<open>Core_Context\<close> the context resolver, \<open>Core_Principal\<close> the principal.
  \<open>Core_Properties\<close> states when a plan is built and that it is ordered and canonical;
  \<open>Authority_Properties\<close> what the policy floor, the resolver and signed histories accept.

  \<^bold>\<open>Reconciler\<close> (\<open>commonkit-reconcile/src/lib.rs\<close>). \<open>Reconcile_Journal\<close> is the hash-chained journal,
  \<open>Reconcile_Store\<close> the directory of snapshots with a fault at every step of a write, \<open>Reconcile_Engine\<close>
  execution, recovery and rollback in a state monad over journal, store, world and calls, and
  \<open>Reconcile_PlanStore\<close> the plan store. \<open>Journal_Chain\<close> and \<open>Store_History\<close> are the facts of journal and
  store; \<open>Engine_Logic\<close> a program logic of triples; \<open>Engine_Discipline\<close> the checkpoint discipline as the
  locale \<open>checkpointing\<close>; \<open>Engine_Safety\<close>, \<open>Engine_Growth\<close>, \<open>Engine_Liveness\<close>, \<open>Engine_Rollback\<close> and
  \<open>Engine_Undo\<close> its consequences. \<open>Journal_Properties\<close>, \<open>Engine_Properties\<close>, \<open>Recovery_Properties\<close> and
  \<open>PlanStore_Properties\<close> state them: the store refines an append-only log, calls are recorded before they
  are made, a crash leaves a loadable history, recovery respects the forward barrier, a willing run
  succeeds, a succeeded run can be undone, and stored plans are kept.

  \<^bold>\<open>Skill deployment\<close> (\<open>commonkit-reconcile/src/skill_deployment.rs\<close>). \<open>Reconcile_Deployment\<close> prepares,
  applies, recovers, rolls back and loads deployments with anchored receipts; \<open>Deployment_Properties\<close>
  states that a deployment is loaded back, that an interrupted one is finalized, and that a rollback
  receipt certifies a rollback that happened.

  \<^bold>\<open>Execution\<close> (\<open>commonkit-execution/src/lib.rs\<close>, \<open>browser.rs\<close>). \<open>Exec_Scheduler\<close> is the scheduler over its
  tables, \<open>Exec_Placement\<close> the choice of a target, \<open>Exec_Objects\<close> the object store, \<open>Exec_Browser\<close> sharded
  jobs. \<open>Exec_Lifecycle\<close> is the abstract machine of attempts as a step relation; \<open>Exec_Requests\<close> and
  \<open>Exec_Service\<close> show that every request performs its steps; \<open>Exec_Invariant\<close>, \<open>Exec_History\<close> and
  \<open>Exec_Events\<close> are invariants of reachable states; \<open>Exec_Recovery\<close> is what recovery does with the lease
  of a canceled and retried job; \<open>Exec_Properties\<close> states them.

  \<^bold>\<open>Relay\<close> (\<open>commonkit-relay/src/lib.rs\<close>, \<open>transaction.rs\<close>). \<open>Relay_Config\<close> normalizes configurations,
  \<open>Relay_Catalog\<close> reconciles the running catalog, \<open>Relay_Adapter\<close> is the adapter with its records and
  backups. \<open>Relay_Rollback\<close> states what the reconciler expects of exact rollback as the locale
  \<open>exact_rollback_adapter\<close> and interprets it on the relay; \<open>Relay_Properties\<close> has the statements.

  \<^bold>\<open>Providers and packages\<close> (\<open>commonkit-adapters/src\<close>). \<open>Adapter_Resources\<close> (\<open>resources.rs\<close>) has managed
  paths, link targets, intents and the ownership check, \<open>Adapter_Ownership\<close> what the check accepts,
  \<open>Adapter_State\<close> (\<open>provider.rs\<close>) materialized states, \<open>Adapter_Artifacts\<close> (\<open>artifacts.rs\<close>) the artifact
  store, \<open>Adapter_Planning\<close> (\<open>planning.rs\<close>, with the operation bindings of \<open>files.rs\<close> and \<open>ssh_files.rs\<close>)
  the plan over a set of states. \<open>Package_Resolution\<close>, \<open>Package_Registry\<close> and \<open>Package_Coordinator\<close>
  (\<open>package_resolution.rs\<close>) are the persisted resolution and its checks, the registry of sources and the
  authority, and the coordinator with its scoped fetch capability: a backend is a tree of fetch requests,
  so a statement about all backends is one about all trees. \<open>Package_Facts\<close> has the logic of its steps.
  \<open>Adapter_Properties\<close> and \<open>Package_Properties\<close> state what a plan is bound to, what ownership accepts,
  which locators are fetched, when a resolution is read back and what the authority accepts.

  \<^bold>\<open>Bounds and fuel.\<close> The journal of an execution has at most \<open>8 n + 14\<close> entries for \<open>n\<close> operations, so
  sequence numbers do not wrap for plans of up to \<open>2\<^sup>6\<^sup>0\<close> operations. The placement score is exact on targets
  below \<open>2\<^sup>6\<^sup>2\<close> MiB. The walk of \<open>build_plan\<close> has a bound by its dependencies, cycles included. Redirects
  are followed at most eleven times, the bound of the code. All other recursions are over the data.

  \<^bold>\<open>Parameters.\<close> JSON canonicalization, SHA-256 (with its 64 hexadecimal digits as the documented
  behaviour), regular expressions, JSON pointers, the decoders serde derives, HMAC and signature
  verification, random identifiers, clocks, URL parsing, Unicode lower case, adapters, planners, package
  backends and the fetcher, compiler, observer and authority of deployments, and the faults of the
  operating system. Where a statement relies on one of them, the assumption is a hypothesis of the
  statement, and its witness shows an instance.

  \<^bold>\<open>Simplifications.\<close> Revisions, fencing tokens and event sequences of the scheduler are natural numbers,
  and times above the signed 64-bit range, which the database driver refuses, are stored. The call log of
  the engine has the calls that touch a target (prepare, apply, verify, rollback and those of recovery),
  not preflight or the questions about support and package evidence. The object name of a digest strips
  the prefix \<open>sha256:\<close> once, which is the same on valid digests. Storing a plan does not distinguish a
  temporary file whose first removal fails and whose second one succeeds.

  \<^bold>\<open>Not modelled.\<close> Code whose content is input and output: the controller service, the command line, the
  MCP server, the desktop application, the HTTP side of the relay, the execution daemon, file and SSH
  targets, the sandboxes of providers, and the package adapter and resolvers, which run processes and
  read their output. Snapshots and the import of skills work on git repositories and archives. The
  encrypted profile is left out with its cipher and keychain. Token budgets and client files are reports
  and texts no modelled code reads. The permissions of files and the opening of directories component by
  component are system calls. These parts appear here as parameters where modelled code calls them.
\<close>

end
